(* ===== verification/Prelude.thy ===== *)
theory Prelude
  imports Main "HOL-Library.Word" "HOL-Library.Char_ord" "HOL-Library.List_Lexorder"
begin

text \<open>
  Shared ground of the development: the parts of Go's standard library the backend uses
  (\<open>strings\<close>, \<open>strconv\<close>), identifiers and times, results, and the collections of
  simplification rules the component theories fill.

  A Go string is modelled by its list of bytes (\<open>string = char list\<close>), so \<open>length\<close> is
  Go's \<open>len\<close>. Case mapping and white space are those of ASCII: the functions below agree
  with Go's on every ASCII text; the Unicode case pairs and the Unicode spaces
  (U+0085, U+00A0, ...) are outside the model.
\<close>

named_theorems go_simps "unfolding rules of the small helpers of the source"
named_theorems frame_simps "what an operation leaves unchanged"

type_synonym uuid = "128 word"
type_synonym time = int \<comment> \<open>nanoseconds since Go's zero time, so \<open>IsZero t \<longleftrightarrow> t = 0\<close>\<close>

abbreviation uuid_Nil :: uuid where "uuid_Nil \<equiv> 0"

definition time_Second :: int where "time_Second = 1000000000"
definition time_Minute :: int where "time_Minute = 60 * time_Second"
definition time_Hour :: int where "time_Hour = 60 * time_Minute"

lemmas time_defs = time_Second_def time_Minute_def time_Hour_def

section \<open>Package strings\<close>

definition is_space :: "char \<Rightarrow> bool" where
  "is_space c \<longleftrightarrow> c \<in> set [CHR 0x09, CHR 0x0A, CHR 0x0B, CHR 0x0C, CHR 0x0D, CHR 0x20]"

definition lower_char :: "char \<Rightarrow> char" where
  "lower_char c = (let n = of_char c :: nat in if 65 \<le> n \<and> n \<le> 90 then char_of (n + 32) else c)"

definition upper_char :: "char \<Rightarrow> char" where
  "upper_char c = (let n = of_char c :: nat in if 97 \<le> n \<and> n \<le> 122 then char_of (n - 32) else c)"

definition strings_ToLower :: "string \<Rightarrow> string" where
  "strings_ToLower s = map lower_char s"

definition strings_ToUpper :: "string \<Rightarrow> string" where
  "strings_ToUpper s = map upper_char s"

definition strings_EqualFold :: "string \<Rightarrow> string \<Rightarrow> bool" where
  "strings_EqualFold s t \<longleftrightarrow> strings_ToLower s = strings_ToLower t"

definition strings_TrimLeftSpace :: "string \<Rightarrow> string" where
  "strings_TrimLeftSpace s = dropWhile is_space s"

definition strings_TrimSpace :: "string \<Rightarrow> string" where
  "strings_TrimSpace s = rev (dropWhile is_space (rev (dropWhile is_space s)))"

definition strings_Trim :: "string \<Rightarrow> char \<Rightarrow> string" where
  "strings_Trim s c = rev (dropWhile (\<lambda>x. x = c) (rev (dropWhile (\<lambda>x. x = c) s)))"

definition strings_HasPrefix :: "string \<Rightarrow> string \<Rightarrow> bool" where
  "strings_HasPrefix s p \<longleftrightarrow> take (length p) s = p"

definition strings_HasSuffix :: "string \<Rightarrow> string \<Rightarrow> bool" where
  "strings_HasSuffix s p \<longleftrightarrow> length p \<le> length s \<and> drop (length s - length p) s = p"

definition strings_TrimPrefix :: "string \<Rightarrow> string \<Rightarrow> string" where
  "strings_TrimPrefix s p = (if strings_HasPrefix s p then drop (length p) s else s)"

definition strings_TrimSuffix :: "string \<Rightarrow> string \<Rightarrow> string" where
  "strings_TrimSuffix s p = (if strings_HasSuffix s p then take (length s - length p) s else s)"

text \<open>\<open>strings.Index\<close>, with \<open>None\<close> for Go's \<open>-1\<close>.\<close>

fun strings_Index :: "string \<Rightarrow> string \<Rightarrow> nat option" where
  "strings_Index [] sub = (if sub = [] then Some 0 else None)"
| "strings_Index (c # cs) sub =
     (if strings_HasPrefix (c # cs) sub then Some 0 else map_option Suc (strings_Index cs sub))"

definition strings_Contains :: "string \<Rightarrow> string \<Rightarrow> bool" where
  "strings_Contains s sub \<longleftrightarrow> strings_Index s sub \<noteq> None"

definition strings_ContainsAny :: "string \<Rightarrow> char list \<Rightarrow> bool" where
  "strings_ContainsAny s cs \<longleftrightarrow> list_ex (\<lambda>c. c \<in> set cs) s"

definition strings_Count :: "string \<Rightarrow> char \<Rightarrow> nat" where
  "strings_Count s c = length (filter (\<lambda>x. x = c) s)"

text \<open>\<open>strings.LastIndex\<close> of a one-byte separator.\<close>

fun strings_LastIndex :: "string \<Rightarrow> char \<Rightarrow> nat option" where
  "strings_LastIndex [] sep = None"
| "strings_LastIndex (c # cs) sep =
     (case strings_LastIndex cs sep of
        Some i \<Rightarrow> Some (Suc i)
      | None \<Rightarrow> if c = sep then Some 0 else None)"

text \<open>\<open>strings.Cut\<close> at the first one-byte separator: \<open>None\<close> when it is absent.\<close>

fun strings_Cut :: "string \<Rightarrow> char \<Rightarrow> (string \<times> string) option" where
  "strings_Cut [] sep = None"
| "strings_Cut (c # cs) sep =
     (if c = sep then Some ([], cs)
      else map_option (\<lambda>(a, b). (c # a, b)) (strings_Cut cs sep))"

text \<open>\<open>strings.Split\<close> on a one-byte separator (the only ones the backend uses).\<close>

fun strings_Split :: "string \<Rightarrow> char \<Rightarrow> string list" where
  "strings_Split [] sep = [[]]"
| "strings_Split (c # cs) sep =
     (if c = sep then [] # strings_Split cs sep
      else (case strings_Split cs sep of [] \<Rightarrow> [[c]] | p # ps \<Rightarrow> (c # p) # ps))"

fun strings_SplitN :: "string \<Rightarrow> char \<Rightarrow> nat \<Rightarrow> string list" where
  "strings_SplitN s sep 0 = []"
| "strings_SplitN s sep (Suc 0) = [s]"
| "strings_SplitN s sep (Suc (Suc n)) =
     (case strings_Cut s sep of
        None \<Rightarrow> [s]
      | Some (a, b) \<Rightarrow> a # strings_SplitN b sep (Suc n))"

fun strings_Join :: "string list \<Rightarrow> string \<Rightarrow> string" where
  "strings_Join [] sep = []"
| "strings_Join [p] sep = p"
| "strings_Join (p # q # ps) sep = p @ sep @ strings_Join (q # ps) sep"

text \<open>\<open>strings.ReplaceAll\<close> for a non-empty pattern.\<close>

function strings_ReplaceAll :: "string \<Rightarrow> string \<Rightarrow> string \<Rightarrow> string" where
  "strings_ReplaceAll [] old new = []"
| "strings_ReplaceAll (c # cs) old new =
     (if old \<noteq> [] \<and> strings_HasPrefix (c # cs) old
      then new @ strings_ReplaceAll (drop (length old) (c # cs)) old new
      else c # strings_ReplaceAll cs old new)"
  by pat_completeness auto
termination
  by (relation "measure (\<lambda>(s, _, _). length s)") (auto simp: neq_Nil_conv)

text \<open>\<open>strings.Fields\<close>: the maximal runs of non-space bytes.\<close>

fun fields_acc :: "string \<Rightarrow> string \<Rightarrow> string list" where
  "fields_acc [] cur = (if cur = [] then [] else [rev cur])"
| "fields_acc (c # cs) cur =
     (if is_space c
      then (if cur = [] then fields_acc cs [] else rev cur # fields_acc cs [])
      else fields_acc cs (c # cur))"

definition strings_Fields :: "string \<Rightarrow> string list" where
  "strings_Fields s = fields_acc s []"

section \<open>Package strconv\<close>

definition digit_char :: "nat \<Rightarrow> char" where
  "digit_char d = char_of (48 + d)"

definition is_digit :: "char \<Rightarrow> bool" where
  "is_digit c \<longleftrightarrow> 48 \<le> (of_char c :: nat) \<and> (of_char c :: nat) \<le> 57"

definition digit_val :: "char \<Rightarrow> nat" where
  "digit_val c = (of_char c :: nat) - 48"

fun nat_digits :: "nat \<Rightarrow> string" where
  "nat_digits n = (if n < 10 then [digit_char n] else nat_digits (n div 10) @ [digit_char (n mod 10)])"

declare nat_digits.simps [simp del]

definition strconv_Itoa :: "int \<Rightarrow> string" where
  "strconv_Itoa i = (if i < 0 then CHR ''-'' # nat_digits (nat (- i)) else nat_digits (nat i))"

definition digits_val :: "string \<Rightarrow> nat" where
  "digits_val s = foldl (\<lambda>n c. 10 * n + digit_val c) 0 s"

definition in_int64 :: "int \<Rightarrow> bool" where
  "in_int64 i \<longleftrightarrow> - (2 ^ 63) \<le> i \<and> i < 2 ^ 63"

text \<open>\<open>strconv.Atoi\<close> on a 64-bit platform: an optional sign, decimal digits, and a range error.\<close>

definition strconv_Atoi :: "string \<Rightarrow> int option" where
  "strconv_Atoi s =
     (let neg = (case s of [] \<Rightarrow> False | c # _ \<Rightarrow> c = CHR ''-'');
          body = (case s of [] \<Rightarrow> [] | c # cs \<Rightarrow> if c = CHR ''-'' \<or> c = CHR ''+'' then cs else s)
      in if body = [] \<or> \<not> list_all is_digit body then None
         else let v = (if neg then - int (digits_val body) else int (digits_val body))
              in if in_int64 v then Some v else None)"

section \<open>Texts outside ASCII\<close>

text \<open>The UTF-8 bytes of a text given by its code points, all below 65536.\<close>

definition utf8 :: "nat list \<Rightarrow> string" where
  "utf8 cs = concat (map (\<lambda>c. if c < 128 then [char_of c]
     else if c < 2048 then [char_of (192 + c div 64), char_of (128 + c mod 64)]
     else [char_of (224 + c div 4096), char_of (128 + c div 64 mod 64), char_of (128 + c mod 64)]) cs)"

section \<open>Laws of the library functions\<close>

lemma lower_char_idem [simp]: "lower_char (lower_char c) = lower_char c"
  by (auto simp: lower_char_def Let_def of_char_of)

lemma ToLower_Nil [simp]: "strings_ToLower [] = []"
  by (simp add: strings_ToLower_def)

lemma ToLower_eq_Nil [simp]: "strings_ToLower s = [] \<longleftrightarrow> s = []"
  by (simp add: strings_ToLower_def)

lemma ToLower_idem [simp]: "strings_ToLower (strings_ToLower s) = strings_ToLower s"
  by (simp add: strings_ToLower_def)

lemma ToLower_append: "strings_ToLower (s @ t) = strings_ToLower s @ strings_ToLower t"
  by (simp add: strings_ToLower_def)

lemma length_ToLower [simp]: "length (strings_ToLower s) = length s"
  by (simp add: strings_ToLower_def)

lemma is_space_lower_char [simp]: "is_space (lower_char c) = is_space c"
proof -
  have "is_space c \<longleftrightarrow> (of_char c :: nat) \<in> {9, 10, 11, 12, 13, 32}" for c
  proof -
    have "c = CHR 0x09 \<longleftrightarrow> (of_char c :: nat) = 9" "c = CHR 0x0A \<longleftrightarrow> (of_char c :: nat) = 10"
      "c = CHR 0x0B \<longleftrightarrow> (of_char c :: nat) = 11" "c = CHR 0x0C \<longleftrightarrow> (of_char c :: nat) = 12"
      "c = CHR 0x0D \<longleftrightarrow> (of_char c :: nat) = 13" "c = CHR 0x20 \<longleftrightarrow> (of_char c :: nat) = 32"
      by (auto simp: char.expand of_char_eq_iff [symmetric, where 'a = nat])
    then show ?thesis by (simp add: is_space_def)
  qed
  then show ?thesis
    by (auto simp: lower_char_def Let_def of_char_of)
qed

lemma set_dropWhile_subset: "set (dropWhile P s) \<subseteq> set s"
  by (induction s) auto

lemma dropWhile_fix: "(s \<noteq> [] \<Longrightarrow> \<not> P (hd s)) \<Longrightarrow> dropWhile P s = s"
  by (cases s) auto

lemma TrimSpace_Nil [simp]: "strings_TrimSpace [] = []"
  by (simp add: strings_TrimSpace_def)

lemma TrimSpace_no_space: "\<forall>c \<in> set s. \<not> is_space c \<Longrightarrow> strings_TrimSpace s = s"
proof -
  assume h: "\<forall>c \<in> set s. \<not> is_space c"
  have "dropWhile is_space s = s" using h by (intro dropWhile_fix) (auto simp: hd_in_set)
  moreover have "dropWhile is_space (rev s) = rev s"
    using h by (intro dropWhile_fix) (metis hd_in_set set_rev)
  ultimately show ?thesis by (simp add: strings_TrimSpace_def)
qed

lemma rev_dropWhile_hd:
  "rev (dropWhile P (rev s)) \<noteq> [] \<Longrightarrow> hd (rev (dropWhile P (rev s))) = hd s"
proof -
  obtain t where t: "rev s = takeWhile P (rev s) @ dropWhile P (rev s)"
    by (metis takeWhile_dropWhile_id)
  then have "s = rev (dropWhile P (rev s)) @ rev (takeWhile P (rev s))"
    by (metis rev_append rev_rev_ident)
  then show "rev (dropWhile P (rev s)) \<noteq> [] \<Longrightarrow> hd (rev (dropWhile P (rev s))) = hd s"
    by (metis hd_append2)
qed

lemma trim_ends:
  assumes "t = rev (dropWhile P (rev (dropWhile P s)))" and "t \<noteq> []"
  shows "\<not> P (hd t)" and "\<not> P (last t)"
proof -
  let ?d = "dropWhile P s"
  from assms have ne: "rev (dropWhile P (rev ?d)) \<noteq> []" by simp
  then have "hd t = hd ?d" using rev_dropWhile_hd assms(1) by metis
  moreover from ne have "?d \<noteq> []" by (metis dropWhile.simps(1) rev.simps(1))
  ultimately show "\<not> P (hd t)" using hd_dropWhile by metis
  have "last t = hd (dropWhile P (rev ?d))" using assms by (metis last_rev rev_is_Nil_conv)
  moreover have "dropWhile P (rev ?d) \<noteq> []" using ne by simp
  ultimately show "\<not> P (last t)" using hd_dropWhile by metis
qed

lemma trim_fix:
  assumes "s \<noteq> [] \<Longrightarrow> \<not> P (hd s) \<and> \<not> P (last s)"
  shows "rev (dropWhile P (rev (dropWhile P s))) = s"
proof -
  have "dropWhile P s = s" using assms by (intro dropWhile_fix) auto
  moreover have "dropWhile P (rev s) = rev s"
    using assms by (intro dropWhile_fix) (simp add: hd_rev)
  ultimately show ?thesis by simp
qed

lemma TrimSpace_idem [simp]: "strings_TrimSpace (strings_TrimSpace s) = strings_TrimSpace s"
  unfolding strings_TrimSpace_def by (rule trim_fix) (metis trim_ends)

lemma set_TrimSpace: "set (strings_TrimSpace s) \<subseteq> set s"
proof -
  have "set (dropWhile is_space (rev (dropWhile is_space s))) \<subseteq> set (rev (dropWhile is_space s))"
    by (rule set_dropWhile_subset)
  also have "\<dots> \<subseteq> set s" by (simp add: set_dropWhile_subset)
  finally show ?thesis by (simp add: strings_TrimSpace_def)
qed

lemma TrimSpace_ToLower: "strings_TrimSpace (strings_ToLower s) = strings_ToLower (strings_TrimSpace s)"
  by (simp add: strings_TrimSpace_def strings_ToLower_def dropWhile_map rev_map comp_def)

lemma HasPrefix_iff: "strings_HasPrefix s p \<longleftrightarrow> (\<exists>v. s = p @ v)"
  by (metis append_take_drop_id append_eq_conv_conj strings_HasPrefix_def)

lemma HasPrefix_append [simp]: "strings_HasPrefix (p @ v) p"
  by (simp add: strings_HasPrefix_def)

lemma HasSuffix_iff: "strings_HasSuffix s p \<longleftrightarrow> (\<exists>u. s = u @ p)"
  by (auto simp: strings_HasSuffix_def intro: append_take_drop_id [symmetric])
     (metis append_take_drop_id)

lemma TrimSuffix_append: "strings_TrimSuffix (u @ p) p = u"
  by (simp add: strings_TrimSuffix_def strings_HasSuffix_def)

lemma Index_Some_iff: "strings_Index s sub \<noteq> None \<longleftrightarrow> (\<exists>u v. s = u @ sub @ v)"
proof (induction s)
  case Nil
  then show ?case by auto
next
  case (Cons c cs)
  show ?case
  proof (cases "strings_HasPrefix (c # cs) sub")
    case True
    then obtain v where "c # cs = [] @ sub @ v" by (auto simp: HasPrefix_iff)
    then have "\<exists>u v. c # cs = u @ sub @ v" by blast
    with True show ?thesis by simp
  next
    case False
    then have "(\<exists>u v. c # cs = u @ sub @ v) \<longleftrightarrow> (\<exists>u v. cs = u @ sub @ v)"
      by (auto simp: HasPrefix_iff Cons_eq_append_conv)
    with False Cons.IH show ?thesis by simp
  qed
qed

lemma Contains_iff: "strings_Contains s sub \<longleftrightarrow> (\<exists>u v. s = u @ sub @ v)"
  by (simp only: strings_Contains_def Index_Some_iff)

lemma Contains_self [simp]: "strings_Contains s s"
  by (auto simp: Contains_iff intro: exI [of _ "[]"])

lemma Contains_char: "strings_Contains s [c] \<longleftrightarrow> c \<in> set s"
  by (simp add: Contains_iff in_set_conv_decomp)

lemma Cut_None_iff: "strings_Cut s sep = None \<longleftrightarrow> sep \<notin> set s"
  by (induction s) auto

lemma Cut_append: "sep \<notin> set a \<Longrightarrow> strings_Cut (a @ sep # b) sep = Some (a, b)"
  by (induction a) auto

lemma Cut_Some: "strings_Cut s sep = Some (a, b) \<Longrightarrow> s = a @ sep # b \<and> sep \<notin> set a"
  by (induction s arbitrary: a) (auto split: if_splits)

lemma Split_nonempty [simp]: "strings_Split s sep \<noteq> []"
  by (cases s) (auto split: list.splits)

lemma Split_append: "sep \<notin> set a \<Longrightarrow> strings_Split (a @ sep # b) sep = a # strings_Split b sep"
  by (induction a) auto

lemma Split_no_sep: "sep \<notin> set s \<Longrightarrow> strings_Split s sep = [s]"
  by (induction s) auto

lemma Split_parts: "p \<in> set (strings_Split s sep) \<Longrightarrow> sep \<notin> set p"
  by (induction s arbitrary: p) (auto split: list.splits if_splits)

lemma Join_Split [simp]: "strings_Join (strings_Split s sep) [sep] = s"
proof (induction s)
  case Nil
  then show ?case by simp
next
  case (Cons c cs)
  obtain p ps where sp: "strings_Split cs sep = p # ps" by (meson Split_nonempty neq_Nil_conv)
  then show ?case using Cons by (cases ps) auto
qed

lemma Split_Join:
  "ps \<noteq> [] \<Longrightarrow> \<forall>p \<in> set ps. sep \<notin> set p \<Longrightarrow> strings_Split (strings_Join ps [sep]) sep = ps"
proof (induction ps rule: induct_list012)
  case (3 p q ps)
  then show ?case using Split_append [of sep p "strings_Join (q # ps) [sep]"] by simp
qed (auto simp: Split_no_sep)

lemma LastIndex_None_iff: "strings_LastIndex s sep = None \<longleftrightarrow> sep \<notin> set s"
  by (induction s) (auto split: option.splits)

lemma LastIndex_append: "sep \<notin> set b \<Longrightarrow> strings_LastIndex (a @ sep # b) sep = Some (length a)"
proof (induction a)
  case Nil
  then show ?case using LastIndex_None_iff [of b sep] by simp
qed simp

lemma is_digit_digit_char [simp]: "d < 10 \<Longrightarrow> is_digit (digit_char d)"
  by (simp add: is_digit_def digit_char_def of_char_of)

lemma digit_val_digit_char [simp]: "d < 10 \<Longrightarrow> digit_val (digit_char d) = d"
  by (simp add: digit_val_def digit_char_def of_char_of)

lemma digits_val_snoc [simp]: "digits_val (s @ [c]) = 10 * digits_val s + digit_val c"
  by (simp add: digits_val_def)

lemma nat_digits_ne [simp]: "nat_digits n \<noteq> []"
  by (subst nat_digits.simps) simp

lemma nat_digits_all_digits: "list_all is_digit (nat_digits n)"
proof (induction n rule: nat_digits.induct)
  case (1 n)
  then show ?case by (subst nat_digits.simps) simp
qed

lemma digits_val_nat_digits [simp]: "digits_val (nat_digits n) = n"
proof (induction n rule: nat_digits.induct)
  case (1 n)
  then show ?case
    by (cases "n < 10") (auto simp: nat_digits.simps [of n] digits_val_def)
qed

lemma hd_nat_digits: "is_digit (hd (nat_digits n))"
  using nat_digits_all_digits [of n] by (metis list.set_sel(1) list_all_iff nat_digits_ne)

lemma not_digit_minus [simp]: "\<not> is_digit (CHR ''-'')" "\<not> is_digit (CHR ''+'')"
  by (simp_all add: is_digit_def)

lemma Atoi_Itoa: "in_int64 i \<Longrightarrow> strconv_Atoi (strconv_Itoa i) = Some i"
proof (cases "i < 0")
  case True
  assume "in_int64 i"
  with True show ?thesis
    by (simp add: strconv_Atoi_def strconv_Itoa_def nat_digits_all_digits Let_def)
next
  case False
  assume i: "in_int64 i"
  obtain c cs where d: "nat_digits (nat i) = c # cs" by (meson nat_digits_ne neq_Nil_conv)
  have "is_digit c" using hd_nat_digits [of "nat i"] d by simp
  then have "c \<noteq> CHR ''-''" "c \<noteq> CHR ''+''" using not_digit_minus by auto
  moreover have "digits_val (c # cs) = nat i" "list_all is_digit (c # cs)"
    using d digits_val_nat_digits [of "nat i"] nat_digits_all_digits [of "nat i"] by auto
  ultimately show ?thesis using False i d
    by (simp add: strconv_Atoi_def strconv_Itoa_def Let_def)
qed

lemma Itoa_inject: "strconv_Itoa i = strconv_Itoa j \<Longrightarrow> i = j"
proof -
  assume eq: "strconv_Itoa i = strconv_Itoa j"
  have sgn: "(hd (strconv_Itoa k) = CHR ''-'') = (k < 0)" for k
    using hd_nat_digits [of "nat k"] not_digit_minus by (auto simp: strconv_Itoa_def)
  with eq have "(i < 0) = (j < 0)" by metis
  with eq have "nat \<bar>i\<bar> = nat \<bar>j\<bar>"
    by (auto simp: strconv_Itoa_def split: if_splits) (metis digits_val_nat_digits)+
  with \<open>(i < 0) = (j < 0)\<close> show ?thesis by linarith
qed

lemma Itoa_chars: "c \<in> set (strconv_Itoa i) \<Longrightarrow> is_digit c \<or> c = CHR ''-''"
  using nat_digits_all_digits by (auto simp: strconv_Itoa_def list_all_iff split: if_splits)

end
