(* ===== verification/Domain.thy ===== *)
theory Domain
  imports Complex_Main Prelude
begin

text \<open>
  The data of package \<open>internal/domain\<close>: findings with their severities, statuses and kinds,
  closure reasons, finding events, users, sessions, API tokens, roles, scans, projects and teams, scores,
  each struct a record with the fields in the order of the source (a Go pointer is an
  \<open>option\<close>, a slice a \<open>list\<close>, a JSON text the string of its bytes), and the validators.

  A finding's kind, severity, confidence and status are Go \<open>int\<close>s with named constants and are
  kept as \<open>int\<close>, because nothing in the source restricts them to the named values.
\<close>

section \<open>Severities, statuses, kinds\<close>

definition SeverityInfo :: int where [simp]: "SeverityInfo = 0"
definition SeverityLow :: int where [simp]: "SeverityLow = 1"
definition SeverityMedium :: int where [simp]: "SeverityMedium = 2"
definition SeverityHigh :: int where [simp]: "SeverityHigh = 3"
definition SeverityCritical :: int where [simp]: "SeverityCritical = 4"

definition StatusOpen :: int where [simp]: "StatusOpen = 0"
definition StatusConfirmed :: int where [simp]: "StatusConfirmed = 1"
definition StatusFP :: int where [simp]: "StatusFP = 2"
definition StatusResolved :: int where [simp]: "StatusResolved = 3"
definition StatusRiskAccepted :: int where [simp]: "StatusRiskAccepted = 4"

type_synonym FindingKind = int

definition KindSCA :: FindingKind where [simp]: "KindSCA = 0"
definition KindSAST :: FindingKind where [simp]: "KindSAST = 1"
definition KindDAST :: FindingKind where [simp]: "KindDAST = 2"
definition KindIaC :: FindingKind where [simp]: "KindIaC = 3"
definition KindSecrets :: FindingKind where [simp]: "KindSecrets = 4"
definition KindOther :: FindingKind where [simp]: "KindOther = 5"

definition FindingKind_String :: "FindingKind \<Rightarrow> string" where
  "FindingKind_String k =
     (if k = KindSCA then ''sca''
      else if k = KindSAST then ''sast''
      else if k = KindDAST then ''dast''
      else if k = KindIaC then ''iac''
      else if k = KindSecrets then ''secrets''
      else ''other'')"

definition ParseFindingKind :: "string \<Rightarrow> FindingKind \<times> bool" where
  "ParseFindingKind s =
     (let t = strings_ToLower (strings_TrimSpace s)
      in if t = ''sca'' then (KindSCA, True)
         else if t = ''sast'' then (KindSAST, True)
         else if t = ''dast'' then (KindDAST, True)
         else if t = ''iac'' then (KindIaC, True)
         else if t = ''secrets'' then (KindSecrets, True)
         else if t = ''other'' then (KindOther, True)
         else (KindOther, False))"

text \<open>
  A JSON scalar as \<open>encoding/json\<close> hands it to an \<open>UnmarshalJSON\<close> method: a string literal
  (the bytes start with a quote), a number that fits a Go \<open>int\<close>, or anything else, on which
  decoding into an \<open>int\<close> is an error. Decoding \<open>null\<close> into an \<open>int\<close> leaves it zero.
\<close>

datatype json_scalar = JString string | JInt int | JNull | JOther

definition FindingKind_MarshalJSON :: "FindingKind \<Rightarrow> json_scalar" where
  "FindingKind_MarshalJSON k = JString (FindingKind_String k)"

definition FindingKind_UnmarshalJSON :: "json_scalar \<Rightarrow> FindingKind option" where
  "FindingKind_UnmarshalJSON d =
     (case d of
        JString s \<Rightarrow> (case ParseFindingKind s of (k, ok) \<Rightarrow> if ok then Some k else None)
      | JInt n \<Rightarrow> Some n
      | JNull \<Rightarrow> Some 0
      | JOther \<Rightarrow> None)"

section \<open>Findings\<close>

record Finding =
  f_ID :: uuid
  f_Kind :: FindingKind
  f_Title :: string
  f_Description :: string
  f_Severity :: int
  f_Confidence :: int
  f_Status :: int
  f_FilePath :: string
  f_LineStart :: int
  f_LineEnd :: int
  f_Component :: string
  f_ComponentVersion :: string
  f_CVEIDs :: "string list"
  f_CWEIDs :: "int list"
  f_CPEURI :: string
  f_Fingerprint :: string
  f_FirstSeen :: time
  f_LastSeen :: time
  f_TimesSeen :: int
  f_ProjectID :: uuid
  f_SourceType :: string
  f_FixedVersion :: "string option"
  f_PackageEcosystem :: "string option"
  f_Purl :: "string option"
  f_CodeSnippet :: "string option"
  f_CodeFlow :: string
  f_URL :: "string option"
  f_HTTPMethod :: "string option"
  f_HTTPParam :: "string option"
  f_HTTPEvidence :: string
  f_IacResource :: "string option"
  f_IacProvider :: "string option"
  f_SecretKind :: "string option"
  f_CommitSHA :: "string option"
  f_RuleID :: "string option"
  f_RuleName :: "string option"
  f_SecretFingerprint :: "string option"
  f_PriorityScore :: "real option"
  f_ClosureReasonID :: "int option"
  f_ClosureNote :: "string option"
  f_ClosedAt :: "time option"
  f_ClosedBy :: "uuid option"
  f_AssignedTo :: "uuid option"
  f_AssigneeEmail :: string
  f_InKEV :: bool
  f_InBDU :: bool
  f_MaxEPSS :: "real option"
  f_MaxCVSS :: "real option"
  f_ProjectName :: string

text \<open>Go's zero value \<open>domain.Finding{}\<close>.\<close>

definition Finding_zero :: Finding where
  "Finding_zero = \<lparr>
     f_ID = uuid_Nil, f_Kind = 0, f_Title = [], f_Description = [], f_Severity = 0,
     f_Confidence = 0, f_Status = 0, f_FilePath = [], f_LineStart = 0, f_LineEnd = 0,
     f_Component = [], f_ComponentVersion = [], f_CVEIDs = [], f_CWEIDs = [], f_CPEURI = [],
     f_Fingerprint = [], f_FirstSeen = 0, f_LastSeen = 0, f_TimesSeen = 0,
     f_ProjectID = uuid_Nil, f_SourceType = [], f_FixedVersion = None,
     f_PackageEcosystem = None, f_Purl = None, f_CodeSnippet = None, f_CodeFlow = [],
     f_URL = None, f_HTTPMethod = None, f_HTTPParam = None, f_HTTPEvidence = [],
     f_IacResource = None, f_IacProvider = None, f_SecretKind = None, f_CommitSHA = None,
     f_RuleID = None, f_RuleName = None, f_SecretFingerprint = None, f_PriorityScore = None,
     f_ClosureReasonID = None, f_ClosureNote = None, f_ClosedAt = None, f_ClosedBy = None,
     f_AssignedTo = None, f_AssigneeEmail = [], f_InKEV = False, f_InBDU = False,
     f_MaxEPSS = None, f_MaxCVSS = None, f_ProjectName = []\<rparr>"

text \<open>\<open>Validate\<close> returns the first failing check, \<open>None\<close> for a nil error.\<close>

definition Finding_Validate :: "Finding \<Rightarrow> string option" where
  "Finding_Validate f =
     (if f_Title f = [] then Some ''title is required''
      else if f_Severity f < SeverityInfo \<or> f_Severity f > SeverityCritical
        then Some ''severity must be between 0 and 4''
      else if f_Confidence f < 0 \<or> f_Confidence f > 3
        then Some ''confidence must be between 0 and 3''
      else if f_Status f < StatusOpen \<or> f_Status f > StatusRiskAccepted
        then Some ''status must be between 0 and 4''
      else if f_ProjectID f = uuid_Nil then Some ''project_id is required''
      else if f_SourceType f = [] then Some ''source_type is required''
      else if f_Fingerprint f = [] then Some ''fingerprint is required''
      else None)"

section \<open>Closure reasons and finding events\<close>

record ClosureReason =
  cr_ID :: int
  cr_Code :: string
  cr_Label :: string
  cr_TargetStatus :: int
  cr_RequiresNote :: bool
  cr_IsActive :: bool

definition FindingEventStatusChanged :: string where "FindingEventStatusChanged = ''status_changed''"
definition FindingEventClosed :: string where "FindingEventClosed = ''closed''"
definition FindingEventReopened :: string where "FindingEventReopened = ''reopened''"
definition FindingEventAssigned :: string where "FindingEventAssigned = ''assigned''"
definition FindingEventUnassigned :: string where "FindingEventUnassigned = ''unassigned''"
definition FindingEventCreated :: string where "FindingEventCreated = ''created''"
definition EventCommentAdded :: string where "EventCommentAdded = ''comment_added''"
definition EventCommentEdited :: string where "EventCommentEdited = ''comment_edited''"
definition EventCommentDeleted :: string where "EventCommentDeleted = ''comment_deleted''"

lemmas event_type_defs =
  FindingEventStatusChanged_def FindingEventClosed_def FindingEventReopened_def
  FindingEventAssigned_def FindingEventUnassigned_def FindingEventCreated_def
  EventCommentAdded_def EventCommentEdited_def EventCommentDeleted_def

text \<open>
  The payload of an event is the JSON encoding of one of the payload structs; the model keeps the
  struct (its fields in the order of the source). \<open>RawPayload\<close> is a literal JSON text.
\<close>

datatype EventPayload =
    StatusChangedPayload int int string
  | ClosedPayload string string int
  | ReopenedPayload int "int option" string
  | AssignedPayload "uuid option" string
  | CreatedPayload string string
  | CommentAddedPayload string
  | CommentEditedPayload uuid string
  | CommentDeletedPayload uuid
  | RawPayload string

record FindingEvent =
  ev_ID :: uuid
  ev_FindingID :: uuid
  ev_UserID :: "uuid option"
  ev_EventType :: string
  ev_Payload :: EventPayload
  ev_CreatedAt :: time

section \<open>Users, sessions, tokens, roles\<close>

definition RoleUser :: int where [simp]: "RoleUser = 0"
definition RoleAdmin :: int where [simp]: "RoleAdmin = 1"

definition UserStatusActive :: string where "UserStatusActive = ''active''"
definition UserStatusPending :: string where "UserStatusPending = ''pending''"
definition UserStatusDisabled :: string where "UserStatusDisabled = ''disabled''"

record User =
  u_ID :: uuid
  u_Email :: string
  u_PasswordHash :: string
  u_FullName :: string
  u_IsActive :: bool
  u_GlobalRole :: int
  u_Status :: string
  u_IsSystemAccount :: bool
  u_CreatedByUserID :: "uuid option"
  u_LastLoginIP :: "string option"
  u_CreatedAt :: time
  u_UpdatedAt :: time
  u_LastLoginAt :: "time option"
  u_MustChangePassword :: bool

definition User_zero :: User where
  "User_zero = \<lparr>u_ID = uuid_Nil, u_Email = [], u_PasswordHash = [], u_FullName = [],
     u_IsActive = False, u_GlobalRole = 0, u_Status = [], u_IsSystemAccount = False,
     u_CreatedByUserID = None, u_LastLoginIP = None, u_CreatedAt = 0, u_UpdatedAt = 0,
     u_LastLoginAt = None, u_MustChangePassword = False\<rparr>"

definition User_IsAdmin :: "User \<Rightarrow> bool" where
  "User_IsAdmin u \<longleftrightarrow> u_GlobalRole u = RoleAdmin"

record Session =
  s_ID :: uuid
  s_UserID :: uuid
  s_TokenHash :: string
  s_ExpiresAt :: time
  s_RevokedAt :: "time option"
  s_UserAgent :: string
  s_IP :: "string option"
  s_CreatedAt :: time
  s_LastUsedAt :: time

record APIToken =
  t_ID :: uuid
  t_ProjectID :: uuid
  t_Name :: string
  t_Prefix :: string
  t_TokenHash :: string
  t_Scopes :: "string list"
  t_CreatedByUserID :: uuid
  t_CreatedByEmail :: string
  t_LastUsedAt :: "time option"
  t_ExpiresAt :: "time option"
  t_RevokedAt :: "time option"
  t_CreatedAt :: time

definition RoleViewer :: int where [simp]: "RoleViewer = 0"
definition RoleTriager :: int where [simp]: "RoleTriager = 1"
definition RoleProjectAdmin :: int where [simp]: "RoleProjectAdmin = 2"

section \<open>Scans, projects, teams\<close>

definition ScanStatusRunning :: string where "ScanStatusRunning = ''running''"
definition ScanStatusCompleted :: string where "ScanStatusCompleted = ''completed''"
definition ScanStatusFailed :: string where "ScanStatusFailed = ''failed''"

record Scan =
  sc_ID :: uuid
  sc_ProjectID :: uuid
  sc_CommitSHA :: string
  sc_Branch :: string
  sc_Scanner :: string
  sc_ScannerVersion :: "string option"
  sc_CIJobURL :: "string option"
  sc_StartedAt :: time
  sc_FinishedAt :: "time option"
  sc_FindingsImported :: int
  sc_FindingsUpdated :: int
  sc_Status :: string
  sc_TokenID :: "uuid option"
  sc_TriggeredByUser :: "uuid option"
  sc_AssetHint :: "string option"
  sc_RawReportSize :: "int option"

definition ProjectStatusActive :: string where "ProjectStatusActive = ''active''"
definition ProjectStatusPaused :: string where "ProjectStatusPaused = ''paused''"
definition ProjectStatusArchived :: string where "ProjectStatusArchived = ''archived''"

definition ProjectHealthHealthy :: string where "ProjectHealthHealthy = ''healthy''"
definition ProjectHealthWarn :: string where "ProjectHealthWarn = ''warn''"
definition ProjectHealthBreach :: string where "ProjectHealthBreach = ''breach''"
definition ProjectHealthSetup :: string where "ProjectHealthSetup = ''setup''"
definition ProjectHealthPaused :: string where "ProjectHealthPaused = ''paused''"

definition ProjectSourceManual :: string where "ProjectSourceManual = ''manual''"
definition ProjectSourceGit :: string where "ProjectSourceGit = ''git''"
definition ProjectSourceSarif :: string where "ProjectSourceSarif = ''sarif''"
definition ProjectSourceWebhook :: string where "ProjectSourceWebhook = ''webhook''"

record ProjectOwner =
  ow_ID :: uuid
  ow_Email :: string
  ow_DisplayName :: string

record ProjectTeam =
  pt_ID :: string
  pt_Name :: string

record ProjectFindingsBySeverity =
  sev_Critical :: nat
  sev_High :: nat
  sev_Medium :: nat
  sev_Low :: nat
  sev_Info :: nat

record ProjectScanners =
  scn_SAST :: string
  scn_DAST :: string
  scn_SCA :: string
  scn_Secrets :: string

text \<open>\<open>LastScan\<close>, which nothing sets, is left out.\<close>

record Project =
  p_ID :: uuid
  p_Slug :: string
  p_Name :: string
  p_Description :: string
  p_IconColor :: string
  p_SourceKind :: string
  p_RepoURL :: string
  p_RepoProvider :: string
  p_DefaultBranch :: string
  p_AutoscanOnPush :: bool
  p_Tags :: "string list option"
  p_Status :: string
  p_SetupCompleted :: bool
  p_Visibility :: string
  p_Owner :: ProjectOwner
  p_Team :: "ProjectTeam option"
  p_Pinned :: bool
  p_CreatedBy :: uuid
  p_FindingsBySev :: ProjectFindingsBySeverity
  p_SLABreached :: nat
  p_SLACriticalDays :: "int option"
  p_SLAHighDays :: "int option"
  p_SLAMediumDays :: "int option"
  p_SLALowDays :: "int option"
  p_SLANotifyBeforeDays :: int
  p_Scanners :: ProjectScanners
  p_Health :: string
  p_CreatedAt :: time
  p_UpdatedAt :: time

definition Project_zero :: Project where
  "Project_zero = \<lparr>p_ID = uuid_Nil, p_Slug = [], p_Name = [], p_Description = [], p_IconColor = [], p_SourceKind = [],
     p_RepoURL = [], p_RepoProvider = [], p_DefaultBranch = [], p_AutoscanOnPush = False, p_Tags = None, p_Status = [],
     p_SetupCompleted = False, p_Visibility = [], p_Owner = \<lparr>ow_ID = uuid_Nil, ow_Email = [], ow_DisplayName = []\<rparr>,
     p_Team = None, p_Pinned = False, p_CreatedBy = uuid_Nil,
     p_FindingsBySev = \<lparr>sev_Critical = 0, sev_High = 0, sev_Medium = 0, sev_Low = 0, sev_Info = 0\<rparr>, p_SLABreached = 0,
     p_SLACriticalDays = None, p_SLAHighDays = None, p_SLAMediumDays = None, p_SLALowDays = None, p_SLANotifyBeforeDays = 0,
     p_Scanners = \<lparr>scn_SAST = [], scn_DAST = [], scn_SCA = [], scn_Secrets = []\<rparr>, p_Health = [], p_CreatedAt = 0, p_UpdatedAt = 0\<rparr>"

record Team =
  tm_ID :: uuid
  tm_Name :: string
  tm_Description :: string
  tm_CreatedAt :: time
  tm_UpdatedAt :: time

text \<open>The validators of projects and teams look at the name only.\<close>

definition Project_Validate :: "string \<Rightarrow> string option" where
  "Project_Validate name =
     (if name = [] then Some ''name is required''
      else if length name > 255 then Some ''name must be 255 characters or less''
      else None)"

definition Team_Validate :: "string \<Rightarrow> string option" where
  "Team_Validate name =
     (if strings_TrimSpace name = [] then Some ''team name is required''
      else if length name > 128 then Some ''team name must be 128 characters or less''
      else None)"

section \<open>Groups, enrichments, scores\<close>

record FindingGroup =
  g_GroupKey :: string
  g_GroupTitle :: string
  g_SecretKind :: "string option"
  g_Ecosystem :: "string option"
  g_FixedVersion :: "string option"
  g_FindingsCount :: nat
  g_ProjectsCount :: nat
  g_MaxSeverity :: int
  g_FirstSeen :: time
  g_LastSeen :: time
  g_ProjectIDs :: "uuid list"
  g_SampleIDs :: "uuid list"
  g_InKEV :: bool
  g_InBDU :: bool
  g_BDUIDs :: "string list"
  g_MaxEPSS :: "real option"
  g_MaxCVSS :: "real option"

record FindingEnrichment =
  fe_FindingID :: uuid
  fe_Source :: string
  fe_Data :: string
  fe_EnrichedAt :: time

record FindingScore =
  fs_FindingID :: uuid
  fs_BaseScore :: real
  fs_EPSSScore :: real
  fs_EPSSPercentile :: real
  fs_IsKEV :: bool
  fs_IsBDU :: bool
  fs_PriorityScore :: real
  fs_CalculatedAt :: time

section \<open>Lemmas\<close>

lemma ToLower_literals [simp]:
  "strings_ToLower ''sca'' = ''sca''" "strings_ToLower ''sast'' = ''sast''"
  "strings_ToLower ''dast'' = ''dast''" "strings_ToLower ''iac'' = ''iac''"
  "strings_ToLower ''secrets'' = ''secrets''" "strings_ToLower ''other'' = ''other''"
  by code_simp+

lemma TrimSpace_literals [simp]:
  "strings_TrimSpace ''sca'' = ''sca''" "strings_TrimSpace ''sast'' = ''sast''"
  "strings_TrimSpace ''dast'' = ''dast''" "strings_TrimSpace ''iac'' = ''iac''"
  "strings_TrimSpace ''secrets'' = ''secrets''" "strings_TrimSpace ''other'' = ''other''"
  by code_simp+

lemma ParseFindingKind_range: "ParseFindingKind s = (k, ok) \<Longrightarrow> KindSCA \<le> k \<and> k \<le> KindOther"
  by (auto simp: ParseFindingKind_def Let_def split: if_splits)

lemma ParseFindingKind_String:
  "ParseFindingKind (FindingKind_String k) =
     (if KindSCA \<le> k \<and> k \<le> KindOther then k else KindOther, True)"
  by (auto simp: FindingKind_String_def ParseFindingKind_def)

lemma Finding_Validate_None_iff:
  "Finding_Validate f = None \<longleftrightarrow>
     f_Title f \<noteq> [] \<and> 0 \<le> f_Severity f \<and> f_Severity f \<le> 4 \<and> 0 \<le> f_Confidence f \<and> f_Confidence f \<le> 3 \<and>
     0 \<le> f_Status f \<and> f_Status f \<le> 4 \<and> f_ProjectID f \<noteq> uuid_Nil \<and> f_SourceType f \<noteq> [] \<and> f_Fingerprint f \<noteq> []"
  by (auto simp: Finding_Validate_def not_less)

end
