(* ===== verification/Fingerprint.thy ===== *)
theory Fingerprint
  imports Domain
begin

text \<open>
  \<open>internal/domain/dedup.go\<close>: the fingerprint that decides which findings are the same.

  The hash is the argument \<open>H\<close>, which stands for the lower-case hexadecimal text of SHA-256;
  the lemmas hold for every \<open>H\<close>, those that need it assume that \<open>H\<close> does not collide
  on the two inputs at hand.
\<close>

definition ComputeSecretFingerprint :: "(string \<Rightarrow> string) \<Rightarrow> string \<Rightarrow> string \<Rightarrow> string" where
  "ComputeSecretFingerprint H kind value =
     H (strings_ToLower (strings_TrimSpace kind) @ '':'' @ value)"

text \<open>The nine parts \<open>CalculateFingerprint\<close> concatenates, and their concatenation.\<close>

definition fingerprint_parts :: "Finding \<Rightarrow> string list" where
  "fingerprint_parts f =
     [strconv_Itoa (f_Kind f),
      strings_ToLower (case f_RuleID f of Some r \<Rightarrow> r | None \<Rightarrow> []),
      strings_ToLower (case f_CVEIDs f of c # _ \<Rightarrow> c | [] \<Rightarrow> []),
      strings_ToLower (f_FilePath f),
      strconv_Itoa (f_LineStart f),
      strconv_Itoa (f_LineEnd f),
      (case f_CWEIDs f of c # _ \<Rightarrow> strconv_Itoa c | [] \<Rightarrow> ''0''),
      strings_ToLower (f_Component f),
      strings_ToLower (f_ComponentVersion f)]"

definition fingerprint_text :: "Finding \<Rightarrow> string" where
  "fingerprint_text f = strings_Join (fingerprint_parts f) []"

definition CalculateFingerprint :: "(string \<Rightarrow> string) \<Rightarrow> Finding \<Rightarrow> string" where
  "CalculateFingerprint H f = H (fingerprint_text f)"

section \<open>What a fingerprint depends on\<close>

lemma Join_empty_sep: "strings_Join ps [] = concat ps"
  by (induction ps rule: induct_list012) auto

lemma fingerprint_parts_cong:
  assumes "f_Kind f = f_Kind g"
    and "map_option strings_ToLower (f_RuleID f) = map_option strings_ToLower (f_RuleID g)"
    and "f_CVEIDs f = f_CVEIDs g" and "f_CWEIDs f = f_CWEIDs g"
    and "strings_ToLower (f_FilePath f) = strings_ToLower (f_FilePath g)"
    and "f_LineStart f = f_LineStart g" and "f_LineEnd f = f_LineEnd g"
    and "strings_ToLower (f_Component f) = strings_ToLower (f_Component g)"
    and "strings_ToLower (f_ComponentVersion f) = strings_ToLower (f_ComponentVersion g)"
  shows "fingerprint_parts f = fingerprint_parts g"
  using assms by (auto simp: fingerprint_parts_def split: option.splits)

lemma fingerprint_text_lines:
  "fingerprint_text (f\<lparr>f_LineStart := a, f_LineEnd := b\<rparr>) =
     concat (take 4 (fingerprint_parts f)) @ (strconv_Itoa a @ strconv_Itoa b) @
     concat (drop 6 (fingerprint_parts f))"
  by (simp add: fingerprint_text_def Join_empty_sep fingerprint_parts_def)

lemma double_append_inject: "a @ a = b @ b \<Longrightarrow> a = b"
proof -
  assume eq: "a @ a = b @ b"
  then have "length a = length b" by (metis length_append add_self_div_2)
  with eq show ?thesis by simp
qed

text \<open>The concatenation forgets where the start line ends and the end line begins.\<close>

lemma fingerprint_split_lines:
  assumes "strconv_Itoa a @ strconv_Itoa b = strconv_Itoa c @ strconv_Itoa d"
  shows "CalculateFingerprint H (f\<lparr>f_LineStart := a, f_LineEnd := b\<rparr>) =
         CalculateFingerprint H (f\<lparr>f_LineStart := c, f_LineEnd := d\<rparr>)"
  by (simp only: CalculateFingerprint_def fingerprint_text_lines assms)

section \<open>Properties\<close>

text \<open>
  A finding reported on a single line gets another fingerprint when it is reported on another
  line (the property \<open>TestCalculateFingerprintIncludesLineRange\<close> samples): if the hash does not
  collide on the two texts, the fingerprints differ exactly when the lines do.
\<close>

theorem fingerprint_single_line:
  assumes "let x = fingerprint_text (f\<lparr>f_LineStart := a, f_LineEnd := a\<rparr>);
               y = fingerprint_text (f\<lparr>f_LineStart := b, f_LineEnd := b\<rparr>)
           in H x = H y \<longrightarrow> x = y"
  shows "CalculateFingerprint H (f\<lparr>f_LineStart := a, f_LineEnd := a\<rparr>) =
         CalculateFingerprint H (f\<lparr>f_LineStart := b, f_LineEnd := b\<rparr>) \<longleftrightarrow> a = b"
proof
  assume "CalculateFingerprint H (f\<lparr>f_LineStart := a, f_LineEnd := a\<rparr>) =
          CalculateFingerprint H (f\<lparr>f_LineStart := b, f_LineEnd := b\<rparr>)"
  then have "fingerprint_text (f\<lparr>f_LineStart := a, f_LineEnd := a\<rparr>) =
             fingerprint_text (f\<lparr>f_LineStart := b, f_LineEnd := b\<rparr>)"
    using assms by (simp only: CalculateFingerprint_def Let_def simp_thms)
  then have "strconv_Itoa a @ strconv_Itoa a = strconv_Itoa b @ strconv_Itoa b"
    by (simp only: fingerprint_text_lines same_append_eq append_same_eq)
  then show "a = b" by (metis double_append_inject Itoa_inject)
qed simp

theorem fingerprint_single_line_witness:
  "CalculateFingerprint id (Finding_zero\<lparr>f_LineStart := 116, f_LineEnd := 116\<rparr>) \<noteq>
   CalculateFingerprint id (Finding_zero\<lparr>f_LineStart := 145, f_LineEnd := 145\<rparr>)"
  using fingerprint_single_line [where H = id and f = Finding_zero and a = 116 and b = 145] by simp

text \<open>
  The nine parts are joined without a separator, so different line ranges can hash the same text:
  the findings of one rule in one file on lines 1 to 123 and on lines 11 to 23 have the same
  fingerprint whatever the hash, so the second is counted as a repetition of the first.
\<close>

theorem fingerprint_no_separator:
  "CalculateFingerprint H (f\<lparr>f_LineStart := 1, f_LineEnd := 123\<rparr>) =
   CalculateFingerprint H (f\<lparr>f_LineStart := 11, f_LineEnd := 23\<rparr>)"
proof -
  have "strconv_Itoa 1 @ strconv_Itoa 123 = strconv_Itoa 11 @ strconv_Itoa 23"
    by (simp add: strconv_Itoa_def nat_digits.simps digit_char_def)
  then show ?thesis by (rule fingerprint_split_lines)
qed

text \<open>
  Neither the project nor the scanner nor anything a user may change while triaging is part of a
  fingerprint: two findings that differ only there are the same finding for the store, also when they
  belong to different projects.
\<close>

theorem fingerprint_ignores_project:
  "CalculateFingerprint H (f\<lparr>f_ProjectID := p, f_SourceType := s, f_Title := t, f_Severity := v,
     f_Status := st, f_CommitSHA := c, f_ID := i\<rparr>) = CalculateFingerprint H f"
  by (simp add: CalculateFingerprint_def fingerprint_text_def fingerprint_parts_def)

end
