(* ===== verification/KindResolver.thy ===== *)
theory KindResolver
  imports Domain
begin

text \<open>
  \<open>internal/domain/kind_resolver.go\<close>: the kind of a finding, from its content first and from the
  name of the scanner as a fallback.

  A Go map from scanner names to kinds is the association list of its entries; \<open>map_of\<close> is the
  lookup. The order of the list stands for the (random) iteration order of the Go map: a lemma
  shows that the result does not depend on it.
\<close>

section \<open>Normal forms of names and values\<close>

definition hasTextPtr :: "string option \<Rightarrow> bool" where
  "hasTextPtr v = (case v of None \<Rightarrow> False | Some s \<Rightarrow> strings_TrimSpace s \<noteq> [])"

definition hasJSONValue :: "string \<Rightarrow> bool" where
  "hasJSONValue raw = (let v = strings_TrimSpace raw in v \<noteq> [] \<and> v \<noteq> ''null'')"

definition NormalizeScannerName :: "string \<Rightarrow> string" where
  "NormalizeScannerName name =
     (let normalized = strings_ToLower (strings_TrimSpace name);
          normalized = strings_ReplaceAll normalized ''_'' ''-'';
          normalized = strings_Join (strings_Fields normalized) '' ''
      in normalized)"

section \<open>The tables\<close>

definition scannerKindHints :: "(string \<times> FindingKind) list" where
  "scannerKindHints = [
     (''anchore'', KindSCA), (''bundler-audit'', KindSCA), (''cargo-audit'', KindSCA),
     (''composer-audit'', KindSCA), (''dependency-check'', KindSCA), (''depscan'', KindSCA),
     (''fossa'', KindSCA), (''gemnasium'', KindSCA), (''govulncheck'', KindSCA),
     (''grype'', KindSCA), (''maven-audit'', KindSCA), (''mend'', KindSCA), (''nancy'', KindSCA),
     (''nexus-iq'', KindSCA), (''npm-audit'', KindSCA), (''oss-index'', KindSCA),
     (''osv-scanner'', KindSCA), (''owasp dependency'', KindSCA), (''owasp-dependency'', KindSCA),
     (''pip-audit'', KindSCA), (''pnpm-audit'', KindSCA), (''renovate'', KindSCA),
     (''retire.js'', KindSCA), (''safety'', KindSCA), (''scout'', KindSCA),
     (''sonatype'', KindSCA), (''snyk-open-source'', KindSCA), (''whitesource'', KindSCA),
     (''yarn-audit'', KindSCA), (''blackduck'', KindSCA), (''black-duck'', KindSCA),
     (''bolt'', KindSCA), (''osv'', KindSCA), (''bandit'', KindSAST), (''brakeman'', KindSAST),
     (''codeql'', KindSAST), (''coverity'', KindSAST), (''cppcheck'', KindSAST),
     (''eslint-security'', KindSAST), (''findsecbugs'', KindSAST), (''flawfinder'', KindSAST),
     (''gosec'', KindSAST), (''horusec'', KindSAST), (''insider'', KindSAST),
     (''jshint'', KindSAST), (''mobsfscan'', KindSAST), (''njsscan'', KindSAST),
     (''pmd'', KindSAST), (''progpilot'', KindSAST), (''psalm'', KindSAST), (''pylint'', KindSAST),
     (''roslyn'', KindSAST), (''rubocop'', KindSAST), (''security-code'', KindSAST),
     (''semgrep-sast'', KindSAST), (''sobelow'', KindSAST), (''spotbugs'', KindSAST),
     (''staticcheck'', KindSAST), (''tslint'', KindSAST), (''acunetix'', KindDAST),
     (''arachni'', KindDAST), (''appscan'', KindDAST), (''burp'', KindDAST),
     (''detectify'', KindDAST), (''invicti'', KindDAST), (''netsparker'', KindDAST),
     (''nikto'', KindDAST), (''nuclei'', KindDAST), (''skipfish'', KindDAST),
     (''snallygaster'', KindDAST), (''stackhawk'', KindDAST), (''w3af'', KindDAST),
     (''wapiti'', KindDAST), (''webinspect'', KindDAST), (''whatweb'', KindDAST),
     (''zaproxy'', KindDAST), (''zap'', KindDAST), (''owasp zap'', KindDAST),
     (''owasp-zap'', KindDAST), (''cfn-lint'', KindIaC), (''cfn-nag'', KindIaC),
     (''checkov'', KindIaC), (''cloudsplaining'', KindIaC), (''conftest'', KindIaC),
     (''datree'', KindIaC), (''hadolint'', KindIaC), (''kics'', KindIaC),
     (''kube-bench'', KindIaC), (''kube-hunter'', KindIaC), (''kube-score'', KindIaC),
     (''kubesec'', KindIaC), (''polaris'', KindIaC), (''regula'', KindIaC),
     (''terrascan'', KindIaC), (''tfsec'', KindIaC), (''trivy-config'', KindIaC),
     (''tflint'', KindIaC), (''terraform-compliance'', KindIaC), (''detect-secrets'', KindSecrets),
     (''gitleaks'', KindSecrets), (''git-secrets'', KindSecrets), (''gitguardian'', KindSecrets),
     (''ggshield'', KindSecrets), (''nosey-parker'', KindSecrets), (''secretlint'', KindSecrets),
     (''shhgit'', KindSecrets), (''trufflehog'', KindSecrets), (''whispers'', KindSecrets),
     (''yelp-detect-secrets'', KindSecrets)]"

definition multiCategoryScanners :: "string list" where
  "multiCategoryScanners = [
     ''aqua'', ''checkmarx'', ''codeql-with-deps'', ''fortify'', ''github-advanced-security'',
     ''github code scanning'', ''github-code-scanning'', ''gitlab-secure'', ''gitlab-security'',
     ''semgrep'', ''sonarqube'', ''snyk'', ''synopsys'', ''trivy'', ''veracode'']"

definition IsMultiCategoryScanner :: "string \<Rightarrow> bool" where
  "IsMultiCategoryScanner sourceType =
     (let name = NormalizeScannerName sourceType
      in list_ex (\<lambda>scanner. scanner = name \<or> strings_Contains name scanner) multiCategoryScanners)"

section \<open>Matching a scanner name\<close>

text \<open>The comparison given to \<open>sort.Slice\<close>: longer keys first, equal lengths alphabetically.\<close>

definition key_less :: "string \<Rightarrow> string \<Rightarrow> bool" where
  "key_less a b = (if length a = length b then a < b else length a > length b)"

fun insert_key :: "string \<Rightarrow> string list \<Rightarrow> string list" where
  "insert_key k [] = [k]"
| "insert_key k (x # xs) = (if key_less x k then x # insert_key k xs else k # x # xs)"

definition sort_keys :: "string list \<Rightarrow> string list" where
  "sort_keys ks = foldr insert_key ks []"

definition matchScannerKind :: "string \<Rightarrow> (string \<times> FindingKind) list \<Rightarrow> FindingKind \<times> bool" where
  "matchScannerKind sourceType hints =
     (if hints = [] then (KindOther, False)
      else case map_of hints sourceType of
        Some kind \<Rightarrow> (kind, True)
      | None \<Rightarrow>
          (case find (\<lambda>key. key \<noteq> [] \<and> strings_Contains sourceType key) (sort_keys (map fst hints)) of
             Some key \<Rightarrow> (the (map_of hints key), True)
           | None \<Rightarrow> (KindOther, False)))"

definition resolveScannerKindHint :: "string \<Rightarrow> (string \<times> FindingKind) list \<Rightarrow> FindingKind \<times> bool" where
  "resolveScannerKindHint sourceType overrides =
     (let name = NormalizeScannerName sourceType
      in if name = [] then (KindOther, False)
         else case matchScannerKind name overrides of
           (kind, True) \<Rightarrow> (kind, True)
         | (_, False) \<Rightarrow>
             (case map_of scannerKindHints name of
                Some kind \<Rightarrow> (kind, True)
              | None \<Rightarrow>
                  if IsMultiCategoryScanner name then (KindOther, False)
                  else matchScannerKind name scannerKindHints))"

text \<open>The content signals of \<open>ResolveKind\<close>'s switch, in its order; \<open>None\<close> when no case applies.\<close>

definition content_kind :: "Finding \<Rightarrow> FindingKind option" where
  "content_kind f =
     (if hasTextPtr (f_SecretKind f) \<or> hasTextPtr (f_SecretFingerprint f) \<or> hasTextPtr (f_CommitSHA f)
        then Some KindSecrets
      else if hasTextPtr (f_IacResource f) \<or> hasTextPtr (f_IacProvider f) then Some KindIaC
      else if hasTextPtr (f_URL f) \<or> hasTextPtr (f_HTTPMethod f) \<or> hasTextPtr (f_HTTPParam f) \<or>
              hasJSONValue (f_HTTPEvidence f) then Some KindDAST
      else if hasTextPtr (f_Purl f) \<or> hasTextPtr (f_PackageEcosystem f) \<or> hasTextPtr (f_FixedVersion f) \<or>
              (strings_TrimSpace (f_Component f) \<noteq> [] \<and> strings_TrimSpace (f_ComponentVersion f) \<noteq> []) \<or>
              (length (f_CVEIDs f) > 0 \<and> strings_TrimSpace (f_Component f) \<noteq> []) then Some KindSCA
      else if strings_TrimSpace (f_FilePath f) \<noteq> [] \<and> (f_LineStart f > 0 \<or> hasTextPtr (f_RuleID f))
        then Some KindSAST
      else None)"

definition ResolveKind :: "Finding option \<Rightarrow> (string \<times> FindingKind) list \<Rightarrow> FindingKind" where
  "ResolveKind fo overrides =
     (case fo of
        None \<Rightarrow> KindOther
      | Some f \<Rightarrow>
          (case content_kind f of
             Some k \<Rightarrow> k
           | None \<Rightarrow>
               (case resolveScannerKindHint (f_SourceType f) overrides of
                  (kind, True) \<Rightarrow> kind
                | (_, False) \<Rightarrow> KindOther)))"

section \<open>Sorted keys\<close>

lemma key_less_total: "a \<noteq> b \<Longrightarrow> key_less a b \<or> key_less b a"
  by (auto simp: key_less_def not_less_iff_gr_or_eq)

lemma key_less_trans: "key_less a b \<Longrightarrow> key_less b c \<Longrightarrow> key_less a c"
  by (auto simp: key_less_def split: if_splits)

lemma key_less_irrefl [simp]: "\<not> key_less a a"
  by (simp add: key_less_def)

lemma set_insert_key [simp]: "set (insert_key k xs) = insert k (set xs)"
  by (induction xs) auto

lemma set_sort_keys [simp]: "set (sort_keys ks) = set ks"
  by (induction ks) (auto simp: sort_keys_def)

lemma sorted_insert_key:
  "sorted_wrt (\<lambda>a b. a = b \<or> key_less a b) xs \<Longrightarrow> sorted_wrt (\<lambda>a b. a = b \<or> key_less a b) (insert_key k xs)"
  by (induction xs) (auto dest: key_less_trans, metis key_less_total, metis key_less_total key_less_trans)

lemma sorted_sort_keys: "sorted_wrt (\<lambda>a b. a = b \<or> key_less a b) (sort_keys ks)"
  by (induction ks) (auto simp: sort_keys_def sorted_insert_key)

lemma find_first:
  "sorted_wrt R xs \<Longrightarrow> find P xs = Some x \<Longrightarrow> P x \<and> x \<in> set xs \<and> (\<forall>y \<in> set xs. P y \<longrightarrow> y = x \<or> R x y)"
  by (induction xs) (auto split: if_splits)

lemma find_None_iff_set: "find P xs = None \<longleftrightarrow> (\<forall>x \<in> set xs. \<not> P x)"
  by (auto simp: find_None_iff)

text \<open>The key the loop stops at is the first one, in the order of the comparison, that occurs in the name.\<close>

lemma find_sort_keys_eq:
  assumes "find P (sort_keys ks) = Some x"
  shows "P x" "x \<in> set ks" "\<And>y. y \<in> set ks \<Longrightarrow> P y \<Longrightarrow> y = x \<or> key_less x y"
  using find_first [OF sorted_sort_keys assms] by auto

lemma find_sort_keys_cong:
  assumes "set ks = set ls"
  shows "find P (sort_keys ks) = find P (sort_keys ls)"
proof (cases "find P (sort_keys ks)")
  case None
  then show ?thesis using assms by (metis find_None_iff_set set_sort_keys)
next
  case (Some x)
  then have "P x" "x \<in> set ls" using find_sort_keys_eq(1,2) assms by metis+
  then obtain y where y: "find P (sort_keys ls) = Some y"
    by (metis find_None_iff_set not_None_eq set_sort_keys)
  have "y = x \<or> key_less x y" using find_sort_keys_eq [OF Some] find_sort_keys_eq(1,2) [OF y] assms by metis
  moreover have "x = y \<or> key_less y x" using find_sort_keys_eq [OF y] find_sort_keys_eq(1,2) [OF Some] assms by metis
  ultimately have "x = y" using key_less_trans key_less_irrefl by metis
  with Some y show ?thesis by simp
qed

section \<open>Normal forms\<close>

lemma fields_acc_parts:
  "\<forall>c \<in> set cur. \<not> is_space c \<Longrightarrow> w \<in> set (fields_acc s cur) \<Longrightarrow> w \<noteq> [] \<and> (\<forall>c \<in> set w. \<not> is_space c)"
proof (induction s arbitrary: cur)
  case (Cons c s)
  show ?case
  proof (cases "is_space c")
    case True
    then have "w = rev cur \<and> cur \<noteq> [] \<or> w \<in> set (fields_acc s [])"
      using Cons.prems(2) by (simp split: if_splits)
    moreover have "w \<in> set (fields_acc s []) \<Longrightarrow> w \<noteq> [] \<and> (\<forall>c \<in> set w. \<not> is_space c)"
      by (rule Cons.IH) simp_all
    ultimately show ?thesis using Cons.prems(1) by auto
  next
    case False
    show ?thesis
      by (rule Cons.IH [of "c # cur"]) (use False Cons.prems in \<open>simp_all\<close>)
  qed
qed (simp split: if_splits)

lemma fields_acc_word:
  "\<forall>c \<in> set w. \<not> is_space c \<Longrightarrow> fields_acc (w @ s) cur = fields_acc s (rev w @ cur)"
  by (induction w arbitrary: cur) auto

lemma set_fields_acc: "w \<in> set (fields_acc s cur) \<Longrightarrow> set w \<subseteq> set s \<union> set cur"
  by (induction s cur rule: fields_acc.induct) (auto split: if_splits)

lemma Fields_parts: "w \<in> set (strings_Fields s) \<Longrightarrow> w \<noteq> [] \<and> (\<forall>c \<in> set w. \<not> is_space c)"
  using fields_acc_parts [of "[]"] by (simp add: strings_Fields_def)

lemma is_space_blank [simp]: "is_space (CHR '' '')"
  by (simp add: is_space_def)

lemma Fields_Join:
  "\<forall>w \<in> set ws. w \<noteq> [] \<and> (\<forall>c \<in> set w. \<not> is_space c) \<Longrightarrow> strings_Fields (strings_Join ws '' '') = ws"
proof (induction ws rule: induct_list012)
  case (2 w)
  then show ?case using fields_acc_word [of w "[]" "[]"] by (simp add: strings_Fields_def)
next
  case (3 p q ps)
  then show ?case
    using fields_acc_word [of p "CHR '' '' # strings_Join (q # ps) '' ''" "[]"]
    by (simp add: strings_Fields_def)
qed (simp add: strings_Fields_def)

lemma set_Join: "c \<in> set (strings_Join ws sep) \<Longrightarrow> (\<exists>w \<in> set ws. c \<in> set w) \<or> c \<in> set sep"
  by (induction ws sep rule: strings_Join.induct) auto

lemma Join_ends:
  "ws \<noteq> [] \<Longrightarrow> \<forall>w \<in> set ws. w \<noteq> [] \<Longrightarrow>
   strings_Join ws sep \<noteq> [] \<and> hd (strings_Join ws sep) = hd (hd ws) \<and> last (strings_Join ws sep) = last (last ws)"
  by (induction ws sep rule: strings_Join.induct) auto

lemma TrimSpace_Join_Fields: "strings_TrimSpace (strings_Join (strings_Fields s) '' '') = strings_Join (strings_Fields s) '' ''"
proof (cases "strings_Fields s = []")
  case False
  let ?ws = "strings_Fields s"
  have w: "\<forall>w \<in> set ?ws. w \<noteq> []" using Fields_parts by blast
  note e = Join_ends [OF False w, of "'' ''"]
  have "\<not> is_space (hd (hd ?ws))" using Fields_parts [of "hd ?ws" s] False by (simp add: hd_in_set)
  moreover have "\<not> is_space (last (last ?ws))" using Fields_parts [of "last ?ws" s] False by simp
  ultimately show ?thesis unfolding strings_TrimSpace_def using e by (intro trim_fix) simp
qed simp

lemma ReplaceAll_char:
  "strings_ReplaceAll s [a] [b] = map (\<lambda>c. if c = a then b else c) s"
  by (induction s) (auto simp: strings_HasPrefix_def)

lemma lower_char_id: "lower_char c = c \<longleftrightarrow> \<not> (65 \<le> (of_char c :: nat) \<and> (of_char c :: nat) \<le> 90)"
proof -
  have "char_of (of_char c + 32 :: nat) \<noteq> c" if "(of_char c :: nat) \<le> 90"
  proof
    assume "char_of (of_char c + 32 :: nat) = c"
    then have "(of_char (char_of (of_char c + 32 :: nat)) :: nat) = of_char c" by simp
    then show False using that by (simp add: of_char_of)
  qed
  then show ?thesis by (auto simp: lower_char_def Let_def)
qed

lemma ToLower_id_iff: "strings_ToLower s = s \<longleftrightarrow> (\<forall>c \<in> set s. lower_char c = c)"
  by (simp add: strings_ToLower_def map_idI) (metis map_eq_conv map_ident)

lemma lower_char_literals [simp]:
  "lower_char (CHR ''-'') = CHR ''-''" "lower_char (CHR '' '') = CHR '' ''" "lower_char (CHR ''_'') = CHR ''_''"
  by code_simp+

text \<open>A normalised name is in lower case, has no underscore and only single inner blanks.\<close>

lemma Normalize_chars:
  assumes "c \<in> set (NormalizeScannerName name)"
  shows "lower_char c = c" "c \<noteq> CHR ''_''"
proof -
  let ?r = "strings_ReplaceAll (strings_ToLower (strings_TrimSpace name)) ''_'' ''-''"
  have "(\<exists>w \<in> set (strings_Fields ?r). c \<in> set w) \<or> c = CHR '' ''"
    using set_Join [of c "strings_Fields ?r" "'' ''"] assms by (simp add: NormalizeScannerName_def Let_def)
  then have "c \<in> set ?r \<or> c = CHR '' ''"
    using set_fields_acc [of _ ?r "[]"] unfolding strings_Fields_def by auto
  then have "lower_char c = c \<and> c \<noteq> CHR ''_''"
    unfolding ReplaceAll_char strings_ToLower_def by auto
  then show "lower_char c = c" "c \<noteq> CHR ''_''" by auto
qed

lemma Normalize_unfold:
  "NormalizeScannerName x =
     strings_Join (strings_Fields (strings_ReplaceAll (strings_ToLower (strings_TrimSpace x)) ''_'' ''-'')) '' ''"
  by (simp add: NormalizeScannerName_def Let_def)

lemma NormalizeScannerName_idem: "NormalizeScannerName (NormalizeScannerName name) = NormalizeScannerName name"
proof -
  define n where "n = NormalizeScannerName name"
  obtain r where n: "n = strings_Join (strings_Fields r) '' ''" unfolding n_def Normalize_unfold by blast
  have "strings_TrimSpace n = n" unfolding n by (rule TrimSpace_Join_Fields)
  moreover have "strings_ToLower n = n" using Normalize_chars(1) by (simp add: ToLower_id_iff n_def)
  moreover have "strings_ReplaceAll n ''_'' ''-'' = n"
    unfolding ReplaceAll_char using Normalize_chars(2) [of _ name] by (intro map_idI) (auto simp: n_def)
  moreover have "strings_Fields n = strings_Fields r"
    unfolding n using Fields_parts by (intro Fields_Join) blast
  ultimately have "NormalizeScannerName n = n" using n by (simp add: Normalize_unfold)
  then show ?thesis by (simp add: n_def)
qed

section \<open>Matching\<close>

lemma map_of_keys_cong: "map_of h = map_of h' \<Longrightarrow> set (map fst h) = set (map fst h') \<and> (h = []) = (h' = [])"
  by (metis dom_map_of_conv_image_fst list.set_map map_is_Nil_conv set_empty)

lemma resolve_no_content:
  "content_kind f = None \<Longrightarrow>
     ResolveKind (Some f) ov = fst (case resolveScannerKindHint (f_SourceType f) ov of (k, True) \<Rightarrow> (k, True) | (_, False) \<Rightarrow> (KindOther, False))"
  by (auto simp: ResolveKind_def split: prod.splits bool.splits)

lemma content_kind_range: "content_kind f = Some k \<Longrightarrow> 0 \<le> k \<and> k \<le> 4"
  by (auto simp: content_kind_def split: if_splits)

lemma matchScannerKind_range:
  "matchScannerKind s h = (k, True) \<Longrightarrow> k \<in> ran (map_of h)"
proof -
  assume m: "matchScannerKind s h = (k, True)"
  show ?thesis
  proof (cases "map_of h s")
    case (Some v)
    with m show ?thesis by (auto simp: matchScannerKind_def ran_def split: if_splits)
  next
    case None
    with m obtain key where key: "find (\<lambda>key. key \<noteq> [] \<and> strings_Contains s key) (sort_keys (map fst h)) = Some key"
      and k: "k = the (map_of h key)"
      by (auto simp: matchScannerKind_def split: if_splits option.splits)
    then have "key \<in> fst ` set h" using find_sort_keys_eq(2) [OF key] by simp
    then obtain v where "map_of h key = Some v" by (metis domD dom_map_of_conv_image_fst)
    with k show ?thesis by (auto simp: ran_def)
  qed
qed

lemma scannerKindHints_range: "k \<in> ran (map_of scannerKindHints) \<Longrightarrow> 0 \<le> k \<and> k \<le> 4"
proof -
  assume "k \<in> ran (map_of scannerKindHints)"
  then have "k \<in> snd ` set scannerKindHints" by (auto simp: ran_def dest: map_of_SomeD intro: rev_image_eqI)
  then show ?thesis by (auto simp: scannerKindHints_def)
qed

section \<open>Properties\<close>

text \<open>
  The kind a finding gets is determined by its content whenever the content says anything: neither
  the name of the scanner nor the operator's overrides can change it.
\<close>

theorem ResolveKind_content_first:
  assumes "content_kind f = Some k"
  shows "ResolveKind (Some (f\<lparr>f_SourceType := s\<rparr>)) overrides = k"
proof -
  have "content_kind (f\<lparr>f_SourceType := s\<rparr>) = content_kind f" by (simp add: content_kind_def)
  with assms show ?thesis by (simp add: ResolveKind_def)
qed

theorem ResolveKind_content_first_witness:
  "ResolveKind (Some (Finding_zero\<lparr>f_URL := Some ''http://x'', f_SourceType := ''weirdtool''\<rparr>)) [(''weirdtool'', KindSCA)] = KindDAST"
proof -
  have "content_kind (Finding_zero\<lparr>f_URL := Some ''http://x''\<rparr>) = Some KindDAST"
    by (simp add: content_kind_def Finding_zero_def hasTextPtr_def hasJSONValue_def strings_TrimSpace_def is_space_def)
  from ResolveKind_content_first [OF this, of "''weirdtool''"] show ?thesis by simp
qed

text \<open>
  The partial match of a scanner name is the longest one and does not depend on the iteration order
  of the Go map: two lists of entries with the same lookups give the same answer, and when the name is
  not itself a key, no key that occurs in it is longer than the one used.
\<close>

theorem matchScannerKind_longest:
  assumes "map_of h = map_of h'"
  shows "matchScannerKind s h = matchScannerKind s h' \<and>
    (map_of h s = None \<and> snd (matchScannerKind s h) \<longrightarrow>
      (\<exists>key. key \<noteq> [] \<and> strings_Contains s key \<and> map_of h key = Some (fst (matchScannerKind s h)) \<and>
         (\<forall>key'. key' \<in> dom (map_of h) \<and> strings_Contains s key' \<longrightarrow> length key' \<le> length key)))"
proof (intro conjI impI)
  have c: "find P (sort_keys (map fst h)) = find P (sort_keys (map fst h'))" for P
    using map_of_keys_cong [OF assms] by (intro find_sort_keys_cong) simp
  show "matchScannerKind s h = matchScannerKind s h'"
    unfolding matchScannerKind_def using map_of_keys_cong [OF assms] by (simp only: c assms)
next
  let ?P = "\<lambda>key. key \<noteq> [] \<and> strings_Contains s key"
  assume a: "map_of h s = None \<and> snd (matchScannerKind s h)"
  then obtain key where key: "find ?P (sort_keys (map fst h)) = Some key"
    and k: "fst (matchScannerKind s h) = the (map_of h key)"
    by (auto simp: matchScannerKind_def split: if_splits option.splits)
  note f = find_sort_keys_eq [OF key]
  have "\<exists>v. map_of h key = Some v" using f(2) by (metis domD dom_map_of_conv_image_fst list.set_map)
  moreover have "length key' \<le> length key" if "key' \<in> dom (map_of h)" "strings_Contains s key'" for key'
    using f(3) [of key'] that by (cases "key' = []") (auto simp: dom_map_of_conv_image_fst key_less_def split: if_splits)
  ultimately show "\<exists>key. key \<noteq> [] \<and> strings_Contains s key \<and> map_of h key = Some (fst (matchScannerKind s h)) \<and>
         (\<forall>key'. key' \<in> dom (map_of h) \<and> strings_Contains s key' \<longrightarrow> length key' \<le> length key)"
    using f(1) k by (intro exI [of _ key]) auto
qed

theorem matchScannerKind_longest_witness:
  "matchScannerKind ''owasp zap 2'' [(''zap'', KindDAST), (''owasp'', KindSCA)] =
   matchScannerKind ''owasp zap 2'' [(''owasp'', KindSCA), (''zap'', KindDAST)]"
  using matchScannerKind_longest [of "[(''zap'', KindDAST), (''owasp'', KindSCA)]"
      "[(''owasp'', KindSCA), (''zap'', KindDAST)]" "''owasp zap 2''"]
  by (simp add: fun_eq_iff)

text \<open>
  The name of a scanner that reports several kinds of findings is never used as a hint: without a
  content signal, an override that matches or an entry of the table for exactly this name, the kind is
  \<open>other\<close>.
\<close>

theorem ResolveKind_multi_category:
  assumes "content_kind f = None" and "IsMultiCategoryScanner (f_SourceType f)"
    and "map_of scannerKindHints (NormalizeScannerName (f_SourceType f)) = None"
    and "\<not> snd (matchScannerKind (NormalizeScannerName (f_SourceType f)) overrides)"
  shows "ResolveKind (Some f) overrides = KindOther"
proof -
  have "IsMultiCategoryScanner (NormalizeScannerName (f_SourceType f))"
    using assms(2) by (simp add: IsMultiCategoryScanner_def NormalizeScannerName_idem)
  then show ?thesis using assms
    by (auto simp: ResolveKind_def resolveScannerKindHint_def Let_def split: prod.splits bool.splits)
qed

theorem ResolveKind_multi_category_witness:
  "ResolveKind (Some (Finding_zero\<lparr>f_SourceType := ''Semgrep''\<rparr>)) [] = KindOther"
proof -
  let ?f = "Finding_zero\<lparr>f_SourceType := ''Semgrep''\<rparr>"
  have "NormalizeScannerName ''Semgrep'' = ''semgrep''" by code_simp
  moreover have "IsMultiCategoryScanner ''Semgrep''" by code_simp
  moreover have "map_of scannerKindHints ''semgrep'' = None" by code_simp
  moreover have "content_kind ?f = None"
    by (simp add: content_kind_def Finding_zero_def hasTextPtr_def hasJSONValue_def strings_TrimSpace_def)
  ultimately show ?thesis
    using ResolveKind_multi_category [of ?f "[]"] by (simp add: matchScannerKind_def)
qed

text \<open>
  Whatever the finding, resolving its kind gives one of the six named kinds, as long as the
  operator's overrides do; with no finding it is \<open>other\<close>.
\<close>

theorem ResolveKind_range:
  assumes "\<forall>k \<in> ran (map_of overrides). KindSCA \<le> k \<and> k \<le> KindOther"
  shows "KindSCA \<le> ResolveKind fo overrides \<and> ResolveKind fo overrides \<le> KindOther"
proof (cases fo)
  case None
  then show ?thesis by (simp add: ResolveKind_def)
next
  case (Some f)
  have "0 \<le> k \<and> k \<le> 5" if "resolveScannerKindHint (f_SourceType f) overrides = (k, True)" for k
  proof -
    let ?n = "NormalizeScannerName (f_SourceType f)"
    from that consider "matchScannerKind ?n overrides = (k, True)"
      | "map_of scannerKindHints ?n = Some k" | "matchScannerKind ?n scannerKindHints = (k, True)"
      by (auto simp: resolveScannerKindHint_def Let_def split: if_splits prod.splits bool.splits option.splits)
    then have "k \<in> ran (map_of overrides) \<or> k \<in> ran (map_of scannerKindHints)"
      by cases (auto dest: matchScannerKind_range intro: ranI)
    then show ?thesis using assms scannerKindHints_range [of k] by auto
  qed
  then show ?thesis using Some content_kind_range [of f]
    by (force simp: ResolveKind_def split: option.splits prod.splits bool.splits)
qed

theorem ResolveKind_range_witness:
  "KindSCA \<le> ResolveKind None [(''x'', KindSAST)] \<and> ResolveKind None [(''x'', KindSAST)] \<le> KindOther"
  using ResolveKind_range [of "[(''x'', KindSAST)]" None] by simp

end
