(* ===== verification/Triage.thy ===== *)
theory Triage
  imports Domain
begin

text \<open>
  \<open>internal/domain/triage_action.go\<close>: the five triage actions, each a record with the fields of
  its struct (the unexported ones included: an action remembers what it replaced, for its event),
  an \<open>ApplyTo\<close> and a \<open>BuildEvent\<close>. Go mutates the action and the finding in place; here both
  are returned. The clock (\<open>time.Now()\<close>) and the fresh id (\<open>uuid.New()\<close>) are arguments.

  The interface \<open>ClosureReasonLookup\<close> is the locale \<open>closure_lookup\<close>, the interface
  \<open>TriageAction\<close> the locale \<open>triage_action\<close>, interpreted on every action.
\<close>

section \<open>Changing the status\<close>

record ChangeStatusAction =
  cs_NewStatus :: int
  cs_Note :: string
  cs_oldStatus :: int

definition ChangeStatusAction_ApplyTo ::
  "ChangeStatusAction \<Rightarrow> Finding \<Rightarrow> string + ChangeStatusAction \<times> Finding" where
  "ChangeStatusAction_ApplyTo a f =
     (if cs_NewStatus a \<noteq> StatusOpen \<and> cs_NewStatus a \<noteq> StatusConfirmed
      then Inl ''use /close to close findings''
      else Inr (a\<lparr>cs_oldStatus := f_Status f\<rparr>, f\<lparr>f_Status := cs_NewStatus a\<rparr>))"

definition ChangeStatusAction_BuildEvent ::
  "ChangeStatusAction \<Rightarrow> uuid \<Rightarrow> time \<Rightarrow> uuid \<Rightarrow> Finding \<Rightarrow> FindingEvent" where
  "ChangeStatusAction_BuildEvent a newID now userID f =
     \<lparr>ev_ID = newID, ev_FindingID = f_ID f, ev_UserID = Some userID,
      ev_EventType = FindingEventStatusChanged,
      ev_Payload = StatusChangedPayload (cs_oldStatus a) (cs_NewStatus a) (strings_TrimSpace (cs_Note a)),
      ev_CreatedAt = now\<rparr>"

section \<open>Closing\<close>

record CloseAction =
  cl_ReasonCode :: string
  cl_Note :: string
  cl_UserID :: uuid
  cl_reasonID :: int
  cl_target :: int

type_synonym ClosureReasonLookup = "string \<Rightarrow> ClosureReason option"

definition CloseAction_ApplyTo ::
  "CloseAction \<Rightarrow> time \<Rightarrow> ClosureReasonLookup \<Rightarrow> Finding \<Rightarrow> string + CloseAction \<times> Finding" where
  "CloseAction_ApplyTo a now ByCode f =
     (case ByCode (cl_ReasonCode a) of
        None \<Rightarrow> Inl ''invalid closure reason''
      | Some reason \<Rightarrow>
          if \<not> cr_IsActive reason then Inl ''invalid closure reason''
          else let note = strings_TrimSpace (cl_Note a) in
            if cr_RequiresNote reason \<and> note = [] then Inl ''note required''
            else Inr (a\<lparr>cl_reasonID := cr_ID reason, cl_target := cr_TargetStatus reason\<rparr>,
                      f\<lparr>f_Status := cr_TargetStatus reason,
                        f_ClosureReasonID := Some (cr_ID reason),
                        f_ClosureNote := Some note,
                        f_ClosedAt := Some now,
                        f_ClosedBy := Some (cl_UserID a)\<rparr>))"

definition CloseAction_BuildEvent ::
  "CloseAction \<Rightarrow> uuid \<Rightarrow> time \<Rightarrow> uuid \<Rightarrow> Finding \<Rightarrow> FindingEvent" where
  "CloseAction_BuildEvent a newID now userID f =
     \<lparr>ev_ID = newID, ev_FindingID = f_ID f, ev_UserID = Some userID,
      ev_EventType = FindingEventClosed,
      ev_Payload = ClosedPayload (cl_ReasonCode a) (strings_TrimSpace (cl_Note a)) (cl_target a),
      ev_CreatedAt = now\<rparr>"

section \<open>Reopening\<close>

record ReopenAction =
  ro_Note :: string
  ro_previousStatus :: int
  ro_previousReasonID :: "int option"

definition is_closed_status :: "int \<Rightarrow> bool" where
  "is_closed_status s \<longleftrightarrow> s = StatusFP \<or> s = StatusResolved \<or> s = StatusRiskAccepted"

definition ReopenAction_ApplyTo :: "ReopenAction \<Rightarrow> Finding \<Rightarrow> string + ReopenAction \<times> Finding" where
  "ReopenAction_ApplyTo a f =
     (if \<not> is_closed_status (f_Status f) then Inl ''can only reopen closed findings''
      else Inr (a\<lparr>ro_previousStatus := f_Status f, ro_previousReasonID := f_ClosureReasonID f\<rparr>,
                f\<lparr>f_Status := StatusOpen, f_ClosureReasonID := None, f_ClosureNote := None,
                  f_ClosedAt := None, f_ClosedBy := None\<rparr>))"

definition ReopenAction_BuildEvent ::
  "ReopenAction \<Rightarrow> uuid \<Rightarrow> time \<Rightarrow> uuid \<Rightarrow> Finding \<Rightarrow> FindingEvent" where
  "ReopenAction_BuildEvent a newID now userID f =
     \<lparr>ev_ID = newID, ev_FindingID = f_ID f, ev_UserID = Some userID,
      ev_EventType = FindingEventReopened,
      ev_Payload = ReopenedPayload (ro_previousStatus a) (ro_previousReasonID a) (strings_TrimSpace (ro_Note a)),
      ev_CreatedAt = now\<rparr>"

section \<open>Assigning\<close>

record AssignAction =
  as_ToUserID :: uuid
  as_ToEmail :: string

definition AssignAction_ApplyTo :: "AssignAction \<Rightarrow> Finding \<Rightarrow> string + AssignAction \<times> Finding" where
  "AssignAction_ApplyTo a f = Inr (a, f\<lparr>f_AssignedTo := Some (as_ToUserID a)\<rparr>)"

definition AssignAction_BuildEvent ::
  "AssignAction \<Rightarrow> uuid \<Rightarrow> time \<Rightarrow> uuid \<Rightarrow> Finding \<Rightarrow> FindingEvent" where
  "AssignAction_BuildEvent a newID now userID f =
     \<lparr>ev_ID = newID, ev_FindingID = f_ID f, ev_UserID = Some userID,
      ev_EventType = FindingEventAssigned,
      ev_Payload = AssignedPayload (Some (as_ToUserID a)) (as_ToEmail a), ev_CreatedAt = now\<rparr>"

definition UnassignAction_ApplyTo :: "Finding \<Rightarrow> string + Finding" where
  "UnassignAction_ApplyTo f = Inr (f\<lparr>f_AssignedTo := None\<rparr>)"

definition UnassignAction_BuildEvent :: "uuid \<Rightarrow> time \<Rightarrow> uuid \<Rightarrow> Finding \<Rightarrow> FindingEvent" where
  "UnassignAction_BuildEvent newID now userID f =
     \<lparr>ev_ID = newID, ev_FindingID = f_ID f, ev_UserID = Some userID,
      ev_EventType = FindingEventUnassigned,
      ev_Payload = AssignedPayload None [], ev_CreatedAt = now\<rparr>"

section \<open>The interface\<close>

text \<open>A value of the interface type \<open>TriageAction\<close> is one of the five; its methods dispatch.\<close>

datatype TriageAction =
    ChangeStatus ChangeStatusAction
  | Close CloseAction
  | Reopen ReopenAction
  | Assign AssignAction
  | Unassign

definition ApplyTo ::
  "TriageAction \<Rightarrow> time \<Rightarrow> ClosureReasonLookup \<Rightarrow> Finding \<Rightarrow> string + TriageAction \<times> Finding" where
  "ApplyTo act now ByCode f =
     (case act of
        ChangeStatus a \<Rightarrow> map_sum id (map_prod ChangeStatus id) (ChangeStatusAction_ApplyTo a f)
      | Close a \<Rightarrow> map_sum id (map_prod Close id) (CloseAction_ApplyTo a now ByCode f)
      | Reopen a \<Rightarrow> map_sum id (map_prod Reopen id) (ReopenAction_ApplyTo a f)
      | Assign a \<Rightarrow> map_sum id (map_prod Assign id) (AssignAction_ApplyTo a f)
      | Unassign \<Rightarrow> map_sum id (Pair Unassign) (UnassignAction_ApplyTo f))"

definition BuildEvent :: "TriageAction \<Rightarrow> uuid \<Rightarrow> time \<Rightarrow> uuid \<Rightarrow> Finding \<Rightarrow> FindingEvent" where
  "BuildEvent act newID now userID f =
     (case act of
        ChangeStatus a \<Rightarrow> ChangeStatusAction_BuildEvent a newID now userID f
      | Close a \<Rightarrow> CloseAction_BuildEvent a newID now userID f
      | Reopen a \<Rightarrow> ReopenAction_BuildEvent a newID now userID f
      | Assign a \<Rightarrow> AssignAction_BuildEvent a newID now userID f
      | Unassign \<Rightarrow> UnassignAction_BuildEvent newID now userID f)"

lemmas ApplyTo_defs = ApplyTo_def ChangeStatusAction_ApplyTo_def CloseAction_ApplyTo_def
  ReopenAction_ApplyTo_def AssignAction_ApplyTo_def UnassignAction_ApplyTo_def

lemmas BuildEvent_defs = BuildEvent_def ChangeStatusAction_BuildEvent_def CloseAction_BuildEvent_def
  ReopenAction_BuildEvent_def AssignAction_BuildEvent_def UnassignAction_BuildEvent_def

text \<open>The columns an action may write, as the \<open>UPDATE\<close> of the store lists them.\<close>

definition triage_columns :: "Finding \<Rightarrow> Finding \<Rightarrow> Finding" where
  "triage_columns new old = old\<lparr>f_Status := f_Status new, f_ClosureReasonID := f_ClosureReasonID new,
     f_ClosureNote := f_ClosureNote new, f_ClosedAt := f_ClosedAt new, f_ClosedBy := f_ClosedBy new,
     f_AssignedTo := f_AssignedTo new\<rparr>"

lemma triage_columns_self [simp]: "triage_columns f f = f"
  by (simp add: triage_columns_def)

locale closure_lookup =
  fixes ByCode :: ClosureReasonLookup
  assumes ByCode_code: "ByCode code = Some r \<Longrightarrow> cr_Code r = code"
    and ByCode_active: "ByCode code = Some r \<Longrightarrow> cr_IsActive r"

locale closing_lookup = closure_lookup +
  assumes ByCode_closes: "ByCode code = Some r \<Longrightarrow> is_closed_status (cr_TargetStatus r)"

locale triage_action =
  fixes apply_to :: "'a \<Rightarrow> time \<Rightarrow> ClosureReasonLookup \<Rightarrow> Finding \<Rightarrow> string + 'a \<times> Finding"
    and build_event :: "'a \<Rightarrow> uuid \<Rightarrow> time \<Rightarrow> uuid \<Rightarrow> Finding \<Rightarrow> FindingEvent"
  assumes frame: "apply_to a now ByCode f = Inr (a', f') \<Longrightarrow> f' = triage_columns f' f"
    and event_frame: "f_ID f = f_ID g \<Longrightarrow> build_event a newID now userID f = build_event a newID now userID g"
    and event_of: "ev_FindingID (build_event a newID now userID f) = f_ID f"
    and event_by: "ev_UserID (build_event a newID now userID f) = Some userID"
    and event_id: "ev_ID (build_event a newID now userID f) = newID"

section \<open>The contract of an action\<close>

context triage_action
begin

lemma apply_keeps:
  assumes "apply_to a now ByCode f = Inr (a', f')"
  shows "f_ID f' = f_ID f" "f_ProjectID f' = f_ProjectID f" "f_Fingerprint f' = f_Fingerprint f"
    "f_Severity f' = f_Severity f" "f_Kind f' = f_Kind f" "f_Title f' = f_Title f"
    "f_FirstSeen f' = f_FirstSeen f" "f_LastSeen f' = f_LastSeen f" "f_TimesSeen f' = f_TimesSeen f"
proof -
  have f': "f' = triage_columns f' f" using assms by (rule frame)
  show "f_ID f' = f_ID f" by (subst f') (simp add: triage_columns_def)
  show "f_ProjectID f' = f_ProjectID f" by (subst f') (simp add: triage_columns_def)
  show "f_Fingerprint f' = f_Fingerprint f" by (subst f') (simp add: triage_columns_def)
  show "f_Severity f' = f_Severity f" by (subst f') (simp add: triage_columns_def)
  show "f_Kind f' = f_Kind f" by (subst f') (simp add: triage_columns_def)
  show "f_Title f' = f_Title f" by (subst f') (simp add: triage_columns_def)
  show "f_FirstSeen f' = f_FirstSeen f" by (subst f') (simp add: triage_columns_def)
  show "f_LastSeen f' = f_LastSeen f" by (subst f') (simp add: triage_columns_def)
  show "f_TimesSeen f' = f_TimesSeen f" by (subst f') (simp add: triage_columns_def)
qed

text \<open>Writing the triage columns of the changed finding over the row is writing the changed finding.\<close>

lemma written_row: "apply_to a now ByCode f = Inr (a', f') \<Longrightarrow> triage_columns f' f = f'"
  using frame by metis

lemma event_of_result:
  "apply_to a now ByCode f = Inr (a', f') \<Longrightarrow> ev_FindingID (build_event a' newID now userID f') = f_ID f"
  by (simp add: event_of apply_keeps)

end

interpretation change_status: triage_action
  "\<lambda>a now ByCode. ChangeStatusAction_ApplyTo a" ChangeStatusAction_BuildEvent
  by unfold_locales (auto simp: ApplyTo_defs BuildEvent_defs triage_columns_def split: if_splits)

interpretation close: triage_action CloseAction_ApplyTo CloseAction_BuildEvent
  by unfold_locales
    (auto simp: CloseAction_ApplyTo_def BuildEvent_defs triage_columns_def Let_def split: if_splits option.splits)

interpretation reopen: triage_action "\<lambda>a now ByCode. ReopenAction_ApplyTo a" ReopenAction_BuildEvent
  by unfold_locales (auto simp: ApplyTo_defs BuildEvent_defs triage_columns_def split: if_splits)

interpretation assign: triage_action "\<lambda>a now ByCode. AssignAction_ApplyTo a" AssignAction_BuildEvent
  by unfold_locales (auto simp: ApplyTo_defs BuildEvent_defs triage_columns_def)

interpretation action: triage_action ApplyTo BuildEvent
proof
  fix a :: TriageAction and now ByCode f a' f'
  assume "ApplyTo a now ByCode f = Inr (a', f')"
  then show "f' = triage_columns f' f"
    using change_status.frame close.frame reopen.frame assign.frame
    by (cases a) (auto simp: ApplyTo_def UnassignAction_ApplyTo_def triage_columns_def map_sum_def
        split: sum.splits dest: change_status.frame close.frame reopen.frame assign.frame)
qed (auto simp: BuildEvent_defs split: TriageAction.splits)

section \<open>Closure data\<close>

text \<open>
  What the closure columns of a finding should say: a closed finding has a reason, a note, a time and
  an author of its closure; any other finding has none of them.
\<close>

definition closure_consistent :: "Finding \<Rightarrow> bool" where
  "closure_consistent f =
     (if is_closed_status (f_Status f)
      then f_ClosureReasonID f \<noteq> None \<and> f_ClosureNote f \<noteq> None \<and> f_ClosedAt f \<noteq> None \<and> f_ClosedBy f \<noteq> None
      else f_ClosureReasonID f = None \<and> f_ClosureNote f = None \<and> f_ClosedAt f = None \<and> f_ClosedBy f = None)"

lemma is_closed_status_simps [simp]:
  "\<not> is_closed_status 0" "\<not> is_closed_status 1" "is_closed_status 2" "is_closed_status 3" "is_closed_status 4"
  by (simp_all add: is_closed_status_def)

context closure_lookup
begin

lemma close_result:
  "CloseAction_ApplyTo a now ByCode f =
     (case ByCode (cl_ReasonCode a) of
        None \<Rightarrow> Inl ''invalid closure reason''
      | Some r \<Rightarrow> if cr_RequiresNote r \<and> strings_TrimSpace (cl_Note a) = [] then Inl ''note required''
          else Inr (a\<lparr>cl_reasonID := cr_ID r, cl_target := cr_TargetStatus r\<rparr>,
            f\<lparr>f_Status := cr_TargetStatus r, f_ClosureReasonID := Some (cr_ID r),
              f_ClosureNote := Some (strings_TrimSpace (cl_Note a)), f_ClosedAt := Some now,
              f_ClosedBy := Some (cl_UserID a)\<rparr>))"
  by (auto simp: CloseAction_ApplyTo_def Let_def dest: ByCode_active split: option.splits)

lemma close_reads_code: "CloseAction_ApplyTo a now ByCode f = Inr (a', f') \<Longrightarrow>
   \<exists>r. ByCode (cl_ReasonCode a) = Some r \<and> cr_Code r = cl_ReasonCode a' \<and> f_ClosureReasonID f' = Some (cr_ID r)"
  by (auto simp: close_result split: option.splits if_splits dest: ByCode_code)

end

context closing_lookup
begin

lemma close_consistent: "CloseAction_ApplyTo a now ByCode f = Inr (a', f') \<Longrightarrow> closure_consistent f'"
  using ByCode_closes by (auto simp: close_result closure_consistent_def split: option.splits if_splits)

text \<open>Every action keeps the closure columns consistent, except a change of status of a closed finding.\<close>

lemma action_consistent:
  assumes "closure_consistent f" and "ApplyTo act now ByCode f = Inr (act', f')"
    and "\<And>a. act = ChangeStatus a \<Longrightarrow> \<not> is_closed_status (f_Status f)"
  shows "closure_consistent f'"
proof (cases act)
  case (Close a)
  then show ?thesis using assms(2) close_consistent
    by (auto simp: ApplyTo_def map_sum_def split: sum.splits)
next
  case (ChangeStatus a)
  then show ?thesis using assms by (auto simp: ApplyTo_defs closure_consistent_def split: if_splits)
qed (use assms(1,2) in \<open>auto simp: ApplyTo_defs closure_consistent_def split: if_splits\<close>)

end

end
