(* ===== verification/Json.thy ===== *)
theory Json
  imports Prelude Complex_Main "HOL-Library.Monad_Syntax"
begin

text \<open>
  JSON documents and how \<open>encoding/json\<close> decodes them into Go values, as far as the backend uses it.

  The step from bytes to a document is an argument of the definitions that need it. A number that is an
  \<open>int\<close> literal is \<open>JsonInt\<close>, any other \<open>JsonFloat\<close>. Decoding yields \<open>None\<close> for an error: an absent field
  and \<open>null\<close> leave the zero value, a value of another type is an error, and the names of fields are matched
  without regard to case. Objects that name a field twice are outside of the model, except that the last
  value counts.
\<close>

datatype json =
    JsonNull
  | JsonBool bool
  | JsonInt int
  | JsonFloat rat
  | JsonString string
  | JsonArray "json list"
  | JsonObject "(string \<times> json) list"

type_synonym json_object = "(string \<times> json) list"

section \<open>Fields\<close>

text \<open>A field of a struct, and an entry of a Go map (whose keys are matched exactly).\<close>

definition json_field :: "json_object \<Rightarrow> string \<Rightarrow> json option" where
  "json_field obj name = map_option snd (find (\<lambda>(k, _). strings_EqualFold k name) (rev obj))"

definition json_entry :: "json_object \<Rightarrow> string \<Rightarrow> json option" where
  "json_entry obj key = map_option snd (find (\<lambda>(k, _). k = key) (rev obj))"

section \<open>Decoding\<close>

text \<open>Each decoder takes the value of a field, \<open>None\<close> for an absent one.\<close>

definition dec_string :: "json option \<Rightarrow> string option" where
  "dec_string j = (case j of None \<Rightarrow> Some [] | Some JsonNull \<Rightarrow> Some [] | Some (JsonString s) \<Rightarrow> Some s | _ \<Rightarrow> None)"

definition dec_int :: "json option \<Rightarrow> int option" where
  "dec_int j = (case j of None \<Rightarrow> Some 0 | Some JsonNull \<Rightarrow> Some 0
     | Some (JsonInt n) \<Rightarrow> if in_int64 n then Some n else None | _ \<Rightarrow> None)"

definition dec_bool :: "json option \<Rightarrow> bool option" where
  "dec_bool j = (case j of None \<Rightarrow> Some False | Some JsonNull \<Rightarrow> Some False | Some (JsonBool b) \<Rightarrow> Some b | _ \<Rightarrow> None)"

text \<open>A pointer, which stays nil.\<close>

definition dec_ptr :: "(json option \<Rightarrow> 'a option) \<Rightarrow> json option \<Rightarrow> 'a option option" where
  "dec_ptr f j = (case j of None \<Rightarrow> Some None | Some JsonNull \<Rightarrow> Some None | _ \<Rightarrow> map_option Some (f j))"

text \<open>A slice: \<open>None\<close> inside for nil. Most code does not tell nil from empty.\<close>

definition dec_slice :: "(json option \<Rightarrow> 'a option) \<Rightarrow> json option \<Rightarrow> 'a list option option" where
  "dec_slice f j = (case j of None \<Rightarrow> Some None | Some JsonNull \<Rightarrow> Some None
     | Some (JsonArray xs) \<Rightarrow> map_option Some (those (map (f \<circ> Some) xs)) | _ \<Rightarrow> None)"

definition dec_list :: "(json option \<Rightarrow> 'a option) \<Rightarrow> json option \<Rightarrow> 'a list option" where
  "dec_list f j = map_option (case_option [] id) (dec_slice f j)"

text \<open>The fields of a struct, and a Go map with string keys.\<close>

definition dec_struct :: "json option \<Rightarrow> json_object option" where
  "dec_struct j = (case j of None \<Rightarrow> Some [] | Some JsonNull \<Rightarrow> Some [] | Some (JsonObject obj) \<Rightarrow> Some obj | _ \<Rightarrow> None)"

definition dec_map :: "(json option \<Rightarrow> 'a option) \<Rightarrow> json option \<Rightarrow> (string \<times> 'a) list option" where
  "dec_map f j = Option.bind (dec_struct j) (\<lambda>obj. those (map (\<lambda>(k, v). map_option (Pair k) (f (Some v))) obj))"

text \<open>An \<open>any\<close> and a \<open>json.RawMessage\<close> take every value; a raw message of \<open>null\<close> is not empty, an \<open>any\<close> is nil.\<close>

definition dec_any :: "json option \<Rightarrow> json option option" where
  "dec_any j = Some (if j = Some JsonNull then None else j)"

definition dec_raw :: "json option \<Rightarrow> json option option" where
  "dec_raw j = Some j"

text \<open>What decoding leaves to other libraries, and the order in which Go walks a map.\<close>

record Decoder =
  jd_parse :: "string \<Rightarrow> json option"
  jd_stream :: "string \<Rightarrow> json list \<times> bool" \<comment> \<open>the documents of a stream, and whether it ends without an error\<close>
  jd_text :: "json \<Rightarrow> string"
  jd_float :: "string \<Rightarrow> rat option"
  jd_uuid :: "string \<Rightarrow> uuid option"
  jd_hash :: "string \<Rightarrow> string"
  jd_walk :: "json_object \<Rightarrow> json_object"

lemma dec_struct_simps [simp]: "dec_struct (Some (JsonObject obj)) = Some obj" "dec_struct None = Some []"
  by (simp_all add: dec_struct_def)

lemma dec_string_Some: "dec_string j = Some s \<Longrightarrow> s \<noteq> [] \<Longrightarrow> j = Some (JsonString s)"
  by (auto simp: dec_string_def split: option.splits json.splits)

lemma dec_int_range: "dec_int j = Some n \<Longrightarrow> in_int64 n"
  by (auto simp: dec_int_def in_int64_def split: option.splits json.splits if_splits)

end
