(* ===== verification/Db.thy ===== *)
theory Db
  imports Triage Json
begin

text \<open>
  The world the repositories of \<open>internal/storage\<close> act on: the tables of the database, a schedule
  of database faults, the clock and the supply of fresh ids, and the snapshot of closure reasons a
  process keeps in memory, and the audit records handed to the audit writer.

  A table is the list of its rows, a query a function of the tables. Every call to the database takes
  one entry of the fault schedule and fails with \<open>ErrDB\<close> when the entry is \<open>True\<close>; an empty
  schedule means no further fault. A transaction that fails, its commit included, leaves the tables as
  they were. A request runs without other requests in between: where the code depends on what happens
  in between, the theory in question says so.
\<close>

section \<open>Tables\<close>

text \<open>
  The table \<open>projects\<close> is kept in three parts: identifier and name in \<open>tb_projects\<close>, the column
  \<open>created_by\<close> in \<open>tb_project_owner\<close> (no entry is NULL), and the other columns, those of migrations 018, 019,
  020 and 031, in \<open>tb_project_cols\<close>.
\<close>

record ProjectCols =
  pc_Slug :: string
  pc_Description :: "string option"
  pc_IconColor :: string
  pc_SourceKind :: string
  pc_RepoURL :: "string option"
  pc_RepoProvider :: "string option"
  pc_DefaultBranch :: string
  pc_AutoscanOnPush :: bool
  pc_Tags :: "string list option"
  pc_Status :: string
  pc_SetupCompleted :: bool
  pc_Pinned :: bool
  pc_Visibility :: string
  pc_SLACriticalDays :: "int option"
  pc_SLAHighDays :: "int option"
  pc_SLAMediumDays :: "int option"
  pc_SLALowDays :: "int option"
  pc_SLANotifyBeforeDays :: int
  pc_TeamID :: "uuid option"
  pc_CreatedAt :: time
  pc_UpdatedAt :: time

record SavedView =
  sv_ID :: uuid
  sv_UserID :: uuid
  sv_Name :: string
  sv_Query :: json
  sv_CreatedAt :: time
  sv_UpdatedAt :: time

text \<open>Structs the repositories answer with.\<close>

record QuickPeekFinding =
  qf_ID :: uuid
  qf_Title :: string
  qf_Severity :: int
  qf_Status :: int

record QuickPeekEvent =
  qe_ID :: uuid
  qe_Action :: string
  qe_Method :: string
  qe_Path :: string
  qe_CreatedAt :: time
  qe_UserID :: "uuid option"

record QuickPeekStatusStats =
  qs_New :: nat
  qs_Triaged :: nat
  qs_Fixed :: nat
  qs_Wontfix :: nat

record WorkspaceMember =
  wm_ID :: uuid
  wm_Email :: string
  wm_DisplayName :: string

record EnrichmentCoverage =
  cov_NVD :: real
  cov_EPSS :: real
  cov_KEV :: real
  cov_BDU :: real

record DashboardStats =
  ds_TotalFindings :: nat
  ds_TotalOpen :: nat
  ds_TotalCriticalOpen :: nat
  ds_NewThisWeek :: nat
  ds_BySeverity :: "(int \<times> nat) list"
  ds_ByStatus :: "(int \<times> nat) list"
  ds_TopFindings :: "Finding list"
  ds_EnrichmentCoverage :: EnrichmentCoverage

record ProjectRoleRow =
  upr_UserID :: uuid
  upr_ProjectID :: uuid
  upr_Role :: int
  upr_GrantedBy :: "uuid option"
  upr_GrantedAt :: time

record ScanFindingRow =
  sf_ScanID :: uuid
  sf_FindingID :: uuid
  sf_IsNew :: bool

text \<open>The records of the audit log; the values of their change lists are JSON documents.\<close>

record AuditUAParsed =
  ua_Browser :: string
  ua_OS :: string
  ua_IsTor :: bool
  ua_IsVPN :: bool
  ua_IsDatacenter :: bool
  ua_CountryCode :: string

record AuditChange =
  ac_Field :: string
  ac_Before :: json
  ac_After :: json
  ac_PII :: bool

record AuditIntegrity =
  ai_Hash :: string
  ai_PrevHash :: string
  ai_Verified :: bool

record AuditRecord =
  au_ID :: uuid
  au_RequestID :: string
  au_TraceID :: string
  au_SessionID :: string
  au_Method :: string
  au_Path :: string
  au_FullPath :: string
  au_StatusCode :: int
  au_UserAgent :: string
  au_UAParsed :: "AuditUAParsed option"
  au_DurationMs :: int
  au_CreatedAt :: time
  au_IP :: "string option"
  au_UserID :: "uuid option"
  au_ResourceType :: "string option"
  au_ResourceID :: "string option"
  au_Action :: "string option"
  au_RiskLevel :: string
  au_RiskSignals :: "string list"
  au_Changes :: "AuditChange list"
  au_Integrity :: "AuditIntegrity option"
  au_UserEmail :: "string option"

text \<open>
  \<open>tb_role_names\<close> is the table \<open>roles\<close> (key and name), \<open>tb_user_roles\<close> pairs users with role keys,
  \<open>tb_groups\<close> has id, name, color and description.
\<close>

record DB =
  tb_findings :: "Finding list"
  tb_scores :: "(uuid \<times> real) list"
  tb_events :: "FindingEvent list"
  tb_reasons :: "ClosureReason list"
  tb_kev :: "string list"
  tb_epss :: "(string \<times> real) list"
  tb_cvss :: "(string \<times> real) list"
  tb_bdu :: "string list list"
  tb_users :: "User list"
  tb_sessions :: "Session list"
  tb_tokens :: "APIToken list"
  tb_roles :: "ProjectRoleRow list"
  tb_projects :: "(uuid \<times> string) list"
  tb_project_owner :: "(uuid \<times> uuid) list"
  tb_scans :: "Scan list"
  tb_scan_findings :: "ScanFindingRow list"
  tb_user_roles :: "(uuid \<times> string) list"
  tb_role_names :: "(string \<times> string) list"
  tb_groups :: "(uuid \<times> string \<times> string \<times> string option) list"
  tb_user_groups :: "(uuid \<times> uuid) list"
  tb_identities :: "(uuid \<times> string \<times> time option) list"
  tb_mfa :: "uuid list"
  tb_audit :: "AuditRecord list"
  tb_project_cols :: "(uuid \<times> ProjectCols) list"
  tb_teams :: "Team list"
  tb_saved_views :: "SavedView list"

definition DB_empty :: DB where
  "DB_empty = \<lparr>tb_findings = [], tb_scores = [], tb_events = [], tb_reasons = [], tb_kev = [],
     tb_epss = [], tb_cvss = [], tb_bdu = [], tb_users = [], tb_sessions = [], tb_tokens = [],
     tb_roles = [], tb_projects = [], tb_project_owner = [], tb_scans = [], tb_scan_findings = [],
     tb_user_roles = [], tb_role_names = [], tb_groups = [], tb_user_groups = [], tb_identities = [], tb_mfa = [],
     tb_audit = [], tb_project_cols = [], tb_teams = [], tb_saved_views = []\<rparr>"

section \<open>The in-memory snapshot of closure reasons\<close>

record closureReasonsSnapshot =
  snap_all :: "ClosureReason list"
  snap_byID :: "int \<rightharpoonup> ClosureReason"
  snap_byCode :: "string \<rightharpoonup> ClosureReason"

record ClosureReasonsRepo =
  crr_once :: bool
  crr_reloader :: bool
  crr_snapshot :: "closureReasonsSnapshot option"

section \<open>The world\<close>

record World =
  w_db :: DB
  w_faults :: "bool list"
  w_now :: time
  w_uuid :: "nat \<Rightarrow> uuid"
  w_next :: nat
  w_reasons :: ClosureReasonsRepo
  w_audit :: "AuditRecord list"

text \<open>A process just started on a database: nothing loaded, no fault ahead.\<close>

definition World_start :: "DB \<Rightarrow> time \<Rightarrow> World" where
  "World_start d now = \<lparr>w_db = d, w_faults = [], w_now = now, w_uuid = (\<lambda>n. word_of_nat (n + 1000)),
     w_next = 0, w_reasons = \<lparr>crr_once = False, crr_reloader = False, crr_snapshot = None\<rparr>, w_audit = []\<rparr>"

datatype err = ErrDB | ErrNoRows | ErrUnique | ErrBulkLimit nat | Err string

text \<open>\<open>err.Error()\<close>; the driver's own texts and the wrapping prefixes are left out.\<close>

definition err_text :: "err \<Rightarrow> string" where
  "err_text e = (case e of
     ErrDB \<Rightarrow> ''database error''
   | ErrNoRows \<Rightarrow> ''no rows in result set''
   | ErrUnique \<Rightarrow> ''duplicate key value violates unique constraint''
   | ErrBulkLimit n \<Rightarrow> ''group contains '' @ nat_digits n @ '' findings, exceeds bulk limit of 5000''
   | Err s \<Rightarrow> s)"

type_synonym 'a op = "World \<Rightarrow> (err + 'a) \<times> World"

definition uuid_New :: "World \<Rightarrow> uuid \<times> World" where
  "uuid_New w = (w_uuid w (w_next w), w\<lparr>w_next := Suc (w_next w)\<rparr>)"

text \<open>One call to the database: whether it goes through, and the world with its entry taken.\<close>

fun db_call :: "World \<Rightarrow> bool \<times> World" where
  "db_call w = (case w_faults w of [] \<Rightarrow> (True, w) | b # bs \<Rightarrow> (\<not> b, w\<lparr>w_faults := bs\<rparr>))"

declare db_call.simps [simp del]

definition db_query :: "(DB \<Rightarrow> 'a) \<Rightarrow> 'a op" where
  "db_query q w = (case db_call w of (ok, w) \<Rightarrow> if ok then (Inr (q (w_db w)), w) else (Inl ErrDB, w))"

text \<open>A query for one row: \<open>ErrNoRows\<close> when there is none.\<close>

definition db_query_row :: "(DB \<Rightarrow> 'a option) \<Rightarrow> 'a op" where
  "db_query_row q w = (case db_query q w of
     (Inl e, w) \<Rightarrow> (Inl e, w)
   | (Inr None, w) \<Rightarrow> (Inl ErrNoRows, w)
   | (Inr (Some x), w) \<Rightarrow> (Inr x, w))"

text \<open>A statement that changes the tables, or is refused by a constraint.\<close>

definition db_exec :: "(DB \<Rightarrow> err + 'a \<times> DB) \<Rightarrow> 'a op" where
  "db_exec stmt w = (case db_call w of (ok, w) \<Rightarrow>
     if \<not> ok then (Inl ErrDB, w)
     else case stmt (w_db w) of Inl e \<Rightarrow> (Inl e, w) | Inr (x, d) \<Rightarrow> (Inr x, w\<lparr>w_db := d\<rparr>))"

definition op_bind :: "'a op \<Rightarrow> ('a \<Rightarrow> 'b op) \<Rightarrow> 'b op" where
  "op_bind m k w = (case m w of (Inl e, w') \<Rightarrow> (Inl e, w') | (Inr x, w') \<Rightarrow> k x w')"

definition op_return :: "'a \<Rightarrow> 'a op" where
  "op_return x w = (Inr x, w)"

definition op_fail :: "err \<Rightarrow> 'a op" where
  "op_fail e w = (Inl e, w)"

text \<open>\<open>BeginTx\<close>, the body, and \<open>Commit\<close> or the deferred \<open>Rollback\<close>.\<close>

definition in_tx :: "'a op \<Rightarrow> 'a op" where
  "in_tx body w =
     (case db_call w of (ok, w1) \<Rightarrow>
        if \<not> ok then (Inl ErrDB, w1)
        else case body w1 of
          (Inl e, w2) \<Rightarrow> (Inl e, w2\<lparr>w_db := w_db w1\<rparr>)
        | (Inr x, w2) \<Rightarrow>
            (case db_call w2 of (ok, w3) \<Rightarrow>
               if ok then (Inr x, w3) else (Inl ErrDB, w3\<lparr>w_db := w_db w1\<rparr>)))"

lemmas op_defs = db_query_def db_query_row_def db_exec_def op_bind_def op_return_def op_fail_def

section \<open>Frame lemmas\<close>

lemma db_call_frame [simp]:
  "w_db (snd (db_call w)) = w_db w" "w_now (snd (db_call w)) = w_now w"
  "w_reasons (snd (db_call w)) = w_reasons w" "w_next (snd (db_call w)) = w_next w"
  "w_uuid (snd (db_call w)) = w_uuid w" "w_audit (snd (db_call w)) = w_audit w"
  by (auto simp: db_call.simps split: list.splits)

lemma db_call_ok [simp]: "w_faults w = [] \<Longrightarrow> db_call w = (True, w)"
  by (simp add: db_call.simps)

lemma db_call_db: "db_call w = (ok, w') \<Longrightarrow> w_db w' = w_db w"
  using db_call_frame(1) [of w] by simp

lemma db_query_ok [simp]: "w_faults w = [] \<Longrightarrow> db_query q w = (Inr (q (w_db w)), w)"
  by (simp add: db_query_def)

lemma db_query_row_ok [simp]:
  "w_faults w = [] \<Longrightarrow> db_query_row q w = (case q (w_db w) of None \<Rightarrow> (Inl ErrNoRows, w) | Some x \<Rightarrow> (Inr x, w))"
  by (simp add: db_query_row_def split: option.splits)

lemma db_exec_ok [simp]:
  "w_faults w = [] \<Longrightarrow> db_exec s w = (case s (w_db w) of Inl e \<Rightarrow> (Inl e, w) | Inr (x, d) \<Rightarrow> (Inr x, w\<lparr>w_db := d\<rparr>))"
  by (simp add: db_exec_def)

lemma db_query_db: "db_query q w = (r, w') \<Longrightarrow> w_db w' = w_db w"
  by (auto simp: db_query_def dest: db_call_db split: prod.splits if_splits)

lemma db_query_Inr: "db_query q w = (Inr x, w') \<Longrightarrow> x = q (w_db w)"
  by (auto simp: db_query_def dest: db_call_db split: prod.splits if_splits)

lemma db_query_row_db: "db_query_row q w = (r, w') \<Longrightarrow> w_db w' = w_db w"
  by (auto simp: db_query_row_def dest: db_query_db split: prod.splits sum.splits option.splits)

lemma db_query_row_Inr: "db_query_row q w = (Inr x, w') \<Longrightarrow> q (w_db w) = Some x"
  by (auto simp: db_query_row_def dest: db_query_Inr split: prod.splits sum.splits option.splits)

lemma db_exec_Inl: "db_exec s w = (Inl e, w') \<Longrightarrow> w_db w' = w_db w"
  by (auto simp: db_exec_def dest: db_call_db split: prod.splits sum.splits if_splits)

lemma db_exec_Inr: "db_exec s w = (Inr x, w') \<Longrightarrow> s (w_db w) = Inr (x, w_db w')"
  by (auto simp: db_exec_def dest: db_call_db split: prod.splits sum.splits if_splits)

text \<open>What no call to the database touches: the clock, the supply of ids, the snapshot.\<close>

definition same_env :: "World \<Rightarrow> World \<Rightarrow> bool" where
  "same_env w w' \<longleftrightarrow> w_now w' = w_now w \<and> w_uuid w' = w_uuid w \<and> w_next w' = w_next w \<and> w_reasons w' = w_reasons w \<and>
     w_audit w' = w_audit w"

lemma db_call_env: "db_call w = (ok, w') \<Longrightarrow> same_env w w'"
  using db_call_frame [of w] by (simp add: same_env_def)

lemma db_query_env: "db_query q w = (r, w') \<Longrightarrow> same_env w w'"
  by (auto simp: db_query_def dest: db_call_env split: prod.splits if_splits)

lemma db_query_row_env: "db_query_row q w = (r, w') \<Longrightarrow> same_env w w'"
  by (auto simp: db_query_row_def dest: db_query_env split: prod.splits sum.splits option.splits)

lemma db_exec_env: "db_exec s w = (r, w') \<Longrightarrow> same_env w w'"
  by (auto simp: db_exec_def same_env_def dest!: db_call_env split: prod.splits sum.splits if_splits)

text \<open>A transaction changes the tables only when it succeeds, and then as its body did.\<close>

lemma in_tx_Inl: "in_tx body w = (Inl e, w') \<Longrightarrow> w_db w' = w_db w"
  by (auto simp: in_tx_def dest: db_call_db split: prod.splits sum.splits if_splits)

lemma in_tx_Inr:
  assumes "in_tx body w = (Inr x, w')"
  obtains w1 w2 where "db_call w = (True, w1)" "body w1 = (Inr x, w2)" "w_db w' = w_db w2" "db_call w2 = (True, w')"
  using assms by (auto simp: in_tx_def dest: db_call_db split: prod.splits sum.splits if_splits)

section \<open>Operations that leave the tables alone when they fail\<close>

locale atomic_op =
  fixes f :: "'a op"
  assumes Inl_unchanged: "f w = (Inl e, w') \<Longrightarrow> w_db w' = w_db w"

context atomic_op
begin

lemma changed_ok: "f w = (r, w') \<Longrightarrow> w_db w' \<noteq> w_db w \<Longrightarrow> \<exists>x. r = Inr x"
  using Inl_unchanged by (cases r) auto

lemma after_query: "db_query q w = (Inr x, w1) \<Longrightarrow> f w1 = (Inl e, w') \<Longrightarrow> w_db w' = w_db w"
  using Inl_unchanged db_query_db by metis

end

interpretation query: atomic_op "db_query q" for q :: "DB \<Rightarrow> 'a"
  by unfold_locales (rule db_query_db)

interpretation query_row: atomic_op "db_query_row q" for q :: "DB \<Rightarrow> 'a option"
  by unfold_locales (rule db_query_row_db)

interpretation exec: atomic_op "db_exec s" for s :: "DB \<Rightarrow> err + 'a \<times> DB"
  by unfold_locales (rule db_exec_Inl)

interpretation tx: atomic_op "in_tx body" for body :: "'a op"
  by unfold_locales (rule in_tx_Inl)

end
