(* ===== verification/ClosureReasons.thy ===== *)
theory ClosureReasons
  imports Db "HOL-Library.Multiset"
begin

text \<open>
  \<open>internal/storage/closure_reasons_repo.go\<close>: the closure reasons, read from their table once and
  kept in an atomically replaced snapshot that a background goroutine reloads every five minutes.
  The repository provides the interface \<open>ClosureReasonLookup\<close> of the triage actions.
\<close>

section \<open>Loading\<close>

definition active_reasons :: "DB \<Rightarrow> ClosureReason list" where
  "active_reasons d = sort_key cr_ID (filter cr_IsActive (tb_reasons d))"

definition snapshot_add :: "closureReasonsSnapshot \<Rightarrow> ClosureReason \<Rightarrow> closureReasonsSnapshot" where
  "snapshot_add snap cr = snap\<lparr>snap_all := snap_all snap @ [cr],
     snap_byID := (snap_byID snap)(cr_ID cr \<mapsto> cr), snap_byCode := (snap_byCode snap)(cr_Code cr \<mapsto> cr)\<rparr>"

definition build_snapshot :: "ClosureReason list \<Rightarrow> closureReasonsSnapshot" where
  "build_snapshot rows =
     foldl snapshot_add \<lparr>snap_all = [], snap_byID = Map.empty, snap_byCode = Map.empty\<rparr> rows"

definition reload :: "unit op" where
  "reload w = (case db_query active_reasons w of
     (Inl e, w) \<Rightarrow> (Inl e, w)
   | (Inr rows, w) \<Rightarrow>
       (Inr (), w\<lparr>w_reasons := (w_reasons w)\<lparr>crr_snapshot := Some (build_snapshot rows)\<rparr>\<rparr>))"

text \<open>
  \<open>once.Do\<close> runs its function on the first call only, whether or not that call fails; the
  goroutine of the reloader is started when it does not fail.
\<close>

definition EnsureLoaded :: "unit op" where
  "EnsureLoaded w =
     (case (if crr_once (w_reasons w) then (Inr (), w)
            else case reload (w\<lparr>w_reasons := (w_reasons w)\<lparr>crr_once := True\<rparr>\<rparr>) of
              (Inl e, w) \<Rightarrow> (Inl e, w)
            | (Inr _, w) \<Rightarrow> (Inr (), w\<lparr>w_reasons := (w_reasons w)\<lparr>crr_reloader := True\<rparr>\<rparr>)) of
        (Inl onceErr, w) \<Rightarrow> (Inl onceErr, w)
      | (Inr _, w) \<Rightarrow>
          (case crr_snapshot (w_reasons w) of
             None \<Rightarrow> (Inl (Err ''storage.ClosureReasonsRepo.EnsureLoaded: snapshot not ready''), w)
           | Some _ \<Rightarrow> (Inr (), w)))"

text \<open>One tick of \<open>runReloader\<close>: the error is dropped.\<close>

definition runReloader_tick :: "World \<Rightarrow> World" where
  "runReloader_tick w = snd (reload w)"

section \<open>Lookups\<close>

definition ListActive :: "ClosureReason list op" where
  "ListActive w = (case EnsureLoaded w of
     (Inl e, w) \<Rightarrow> (Inl e, w)
   | (Inr _, w) \<Rightarrow> (Inr (snap_all (the (crr_snapshot (w_reasons w)))), w))"

definition ClosureReasonsRepo_GetByID :: "int \<Rightarrow> ClosureReason option op" where
  "ClosureReasonsRepo_GetByID i w = (case EnsureLoaded w of
     (Inl e, w) \<Rightarrow> (Inl e, w)
   | (Inr _, w) \<Rightarrow> (Inr (snap_byID (the (crr_snapshot (w_reasons w))) i), w))"

definition GetByCode :: "string \<Rightarrow> ClosureReason option op" where
  "GetByCode code w = (case EnsureLoaded w of
     (Inl e, w) \<Rightarrow> (Inl e, w)
   | (Inr _, w) \<Rightarrow> (Inr (snap_byCode (the (crr_snapshot (w_reasons w))) code), w))"

definition ByCode :: "ClosureReasonsRepo \<Rightarrow> ClosureReasonLookup" where
  "ByCode r code = (case crr_snapshot r of None \<Rightarrow> None | Some snap \<Rightarrow> snap_byCode snap code)"

section \<open>The snapshot\<close>

lemma build_snapshot_all [simp]: "snap_all (build_snapshot rows) = rows"
proof -
  have "snap_all (foldl snapshot_add s rows) = snap_all s @ rows" for s
    by (induction rows arbitrary: s) (simp_all add: snapshot_add_def)
  then show ?thesis by (simp add: build_snapshot_def)
qed

lemma build_snapshot_byCode:
  "snap_byCode (build_snapshot rows) = map_of (rev (map (\<lambda>r. (cr_Code r, r)) rows))"
proof -
  have "snap_byCode (foldl snapshot_add s rows) = snap_byCode s ++ map_of (rev (map (\<lambda>r. (cr_Code r, r)) rows))" for s
    by (induction rows arbitrary: s) (auto simp: snapshot_add_def)
  then show ?thesis by (simp add: build_snapshot_def)
qed

lemma build_snapshot_byID:
  "snap_byID (build_snapshot rows) = map_of (rev (map (\<lambda>r. (cr_ID r, r)) rows))"
proof -
  have "snap_byID (foldl snapshot_add s rows) = snap_byID s ++ map_of (rev (map (\<lambda>r. (cr_ID r, r)) rows))" for s
    by (induction rows arbitrary: s) (auto simp: snapshot_add_def)
  then show ?thesis by (simp add: build_snapshot_def)
qed

lemma byCode_row:
  assumes "snap_byCode (build_snapshot rows) code = Some r"
  shows "r \<in> set rows" "cr_Code r = code"
  using assms by (auto simp: build_snapshot_byCode dest!: map_of_SomeD)

lemma byCode_of_row:
  assumes "r \<in> set rows" and "distinct (map cr_Code rows)"
  shows "snap_byCode (build_snapshot rows) (cr_Code r) = Some r"
  unfolding build_snapshot_byCode using assms
  by (intro map_of_is_SomeI) (auto simp: rev_map [symmetric] comp_def)

lemma active_reasons_set [simp]: "set (active_reasons d) = {r \<in> set (tb_reasons d). cr_IsActive r}"
  by (auto simp: active_reasons_def)

text \<open>The lookup on a snapshot of the table: what a triage action sees.\<close>

definition snapshot_lookup :: "DB \<Rightarrow> ClosureReasonLookup" where
  "snapshot_lookup d = snap_byCode (build_snapshot (active_reasons d))"

interpretation table: closure_lookup "snapshot_lookup d" for d
  by unfold_locales (auto simp: snapshot_lookup_def dest: byCode_row)

text \<open>The rows migration 008 inserts.\<close>

definition seed_reasons :: "ClosureReason list" where
  "seed_reasons = [
     \<lparr>cr_ID = 1, cr_Code = ''false_positive'', cr_Label = ''False Positive'', cr_TargetStatus = 2, cr_RequiresNote = False, cr_IsActive = True\<rparr>,
     \<lparr>cr_ID = 2, cr_Code = ''acceptable_risk'', cr_Label = ''Acceptable Risk'', cr_TargetStatus = 4, cr_RequiresNote = True, cr_IsActive = True\<rparr>,
     \<lparr>cr_ID = 3, cr_Code = ''mitigated'', cr_Label = ''Mitigated'', cr_TargetStatus = 3, cr_RequiresNote = False, cr_IsActive = True\<rparr>,
     \<lparr>cr_ID = 4, cr_Code = ''duplicate'', cr_Label = ''Duplicate'', cr_TargetStatus = 3, cr_RequiresNote = False, cr_IsActive = True\<rparr>,
     \<lparr>cr_ID = 5, cr_Code = ''not_applicable'', cr_Label = ''Not Applicable'', cr_TargetStatus = 2, cr_RequiresNote = True, cr_IsActive = True\<rparr>]"

definition DB_seed :: DB where
  "DB_seed = DB_empty\<lparr>tb_reasons := seed_reasons\<rparr>"

lemma active_seed [simp]: "active_reasons DB_seed = seed_reasons"
  by (simp add: active_reasons_def DB_seed_def DB_empty_def seed_reasons_def)

interpretation seed: closing_lookup "snapshot_lookup DB_seed"
proof
  fix code r
  assume "snapshot_lookup DB_seed code = Some r"
  then have "r \<in> set seed_reasons" by (auto simp: snapshot_lookup_def dest: byCode_row)
  then show "is_closed_status (cr_TargetStatus r)" by (auto simp: seed_reasons_def)
qed

section \<open>Loading once\<close>

lemma reload_ok: "w_faults w = [] \<Longrightarrow>
  reload w = (Inr (), w\<lparr>w_reasons := (w_reasons w)\<lparr>crr_snapshot := Some (build_snapshot (active_reasons (w_db w)))\<rparr>\<rparr>)"
  by (simp add: reload_def)

lemma reload_Inl: "reload w = (Inl e, w') \<Longrightarrow> w_reasons w' = w_reasons w"
  by (auto simp: reload_def db_query_def split: prod.splits if_splits)
    (metis db_call_frame(3) snd_conv)

lemma reload_db: "reload w = (r, w') \<Longrightarrow> w_db w' = w_db w"
  by (auto simp: reload_def dest: db_query_db split: prod.splits sum.splits)

lemma reload_snapshot:
  assumes "crr_snapshot (w_reasons w) \<noteq> None"
  shows "crr_snapshot (w_reasons (snd (reload w))) \<noteq> None"
proof (cases "reload w")
  case (Pair r w')
  then show ?thesis using assms reload_Inl [of w _ w']
    by (cases r) (auto simp: reload_def split: prod.splits sum.splits)
qed

lemma reload_once: "crr_once (w_reasons (snd (reload w))) = crr_once (w_reasons w)"
  by (simp add: reload_def db_query_def split: prod.splits) (metis db_call_frame(3) snd_conv)

lemma EnsureLoaded_db: "EnsureLoaded w = (r, w') \<Longrightarrow> w_db w' = w_db w"
  by (auto simp: EnsureLoaded_def dest: reload_db split: if_splits prod.splits sum.splits option.splits)

lemma reload_env: "reload w = (r, w') \<Longrightarrow> w_now w' = w_now w \<and> w_uuid w' = w_uuid w \<and> w_next w' = w_next w"
proof -
  assume r: "reload w = (r, w')"
  obtain q w1 where q: "db_query active_reasons w = (q, w1)" by fastforce
  from r show ?thesis using db_query_env [OF q] by (cases q) (auto simp: reload_def q same_env_def)
qed

lemma EnsureLoaded_env:
  "EnsureLoaded w = (r, w') \<Longrightarrow> w_now w' = w_now w \<and> w_uuid w' = w_uuid w \<and> w_next w' = w_next w"
proof -
  assume e: "EnsureLoaded w = (r, w')"
  let ?w = "w\<lparr>w_reasons := (w_reasons w)\<lparr>crr_once := True\<rparr>\<rparr>"
  obtain q w1 where q: "reload ?w = (q, w1)" by fastforce
  from e show ?thesis using reload_env [OF q]
    by (cases q; cases "crr_once (w_reasons w)") (auto simp: EnsureLoaded_def q split: option.splits)
qed

lemma EnsureLoaded_Inr: "EnsureLoaded w = (Inr u, w') \<Longrightarrow> crr_snapshot (w_reasons w') \<noteq> None"
  by (auto simp: EnsureLoaded_def split: if_splits prod.splits sum.splits option.splits)

lemma EnsureLoaded_fresh:
  assumes "w_faults w = []" and "\<not> crr_once (w_reasons w)"
  shows "EnsureLoaded w = (Inr (), w\<lparr>w_reasons := \<lparr>crr_once = True, crr_reloader = True,
     crr_snapshot = Some (build_snapshot (active_reasons (w_db w)))\<rparr>\<rparr>)"
  using assms by (simp add: EnsureLoaded_def reload_ok)

lemma EnsureLoaded_loaded:
  "crr_once (w_reasons w) \<Longrightarrow> crr_snapshot (w_reasons w) = Some s \<Longrightarrow> EnsureLoaded w = (Inr (), w)"
  by (simp add: EnsureLoaded_def)

lemma EnsureLoaded_stuck:
  "crr_once (w_reasons w) \<Longrightarrow> crr_snapshot (w_reasons w) = None \<Longrightarrow>
   EnsureLoaded w = (Inl (Err ''storage.ClosureReasonsRepo.EnsureLoaded: snapshot not ready''), w)"
  by (simp add: EnsureLoaded_def)

text \<open>
  The life of the repository in a process: requests that need the reasons, ticks of the reloader once
  it runs, and anything else, which leaves the repository alone.
\<close>

inductive reasons_step :: "World \<Rightarrow> World \<Rightarrow> bool" where
  ensure: "EnsureLoaded w = (r, w') \<Longrightarrow> reasons_step w w'"
| tick: "crr_reloader (w_reasons w) \<Longrightarrow> reasons_step w (runReloader_tick w)"
| other: "w_reasons w' = w_reasons w \<Longrightarrow> reasons_step w w'"

inductive_cases reasons_stepE: "reasons_step w w'"

definition repo_failed :: "ClosureReasonsRepo \<Rightarrow> bool" where
  "repo_failed r \<longleftrightarrow> crr_once r \<and> \<not> crr_reloader r \<and> crr_snapshot r = None"

definition repo_loaded :: "ClosureReasonsRepo \<Rightarrow> bool" where
  "repo_loaded r \<longleftrightarrow> crr_once r \<and> crr_snapshot r \<noteq> None"

lemma failed_step: "reasons_step w w' \<Longrightarrow> repo_failed (w_reasons w) \<Longrightarrow> repo_failed (w_reasons w')"
  by (erule reasons_stepE) (auto simp: repo_failed_def EnsureLoaded_stuck)

lemma loaded_step: "reasons_step w w' \<Longrightarrow> repo_loaded (w_reasons w) \<Longrightarrow> repo_loaded (w_reasons w')"
  using reload_snapshot [of w] reload_once [of w]
  by (erule_tac reasons_stepE) (auto simp: repo_loaded_def EnsureLoaded_loaded runReloader_tick_def)

lemma failed_steps: "reasons_step\<^sup>*\<^sup>* w w' \<Longrightarrow> repo_failed (w_reasons w) \<Longrightarrow> repo_failed (w_reasons w')"
  by (induction rule: rtranclp_induct) (auto dest: failed_step)

lemma loaded_steps: "reasons_step\<^sup>*\<^sup>* w w' \<Longrightarrow> repo_loaded (w_reasons w) \<Longrightarrow> repo_loaded (w_reasons w')"
  by (induction rule: rtranclp_induct) (auto dest: loaded_step)

lemma first_load:
  assumes "w_reasons w = \<lparr>crr_once = False, crr_reloader = False, crr_snapshot = None\<rparr>"
    and "EnsureLoaded w = (r, w1)"
  shows "if isl r then repo_failed (w_reasons w1) else repo_loaded (w_reasons w1)"
proof -
  let ?w = "w\<lparr>w_reasons := (w_reasons w)\<lparr>crr_once := True\<rparr>\<rparr>"
  show ?thesis
  proof (cases "reload ?w")
    case (Pair s w2)
    moreover have "crr_once (w_reasons w2)" using reload_once [of ?w] Pair by simp
    ultimately show ?thesis using assms reload_Inl [of ?w _ w2]
      by (cases s) (auto simp: EnsureLoaded_def repo_failed_def repo_loaded_def reload_def
          split: prod.splits sum.splits option.splits)
  qed
qed

section \<open>Properties\<close>

text \<open>
  The closure reasons are loaded by the first request that needs them, and that attempt decides: if it
  fails, no later request ever gets them in the life of the process, whatever the database does in the
  meantime; if it succeeds, every later request does, also when reloading fails.
\<close>

theorem EnsureLoaded_decided_once:
  assumes "w_reasons w = \<lparr>crr_once = False, crr_reloader = False, crr_snapshot = None\<rparr>"
    and "EnsureLoaded w = (r, w1)" and "reasons_step\<^sup>*\<^sup>* w1 w2"
  shows "if isl r then \<exists>e. EnsureLoaded w2 = (Inl e, w2) else EnsureLoaded w2 = (Inr (), w2)"
proof (cases "isl r")
  case True
  then have "repo_failed (w_reasons w2)" using first_load [OF assms(1,2)] failed_steps [OF assms(3)] by simp
  then show ?thesis using True by (auto simp: repo_failed_def EnsureLoaded_stuck)
next
  case False
  then have "repo_loaded (w_reasons w2)" using first_load [OF assms(1,2)] loaded_steps [OF assms(3)] by simp
  then show ?thesis using False by (auto simp: repo_loaded_def EnsureLoaded_loaded)
qed

theorem EnsureLoaded_decided_once_witness:
  "let w = (World_start DB_seed 0)\<lparr>w_faults := [True]\<rparr>; w1 = snd (EnsureLoaded w)
   in w_faults w1 = [] \<and> (\<exists>e. EnsureLoaded w1 = (Inl e, w1))"
proof -
  let ?w = "(World_start DB_seed 0)\<lparr>w_faults := [True]\<rparr>"
  have e: "EnsureLoaded ?w = (Inl ErrDB, snd (EnsureLoaded ?w))" and f: "w_faults (snd (EnsureLoaded ?w)) = []"
    by (simp_all add: EnsureLoaded_def reload_def db_query_def db_call.simps World_start_def)
  show ?thesis using EnsureLoaded_decided_once [OF _ e rtranclp.rtrancl_refl] f
    by (simp add: World_start_def Let_def)
qed

text \<open>
  After a first load from the table, looking a code up gives exactly the active row with that code,
  and nothing for the codes of inactive rows.
\<close>

theorem GetByCode_active_row:
  assumes "w_faults w = []" and "\<not> crr_once (w_reasons w)" and "distinct (map cr_Code (tb_reasons (w_db w)))"
  shows "fst (GetByCode code w) = Inr (find (\<lambda>r. cr_IsActive r \<and> cr_Code r = code) (tb_reasons (w_db w)))"
proof -
  let ?rows = "tb_reasons (w_db w)" let ?P = "\<lambda>r. cr_IsActive r \<and> cr_Code r = code"
  have "mset (active_reasons (w_db w)) = mset (filter cr_IsActive ?rows)" by (simp add: active_reasons_def)
  then have d: "distinct (map cr_Code (active_reasons (w_db w)))"
    using assms(3) by (metis distinct_map_filter mset_eq_imp_distinct_iff mset_map)
  have "snap_byCode (build_snapshot (active_reasons (w_db w))) code = find ?P ?rows"
  proof (cases "find ?P ?rows")
    case None
    then have "snap_byCode (build_snapshot (active_reasons (w_db w))) code = None"
      using byCode_row [of "active_reasons (w_db w)" code]
      by (cases "snap_byCode (build_snapshot (active_reasons (w_db w))) code") (auto simp: find_None_iff)
    with None show ?thesis by simp
  next
    case (Some r)
    then have "r \<in> set (active_reasons (w_db w))" "cr_Code r = code" by (auto simp: find_Some_iff)
    then show ?thesis using byCode_of_row [OF _ d] Some by metis
  qed
  then show ?thesis using assms(1,2) by (simp add: GetByCode_def EnsureLoaded_fresh)
qed

theorem GetByCode_active_row_witness:
  "fst (GetByCode ''duplicate'' (World_start DB_seed 0)) = Inr (Some (seed_reasons ! 3))"
  using GetByCode_active_row [of "World_start DB_seed 0" "''duplicate''"]
  by (simp add: World_start_def DB_seed_def DB_empty_def seed_reasons_def)

text \<open>
  C19. With the reasons the migrations install, every triage action keeps the closure columns of a finding
  consistent (closed exactly when reason, note, time and author are set), except a change of status of
  a finding that is closed: that one leaves an open finding with the closure data of the old closure.
\<close>

theorem triage_closure_consistent:
  assumes "closure_consistent f" and "ApplyTo act now (snapshot_lookup DB_seed) f = Inr (act', f')"
  shows "closure_consistent f' \<longleftrightarrow> \<not> (is_closed_status (f_Status f) \<and> (\<exists>a. act = ChangeStatus a))"
proof (cases "is_closed_status (f_Status f) \<and> (\<exists>a. act = ChangeStatus a)")
  case True
  then show ?thesis using assms
    by (auto simp: ApplyTo_defs closure_consistent_def split: if_splits)
next
  case False
  then show ?thesis using seed.action_consistent [OF assms] by blast
qed

theorem triage_closure_consistent_witness:
  "\<exists>f'. ApplyTo (ChangeStatus \<lparr>cs_NewStatus = 1, cs_Note = [], cs_oldStatus = 0\<rparr>) 7 (snapshot_lookup DB_seed)
     (Finding_zero\<lparr>f_Status := 3, f_ClosureReasonID := Some 3, f_ClosureNote := Some [], f_ClosedAt := Some 5,
        f_ClosedBy := Some 9\<rparr>) = Inr (ChangeStatus \<lparr>cs_NewStatus = 1, cs_Note = [], cs_oldStatus = 3\<rparr>, f') \<and>
     \<not> closure_consistent f'"
proof -
  let ?f = "Finding_zero\<lparr>f_Status := 3, f_ClosureReasonID := Some 3, f_ClosureNote := Some [], f_ClosedAt := Some 5,
        f_ClosedBy := Some 9\<rparr>"
  have "ApplyTo (ChangeStatus \<lparr>cs_NewStatus = 1, cs_Note = [], cs_oldStatus = 0\<rparr>) 7 (snapshot_lookup DB_seed) ?f =
    Inr (ChangeStatus \<lparr>cs_NewStatus = 1, cs_Note = [], cs_oldStatus = 3\<rparr>, ?f\<lparr>f_Status := 1\<rparr>)"
    by (simp add: ApplyTo_defs)
  moreover have "closure_consistent ?f" by (simp add: closure_consistent_def)
  ultimately show ?thesis using triage_closure_consistent by auto
qed

text \<open>
  Closing an open or confirmed finding with a valid reason and reopening it gives the finding back,
  open and without closure data, and the event of the reopening names the status and the reason that
  the closure had set.
\<close>

theorem close_then_reopen:
  assumes "CloseAction_ApplyTo a now (snapshot_lookup DB_seed) f = Inr (a', f1)" and "closure_consistent f"
    and "\<not> is_closed_status (f_Status f)"
  shows "\<exists>b. ReopenAction_ApplyTo \<lparr>ro_Note = note, ro_previousStatus = 0, ro_previousReasonID = None\<rparr> f1 =
      Inr (b, f\<lparr>f_Status := StatusOpen\<rparr>) \<and>
    ev_Payload (ReopenAction_BuildEvent b i t u f1) =
      ReopenedPayload (cl_target a') (Some (cl_reasonID a')) (strings_TrimSpace note)"
proof -
  obtain r where r: "snapshot_lookup DB_seed (cl_ReasonCode a) = Some r"
    and a': "a' = a\<lparr>cl_reasonID := cr_ID r, cl_target := cr_TargetStatus r\<rparr>"
    and f1: "f1 = f\<lparr>f_Status := cr_TargetStatus r, f_ClosureReasonID := Some (cr_ID r),
              f_ClosureNote := Some (strings_TrimSpace (cl_Note a)), f_ClosedAt := Some now,
              f_ClosedBy := Some (cl_UserID a)\<rparr>"
    using assms(1) by (auto simp: table.close_result [where d = DB_seed] split: option.splits if_splits)
  have "is_closed_status (cr_TargetStatus r)" using r by (rule seed.ByCode_closes)
  then show ?thesis using assms(2,3)
    by (auto simp: ReopenAction_ApplyTo_def ReopenAction_BuildEvent_def a' f1 closure_consistent_def)
qed

theorem close_then_reopen_witness:
  "\<exists>a' f1 b. CloseAction_ApplyTo \<lparr>cl_ReasonCode = ''mitigated'', cl_Note = ''done'', cl_UserID = 3, cl_reasonID = 0, cl_target = 0\<rparr>
       9 (snapshot_lookup DB_seed) Finding_zero = Inr (a', f1) \<and> f_Status f1 = StatusResolved \<and>
     ReopenAction_ApplyTo \<lparr>ro_Note = [], ro_previousStatus = 0, ro_previousReasonID = None\<rparr> f1 = Inr (b, Finding_zero)"
proof -
  let ?a = "\<lparr>cl_ReasonCode = ''mitigated'', cl_Note = ''done'', cl_UserID = 3, cl_reasonID = 0, cl_target = 0\<rparr>"
  have r: "snapshot_lookup DB_seed ''mitigated'' = Some (seed_reasons ! 2)"
    by (simp add: snapshot_lookup_def build_snapshot_byCode) (simp add: seed_reasons_def)
  have c: "\<exists>a' f1. CloseAction_ApplyTo ?a 9 (snapshot_lookup DB_seed) Finding_zero = Inr (a', f1) \<and> f_Status f1 = 3"
    by (simp add: table.close_result [where d = DB_seed] r) (simp add: seed_reasons_def)
  have z: "closure_consistent Finding_zero" "\<not> is_closed_status (f_Status Finding_zero)"
    "Finding_zero\<lparr>f_Status := StatusOpen\<rparr> = Finding_zero"
    by (simp_all add: Finding_zero_def closure_consistent_def)
  show ?thesis using c close_then_reopen [OF _ z(1,2), of ?a 9 _ _ "[]"] z(3) by fastforce
qed

end
