(* ===== verification/Sql.thy ===== *)
theory Sql
  imports Prelude "HOL-Library.Product_Lexorder"
begin

text \<open>
  What the queries of \<open>internal/storage\<close> share: conditions collected in a list, patterns, the order of
  rows, and listings with a cursor. A condition is a predicate on rows; comparing a NULL column is never
  true.

  The listings with a cursor are as \<open>findings_repo.go\<close>, \<open>finding_events_repo.go\<close> and
  \<open>audit_log_repo.go\<close> write them: the rows in the order of a key, and the next page as the first rows
  whose key lies behind the key of the last row shown.
\<close>

section \<open>Conditions\<close>

text \<open>\<open>LIKE\<close> on lower-case texts (\<open>ILIKE\<close>): the wild cards and the escape character.\<close>

fun sql_like :: "string \<Rightarrow> string \<Rightarrow> bool" where
  "sql_like [] s = (s = [])"
| "sql_like (p # ps) s =
     (if p = CHR ''%'' then (sql_like ps s \<or> (case s of [] \<Rightarrow> False | c # cs \<Rightarrow> sql_like (p # ps) cs))
      else case s of [] \<Rightarrow> False
        | c # cs \<Rightarrow> if p = CHR ''_'' then sql_like ps cs
            else if p = CHR 0x5C then (case ps of [] \<Rightarrow> False | q # qs \<Rightarrow> q = c \<and> sql_like qs cs)
            else p = c \<and> sql_like ps cs)"

definition ILIKE :: "string \<Rightarrow> string \<Rightarrow> bool" where
  "ILIKE s pat = sql_like (strings_ToLower pat) (strings_ToLower s)"

text \<open>\<open>col = ANY(...)\<close> on a column that may be NULL.\<close>

definition any_eq :: "'a option \<Rightarrow> 'a list \<Rightarrow> bool" where
  "any_eq v xs = (case v of None \<Rightarrow> False | Some x \<Rightarrow> x \<in> set xs)"

text \<open>One condition of a query, appended when its guard holds.\<close>

definition cond_if :: "bool \<Rightarrow> ('a \<Rightarrow> bool) \<Rightarrow> ('a \<Rightarrow> bool) list" where
  "cond_if b c = (if b then [c] else [])"

definition whereClause :: "('a \<Rightarrow> bool) list \<Rightarrow> 'a \<Rightarrow> bool" where
  "whereClause conds = (\<lambda>f. list_all (\<lambda>c. c f) conds)"

lemma whereClause_append [simp]: "whereClause (xs @ ys) f \<longleftrightarrow> whereClause xs f \<and> whereClause ys f"
  by (simp add: whereClause_def)

lemma whereClause_Nil [simp]: "whereClause [] f"
  by (simp add: whereClause_def)

lemma whereClause_Cons [simp]: "whereClause (c # cs) f \<longleftrightarrow> c f \<and> whereClause cs f"
  by (simp add: whereClause_def)

lemma whereClause_cond_if [simp]: "whereClause (cond_if b c) f \<longleftrightarrow> (b \<longrightarrow> c f)"
  by (simp add: cond_if_def)

section \<open>Ordered rows\<close>

text \<open>\<open>ORDER BY col dir, id dir\<close>.\<close>

definition order_rows :: "bool \<Rightarrow> ('a \<Rightarrow> 'k::linorder) \<Rightarrow> 'a list \<Rightarrow> 'a list" where
  "order_rows asc key rows = (if asc then sort_key key rows else rev (sort_key key rows))"

definition key_before :: "bool \<Rightarrow> 'k::linorder \<Rightarrow> 'k \<Rightarrow> bool" where
  "key_before asc a b = (if asc then a < b else b < a)"

lemma order_filter: "order_rows asc key (filter P xs) = filter P (order_rows asc key xs)"
  by (simp add: order_rows_def filter_sort flip: rev_filter)

lemma set_order_rows [simp]: "set (order_rows asc key xs) = set xs"
  by (simp add: order_rows_def)

lemma length_order_rows [simp]: "length (order_rows asc key xs) = length xs"
  by (simp add: order_rows_def)

lemma distinct_order_rows: "distinct (map g (order_rows asc key xs)) = distinct (map g xs)"
  by (simp add: order_rows_def distinct_map flip: rev_map)

text \<open>The order depends only on how the keys compare.\<close>

lemma insort_key_cong:
  "(\<And>y. y \<in> set xs \<Longrightarrow> f x \<le> f y \<longleftrightarrow> g x \<le> g y) \<Longrightarrow> insort_key f x xs = insort_key g x xs"
  by (induction xs) auto

lemma sort_key_cong_le:
  assumes "\<And>x y. x \<in> set xs \<Longrightarrow> y \<in> set xs \<Longrightarrow> f x \<le> f y \<longleftrightarrow> g x \<le> g y"
  shows "sort_key f xs = sort_key g xs"
  using assms
proof (induction xs)
  case (Cons x xs)
  then have "sort_key f xs = sort_key g xs" by simp
  moreover have "insort_key f x (sort_key g xs) = insort_key g x (sort_key g xs)"
    using Cons.prems by (intro insort_key_cong) auto
  ultimately show ?case by simp
qed simp

lemma order_rows_cong_le:
  assumes "\<And>x y. x \<in> set xs \<Longrightarrow> y \<in> set xs \<Longrightarrow> f x \<le> f y \<longleftrightarrow> g x \<le> g y"
  shows "order_rows asc f xs = order_rows asc g xs"
  using sort_key_cong_le [OF assms] by (simp add: order_rows_def)

lemma sorted_order_rows:
  assumes "distinct (map key xs)"
  shows "sorted_wrt (\<lambda>x y. key_before asc (key x) (key y)) (order_rows asc key xs)"
proof -
  have "sorted_wrt (<) (map key (sort_key key xs))"
    using assms by (simp add: strict_sorted_iff distinct_map)
  then have s: "sorted_wrt (\<lambda>x y. key x < key y) (sort_key key xs)" by (simp add: sorted_wrt_map)
  then show ?thesis by (cases asc) (auto simp: order_rows_def key_before_def sorted_wrt_rev)
qed

lemma filter_after:
  assumes "sorted_wrt R xs" and "\<And>a b. R a b \<Longrightarrow> \<not> R b a" and "k < length xs"
  shows "filter (R (xs ! k)) xs = drop (Suc k) xs"
proof -
  have "\<not> R (xs ! k) x" if "x \<in> set (take (Suc k) xs)" for x
  proof -
    from that obtain j where j: "j \<le> k" "x = xs ! j" by (auto simp: in_set_conv_nth less_Suc_eq_le)
    then show ?thesis using assms(1,3) assms(2) [of x "xs ! k"] assms(2) [of x x]
      by (cases "j = k") (auto simp: sorted_wrt_iff_nth_less)
  qed
  moreover have "R (xs ! k) x" if "x \<in> set (drop (Suc k) xs)" for x
  proof -
    from that obtain j where "j < length xs - Suc k" "x = xs ! (Suc k + j)" by (auto simp: in_set_conv_nth)
    then show ?thesis using assms(1,3) by (auto simp: sorted_wrt_iff_nth_less)
  qed
  ultimately have "filter (R (xs ! k)) (take (Suc k) xs @ drop (Suc k) xs) = [] @ drop (Suc k) xs"
    unfolding filter_append by (intro arg_cong2 [where f = append]) (auto simp: filter_empty_conv filter_id_conv)
  then show ?thesis by simp
qed

section \<open>Pages\<close>

text \<open>The rows behind a cursor, and the cursor that leads to the rows from the k-th on.\<close>

definition rows_after :: "bool \<Rightarrow> ('a \<Rightarrow> 'k::linorder) \<Rightarrow> 'k option \<Rightarrow> 'a list \<Rightarrow> 'a list" where
  "rows_after asc key c rows = (case c of None \<Rightarrow> rows | Some k \<Rightarrow> filter (\<lambda>r. key_before asc k (key r)) rows)"

definition cursor_at :: "('a \<Rightarrow> 'k) \<Rightarrow> 'a list \<Rightarrow> nat \<Rightarrow> 'k option" where
  "cursor_at key xs k = (if k = 0 then None else Some (key (xs ! (k - 1))))"

lemma cursor_at_add: "0 < n \<Longrightarrow> k + n \<le> length xs \<Longrightarrow> Some (key (drop k xs ! (n - 1))) = cursor_at key xs (k + n)"
  by (simp add: cursor_at_def)

text \<open>
  The contract of such a listing over states \<open>'s\<close>: in good states no two rows have the same key. Then the
  cursor of the k-th row leads to the rows behind it.
\<close>

locale keyset =
  fixes ok :: "'s \<Rightarrow> bool" and rows :: "'s \<Rightarrow> 'a list" and key :: "'a \<Rightarrow> 'k::linorder" and asc :: bool
  assumes keys_distinct: "ok s \<Longrightarrow> distinct (map key (rows s))"

context keyset
begin

lemma rows_behind:
  assumes "ok s" and "k < length (rows s)"
  shows "order_rows asc key (rows_after asc key (Some (key (order_rows asc key (rows s) ! k))) (rows s)) =
    drop (Suc k) (order_rows asc key (rows s))"
proof -
  let ?xs = "order_rows asc key (rows s)"
  have "filter (\<lambda>y. key_before asc (key (?xs ! k)) (key y)) ?xs = drop (Suc k) ?xs"
    using sorted_order_rows [OF keys_distinct [OF assms(1)]] assms(2)
    by (intro filter_after [where R = "\<lambda>x y. key_before asc (key x) (key y)"]) (auto simp: key_before_def split: if_splits)
  then show ?thesis by (simp add: rows_after_def order_filter)
qed

lemma page_at:
  assumes "ok s" and "k \<le> length (rows s)"
  shows "order_rows asc key (rows_after asc key (cursor_at key (order_rows asc key (rows s)) k) (rows s)) =
    drop k (order_rows asc key (rows s))"
  using rows_behind [OF assms(1), of "k - 1"] assms(2) by (cases k) (auto simp: rows_after_def cursor_at_def)

end

end
