(* ===== verification/FindingsRepo.thy ===== *)
theory FindingsRepo
  imports ClosureReasons Sql
begin

text \<open>
  \<open>internal/storage/findings_repo.go\<close> and the parts of \<open>finding_events_repo.go\<close> a triage
  needs: inserting findings with deduplication by fingerprint, the filter of every findings query,
  listing with a cursor, facets, groups, and applying triage actions in a transaction.

  A SQL condition is a predicate on rows, so the list of conditions \<open>buildBaseWhere\<close> collects is a
  list of predicates, and \<open>whereClause\<close> their conjunction. Comparing a NULL column is never true.
\<close>

section \<open>Inserting\<close>

definition findingKindToDB :: "FindingKind \<Rightarrow> err + int" where
  "findingKindToDB kind =
     (if kind < - 32768 \<or> kind > 32767 then Inl (Err ''finding kind is out of int16 range'') else Inr kind)"

text \<open>The row the \<open>INSERT\<close> writes: the columns it does not list are NULL.\<close>

definition inserted_row :: "Finding \<Rightarrow> Finding" where
  "inserted_row f = f\<lparr>f_PriorityScore := None, f_ClosureReasonID := None, f_ClosureNote := None,
     f_ClosedAt := None, f_ClosedBy := None, f_AssignedTo := None, f_AssigneeEmail := [],
     f_InKEV := False, f_InBDU := False, f_MaxEPSS := None, f_MaxCVSS := None, f_ProjectName := []\<rparr>"

text \<open>\<open>ON CONFLICT (fingerprint) DO UPDATE\<close>.\<close>

definition seen_again :: "Finding \<Rightarrow> Finding \<Rightarrow> Finding" where
  "seen_again excluded row = row\<lparr>f_LastSeen := f_LastSeen excluded, f_TimesSeen := f_TimesSeen row + 1,
     f_SecretFingerprint := (case f_SecretFingerprint excluded of Some s \<Rightarrow> Some s | None \<Rightarrow> f_SecretFingerprint row)\<rparr>"

definition upsert_finding :: "Finding \<Rightarrow> DB \<Rightarrow> err + (uuid \<times> bool) \<times> DB" where
  "upsert_finding f d =
     (case find (\<lambda>r. f_Fingerprint r = f_Fingerprint f) (tb_findings d) of
        Some old \<Rightarrow>
          Inr ((f_ID old, False),
               d\<lparr>tb_findings := map (\<lambda>r. if f_Fingerprint r = f_Fingerprint f then seen_again f r else r) (tb_findings d)\<rparr>)
      | None \<Rightarrow>
          if f_ID f \<in> f_ID ` set (tb_findings d) then Inl ErrUnique
          else if f_ProjectID f \<notin> fst ` set (tb_projects d) then Inl (Err ''violates foreign key constraint'')
          else Inr ((f_ID f, True), d\<lparr>tb_findings := tb_findings d @ [inserted_row f]\<rparr>))"

text \<open>The defaults \<open>Create\<close> fills in before the statement.\<close>

definition create_defaults :: "Finding \<Rightarrow> World \<Rightarrow> Finding \<times> World" where
  "create_defaults f w =
     (let (f, w) = (if f_ID f = uuid_Nil then (case uuid_New w of (i, w) \<Rightarrow> (f\<lparr>f_ID := i\<rparr>, w)) else (f, w));
          f = (if f_FirstSeen f = 0 then f\<lparr>f_FirstSeen := w_now w\<rparr> else f);
          f = (if f_LastSeen f = 0 then f\<lparr>f_LastSeen := w_now w\<rparr> else f);
          f = (if f_TimesSeen f = 0 then f\<lparr>f_TimesSeen := 1\<rparr> else f)
      in (f, w))"

text \<open>\<open>Create\<close> returns whether a row was inserted, and the finding with the id of its row.\<close>

definition FindingsRepo_Create :: "Finding \<Rightarrow> (bool \<times> Finding) op" where
  "FindingsRepo_Create f w =
     (case create_defaults f w of (f, w) \<Rightarrow>
        (case findingKindToDB (f_Kind f) of
           Inl e \<Rightarrow> (Inl e, w)
         | Inr kind \<Rightarrow>
             (case db_exec (upsert_finding (f\<lparr>f_Kind := kind\<rparr>)) w of
                (Inl e, w) \<Rightarrow> (Inl e, w)
              | (Inr (i, inserted), w) \<Rightarrow> (Inr (inserted, f\<lparr>f_ID := i\<rparr>), w))))"

text \<open>The same statement inside a transaction of the caller.\<close>

definition FindingsRepo_CreateTx :: "Finding \<Rightarrow> (bool \<times> Finding) op" where
  "FindingsRepo_CreateTx f w =
     (case create_defaults f w of (f, w) \<Rightarrow>
        (case findingKindToDB (f_Kind f) of
           Inl e \<Rightarrow> (Inl e, w)
         | Inr kind \<Rightarrow>
             (case db_exec (upsert_finding (f\<lparr>f_Kind := kind\<rparr>)) w of
                (Inl e, w) \<Rightarrow> (Inl e, w)
              | (Inr (i, inserted), w) \<Rightarrow> (Inr (inserted, f\<lparr>f_ID := i\<rparr>), w))))"

section \<open>Reading one finding\<close>

definition with_score :: "DB \<Rightarrow> Finding \<Rightarrow> Finding" where
  "with_score d f = f\<lparr>f_PriorityScore := map_of (tb_scores d) (f_ID f)\<rparr>"

definition finding_by_id :: "uuid \<Rightarrow> DB \<Rightarrow> Finding option" where
  "finding_by_id i d = map_option (with_score d) (find (\<lambda>f. f_ID f = i) (tb_findings d))"

definition FindingsRepo_GetByID :: "uuid \<Rightarrow> Finding op" where
  "FindingsRepo_GetByID i = db_query_row (finding_by_id i)"

definition FindingsRepo_GetProjectID :: "uuid \<Rightarrow> uuid op" where
  "FindingsRepo_GetProjectID i =
     db_query_row (\<lambda>d. map_option f_ProjectID (find (\<lambda>f. f_ID f = i) (tb_findings d)))"

text \<open>\<open>SELECT id, project_id\<close>: the map from finding to project.\<close>

definition GetProjectIDsForFindings :: "uuid list \<Rightarrow> (uuid \<rightharpoonup> uuid) op" where
  "GetProjectIDsForFindings ids w =
     (if ids = [] then (Inr Map.empty, w)
      else db_query (\<lambda>d. map_of (map (\<lambda>f. (f_ID f, f_ProjectID f)) (filter (\<lambda>f. f_ID f \<in> set ids) (tb_findings d)))) w)"

definition ListDistinctProjectIDs :: "uuid list \<Rightarrow> uuid list op" where
  "ListDistinctProjectIDs ids w =
     (if ids = [] then (Inr [], w)
      else db_query (\<lambda>d. remdups (map f_ProjectID (filter (\<lambda>f. f_ID f \<in> set ids) (tb_findings d)))) w)"

definition severity_name :: "int \<Rightarrow> string" where
  "severity_name sev = (if sev = 0 then ''info'' else if sev = 1 then ''low'' else if sev = 2 then ''medium''
     else if sev = 3 then ''high'' else if sev = 4 then ''critical'' else ''unknown_'' @ strconv_Itoa sev)"

definition CountByProject :: "uuid \<Rightarrow> (string \<times> nat) list op" where
  "CountByProject p = db_query (\<lambda>d.
     let rows = filter (\<lambda>f. f_ProjectID f = p) (tb_findings d)
     in map (\<lambda>sev. (severity_name sev, length (filter (\<lambda>f. f_Severity f = sev) rows))) (remdups (map f_Severity rows)))"

text \<open>Events, scores and scan links of the finding go with it (\<open>ON DELETE CASCADE\<close>).\<close>

definition delete_finding :: "uuid \<Rightarrow> DB \<Rightarrow> nat \<times> DB" where
  "delete_finding i d =
     (length (filter (\<lambda>f. f_ID f = i) (tb_findings d)),
      d\<lparr>tb_findings := filter (\<lambda>f. f_ID f \<noteq> i) (tb_findings d),
        tb_events := filter (\<lambda>e. ev_FindingID e \<noteq> i) (tb_events d),
        tb_scores := filter (\<lambda>s. fst s \<noteq> i) (tb_scores d),
        tb_scan_findings := filter (\<lambda>s. sf_FindingID s \<noteq> i) (tb_scan_findings d)\<rparr>)"

definition FindingsRepo_Delete :: "uuid \<Rightarrow> unit op" where
  "FindingsRepo_Delete i w = (case db_exec (\<lambda>d. Inr (delete_finding i d)) w of
     (Inl e, w) \<Rightarrow> (Inl e, w)
   | (Inr n, w) \<Rightarrow> if n = 0 then (Inl (Err ''finding not found''), w) else (Inr (), w))"

section \<open>Filters\<close>

record FindingsFilter =
  ff_ProjectID :: uuid
  ff_AccessibleProjectIDs :: "uuid list option"
  ff_Severities :: "int list"
  ff_Statuses :: "int list"
  ff_Kinds :: "FindingKind list"
  ff_HasCVE :: "bool option"
  ff_HasFix :: "bool option"
  ff_InKEV :: "bool option"
  ff_InBDU :: "bool option"
  ff_EPSSMin :: "real option"
  ff_CVSSMin :: "real option"
  ff_AgeMaxDays :: "int option"
  ff_GroupBy :: string
  ff_PackageEcosystems :: "string list"
  ff_IacProviders :: "string list"
  ff_SecretKinds :: "string list"
  ff_SourceTypes :: "string list"
  ff_Components :: "string list"
  ff_ComponentVersion :: string
  ff_RuleID :: string
  ff_SecretFingerprint :: string
  ff_AssigneeUserIDs :: "uuid list"
  ff_AssigneeMeUserID :: "uuid option"
  ff_Unassigned :: bool
  ff_Query :: string
  ff_CVE :: string
  ff_CWE :: int
  ff_Limit :: int
  ff_Cursor :: "(time \<times> uuid) option option"
  ff_SortField :: string
  ff_SortDir :: string

text \<open>
  The cursor is kept decoded: \<open>None\<close> for no cursor, \<open>Some None\<close> for a text that does not decode,
  \<open>Some (Some (t, i))\<close> for the encoding of the time and id of a row.
\<close>

definition FindingsFilter_zero :: FindingsFilter where
  "FindingsFilter_zero = \<lparr>ff_ProjectID = uuid_Nil, ff_AccessibleProjectIDs = None, ff_Severities = [],
     ff_Statuses = [], ff_Kinds = [], ff_HasCVE = None, ff_HasFix = None, ff_InKEV = None, ff_InBDU = None,
     ff_EPSSMin = None, ff_CVSSMin = None, ff_AgeMaxDays = None, ff_GroupBy = [], ff_PackageEcosystems = [],
     ff_IacProviders = [], ff_SecretKinds = [], ff_SourceTypes = [], ff_Components = [],
     ff_ComponentVersion = [], ff_RuleID = [], ff_SecretFingerprint = [], ff_AssigneeUserIDs = [],
     ff_AssigneeMeUserID = None, ff_Unassigned = False, ff_Query = [], ff_CVE = [], ff_CWE = 0,
     ff_Limit = 0, ff_Cursor = None, ff_SortField = [], ff_SortDir = []\<rparr>"

definition in_kev :: "DB \<Rightarrow> Finding \<Rightarrow> bool" where
  "in_kev d f = list_ex (\<lambda>k. k \<in> set (f_CVEIDs f)) (tb_kev d)"

definition in_bdu :: "DB \<Rightarrow> Finding \<Rightarrow> bool" where
  "in_bdu d f = list_ex (list_ex (\<lambda>c. c \<in> set (f_CVEIDs f))) (tb_bdu d)"

fun max_opt :: "real list \<Rightarrow> real option" where
  "max_opt [] = None"
| "max_opt (x # xs) = (case max_opt xs of None \<Rightarrow> Some x | Some y \<Rightarrow> Some (max x y))"

definition max_of :: "(string \<times> real) list \<Rightarrow> Finding \<Rightarrow> real option" where
  "max_of tab f = max_opt (map snd (filter (\<lambda>e. fst e \<in> set (f_CVEIDs f)) tab))"

definition opt_ge :: "real option \<Rightarrow> real \<Rightarrow> bool" where
  "opt_ge v m = ((case v of None \<Rightarrow> 0 | Some x \<Rightarrow> x) \<ge> m)"

definition "FacetSeverity = ''severity''"
definition "FacetStatus = ''status''"
definition "FacetKind = ''kind''"
definition "FacetProject = ''project''"
definition "FacetEcosystem = ''ecosystem''"
definition "FacetIacProvider = ''iac_provider''"
definition "FacetSecretKind = ''secret_kind''"
definition "FacetSource = ''source''"
definition "FacetHasCVE = ''has_cve''"
definition "FacetHasFix = ''has_fix''"
definition "FacetInKEV = ''in_kev''"
definition "FacetInBDU = ''in_bdu''"

lemmas facet_defs = FacetSeverity_def FacetStatus_def FacetKind_def FacetProject_def FacetEcosystem_def
  FacetIacProvider_def FacetSecretKind_def FacetSource_def FacetHasCVE_def FacetHasFix_def
  FacetInKEV_def FacetInBDU_def

type_synonym cond = "Finding \<Rightarrow> bool"

text \<open>\<open>tsmatch\<close> stands for the full-text search of the database.\<close>

definition kinds_condition :: "FindingKind list \<Rightarrow> cond" where
  "kinds_condition ks =
     (if list_ex (\<lambda>k. k < - 32768 \<or> k > 32767) ks then (\<lambda>f. False) else (\<lambda>f. f_Kind f \<in> set ks))"

definition buildBaseWhere ::
  "(string \<Rightarrow> Finding \<Rightarrow> bool) \<Rightarrow> time \<Rightarrow> DB \<Rightarrow> FindingsFilter \<Rightarrow> string \<Rightarrow> cond list" where
  "buildBaseWhere tsmatch now d ff ex =
     (case ff_AccessibleProjectIDs ff of
        None \<Rightarrow> []
      | Some ps \<Rightarrow> if ps = [] then [\<lambda>f. False] else [\<lambda>f. f_ProjectID f \<in> set ps]) @
     cond_if (ff_ProjectID ff \<noteq> uuid_Nil \<and> ex \<noteq> FacetProject) (\<lambda>f. f_ProjectID f = ff_ProjectID ff) @
     cond_if (ff_Severities ff \<noteq> [] \<and> ex \<noteq> FacetSeverity) (\<lambda>f. f_Severity f \<in> set (ff_Severities ff)) @
     cond_if (ff_Statuses ff \<noteq> [] \<and> ex \<noteq> FacetStatus) (\<lambda>f. f_Status f \<in> set (ff_Statuses ff)) @
     cond_if (ff_Kinds ff \<noteq> [] \<and> ex \<noteq> FacetKind) (kinds_condition (ff_Kinds ff)) @
     cond_if (ff_HasCVE ff = Some True \<and> ex \<noteq> FacetHasCVE) (\<lambda>f. f_CVEIDs f \<noteq> []) @
     cond_if (ff_HasFix ff = Some True \<and> ex \<noteq> FacetHasFix) (\<lambda>f. f_FixedVersion f \<noteq> None) @
     cond_if (ff_InKEV ff = Some True \<and> ex \<noteq> FacetInKEV) (in_kev d) @
     cond_if (ff_InBDU ff = Some True \<and> ex \<noteq> FacetInBDU) (in_bdu d) @
     (case ff_EPSSMin ff of None \<Rightarrow> [] | Some m \<Rightarrow> [\<lambda>f. opt_ge (max_of (tb_epss d) f) m]) @
     (case ff_CVSSMin ff of None \<Rightarrow> [] | Some m \<Rightarrow> [\<lambda>f. opt_ge (max_of (tb_cvss d) f) m]) @
     (case ff_AssigneeMeUserID ff of None \<Rightarrow> [] | Some u \<Rightarrow> [\<lambda>f. f_AssignedTo f = Some u]) @
     cond_if (ff_Unassigned ff) (\<lambda>f. f_AssignedTo f = None) @
     cond_if (ff_AssigneeUserIDs ff \<noteq> [])
       (\<lambda>f. any_eq (f_AssignedTo f) (ff_AssigneeUserIDs ff)) @
     (case ff_AgeMaxDays ff of
        None \<Rightarrow> []
      | Some n \<Rightarrow> if n > 0 then [\<lambda>f. f_FirstSeen f \<ge> now - n * 24 * time_Hour] else []) @
     cond_if (ff_PackageEcosystems ff \<noteq> [] \<and> ex \<noteq> FacetEcosystem)
       (\<lambda>f. any_eq (f_PackageEcosystem f) (ff_PackageEcosystems ff)) @
     cond_if (ff_IacProviders ff \<noteq> [] \<and> ex \<noteq> FacetIacProvider)
       (\<lambda>f. any_eq (f_IacProvider f) (ff_IacProviders ff)) @
     cond_if (ff_SecretKinds ff \<noteq> [] \<and> ex \<noteq> FacetSecretKind)
       (\<lambda>f. any_eq (f_SecretKind f) (ff_SecretKinds ff)) @
     cond_if (ff_SourceTypes ff \<noteq> [] \<and> ex \<noteq> FacetSource) (\<lambda>f. f_SourceType f \<in> set (ff_SourceTypes ff)) @
     cond_if (ff_Components ff \<noteq> [])
       (\<lambda>f. list_ex (\<lambda>c. ILIKE (f_Component f) (''%'' @ c @ ''%'')) (ff_Components ff)) @
     cond_if (ff_ComponentVersion ff \<noteq> []) (\<lambda>f. f_ComponentVersion f = ff_ComponentVersion ff) @
     cond_if (ff_RuleID ff \<noteq> []) (\<lambda>f. f_RuleID f = Some (ff_RuleID ff)) @
     cond_if (ff_Query ff \<noteq> []) (tsmatch (ff_Query ff)) @
     cond_if (ff_CVE ff \<noteq> []) (\<lambda>f. ff_CVE ff \<in> set (f_CVEIDs f)) @
     cond_if (ff_CWE ff > 0) (\<lambda>f. ff_CWE ff \<in> set (f_CWEIDs f)) @
     cond_if (ff_SecretFingerprint ff \<noteq> []) (\<lambda>f. f_SecretFingerprint f = Some (ff_SecretFingerprint ff))"

section \<open>Listing\<close>

text \<open>A sort column: a number, or NULL, which Postgres puts after every number.\<close>

datatype SortKey = Val real | Null

instantiation SortKey :: linorder
begin

definition less_eq_SortKey :: "SortKey \<Rightarrow> SortKey \<Rightarrow> bool" where
  "less_eq_SortKey a b = (case b of Null \<Rightarrow> True | Val y \<Rightarrow> (case a of Val x \<Rightarrow> x \<le> y | Null \<Rightarrow> False))"

definition less_SortKey :: "SortKey \<Rightarrow> SortKey \<Rightarrow> bool" where
  "less_SortKey a b = (case a of Null \<Rightarrow> False | Val x \<Rightarrow> (case b of Val y \<Rightarrow> x < y | Null \<Rightarrow> True))"

instance
  by standard (auto simp: less_eq_SortKey_def less_SortKey_def split: SortKey.splits)

end

lemma Val_less [simp]: "Val a < Val b \<longleftrightarrow> a < b" "Val a < Null" "\<not> Null < k"
  by (auto simp: less_SortKey_def split: SortKey.splits)

lemma Val_le [simp]: "Val a \<le> Val b \<longleftrightarrow> a \<le> b" "k \<le> Null" "\<not> Null \<le> Val a"
  by (auto simp: less_eq_SortKey_def split: SortKey.splits)

text \<open>\<open>allowedSortFields\<close>: the column of a sort field; any other field sorts by \<open>first_seen\<close>.\<close>

definition sort_column :: "string \<Rightarrow> DB \<Rightarrow> Finding \<Rightarrow> SortKey" where
  "sort_column field d f =
     (if field = ''last_seen'' then Val (of_int (f_LastSeen f))
      else if field = ''severity'' then Val (of_int (f_Severity f))
      else if field = ''priority_score''
        then (case map_of (tb_scores d) (f_ID f) of None \<Rightarrow> Null | Some x \<Rightarrow> Val x)
      else Val (of_int (f_FirstSeen f)))"

definition order_key :: "string \<Rightarrow> DB \<Rightarrow> Finding \<Rightarrow> SortKey \<times> uuid" where
  "order_key field d f = (sort_column field d f, f_ID f)"

text \<open>The columns a list item adds to its row.\<close>

definition list_item :: "DB \<Rightarrow> Finding \<Rightarrow> Finding" where
  "list_item d f = (with_score d f)\<lparr>f_InKEV := in_kev d f, f_MaxEPSS := max_of (tb_epss d) f,
     f_MaxCVSS := max_of (tb_cvss d) f, f_InBDU := in_bdu d f,
     f_ProjectName := (case map_of (tb_projects d) (f_ProjectID f) of None \<Rightarrow> [] | Some n \<Rightarrow> n),
     f_AssigneeEmail := (case f_AssignedTo f of None \<Rightarrow> []
        | Some u \<Rightarrow> (case find (\<lambda>x. u_ID x = u) (tb_users d) of None \<Rightarrow> [] | Some x \<Rightarrow> u_Email x))\<rparr>"

definition page_limit :: "int \<Rightarrow> nat" where
  "page_limit n = (if n \<le> 0 \<or> n > 1000 then 50 else nat n)"

definition cursor_condition :: "bool \<Rightarrow> time \<times> uuid \<Rightarrow> cond" where
  "cursor_condition asc c = (if asc then (\<lambda>f. (f_FirstSeen f, f_ID f) > c) else (\<lambda>f. (f_FirstSeen f, f_ID f) < c))"

text \<open>The result: the items, the cursor of the next page and the count of all matching rows.\<close>

definition FindingsRepo_List ::
  "(string \<Rightarrow> Finding \<Rightarrow> bool) \<Rightarrow> FindingsFilter \<Rightarrow> (Finding list \<times> (time \<times> uuid) option \<times> nat) op" where
  "FindingsRepo_List tsmatch ff w =
     (let asc = strings_EqualFold (ff_SortDir ff) ''asc'';
          limit = page_limit (ff_Limit ff);
          conditions = (\<lambda>d. buildBaseWhere tsmatch (w_now w) d ff [])
      in case ff_Cursor ff of
        Some None \<Rightarrow> (Inl (Err ''storage.decodeCursor''), w)
      | cur \<Rightarrow>
          let cursor_conds = (case cur of Some (Some c) \<Rightarrow> [cursor_condition asc c] | _ \<Rightarrow> [])
          in case db_query (\<lambda>d. length (filter (whereClause (conditions d)) (tb_findings d))) w of
            (Inl e, w) \<Rightarrow> (Inl e, w)
          | (Inr cnt, w) \<Rightarrow>
              (case db_query (\<lambda>d. map (list_item d) (take limit (order_rows asc (order_key (ff_SortField ff) d)
                      (filter (whereClause (conditions d @ cursor_conds)) (tb_findings d))))) w of
                 (Inl e, w) \<Rightarrow> (Inl e, w)
               | (Inr findings, w) \<Rightarrow>
                   (Inr (findings,
                         if length findings = limit then Some (f_FirstSeen (last findings), f_ID (last findings)) else None,
                         cnt), w)))"

section \<open>Groups\<close>

definition overlay_cleared :: "FindingsFilter \<Rightarrow> FindingsFilter" where
  "overlay_cleared ff = ff\<lparr>ff_CVE := [], ff_Components := [], ff_ComponentVersion := [], ff_RuleID := [],
     ff_SecretFingerprint := []\<rparr>"

text \<open>The condition of a group key. The display form of a rule key joins with a blank, a dash (UTF-8) and a blank.\<close>

definition rule_dash :: string where
  "rule_dash = [CHR '' '', CHR 0xE2, CHR 0x80, CHR 0x94, CHR '' '']"

definition group_rule_id :: "string \<Rightarrow> string" where
  "group_rule_id groupKey =
     (case strings_Index groupKey [CHR 0x1F] of
        Some idx \<Rightarrow> take idx groupKey
      | None \<Rightarrow> (case strings_Index groupKey rule_dash of Some idx \<Rightarrow> take idx groupKey | None \<Rightarrow> groupKey))"

definition group_conditions :: "string \<Rightarrow> string \<Rightarrow> err + cond list" where
  "group_conditions groupBy groupKey =
     (if groupBy = ''cve'' then Inr [\<lambda>f. groupKey \<in> set (f_CVEIDs f)]
      else if groupBy = ''component'' then
        (case strings_LastIndex groupKey (CHR ''@'') of
           Some pos \<Rightarrow> Inr [\<lambda>f. f_Component f = take pos groupKey, \<lambda>f. f_ComponentVersion f = drop (Suc pos) groupKey]
         | None \<Rightarrow> Inr [\<lambda>f. f_Component f = groupKey])
      else if groupBy = ''rule'' then Inr [\<lambda>f. f_RuleID f = Some (group_rule_id groupKey)]
      else if groupBy = ''secret'' then Inr [\<lambda>f. f_SecretFingerprint f = Some groupKey]
      else if groupBy = ''cwe'' then
        (case strconv_Atoi groupKey of
           Some n \<Rightarrow> if n \<le> 0 then Inl (Err ''invalid cwe group_key'') else Inr [\<lambda>f. n \<in> set (f_CWEIDs f)]
         | None \<Rightarrow> Inl (Err ''invalid cwe group_key''))
      else Inl (Err ''unknown group_by''))"

definition bulk_hardLimit :: nat where "bulk_hardLimit = 5000"

definition ListIDsByGroup ::
  "(string \<Rightarrow> Finding \<Rightarrow> bool) \<Rightarrow> FindingsFilter \<Rightarrow> string \<Rightarrow> string \<Rightarrow> (uuid list \<times> nat) op" where
  "ListIDsByGroup tsmatch ff groupBy groupKey w =
     (case group_conditions groupBy groupKey of
        Inl e \<Rightarrow> (Inl e, w)
      | Inr extra \<Rightarrow>
          let conds = (\<lambda>d. buildBaseWhere tsmatch (w_now w) d (overlay_cleared ff) [] @ extra)
          in case db_query (\<lambda>d. length (filter (whereClause (conds d)) (tb_findings d))) w of
            (Inl e, w) \<Rightarrow> (Inl e, w)
          | (Inr cnt, w) \<Rightarrow>
              if cnt > bulk_hardLimit then (Inl (ErrBulkLimit cnt), w)
              else case db_query (\<lambda>d. map f_ID (take bulk_hardLimit (filter (whereClause (conds d)) (tb_findings d)))) w of
                (Inl e, w) \<Rightarrow> (Inl e, w)
              | (Inr ids, w) \<Rightarrow> (Inr (ids, cnt), w))"

section \<open>Facets\<close>

text \<open>\<open>SELECT col, count( * ) ... GROUP BY col\<close>, the groups in the order of their first row.\<close>

definition group_count :: "('a \<Rightarrow> 'k) \<Rightarrow> 'a list \<Rightarrow> ('k \<times> nat) list" where
  "group_count key rows = map (\<lambda>k. (k, length (filter (\<lambda>r. key r = k) rows))) (remdups (map key rows))"

definition by_count :: "('k \<times> nat) list \<Rightarrow> ('k \<times> nat) list" where
  "by_count gs = rev (sort_key snd gs)"

record EnrichmentFacets =
  fe_InKEV :: nat
  fe_HasCVE :: nat
  fe_HasFix :: nat
  fe_InBDU :: nat

record FindingsFacets =
  fa_BySeverity :: "(int \<times> nat) list"
  fa_ByStatus :: "(int \<times> nat) list"
  fa_ByKind :: "(string \<times> nat) list"
  fa_BySource :: "(string \<times> nat) list"
  fa_ByProject :: "((uuid \<times> string) \<times> nat) list"
  fa_ByEcosystem :: "(string \<times> nat) list"
  fa_ByIacProvider :: "(string \<times> nat) list"
  fa_BySecretKind :: "(string \<times> nat) list"
  fa_Enrichment :: EnrichmentFacets

text \<open>
  The twelve queries run concurrently; the first error is the result. Each works on the same tables
  here, and \<open>facet_rows\<close> are the rows of the query that leaves out one dimension of the filter.
\<close>

definition facet_rows :: "(string \<Rightarrow> Finding \<Rightarrow> bool) \<Rightarrow> time \<Rightarrow> DB \<Rightarrow> FindingsFilter \<Rightarrow> string \<Rightarrow> cond \<Rightarrow> Finding list" where
  "facet_rows tsmatch now d ff ex extra =
     filter (whereClause (buildBaseWhere tsmatch now d ff ex @ [extra])) (tb_findings d)"

definition compute_facets :: "(string \<Rightarrow> Finding \<Rightarrow> bool) \<Rightarrow> time \<Rightarrow> FindingsFilter \<Rightarrow> DB \<Rightarrow> FindingsFacets" where
  "compute_facets tsmatch now ff d =
     (let rows = facet_rows tsmatch now d ff in
      \<lparr>fa_BySeverity = group_count f_Severity (rows FacetSeverity (\<lambda>f. True)),
       fa_ByStatus = group_count f_Status (rows FacetStatus (\<lambda>f. True)),
       fa_ByKind = map (\<lambda>(k, n). (FindingKind_String k, n)) (group_count f_Kind (rows FacetKind (\<lambda>f. True))),
       fa_BySource = by_count (group_count f_SourceType (rows FacetSource (\<lambda>f. True))),
       fa_ByProject = take 20 (by_count (group_count (\<lambda>f. (f_ProjectID f, the (map_of (tb_projects d) (f_ProjectID f))))
          (rows FacetProject (\<lambda>f. map_of (tb_projects d) (f_ProjectID f) \<noteq> None)))),
       fa_ByEcosystem = by_count (group_count (\<lambda>f. the (f_PackageEcosystem f))
          (rows FacetEcosystem (\<lambda>f. f_Kind f = KindSCA \<and> f_PackageEcosystem f \<noteq> None))),
       fa_ByIacProvider = by_count (group_count (\<lambda>f. the (f_IacProvider f))
          (rows FacetIacProvider (\<lambda>f. f_Kind f = KindIaC \<and> f_IacProvider f \<noteq> None))),
       fa_BySecretKind = by_count (group_count (\<lambda>f. the (f_SecretKind f))
          (rows FacetSecretKind (\<lambda>f. f_Kind f = KindSecrets \<and> f_SecretKind f \<noteq> None))),
       fa_Enrichment = \<lparr>fe_InKEV = length (rows FacetInKEV (in_kev d)),
         fe_HasCVE = length (rows FacetHasCVE (\<lambda>f. f_CVEIDs f \<noteq> [])),
         fe_HasFix = length (rows FacetHasFix (\<lambda>f. f_FixedVersion f \<noteq> None)),
         fe_InBDU = length (rows FacetInBDU (in_bdu d))\<rparr>\<rparr>)"

fun db_calls :: "nat \<Rightarrow> World \<Rightarrow> bool \<times> World" where
  "db_calls 0 w = (True, w)"
| "db_calls (Suc n) w = (case db_call w of (ok, w) \<Rightarrow> (case db_calls n w of (ok', w) \<Rightarrow> (ok \<and> ok', w)))"

definition Facets :: "(string \<Rightarrow> Finding \<Rightarrow> bool) \<Rightarrow> FindingsFilter \<Rightarrow> FindingsFacets op" where
  "Facets tsmatch ff w = (case db_calls 12 w of (ok, w) \<Rightarrow>
     if ok then (Inr (compute_facets tsmatch (w_now w) ff (w_db w)), w) else (Inl ErrDB, w))"

section \<open>Events\<close>

text \<open>One event of the kind \<open>seen_again\<close> for a finding and a day (in UTC) is a partial unique index.\<close>

definition seen_today :: "FindingEvent \<Rightarrow> FindingEvent \<Rightarrow> bool" where
  "seen_today ev e \<longleftrightarrow> ev_EventType ev = ''seen_again'' \<and> ev_EventType e = ''seen_again'' \<and> ev_FindingID e = ev_FindingID ev \<and>
     ev_CreatedAt e div (24 * time_Hour) = ev_CreatedAt ev div (24 * time_Hour)"

definition insert_event :: "FindingEvent \<Rightarrow> DB \<Rightarrow> err + unit \<times> DB" where
  "insert_event ev d =
     (if ev_ID ev \<in> ev_ID ` set (tb_events d) \<or> list_ex (seen_today ev) (tb_events d) then Inl ErrUnique
      else if ev_FindingID ev \<notin> f_ID ` set (tb_findings d) then Inl (Err ''violates foreign key constraint'')
      else Inr ((), d\<lparr>tb_events := tb_events d @ [ev]\<rparr>))"

definition FindingEventsRepo_Create :: "FindingEvent \<Rightarrow> unit op" where
  "FindingEventsRepo_Create ev = db_exec (insert_event ev)"

text \<open>An event with the e-mail and name of its author, newest first, one page after the cursor.\<close>

definition event_item :: "DB \<Rightarrow> FindingEvent \<Rightarrow> FindingEvent \<times> (string \<times> string) option" where
  "event_item d e = (e, case ev_UserID e of None \<Rightarrow> None
     | Some u \<Rightarrow> map_option (\<lambda>x. (u_Email x, u_FullName x)) (find (\<lambda>x. u_ID x = u) (tb_users d)))"

definition events_limit :: "int \<Rightarrow> nat" where
  "events_limit n = (if n \<le> 0 \<or> n > 200 then 50 else nat n)"

definition ListForFinding ::
  "uuid \<Rightarrow> (time \<times> uuid) option option \<Rightarrow> int \<Rightarrow>
   ((FindingEvent \<times> (string \<times> string) option) list \<times> (time \<times> uuid) option) op" where
  "ListForFinding i cursor want w =
     (let limit = events_limit want in
      case cursor of
        Some None \<Rightarrow> (Inl (Err ''storage.FindingEventsRepo.ListForFinding: cursor''), w)
      | cur \<Rightarrow>
          (case db_query (\<lambda>d. map (event_item d) (take (limit + 1) (order_rows False (\<lambda>e. (ev_CreatedAt e, ev_ID e))
              (filter (\<lambda>e. ev_FindingID e = i \<and>
                 (case cur of Some (Some c) \<Rightarrow> (ev_CreatedAt e, ev_ID e) < c | _ \<Rightarrow> True)) (tb_events d))))) w of
             (Inl e, w) \<Rightarrow> (Inl e, w)
           | (Inr items, w) \<Rightarrow>
               if length items > limit
               then let l = fst (items ! (limit - 1)) in (Inr (take limit items, Some (ev_CreatedAt l, ev_ID l)), w)
               else (Inr (items, None), w)))"

section \<open>Applying triage actions\<close>

text \<open>\<open>SELECT ... FOR UPDATE\<close> inside the transaction.\<close>

definition getForUpdate :: "uuid \<Rightarrow> Finding op" where
  "getForUpdate i = db_query_row (finding_by_id i)"

definition update_triage :: "Finding \<Rightarrow> DB \<Rightarrow> DB" where
  "update_triage f d = d\<lparr>tb_findings := map (\<lambda>r. if f_ID r = f_ID f then triage_columns f r else r) (tb_findings d)\<rparr>"

text \<open>What happens between the begin and the commit of the transaction.\<close>

definition triage_body :: "uuid \<Rightarrow> uuid \<Rightarrow> TriageAction \<Rightarrow> unit op" where
  "triage_body userID findingID act w =
     (case getForUpdate findingID w of
       (Inl e, w) \<Rightarrow> (Inl e, w)
     | (Inr finding, w) \<Rightarrow>
         (case EnsureLoaded w of
            (Inl e, w) \<Rightarrow> (Inl e, w)
          | (Inr _, w) \<Rightarrow>
              (case ApplyTo act (w_now w) (ByCode (w_reasons w)) finding of
                 Inl msg \<Rightarrow> (Inl (Err msg), w)
               | Inr (act, finding) \<Rightarrow>
                   (case db_exec (\<lambda>d. Inr ((), update_triage finding d)) w of
                      (Inl e, w) \<Rightarrow> (Inl e, w)
                    | (Inr _, w) \<Rightarrow>
                        (case uuid_New w of (newID, w) \<Rightarrow>
                           FindingEventsRepo_Create (BuildEvent act newID (w_now w) userID finding) w)))))"

definition ApplyTriageAction :: "uuid \<Rightarrow> uuid \<Rightarrow> TriageAction \<Rightarrow> unit op" where
  "ApplyTriageAction userID findingID act = in_tx (triage_body userID findingID act)"

record BulkResult =
  br_Succeeded :: "uuid list"
  br_Failed :: "(uuid \<times> string) list"

text \<open>
  The goroutines of a bulk action run one transaction per id; the list is the order in which their
  transactions take place. A later entry of an id in the map of failures replaces the earlier one.
\<close>

definition record_failure :: "uuid \<Rightarrow> string \<Rightarrow> (uuid \<times> string) list \<Rightarrow> (uuid \<times> string) list" where
  "record_failure i msg m = filter (\<lambda>e. fst e \<noteq> i) m @ [(i, msg)]"

fun bulk_loop :: "uuid \<Rightarrow> (uuid \<Rightarrow> TriageAction) \<Rightarrow> uuid list \<Rightarrow> BulkResult \<Rightarrow> World \<Rightarrow> BulkResult \<times> World" where
  "bulk_loop userID builder [] res w = (res, w)"
| "bulk_loop userID builder (i # ids) res w =
     (case ApplyTriageAction userID i (builder i) w of
        (Inl e, w) \<Rightarrow> bulk_loop userID builder ids (res\<lparr>br_Failed := record_failure i (err_text e) (br_Failed res)\<rparr>) w
      | (Inr _, w) \<Rightarrow> bulk_loop userID builder ids (res\<lparr>br_Succeeded := br_Succeeded res @ [i]\<rparr>) w)"

definition ApplyBulkTriageAction :: "uuid \<Rightarrow> uuid list \<Rightarrow> (uuid \<Rightarrow> TriageAction) \<Rightarrow> BulkResult op" where
  "ApplyBulkTriageAction userID ids builder w =
     (case bulk_loop userID builder ids \<lparr>br_Succeeded = [], br_Failed = []\<rparr> w of (res, w) \<Rightarrow> (Inr res, w))"

end
