(* ===== verification/FindingsCorrect.thy ===== *)
theory FindingsCorrect
  imports FindingsRepo
begin

text \<open>
  What the findings repository guarantees when it writes: the invariant of its table, deduplication,
  and the atomicity of triage, alone and in bulk.
\<close>

section \<open>The table\<close>

text \<open>The primary key and the unique fingerprint.\<close>

definition findings_ok :: "DB \<Rightarrow> bool" where
  "findings_ok d \<longleftrightarrow> distinct (map f_ID (tb_findings d)) \<and> distinct (map f_Fingerprint (tb_findings d))"

definition fingerprints :: "DB \<Rightarrow> string set" where
  "fingerprints d = f_Fingerprint ` set (tb_findings d)"

lemma seen_again_simps [simp]:
  "f_ID (seen_again e r) = f_ID r" "f_Fingerprint (seen_again e r) = f_Fingerprint r"
  "f_ProjectID (seen_again e r) = f_ProjectID r" "f_Status (seen_again e r) = f_Status r"
  "f_TimesSeen (seen_again e r) = f_TimesSeen r + 1" "f_FirstSeen (seen_again e r) = f_FirstSeen r"
  by (simp_all add: seen_again_def)

lemma inserted_row_simps [simp]:
  "f_ID (inserted_row f) = f_ID f" "f_Fingerprint (inserted_row f) = f_Fingerprint f"
  "f_ProjectID (inserted_row f) = f_ProjectID f" "f_Status (inserted_row f) = f_Status f"
  by (simp_all add: inserted_row_def)

lemma map_fst_update:
  "(\<And>x. g (h x) = g x) \<Longrightarrow> map g (map (\<lambda>x. if P x then h x else x) xs) = map g xs"
  by (induction xs) auto

lemma find_None_notin: "find (\<lambda>r. g r = x) xs = None \<longleftrightarrow> x \<notin> g ` set xs"
  by (auto simp: find_None_iff)

lemma find_distinct:
  assumes "distinct (map g xs)" and "x \<in> set xs" and "g x = k"
  shows "find (\<lambda>y. g y = k) xs = Some x"
  using assms by (induction xs) auto

lemma filter_distinct_key:
  assumes "distinct (map g xs)" and "x \<in> set xs"
  shows "filter (\<lambda>y. g y = g x) xs = [x]"
  using assms
proof (induction xs)
  case (Cons a xs)
  show ?case
  proof (cases "a = x")
    case True
    then have "\<forall>r \<in> set xs. g r \<noteq> g x" using Cons.prems(1) by (metis distinct.simps(2) image_eqI list.simps(9) set_map)
    with True show ?thesis by simp
  next
    case False
    then have "x \<in> set xs" "g a \<noteq> g x" using Cons.prems by auto
    then show ?thesis using Cons by simp
  qed
qed simp

text \<open>What the upsert does, by cases on whether the fingerprint is known.\<close>

lemma upsert_known:
  assumes "findings_ok d" and "old \<in> set (tb_findings d)" and "f_Fingerprint old = f_Fingerprint f"
  shows "upsert_finding f d = Inr ((f_ID old, False),
     d\<lparr>tb_findings := map (\<lambda>r. if f_Fingerprint r = f_Fingerprint f then seen_again f r else r) (tb_findings d)\<rparr>)"
  using assms find_distinct [of f_Fingerprint "tb_findings d" old "f_Fingerprint f"]
  by (simp add: upsert_finding_def findings_ok_def)

lemma upsert_result:
  assumes "upsert_finding f d = Inr ((i, ins), d')"
  shows "ins \<longleftrightarrow> f_Fingerprint f \<notin> fingerprints d"
    and "ins \<Longrightarrow> i = f_ID f \<and> d' = d\<lparr>tb_findings := tb_findings d @ [inserted_row f]\<rparr> \<and>
           f_ID f \<notin> f_ID ` set (tb_findings d) \<and> f_ProjectID f \<in> fst ` set (tb_projects d)"
    and "\<not> ins \<Longrightarrow> d' = d\<lparr>tb_findings := map (\<lambda>r. if f_Fingerprint r = f_Fingerprint f then seen_again f r else r) (tb_findings d)\<rparr> \<and>
           (\<exists>old \<in> set (tb_findings d). f_Fingerprint old = f_Fingerprint f \<and> f_ID old = i)"
proof -
  let ?find = "find (\<lambda>r. f_Fingerprint r = f_Fingerprint f) (tb_findings d)"
  show "ins \<longleftrightarrow> f_Fingerprint f \<notin> fingerprints d"
    using assms find_None_notin [of f_Fingerprint "f_Fingerprint f" "tb_findings d"]
    by (cases ?find) (auto simp: upsert_finding_def fingerprints_def split: if_splits)
  show "ins \<Longrightarrow> i = f_ID f \<and> d' = d\<lparr>tb_findings := tb_findings d @ [inserted_row f]\<rparr> \<and>
           f_ID f \<notin> f_ID ` set (tb_findings d) \<and> f_ProjectID f \<in> fst ` set (tb_projects d)"
    using assms by (cases ?find) (auto simp: upsert_finding_def split: if_splits)
  assume n: "\<not> ins"
  then obtain old where "?find = Some old" and r: "i = f_ID old"
    "d' = d\<lparr>tb_findings := map (\<lambda>r. if f_Fingerprint r = f_Fingerprint f then seen_again f r else r) (tb_findings d)\<rparr>"
    using assms by (cases ?find) (auto simp: upsert_finding_def split: if_splits)
  then have "old \<in> set (tb_findings d)" "f_Fingerprint old = f_Fingerprint f"
    by (auto simp: find_Some_iff in_set_conv_nth)
  then show "d' = d\<lparr>tb_findings := map (\<lambda>r. if f_Fingerprint r = f_Fingerprint f then seen_again f r else r) (tb_findings d)\<rparr> \<and>
           (\<exists>old \<in> set (tb_findings d). f_Fingerprint old = f_Fingerprint f \<and> f_ID old = i)"
    using r by blast
qed

lemma upsert_ok:
  assumes "findings_ok d" and "upsert_finding f d = Inr ((i, ins), d')"
  shows "findings_ok d'"
proof (cases ins)
  case True
  then show ?thesis using assms upsert_result [OF assms(2)]
    by (auto simp: findings_ok_def fingerprints_def)
next
  case False
  then have "tb_findings d' = map (\<lambda>r. if f_Fingerprint r = f_Fingerprint f then seen_again f r else r) (tb_findings d)"
    using upsert_result(3) [OF assms(2)] by simp
  then show ?thesis using assms(1) unfolding findings_ok_def by (simp only: map_fst_update seen_again_simps)
qed

lemma create_defaults_keeps:
  assumes "create_defaults f w = (f', w')"
  shows "f_Fingerprint f' = f_Fingerprint f" "f_ProjectID f' = f_ProjectID f" "f_Kind f' = f_Kind f"
    "w_db w' = w_db w" "w_faults w' = w_faults w" "f_Status f' = f_Status f" "f_Title f' = f_Title f"
    "f_Severity f' = f_Severity f"
  using assms by (auto simp: create_defaults_def Let_def uuid_New_def split: if_splits)

text \<open>\<open>Create\<close> is its defaults followed by the statement.\<close>

lemma Create_Inr:
  assumes "FindingsRepo_Create f w = (Inr (ins, f'), w')"
  obtains g i where "upsert_finding g (w_db w) = Inr ((i, ins), w_db w')" "f_ID f' = i"
    "f_Fingerprint g = f_Fingerprint f" "f_ProjectID g = f_ProjectID f" "f_Fingerprint f' = f_Fingerprint f"
proof -
  obtain g0 w0 where d: "create_defaults f w = (g0, w0)" by fastforce
  then obtain i kind where e: "db_exec (upsert_finding (g0\<lparr>f_Kind := kind\<rparr>)) w0 = (Inr (i, ins), w')" "f' = g0\<lparr>f_ID := i\<rparr>"
    using assms by (auto simp: FindingsRepo_Create_def split: sum.splits prod.splits)
  have "upsert_finding (g0\<lparr>f_Kind := kind\<rparr>) (w_db w) = Inr ((i, ins), w_db w')"
    using db_exec_Inr [OF e(1)] create_defaults_keeps [OF d] by simp
  then show ?thesis by (rule that) (simp_all add: e create_defaults_keeps [OF d])
qed

lemma CreateTx_is_Create: "FindingsRepo_CreateTx = FindingsRepo_Create"
  by (rule ext, rule ext) (simp only: FindingsRepo_CreateTx_def FindingsRepo_Create_def)

interpretation create: atomic_op "FindingsRepo_Create f" for f
proof
  fix w e w'
  assume "FindingsRepo_Create f w = (Inl e, w')"
  then show "w_db w' = w_db w"
    by (auto simp: FindingsRepo_Create_def split: prod.splits sum.splits
        dest!: create_defaults_keeps(4) db_exec_Inl)
qed

section \<open>Triage\<close>

lemma finding_by_id_Some:
  assumes "finding_by_id i d = Some f"
  obtains r where "r \<in> set (tb_findings d)" "f_ID r = i" "f = with_score d r"
  using assms by (auto simp: finding_by_id_def find_Some_iff) (metis nth_mem)

lemma with_score_id [simp]: "f_ID (with_score d f) = f_ID f"
  by (simp add: with_score_def)

lemma triage_columns_with_score [simp]: "triage_columns (with_score d r) r = r"
  by (simp add: triage_columns_def with_score_def)

text \<open>The transaction, from the row it reads to the tables it leaves.\<close>

lemma triage_body_Inr:
  assumes "triage_body u i act w = (Inr x, w')"
  obtains f act' f' where "finding_by_id i (w_db w) = Some f"
    "ApplyTo act (w_now w) (ByCode (w_reasons w')) f = Inr (act', f')"
    "insert_event (BuildEvent act' (w_uuid w (w_next w)) (w_now w) u f') (update_triage f' (w_db w)) = Inr ((), w_db w')"
proof -
  obtain f wa where a: "getForUpdate i w = (Inr f, wa)"
    using assms by (cases "getForUpdate i w") (auto simp: triage_body_def split: sum.splits)
  obtain wb where b: "EnsureLoaded wa = (Inr (), wb)"
    using assms a by (cases "EnsureLoaded wa") (auto simp: triage_body_def split: sum.splits)
  obtain act' f' where c: "ApplyTo act (w_now wb) (ByCode (w_reasons wb)) f = Inr (act', f')"
    using assms a b by (auto simp: triage_body_def split: sum.splits)
  obtain wc where e: "db_exec (\<lambda>d. Inr ((), update_triage f' d)) wb = (Inr (), wc)"
    using assms a b c by (cases "db_exec (\<lambda>d. Inr ((), update_triage f' d)) wb") (auto simp: triage_body_def split: sum.splits)
  let ?wd = "wc\<lparr>w_next := Suc (w_next wc)\<rparr>"
  have g: "db_exec (insert_event (BuildEvent act' (w_uuid wc (w_next wc)) (w_now wc) u f')) ?wd = (Inr x, w')"
    using assms a b c e by (simp add: triage_body_def uuid_New_def FindingEventsRepo_Create_def)
  note env = db_query_row_env [OF a [unfolded getForUpdate_def]] EnsureLoaded_env [OF b] db_exec_env [OF e] db_exec_env [OF g]
  have "finding_by_id i (w_db w) = Some f"
    using db_query_row_Inr [OF a [unfolded getForUpdate_def]] .
  moreover have "ApplyTo act (w_now w) (ByCode (w_reasons w')) f = Inr (act', f')"
    using c env by (simp add: same_env_def)
  moreover have "w_db wb = w_db w"
    using EnsureLoaded_db [OF b] db_query_row_db [OF a [unfolded getForUpdate_def]] by simp
  then have "insert_event (BuildEvent act' (w_uuid w (w_next w)) (w_now w) u f') (update_triage f' (w_db w)) = Inr ((), w_db w')"
    using db_exec_Inr [OF g] db_exec_Inr [OF e] env by (simp add: same_env_def)
  ultimately show ?thesis by (rule that)
qed

lemma ApplyTriageAction_Inr:
  assumes "ApplyTriageAction u i act w = (Inr x, w')"
  obtains f act' f' where "finding_by_id i (w_db w) = Some f"
    "ApplyTo act (w_now w) (ByCode (w_reasons w')) f = Inr (act', f')"
    "insert_event (BuildEvent act' (w_uuid w (w_next w)) (w_now w) u f') (update_triage f' (w_db w)) = Inr ((), w_db w')"
proof -
  obtain w1 w2 where w: "db_call w = (True, w1)" "triage_body u i act w1 = (Inr x, w2)" "w_db w' = w_db w2" "db_call w2 = (True, w')"
    using assms unfolding ApplyTriageAction_def by (elim in_tx_Inr) blast
  from w(2) obtain f act' f' where "finding_by_id i (w_db w1) = Some f"
    "ApplyTo act (w_now w1) (ByCode (w_reasons w2)) f = Inr (act', f')"
    "insert_event (BuildEvent act' (w_uuid w1 (w_next w1)) (w_now w1) u f') (update_triage f' (w_db w1)) = Inr ((), w_db w2)"
    by (rule triage_body_Inr)
  then show ?thesis using w(3) db_call_env [OF w(1)] db_call_env [OF w(4)] db_call_db [OF w(1)]
    by (intro that) (simp_all add: same_env_def)
qed

interpretation triage: atomic_op "ApplyTriageAction u i act" for u i act
  unfolding ApplyTriageAction_def by unfold_locales (rule in_tx_Inl)

lemma insert_event_Inr:
  "insert_event ev d = Inr (x, d') \<Longrightarrow> d' = d\<lparr>tb_events := tb_events d @ [ev]\<rparr> \<and> ev_FindingID ev \<in> f_ID ` set (tb_findings d)"
  by (auto simp: insert_event_def split: if_splits)

text \<open>A triage that succeeds writes the triage columns of the one row and appends the one event.\<close>

lemma ApplyTriageAction_effect:
  assumes "ApplyTriageAction u i act w = (Inr x, w')"
  obtains f act' f' where "finding_by_id i (w_db w) = Some f"
    "ApplyTo act (w_now w) (ByCode (w_reasons w')) f = Inr (act', f')" "f_ID f' = i"
    "w_db w' = (update_triage f' (w_db w))\<lparr>tb_events := tb_events (w_db w) @
       [BuildEvent act' (w_uuid w (w_next w)) (w_now w) u f']\<rparr>"
proof -
  obtain f act' f' where f: "finding_by_id i (w_db w) = Some f"
    and a: "ApplyTo act (w_now w) (ByCode (w_reasons w')) f = Inr (act', f')"
    and e: "insert_event (BuildEvent act' (w_uuid w (w_next w)) (w_now w) u f') (update_triage f' (w_db w)) = Inr ((), w_db w')"
    using assms by (rule ApplyTriageAction_Inr)
  have "f_ID f = i" using f by (auto elim: finding_by_id_Some)
  then have "f_ID f' = i" using action.apply_keeps(1) [OF a] by simp
  moreover have "tb_events (update_triage f' (w_db w)) = tb_events (w_db w)" by (simp add: update_triage_def)
  ultimately show ?thesis using that [OF f a] insert_event_Inr [OF e] by simp
qed

lemma update_triage_frame:
  "filter (\<lambda>r. f_ID r \<noteq> f_ID f) (tb_findings (update_triage f d)) = filter (\<lambda>r. f_ID r \<noteq> f_ID f) (tb_findings d)"
proof -
  have "filter (\<lambda>r. f_ID r \<noteq> f_ID f) (map (\<lambda>r. if f_ID r = f_ID f then triage_columns f r else r) xs) =
        filter (\<lambda>r. f_ID r \<noteq> f_ID f) xs" for xs
    by (induction xs) (auto simp: triage_columns_def)
  then show ?thesis by (simp add: update_triage_def)
qed

lemma filter_filter_frame:
  "filter P xs = filter P ys \<Longrightarrow> (\<And>x. Q x \<Longrightarrow> P x) \<Longrightarrow> filter Q xs = filter Q ys"
proof -
  assume e: "filter P xs = filter P ys" and q: "\<And>x. Q x \<Longrightarrow> P x"
  have "filter Q zs = filter Q (filter P zs)" for zs using q by (induction zs) auto
  with e show ?thesis by metis
qed

definition untouched :: "uuid set \<Rightarrow> DB \<Rightarrow> Finding list" where
  "untouched ids d = filter (\<lambda>r. f_ID r \<notin> ids) (tb_findings d)"

lemma untouched_mono: "untouched A d = untouched A d' \<Longrightarrow> A \<subseteq> B \<Longrightarrow> untouched B d = untouched B d'"
  unfolding untouched_def
  by (rule filter_filter_frame [where P = "\<lambda>r. f_ID r \<notin> A" and Q = "\<lambda>r. f_ID r \<notin> B"]) auto

lemma ApplyTriageAction_untouched:
  assumes "ApplyTriageAction u i act w = (Inr x, w')"
  shows "untouched {i} (w_db w') = untouched {i} (w_db w)"
    and "\<exists>ev. tb_events (w_db w') = tb_events (w_db w) @ [ev] \<and> ev_FindingID ev = i \<and> ev_UserID ev = Some u"
proof -
  obtain f act' f' where "ApplyTo act (w_now w) (ByCode (w_reasons w')) f = Inr (act', f')" "f_ID f' = i"
    and w': "w_db w' = (update_triage f' (w_db w))\<lparr>tb_events := tb_events (w_db w) @
       [BuildEvent act' (w_uuid w (w_next w)) (w_now w) u f']\<rparr>"
    using assms by (rule ApplyTriageAction_effect) blast
  then show "\<exists>ev. tb_events (w_db w') = tb_events (w_db w) @ [ev] \<and> ev_FindingID ev = i \<and> ev_UserID ev = Some u"
    by (simp add: action.event_of action.event_by)
  show "untouched {i} (w_db w') = untouched {i} (w_db w)"
    using update_triage_frame [of f' "w_db w"] \<open>f_ID f' = i\<close> by (simp add: untouched_def w')
qed

lemma fst_record_failure: "fst ` set (record_failure i m fs) = insert i (fst ` set fs)"
  by (auto simp: record_failure_def image_iff)

text \<open>
  What a run over a list of ids adds to the result so far: the ids that succeeded in their order, one
  event each in the same order, the others among the failures.
\<close>

lemma bulk_loop_spec:
  assumes "bulk_loop u b ids res w = (res', w')" and "distinct ids"
  shows "\<exists>ok evs. br_Succeeded res' = br_Succeeded res @ ok \<and> set ok \<subseteq> set ids \<and> distinct ok \<and>
     fst ` set (br_Failed res') = fst ` set (br_Failed res) \<union> (set ids - set ok) \<and>
     tb_events (w_db w') = tb_events (w_db w) @ evs \<and> map ev_FindingID evs = ok \<and>
     (\<forall>ev \<in> set evs. ev_UserID ev = Some u) \<and> untouched (set ok) (w_db w') = untouched (set ok) (w_db w)"
  using assms
proof (induction ids arbitrary: res w)
  case (Cons i ids)
  obtain r w1 where a: "ApplyTriageAction u i (b i) w = (r, w1)" by fastforce
  show ?case
  proof (cases r)
    case (Inl e)
    let ?res = "res\<lparr>br_Failed := record_failure i (err_text e) (br_Failed res)\<rparr>"
    have l: "bulk_loop u b ids ?res w1 = (res', w')" using Cons.prems(1) a Inl by simp
    from Cons.IH [OF l] Cons.prems(2) obtain ok evs where ok:
      "br_Succeeded res' = br_Succeeded ?res @ ok" "set ok \<subseteq> set ids" "distinct ok"
      "fst ` set (br_Failed res') = fst ` set (br_Failed ?res) \<union> (set ids - set ok)"
      "tb_events (w_db w') = tb_events (w_db w1) @ evs" "map ev_FindingID evs = ok"
      "\<forall>ev \<in> set evs. ev_UserID ev = Some u" "untouched (set ok) (w_db w') = untouched (set ok) (w_db w1)"
      by auto
    have "w_db w1 = w_db w" using a Inl triage.Inl_unchanged by blast
    moreover have "i \<notin> set ok" using ok(2) Cons.prems(2) by auto
    ultimately show ?thesis using ok by (intro exI [of _ ok] exI [of _ evs]) (auto simp: fst_record_failure)
  next
    case (Inr x)
    let ?res = "res\<lparr>br_Succeeded := br_Succeeded res @ [i]\<rparr>"
    have l: "bulk_loop u b ids ?res w1 = (res', w')" using Cons.prems(1) a Inr by simp
    from Cons.IH [OF l] Cons.prems(2) obtain ok evs where ok:
      "br_Succeeded res' = br_Succeeded ?res @ ok" "set ok \<subseteq> set ids" "distinct ok"
      "fst ` set (br_Failed res') = fst ` set (br_Failed ?res) \<union> (set ids - set ok)"
      "tb_events (w_db w') = tb_events (w_db w1) @ evs" "map ev_FindingID evs = ok"
      "\<forall>ev \<in> set evs. ev_UserID ev = Some u" "untouched (set ok) (w_db w') = untouched (set ok) (w_db w1)"
      by auto
    note t = ApplyTriageAction_untouched [OF a [unfolded Inr]]
    obtain ev where ev: "tb_events (w_db w1) = tb_events (w_db w) @ [ev]" "ev_FindingID ev = i" "ev_UserID ev = Some u"
      using t(2) by blast
    have "untouched (set (i # ok)) (w_db w') = untouched (set (i # ok)) (w_db w)"
      using untouched_mono [OF t(1), of "set (i # ok)"] untouched_mono [OF ok(8), of "set (i # ok)"] by auto
    moreover have "i \<notin> set ok" using ok(2) Cons.prems(2) by auto
    ultimately show ?thesis using ok ev Cons.prems(2) by (intro exI [of _ "i # ok"] exI [of _ "ev # evs"]) auto
  qed
qed simp

section \<open>What storing a finding does\<close>

lemma Create_spec:
  assumes "findings_ok (w_db w)" and "FindingsRepo_Create f w = (Inr (ins, f'), w')"
  shows "findings_ok (w_db w')" and "ins \<longleftrightarrow> f_Fingerprint f \<notin> fingerprints (w_db w)"
    and "fingerprints (w_db w') = insert (f_Fingerprint f) (fingerprints (w_db w))"
    and "map f_ID (filter (\<lambda>r. f_Fingerprint r = f_Fingerprint f) (tb_findings (w_db w'))) = [f_ID f']"
proof -
  obtain g i where u: "upsert_finding g (w_db w) = Inr ((i, ins), w_db w')" and i: "f_ID f' = i"
    and g: "f_Fingerprint g = f_Fingerprint f" using assms(2) by (rule Create_Inr)
  note r = upsert_result [OF u]
  show ok: "findings_ok (w_db w')" using upsert_ok [OF assms(1) u] .
  show "ins \<longleftrightarrow> f_Fingerprint f \<notin> fingerprints (w_db w)" using r(1) g by simp
  have m: "\<not> ins \<Longrightarrow> map f_Fingerprint (tb_findings (w_db w')) = map f_Fingerprint (tb_findings (w_db w))"
    using r(3) by (simp only: map_fst_update seen_again_simps) (simp add: map_fst_update)
  show "fingerprints (w_db w') = insert (f_Fingerprint f) (fingerprints (w_db w))"
  proof (cases ins)
    case False
    then show ?thesis using m r(1) g unfolding fingerprints_def set_map [symmetric] by auto
  qed (use r(2) g in \<open>auto simp: fingerprints_def\<close>)
  have "\<exists>x \<in> set (tb_findings (w_db w')). f_Fingerprint x = f_Fingerprint f \<and> f_ID x = i"
  proof (cases ins)
    case False
    then obtain old where "old \<in> set (tb_findings (w_db w))" "f_Fingerprint old = f_Fingerprint g" "f_ID old = i"
      using r(3) by blast
    then show ?thesis using r(3) False g by (intro bexI [of _ "seen_again g old"]) auto
  qed (use r(2) g in auto)
  then obtain x where x: "x \<in> set (tb_findings (w_db w'))" "f_Fingerprint x = f_Fingerprint f" "f_ID x = i" by blast
  have "filter (\<lambda>r. f_Fingerprint r = f_Fingerprint x) (tb_findings (w_db w')) = [x]"
    using ok x(1) by (intro filter_distinct_key) (auto simp: findings_ok_def)
  then show "map f_ID (filter (\<lambda>r. f_Fingerprint r = f_Fingerprint f) (tb_findings (w_db w'))) = [f_ID f']"
    using x i by simp
qed

section \<open>Properties\<close>

text \<open>
  C4. Storing a finding keeps the ids and fingerprints of the table unique: it inserts a row exactly when
  its fingerprint is new, and the id it returns is the id of the only row with that fingerprint.
\<close>

theorem Create_deduplicates:
  assumes "findings_ok (w_db w)" and "FindingsRepo_Create f w = (Inr (ins, f'), w')"
  shows "findings_ok (w_db w') \<and> (ins \<longleftrightarrow> f_Fingerprint f \<notin> fingerprints (w_db w)) \<and>
    fingerprints (w_db w') = insert (f_Fingerprint f) (fingerprints (w_db w)) \<and>
    map f_ID (filter (\<lambda>r. f_Fingerprint r = f_Fingerprint f) (tb_findings (w_db w'))) = [f_ID f']"
  using Create_spec [OF assms] by simp

definition demo_finding :: Finding where
  "demo_finding = Finding_zero\<lparr>f_ID := 11, f_Title := ''t'', f_Fingerprint := ''fp'', f_ProjectID := 5, f_Status := 3\<rparr>"

definition demo_db :: DB where
  "demo_db = DB_seed\<lparr>tb_projects := [(5, ''A''), (6, ''B'')], tb_findings := [demo_finding]\<rparr>"

theorem Create_deduplicates_witness:
  "case FindingsRepo_Create (demo_finding\<lparr>f_ID := 12, f_ProjectID := 6\<rparr>) (World_start demo_db 9) of
     (Inr (ins, f'), w') \<Rightarrow> \<not> ins \<and> f_ID f' = 11 \<and> findings_ok (w_db w') | _ \<Rightarrow> False"
proof -
  let ?f = "demo_finding\<lparr>f_ID := 12, f_ProjectID := 6\<rparr>" let ?w = "World_start demo_db 9"
  have ok: "findings_ok (w_db ?w)" by (simp add: findings_ok_def World_start_def demo_db_def demo_finding_def)
  have "\<exists>f' w'. FindingsRepo_Create ?f ?w = (Inr (False, f'), w') \<and> f_ID f' = 11"
    by (simp add: FindingsRepo_Create_def create_defaults_def World_start_def demo_db_def demo_finding_def
        Finding_zero_def findingKindToDB_def upsert_finding_def)
  then obtain f' w' where c: "FindingsRepo_Create ?f ?w = (Inr (False, f'), w')" and "f_ID f' = 11" by blast
  then show ?thesis using Create_deduplicates [OF ok c] by simp
qed

text \<open>
  A finding whose fingerprint is known is only counted: the row keeps its project, its status and
  its first sighting. So a finding scanned in one project is never stored for another project that has
  the same fingerprint, and a finding closed as resolved stays closed when it is seen again.
\<close>

theorem Create_known_only_counts:
  assumes "findings_ok (w_db w)" and "old \<in> set (tb_findings (w_db w))" and "f_Fingerprint old = f_Fingerprint f"
    and "w_faults w = []" and "- 32768 \<le> f_Kind f \<and> f_Kind f \<le> 32767"
  shows "\<exists>f' w'. FindingsRepo_Create f w = (Inr (False, f'), w') \<and> f_ID f' = f_ID old \<and>
    map (\<lambda>r. (f_ID r, f_ProjectID r, f_Status r, f_FirstSeen r)) (tb_findings (w_db w')) =
      map (\<lambda>r. (f_ID r, f_ProjectID r, f_Status r, f_FirstSeen r)) (tb_findings (w_db w)) \<and>
    (\<exists>r \<in> set (tb_findings (w_db w')). f_ID r = f_ID old \<and> f_TimesSeen r = f_TimesSeen old + 1)"
proof -
  obtain g w0 where d: "create_defaults f w = (g, w0)" by fastforce
  note k = create_defaults_keeps [OF d]
  let ?d = "(w_db w)\<lparr>tb_findings := map (\<lambda>r. if f_Fingerprint r = f_Fingerprint g then seen_again g r else r) (tb_findings (w_db w))\<rparr>"
  have u: "upsert_finding g (w_db w) = Inr ((f_ID old, False), ?d)"
    using assms(1-3) k by (intro upsert_known) auto
  have "findingKindToDB (f_Kind g) = Inr (f_Kind g)" using assms(5) k by (simp add: findingKindToDB_def)
  moreover have "g\<lparr>f_Kind := f_Kind g\<rparr> = g" by simp
  ultimately have "FindingsRepo_Create f w = (Inr (False, g\<lparr>f_ID := f_ID old\<rparr>), w0\<lparr>w_db := ?d\<rparr>)"
    using u k(4,5) assms(4) by (simp add: FindingsRepo_Create_def d)
  moreover have "map (\<lambda>r. (f_ID r, f_ProjectID r, f_Status r, f_FirstSeen r)) (tb_findings ?d) =
      map (\<lambda>r. (f_ID r, f_ProjectID r, f_Status r, f_FirstSeen r)) (tb_findings (w_db w))"
    by simp
  moreover have "seen_again g old \<in> set (tb_findings ?d)" using assms(2,3) k by (auto simp: image_iff)
  then have "\<exists>r \<in> set (tb_findings ?d). f_ID r = f_ID old \<and> f_TimesSeen r = f_TimesSeen old + 1"
    by (rule bexI [rotated]) simp
  ultimately show ?thesis
    by (intro exI [of _ "g\<lparr>f_ID := f_ID old\<rparr>"] exI [of _ "w0\<lparr>w_db := ?d\<rparr>"]) simp
qed

theorem Create_known_only_counts_witness:
  "\<exists>f' w'. FindingsRepo_Create (demo_finding\<lparr>f_ID := 12, f_ProjectID := 6, f_Status := 0\<rparr>) (World_start demo_db 9) =
      (Inr (False, f'), w') \<and> map (\<lambda>r. (f_ID r, f_ProjectID r, f_Status r)) (tb_findings (w_db w')) = [(11, 5, 3)]"
proof -
  let ?f = "demo_finding\<lparr>f_ID := 12, f_ProjectID := 6, f_Status := 0\<rparr>" let ?w = "World_start demo_db 9"
  have t: "tb_findings (w_db ?w) = [demo_finding]" "w_faults ?w = []" by (simp_all add: World_start_def demo_db_def)
  have h: "findings_ok (w_db ?w)" by (simp add: findings_ok_def t)
  have k: "f_ID demo_finding = 11" "f_ProjectID demo_finding = 5" "f_Status demo_finding = 3" "f_Kind ?f = 0"
    by (simp_all add: demo_finding_def Finding_zero_def)
  have "\<exists>f' w'. FindingsRepo_Create ?f ?w = (Inr (False, f'), w') \<and> f_ID f' = f_ID demo_finding \<and>
    map (\<lambda>r. (f_ID r, f_ProjectID r, f_Status r, f_FirstSeen r)) (tb_findings (w_db w')) =
      map (\<lambda>r. (f_ID r, f_ProjectID r, f_Status r, f_FirstSeen r)) (tb_findings (w_db ?w)) \<and>
    (\<exists>r \<in> set (tb_findings (w_db w')). f_ID r = f_ID demo_finding \<and> f_TimesSeen r = f_TimesSeen demo_finding + 1)"
    by (rule Create_known_only_counts [OF h]) (simp_all add: t k)
  then obtain f' w' where c: "FindingsRepo_Create ?f ?w = (Inr (False, f'), w')"
    and m: "map (\<lambda>r. (f_ID r, f_ProjectID r, f_Status r, f_FirstSeen r)) (tb_findings (w_db w')) =
      map (\<lambda>r. (f_ID r, f_ProjectID r, f_Status r, f_FirstSeen r)) (tb_findings (w_db ?w))" by blast
  have "map (\<lambda>r. (f_ID r, f_ProjectID r, f_Status r)) xs =
     map (\<lambda>(a, b, c, e). (a, b, c)) (map (\<lambda>r. (f_ID r, f_ProjectID r, f_Status r, f_FirstSeen r)) xs)" for xs
    by simp
  from this [of "tb_findings (w_db w')"]
  have "map (\<lambda>r. (f_ID r, f_ProjectID r, f_Status r)) (tb_findings (w_db w')) = [(11, 5, 3)]"
    by (simp only: m t list.map prod.case k)
  with c show ?thesis by (intro exI conjI)
qed

text \<open>
  C1. A triage action is all or nothing, whatever calls to the database fail: either the tables are
  untouched and an error is reported, or the action was applied to the finding as it was in the table,
  its row got exactly the new triage columns, no other row changed, and exactly one event by the
  acting user was appended.
\<close>

theorem ApplyTriageAction_all_or_nothing:
  "case ApplyTriageAction u i act w of
     (Inl e, w') \<Rightarrow> w_db w' = w_db w
   | (Inr _, w') \<Rightarrow> \<exists>f act' f'. finding_by_id i (w_db w) = Some f \<and>
       ApplyTo act (w_now w) (ByCode (w_reasons w')) f = Inr (act', f') \<and>
       w_db w' = (w_db w)\<lparr>
         tb_findings := map (\<lambda>r. if f_ID r = i then triage_columns f' r else r) (tb_findings (w_db w)),
         tb_events := tb_events (w_db w) @ [BuildEvent act' (w_uuid w (w_next w)) (w_now w) u f']\<rparr>"
proof (cases "ApplyTriageAction u i act w")
  case (Pair r w')
  show ?thesis
  proof (cases r)
    case (Inl e)
    then show ?thesis using Pair triage.Inl_unchanged by simp
  next
    case (Inr x)
    then obtain f act' f' where t: "finding_by_id i (w_db w) = Some f"
      "ApplyTo act (w_now w) (ByCode (w_reasons w')) f = Inr (act', f')" "f_ID f' = i"
      "w_db w' = (update_triage f' (w_db w))\<lparr>tb_events := tb_events (w_db w) @
       [BuildEvent act' (w_uuid w (w_next w)) (w_now w) u f']\<rparr>"
      using ApplyTriageAction_effect [OF Pair [unfolded Inr]] by blast
    then have "w_db w' = (w_db w)\<lparr>
         tb_findings := map (\<lambda>r. if f_ID r = i then triage_columns f' r else r) (tb_findings (w_db w)),
         tb_events := tb_events (w_db w) @ [BuildEvent act' (w_uuid w (w_next w)) (w_now w) u f']\<rparr>"
      by (simp add: update_triage_def)
    with t Pair Inr show ?thesis by auto
  qed
qed



end
