(* ===== verification/FindingsPages.thy ===== *)
theory FindingsPages
  imports FindingsCorrect
begin

text \<open>
  What the findings repository guarantees when it reads: visibility, the pages of a listing, facets
  and the findings of a group.
\<close>

section \<open>Pages\<close>

text \<open>All rows a listing is about, in its order: what the pages are pages of.\<close>

definition matching_rows :: "(string \<Rightarrow> Finding \<Rightarrow> bool) \<Rightarrow> FindingsFilter \<Rightarrow> World \<Rightarrow> Finding list" where
  "matching_rows tsmatch ff w =
     order_rows (strings_EqualFold (ff_SortDir ff) ''asc'') (order_key (ff_SortField ff) (w_db w))
       (filter (whereClause (buildBaseWhere tsmatch (w_now w) (w_db w) ff [])) (tb_findings (w_db w)))"

definition row_cursor :: "Finding \<Rightarrow> time \<times> uuid" where
  "row_cursor f = (f_FirstSeen f, f_ID f)"

lemma list_item_simps [simp]:
  "f_ID (list_item d f) = f_ID f" "f_FirstSeen (list_item d f) = f_FirstSeen f"
  "f_ProjectID (list_item d f) = f_ProjectID f" "f_Severity (list_item d f) = f_Severity f"
  by (simp_all add: list_item_def with_score_def)

lemma cursor_ff_conds [simp]: "buildBaseWhere ts now d (ff\<lparr>ff_Cursor := c\<rparr>) ex = buildBaseWhere ts now d ff ex"
  by (simp add: buildBaseWhere_def)

lemma length_matching_rows: "length (matching_rows ts ff w) =
  length (filter (whereClause (buildBaseWhere ts (w_now w) (w_db w) ff [])) (tb_findings (w_db w)))"
  by (simp add: matching_rows_def order_rows_def)

lemma filter_whereClause_append:
  "filter (whereClause (cs @ es)) xs = filter (whereClause es) (filter (whereClause cs) xs)"
  by (induction xs) auto

text \<open>The conditions a cursor adds.\<close>

definition cursor_conds :: "FindingsFilter \<Rightarrow> cond list" where
  "cursor_conds ff = (case ff_Cursor ff of
     Some (Some c) \<Rightarrow> [cursor_condition (strings_EqualFold (ff_SortDir ff) ''asc'') c] | _ \<Rightarrow> [])"

definition page_items :: "(string \<Rightarrow> Finding \<Rightarrow> bool) \<Rightarrow> FindingsFilter \<Rightarrow> World \<Rightarrow> Finding list" where
  "page_items ts ff w = map (list_item (w_db w))
     (take (page_limit (ff_Limit ff)) (filter (whereClause (cursor_conds ff)) (matching_rows ts ff w)))"

lemma page_items_alt: "map (list_item (w_db w)) (take (page_limit (ff_Limit ff))
   (order_rows (strings_EqualFold (ff_SortDir ff) ''asc'') (order_key (ff_SortField ff) (w_db w))
     (filter (whereClause (buildBaseWhere ts (w_now w) (w_db w) ff [] @ cursor_conds ff)) (tb_findings (w_db w))))) =
   page_items ts ff w"
  by (simp only: page_items_def matching_rows_def filter_whereClause_append order_filter)

lemma List_no_fault:
  assumes "w_faults w = []" and "ff_Cursor ff \<noteq> Some None"
  shows "FindingsRepo_List ts ff w =
    (let fs = page_items ts ff w
     in (Inr (fs, if length fs = page_limit (ff_Limit ff) then Some (row_cursor (last fs)) else None,
              length (matching_rows ts ff w)), w))"
proof -
  have n: "ff_Cursor ff = Some (Some c) \<Longrightarrow> cursor_conds ff = [cursor_condition (strings_EqualFold (ff_SortDir ff) ''asc'') c]"
    "ff_Cursor ff = None \<Longrightarrow> cursor_conds ff = []" for c by (simp_all add: cursor_conds_def)
  show ?thesis
  proof (cases "ff_Cursor ff")
    case None
    show ?thesis
      by (simp add: FindingsRepo_List_def None assms(1) Let_def length_matching_rows row_cursor_def
          page_items_alt [symmetric] n(2) [OF None])
  next
    case (Some oc)
    then obtain c where c: "ff_Cursor ff = Some (Some c)" using assms(2) by (cases oc) auto
    show ?thesis
      by (simp add: FindingsRepo_List_def c assms(1) Let_def length_matching_rows row_cursor_def
          page_items_alt [symmetric] n(1) [OF c])
  qed
qed

lemma order_key_first_seen:
  assumes "field \<notin> {''last_seen'', ''severity'', ''priority_score''}"
  shows "order_key field d f \<le> order_key field d g \<longleftrightarrow> row_cursor f \<le> row_cursor g"
  using assms by (auto simp: order_key_def sort_column_def row_cursor_def)

lemma cursor_condition_before: "cursor_condition asc c = (\<lambda>g. key_before asc c (row_cursor g))"
  by (auto simp: cursor_condition_def key_before_def row_cursor_def)

text \<open>The listing in its default order keeps the contract of a keyset: ids are unique.\<close>

definition filtered_rows :: "(string \<Rightarrow> Finding \<Rightarrow> bool) \<Rightarrow> FindingsFilter \<Rightarrow> World \<Rightarrow> Finding list" where
  "filtered_rows ts ff w = filter (whereClause (buildBaseWhere ts (w_now w) (w_db w) ff [])) (tb_findings (w_db w))"

interpretation findings_keyset: keyset "\<lambda>w. findings_ok (w_db w)" "filtered_rows ts ff" row_cursor asc for ts ff asc
proof
  fix w :: World assume "findings_ok (w_db w)"
  then have "distinct (map f_ID (filtered_rows ts ff w))"
    by (simp add: findings_ok_def filtered_rows_def distinct_map_filter)
  then show "distinct (map row_cursor (filtered_rows ts ff w))"
    by (auto simp: distinct_map inj_on_def row_cursor_def)
qed

lemma matching_rows_by_cursor:
  assumes "ff_SortField ff \<notin> {''last_seen'', ''severity'', ''priority_score''}"
  shows "matching_rows ts ff w = order_rows (strings_EqualFold (ff_SortDir ff) ''asc'') row_cursor (filtered_rows ts ff w)"
  unfolding matching_rows_def filtered_rows_def [symmetric]
  by (rule order_rows_cong_le) (rule order_key_first_seen [OF assms])

lemma rows_after_cursor:
  "filter (whereClause (cursor_conds (ff\<lparr>ff_Cursor := map_option Some c\<rparr>))) xs =
   rows_after (strings_EqualFold (ff_SortDir ff) ''asc'') row_cursor c xs"
  by (cases c) (auto simp: cursor_conds_def rows_after_def cursor_condition_before filter_id_conv intro: filter_cong)

lemma page_limit_pos: "0 < page_limit n"
  by (simp add: page_limit_def)


lemma filter_length_mono: "(\<And>x. P x \<Longrightarrow> Q x) \<Longrightarrow> length (filter P xs) \<le> length (filter Q xs)"
  by (induction xs) (auto simp: le_SucI)

text \<open>The two queries behind a result, with the conditions of the cursor if there is one.\<close>

lemma List_queries:
  assumes "FindingsRepo_List ts ff w = (Inr (fs, nxt, n), w')"
  obtains cc w1 where
    "db_query (\<lambda>d. length (filter (whereClause (buildBaseWhere ts (w_now w) d ff [])) (tb_findings d))) w = (Inr n, w1)"
    "db_query (\<lambda>d. map (list_item d) (take (page_limit (ff_Limit ff))
        (order_rows (strings_EqualFold (ff_SortDir ff) ''asc'') (order_key (ff_SortField ff) d)
          (filter (whereClause (buildBaseWhere ts (w_now w) d ff [] @ cc)) (tb_findings d))))) w1 = (Inr fs, w')"
proof (cases "ff_Cursor ff")
  case None
  then show ?thesis using assms that [of _ "[]"]
    by (auto simp: FindingsRepo_List_def Let_def split: prod.splits sum.splits)
next
  case (Some oc)
  show ?thesis
  proof (cases oc)
    case None
    with Some show ?thesis using assms by (simp add: FindingsRepo_List_def)
  next
    case (Some c)
    with \<open>ff_Cursor ff = Some oc\<close> show ?thesis
      using assms that [of _ "[cursor_condition (strings_EqualFold (ff_SortDir ff) ''asc'') c]"]
      by (auto simp: FindingsRepo_List_def Let_def split: prod.splits sum.splits)
  qed
qed

section \<open>Properties\<close>

text \<open>
  A listing restricted to the accessible projects of a user shows findings of these projects only and
  counts findings of these projects only, whatever the other filters, the cursor and the sort order.
\<close>

theorem List_only_accessible:
  assumes "ff_AccessibleProjectIDs ff = Some ps" and "FindingsRepo_List ts ff w = (Inr (fs, nxt, n), w')"
  shows "(\<forall>f \<in> set fs. f_ProjectID f \<in> set ps) \<and>
    n \<le> length (filter (\<lambda>f. f_ProjectID f \<in> set ps) (tb_findings (w_db w)))"
proof -
  let ?asc = "strings_EqualFold (ff_SortDir ff) ''asc''"
  let ?conds = "\<lambda>d. buildBaseWhere ts (w_now w) d ff []"
  have vis: "f_ProjectID f \<in> set ps" if "whereClause (?conds d) f" for d f
    using that assms(1) by (auto simp: buildBaseWhere_def split: if_splits)
  obtain cc w1 where c: "db_query (\<lambda>d. length (filter (whereClause (?conds d)) (tb_findings d))) w = (Inr n, w1)"
    and l: "db_query (\<lambda>d. map (list_item d) (take (page_limit (ff_Limit ff)) (order_rows ?asc (order_key (ff_SortField ff) d)
              (filter (whereClause (?conds d @ cc)) (tb_findings d))))) w1 = (Inr fs, w')"
    using assms(2) by (rule List_queries)
  have "n = length (filter (whereClause (?conds (w_db w))) (tb_findings (w_db w)))" using db_query_Inr [OF c] .
  then have "n \<le> length (filter (\<lambda>f. f_ProjectID f \<in> set ps) (tb_findings (w_db w)))"
    using filter_length_mono [OF vis] by simp
  moreover have "\<forall>f \<in> set fs. f_ProjectID f \<in> set ps"
    using db_query_Inr [OF l] db_query_db [OF c] vis by (auto dest!: in_set_takeD)
  ultimately show ?thesis by simp
qed

theorem List_only_accessible_witness:
  "\<exists>fs nxt n w'. FindingsRepo_List (\<lambda>_ _. True) (FindingsFilter_zero\<lparr>ff_AccessibleProjectIDs := Some [5]\<rparr>)
     (World_start demo_db 9) = (Inr (fs, nxt, n), w') \<and> f_ProjectID ` set fs \<subseteq> {5}"
proof -
  let ?ff = "FindingsFilter_zero\<lparr>ff_AccessibleProjectIDs := Some [5]\<rparr>" let ?w = "World_start demo_db 9"
  have "w_faults ?w = []" "ff_Cursor ?ff \<noteq> Some None" by (simp_all add: World_start_def FindingsFilter_zero_def)
  then obtain fs nxt n where l: "FindingsRepo_List (\<lambda>_ _. True) ?ff ?w = (Inr (fs, nxt, n), ?w)"
    by (simp add: List_no_fault Let_def)
  have "ff_AccessibleProjectIDs ?ff = Some [5]" by simp
  from List_only_accessible [OF this l] have "f_ProjectID ` set fs \<subseteq> {5}" by auto
  with l show ?thesis by blast
qed

text \<open>
  C12. Paging by the default sort order is exact: with the cursor of the k-th row of all matching rows (no
  cursor for k = 0), the page is the next rows in order, the count is that of all matching rows, and
  the cursor handed out leads to the row after the page. So following the cursors lists every matching
  row once.
\<close>

theorem List_pages_exact:
  assumes "findings_ok (w_db w)" and "ff_SortField ff \<notin> {''last_seen'', ''severity'', ''priority_score''}"
    and "w_faults w = []" and "k \<le> length (matching_rows ts ff w)"
  shows "FindingsRepo_List ts (ff\<lparr>ff_Cursor := if k = 0 then None else Some (Some (row_cursor (matching_rows ts ff w ! (k - 1))))\<rparr>) w =
    (Inr (map (list_item (w_db w)) (take (page_limit (ff_Limit ff)) (drop k (matching_rows ts ff w))),
          if k + page_limit (ff_Limit ff) \<le> length (matching_rows ts ff w)
          then Some (row_cursor (matching_rows ts ff w ! (k + page_limit (ff_Limit ff) - 1))) else None,
          length (matching_rows ts ff w)), w)"
proof -
  let ?rows = "matching_rows ts ff w" and ?lim = "page_limit (ff_Limit ff)"
  let ?asc = "strings_EqualFold (ff_SortDir ff) ''asc''"
  let ?c = "if k = 0 then None else Some (row_cursor (?rows ! (k - 1)))"
  let ?ff = "ff\<lparr>ff_Cursor := if k = 0 then None else Some (Some (row_cursor (?rows ! (k - 1))))\<rparr>"
  have m: "matching_rows ts ?ff w = ?rows" by (simp add: matching_rows_def)
  note rows = matching_rows_by_cursor [OF assms(2), of ts w]
  have ff: "?ff = ff\<lparr>ff_Cursor := map_option Some ?c\<rparr>" by simp
  have "filter (whereClause (cursor_conds ?ff)) ?rows = rows_after ?asc row_cursor ?c ?rows"
    unfolding ff by (rule rows_after_cursor)
  also have "\<dots> = order_rows ?asc row_cursor (rows_after ?asc row_cursor ?c (filtered_rows ts ff w))"
    by (simp add: rows rows_after_def order_filter)
  also have "\<dots> = drop k ?rows"
    unfolding rows cursor_at_def [symmetric]
    by (rule findings_keyset.page_at [OF assms(1)]) (use assms(4) in \<open>simp add: rows\<close>)
  finally have rest: "filter (whereClause (cursor_conds ?ff)) ?rows = drop k ?rows" .
  have items: "page_items ts ?ff w = map (list_item (w_db w)) (take ?lim (drop k ?rows))"
    by (simp only: page_items_def m rest) simp
  have "ff_Cursor ?ff \<noteq> Some None" by simp
  note L = List_no_fault [OF assms(3) this, of ts, unfolded m items Let_def]
  have len: "length (take ?lim (drop k ?rows)) = ?lim \<longleftrightarrow> k + ?lim \<le> length ?rows"
    using page_limit_pos [of "ff_Limit ff"] assms(4) by (auto simp: min_def)
  have "row_cursor (last (map (list_item (w_db w)) (take ?lim (drop k ?rows)))) = row_cursor (?rows ! (k + ?lim - 1))"
    if "k + ?lim \<le> length ?rows"
  proof -
    have "take ?lim (drop k ?rows) \<noteq> []" using that page_limit_pos [of "ff_Limit ff"] by auto
    then have "last (take ?lim (drop k ?rows)) = ?rows ! (k + ?lim - 1)"
      using that page_limit_pos [of "ff_Limit ff"] by (simp add: last_conv_nth)
    then show ?thesis using \<open>take ?lim (drop k ?rows) \<noteq> []\<close> by (simp add: last_map row_cursor_def)
  qed
  then show ?thesis using L len by simp
qed

theorem List_pages_exact_witness:
  "FindingsRepo_List (\<lambda>_ _. True) (FindingsFilter_zero\<lparr>ff_Cursor := Some (Some (row_cursor demo_finding))\<rparr>) (World_start demo_db 9) =
     (Inr ([], None, 1), World_start demo_db 9)"
proof -
  let ?w = "World_start demo_db 9" let ?ff = FindingsFilter_zero
  have c: "buildBaseWhere (\<lambda>_ _. True) (w_now ?w) (w_db ?w) ?ff [] = []"
    by (simp add: buildBaseWhere_def FindingsFilter_zero_def cond_if_def)
  have m: "matching_rows (\<lambda>_ _. True) ?ff ?w = [demo_finding]"
    unfolding matching_rows_def c by (simp add: order_rows_def World_start_def demo_db_def)
  have o: "findings_ok (w_db ?w)" by (simp add: findings_ok_def World_start_def demo_db_def)
  have s: "ff_SortField ?ff \<notin> {''last_seen'', ''severity'', ''priority_score''}" "w_faults ?w = []" "page_limit (ff_Limit ?ff) = 50"
    by (simp_all add: FindingsFilter_zero_def World_start_def page_limit_def)
  show ?thesis using List_pages_exact [OF o s(1,2), of 1 "\<lambda>_ _. True"] by (simp add: m s(3))
qed

text \<open>
  Paging by severity loses findings: the cursor compares first sightings whatever the sort order. Of
  two findings, the more severe one seen first, a page of one followed by its cursor's page shows the
  more severe one and then nothing, although both are counted.
\<close>

definition skip_db :: DB where
  "skip_db = DB_seed\<lparr>tb_findings := [demo_finding\<lparr>f_ID := 1, f_Severity := 4, f_FirstSeen := 10\<rparr>,
     demo_finding\<lparr>f_ID := 2, f_Severity := 3, f_FirstSeen := 20, f_Fingerprint := ''fq''\<rparr>]\<rparr>"

theorem List_by_severity_skips:
  "let ff = FindingsFilter_zero\<lparr>ff_SortField := ''severity'', ff_Limit := 1\<rparr>; w = World_start skip_db 99;
       (p1, c1, n) = projr (fst (FindingsRepo_List (\<lambda>_ _. True) ff w));
       (p2, c2, n2) = projr (fst (FindingsRepo_List (\<lambda>_ _. True) (ff\<lparr>ff_Cursor := Some c1\<rparr>) w))
   in n = 2 \<and> map f_ID p1 = [1] \<and> c1 = Some (10, 1) \<and> p2 = [] \<and> c2 = None"
proof -
  let ?ff = "FindingsFilter_zero\<lparr>ff_SortField := ''severity'', ff_Limit := 1\<rparr>" let ?w = "World_start skip_db 99"
  let ?a = "demo_finding\<lparr>f_ID := 1, f_Severity := 4, f_FirstSeen := 10\<rparr>"
  let ?b = "demo_finding\<lparr>f_ID := 2, f_Severity := 3, f_FirstSeen := 20, f_Fingerprint := ''fq''\<rparr>"
  have w: "w_faults ?w = []" by (simp add: World_start_def)
  have d: "ff_SortField ?ff = ''severity''" "page_limit (ff_Limit ?ff) = 1" "ff_Cursor ?ff = None" "ff_SortDir ?ff = []"
    by (simp_all add: FindingsFilter_zero_def page_limit_def)
  have asc: "\<not> strings_EqualFold [] ''asc''" by code_simp
  have c: "buildBaseWhere (\<lambda>_ _. True) (w_now ?w) (w_db ?w) ?ff [] = []"
    by (simp add: buildBaseWhere_def FindingsFilter_zero_def cond_if_def)
  have m: "matching_rows (\<lambda>_ _. True) ?ff ?w = [?a, ?b]"
    unfolding matching_rows_def c by (simp add: d asc order_rows_def World_start_def skip_db_def order_key_def
        sort_column_def less_eq_prod_def less_prod_def)
  have m2: "matching_rows (\<lambda>_ _. True) (?ff\<lparr>ff_Cursor := Some (Some (10, 1))\<rparr>) ?w = [?a, ?b]"
    using m by (simp add: matching_rows_def)
  have k: "cursor_conds ?ff = []" "cursor_conds (?ff\<lparr>ff_Cursor := Some (Some (10, 1))\<rparr>) = [cursor_condition False (10, 1)]"
    by (simp_all add: cursor_conds_def FindingsFilter_zero_def asc)
  have "page_items (\<lambda>_ _. True) ?ff ?w = [list_item (w_db ?w) ?a]"
    by (simp only: page_items_def m k d) simp
  moreover have "page_items (\<lambda>_ _. True) (?ff\<lparr>ff_Cursor := Some (Some (10, 1))\<rparr>) ?w = []"
    by (simp only: page_items_def m2 k) (simp add: cursor_condition_def less_prod_def less_eq_prod_def)
  ultimately show ?thesis
    by (simp add: Let_def List_no_fault [OF w] d m m2 row_cursor_def page_limit_def)
qed

text \<open>
  The count on a severity chip is the number of findings the list shows when only this severity is
  chosen and every other filter stays: the chips leave out their own dimension and no other.
\<close>

theorem Facets_severity_counts:
  assumes "w_faults w = []" and "Facets ts ff w = (Inr fa, w')"
    and "FindingsRepo_List ts (ff\<lparr>ff_Severities := [sev], ff_Cursor := None\<rparr>) w = (Inr (fs, nxt, n), w'')"
  shows "map_of (fa_BySeverity fa) sev = (if n = 0 then None else Some n)"
proof -
  let ?all = "facet_rows ts (w_now w) (w_db w) ff FacetSeverity (\<lambda>f. True)"
  have "db_calls m w = (True, w)" for m using assms(1) by (induction m) auto
  then have fa: "fa_BySeverity fa = group_count f_Severity ?all"
    using assms(2) by (auto simp: Facets_def compute_facets_def Let_def)
  have "n = length (filter (whereClause (buildBaseWhere ts (w_now w) (w_db w) (ff\<lparr>ff_Severities := [sev], ff_Cursor := None\<rparr>) []))
      (tb_findings (w_db w)))"
    using assms(3) by (elim List_queries) (auto dest: db_query_Inr)
  moreover have "whereClause (buildBaseWhere ts (w_now w) (w_db w) (ff\<lparr>ff_Severities := [sev], ff_Cursor := None\<rparr>) []) =
      (\<lambda>f. whereClause (buildBaseWhere ts (w_now w) (w_db w) ff FacetSeverity) f \<and> f_Severity f = sev)"
    by (rule ext) (simp add: buildBaseWhere_def facet_defs conj_ac)
  ultimately have n: "n = length (filter (\<lambda>f. f_Severity f = sev) ?all)"
    by (simp only: facet_rows_def filter_filter filter_whereClause_append) simp
  have "map_of (group_count f_Severity xs) sev =
     (if sev \<in> f_Severity ` set xs then Some (length (filter (\<lambda>f. f_Severity f = sev) xs)) else None)" for xs :: "Finding list"
    by (auto simp: group_count_def map_of_map_restrict restrict_map_def)
  moreover have "n = 0 \<longleftrightarrow> sev \<notin> f_Severity ` set ?all" unfolding n by (auto simp: filter_empty_conv)
  ultimately show ?thesis using fa n by simp
qed

theorem Facets_severity_counts_witness:
  "\<exists>fa w'. Facets (\<lambda>_ _. True) FindingsFilter_zero (World_start demo_db 9) = (Inr fa, w') \<and>
     map_of (fa_BySeverity fa) 0 = Some 1"
proof -
  let ?w = "World_start demo_db 9" let ?ff = "FindingsFilter_zero\<lparr>ff_Severities := [0], ff_Cursor := None\<rparr>"
  have w: "w_faults ?w = []" by (simp add: World_start_def)
  have "db_calls m ?w = (True, ?w)" for m using w by (induction m) auto
  then obtain fa where fa: "Facets (\<lambda>_ _. True) FindingsFilter_zero ?w = (Inr fa, ?w)" by (simp add: Facets_def)
  have c: "buildBaseWhere (\<lambda>_ _. True) (w_now ?w) (w_db ?w) ?ff [] = [\<lambda>f. f_Severity f \<in> set [0]]"
    by (simp add: buildBaseWhere_def FindingsFilter_zero_def cond_if_def facet_defs)
  have l: "length (matching_rows (\<lambda>_ _. True) ?ff ?w) = 1"
    unfolding length_matching_rows c by (simp add: World_start_def demo_db_def demo_finding_def Finding_zero_def)
  have "ff_Cursor ?ff \<noteq> Some None" by simp
  from List_no_fault [OF w this, of "\<lambda>_ _. True"] obtain fs nxt
    where "FindingsRepo_List (\<lambda>_ _. True) ?ff ?w = (Inr (fs, nxt, 1), ?w)" by (simp add: l Let_def)
  from Facets_severity_counts [OF w fa this] fa show ?thesis by auto
qed

text \<open>
  The findings a bulk action on a component group touches are those of the component and version its
  key was built from, as long as the version has no \<open>@\<close>: the key splits at its last \<open>@\<close>, so
  scoped package names that contain one are read back whole.
\<close>

theorem ListIDsByGroup_component:
  assumes "w_faults w = []" and "CHR ''@'' \<notin> set ver"
    and "length (filter (\<lambda>f. f_Component f = compo \<and> f_ComponentVersion f = ver) (tb_findings (w_db w))) \<le> 5000"
  shows "fst (ListIDsByGroup ts FindingsFilter_zero ''component'' (compo @ ''@'' @ ver) w) =
    Inr (map f_ID (filter (\<lambda>f. f_Component f = compo \<and> f_ComponentVersion f = ver) (tb_findings (w_db w))),
         length (filter (\<lambda>f. f_Component f = compo \<and> f_ComponentVersion f = ver) (tb_findings (w_db w))))"
proof -
  have b: "buildBaseWhere ts now d (overlay_cleared FindingsFilter_zero) [] = []" for now d
    by (simp add: buildBaseWhere_def overlay_cleared_def FindingsFilter_zero_def cond_if_def)
  have w: "whereClause [\<lambda>f. f_Component f = compo, \<lambda>f. f_ComponentVersion f = ver] =
      (\<lambda>f. f_Component f = compo \<and> f_ComponentVersion f = ver)"
    by (rule ext) simp
  have g: "group_conditions ''component'' (compo @ CHR ''@'' # ver) = Inr [\<lambda>f. f_Component f = compo, \<lambda>f. f_ComponentVersion f = ver]"
    using LastIndex_append [OF assms(2), of compo] by (simp add: group_conditions_def)
  show ?thesis using assms(1,3) by (simp add: ListIDsByGroup_def g b w bulk_hardLimit_def Let_def)
qed

theorem ListIDsByGroup_component_witness:
  "fst (ListIDsByGroup (\<lambda>_ _. True) FindingsFilter_zero ''component'' ''@babel/core@7.1'' (World_start demo_db 9)) = Inr ([], 0)"
  using ListIDsByGroup_component [of "World_start demo_db 9" "''7.1''" "''@babel/core''" "\<lambda>_ _. True"]
  by (simp add: World_start_def demo_db_def demo_finding_def Finding_zero_def)

end
