(* ===== verification/Access.thy ===== *)
theory Access
  imports FindingsRepo
begin

text \<open>
  Who may do what: \<open>internal/storage/user_project_roles_repo.go\<close>, the middlewares of
  \<open>internal/api/auth_middleware.go\<close>, the access checks of the bulk handlers in
  \<open>internal/api/triage.go\<close>, and the handlers of \<open>internal/api/project_members.go\<close>.

  A handler takes the request, as the earlier middlewares completed it, and the world to a response
  and the world. A URL parameter is the result of \<open>uuid.Parse\<close>; a body is \<open>None\<close> when it does not
  decode. Calling a method of a nil user is the response \<open>Panic\<close> (the recovery middleware answers 500).
\<close>

section \<open>Requests and responses\<close>

record Request =
  rq_User :: "User option"
  rq_Token :: "APIToken option"
  rq_Session :: "Session option"
  rq_Param :: "string \<Rightarrow> uuid option"
  rq_TokenInvalid :: bool

datatype body =
    ErrorBody string string
  | StatusData string
  | BulkData "uuid list" "(uuid \<times> string) list"
  | GroupData "uuid list" "(uuid \<times> string) list" nat
  | ForbiddenProjects "uuid list"
  | BulkLimitBody nat
  | MembersData "ProjectRoleRow list"
  | UserData User
  | UsersData "(uuid \<times> string \<times> string) list"
  | ReasonsData "ClosureReason list"
  | EventsData "(FindingEvent \<times> (string \<times> string) option) list" "(time \<times> uuid) option"
  | FindingsData "Finding list" nat "(time \<times> uuid) option"
  | ScanData uuid int int
  | TokenData string
  | JsonData json
  | ProjectData Project
  | ProjectsData "Project list" nat string
  | PinnedData uuid bool
  | TrendData "(time \<times> nat) list" int
  | QuickPeekData "QuickPeekFinding list" "QuickPeekEvent list" QuickPeekStatusStats
  | SavedViewData SavedView
  | SavedViewsData "SavedView list"
  | TeamData Team
  | TeamsData "Team list"
  | WorkspaceMembersData "WorkspaceMember list"
  | TagsData "string list"
  | SlugData bool
  | FacetsData FindingsFacets
  | GroupsData "FindingGroup list" nat
  | FindingData Finding "FindingEnrichment list" "FindingScore option" "Scan list option"
  | EnrichmentsData "FindingEnrichment list"
  | ScoreData "FindingScore option"
  | EpssHistoryData string int "(time \<times> real \<times> real) list"
  | DashboardData DashboardStats
  | NoBody

datatype response = Response nat body | Panic

type_synonym handler = "Request \<Rightarrow> World \<Rightarrow> response \<times> World"

definition respondError :: "nat \<Rightarrow> string \<Rightarrow> string \<Rightarrow> response" where
  "respondError status code message = Response status (ErrorBody code message)"

definition respondData :: "string \<Rightarrow> response" where
  "respondData s = Response 200 (StatusData s)"

fun status_of :: "response \<Rightarrow> nat" where
  "status_of (Response n _) = n"
| "status_of Panic = 500"

section \<open>Roles in projects\<close>

definition projectRoleToDB :: "int \<Rightarrow> err + int" where
  "projectRoleToDB role =
     (if role < - 32768 \<or> role > 32767 then Inl (Err ''project role is out of int16 range'') else Inr role)"

definition role_row :: "uuid \<Rightarrow> uuid \<Rightarrow> ProjectRoleRow \<Rightarrow> bool" where
  "role_row u p r \<longleftrightarrow> upr_UserID r = u \<and> upr_ProjectID r = p"

definition grant_role :: "uuid \<Rightarrow> uuid \<Rightarrow> int \<Rightarrow> uuid option \<Rightarrow> time \<Rightarrow> DB \<Rightarrow> DB" where
  "grant_role u p role by now d =
     (if list_ex (role_row u p) (tb_roles d)
      then d\<lparr>tb_roles := map (\<lambda>r. if role_row u p r
              then r\<lparr>upr_Role := role, upr_GrantedBy := by, upr_GrantedAt := now\<rparr> else r) (tb_roles d)\<rparr>
      else d\<lparr>tb_roles := tb_roles d @ [\<lparr>upr_UserID = u, upr_ProjectID = p, upr_Role = role,
              upr_GrantedBy = by, upr_GrantedAt = now\<rparr>]\<rparr>)"

text \<open>The foreign keys of a new row are checked by the database.\<close>

definition Grant :: "uuid \<Rightarrow> uuid \<Rightarrow> int \<Rightarrow> uuid option \<Rightarrow> unit op" where
  "Grant u p role by w = (case projectRoleToDB role of
     Inl e \<Rightarrow> (Inl e, w)
   | Inr dbRole \<Rightarrow> db_exec (\<lambda>d.
       if u \<notin> u_ID ` set (tb_users d) \<or> p \<notin> fst ` set (tb_projects d)
       then Inl (Err ''violates foreign key constraint'')
       else Inr ((), grant_role u p dbRole by (w_now w) d)) w)"

definition Revoke_role :: "uuid \<Rightarrow> uuid \<Rightarrow> unit op" where
  "Revoke_role u p = db_exec (\<lambda>d. Inr ((), d\<lparr>tb_roles := filter (\<lambda>r. \<not> role_row u p r) (tb_roles d)\<rparr>))"

definition Update_role :: "uuid \<Rightarrow> uuid \<Rightarrow> int \<Rightarrow> unit op" where
  "Update_role u p role w = (case projectRoleToDB role of
     Inl e \<Rightarrow> (Inl e, w)
   | Inr dbRole \<Rightarrow>
       (case db_exec (\<lambda>d. Inr (list_ex (role_row u p) (tb_roles d),
               d\<lparr>tb_roles := map (\<lambda>r. if role_row u p r then r\<lparr>upr_Role := dbRole\<rparr> else r) (tb_roles d)\<rparr>)) w of
          (Inl e, w) \<Rightarrow> (Inl e, w)
        | (Inr affected, w) \<Rightarrow>
            if affected then (Inr (), w) else (Inl (Err ''storage.UserProjectRolesRepo.Update: role not found''), w)))"

definition role_in :: "DB \<Rightarrow> uuid \<Rightarrow> uuid \<Rightarrow> int option" where
  "role_in d u p = map_option upr_Role (find (role_row u p) (tb_roles d))"

text \<open>\<open>GetRole\<close>: \<open>None\<close> for a user without a role in the project.\<close>

definition GetRole :: "uuid \<Rightarrow> uuid \<Rightarrow> int option op" where
  "GetRole u p w = (case db_query_row (\<lambda>d. role_in d u p) w of
     (Inl e, w) \<Rightarrow> if e = ErrNoRows then (Inr None, w) else (Inl e, w)
   | (Inr role, w) \<Rightarrow> (Inr (Some role), w))"

definition HasProjectAccess :: "uuid \<Rightarrow> uuid \<Rightarrow> bool op" where
  "HasProjectAccess u p = db_query (\<lambda>d. list_ex (role_row u p) (tb_roles d))"

definition ListForProject :: "uuid \<Rightarrow> ProjectRoleRow list op" where
  "ListForProject p = db_query (\<lambda>d. rev (sort_key upr_Role
     (filter (\<lambda>r. upr_ProjectID r = p \<and> upr_UserID r \<in> u_ID ` set (tb_users d)) (tb_roles d))))"

definition ListProjectIDsForUser :: "uuid \<Rightarrow> uuid list op" where
  "ListProjectIDsForUser u = db_query (\<lambda>d. sort (map upr_ProjectID (filter (\<lambda>r. upr_UserID r = u) (tb_roles d))))"

definition CountProjectAdmins :: "uuid \<Rightarrow> nat op" where
  "CountProjectAdmins p w = (case projectRoleToDB RoleProjectAdmin of
     Inl e \<Rightarrow> (Inl e, w)
   | Inr adminRole \<Rightarrow> db_query (\<lambda>d. length (filter (\<lambda>r. upr_ProjectID r = p \<and> upr_Role r = adminRole) (tb_roles d))) w)"

section \<open>Middlewares\<close>

definition RequireAuth :: "handler \<Rightarrow> handler" where
  "RequireAuth next rq w =
     (case rq_User rq of
        Some _ \<Rightarrow> next rq w
      | None \<Rightarrow> (case rq_Token rq of
          Some _ \<Rightarrow> next rq w
        | None \<Rightarrow> (respondError 401 ''AUTHENTICATION_REQUIRED'' ''authentication required'', w)))"

definition RequireScope :: "string \<Rightarrow> handler \<Rightarrow> handler" where
  "RequireScope required next rq w =
     (case rq_Token rq of
        Some tok \<Rightarrow>
          if list_ex (\<lambda>scope. scope = required) (t_Scopes tok) then next rq w
          else (respondError 403 ''INSUFFICIENT_SCOPE'' ''insufficient token scope'', w)
      | None \<Rightarrow> (case rq_User rq of
          Some _ \<Rightarrow> next rq w
        | None \<Rightarrow> (respondError 401 ''AUTHENTICATION_REQUIRED'' ''authentication required'', w)))"

definition RequireGlobalAdmin :: "handler \<Rightarrow> handler" where
  "RequireGlobalAdmin next rq w =
     (case rq_User rq of
        None \<Rightarrow> (respondError 401 ''AUTHENTICATION_REQUIRED'' ''authentication required'', w)
      | Some user \<Rightarrow>
          if \<not> User_IsAdmin user then (respondError 403 ''ADMIN_REQUIRED'' ''admin required'', w)
          else next rq w)"

definition RequirePasswordChangeCompleted :: "handler \<Rightarrow> handler" where
  "RequirePasswordChangeCompleted next rq w =
     (case rq_User rq of
        Some user \<Rightarrow> if u_MustChangePassword user then (respondError 401 ''FORCE_PASSWORD_CHANGE'' [], w) else next rq w
      | None \<Rightarrow> next rq w)"

type_synonym ProjectIDExtractor = "Request \<Rightarrow> uuid op"

definition ProjectIDFromURL :: "string \<Rightarrow> ProjectIDExtractor" where
  "ProjectIDFromURL param rq w =
     (case rq_Param rq param of None \<Rightarrow> (Inl (Err ''invalid UUID''), w) | Some p \<Rightarrow> (Inr p, w))"

text \<open>The body of the request is an argument: \<open>None\<close> when it does not decode.\<close>

definition ProjectIDFromBody :: "uuid option \<Rightarrow> ProjectIDExtractor" where
  "ProjectIDFromBody body rq w = (case body of
     None \<Rightarrow> (Inl (Err ''invalid body''), w)
   | Some p \<Rightarrow> if p = uuid_Nil then (Inl (Err ''missing project_id''), w) else (Inr p, w))"

definition ProjectIDFromFinding :: "string \<Rightarrow> ProjectIDExtractor" where
  "ProjectIDFromFinding param rq w =
     (case rq_Param rq param of None \<Rightarrow> (Inl (Err ''invalid UUID''), w) | Some i \<Rightarrow> FindingsRepo_GetProjectID i w)"

definition RequireProjectRole :: "int \<Rightarrow> ProjectIDExtractor \<Rightarrow> handler \<Rightarrow> handler" where
  "RequireProjectRole minRole extractor next rq w =
     (case rq_User rq of
        None \<Rightarrow> (respondError 401 ''AUTHENTICATION_REQUIRED'' ''authentication required'', w)
      | Some user \<Rightarrow>
          if User_IsAdmin user then next rq w
          else case extractor rq w of
            (Inl e, w) \<Rightarrow> (respondError 400 ''VALIDATION_ERROR'' ''invalid project id'', w)
          | (Inr projectID, w) \<Rightarrow>
              (case GetRole (u_ID user) projectID w of
                 (Inl e, w) \<Rightarrow> (respondError 500 ''INTERNAL_ERROR'' ''failed to check project permissions'', w)
               | (Inr None, w) \<Rightarrow> (respondError 403 ''INSUFFICIENT_PROJECT_ROLE'' ''insufficient project role'', w)
               | (Inr (Some role), w) \<Rightarrow>
                   if role < minRole then (respondError 403 ''INSUFFICIENT_PROJECT_ROLE'' ''insufficient project role'', w)
                   else next rq w))"

text \<open>The owner of a project, its column \<open>created_by\<close>.\<close>

definition project_owner :: "uuid \<Rightarrow> DB \<Rightarrow> uuid option" where
  "project_owner p d = (if p \<in> fst ` set (tb_projects d)
     then Some (case map_of (tb_project_owner d) p of Some u \<Rightarrow> u | None \<Rightarrow> uuid_Nil) else None)"

definition RequireProjectOwnerOrGlobalAdmin :: "ProjectIDExtractor \<Rightarrow> handler \<Rightarrow> handler" where
  "RequireProjectOwnerOrGlobalAdmin extractor next rq w =
     (case rq_User rq of
        None \<Rightarrow> (respondError 401 ''AUTHENTICATION_REQUIRED'' ''authentication required'', w)
      | Some user \<Rightarrow>
          if User_IsAdmin user then next rq w
          else case extractor rq w of
            (Inl e, w) \<Rightarrow> (respondError 400 ''VALIDATION_ERROR'' ''invalid project id'', w)
          | (Inr projectID, w) \<Rightarrow>
              (case db_query_row (project_owner projectID) w of
                 (Inl e, w) \<Rightarrow> (respondError 404 ''NOT_FOUND'' ''project not found'', w)
               | (Inr owner, w) \<Rightarrow>
                   if owner \<noteq> u_ID user
                   then (respondError 403 ''PROJECT_OWNER_REQUIRED'' ''project owner or admin required'', w)
                   else next rq w))"

section \<open>Access to the findings of a bulk request\<close>

text \<open>The projects in which the user is not at least a triager, in order; the first database error ends the loop.\<close>

fun forbidden_projects :: "uuid \<Rightarrow> uuid list \<Rightarrow> uuid list op" where
  "forbidden_projects user [] w = (Inr [], w)"
| "forbidden_projects user (p # ps) w =
     (case GetRole user p w of
        (Inl e, w) \<Rightarrow> (Inl e, w)
      | (Inr role, w) \<Rightarrow>
          (case forbidden_projects user ps w of
             (Inl e, w) \<Rightarrow> (Inl e, w)
           | (Inr rest, w) \<Rightarrow>
               (Inr (if role = None \<or> the role < RoleTriager then p # rest else rest), w)))"

text \<open>\<open>Inl\<close> is the response that was written when access is denied.\<close>

definition checkBulkProjectAccess :: "Request \<Rightarrow> uuid list \<Rightarrow> World \<Rightarrow> (response + unit) \<times> World" where
  "checkBulkProjectAccess rq findingIDs w =
     (case rq_User rq of
        None \<Rightarrow> (Inl Panic, w)
      | Some user \<Rightarrow>
          if User_IsAdmin user then (Inr (), w)
          else case ListDistinctProjectIDs findingIDs w of
            (Inl e, w) \<Rightarrow> (Inl (respondError 500 ''INTERNAL_ERROR'' ''failed to check permissions''), w)
          | (Inr projectIDs, w) \<Rightarrow>
              (case forbidden_projects (u_ID user) projectIDs w of
                 (Inl e, w) \<Rightarrow> (Inl (respondError 500 ''INTERNAL_ERROR'' ''failed to check permissions''), w)
               | (Inr ps, w) \<Rightarrow>
                   if ps \<noteq> [] then (Inl (Response 403 (ForbiddenProjects ps)), w) else (Inr (), w)))"

fun allowed_projects :: "uuid \<Rightarrow> uuid list \<Rightarrow> (uuid \<rightharpoonup> bool) op" where
  "allowed_projects user [] w = (Inr Map.empty, w)"
| "allowed_projects user (p # ps) w =
     (case GetRole user p w of
        (Inl e, w) \<Rightarrow> (Inl e, w)
      | (Inr role, w) \<Rightarrow>
          (case allowed_projects user ps w of
             (Inl e, w) \<Rightarrow> (Inl e, w)
           | (Inr m, w) \<Rightarrow> (Inr (m(p \<mapsto> (role \<noteq> None \<and> the role \<ge> RoleTriager))), w)))"

text \<open>A finding or project missing from a Go map reads as the zero value: the nil id, \<open>false\<close>.\<close>

definition splitIDsByTriagerAccess ::
  "User option \<Rightarrow> uuid list \<Rightarrow> World \<Rightarrow> (err + uuid list \<times> (uuid \<times> string) list) option \<times> World" where
  "splitIDsByTriagerAccess uo ids w =
     (case uo of
        None \<Rightarrow> (None, w)
      | Some user \<Rightarrow>
          if User_IsAdmin user then (Some (Inr (ids, [])), w)
          else case ListDistinctProjectIDs ids w of
            (Inl e, w) \<Rightarrow> (Some (Inl e), w)
          | (Inr projectIDs, w) \<Rightarrow>
              (case allowed_projects (u_ID user) projectIDs w of
                 (Inl e, w) \<Rightarrow> (Some (Inl e), w)
               | (Inr allowedProjects, w) \<Rightarrow>
                   (case GetProjectIDsForFindings ids w of
                      (Inl e, w) \<Rightarrow> (Some (Inl e), w)
                    | (Inr findingProjects, w) \<Rightarrow>
                        let ok = (\<lambda>i. let pid = (case findingProjects i of None \<Rightarrow> uuid_Nil | Some p \<Rightarrow> p)
                                      in allowedProjects pid = Some True)
                        in (Some (Inr (filter ok ids, map (\<lambda>i. (i, ''access denied'')) (remdups (filter (\<lambda>i. \<not> ok i) ids)))), w))))"

end
