(* ===== verification/Accounts.thy ===== *)
theory Accounts
  imports Db
begin

text \<open>
  \<open>internal/storage/users_repo.go\<close>, \<open>sessions_repo.go\<close> and \<open>api_tokens_repo.go\<close>: the rows of
  users, sessions and API tokens.

  The flag \<open>must_change\<close> lives in the table \<open>user_credentials\<close>; here it is the column
  \<open>u_MustChangePassword\<close> of the user's row, which \<open>scanUser\<close> does not read. E-mail addresses are
  \<open>CITEXT\<close>: they are equal when their lower-case forms are.
\<close>

section \<open>Users\<close>

definition globalRoleToDB :: "int \<Rightarrow> err + int" where
  "globalRoleToDB role =
     (if role < - 32768 \<or> role > 32767 then Inl (Err ''global role is out of int16 range'') else Inr role)"

definition email_eq :: "string \<Rightarrow> string \<Rightarrow> bool" where
  "email_eq a b \<longleftrightarrow> strings_ToLower a = strings_ToLower b"

definition user_defaults :: "User \<Rightarrow> World \<Rightarrow> User \<times> World" where
  "user_defaults u w =
     (let now = w_now w;
          (u, w) = (if u_ID u = uuid_Nil then (case uuid_New w of (i, w) \<Rightarrow> (u\<lparr>u_ID := i\<rparr>, w)) else (u, w));
          u = (if u_CreatedAt u = 0 then u\<lparr>u_CreatedAt := now\<rparr> else u);
          u = (if u_UpdatedAt u = 0 then u\<lparr>u_UpdatedAt := now\<rparr> else u);
          u = (if u_Status u = [] then u\<lparr>u_Status := UserStatusActive\<rparr> else u)
      in (u, w))"

text \<open>
  The trigger on \<open>users\<close> that keeps \<open>user_roles\<close> in step with the legacy column \<open>global_role\<close>: of the
  keys admin and member the user has the one that fits, other keys stay.
\<close>

definition sync_users_global_role :: "uuid \<Rightarrow> int \<Rightarrow> DB \<Rightarrow> err + DB" where
  "sync_users_global_role i role d =
     (let key = (if role = 1 then ''admin'' else ''member'');
          kept = filter (\<lambda>(u, k). \<not> (u = i \<and> k \<in> {''admin'', ''member''} \<and> k \<noteq> key)) (tb_user_roles d)
      in if key \<notin> fst ` set (tb_role_names d) then Inl (Err ''required role not found'')
         else Inr (d\<lparr>tb_user_roles := (if (i, key) \<in> set kept then kept else kept @ [(i, key)])\<rparr>))"

definition insert_user :: "User \<Rightarrow> DB \<Rightarrow> err + unit \<times> DB" where
  "insert_user u d =
     (if list_ex (\<lambda>x. u_ID x = u_ID u \<or> email_eq (u_Email x) (u_Email u)) (tb_users d) then Inl ErrUnique
      else case sync_users_global_role (u_ID u) (u_GlobalRole u)
             (d\<lparr>tb_users := tb_users d @ [u\<lparr>u_LastLoginIP := None, u_MustChangePassword := False\<rparr>]\<rparr>) of
        Inl e \<Rightarrow> Inl e
      | Inr d \<Rightarrow> Inr ((), d))"

definition UsersRepo_Create :: "User \<Rightarrow> User op" where
  "UsersRepo_Create u w =
     (case user_defaults u w of (u, w) \<Rightarrow>
        (case globalRoleToDB (u_GlobalRole u) of
           Inl e \<Rightarrow> (Inl e, w)
         | Inr _ \<Rightarrow> (case db_exec (insert_user u) w of (Inl e, w) \<Rightarrow> (Inl e, w) | (Inr _, w) \<Rightarrow> (Inr u, w))))"

definition scanUser :: "User \<Rightarrow> User" where
  "scanUser u = u\<lparr>u_MustChangePassword := False\<rparr>"

definition UsersRepo_GetByID :: "uuid \<Rightarrow> User op" where
  "UsersRepo_GetByID i = db_query_row (\<lambda>d. map_option scanUser (find (\<lambda>u. u_ID u = i) (tb_users d)))"

definition UsersRepo_GetByEmail :: "string \<Rightarrow> User op" where
  "UsersRepo_GetByEmail email = db_query_row (\<lambda>d. map_option scanUser (find (\<lambda>u. email_eq (u_Email u) email) (tb_users d)))"

text \<open>An \<open>UPDATE\<close> of one user's row, and whether it found the row.\<close>

definition update_user :: "uuid \<Rightarrow> (User \<Rightarrow> User) \<Rightarrow> DB \<Rightarrow> bool \<times> DB" where
  "update_user i g d = (i \<in> u_ID ` set (tb_users d),
     d\<lparr>tb_users := map (\<lambda>u. if u_ID u = i then g u else u) (tb_users d)\<rparr>)"

definition exec_user_update :: "uuid \<Rightarrow> (User \<Rightarrow> User) \<Rightarrow> unit op" where
  "exec_user_update i g w = (case db_exec (\<lambda>d. Inr (update_user i g d)) w of
     (Inl e, w) \<Rightarrow> (Inl e, w)
   | (Inr found, w) \<Rightarrow> if found then (Inr (), w) else (Inl (Err ''user not found''), w))"

definition UpdateLastLogin :: "uuid \<Rightarrow> unit op" where
  "UpdateLastLogin i w = exec_user_update i (\<lambda>u. u\<lparr>u_LastLoginAt := Some (w_now w), u_UpdatedAt := w_now w\<rparr>) w"

text \<open>One entry of the map of fields; any other key is refused before the statement.\<close>

datatype user_field =
    SetEmail string
  | SetPasswordHash string
  | SetFullName string
  | SetIsActive bool
  | SetGlobalRole int
  | SetStatus string
  | SetLastLoginAt time
  | SetLastLoginIP string
  | SetUnsupported string

fun set_field :: "user_field \<Rightarrow> User \<Rightarrow> User" where
  "set_field (SetEmail s) u = u\<lparr>u_Email := s\<rparr>"
| "set_field (SetPasswordHash s) u = u\<lparr>u_PasswordHash := s\<rparr>"
| "set_field (SetFullName s) u = u\<lparr>u_FullName := s\<rparr>"
| "set_field (SetIsActive b) u = u\<lparr>u_IsActive := b\<rparr>"
| "set_field (SetGlobalRole n) u = u\<lparr>u_GlobalRole := n\<rparr>"
| "set_field (SetStatus s) u = u\<lparr>u_Status := s\<rparr>"
| "set_field (SetLastLoginAt t) u = u\<lparr>u_LastLoginAt := Some t\<rparr>"
| "set_field (SetLastLoginIP s) u = u\<lparr>u_LastLoginIP := Some s\<rparr>"
| "set_field (SetUnsupported s) u = u"

fun is_unsupported :: "user_field \<Rightarrow> bool" where
  "is_unsupported (SetUnsupported s) = True"
| "is_unsupported _ = False"

fun email_taken :: "uuid \<Rightarrow> user_field \<Rightarrow> DB \<Rightarrow> bool" where
  "email_taken i (SetEmail s) d = list_ex (\<lambda>x. u_ID x \<noteq> i \<and> email_eq (u_Email x) s) (tb_users d)"
| "email_taken i _ d = False"

text \<open>The statement: the unique e-mail, the row, and the trigger when \<open>global_role\<close> is among the columns set.\<close>

fun global_role_set :: "user_field list \<Rightarrow> int option" where
  "global_role_set [] = None"
| "global_role_set (SetGlobalRole n # fs) = (case global_role_set fs of None \<Rightarrow> Some n | Some m \<Rightarrow> Some m)"
| "global_role_set (f # fs) = global_role_set fs"

definition update_fields :: "uuid \<Rightarrow> user_field list \<Rightarrow> time \<Rightarrow> DB \<Rightarrow> err + bool \<times> DB" where
  "update_fields i flds now d =
     (if i \<in> u_ID ` set (tb_users d) \<and> list_ex (\<lambda>f. email_taken i f d) flds then Inl ErrUnique
      else case update_user i (\<lambda>u. (fold set_field flds u)\<lparr>u_UpdatedAt := now\<rparr>) d of (found, d) \<Rightarrow>
        (case global_role_set flds of
           Some role \<Rightarrow> if found then map_sum id (Pair True) (sync_users_global_role i role d) else Inr (found, d)
         | None \<Rightarrow> Inr (found, d)))"

definition UsersRepo_Update :: "uuid \<Rightarrow> user_field list \<Rightarrow> unit op" where
  "UsersRepo_Update i flds w =
     (if flds = [] then (Inr (), w)
      else if list_ex is_unsupported flds then (Inl (Err ''storage.UsersRepo.Update: unsupported field''), w)
      else case db_exec (update_fields i flds (w_now w)) w of
          (Inl e, w) \<Rightarrow> (Inl e, w)
        | (Inr found, w) \<Rightarrow> if found then (Inr (), w) else (Inl (Err ''user not found''), w))"

definition is_active_admin :: "User \<Rightarrow> bool" where
  "is_active_admin u \<longleftrightarrow> u_GlobalRole u = RoleAdmin \<and> u_Status u = UserStatusActive"

definition CountActiveAdmins :: "nat op" where
  "CountActiveAdmins = db_query (\<lambda>d. length (filter is_active_admin (tb_users d)))"

definition SetMustChangePassword :: "uuid \<Rightarrow> bool \<Rightarrow> string \<Rightarrow> unit op" where
  "SetMustChangePassword i mustChange reason = db_exec (\<lambda>d.
     if \<not> (if mustChange then reason \<in> {''initial'', ''admin_reset'', ''expiry''} else reason = [])
     then Inl (Err ''violates check constraint'')
     else if i \<notin> u_ID ` set (tb_users d) then Inl (Err ''violates foreign key constraint'')
     else Inr ((), snd (update_user i (\<lambda>u. u\<lparr>u_MustChangePassword := mustChange\<rparr>) d)))"

definition UsersRepo_Deactivate :: "uuid \<Rightarrow> unit op" where
  "UsersRepo_Deactivate i w = exec_user_update i (\<lambda>u. u\<lparr>u_IsActive := False, u_UpdatedAt := w_now w\<rparr>) w"

definition UsersRepo_Count :: "nat op" where
  "UsersRepo_Count = db_query (\<lambda>d. length (tb_users d))"

definition CheckEmailAvailable :: "string \<Rightarrow> bool op" where
  "CheckEmailAvailable email = db_query (\<lambda>d. \<not> list_ex (\<lambda>u. email_eq (u_Email u) (strings_TrimSpace email)) (tb_users d))"

section \<open>Sessions\<close>

definition insert_session :: "Session \<Rightarrow> DB \<Rightarrow> err + unit \<times> DB" where
  "insert_session s d =
     (if list_ex (\<lambda>x. s_ID x = s_ID s \<or> s_TokenHash x = s_TokenHash s) (tb_sessions d) then Inl ErrUnique
      else if s_UserID s \<notin> u_ID ` set (tb_users d) then Inl (Err ''violates foreign key constraint'')
      else Inr ((), d\<lparr>tb_sessions := tb_sessions d @ [s]\<rparr>))"

definition SessionsRepo_Create :: "Session \<Rightarrow> unit op" where
  "SessionsRepo_Create s = db_exec (insert_session s)"

definition live_session :: "time \<Rightarrow> string \<Rightarrow> Session \<Rightarrow> bool" where
  "live_session now tokenHash s \<longleftrightarrow> s_TokenHash s = tokenHash \<and> s_RevokedAt s = None \<and> s_ExpiresAt s > now"

text \<open>The join: the live session with the token and its user, when the user is active.\<close>

definition session_with_user :: "time \<Rightarrow> string \<Rightarrow> DB \<Rightarrow> (Session \<times> User) option" where
  "session_with_user now tokenHash d =
     find (\<lambda>(s, u). live_session now tokenHash s \<and> s_UserID s = u_ID u \<and> u_IsActive u)
       (List.product (tb_sessions d) (tb_users d))"

definition GetByTokenHashWithUser :: "string \<Rightarrow> (Session \<times> User) op" where
  "GetByTokenHashWithUser tokenHash w = db_query_row (session_with_user (w_now w) tokenHash) w"

definition update_sessions :: "(Session \<Rightarrow> bool) \<Rightarrow> (Session \<Rightarrow> Session) \<Rightarrow> DB \<Rightarrow> bool \<times> DB" where
  "update_sessions p g d = (list_ex p (tb_sessions d),
     d\<lparr>tb_sessions := map (\<lambda>s. if p s then g s else s) (tb_sessions d)\<rparr>)"

definition SessionsRepo_Revoke :: "string \<Rightarrow> unit op" where
  "SessionsRepo_Revoke tokenHash w = db_exec (\<lambda>d. Inr ((), snd (update_sessions
     (\<lambda>s. s_TokenHash s = tokenHash \<and> s_RevokedAt s = None) (\<lambda>s. s\<lparr>s_RevokedAt := Some (w_now w)\<rparr>) d))) w"

text \<open>The reason is written to a column nothing reads.\<close>

definition RevokeAllForUserWithReason :: "uuid \<Rightarrow> string \<Rightarrow> unit op" where
  "RevokeAllForUserWithReason userID reason w = db_exec (\<lambda>d. Inr ((), snd (update_sessions
     (\<lambda>s. s_UserID s = userID \<and> s_RevokedAt s = None) (\<lambda>s. s\<lparr>s_RevokedAt := Some (w_now w)\<rparr>) d))) w"

definition RevokeAllForUser :: "uuid \<Rightarrow> unit op" where
  "RevokeAllForUser userID = RevokeAllForUserWithReason userID []"

definition UpdateLastUsed :: "uuid \<Rightarrow> unit op" where
  "UpdateLastUsed sessionID w =
     (case db_exec (\<lambda>d. Inr (update_sessions (\<lambda>s. s_ID s = sessionID) (\<lambda>s. s\<lparr>s_LastUsedAt := w_now w\<rparr>) d)) w of
        (Inl e, w) \<Rightarrow> (Inl e, w)
      | (Inr found, w) \<Rightarrow> if found then (Inr (), w) else (Inl (Err ''session not found''), w))"

definition DeleteExpired :: "nat op" where
  "DeleteExpired w = db_exec (\<lambda>d. let gone = (\<lambda>s. s_ExpiresAt s \<le> w_now w \<or> s_RevokedAt s \<noteq> None)
     in Inr (length (filter gone (tb_sessions d)), d\<lparr>tb_sessions := filter (\<lambda>s. \<not> gone s) (tb_sessions d)\<rparr>)) w"

definition UpdateExpiresAt :: "uuid \<Rightarrow> time \<Rightarrow> unit op" where
  "UpdateExpiresAt sessionID expiresAt w =
     (case db_exec (\<lambda>d. Inr (update_sessions (\<lambda>s. s_ID s = sessionID \<and> s_RevokedAt s = None)
               (\<lambda>s. s\<lparr>s_ExpiresAt := expiresAt\<rparr>) d)) w of
        (Inl e, w) \<Rightarrow> (Inl e, w)
      | (Inr found, w) \<Rightarrow> if found then (Inr (), w) else (Inl (Err ''session not found''), w))"

section \<open>API tokens\<close>

definition APITokensRepo_Create :: "APIToken \<Rightarrow> APIToken op" where
  "APITokensRepo_Create t w =
     (case (if t_ID t = uuid_Nil then (case uuid_New w of (i, w) \<Rightarrow> (t\<lparr>t_ID := i\<rparr>, w)) else (t, w)) of (t, w) \<Rightarrow>
        (case db_exec (\<lambda>d.
            if list_ex (\<lambda>x. t_ID x = t_ID t) (tb_tokens d) then Inl ErrUnique
            else if t_ProjectID t \<notin> fst ` set (tb_projects d) \<or> t_CreatedByUserID t \<notin> u_ID ` set (tb_users d)
              then Inl (Err ''violates foreign key constraint'')
            else Inr ((), d\<lparr>tb_tokens := tb_tokens d @ [t\<lparr>t_CreatedByEmail := [], t_LastUsedAt := None,
                    t_RevokedAt := None, t_CreatedAt := w_now w\<rparr>]\<rparr>)) w of
           (Inl e, w) \<Rightarrow> (Inl e, w)
         | (Inr _, w) \<Rightarrow> (Inr t, w)))"

definition live_token :: "time \<Rightarrow> string \<Rightarrow> APIToken \<Rightarrow> bool" where
  "live_token now prefix t \<longleftrightarrow> t_Prefix t = prefix \<and> t_RevokedAt t = None \<and>
     (case t_ExpiresAt t of None \<Rightarrow> True | Some e \<Rightarrow> e > now)"

definition GetByPrefix :: "string \<Rightarrow> APIToken op" where
  "GetByPrefix prefix w = db_query_row (\<lambda>d. find (live_token (w_now w) prefix) (tb_tokens d)) w"

definition ListByProject :: "uuid \<Rightarrow> APIToken list op" where
  "ListByProject p = db_query (\<lambda>d. map (\<lambda>t. t\<lparr>t_TokenHash := [],
       t_CreatedByEmail := (case find (\<lambda>u. u_ID u = t_CreatedByUserID t) (tb_users d) of None \<Rightarrow> [] | Some u \<Rightarrow> u_Email u)\<rparr>)
     (rev (sort_key t_CreatedAt (filter (\<lambda>t. t_ProjectID t = p) (tb_tokens d)))))"

definition APITokensRepo_Revoke :: "uuid \<Rightarrow> uuid \<Rightarrow> unit op" where
  "APITokensRepo_Revoke tokenID projectID w = db_exec (\<lambda>d. Inr ((), d\<lparr>tb_tokens :=
     map (\<lambda>t. if t_ID t = tokenID \<and> t_ProjectID t = projectID \<and> t_RevokedAt t = None
              then t\<lparr>t_RevokedAt := Some (w_now w)\<rparr> else t) (tb_tokens d)\<rparr>)) w"

text \<open>
  The in-memory map of \<open>TouchLastUsed\<close>, an association list with distinct keys: the time of the
  last touch of each token (a missing entry reads as the zero time).
\<close>

definition touchDebounce :: time where "touchDebounce = time_Minute"

definition touch_step :: "time \<Rightarrow> uuid \<Rightarrow> (uuid \<times> time) list \<Rightarrow> bool \<times> (uuid \<times> time) list" where
  "touch_step now tokenID m =
     (let old = (case map_of m tokenID of None \<Rightarrow> 0 | Some t \<Rightarrow> t)
      in if old \<noteq> 0 \<and> now - old < touchDebounce then (False, m)
         else (True, filter (\<lambda>(k, v). \<not> (now - v > 2 * touchDebounce))
                       ((tokenID, now) # filter (\<lambda>(k, v). k \<noteq> tokenID) m)))"

definition TouchLastUsed :: "uuid \<Rightarrow> (uuid \<times> time) list \<Rightarrow> World \<Rightarrow> (err + unit) \<times> (uuid \<times> time) list \<times> World" where
  "TouchLastUsed tokenID m w =
     (case touch_step (w_now w) tokenID m of
        (False, m) \<Rightarrow> (Inr (), m, w)
      | (True, m) \<Rightarrow>
          (case db_exec (\<lambda>d. Inr ((), d\<lparr>tb_tokens := map (\<lambda>t. if t_ID t = tokenID
                then t\<lparr>t_LastUsedAt := Some (w_now w)\<rparr> else t) (tb_tokens d)\<rparr>)) w of
             (r, w) \<Rightarrow> (r, m, w)))"

end
