(* ===== verification/TriageApi.thy ===== *)
theory TriageApi
  imports Access Accounts
begin

text \<open>
  The handlers of \<open>internal/api/triage.go\<close> and \<open>internal/api/project_members.go\<close>, and the
  chains of middlewares \<open>internal/api/router.go\<close> puts in front of them.

  A decoded body is an argument; \<open>None\<close> stands for a body that does not decode. \<open>user, _ :=\<close>
  drops the flag, so reading a field of a missing user is a nil dereference: \<open>Panic\<close>.
\<close>

section \<open>One finding\<close>

definition bad_id :: response where "bad_id = respondError 400 ''VALIDATION_ERROR'' ''invalid finding id''"
definition bad_body :: response where "bad_body = respondError 400 ''VALIDATION_ERROR'' ''invalid request body''"

definition apply_and_respond :: "User \<Rightarrow> uuid \<Rightarrow> TriageAction \<Rightarrow> string \<Rightarrow> World \<Rightarrow> response \<times> World" where
  "apply_and_respond user i act done w =
     (case ApplyTriageAction (u_ID user) i act w of
        (Inl e, w) \<Rightarrow> (respondError 400 ''VALIDATION_ERROR'' (err_text e), w)
      | (Inr _, w) \<Rightarrow> (respondData done, w))"

definition closing :: "string \<Rightarrow> string \<Rightarrow> uuid \<Rightarrow> TriageAction" where
  "closing code note u = Close \<lparr>cl_ReasonCode = code, cl_Note = note, cl_UserID = u, cl_reasonID = 0, cl_target = 0\<rparr>"

definition changing :: "int \<Rightarrow> string \<Rightarrow> TriageAction" where
  "changing s note = ChangeStatus \<lparr>cs_NewStatus = s, cs_Note = note, cs_oldStatus = 0\<rparr>"

definition reopening :: "string \<Rightarrow> TriageAction" where
  "reopening note = Reopen \<lparr>ro_Note = note, ro_previousStatus = 0, ro_previousReasonID = None\<rparr>"

text \<open>
  The action \<open>handleUpdateStatus\<close> chooses; \<open>Inl\<close> is the response it writes instead. A closing
  action reads the id of the user.
\<close>

definition status_action :: "User option \<Rightarrow> uuid \<Rightarrow> int \<Rightarrow> string \<Rightarrow> World \<Rightarrow> (response + TriageAction) \<times> World" where
  "status_action uo i s note w =
     (let close_as = (\<lambda>code. case uo of None \<Rightarrow> Inl Panic | Some user \<Rightarrow> Inr (closing code note (u_ID user)))
      in if s = StatusOpen then
           (case FindingsRepo_GetByID i w of
              (Inl e, w) \<Rightarrow> (Inl (respondError 404 ''NOT_FOUND'' ''finding not found''), w)
            | (Inr current, w) \<Rightarrow>
                (Inr (if f_Status current = StatusFP \<or> f_Status current = StatusResolved \<or> f_Status current = StatusRiskAccepted
                      then reopening note else changing s note), w))
         else if s = StatusConfirmed then (Inr (changing s note), w)
         else if s = StatusFP then (close_as ''false_positive'', w)
         else if s = StatusResolved then (close_as ''mitigated'', w)
         else if s = StatusRiskAccepted then (close_as ''acceptable_risk'', w)
         else (Inl (respondError 400 ''VALIDATION_ERROR'' ''invalid status''), w))"

definition handleUpdateStatus :: "(int \<times> string) option \<Rightarrow> handler" where
  "handleUpdateStatus req rq w =
     (case rq_Param rq ''id'' of
        None \<Rightarrow> (bad_id, w)
      | Some i \<Rightarrow> (case req of
          None \<Rightarrow> (bad_body, w)
        | Some (s, note) \<Rightarrow>
            (case status_action (rq_User rq) i s note w of
               (Inl resp, w) \<Rightarrow> (resp, w)
             | (Inr act, w) \<Rightarrow> (case rq_User rq of
                 None \<Rightarrow> (Panic, w)
               | Some user \<Rightarrow> apply_and_respond user i act ''updated'' w))))"

definition handleCloseFinding :: "(string \<times> string) option \<Rightarrow> handler" where
  "handleCloseFinding req rq w =
     (case rq_Param rq ''id'' of
        None \<Rightarrow> (bad_id, w)
      | Some i \<Rightarrow> (case req of
          None \<Rightarrow> (bad_body, w)
        | Some (code, note) \<Rightarrow> (case rq_User rq of
            None \<Rightarrow> (Panic, w)
          | Some user \<Rightarrow> apply_and_respond user i (closing code note (u_ID user)) ''closed'' w)))"

definition handleReopenFinding :: "string option \<Rightarrow> handler" where
  "handleReopenFinding req rq w =
     (case rq_Param rq ''id'' of
        None \<Rightarrow> (bad_id, w)
      | Some i \<Rightarrow> (case req of
          None \<Rightarrow> (bad_body, w)
        | Some note \<Rightarrow> (case rq_User rq of
            None \<Rightarrow> (Panic, w)
          | Some user \<Rightarrow> apply_and_respond user i (reopening note) ''reopened'' w)))"

text \<open>
  An empty body is allowed: the id is then nil, and the finding goes to the user. The user must have a
  role in the project; being a global administrator is not enough.
\<close>

definition assign_to :: "uuid \<Rightarrow> uuid \<Rightarrow> User option \<Rightarrow> World \<Rightarrow> response \<times> World" where
  "assign_to i target uo w =
     (case FindingsRepo_GetProjectID i w of
        (Inl e, w) \<Rightarrow> (respondError 404 ''NOT_FOUND'' ''finding not found'', w)
      | (Inr projectID, w) \<Rightarrow>
          (case HasProjectAccess target projectID w of
             (Inl e, w) \<Rightarrow> (respondError 500 ''INTERNAL_ERROR'' ''failed to check target user access'', w)
           | (Inr hasAccess, w) \<Rightarrow>
               if \<not> hasAccess then (respondError 400 ''VALIDATION_ERROR'' ''target user has no access'', w)
               else case UsersRepo_GetByID target w of
                 (Inl e, w) \<Rightarrow> (respondError 400 ''VALIDATION_ERROR'' ''target user not found'', w)
               | (Inr t, w) \<Rightarrow> (case uo of
                   None \<Rightarrow> (Panic, w)
                 | Some user \<Rightarrow>
                     apply_and_respond user i (Assign \<lparr>as_ToUserID = target, as_ToEmail = u_Email t\<rparr>) ''assigned'' w)))"

definition handleAssignFinding :: "uuid option \<Rightarrow> handler" where
  "handleAssignFinding req rq w =
     (case rq_Param rq ''id'' of
        None \<Rightarrow> (bad_id, w)
      | Some i \<Rightarrow> (case req of
          None \<Rightarrow> (bad_body, w)
        | Some wanted \<Rightarrow>
            if wanted = uuid_Nil
            then (case rq_User rq of None \<Rightarrow> (Panic, w) | Some user \<Rightarrow> assign_to i (u_ID user) (rq_User rq) w)
            else assign_to i wanted (rq_User rq) w))"

definition handleUnassignFinding :: handler where
  "handleUnassignFinding rq w =
     (case rq_Param rq ''id'' of
        None \<Rightarrow> (bad_id, w)
      | Some i \<Rightarrow> (case rq_User rq of
          None \<Rightarrow> (Panic, w)
        | Some user \<Rightarrow> apply_and_respond user i Unassign ''unassigned'' w))"

text \<open>The query parameters: the cursor decoded as in the repository, and the text of the limit.\<close>

definition handleListFindingEvents :: "(time \<times> uuid) option option \<Rightarrow> string \<Rightarrow> handler" where
  "handleListFindingEvents cursor limit_text rq w =
     (case rq_Param rq ''id'' of
        None \<Rightarrow> (bad_id, w)
      | Some i \<Rightarrow>
          let v = strings_TrimSpace limit_text
          in case (if v = [] then Some 50 else strconv_Atoi v) of
            None \<Rightarrow> (respondError 400 ''VALIDATION_ERROR'' ''invalid limit value'', w)
          | Some limit \<Rightarrow>
              (case ListForFinding i cursor limit w of
                 (Inl e, w) \<Rightarrow> (respondError 500 ''INTERNAL_ERROR'' ''failed to list events'', w)
               | (Inr (events, nextCursor), w) \<Rightarrow> (Response 200 (EventsData events nextCursor), w)))"

text \<open>The router gives this handler a closure-reasons repository of its own: \<open>w_reasons\<close> is that one here.\<close>

definition handleListClosureReasons :: handler where
  "handleListClosureReasons rq w =
     (case ListActive w of
        (Inl e, w) \<Rightarrow> (respondError 500 ''INTERNAL_ERROR'' ''failed to load closure reasons'', w)
      | (Inr reasons, w) \<Rightarrow> (Response 200 (ReasonsData reasons), w))"

definition handleDeleteFinding :: handler where
  "handleDeleteFinding rq w =
     (case rq_Param rq ''id'' of
        None \<Rightarrow> (bad_id, w)
      | Some i \<Rightarrow> (case FindingsRepo_Delete i w of
          (Inl e, w) \<Rightarrow> (respondError 404 ''NOT_FOUND'' ''finding not found'', w)
        | (Inr _, w) \<Rightarrow> (Response 204 NoBody, w)))"

section \<open>Findings in bulk\<close>

definition no_ids :: response where "no_ids = respondError 400 ''VALIDATION_ERROR'' ''ids must not be empty''"

text \<open>The tail the bulk handlers share: run the action on every id and report.\<close>

definition bulk_and_respond :: "User option \<Rightarrow> uuid list \<Rightarrow> (uuid \<Rightarrow> uuid \<Rightarrow> TriageAction) \<Rightarrow> string \<Rightarrow> World \<Rightarrow> response \<times> World" where
  "bulk_and_respond uo ids builder failure w = (case uo of
     None \<Rightarrow> (Panic, w)
   | Some user \<Rightarrow>
       (case ApplyBulkTriageAction (u_ID user) ids (builder (u_ID user)) w of
          (Inl e, w) \<Rightarrow> (respondError 500 ''INTERNAL_ERROR'' failure, w)
        | (Inr res, w) \<Rightarrow> (Response 200 (BulkData (br_Succeeded res) (br_Failed res)), w)))"

definition handleBulkUpdateStatus :: "(uuid list \<times> int \<times> string) option \<Rightarrow> handler" where
  "handleBulkUpdateStatus req rq w =
     (case req of
        None \<Rightarrow> (bad_body, w)
      | Some (ids, s, note) \<Rightarrow>
          if ids = [] then (no_ids, w)
          else if s \<noteq> StatusOpen \<and> s \<noteq> StatusConfirmed
            then (respondError 400 ''VALIDATION_ERROR'' ''use POST /close'', w)
          else case checkBulkProjectAccess rq ids w of
            (Inl resp, w) \<Rightarrow> (resp, w)
          | (Inr _, w) \<Rightarrow> bulk_and_respond (rq_User rq) ids (\<lambda>_ _. changing s note) ''failed to bulk update status'' w)"

definition handleBulkClose :: "(uuid list \<times> string \<times> string) option \<Rightarrow> handler" where
  "handleBulkClose req rq w =
     (case req of
        None \<Rightarrow> (bad_body, w)
      | Some (ids, code, note) \<Rightarrow>
          if ids = [] then (no_ids, w)
          else case checkBulkProjectAccess rq ids w of
            (Inl resp, w) \<Rightarrow> (resp, w)
          | (Inr _, w) \<Rightarrow> bulk_and_respond (rq_User rq) ids (\<lambda>u _. closing code note u) ''failed to bulk close findings'' w)"

text \<open>The loop that checks the target's access to the project of every finding.\<close>

fun check_target_access :: "uuid \<Rightarrow> uuid list \<Rightarrow> World \<Rightarrow> (response + unit) \<times> World" where
  "check_target_access target [] w = (Inr (), w)"
| "check_target_access target (i # ids) w =
     (case FindingsRepo_GetProjectID i w of
        (Inl e, w) \<Rightarrow> (Inl (respondError 400 ''VALIDATION_ERROR'' ''finding not found''), w)
      | (Inr projectID, w) \<Rightarrow>
          (case HasProjectAccess target projectID w of
             (Inl e, w) \<Rightarrow> (Inl (respondError 500 ''INTERNAL_ERROR'' ''failed to check target user access''), w)
           | (Inr hasAccess, w) \<Rightarrow>
               if \<not> hasAccess then (Inl (respondError 400 ''VALIDATION_ERROR'' ''target user has no access''), w)
               else check_target_access target ids w))"

definition handleBulkAssign :: "(uuid list \<times> uuid) option \<Rightarrow> handler" where
  "handleBulkAssign req rq w =
     (case req of
        None \<Rightarrow> (bad_body, w)
      | Some (ids, target) \<Rightarrow>
          if ids = [] then (no_ids, w)
          else case checkBulkProjectAccess rq ids w of
            (Inl resp, w) \<Rightarrow> (resp, w)
          | (Inr _, w) \<Rightarrow>
              (case UsersRepo_GetByID target w of
                 (Inl e, w) \<Rightarrow> (respondError 400 ''VALIDATION_ERROR'' ''target user not found'', w)
               | (Inr t, w) \<Rightarrow>
                   (case check_target_access target ids w of
                      (Inl resp, w) \<Rightarrow> (resp, w)
                    | (Inr _, w) \<Rightarrow> bulk_and_respond (rq_User rq) ids
                        (\<lambda>_ _. Assign \<lparr>as_ToUserID = target, as_ToEmail = u_Email t\<rparr>) ''failed to bulk assign findings'' w)))"

definition handleBulkUnassign :: "uuid list option \<Rightarrow> handler" where
  "handleBulkUnassign req rq w =
     (case req of
        None \<Rightarrow> (bad_body, w)
      | Some ids \<Rightarrow>
          if ids = [] then (no_ids, w)
          else case checkBulkProjectAccess rq ids w of
            (Inl resp, w) \<Rightarrow> (resp, w)
          | (Inr _, w) \<Rightarrow> bulk_and_respond (rq_User rq) ids (\<lambda>_ _. Unassign) ''failed to bulk unassign findings'' w)"

text \<open>
  \<open>SELECT DISTINCT\<close> of the active users with a role in the project, and of the active global
  administrators, by e-mail.
\<close>

definition assignable_users :: "uuid \<Rightarrow> DB \<Rightarrow> (uuid \<times> string \<times> string) list" where
  "assignable_users p d = map (\<lambda>u. (u_ID u, u_Email u, u_FullName u))
     (sort_key u_Email (filter (\<lambda>u. u_IsActive u \<and>
        (list_ex (role_row (u_ID u) p) (tb_roles d) \<or> u_GlobalRole u = 1)) (tb_users d)))"

definition handleAssignableUsers :: handler where
  "handleAssignableUsers rq w =
     (case rq_Param rq ''id'' of
        None \<Rightarrow> (respondError 400 ''VALIDATION_ERROR'' ''invalid project id'', w)
      | Some p \<Rightarrow> (case db_query (assignable_users p) w of
          (Inl e, w) \<Rightarrow> (respondError 500 ''INTERNAL_ERROR'' ''failed to load assignable users'', w)
        | (Inr us, w) \<Rightarrow> (Response 200 (UsersData us), w)))"

section \<open>Groups of findings\<close>

text \<open>\<open>Some\<close> is the response of a request that does not validate.\<close>

definition groupBulk_validate :: "string \<Rightarrow> string \<Rightarrow> response option" where
  "groupBulk_validate groupBy groupKey =
     (if groupKey = [] then Some (respondError 400 ''VALIDATION_ERROR'' ''group_key is required'')
      else if groupBy \<in> {''cve'', ''component'', ''rule'', ''secret''} then None
      else Some (respondError 400 ''VALIDATION_ERROR'' ''invalid group_by value''))"

definition resolveGroupIDs :: "string \<Rightarrow> string \<Rightarrow> World \<Rightarrow> (response + uuid list \<times> nat) \<times> World" where
  "resolveGroupIDs groupBy groupKey w =
     (case ListIDsByGroup (\<lambda>_ _. False) FindingsFilter_zero groupBy groupKey w of
        (Inl (ErrBulkLimit n), w) \<Rightarrow> (Inl (Response 400 (BulkLimitBody n)), w)
      | (Inl e, w) \<Rightarrow> (Inl (respondError 500 ''INTERNAL_ERROR'' ''failed to list findings in group''), w)
      | (Inr r, w) \<Rightarrow> (Inr r, w))"

text \<open>Later failures replace earlier ones for the same id, as writing to a Go map does.\<close>

definition merge_failures :: "(uuid \<times> string) list \<Rightarrow> (uuid \<times> string) list \<Rightarrow> (uuid \<times> string) list" where
  "merge_failures forbidden failed = filter (\<lambda>e. fst e \<notin> fst ` set failed) forbidden @ failed"

text \<open>The common part of the three group handlers, from the resolved group on.\<close>

definition group_apply :: "string \<Rightarrow> string \<Rightarrow> (uuid \<Rightarrow> TriageAction) \<Rightarrow> string \<Rightarrow> handler" where
  "group_apply groupBy groupKey mk failure rq w =
     (case resolveGroupIDs groupBy groupKey w of
        (Inl resp, w) \<Rightarrow> (resp, w)
      | (Inr (ids, cnt), w) \<Rightarrow>
          if ids = [] then (Response 200 (GroupData [] [] cnt), w)
          else case splitIDsByTriagerAccess (rq_User rq) ids w of
            (None, w) \<Rightarrow> (Panic, w)
          | (Some (Inl e), w) \<Rightarrow> (respondError 500 ''INTERNAL_ERROR'' ''failed to check permissions'', w)
          | (Some (Inr (allowed, forbidden)), w) \<Rightarrow>
              if allowed = [] then (Response 200 (GroupData [] forbidden cnt), w)
              else (case rq_User rq of
                None \<Rightarrow> (Panic, w)
              | Some user \<Rightarrow>
                  (case ApplyBulkTriageAction (u_ID user) allowed (\<lambda>_. mk (u_ID user)) w of
                     (Inl e, w) \<Rightarrow> (respondError 500 ''INTERNAL_ERROR'' failure, w)
                   | (Inr r2, w) \<Rightarrow>
                       (Response 200 (GroupData (br_Succeeded r2) (merge_failures forbidden (br_Failed r2)) cnt), w))))"

definition handleGroupBulkClose :: "(string \<times> string \<times> string \<times> string) option \<Rightarrow> handler" where
  "handleGroupBulkClose req rq w =
     (case req of
        None \<Rightarrow> (bad_body, w)
      | Some (groupBy, groupKey, code, note) \<Rightarrow>
          (case groupBulk_validate groupBy groupKey of
             Some resp \<Rightarrow> (resp, w)
           | None \<Rightarrow> group_apply groupBy groupKey (closing code note) ''failed to bulk close findings'' rq w))"

definition handleGroupBulkAssign :: "(string \<times> string \<times> uuid) option \<Rightarrow> handler" where
  "handleGroupBulkAssign req rq w =
     (case req of
        None \<Rightarrow> (bad_body, w)
      | Some (groupBy, groupKey, target) \<Rightarrow>
          (case groupBulk_validate groupBy groupKey of
             Some resp \<Rightarrow> (resp, w)
           | None \<Rightarrow>
               (case UsersRepo_GetByID target w of
                  (Inl e, w) \<Rightarrow> (respondError 400 ''VALIDATION_ERROR'' ''target user not found'', w)
                | (Inr t, w) \<Rightarrow> group_apply groupBy groupKey
                    (\<lambda>_. Assign \<lparr>as_ToUserID = target, as_ToEmail = u_Email t\<rparr>) ''failed to bulk assign findings'' rq w)))"

definition handleGroupBulkStatus :: "(string \<times> string \<times> int \<times> string) option \<Rightarrow> handler" where
  "handleGroupBulkStatus req rq w =
     (case req of
        None \<Rightarrow> (bad_body, w)
      | Some (groupBy, groupKey, s, note) \<Rightarrow>
          (case groupBulk_validate groupBy groupKey of
             Some resp \<Rightarrow> (resp, w)
           | None \<Rightarrow>
               if s \<noteq> StatusOpen \<and> s \<noteq> StatusConfirmed
               then (respondError 400 ''VALIDATION_ERROR'' ''use /groups/bulk/close for closure statuses'', w)
               else group_apply groupBy groupKey (\<lambda>_. changing s note) ''failed to bulk update status'' rq w))"

section \<open>Members of a project\<close>

definition bad_project :: response where "bad_project = respondError 400 ''VALIDATION_ERROR'' ''invalid project id''"

definition handleListMembers :: handler where
  "handleListMembers rq w =
     (case rq_Param rq ''id'' of
        None \<Rightarrow> (bad_project, w)
      | Some p \<Rightarrow> (case ListForProject p w of
          (Inl e, w) \<Rightarrow> (respondError 500 ''INTERNAL_ERROR'' ''failed to list members'', w)
        | (Inr members, w) \<Rightarrow> (Response 200 (MembersData members), w)))"

definition handleAddMember :: "(uuid \<times> int) option \<Rightarrow> handler" where
  "handleAddMember req rq w =
     (case rq_Param rq ''id'' of
        None \<Rightarrow> (bad_project, w)
      | Some p \<Rightarrow> (case req of
          None \<Rightarrow> (bad_body, w)
        | Some (userID, role) \<Rightarrow>
            if userID = uuid_Nil then (respondError 400 ''VALIDATION_ERROR'' ''user_id is required'', w)
            else case Grant userID p role (map_option u_ID (rq_User rq)) w of
              (Inl e, w) \<Rightarrow> (respondError 500 ''INTERNAL_ERROR'' ''failed to add member'', w)
            | (Inr _, w) \<Rightarrow> (respondData ''ok'', w)))"

text \<open>The check both other handlers make before a project administrator loses the role.\<close>

definition last_admin_check :: "uuid \<Rightarrow> World \<Rightarrow> response option \<times> World" where
  "last_admin_check p w =
     (case CountProjectAdmins p w of
        (Inl e, w) \<Rightarrow> (Some (respondError 500 ''INTERNAL_ERROR'' ''failed to check admins''), w)
      | (Inr admins, w) \<Rightarrow>
          (if admins = 1 then Some (respondError 400 ''VALIDATION_ERROR'' ''cannot demote last project admin'') else None, w))"

definition handleUpdateMember :: "int option \<Rightarrow> handler" where
  "handleUpdateMember req rq w =
     (case (rq_Param rq ''id'', rq_Param rq ''user_id'') of
        (None, _) \<Rightarrow> (bad_project, w)
      | (_, None) \<Rightarrow> (respondError 400 ''VALIDATION_ERROR'' ''invalid user id'', w)
      | (Some p, Some userID) \<Rightarrow> (case req of
          None \<Rightarrow> (bad_body, w)
        | Some role \<Rightarrow>
            (case GetRole userID p w of
               (Inl e, w) \<Rightarrow> (respondError 500 ''INTERNAL_ERROR'' ''failed to check role'', w)
             | (Inr None, w) \<Rightarrow> (respondError 404 ''NOT_FOUND'' ''member not found'', w)
             | (Inr (Some prevRole), w) \<Rightarrow>
                 (case (if prevRole = RoleProjectAdmin \<and> role < RoleProjectAdmin then last_admin_check p w else (None, w)) of
                    (Some resp, w) \<Rightarrow> (resp, w)
                  | (None, w) \<Rightarrow>
                      (case Update_role userID p role w of
                         (Inl e, w) \<Rightarrow> (respondError 500 ''INTERNAL_ERROR'' ''failed to update member'', w)
                       | (Inr _, w) \<Rightarrow> (respondData ''ok'', w))))))"

definition handleRemoveMember :: handler where
  "handleRemoveMember rq w =
     (case (rq_Param rq ''id'', rq_Param rq ''user_id'') of
        (None, _) \<Rightarrow> (bad_project, w)
      | (_, None) \<Rightarrow> (respondError 400 ''VALIDATION_ERROR'' ''invalid user id'', w)
      | (Some p, Some userID) \<Rightarrow>
          (case GetRole userID p w of
             (Inl e, w) \<Rightarrow> (respondError 500 ''INTERNAL_ERROR'' ''failed to check role'', w)
           | (Inr None, w) \<Rightarrow> (respondError 404 ''NOT_FOUND'' ''member not found'', w)
           | (Inr (Some prevRole), w) \<Rightarrow>
               (case (if prevRole = RoleProjectAdmin then last_admin_check p w else (None, w)) of
                  (Some resp, w) \<Rightarrow> (resp, w)
                | (None, w) \<Rightarrow>
                    (case Revoke_role userID p w of
                       (Inl e, w) \<Rightarrow> (respondError 500 ''INTERNAL_ERROR'' ''failed to remove member'', w)
                     | (Inr _, w) \<Rightarrow> (respondData ''ok'', w)))))"

section \<open>Routes\<close>

text \<open>What every protected route passes through, and the routes of one finding and of a project's members.\<close>

definition protected :: "handler \<Rightarrow> handler" where
  "protected h = RequireAuth (RequirePasswordChangeCompleted h)"

definition finding_route :: "int \<Rightarrow> handler \<Rightarrow> handler" where
  "finding_route minRole h = protected (RequireProjectRole minRole (ProjectIDFromFinding ''id'') h)"

definition members_route :: "handler \<Rightarrow> handler" where
  "members_route h = protected (RequireProjectRole RoleProjectAdmin (ProjectIDFromURL ''id'') h)"

definition admin_route :: "handler \<Rightarrow> handler" where
  "admin_route h = protected (RequireGlobalAdmin h)"

end
