(* ===== verification/Gates.thy ===== *)
theory Gates
  imports TriageApi FindingsCorrect
begin

text \<open>
  What the middlewares of \<open>internal/api/auth_middleware.go\<close> guarantee to the handler behind them, as
  a locale that composes, and what a triage handler may change, as a second one; the routes of
  \<open>internal/api/router.go\<close> for triage are the combination of both.
\<close>

section \<open>Operations that only read\<close>

lemma FindingsRepo_GetProjectID_db: "FindingsRepo_GetProjectID i w = (r, w') \<Longrightarrow> w_db w' = w_db w"
  by (simp add: FindingsRepo_GetProjectID_def db_query_row_db)

lemma GetRole_db: "GetRole u p w = (r, w') \<Longrightarrow> w_db w' = w_db w"
  by (auto simp: GetRole_def dest: db_query_row_db split: prod.splits sum.splits if_splits)

lemma GetRole_Inr: "GetRole u p w = (Inr r, w') \<Longrightarrow> r = role_in (w_db w) u p"
proof -
  assume a: "GetRole u p w = (Inr r, w')"
  obtain x w1 where q: "db_query_row (\<lambda>d. role_in d u p) w = (x, w1)" by fastforce
  show ?thesis
  proof (cases x)
    case (Inl e)
    with a q have "e = ErrNoRows" "r = None" by (auto simp: GetRole_def split: if_splits)
    moreover have "role_in (w_db w) u p = None"
      using q Inl \<open>e = ErrNoRows\<close>
      by (auto simp: db_query_row_def db_query_def dest: db_call_db split: prod.splits sum.splits option.splits if_splits)
    ultimately show ?thesis by simp
  next
    case (Inr y)
    with a q db_query_row_Inr show ?thesis by (fastforce simp: GetRole_def)
  qed
qed

lemma HasProjectAccess_db: "HasProjectAccess u p w = (r, w') \<Longrightarrow> w_db w' = w_db w"
  by (simp add: HasProjectAccess_def db_query_db)

lemma UsersRepo_GetByID_db: "UsersRepo_GetByID i w = (r, w') \<Longrightarrow> w_db w' = w_db w"
  by (simp add: UsersRepo_GetByID_def db_query_row_db)

lemma FindingsRepo_GetByID_db: "FindingsRepo_GetByID i w = (r, w') \<Longrightarrow> w_db w' = w_db w"
  by (simp add: FindingsRepo_GetByID_def db_query_row_db)

lemma ListDistinctProjectIDs_db: "ListDistinctProjectIDs ids w = (r, w') \<Longrightarrow> w_db w' = w_db w"
  by (auto simp: ListDistinctProjectIDs_def dest: db_query_db split: if_splits)

lemma ListDistinctProjectIDs_Inr:
  "ListDistinctProjectIDs ids w = (Inr ps, w') \<Longrightarrow>
     set ps = f_ProjectID ` {f \<in> set (tb_findings (w_db w)). f_ID f \<in> set ids} \<and> distinct ps"
  by (auto simp: ListDistinctProjectIDs_def dest: db_query_Inr split: if_splits)

lemma GetProjectIDsForFindings_db: "GetProjectIDsForFindings ids w = (r, w') \<Longrightarrow> w_db w' = w_db w"
  by (auto simp: GetProjectIDsForFindings_def dest: db_query_db split: if_splits)

lemma ListIDsByGroup_db: "ListIDsByGroup ts ff g k w = (r, w') \<Longrightarrow> w_db w' = w_db w"
  by (auto simp: ListIDsByGroup_def Let_def dest!: db_query_db split: prod.splits sum.splits if_splits)

lemmas read_only = FindingsRepo_GetProjectID_db GetRole_db HasProjectAccess_db UsersRepo_GetByID_db
  FindingsRepo_GetByID_db ListDistinctProjectIDs_db GetProjectIDsForFindings_db ListIDsByGroup_db

section \<open>Gates\<close>

text \<open>
  A gate either answers with an error and leaves the tables alone, or \<open>pass\<close> holds and it runs the
  handler behind it, in a world with the same tables.
\<close>

locale gate =
  fixes mw :: "handler \<Rightarrow> handler" and pass :: "Request \<Rightarrow> DB \<Rightarrow> bool"
  assumes gate: "mw next rq w = (r, w') \<Longrightarrow>
    (\<exists>w1. w_db w1 = w_db w \<and> pass rq (w_db w) \<and> next rq w1 = (r, w')) \<or>
    (w_db w' = w_db w \<and> 400 \<le> status_of r)"

context gate
begin

lemma refused: "mw next rq w = (r, w') \<Longrightarrow> \<not> pass rq (w_db w) \<Longrightarrow> w_db w' = w_db w \<and> 400 \<le> status_of r"
  using gate by blast

lemma changed_passed: "mw next rq w = (r, w') \<Longrightarrow> w_db w' \<noteq> w_db w \<Longrightarrow>
    \<exists>w1. w_db w1 = w_db w \<and> pass rq (w_db w) \<and> next rq w1 = (r, w')"
  using gate by blast

end

locale two_gates = outer: gate mw1 pass1 + inner: gate mw2 pass2 for mw1 pass1 mw2 pass2

sublocale two_gates \<subseteq> both: gate "\<lambda>h. mw1 (mw2 h)" "\<lambda>rq d. pass1 rq d \<and> pass2 rq d"
proof unfold_locales
  fix h rq w r w'
  assume "mw1 (mw2 h) rq w = (r, w')"
  then consider w1 where "w_db w1 = w_db w" "pass1 rq (w_db w)" "mw2 h rq w1 = (r, w')"
    | "w_db w' = w_db w \<and> 400 \<le> status_of r" using outer.gate by blast
  then show "(\<exists>w1. w_db w1 = w_db w \<and> (pass1 rq (w_db w) \<and> pass2 rq (w_db w)) \<and> h rq w1 = (r, w')) \<or>
    w_db w' = w_db w \<and> 400 \<le> status_of r"
  proof cases
    case 1
    then show ?thesis using inner.gate [OF 1(3)] by auto
  qed simp
qed

text \<open>An extractor finds a project in the request and the tables, and only reads.\<close>

locale extractor =
  fixes getProjectID :: ProjectIDExtractor and proj :: "Request \<Rightarrow> DB \<Rightarrow> uuid option"
  assumes reads: "getProjectID rq w = (r, w') \<Longrightarrow> w_db w' = w_db w"
    and extracts: "getProjectID rq w = (Inr p, w') \<Longrightarrow> proj rq (w_db w) = Some p"

definition url_project :: "string \<Rightarrow> Request \<Rightarrow> DB \<Rightarrow> uuid option" where
  "url_project param rq d = rq_Param rq param"

definition finding_project :: "string \<Rightarrow> Request \<Rightarrow> DB \<Rightarrow> uuid option" where
  "finding_project param rq d = (case rq_Param rq param of None \<Rightarrow> None
     | Some i \<Rightarrow> map_option f_ProjectID (find (\<lambda>f. f_ID f = i) (tb_findings d)))"

interpretation url: extractor "ProjectIDFromURL param" "url_project param" for param
  by unfold_locales (auto simp: ProjectIDFromURL_def url_project_def split: option.splits)

interpretation finding: extractor "ProjectIDFromFinding param" "finding_project param" for param
  by unfold_locales (auto simp: ProjectIDFromFinding_def finding_project_def FindingsRepo_GetProjectID_def
      dest: db_query_row_db db_query_row_Inr split: option.splits)

interpretation bdy: extractor "ProjectIDFromBody b" "\<lambda>rq d. b" for b
  by unfold_locales (auto simp: ProjectIDFromBody_def split: option.splits if_splits)

section \<open>The middlewares as gates\<close>

text \<open>What a user may do in a project.\<close>

definition may :: "int \<Rightarrow> User \<Rightarrow> uuid \<Rightarrow> DB \<Rightarrow> bool" where
  "may minRole u p d \<longleftrightarrow> User_IsAdmin u \<or> (\<exists>role. role_in d (u_ID u) p = Some role \<and> minRole \<le> role)"

definition role_pass :: "int \<Rightarrow> (Request \<Rightarrow> DB \<Rightarrow> uuid option) \<Rightarrow> Request \<Rightarrow> DB \<Rightarrow> bool" where
  "role_pass minRole proj rq d \<longleftrightarrow> (\<exists>u. rq_User rq = Some u \<and>
     (User_IsAdmin u \<or> (\<exists>p. proj rq d = Some p \<and> may minRole u p d)))"

definition auth_pass :: "Request \<Rightarrow> DB \<Rightarrow> bool" where
  "auth_pass rq d \<longleftrightarrow> rq_User rq \<noteq> None \<or> rq_Token rq \<noteq> None"

definition password_pass :: "Request \<Rightarrow> DB \<Rightarrow> bool" where
  "password_pass rq d \<longleftrightarrow> (\<forall>u. rq_User rq = Some u \<longrightarrow> \<not> u_MustChangePassword u)"

definition admin_pass :: "Request \<Rightarrow> DB \<Rightarrow> bool" where
  "admin_pass rq d \<longleftrightarrow> (\<exists>u. rq_User rq = Some u \<and> User_IsAdmin u)"

definition scope_pass :: "string \<Rightarrow> Request \<Rightarrow> DB \<Rightarrow> bool" where
  "scope_pass s rq d \<longleftrightarrow> (case rq_Token rq of Some t \<Rightarrow> s \<in> set (t_Scopes t) | None \<Rightarrow> rq_User rq \<noteq> None)"

definition owner_pass :: "(Request \<Rightarrow> DB \<Rightarrow> uuid option) \<Rightarrow> Request \<Rightarrow> DB \<Rightarrow> bool" where
  "owner_pass proj rq d \<longleftrightarrow> (\<exists>u. rq_User rq = Some u \<and>
     (User_IsAdmin u \<or> (\<exists>p. proj rq d = Some p \<and> project_owner p d = Some (u_ID u))))"

lemma status_of_respondError [simp]: "status_of (respondError n c m) = n"
  by (simp add: respondError_def)

interpretation auth: gate RequireAuth auth_pass
  by unfold_locales (auto simp: RequireAuth_def auth_pass_def split: option.splits)

interpretation password: gate RequirePasswordChangeCompleted password_pass
  by unfold_locales (auto simp: RequirePasswordChangeCompleted_def password_pass_def split: option.splits if_splits)

interpretation admin: gate RequireGlobalAdmin admin_pass
  by unfold_locales (auto simp: RequireGlobalAdmin_def admin_pass_def split: option.splits if_splits)

interpretation scope: gate "RequireScope s" "scope_pass s" for s
  by unfold_locales (auto simp: RequireScope_def scope_pass_def list_ex_iff split: option.splits if_splits)

context extractor
begin

lemma RequireProjectRole_gate:
  assumes m: "RequireProjectRole minRole getProjectID next rq w = (r, w')"
  shows "(\<exists>w1. w_db w1 = w_db w \<and> role_pass minRole proj rq (w_db w) \<and> next rq w1 = (r, w')) \<or>
    (w_db w' = w_db w \<and> 400 \<le> status_of r)"
proof (cases "rq_User rq")
  case None
  then show ?thesis using m by (auto simp: RequireProjectRole_def)
next
  case (Some u)
  obtain x w1 where x: "getProjectID rq w = (x, w1)" by fastforce
  note x_db = reads [OF x]
  show ?thesis
  proof (cases "User_IsAdmin u")
    case True
    then show ?thesis using m Some by (auto simp: RequireProjectRole_def role_pass_def)
  next
    case False
    show ?thesis
    proof (cases x)
      case (Inl e)
      then show ?thesis using m Some False x x_db by (auto simp: RequireProjectRole_def)
    next
      case (Inr p)
      obtain y w2 where y: "GetRole (u_ID u) p w1 = (y, w2)" by fastforce
      note y_db = GetRole_db [OF y]
      show ?thesis
      proof (cases "\<exists>role. y = Inr (Some role) \<and> minRole \<le> role")
        case True
        then have "may minRole u p (w_db w)" using GetRole_Inr y x_db by (fastforce simp: may_def)
        then show ?thesis using True m Some False x x_db y y_db Inr extracts [of rq w p w1]
          by (auto simp: RequireProjectRole_def role_pass_def not_less)
      next
        case False
        then show ?thesis using m Some \<open>\<not> User_IsAdmin u\<close> x x_db y y_db Inr
          by (auto simp: RequireProjectRole_def not_le split: sum.splits option.splits)
      qed
    qed
  qed
qed

lemma RequireProjectOwner_gate:
  assumes m: "RequireProjectOwnerOrGlobalAdmin getProjectID next rq w = (r, w')"
  shows "(\<exists>w1. w_db w1 = w_db w \<and> owner_pass proj rq (w_db w) \<and> next rq w1 = (r, w')) \<or>
    (w_db w' = w_db w \<and> 400 \<le> status_of r)"
proof (cases "rq_User rq")
  case None
  then show ?thesis using m by (auto simp: RequireProjectOwnerOrGlobalAdmin_def)
next
  case (Some u)
  obtain x w1 where x: "getProjectID rq w = (x, w1)" by fastforce
  show ?thesis
  proof (cases "User_IsAdmin u")
    case True
    then show ?thesis using m Some by (auto simp: RequireProjectOwnerOrGlobalAdmin_def owner_pass_def)
  next
    case False
    then show ?thesis using m Some x reads [OF x]
      by (cases x) (auto 4 4 simp: RequireProjectOwnerOrGlobalAdmin_def owner_pass_def
          dest: db_query_row_db db_query_row_Inr extracts split: prod.splits sum.splits if_splits)
  qed
qed

end

sublocale extractor \<subseteq> role: gate "RequireProjectRole minRole getProjectID" "role_pass minRole proj" for minRole
  by unfold_locales (rule RequireProjectRole_gate)

sublocale extractor \<subseteq> owner: gate "RequireProjectOwnerOrGlobalAdmin getProjectID" "owner_pass proj"
  by unfold_locales (rule RequireProjectOwner_gate)

interpretation prot: two_gates RequireAuth auth_pass RequirePasswordChangeCompleted password_pass ..

interpretation protected_gate: gate protected "\<lambda>rq d. auth_pass rq d \<and> password_pass rq d"
  unfolding protected_def by unfold_locales (rule prot.both.gate)

interpretation finding_gates: two_gates protected "\<lambda>rq d. auth_pass rq d \<and> password_pass rq d"
  "RequireProjectRole minRole (ProjectIDFromFinding ''id'')" "role_pass minRole (finding_project ''id'')" for minRole ..

interpretation members_gates: two_gates protected "\<lambda>rq d. auth_pass rq d \<and> password_pass rq d"
  "RequireProjectRole RoleProjectAdmin (ProjectIDFromURL ''id'')" "role_pass RoleProjectAdmin (url_project ''id'')" ..

end
