(* ===== verification/TriageCorrect.thy ===== *)
theory TriageCorrect
  imports Gates
begin

text \<open>
  What the triage routes guarantee, whatever the request and whatever calls to the database fail: a
  route changes only findings the user may triage, and appends only events of that user about them.
\<close>

section \<open>What a triage may change\<close>

definition triage_change :: "uuid \<Rightarrow> uuid set \<Rightarrow> DB \<Rightarrow> DB \<Rightarrow> bool" where
  "triage_change u A d d' \<longleftrightarrow> untouched A d' = untouched A d \<and>
     (\<exists>evs. tb_events d' = tb_events d @ evs \<and> (\<forall>ev \<in> set evs. ev_FindingID ev \<in> A \<and> ev_UserID ev = Some u)) \<and>
     d' = d\<lparr>tb_findings := tb_findings d', tb_events := tb_events d'\<rparr>"

lemma triage_change_refl [simp]: "triage_change u A d d"
  by (simp add: triage_change_def)

lemma triage_change_trans:
  assumes 1: "triage_change u A d d1" and 2: "triage_change u A d1 d2"
  shows "triage_change u A d d2"
proof -
  obtain e1 where e1: "tb_events d1 = tb_events d @ e1" "\<forall>ev \<in> set e1. ev_FindingID ev \<in> A \<and> ev_UserID ev = Some u"
    using 1 by (auto simp: triage_change_def)
  obtain e2 where e2: "tb_events d2 = tb_events d1 @ e2" "\<forall>ev \<in> set e2. ev_FindingID ev \<in> A \<and> ev_UserID ev = Some u"
    using 2 by (auto simp: triage_change_def)
  have d1: "d1 = d\<lparr>tb_findings := tb_findings d1, tb_events := tb_events d1\<rparr>" using 1 by (simp add: triage_change_def)
  have "d2 = d1\<lparr>tb_findings := tb_findings d2, tb_events := tb_events d2\<rparr>" using 2 by (simp add: triage_change_def)
  also have "\<dots> = (d\<lparr>tb_findings := tb_findings d1, tb_events := tb_events d1\<rparr>)\<lparr>tb_findings := tb_findings d2, tb_events := tb_events d2\<rparr>"
    by (rule arg_cong [OF d1])
  also have "\<dots> = d\<lparr>tb_findings := tb_findings d2, tb_events := tb_events d2\<rparr>" by simp
  finally have d2: "d2 = d\<lparr>tb_findings := tb_findings d2, tb_events := tb_events d2\<rparr>" .
  show ?thesis unfolding triage_change_def
  proof (intro conjI exI [of _ "e1 @ e2"])
    show "untouched A d2 = untouched A d" using 1 2 by (simp add: triage_change_def)
    show "tb_events d2 = tb_events d @ e1 @ e2" using e1 e2 by simp
    show "\<forall>ev \<in> set (e1 @ e2). ev_FindingID ev \<in> A \<and> ev_UserID ev = Some u" using e1(2) e2(2) by auto
  qed (rule d2)
qed

lemma triage_change_mono:
  assumes "triage_change u A d d'" and "A \<subseteq> B"
  shows "triage_change u B d d'"
  unfolding triage_change_def
proof (intro conjI)
  show "untouched B d' = untouched B d" using assms untouched_mono unfolding triage_change_def by blast
  show "\<exists>evs. tb_events d' = tb_events d @ evs \<and> (\<forall>ev \<in> set evs. ev_FindingID ev \<in> B \<and> ev_UserID ev = Some u)"
    using assms unfolding triage_change_def by blast
  show "d' = d\<lparr>tb_findings := tb_findings d', tb_events := tb_events d'\<rparr>"
    by (rule conjunct2 [OF conjunct2 [OF assms(1) [unfolded triage_change_def]]])
qed

lemma ApplyTriageAction_change:
  assumes "ApplyTriageAction u i act w = (r, w')"
  shows "triage_change u {i} (w_db w) (w_db w') \<and> f_ID ` set (tb_findings (w_db w')) = f_ID ` set (tb_findings (w_db w)) \<and>
    (i \<notin> f_ID ` set (tb_findings (w_db w)) \<longrightarrow> w_db w' = w_db w)"
proof (cases r)
  case (Inl e)
  then show ?thesis using assms triage.Inl_unchanged by auto
next
  case (Inr x)
  from assms [unfolded Inr] obtain f act' f' where f: "finding_by_id i (w_db w) = Some f" "f_ID f' = i"
    and w': "w_db w' = (update_triage f' (w_db w))\<lparr>tb_events := tb_events (w_db w) @
       [BuildEvent act' (w_uuid w (w_next w)) (w_now w) u f']\<rparr>"
    by (rule ApplyTriageAction_effect) blast
  have "map f_ID (tb_findings (update_triage f' d)) = map f_ID (tb_findings d)" for d
    by (simp add: update_triage_def triage_columns_def)
  then have "f_ID ` set (tb_findings (w_db w')) = f_ID ` set (tb_findings (w_db w))"
    by (simp add: w' flip: set_map)
  moreover have "i \<in> f_ID ` set (tb_findings (w_db w))" using f(1) by (auto elim: finding_by_id_Some)
  moreover have "w_db w' = (w_db w)\<lparr>tb_findings := tb_findings (w_db w'), tb_events := tb_events (w_db w')\<rparr>"
    by (simp add: w' update_triage_def)
  ultimately show ?thesis using ApplyTriageAction_untouched [OF assms [unfolded Inr]] unfolding triage_change_def by auto
qed

lemma bulk_loop_change:
  "bulk_loop u b ids res w = (res', w') \<Longrightarrow> triage_change u (set ids \<inter> f_ID ` set (tb_findings (w_db w))) (w_db w) (w_db w')"
proof (induction ids arbitrary: res w)
  case (Cons i ids)
  obtain r w1 where a: "ApplyTriageAction u i (b i) w = (r, w1)" by fastforce
  note ch = ApplyTriageAction_change [OF a]
  obtain res1 where l: "bulk_loop u b ids res1 w1 = (res', w')" using Cons.prems a by (cases r) auto
  have "triage_change u (set (i # ids) \<inter> f_ID ` set (tb_findings (w_db w))) (w_db w) (w_db w1)"
    using ch by (cases "i \<in> f_ID ` set (tb_findings (w_db w))") (auto elim: triage_change_mono)
  moreover have "triage_change u (set (i # ids) \<inter> f_ID ` set (tb_findings (w_db w))) (w_db w1) (w_db w')"
    using ch by (intro triage_change_mono [OF Cons.IH [OF l]]) auto
  ultimately show ?case by (rule triage_change_trans)
qed simp

lemma ApplyBulk_change:
  "ApplyBulkTriageAction u ids b w = (r, w') \<Longrightarrow> triage_change u (set ids \<inter> f_ID ` set (tb_findings (w_db w))) (w_db w) (w_db w')"
  by (auto simp: ApplyBulkTriageAction_def dest: bulk_loop_change split: prod.splits)

section \<open>Handlers that triage\<close>

text \<open>The contract of a handler: its user changes only findings of \<open>ids\<close>.\<close>

locale triage_handler =
  fixes h :: handler and ids :: "Request \<Rightarrow> DB \<Rightarrow> uuid set"
  assumes changes: "h rq w = (r, w') \<Longrightarrow> w_db w' \<noteq> w_db w \<Longrightarrow>
    \<exists>u. rq_User rq = Some u \<and> triage_change (u_ID u) (ids rq (w_db w)) (w_db w) (w_db w')"

definition the_finding :: "Request \<Rightarrow> DB \<Rightarrow> uuid set" where
  "the_finding rq d = {i. rq_Param rq ''id'' = Some i} \<inter> f_ID ` set (tb_findings d)"

definition triageable :: "Request \<Rightarrow> DB \<Rightarrow> uuid set" where
  "triageable rq d = {i. \<exists>u f. rq_User rq = Some u \<and> f \<in> set (tb_findings d) \<and> f_ID f = i \<and>
     may RoleTriager u (f_ProjectID f) d}"

lemma apply_and_respond_change:
  "apply_and_respond user i act done w = (r, w') \<Longrightarrow>
   triage_change (u_ID user) ({i} \<inter> f_ID ` set (tb_findings (w_db w))) (w_db w) (w_db w')"
proof -
  assume h: "apply_and_respond user i act done w = (r, w')"
  obtain x w1 where x: "ApplyTriageAction (u_ID user) i act w = (x, w1)" by fastforce
  have "w_db w' = w_db w1" using h x by (auto simp: apply_and_respond_def split: sum.splits)
  then show ?thesis using ApplyTriageAction_change [OF x] by (cases "i \<in> f_ID ` set (tb_findings (w_db w))") auto
qed

lemma status_action_db: "status_action uo i s note w = (r, w') \<Longrightarrow> w_db w' = w_db w"
  by (auto simp: status_action_def Let_def dest: FindingsRepo_GetByID_db split: prod.splits sum.splits option.splits if_splits)

lemma assign_to_change:
  "assign_to i target uo w = (r, w') \<Longrightarrow> w_db w' \<noteq> w_db w \<Longrightarrow>
   \<exists>u. uo = Some u \<and> triage_change (u_ID u) ({i} \<inter> f_ID ` set (tb_findings (w_db w))) (w_db w) (w_db w')"
  by (auto simp: assign_to_def dest!: apply_and_respond_change read_only split: prod.splits sum.splits option.splits if_splits)

lemma the_finding_Some: "rq_Param rq ''id'' = Some i \<Longrightarrow> the_finding rq d = {i} \<inter> f_ID ` set (tb_findings d)"
  by (auto simp: the_finding_def)

interpretation update_status: triage_handler "handleUpdateStatus req" the_finding for req
proof unfold_locales
  fix rq w r w' assume h: "handleUpdateStatus req rq w = (r, w')" "w_db w' \<noteq> w_db w"
  obtain i where i: "rq_Param rq ''id'' = Some i" using h by (cases "rq_Param rq ''id''") (auto simp: handleUpdateStatus_def)
  obtain s nt where req: "req = Some (s, nt)" using h i by (cases req) (auto simp: handleUpdateStatus_def)
  obtain x w1 where a: "status_action (rq_User rq) i s nt w = (x, w1)" by fastforce
  show "\<exists>u. rq_User rq = Some u \<and> triage_change (u_ID u) (the_finding rq (w_db w)) (w_db w) (w_db w')"
    using h i req a status_action_db [OF a]
    by (auto simp: handleUpdateStatus_def the_finding_Some dest!: apply_and_respond_change split: sum.splits option.splits)
qed

interpretation close_finding: triage_handler "handleCloseFinding req" the_finding for req
  by unfold_locales (auto simp: handleCloseFinding_def the_finding_Some dest!: apply_and_respond_change split: option.splits)

interpretation reopen_finding: triage_handler "handleReopenFinding req" the_finding for req
  by unfold_locales (auto simp: handleReopenFinding_def the_finding_Some dest!: apply_and_respond_change split: option.splits)

interpretation assign_finding: triage_handler "handleAssignFinding req" the_finding for req
  by unfold_locales (auto simp: handleAssignFinding_def the_finding_Some dest!: assign_to_change split: option.splits if_splits)

interpretation unassign_finding: triage_handler handleUnassignFinding the_finding
  by unfold_locales (auto simp: handleUnassignFinding_def the_finding_Some dest!: apply_and_respond_change split: option.splits)

section \<open>Bulk handlers\<close>

lemma forbidden_projects_spec:
  "forbidden_projects u ps w = (r, w') \<Longrightarrow> w_db w' = w_db w \<and>
   (\<forall>qs. r = Inr qs \<longrightarrow> qs = filter (\<lambda>p. role_in (w_db w) u p = None \<or> the (role_in (w_db w) u p) < RoleTriager) ps)"
proof (induction ps arbitrary: w r w')
  case (Cons p ps)
  obtain x w1 where x: "GetRole u p w = (x, w1)" by fastforce
  obtain y w2 where y: "forbidden_projects u ps w1 = (y, w2)" by fastforce
  note g = GetRole_db [OF x] and i = Cons.IH [OF y]
  show ?case
  proof (cases x)
    case (Inl e)
    then show ?thesis using Cons.prems x g by auto
  next
    case (Inr role)
    have "role = role_in (w_db w) u p" using GetRole_Inr x Inr by blast
    then show ?thesis using Cons.prems x Inr y g i by (cases y) auto
  qed
qed simp

lemma forbidden_projects_db: "forbidden_projects u ps w = (r, w') \<Longrightarrow> w_db w' = w_db w"
  using forbidden_projects_spec by blast

lemma checkBulk_db: "checkBulkProjectAccess rq ids w = (r, w') \<Longrightarrow> w_db w' = w_db w"
  by (auto simp: checkBulkProjectAccess_def dest!: forbidden_projects_db ListDistinctProjectIDs_db
      split: option.splits prod.splits sum.splits if_splits)

text \<open>Access granted: the user may triage every finding named in the request that exists.\<close>

lemma checkBulk_granted:
  assumes "checkBulkProjectAccess rq ids w = (Inr x, w')"
  shows "set ids \<inter> f_ID ` set (tb_findings (w_db w)) \<subseteq> triageable rq (w_db w)"
proof -
  obtain u where u: "rq_User rq = Some u" using assms by (cases "rq_User rq") (auto simp: checkBulkProjectAccess_def)
  show ?thesis
  proof (cases "User_IsAdmin u")
    case True
    then show ?thesis using u by (auto simp: triageable_def may_def)
  next
    case False
    obtain ps w1 where ps: "ListDistinctProjectIDs ids w = (Inr ps, w1)"
      using assms u False by (cases "ListDistinctProjectIDs ids w") (auto simp: checkBulkProjectAccess_def split: sum.splits)
    obtain w2 where f: "forbidden_projects (u_ID u) ps w1 = (Inr [], w2)"
      using assms u False ps by (cases "forbidden_projects (u_ID u) ps w1") (auto simp: checkBulkProjectAccess_def split: sum.splits if_splits)
    have "may RoleTriager u p (w_db w)" if "p \<in> set ps" for p
    proof -
      have "[] = filter (\<lambda>p. role_in (w_db w) (u_ID u) p = None \<or> the (role_in (w_db w) (u_ID u) p) < RoleTriager) ps"
        using forbidden_projects_spec [OF f] ListDistinctProjectIDs_db [OF ps] by simp
      then have "\<not> (role_in (w_db w) (u_ID u) p = None \<or> the (role_in (w_db w) (u_ID u) p) < RoleTriager)"
        using that by (metis (mono_tags, lifting) filter_empty_conv)
      then show ?thesis by (auto simp: may_def)
    qed
    then show ?thesis using ListDistinctProjectIDs_Inr [OF ps] u by (auto simp: triageable_def)
  qed
qed

lemma bulk_and_respond_change:
  "bulk_and_respond uo ids b failure w = (r, w') \<Longrightarrow> w_db w' \<noteq> w_db w \<Longrightarrow>
   \<exists>u. uo = Some u \<and> triage_change (u_ID u) (set ids \<inter> f_ID ` set (tb_findings (w_db w))) (w_db w) (w_db w')"
  by (auto simp: bulk_and_respond_def dest!: ApplyBulk_change split: option.splits prod.splits sum.splits)

text \<open>The shape of the four bulk handlers: the access check, then possibly the action.\<close>

lemma bulk_change:
  assumes "checkBulkProjectAccess rq ids w = (Inr x, w1)" and "w_db w2 = w_db w1"
    and "bulk_and_respond (rq_User rq) ids b failure w2 = (r, w')" and "w_db w' \<noteq> w_db w"
  shows "\<exists>u. rq_User rq = Some u \<and> triage_change (u_ID u) (triageable rq (w_db w)) (w_db w) (w_db w')"
proof -
  have db: "w_db w2 = w_db w" using assms(2) checkBulk_db [OF assms(1)] by simp
  obtain u where "rq_User rq = Some u"
    "triage_change (u_ID u) (set ids \<inter> f_ID ` set (tb_findings (w_db w))) (w_db w) (w_db w')"
    using bulk_and_respond_change [OF assms(3)] assms(4) unfolding db by blast
  then show ?thesis using triage_change_mono [OF _ checkBulk_granted [OF assms(1)]] by blast
qed

lemma check_target_access_db: "check_target_access target ids w = (r, w') \<Longrightarrow> w_db w' = w_db w"
proof (induction ids arbitrary: w)
  case (Cons i ids)
  obtain x w1 where x: "FindingsRepo_GetProjectID i w = (x, w1)" by fastforce
  show ?case
  proof (cases x)
    case (Inr p)
    obtain y w2 where y: "HasProjectAccess target p w1 = (y, w2)" by fastforce
    show ?thesis using Cons.prems x Inr y read_only(1) [OF x] read_only(3) [OF y] Cons.IH [of w2]
      by (cases y) (auto split: if_splits)
  qed (use Cons.prems x read_only(1) in auto)
qed simp

interpretation bulk_status: triage_handler "handleBulkUpdateStatus req" triageable for req
  by unfold_locales (auto simp: handleBulkUpdateStatus_def dest: checkBulk_db intro: bulk_change
      split: option.splits prod.splits sum.splits if_splits)

interpretation bulk_close: triage_handler "handleBulkClose req" triageable for req
  by unfold_locales (auto simp: handleBulkClose_def dest: checkBulk_db intro: bulk_change
      split: option.splits prod.splits sum.splits if_splits)

interpretation bulk_unassign: triage_handler "handleBulkUnassign req" triageable for req
  by unfold_locales (auto simp: handleBulkUnassign_def dest: checkBulk_db intro: bulk_change
      split: option.splits prod.splits sum.splits if_splits)

interpretation bulk_assign: triage_handler "handleBulkAssign req" triageable for req
proof unfold_locales
  fix rq w r w' assume h: "handleBulkAssign req rq w = (r, w')" "w_db w' \<noteq> w_db w"
  obtain ids target where req: "req = Some (ids, target)" "ids \<noteq> []"
    using h by (auto simp: handleBulkAssign_def split: option.splits if_splits)
  obtain x w1 where c: "checkBulkProjectAccess rq ids w = (x, w1)" by fastforce
  obtain y w2 where t: "UsersRepo_GetByID target w1 = (y, w2)" by fastforce
  obtain z w3 where a: "check_target_access target ids w2 = (z, w3)" by fastforce
  note db = checkBulk_db [OF c] UsersRepo_GetByID_db [OF t] check_target_access_db [OF a]
  obtain v where v: "x = Inr ()" "y = Inr v" "z = Inr ()"
    using h req c t a db by (cases x; cases y; cases z) (auto simp: handleBulkAssign_def)
  have "bulk_and_respond (rq_User rq) ids (\<lambda>_ _. Assign \<lparr>as_ToUserID = target, as_ToEmail = u_Email v\<rparr>)
    ''failed to bulk assign findings'' w3 = (r, w')"
    using h(1) req c t a v by (simp add: handleBulkAssign_def)
  from bulk_change [OF c [unfolded v] _ this h(2)]
  show "\<exists>u. rq_User rq = Some u \<and> triage_change (u_ID u) (triageable rq (w_db w)) (w_db w) (w_db w')"
    using db by simp
qed

section \<open>Group handlers\<close>

lemma allowed_projects_spec:
  "allowed_projects u ps w = (r, w') \<Longrightarrow> w_db w' = w_db w \<and>
   (\<forall>m. r = Inr m \<longrightarrow> (\<forall>p. m p = (if p \<in> set ps then Some (\<exists>role. role_in (w_db w) u p = Some role \<and> RoleTriager \<le> role) else None)))"
proof (induction ps arbitrary: w r w')
  case (Cons p ps)
  obtain x w1 where x: "GetRole u p w = (x, w1)" by fastforce
  obtain y w2 where y: "allowed_projects u ps w1 = (y, w2)" by fastforce
  note g = GetRole_db [OF x] and i = Cons.IH [OF y]
  show ?case
  proof (cases x)
    case (Inl e)
    then show ?thesis using Cons.prems x g by auto
  next
    case (Inr role)
    have "role = role_in (w_db w) u p" using GetRole_Inr x Inr by blast
    then show ?thesis using Cons.prems x Inr y g i by (cases y) auto
  qed
qed simp

lemma GetProjectIDs_Inr:
  assumes "GetProjectIDsForFindings ids w = (Inr m, w')"
  shows "m i = Some p \<Longrightarrow> \<exists>f \<in> set (tb_findings (w_db w)). f_ID f = i \<and> f_ProjectID f = p"
    and "i \<in> set ids \<Longrightarrow> i \<in> f_ID ` set (tb_findings (w_db w)) \<Longrightarrow> m i \<noteq> None"
proof -
  let ?rows = "map (\<lambda>f. (f_ID f, f_ProjectID f)) (filter (\<lambda>f. f_ID f \<in> set ids) (tb_findings (w_db w)))"
  have m: "m = (if ids = [] then Map.empty else map_of ?rows)"
    using assms by (auto simp: GetProjectIDsForFindings_def dest: db_query_Inr split: if_splits)
  show "m i = Some p \<Longrightarrow> \<exists>f \<in> set (tb_findings (w_db w)). f_ID f = i \<and> f_ProjectID f = p"
    by (auto simp: m dest!: map_of_SomeD split: if_splits)
  show "i \<in> set ids \<Longrightarrow> i \<in> f_ID ` set (tb_findings (w_db w)) \<Longrightarrow> m i \<noteq> None"
  proof -
    assume i: "i \<in> set ids" "i \<in> f_ID ` set (tb_findings (w_db w))"
    then obtain f where "f \<in> set (tb_findings (w_db w))" "f_ID f = i" by auto
    with i have "(i, f_ProjectID f) \<in> set ?rows" by auto
    from weak_map_of_SomeI [OF this] i show "m i \<noteq> None" by (auto simp: m)
  qed
qed

lemma split_spec:
  assumes "splitIDsByTriagerAccess uo ids w = (Some (Inr (allowed, forbidden)), w')"
  shows "w_db w' = w_db w"
    and "\<exists>ok. allowed = filter ok ids \<and> forbidden = map (\<lambda>i. (i, ''access denied'')) (remdups (filter (\<lambda>i. \<not> ok i) ids)) \<and>
      (\<exists>u. uo = Some u \<and> (\<forall>f \<in> set (tb_findings (w_db w)). f_ID f \<in> set ids \<and> ok (f_ID f) \<longrightarrow>
         (\<exists>g \<in> set (tb_findings (w_db w)). f_ID g = f_ID f \<and> may RoleTriager u (f_ProjectID g) (w_db w))))"
proof -
  obtain u where u: "uo = Some u" using assms by (cases uo) (auto simp: splitIDsByTriagerAccess_def)
  have "w_db w' = w_db w \<and> (\<exists>ok. allowed = filter ok ids \<and>
      forbidden = map (\<lambda>i. (i, ''access denied'')) (remdups (filter (\<lambda>i. \<not> ok i) ids)) \<and>
      (\<forall>f \<in> set (tb_findings (w_db w)). f_ID f \<in> set ids \<and> ok (f_ID f) \<longrightarrow>
         (\<exists>g \<in> set (tb_findings (w_db w)). f_ID g = f_ID f \<and> may RoleTriager u (f_ProjectID g) (w_db w))))"
  proof (cases "User_IsAdmin u")
    case True
    then have "allowed = ids" "forbidden = []" "w' = w" using assms u by (auto simp: splitIDsByTriagerAccess_def)
    then show ?thesis using True by (auto intro!: exI [of _ "\<lambda>i. True"] simp: may_def)
  next
    case False
    obtain ps w1 where ps: "ListDistinctProjectIDs ids w = (Inr ps, w1)"
      using assms u False by (cases "ListDistinctProjectIDs ids w") (auto simp: splitIDsByTriagerAccess_def split: sum.splits)
    obtain m w2 where m: "allowed_projects (u_ID u) ps w1 = (Inr m, w2)"
      using assms u False ps by (cases "allowed_projects (u_ID u) ps w1") (auto simp: splitIDsByTriagerAccess_def split: sum.splits)
    obtain fp w3 where fp: "GetProjectIDsForFindings ids w2 = (Inr fp, w3)"
      using assms u False ps m by (cases "GetProjectIDsForFindings ids w2") (auto simp: splitIDsByTriagerAccess_def split: sum.splits)
    let ?ok = "\<lambda>i. m (case fp i of None \<Rightarrow> uuid_Nil | Some p \<Rightarrow> p) = Some True"
    note db = ListDistinctProjectIDs_db [OF ps] allowed_projects_spec [OF m] GetProjectIDsForFindings_db [OF fp]
    have "allowed = filter ?ok ids \<and> forbidden = map (\<lambda>i. (i, ''access denied'')) (remdups (filter (\<lambda>i. \<not> ?ok i) ids)) \<and> w' = w3"
      using assms u False ps m fp by (simp add: splitIDsByTriagerAccess_def Let_def)
    moreover have "\<exists>g \<in> set (tb_findings (w_db w)). f_ID g = f_ID f \<and> may RoleTriager u (f_ProjectID g) (w_db w)"
      if f: "f \<in> set (tb_findings (w_db w))" "f_ID f \<in> set ids" "?ok (f_ID f)" for f :: Finding
    proof -
      have "fp (f_ID f) \<noteq> None" using GetProjectIDs_Inr(2) [OF fp] f db by simp
      then obtain p where p: "fp (f_ID f) = Some p" by blast
      obtain g where g: "g \<in> set (tb_findings (w_db w))" "f_ID g = f_ID f" "f_ProjectID g = p"
        using GetProjectIDs_Inr(1) [OF fp p] db by auto
      have "m p = Some True" using f(3) p by simp
      then have "may RoleTriager u p (w_db w)" using db by (auto simp: may_def split: if_splits)
      with g show ?thesis by auto
    qed
    ultimately show ?thesis using db by (intro conjI exI [of _ ?ok]) auto
  qed
  with u show "w_db w' = w_db w" "\<exists>ok. allowed = filter ok ids \<and> forbidden = map (\<lambda>i. (i, ''access denied'')) (remdups (filter (\<lambda>i. \<not> ok i) ids)) \<and>
      (\<exists>u. uo = Some u \<and> (\<forall>f \<in> set (tb_findings (w_db w)). f_ID f \<in> set ids \<and> ok (f_ID f) \<longrightarrow>
         (\<exists>g \<in> set (tb_findings (w_db w)). f_ID g = f_ID f \<and> may RoleTriager u (f_ProjectID g) (w_db w))))"
    by auto
qed

lemma split_triageable:
  assumes "splitIDsByTriagerAccess (rq_User rq) ids w = (Some (Inr (allowed, forbidden)), w')"
  shows "set allowed \<inter> f_ID ` set (tb_findings (w_db w)) \<subseteq> triageable rq (w_db w)"
  using split_spec(2) [OF assms] by (fastforce simp: triageable_def)

lemma split_db: "splitIDsByTriagerAccess uo ids w = (r, w') \<Longrightarrow> w_db w' = w_db w"
  by (auto simp: splitIDsByTriagerAccess_def Let_def dest!: allowed_projects_spec ListDistinctProjectIDs_db GetProjectIDsForFindings_db
      split: option.splits prod.splits sum.splits if_splits)

lemma resolveGroupIDs_db: "resolveGroupIDs g k w = (r, w') \<Longrightarrow> w_db w' = w_db w"
  by (auto simp: resolveGroupIDs_def dest: ListIDsByGroup_db split: prod.splits sum.splits err.splits)

lemma group_apply_change:
  assumes h: "group_apply g k mk failure rq w = (r, w')" "w_db w' \<noteq> w_db w"
  shows "\<exists>u. rq_User rq = Some u \<and> triage_change (u_ID u) (triageable rq (w_db w)) (w_db w) (w_db w')"
proof -
  obtain x w1 where x: "resolveGroupIDs g k w = (x, w1)" by fastforce
  note x_db = resolveGroupIDs_db [OF x]
  obtain ids cnt where ids: "x = Inr (ids, cnt)" "ids \<noteq> []"
    using h x x_db by (auto simp: group_apply_def split: sum.splits if_splits)
  obtain y w2 where y: "splitIDsByTriagerAccess (rq_User rq) ids w1 = (y, w2)" by fastforce
  note y_db = split_db [OF y]
  obtain allowed forbidden where af: "y = Some (Inr (allowed, forbidden))" "allowed \<noteq> []"
    using h x x_db ids y y_db by (auto simp: group_apply_def split: option.splits sum.splits if_splits)
  obtain u where u: "rq_User rq = Some u"
    using h x x_db ids y y_db af by (auto simp: group_apply_def split: option.splits)
  obtain z w3 where z: "ApplyBulkTriageAction (u_ID u) allowed (\<lambda>_. mk (u_ID u)) w2 = (z, w3)" by fastforce
  have "w_db w' = w_db w3" using h x ids y af u z by (auto simp: group_apply_def split: sum.splits)
  then show ?thesis
    using triage_change_mono [OF ApplyBulk_change [OF z]] split_triageable [OF y [unfolded af]] x_db y_db u by auto
qed

interpretation group_close: triage_handler "handleGroupBulkClose req" triageable for req
  by unfold_locales (auto simp: handleGroupBulkClose_def intro: group_apply_change split: option.splits)

interpretation group_status: triage_handler "handleGroupBulkStatus req" triageable for req
  by unfold_locales (auto simp: handleGroupBulkStatus_def intro: group_apply_change split: option.splits if_splits)

interpretation group_assign: triage_handler "handleGroupBulkAssign req" triageable for req
proof unfold_locales
  fix rq w r w' assume h: "handleGroupBulkAssign req rq w = (r, w')" "w_db w' \<noteq> w_db w"
  obtain g k target where req: "req = Some (g, k, target)" "groupBulk_validate g k = None"
    using h by (auto simp: handleGroupBulkAssign_def split: option.splits)
  obtain x w1 where x: "UsersRepo_GetByID target w = (x, w1)" by fastforce
  obtain t where t: "x = Inr t" using h req x UsersRepo_GetByID_db [OF x] by (cases x) (auto simp: handleGroupBulkAssign_def)
  have "group_apply g k (\<lambda>_. Assign \<lparr>as_ToUserID = target, as_ToEmail = u_Email t\<rparr>)
      ''failed to bulk assign findings'' rq w1 = (r, w')"
    using h req x t by (simp add: handleGroupBulkAssign_def)
  from group_apply_change [OF this]
  show "\<exists>u. rq_User rq = Some u \<and> triage_change (u_ID u) (triageable rq (w_db w)) (w_db w) (w_db w')"
    using h(2) UsersRepo_GetByID_db [OF x] by simp
qed

section \<open>Routes\<close>

lemma triageable_the_finding:
  assumes "role_pass RoleTriager (finding_project ''id'') rq d"
  shows "the_finding rq d \<subseteq> triageable rq d"
proof -
  obtain u where u: "rq_User rq = Some u"
    and p: "User_IsAdmin u \<or> (\<exists>p. finding_project ''id'' rq d = Some p \<and> may RoleTriager u p d)"
    using assms by (auto simp: role_pass_def)
  show ?thesis
  proof (cases "User_IsAdmin u")
    case True
    then show ?thesis using u by (auto simp: triageable_def may_def the_finding_def)
  next
    case False
    with p obtain p i f where "rq_Param rq ''id'' = Some i" "find (\<lambda>f. f_ID f = i) (tb_findings d) = Some f"
      "f_ProjectID f = p" "may RoleTriager u p d"
      by (auto simp: finding_project_def split: option.splits)
    moreover have "f \<in> set (tb_findings d)" "f_ID f = i" using calculation(2) by (auto simp: find_Some_iff)
    ultimately have "i \<in> triageable rq d" using u by (auto simp: triageable_def)
    then show ?thesis using \<open>rq_Param rq ''id'' = Some i\<close> by (auto simp: the_finding_def)
  qed
qed

text \<open>The routes of the router that triage.\<close>

inductive triage_route :: "handler \<Rightarrow> bool" where
  patch_status: "triage_route (finding_route RoleTriager (handleUpdateStatus b1))"
| post_close: "triage_route (finding_route RoleTriager (handleCloseFinding b2))"
| post_reopen: "triage_route (finding_route RoleTriager (handleReopenFinding b3))"
| post_assign: "triage_route (finding_route RoleTriager (handleAssignFinding b4))"
| delete_assign: "triage_route (finding_route RoleTriager handleUnassignFinding)"
| bulk_status: "triage_route (protected (handleBulkUpdateStatus b5))"
| bulk_close: "triage_route (protected (handleBulkClose b6))"
| bulk_assign: "triage_route (protected (handleBulkAssign b7))"
| bulk_unassign: "triage_route (protected (handleBulkUnassign b8))"
| groups_close: "triage_route (protected (handleGroupBulkClose b9))"
| groups_assign: "triage_route (protected (handleGroupBulkAssign b10))"
| groups_status: "triage_route (protected (handleGroupBulkStatus b11))"

inductive_cases triage_routeE: "triage_route h"

definition changes_only_triageable :: "handler \<Rightarrow> bool" where
  "changes_only_triageable h \<longleftrightarrow> (\<forall>rq w r w'. h rq w = (r, w') \<longrightarrow> w_db w' \<noteq> w_db w \<longrightarrow>
     (\<exists>u. rq_User rq = Some u \<and> \<not> u_MustChangePassword u \<and> triage_change (u_ID u) (triageable rq (w_db w)) (w_db w) (w_db w')))"

context triage_handler
begin

lemma behind_gate:
  assumes g: "gate mw pass"
    and p: "\<And>rq d. pass rq d \<Longrightarrow> password_pass rq d \<and> ids rq d \<subseteq> triageable rq d"
  shows "changes_only_triageable (mw h)"
  unfolding changes_only_triageable_def
proof (intro allI impI)
  fix rq w r w' assume h: "mw h rq w = (r, w')" "w_db w' \<noteq> w_db w"
  obtain w1 where w1: "w_db w1 = w_db w" "pass rq (w_db w)" "h rq w1 = (r, w')"
    using gate.changed_passed [OF g h] by blast
  then obtain u where u: "rq_User rq = Some u" "triage_change (u_ID u) (ids rq (w_db w)) (w_db w) (w_db w')"
    using changes [of rq w1 r w'] h(2) by auto
  show "\<exists>u. rq_User rq = Some u \<and> \<not> u_MustChangePassword u \<and> triage_change (u_ID u) (triageable rq (w_db w)) (w_db w) (w_db w')"
    using u p [OF w1(2)] triage_change_mono [OF u(2)] by (auto simp: password_pass_def)
qed

end

lemma finding_gate: "gate (finding_route minRole) (\<lambda>rq d. (auth_pass rq d \<and> password_pass rq d) \<and> role_pass minRole (finding_project ''id'') rq d)"
  unfolding finding_route_def by (rule finding_gates.both.gate_axioms)

lemma finding_pass: "(auth_pass rq d \<and> password_pass rq d) \<and> role_pass RoleTriager (finding_project ''id'') rq d \<Longrightarrow>
    password_pass rq d \<and> the_finding rq d \<subseteq> triageable rq d"
  using triageable_the_finding by blast

lemma triage_route_changes: "triage_route h \<Longrightarrow> changes_only_triageable h"
proof (induction rule: triage_route.induct)
  case (patch_status b) show ?case by (rule update_status.behind_gate [OF finding_gate finding_pass])
next
  case (post_close b) show ?case by (rule close_finding.behind_gate [OF finding_gate finding_pass])
next
  case (post_reopen b) show ?case by (rule reopen_finding.behind_gate [OF finding_gate finding_pass])
next
  case (post_assign b) show ?case by (rule assign_finding.behind_gate [OF finding_gate finding_pass])
next
  case delete_assign show ?case by (rule unassign_finding.behind_gate [OF finding_gate finding_pass])
next
  case (bulk_status b) show ?case by (rule bulk_status.behind_gate [OF protected_gate.gate_axioms]) simp
next
  case (bulk_close b) show ?case by (rule bulk_close.behind_gate [OF protected_gate.gate_axioms]) simp
next
  case (bulk_assign b) show ?case by (rule bulk_assign.behind_gate [OF protected_gate.gate_axioms]) simp
next
  case (bulk_unassign b) show ?case by (rule bulk_unassign.behind_gate [OF protected_gate.gate_axioms]) simp
next
  case (groups_close b) show ?case by (rule group_close.behind_gate [OF protected_gate.gate_axioms]) simp
next
  case (groups_assign b) show ?case by (rule group_assign.behind_gate [OF protected_gate.gate_axioms]) simp
next
  case (groups_status b) show ?case by (rule group_status.behind_gate [OF protected_gate.gate_axioms]) simp
qed

section \<open>Properties\<close>

text \<open>
  C2. Triage needs the role of a triager: whatever the request and whatever calls to the database
  fail, when one of the twelve triage routes changes the tables, the request has a user who does not
  owe a password change; only findings changed that exist in a project where this user is at least a
  triager (or any finding, for a global administrator), the new events are by this user and about such
  findings, and no other table changed.
\<close>

theorem triage_routes_authorised:
  assumes "triage_route h" and "h rq w = (r, w')" and "w_db w' \<noteq> w_db w"
  shows "\<exists>u. rq_User rq = Some u \<and> \<not> u_MustChangePassword u \<and>
    triage_change (u_ID u) {i. \<exists>f \<in> set (tb_findings (w_db w)). f_ID f = i \<and>
      (User_IsAdmin u \<or> (\<exists>role. role_in (w_db w) (u_ID u) (f_ProjectID f) = Some role \<and> RoleTriager \<le> role))} (w_db w) (w_db w')"
proof -
  obtain u where u: "rq_User rq = Some u" "\<not> u_MustChangePassword u"
    "triage_change (u_ID u) (triageable rq (w_db w)) (w_db w) (w_db w')"
    using triage_route_changes [OF assms(1)] assms(2,3) unfolding changes_only_triageable_def by blast
  have "triageable rq (w_db w) \<subseteq> {i. \<exists>f \<in> set (tb_findings (w_db w)). f_ID f = i \<and>
      (User_IsAdmin u \<or> (\<exists>role. role_in (w_db w) (u_ID u) (f_ProjectID f) = Some role \<and> RoleTriager \<le> role))}"
    using u(1) by (auto simp: triageable_def may_def)
  from triage_change_mono [OF u(3) this] u(1,2) show ?thesis by blast
qed

definition demo_rq :: Request where
  "demo_rq = \<lparr>rq_User = Some (User_zero\<lparr>u_ID := 7\<rparr>), rq_Token = None, rq_Session = None,
     rq_Param = (\<lambda>p. if p = ''id'' then Some 11 else None), rq_TokenInvalid = False\<rparr>"

definition triager_db :: DB where
  "triager_db = demo_db\<lparr>tb_reasons := seed_reasons, tb_roles := [\<lparr>upr_UserID = 7, upr_ProjectID = 5, upr_Role = 1,
     upr_GrantedBy = None, upr_GrantedAt = 1\<rparr>]\<rparr>"

theorem triage_routes_authorised_witness:
  "\<exists>w' r. finding_route RoleTriager (handleUpdateStatus (Some (1, []))) demo_rq (World_start triager_db 9) = (r, w') \<and>
     tb_events (w_db w') \<noteq> [] \<and> (\<exists>u. rq_User demo_rq = Some u \<and> u_ID u = 7 \<and> \<not> u_MustChangePassword u)"
proof -
  let ?h = "finding_route RoleTriager (handleUpdateStatus (Some (1, [])))"
  obtain r w' where h: "?h demo_rq (World_start triager_db 9) = (r, w')" by fastforce
  have "length (tb_events (w_db (snd (?h demo_rq (World_start triager_db 9))))) = 1" by code_simp
  moreover have "tb_events (w_db (World_start triager_db 9)) = []"
    by (simp add: World_start_def triager_db_def demo_db_def DB_seed_def DB_empty_def)
  ultimately have c: "tb_events (w_db w') \<noteq> []" "w_db w' \<noteq> w_db (World_start triager_db 9)" unfolding h by auto
  from triage_routes_authorised [OF patch_status h c(2)] c(1) h show ?thesis
    by (fastforce simp: demo_rq_def)
qed

text \<open>
  A request whose user may not act in the finding's project is refused: behind the route of a
  finding the handler, whatever it is, does not run when the request has no user, when the user owes a
  password change, or when the user is no administrator and has no role of at least the required level
  in the project the finding is in (or the finding does not exist): the answer is an error and the
  tables are as before, whatever calls to the database fail.
\<close>

theorem finding_route_refuses:
  assumes "rq_User rq = None \<or> (\<exists>u. rq_User rq = Some u \<and> (u_MustChangePassword u \<or> \<not> User_IsAdmin u \<and>
      (\<forall>i f role. rq_Param rq ''id'' = Some i \<and> find (\<lambda>f. f_ID f = i) (tb_findings (w_db w)) = Some f \<longrightarrow>
         role_in (w_db w) (u_ID u) (f_ProjectID f) = Some role \<longrightarrow> role < minRole)))"
    and "finding_route minRole h rq w = (r, w')"
  shows "w_db w' = w_db w \<and> 400 \<le> status_of r"
proof (rule gate.refused [OF finding_gate assms(2)])
  show "\<not> ((auth_pass rq (w_db w) \<and> password_pass rq (w_db w)) \<and> role_pass minRole (finding_project ''id'') rq (w_db w))"
    using assms(1) by (fastforce simp: password_pass_def role_pass_def finding_project_def may_def split: option.splits)
qed

theorem finding_route_refuses_witness:
  "\<exists>r w'. finding_route RoleProjectAdmin handleDeleteFinding demo_rq (World_start triager_db 9) = (r, w') \<and>
     w_db w' = triager_db \<and> 400 \<le> status_of r"
proof -
  let ?w = "World_start triager_db 9"
  obtain r w' where h: "finding_route RoleProjectAdmin handleDeleteFinding demo_rq ?w = (r, w')" by fastforce
  have "role_in (w_db ?w) 7 p = Some role \<Longrightarrow> role < RoleProjectAdmin" for p role
    by (auto simp: role_in_def role_row_def World_start_def triager_db_def split: if_splits)
  then have "w_db w' = w_db ?w \<and> 400 \<le> status_of r"
    by (intro finding_route_refuses [OF _ h]) (auto simp: demo_rq_def User_zero_def User_IsAdmin_def)
  with h show ?thesis by (auto simp: World_start_def)
qed

text \<open>
  The split of a group by access is a partition that keeps the order: every id of the group is
  allowed or reported as forbidden, never both, and an allowed id that exists belongs to a project in
  which the user is at least a triager, unless the user is a global administrator.
\<close>

theorem splitIDs_partition:
  assumes "splitIDsByTriagerAccess (Some u) ids w = (Some (Inr (allowed, forbidden)), w')"
  shows "\<exists>ok. allowed = filter ok ids \<and> set (map fst forbidden) = {i \<in> set ids. \<not> ok i} \<and> distinct (map fst forbidden) \<and>
    (\<forall>f \<in> set (tb_findings (w_db w)). f_ID f \<in> set ids \<and> ok (f_ID f) \<longrightarrow>
       (\<exists>g \<in> set (tb_findings (w_db w)). f_ID g = f_ID f \<and> (User_IsAdmin u \<or>
         (\<exists>role. role_in (w_db w) (u_ID u) (f_ProjectID g) = Some role \<and> RoleTriager \<le> role))))"
proof -
  obtain ok where "allowed = filter ok ids" "forbidden = map (\<lambda>i. (i, ''access denied'')) (remdups (filter (\<lambda>i. \<not> ok i) ids))"
    "\<forall>f \<in> set (tb_findings (w_db w)). f_ID f \<in> set ids \<and> ok (f_ID f) \<longrightarrow>
         (\<exists>g \<in> set (tb_findings (w_db w)). f_ID g = f_ID f \<and> may RoleTriager u (f_ProjectID g) (w_db w))"
    using split_spec(2) [OF assms] by auto
  then show ?thesis by (intro exI [of _ ok]) (auto simp: may_def comp_def)
qed

theorem splitIDs_partition_witness:
  "\<exists>allowed forbidden w' ok. splitIDsByTriagerAccess (rq_User demo_rq) [11, 99] (World_start triager_db 9) =
     (Some (Inr (allowed, forbidden)), w') \<and> allowed = filter ok [11, 99] \<and> allowed = [11] \<and> map fst forbidden = [99]"
proof -
  let ?u = "User_zero\<lparr>u_ID := 7\<rparr>"
  have e: "fst (splitIDsByTriagerAccess (rq_User demo_rq) [11, 99] (World_start triager_db 9)) =
      Some (Inr ([11], [(99, ''access denied'')]))" by code_simp
  obtain w' where s: "splitIDsByTriagerAccess (Some ?u) [11, 99] (World_start triager_db 9) =
      (Some (Inr ([11], [(99, ''access denied'')])), w')"
    using e by (cases "splitIDsByTriagerAccess (Some ?u) [11, 99] (World_start triager_db 9)") (simp add: demo_rq_def)
  from splitIDs_partition [OF s] obtain ok :: "uuid \<Rightarrow> bool" where "[11] = filter ok [11, 99]" by blast
  moreover have "rq_User demo_rq = Some ?u" by (simp add: demo_rq_def)
  ultimately show ?thesis using s by (intro exI [of _ "[11]"] exI [of _ "[(99, ''access denied'')]"] exI [of _ w'] exI [of _ ok]) simp
qed



end
