(* ===== verification/Members.thy ===== *)
theory Members
  imports Gates
begin

text \<open>
  The members of a project (\<open>internal/api/project_members.go\<close>): the rule that a project keeps an
  administrator, which two of the handlers check, and the third does not.
\<close>

definition roles_ok :: "DB \<Rightarrow> bool" where
  "roles_ok d \<longleftrightarrow> distinct (map (\<lambda>r. (upr_UserID r, upr_ProjectID r)) (tb_roles d))"

definition project_admin :: "uuid \<Rightarrow> ProjectRoleRow \<Rightarrow> bool" where
  "project_admin p r \<longleftrightarrow> upr_ProjectID r = p \<and> upr_Role r = RoleProjectAdmin"

definition project_admins :: "uuid \<Rightarrow> DB \<Rightarrow> nat" where
  "project_admins p d = length (filter (project_admin p) (tb_roles d))"

section \<open>Rows of one member\<close>

lemma role_rows_le: "distinct (map (\<lambda>r. (upr_UserID r, upr_ProjectID r)) rows) \<Longrightarrow> length (filter (role_row u p) rows) \<le> 1"
proof (induction rows)
  case (Cons r rows)
  show ?case
  proof (cases "role_row u p r")
    case True
    then have "filter (role_row u p) rows = []"
      using Cons.prems by (auto simp: filter_empty_conv role_row_def image_iff)
    then show ?thesis by simp
  qed (use Cons in simp)
qed simp

lemma role_in_row: "roles_ok d \<Longrightarrow> role_in d u p = Some x \<Longrightarrow> r \<in> set (tb_roles d) \<Longrightarrow> role_row u p r \<Longrightarrow> upr_Role r = x"
proof -
  assume ok: "roles_ok d" and x: "role_in d u p = Some x" and r: "r \<in> set (tb_roles d)" "role_row u p r"
  obtain s where s: "s \<in> set (tb_roles d)" "role_row u p s" "upr_Role s = x"
    using x by (auto simp: role_in_def find_Some_iff intro: nth_mem)
  then have "s = r" using ok r by (auto simp: roles_ok_def distinct_map inj_on_def role_row_def)
  with s show ?thesis by simp
qed

text \<open>Taking the row of one member out costs a project at most one administrator, and none when the member was not.\<close>

lemma remove_member_admins:
  assumes ok: "roles_ok d"
  shows "project_admins q d \<le> length (filter (project_admin q) (filter (\<lambda>r. \<not> role_row u p r) (tb_roles d))) + 1"
    and "role_in d u p = Some x \<Longrightarrow> q \<noteq> p \<or> x \<noteq> RoleProjectAdmin \<Longrightarrow>
      project_admins q d = length (filter (project_admin q) (filter (\<lambda>r. \<not> role_row u p r) (tb_roles d)))"
proof -
  have split: "length (filter (project_admin q) rows) =
      length (filter (project_admin q) (filter (\<lambda>r. \<not> role_row u p r) rows)) + length (filter (\<lambda>r. role_row u p r \<and> project_admin q r) rows)" for rows
    by (induction rows) auto
  have "length (filter (\<lambda>r. role_row u p r \<and> project_admin q r) (tb_roles d)) \<le> length (filter (role_row u p) (tb_roles d))"
    by (metis (no_types, lifting) filter_filter length_filter_le filter_cong)
  then show "project_admins q d \<le> length (filter (project_admin q) (filter (\<lambda>r. \<not> role_row u p r) (tb_roles d))) + 1"
    using role_rows_le [OF ok [unfolded roles_ok_def], of u p] split [of "tb_roles d"] by (simp add: project_admins_def)
  assume "role_in d u p = Some x" "q \<noteq> p \<or> x \<noteq> RoleProjectAdmin"
  then have "filter (\<lambda>r. role_row u p r \<and> project_admin q r) (tb_roles d) = []"
    using role_in_row [OF ok, of u p x] by (auto simp: filter_empty_conv role_row_def project_admin_def)
  then show "project_admins q d = length (filter (project_admin q) (filter (\<lambda>r. \<not> role_row u p r) (tb_roles d)))"
    using split [of "tb_roles d"] by (simp add: project_admins_def)
qed

lemma update_member_admins:
  "length (filter (project_admin q) (filter (\<lambda>r. \<not> role_row u p r) rows)) \<le>
   length (filter (project_admin q) (map (\<lambda>r. if role_row u p r then r\<lparr>upr_Role := role\<rparr> else r) rows))"
  by (induction rows) auto

lemma promote_member_admins:
  "length (filter (project_admin q) rows) \<le>
   length (filter (project_admin q) (map (\<lambda>r. if role_row u p r then r\<lparr>upr_Role := RoleProjectAdmin\<rparr> else r) rows))"
  by (induction rows) (auto simp: project_admin_def)

section \<open>The check\<close>

lemma CountProjectAdmins_Inr: "CountProjectAdmins p w = (Inr n, w') \<Longrightarrow> n = project_admins p (w_db w) \<and> w_db w' = w_db w"
  unfolding CountProjectAdmins_def projectRoleToDB_def project_admins_def project_admin_def
  using db_query_Inr db_query_db by fastforce

lemma last_admin_check_db: "last_admin_check p w = (x, w') \<Longrightarrow> w_db w' = w_db w"
  by (auto simp: last_admin_check_def CountProjectAdmins_def projectRoleToDB_def dest: db_query_db split: prod.splits sum.splits)

lemma last_admin_check_None: "last_admin_check p w = (None, w') \<Longrightarrow> project_admins p (w_db w) \<noteq> 1"
  by (auto simp: last_admin_check_def dest: CountProjectAdmins_Inr split: prod.splits sum.splits if_splits)

section \<open>The handlers\<close>

lemma exec_map_roles:
  "db_exec (\<lambda>d. Inr (a d, d\<lparr>tb_roles := g (tb_roles d)\<rparr>)) w = (r, w') \<Longrightarrow>
   w_db w' = w_db w \<or> w_db w' = (w_db w)\<lparr>tb_roles := g (tb_roles (w_db w))\<rparr>"
  by (cases r) (auto dest: db_exec_Inl db_exec_Inr)

lemma Revoke_role_effect: "Revoke_role u p w = (r, w') \<Longrightarrow> w_db w' = w_db w \<or>
    w_db w' = (w_db w)\<lparr>tb_roles := filter (\<lambda>r. \<not> role_row u p r) (tb_roles (w_db w))\<rparr>"
  unfolding Revoke_role_def by (rule exec_map_roles)

lemma Update_role_effect: "Update_role u p role w = (r, w') \<Longrightarrow> w_db w' = w_db w \<or>
    w_db w' = (w_db w)\<lparr>tb_roles := map (\<lambda>r. if role_row u p r then r\<lparr>upr_Role := role\<rparr> else r) (tb_roles (w_db w))\<rparr>"
  by (auto simp: Update_role_def projectRoleToDB_def dest!: exec_map_roles split: if_splits prod.splits sum.splits)

text \<open>What both handlers do to the roles, from the world in which the guard has run.\<close>

lemma handleRemoveMember_cases:
  assumes "handleRemoveMember rq w = (r, w')" and "w_db w' \<noteq> w_db w"
  obtains p u x where "rq_Param rq ''id'' = Some p" "role_in (w_db w) u p = Some x"
    "x = RoleProjectAdmin \<Longrightarrow> project_admins p (w_db w) \<noteq> 1"
    "w_db w' = (w_db w)\<lparr>tb_roles := filter (\<lambda>r. \<not> role_row u p r) (tb_roles (w_db w))\<rparr>"
proof -
  obtain p u where pu: "rq_Param rq ''id'' = Some p" "rq_Param rq ''user_id'' = Some u"
    using assms by (auto simp: handleRemoveMember_def split: option.splits)
  obtain y w1 where y: "GetRole u p w = (y, w1)" by fastforce
  note y_db = GetRole_db [OF y]
  obtain x where x: "y = Inr (Some x)"
    using assms pu y y_db by (auto simp: handleRemoveMember_def split: sum.splits option.splits)
  obtain g w2 where g: "(if x = RoleProjectAdmin then last_admin_check p w1 else (None, w1)) = (g, w2)" by fastforce
  have g_db: "w_db w2 = w_db w1" using g last_admin_check_db by (auto split: if_splits)
  have gn: "g = None" using assms pu y x g g_db y_db by (cases g) (auto simp: handleRemoveMember_def split: if_splits)
  obtain z w3 where z: "Revoke_role u p w2 = (z, w3)" by fastforce
  have "w_db w' = w_db w3" using assms(1) pu y x g gn z by (auto simp: handleRemoveMember_def split: sum.splits if_splits)
  then have "w_db w' = (w_db w)\<lparr>tb_roles := filter (\<lambda>r. \<not> role_row u p r) (tb_roles (w_db w))\<rparr>"
    using Revoke_role_effect [OF z] assms(2) g_db y_db by auto
  moreover have "x = RoleProjectAdmin \<Longrightarrow> project_admins p (w_db w) \<noteq> 1"
    using g gn y_db last_admin_check_None [of p w1 w2] by auto
  moreover have "role_in (w_db w) u p = Some x" using GetRole_Inr y x by metis
  ultimately show ?thesis using that pu(1) by blast
qed

lemma handleUpdateMember_cases:
  assumes "handleUpdateMember (Some role) rq w = (r, w')" and "w_db w' \<noteq> w_db w"
  obtains p u x where "rq_Param rq ''id'' = Some p" "role_in (w_db w) u p = Some x"
    "x = RoleProjectAdmin \<Longrightarrow> role < RoleProjectAdmin \<Longrightarrow> project_admins p (w_db w) \<noteq> 1"
    "w_db w' = (w_db w)\<lparr>tb_roles := map (\<lambda>r. if role_row u p r then r\<lparr>upr_Role := role\<rparr> else r) (tb_roles (w_db w))\<rparr>"
proof -
  obtain p u where pu: "rq_Param rq ''id'' = Some p" "rq_Param rq ''user_id'' = Some u"
    using assms by (auto simp: handleUpdateMember_def split: option.splits)
  obtain y w1 where y: "GetRole u p w = (y, w1)" by fastforce
  note y_db = GetRole_db [OF y]
  obtain x where x: "y = Inr (Some x)"
    using assms pu y y_db by (auto simp: handleUpdateMember_def split: sum.splits option.splits)
  obtain g w2 where g: "(if x = RoleProjectAdmin \<and> role < RoleProjectAdmin then last_admin_check p w1 else (None, w1)) = (g, w2)"
    by fastforce
  have g_db: "w_db w2 = w_db w1" using g last_admin_check_db by (auto split: if_splits)
  have gn: "g = None" using assms pu y x g g_db y_db by (cases g) (auto simp: handleUpdateMember_def split: if_splits)
  obtain z w3 where z: "Update_role u p role w2 = (z, w3)" by fastforce
  have "w_db w' = w_db w3" using assms(1) pu y x g gn z by (auto simp: handleUpdateMember_def split: sum.splits if_splits)
  then have "w_db w' = (w_db w)\<lparr>tb_roles := map (\<lambda>r. if role_row u p r then r\<lparr>upr_Role := role\<rparr> else r) (tb_roles (w_db w))\<rparr>"
    using Update_role_effect [OF z] assms(2) g_db y_db by auto
  moreover have "x = RoleProjectAdmin \<Longrightarrow> role < RoleProjectAdmin \<Longrightarrow> project_admins p (w_db w) \<noteq> 1"
    using g gn y_db last_admin_check_None [of p w1 w2] by auto
  moreover have "role_in (w_db w) u p = Some x" using GetRole_Inr y x by metis
  ultimately show ?thesis using that pu(1) by blast
qed

text \<open>
  C26. A project does not lose its last administrator through the handlers that update and remove a
  member: whatever the request and whatever calls to the database fail, a project that has an
  administrator before the request has one after it, as long as the new role is one of the three named
  ones. (One request at a time: the check and the change are separate statements.)
\<close>

theorem members_keep_project_admin:
  assumes "h = handleRemoveMember \<or> (\<exists>role. h = handleUpdateMember (Some role) \<and> role \<le> RoleProjectAdmin)"
    and "roles_ok (w_db w)" and "0 < project_admins q (w_db w)" and "members_route h rq w = (r, w')"
  shows "0 < project_admins q (w_db w')"
proof (cases "w_db w' = w_db w")
  case False
  from members_gates.both.changed_passed [OF assms(4) [unfolded members_route_def] this]
  obtain w1 where w1: "w_db w1 = w_db w" "h rq w1 = (r, w')" by blast
  let ?rest = "\<lambda>u p. length (filter (project_admin q) (filter (\<lambda>r. \<not> role_row u p r) (tb_roles (w_db w))))"
  have rest: "0 < ?rest u p" if "role_in (w_db w) u p = Some x" "x = RoleProjectAdmin \<Longrightarrow> project_admins p (w_db w) \<noteq> 1" for u p x
    using remove_member_admins [OF assms(2), where q = q and u = u and p = p] that assms(3) by (cases "q \<noteq> p \<or> x \<noteq> RoleProjectAdmin") auto
  from assms(1) show ?thesis
  proof (elim disjE exE conjE)
    assume h: "h = handleRemoveMember"
    have "handleRemoveMember rq w1 = (r, w')" "w_db w' \<noteq> w_db w1" using w1 h False by auto
    from handleRemoveMember_cases [OF this] obtain p u x where *: "role_in (w_db w) u p = Some x"
      "x = RoleProjectAdmin \<Longrightarrow> project_admins p (w_db w) \<noteq> 1"
      "w_db w' = (w_db w)\<lparr>tb_roles := filter (\<lambda>r. \<not> role_row u p r) (tb_roles (w_db w))\<rparr>" using w1(1) by metis
    then show ?thesis using rest [OF *(1,2)] by (simp add: project_admins_def)
  next
    fix role assume h: "h = handleUpdateMember (Some role)" and le: "role \<le> RoleProjectAdmin"
    have "handleUpdateMember (Some role) rq w1 = (r, w')" "w_db w' \<noteq> w_db w1" using w1 h False by auto
    from handleUpdateMember_cases [OF this, unfolded w1(1)] obtain p u x where *: "role_in (w_db w) u p = Some x"
      "x = RoleProjectAdmin \<Longrightarrow> role < RoleProjectAdmin \<Longrightarrow> project_admins p (w_db w) \<noteq> 1"
      "w_db w' = (w_db w)\<lparr>tb_roles := map (\<lambda>r. if role_row u p r then r\<lparr>upr_Role := role\<rparr> else r) (tb_roles (w_db w))\<rparr>"
      by blast
    have w': "tb_roles (w_db w') = map (\<lambda>r. if role_row u p r then r\<lparr>upr_Role := role\<rparr> else r) (tb_roles (w_db w))"
      using *(3) by simp
    show ?thesis
    proof (cases "role = RoleProjectAdmin")
      case True
      show ?thesis using promote_member_admins [of q "tb_roles (w_db w)" u p] assms(3)
        unfolding project_admins_def w' True by linarith
    next
      case False
      then have "0 < ?rest u p" using le rest [OF *(1)] *(2) by simp
      then show ?thesis using update_member_admins [of q u p "tb_roles (w_db w)" role]
        unfolding project_admins_def w' by linarith
    qed
  qed
qed (use assms(3) in simp)

definition members_db :: DB where
  "members_db = DB_empty\<lparr>tb_users := [User_zero\<lparr>u_ID := 7, u_Email := ''a''\<rparr>, User_zero\<lparr>u_ID := 8, u_Email := ''b''\<rparr>], tb_projects := [(5, ''A'')],
     tb_roles := [\<lparr>upr_UserID = 7, upr_ProjectID = 5, upr_Role = 2, upr_GrantedBy = None, upr_GrantedAt = 1\<rparr>,
       \<lparr>upr_UserID = 8, upr_ProjectID = 5, upr_Role = 1, upr_GrantedBy = None, upr_GrantedAt = 1\<rparr>]\<rparr>"

definition members_rq :: Request where
  "members_rq = \<lparr>rq_User = Some (User_zero\<lparr>u_ID := 7\<rparr>), rq_Token = None, rq_Session = None,
     rq_Param = (\<lambda>p. if p = ''id'' then Some 5 else if p = ''user_id'' then Some 7 else None), rq_TokenInvalid = False\<rparr>"

theorem members_keep_project_admin_witness:
  "0 < project_admins 5 (w_db (snd (members_route handleRemoveMember members_rq (World_start members_db 9))))"
proof -
  let ?w = "World_start members_db 9"
  obtain r w' where h: "members_route handleRemoveMember members_rq ?w = (r, w')" by fastforce
  have "roles_ok (w_db ?w)" "0 < project_admins 5 (w_db ?w)" by code_simp+
  from members_keep_project_admin [OF _ this h] h show ?thesis by simp
qed

text \<open>
  Adding a member is the exception: the upsert behind it overwrites the role of someone who is a
  member already, and nothing checks that an administrator remains. The last administrator of a
  project can demote himself by adding himself as a viewer, and the project is left without any;
  and updating his role to a number above the named roles does the same.
\<close>

theorem add_member_demotes_last_admin:
  "project_admins 5 members_db = 1 \<and>
   fst (members_route (handleAddMember (Some (7, RoleViewer))) members_rq (World_start members_db 9)) = respondData ''ok'' \<and>
   project_admins 5 (w_db (snd (members_route (handleAddMember (Some (7, RoleViewer))) members_rq (World_start members_db 9)))) = 0 \<and>
   project_admins 5 (w_db (snd (members_route (handleUpdateMember (Some 3)) members_rq (World_start members_db 9)))) = 0"
  by code_simp

end
