(* ===== verification/Encoding.thy ===== *)
theory Encoding
  imports Prelude
begin

text \<open>
  The encodings of \<open>encoding/base32\<close>, \<open>encoding/base64\<close> and \<open>encoding/hex\<close> that the
  backend uses, over the bits of the bytes: five, six and four bits per letter of an alphabet, the
  last group filled up with zero bits. The decoders skip line breaks, refuse a letter outside the
  alphabet, and drop the bits that do not fill a byte.
\<close>

section \<open>Bits\<close>

fun char_bits :: "char \<Rightarrow> bool list" where
  "char_bits (Char b0 b1 b2 b3 b4 b5 b6 b7) = [b7, b6, b5, b4, b3, b2, b1, b0]"

fun bits_char :: "bool list \<Rightarrow> char" where
  "bits_char [b7, b6, b5, b4, b3, b2, b1, b0] = Char b0 b1 b2 b3 b4 b5 b6 b7"
| "bits_char _ = CHR 0x00"

definition bits_nat :: "bool list \<Rightarrow> nat" where
  "bits_nat bs = foldl (\<lambda>n b. 2 * n + (if b then 1 else 0)) 0 bs"

fun nat_bits :: "nat \<Rightarrow> nat \<Rightarrow> bool list" where
  "nat_bits 0 n = []"
| "nat_bits (Suc k) n = nat_bits k (n div 2) @ [odd n]"

function bit_groups :: "nat \<Rightarrow> bool list \<Rightarrow> bool list list" where
  "bit_groups k bs =
     (if bs = [] \<or> k = 0 then []
      else (take k bs @ replicate (k - length bs) False) # bit_groups k (drop k bs))"
  by pat_completeness auto
termination by (relation "measure (\<lambda>(k, bs). length bs)") auto

declare bit_groups.simps [simp del]

function full_bytes :: "bool list \<Rightarrow> string" where
  "full_bytes bs = (if length bs < 8 then [] else bits_char (take 8 bs) # full_bytes (drop 8 bs))"
  by pat_completeness auto
termination by (relation "measure length") auto

declare full_bytes.simps [simp del]

section \<open>Encoders and decoders\<close>

definition base_encode :: "string \<Rightarrow> nat \<Rightarrow> string \<Rightarrow> string" where
  "base_encode alphabet k s = map (\<lambda>g. alphabet ! bits_nat g) (bit_groups k (concat (map char_bits s)))"

definition letter_index :: "string \<Rightarrow> char \<Rightarrow> nat" where
  "letter_index alphabet c = length (takeWhile (\<lambda>x. x \<noteq> c) alphabet)"

definition without_newlines :: "string \<Rightarrow> string" where
  "without_newlines s = filter (\<lambda>c. c \<noteq> CHR 0x0A \<and> c \<noteq> CHR 0x0D) s"

definition base_decode :: "string \<Rightarrow> nat \<Rightarrow> string \<Rightarrow> string option" where
  "base_decode alphabet k s =
     (let t = without_newlines s
      in if list_all (\<lambda>c. c \<in> set alphabet) t
         then Some (full_bytes (concat (map (\<lambda>c. nat_bits k (letter_index alphabet c)) t))) else None)"

definition base32_alphabet :: string where
  "base32_alphabet = ''ABCDEFGHIJKLMNOPQRSTUVWXYZ234567''"

definition base64url_alphabet :: string where
  "base64url_alphabet = ''ABCDEFGHIJKLMNOPQRSTUVWXYZabcdefghijklmnopqrstuvwxyz0123456789-_''"

definition hex_alphabet :: string where
  "hex_alphabet = ''0123456789abcdef''"

text \<open>\<open>base32.StdEncoding.WithPadding(NoPadding)\<close> accepts every number of letters.\<close>

definition base32_EncodeToString :: "string \<Rightarrow> string" where
  "base32_EncodeToString = base_encode base32_alphabet 5"

definition base32_DecodeString :: "string \<Rightarrow> string option" where
  "base32_DecodeString = base_decode base32_alphabet 5"

text \<open>\<open>base64.RawURLEncoding\<close> refuses a single letter in the last group of four.\<close>

definition base64_EncodeToString :: "string \<Rightarrow> string" where
  "base64_EncodeToString = base_encode base64url_alphabet 6"

definition base64_DecodeString :: "string \<Rightarrow> string option" where
  "base64_DecodeString s =
     (if length (without_newlines s) mod 4 = 1 then None else base_decode base64url_alphabet 6 s)"

definition hex_EncodeToString :: "string \<Rightarrow> string" where
  "hex_EncodeToString = base_encode hex_alphabet 4"

section \<open>Laws\<close>

lemma char_bits_char [simp]: "bits_char (char_bits c) = c"
  by (cases c) simp

lemma length_char_bits [simp]: "length (char_bits c) = 8"
  by (cases c) simp

lemma bits_nat_snoc [simp]: "bits_nat (bs @ [b]) = 2 * bits_nat bs + (if b then 1 else 0)"
  by (simp add: bits_nat_def)

lemma nat_bits_nat [simp]: "nat_bits (length bs) (bits_nat bs) = bs"
  by (induction bs rule: rev_induct) (auto simp: bits_nat_def)

lemma bits_nat_less: "bits_nat bs < 2 ^ length bs"
  by (induction bs rule: rev_induct) (auto simp: bits_nat_def)

lemma bit_groups_length: "g \<in> set (bit_groups k bs) \<Longrightarrow> length g = k"
proof (induction k bs rule: bit_groups.induct)
  case (1 k bs)
  then show ?case by (subst (asm) (2) bit_groups.simps) (auto split: if_splits)
qed

lemma concat_bit_groups: "0 < k \<Longrightarrow> \<exists>p < k. concat (bit_groups k bs) = bs @ replicate p False"
proof (induction k bs rule: bit_groups.induct)
  case (1 k bs)
  show ?case
  proof (cases "length bs \<le> k")
    case True
    then have "bit_groups k bs = (if bs = [] then [] else [bs @ replicate (k - length bs) False])"
      using 1(2) by (simp add: bit_groups.simps [of k bs] bit_groups.simps [of k "[]"])
    then show ?thesis using 1(2) by (cases "bs = []") (auto intro!: exI [of _ "k - length bs"])
  next
    case False
    then have ne: "\<not> (bs = [] \<or> k = 0)" using 1(2) by auto
    from 1(1) [OF ne 1(2)] obtain p where "p < k" "concat (bit_groups k (drop k bs)) = drop k bs @ replicate p False" by blast
    then show ?thesis using ne False by (subst bit_groups.simps) (auto intro!: exI [of _ p] simp: append_assoc [symmetric] simp del: append_assoc)
  qed
qed

lemma full_bytes_bits: "p < 8 \<Longrightarrow> full_bytes (concat (map char_bits s) @ replicate p False) = s"
  by (induction s) (simp_all add: full_bytes.simps)

lemma length_bit_groups: "0 < k \<Longrightarrow> length (bit_groups k bs) = (length bs + k - 1) div k"
proof (induction k bs rule: bit_groups.induct)
  case (1 k bs)
  show ?case
  proof (cases "bs = []")
    case False
    then have ne: "\<not> (bs = [] \<or> k = 0)" using 1(2) by simp
    have "length (bit_groups k bs) = Suc (length (bit_groups k (drop k bs)))"
      using ne by (subst bit_groups.simps) simp
    then have "length (bit_groups k bs) = Suc ((length (drop k bs) + k - 1) div k)"
      by (simp only: 1(1) [OF ne 1(2)])
    also have "\<dots> = (length bs + k - 1) div k"
    proof (cases "k \<le> length bs")
      case True
      then have e: "length bs + k - 1 = (length (drop k bs) + k - 1) + k" using 1(2) by simp
      show ?thesis unfolding e using 1(2) by (subst div_add_self2) simp_all
    next
      case f: False
      then have e: "length bs + k - 1 = (length bs - 1) + k" using False by (cases bs) auto
      have "(length bs - 1) div k = 0" "length (drop k bs) = 0" using f by simp_all
      then show ?thesis unfolding e using 1(2) by (subst div_add_self2) simp_all
    qed
    finally show ?thesis .
  qed (use 1(2) in \<open>simp add: bit_groups.simps\<close>)
qed

lemma letter_index_nth: "distinct al \<Longrightarrow> i < length al \<Longrightarrow> letter_index al (al ! i) = i"
proof -
  assume d: "distinct al" and i: "i < length al"
  have "takeWhile (\<lambda>x. x \<noteq> al ! i) al = take i al"
    using d i by (intro takeWhile_eq_take_P_nth) (auto simp: nth_eq_iff_index_eq)
  then show ?thesis using i by (simp add: letter_index_def)
qed

text \<open>An alphabet of \<open>2 ^ k\<close> different letters without line breaks decodes what it encodes.\<close>

locale alphabet =
  fixes al :: string and k :: nat
  assumes distinct_al: "distinct al" and length_al: "length al = 2 ^ k"
    and k: "0 < k" "k \<le> 8" and no_newline: "CHR 0x0A \<notin> set al" "CHR 0x0D \<notin> set al"

context alphabet
begin

lemma encode_letters: "set (base_encode al k s) \<subseteq> set al"
  using bit_groups_length bits_nat_less length_al by (fastforce simp: base_encode_def)

lemma encode_no_newlines [simp]: "without_newlines (base_encode al k s) = base_encode al k s"
  using encode_letters no_newline by (auto simp: without_newlines_def filter_id_conv)

lemma length_encode: "length (base_encode al k s) = (8 * length s + k - 1) div k"
proof -
  have "length (concat (map char_bits s)) = 8 * length s" by (induction s) simp_all
  then show ?thesis using k(1) by (simp add: base_encode_def length_bit_groups)
qed

lemma decode_encode: "base_decode al k (base_encode al k s) = Some s"
proof -
  let ?g = "bit_groups k (concat (map char_bits s))"
  have "map (\<lambda>c. nat_bits k (letter_index al c)) (base_encode al k s) = ?g"
    using bit_groups_length [of _ k] bits_nat_less length_al
    by (auto simp: base_encode_def intro!: map_idI) (metis distinct_al letter_index_nth nat_bits_nat)
  moreover obtain p where "p < k" "concat ?g = concat (map char_bits s) @ replicate p False"
    using concat_bit_groups [OF k(1)] by blast
  ultimately show ?thesis
    using encode_letters full_bytes_bits [of p s] k by (auto simp: base_decode_def Let_def list_all_iff)
qed

end

interpretation base32: alphabet base32_alphabet 5
  by unfold_locales (simp_all add: base32_alphabet_def)

interpretation base64url: alphabet base64url_alphabet 6
  by unfold_locales (simp_all add: base64url_alphabet_def)

interpretation hexadecimal: alphabet hex_alphabet 4
  by unfold_locales (simp_all add: hex_alphabet_def)

lemma base32_roundtrip: "base32_DecodeString (base32_EncodeToString s) = Some s"
  unfolding base32_DecodeString_def base32_EncodeToString_def by (rule base32.decode_encode)

lemma base64_roundtrip: "base64_DecodeString (base64_EncodeToString s) = Some s"
proof -
  have "(8 * length s + 5) div 6 mod 4 \<noteq> 1" by presburger
  then show ?thesis
    using base64url.length_encode [of s] base64url.decode_encode [of s]
    by (simp add: base64_DecodeString_def base64_EncodeToString_def add.commute)
qed

end
