(* ===== verification/Auth.thy ===== *)
theory Auth
  imports TriageApi Encoding
begin

text \<open>
  \<open>internal/auth\<close> (API tokens, session tokens, the service), \<open>internal/api/session_middleware.go\<close>,
  \<open>internal/api/auth.go\<close>, \<open>internal/api/ratelimit.go\<close> and \<open>internal/api/api_tokens.go\<close>.

  The hash functions are parameters: SHA-256, and the argon2id package with its \<open>Verify\<close> and
  \<open>CreateHash\<close>; so are \<open>net.ParseIP\<close> and the bytes \<open>rand.Read\<close> delivers (\<open>None\<close> when it fails).
\<close>

record Crypto =
  cy_SHA256 :: "string \<Rightarrow> string"
  cy_Verify :: "string \<Rightarrow> string \<Rightarrow> err + bool"
  cy_Hash :: "string \<Rightarrow> err + string"
  cy_ParseIP :: "string \<Rightarrow> string option"

section \<open>API tokens\<close>

definition patPrefixLiteral :: string where "patPrefixLiteral = ''rl_pat_''"
definition patPrefixSize :: nat where "patPrefixSize = 8"
definition patSecretBytes :: nat where "patSecretBytes = 32"

definition HashPATSecret :: "Crypto \<Rightarrow> string \<Rightarrow> string" where
  "HashPATSecret cy secret = hex_EncodeToString (cy_SHA256 cy secret)"

text \<open>The full token, its prefix and the hash of its secret.\<close>

definition GeneratePAT :: "Crypto \<Rightarrow> string option \<Rightarrow> string option \<Rightarrow> string + string \<times> string \<times> string" where
  "GeneratePAT cy prefixRaw secretRaw =
     (case prefixRaw of
        None \<Rightarrow> Inl ''generate prefix''
      | Some p \<Rightarrow>
          let prefix = strings_ToLower (base32_EncodeToString p) in
          if length prefix \<noteq> patPrefixSize then Inl ''unexpected generated prefix size''
          else (case secretRaw of
             None \<Rightarrow> Inl ''generate secret''
           | Some sr \<Rightarrow>
               let secret = base64_EncodeToString sr
               in Inr (patPrefixLiteral @ prefix @ ''_'' @ secret, prefix, HashPATSecret cy secret)))"

definition ParsePAT :: "string \<Rightarrow> string + string \<times> string" where
  "ParsePAT token =
     (let value = strings_TrimSpace token in
      if \<not> strings_HasPrefix value patPrefixLiteral then Inl ''invalid token prefix''
      else case strings_SplitN value (CHR ''_'') 4 of
        [_, _, p, s] \<Rightarrow>
          let prefix = strings_TrimSpace p; secret = strings_TrimSpace s in
          if length prefix \<noteq> patPrefixSize then Inl ''invalid token prefix length''
          else if base32_DecodeString (strings_ToUpper prefix) = None then Inl ''invalid token prefix encoding''
          else if base64_DecodeString secret = None then Inl ''invalid token secret encoding''
          else if length secret < 32 then Inl ''invalid token secret size''
          else Inr (prefix, secret)
      | _ \<Rightarrow> Inl ''invalid token format'')"

section \<open>Session tokens and the service\<close>

definition GenerateToken :: "string option \<Rightarrow> err + string" where
  "GenerateToken rnd = (case rnd of None \<Rightarrow> Inl (Err ''rand'') | Some b \<Rightarrow> Inr (hex_EncodeToString b))"

definition HashToken :: "Crypto \<Rightarrow> string \<Rightarrow> string" where
  "HashToken cy token = cy_SHA256 cy token"

definition ErrInvalidCredentials :: err where "ErrInvalidCredentials = Err ''invalid credentials''"

definition new_session :: "Crypto \<Rightarrow> time \<Rightarrow> uuid \<Rightarrow> uuid \<Rightarrow> string \<Rightarrow> string \<Rightarrow> string \<Rightarrow> time \<Rightarrow> Session" where
  "new_session cy dur sid userID rawToken userAgent ip now =
     \<lparr>s_ID = sid, s_UserID = userID, s_TokenHash = HashToken cy rawToken, s_ExpiresAt = now + dur, s_RevokedAt = None,
      s_UserAgent = userAgent, s_IP = cy_ParseIP cy ip, s_CreatedAt = now, s_LastUsedAt = now\<rparr>"

text \<open>A fresh session for a user, and its token.\<close>

definition CreateSessionForUser ::
  "Crypto \<Rightarrow> time \<Rightarrow> string option \<Rightarrow> uuid \<Rightarrow> string \<Rightarrow> string \<Rightarrow> string op" where
  "CreateSessionForUser cy dur rnd userID userAgent ip w =
     (case GenerateToken rnd of
        Inl e \<Rightarrow> (Inl e, w)
      | Inr rawToken \<Rightarrow> (case uuid_New w of (sid, w) \<Rightarrow>
          (case SessionsRepo_Create (new_session cy dur sid userID rawToken userAgent ip (w_now w)) w of
             (Inl e, w) \<Rightarrow> (Inl e, w)
           | (Inr _, w) \<Rightarrow> (Inr rawToken, w))))"

definition Login ::
  "Crypto \<Rightarrow> time \<Rightarrow> string option \<Rightarrow> string \<Rightarrow> string \<Rightarrow> string \<Rightarrow> string \<Rightarrow> (User \<times> string) op" where
  "Login cy dur rnd email password userAgent ip w =
     (case UsersRepo_GetByEmail (strings_ToLower (strings_TrimSpace email)) w of
        (Inl e, w) \<Rightarrow> (Inl (if e = ErrNoRows then ErrInvalidCredentials else e), w)
      | (Inr user, w) \<Rightarrow>
          (case cy_Verify cy password (u_PasswordHash user) of
             Inl e \<Rightarrow> (Inl e, w)
           | Inr ok \<Rightarrow>
               if \<not> ok \<or> \<not> u_IsActive user then (Inl ErrInvalidCredentials, w)
               else (case CreateSessionForUser cy dur rnd (u_ID user) userAgent ip w of
                  (Inl e, w) \<Rightarrow> (Inl e, w)
                | (Inr rawToken, w) \<Rightarrow>
                    (case UpdateLastLogin (u_ID user) w of
                       (Inl e, w) \<Rightarrow> (Inl e, w)
                     | (Inr _, w) \<Rightarrow> (Inr (user\<lparr>u_LastLoginAt := Some (w_now w)\<rparr>, rawToken), w)))))"

definition Logout :: "Crypto \<Rightarrow> string \<Rightarrow> unit op" where
  "Logout cy rawToken = SessionsRepo_Revoke (HashToken cy rawToken)"

text \<open>A failure to record the use of the session is only logged.\<close>

definition ValidateToken :: "Crypto \<Rightarrow> string \<Rightarrow> (User \<times> Session) op" where
  "ValidateToken cy rawToken w =
     (case GetByTokenHashWithUser (HashToken cy rawToken) w of
        (Inl e, w) \<Rightarrow> (Inl (if e = ErrNoRows then ErrInvalidCredentials else e), w)
      | (Inr (session, user), w) \<Rightarrow>
          (case UpdateLastUsed (s_ID session) w of
             (Inl e, w) \<Rightarrow> (Inr (user, session), w)
           | (Inr _, w) \<Rightarrow> (Inr (user, session\<lparr>s_LastUsedAt := w_now w\<rparr>), w)))"

definition Refresh :: "Crypto \<Rightarrow> time \<Rightarrow> string \<Rightarrow> (User \<times> Session) op" where
  "Refresh cy dur rawToken w =
     (case ValidateToken cy rawToken w of
        (Inl e, w) \<Rightarrow> (Inl e, w)
      | (Inr (user, session), w) \<Rightarrow>
          if s_ExpiresAt session - w_now w < 24 * time_Hour
          then (case UpdateExpiresAt (s_ID session) (w_now w + dur) w of
             (Inl e, w) \<Rightarrow> (Inl e, w)
           | (Inr _, w) \<Rightarrow> (Inr (user, session\<lparr>s_ExpiresAt := w_now w + dur\<rparr>), w))
          else (Inr (user, session), w))"

section \<open>The request\<close>

text \<open>
  What the handlers and middlewares read of the HTTP request; a missing header, URL parameter or route is
  the empty string.
\<close>

record HttpRequest =
  h_Cookie :: "string option"
  h_Authorization :: string
  h_ForwardedFor :: string
  h_RemoteAddr :: string
  h_UserAgent :: string
  h_Method :: string
  h_Path :: string
  h_FullPath :: string
  h_RequestID :: string
  h_TraceID :: string
  h_RoutePattern :: string
  h_URLParam :: "string \<Rightarrow> string"

definition readBearerToken :: "HttpRequest \<Rightarrow> string option" where
  "readBearerToken r =
     (let authHeader = strings_TrimSpace (h_Authorization r) in
      if authHeader = [] then None
      else case strings_SplitN authHeader (CHR '' '') 2 of
        [scheme, rest] \<Rightarrow>
          if \<not> strings_EqualFold scheme ''Bearer'' then None
          else let token = strings_TrimSpace rest in if token = [] then None else Some token
      | _ \<Rightarrow> None)"

definition readAuthToken :: "HttpRequest \<Rightarrow> string option" where
  "readAuthToken r =
     (case h_Cookie r of
        Some c \<Rightarrow> let token = strings_TrimSpace c in if token \<noteq> [] then Some token else readBearerToken r
      | None \<Rightarrow> readBearerToken r)"

text \<open>The host of \<open>net.SplitHostPort\<close>.\<close>

definition SplitHostPort_host :: "string \<Rightarrow> string option" where
  "SplitHostPort_host hp =
     (case strings_LastIndex hp (CHR '':'') of
        None \<Rightarrow> None
      | Some i \<Rightarrow>
          if hd hp = CHR ''['' then
            (case strings_Index hp '']'' of
               None \<Rightarrow> None
             | Some e \<Rightarrow>
                 if e + 1 \<noteq> i then None
                 else if CHR ''['' \<in> set (drop 1 hp) \<or> CHR '']'' \<in> set (drop (e + 1) hp) then None
                 else Some (take (e - 1) (drop 1 hp)))
          else if CHR '':'' \<in> set (take i hp) \<or> CHR ''['' \<in> set hp \<or> CHR '']'' \<in> set hp then None
          else Some (take i hp))"

definition extractIP :: "bool \<Rightarrow> HttpRequest \<Rightarrow> string" where
  "extractIP trustProxy r =
     (let direct = (case SplitHostPort_host (strings_TrimSpace (h_RemoteAddr r)) of
            Some host \<Rightarrow> if host \<noteq> [] then host else strings_TrimSpace (h_RemoteAddr r)
          | None \<Rightarrow> strings_TrimSpace (h_RemoteAddr r));
          xff = strings_TrimSpace (h_ForwardedFor r);
          candidate = strings_TrimSpace (hd (strings_Split xff (CHR '','')))
      in if trustProxy \<and> xff \<noteq> [] \<and> candidate \<noteq> [] then candidate else direct)"

section \<open>Loading the session\<close>

text \<open>
  The middleware puts the token or the user and session into the request it passes on. The goroutine
  it starts for a token runs \<open>TouchLastUsed\<close> on its own and is not part of the request.
\<close>

definition LoadSession :: "Crypto \<Rightarrow> HttpRequest \<Rightarrow> handler \<Rightarrow> handler" where
  "LoadSession cy r next rq w =
     (let bad = respondError 401 ''UNAUTHORIZED'' ''invalid api token'';
          session = (case readAuthToken r of
            None \<Rightarrow> next rq w
          | Some rawToken \<Rightarrow>
              (case ValidateToken cy rawToken w of
                 (Inl e, w) \<Rightarrow> next (if e = ErrInvalidCredentials then rq\<lparr>rq_TokenInvalid := True\<rparr> else rq) w
               | (Inr (user, s), w) \<Rightarrow> next (rq\<lparr>rq_User := Some user, rq_Session := Some s\<rparr>) w))
      in case readBearerToken r of
        None \<Rightarrow> session
      | Some bearer \<Rightarrow>
          if \<not> strings_HasPrefix (strings_TrimSpace bearer) ''rl_pat_'' then session
          else (case ParsePAT bearer of
            Inl _ \<Rightarrow> (bad, w)
          | Inr (prefix, secret) \<Rightarrow>
              (case GetByPrefix prefix w of
                 (Inl e, w) \<Rightarrow> (bad, w)
               | (Inr t, w) \<Rightarrow>
                   if HashPATSecret cy secret \<noteq> t_TokenHash t then (bad, w)
                   else next (rq\<lparr>rq_Token := Some t\<rparr>) w)))"

section \<open>Handlers of sessions\<close>

text \<open>A response together with the value of the cookie it sets; the empty value deletes it.\<close>

type_synonym cookie_response = "response \<times> string option"

definition unauthorized :: cookie_response where
  "unauthorized = (respondError 401 ''UNAUTHORIZED'' ''unauthorized'', None)"

definition internal_error :: cookie_response where
  "internal_error = (respondError 500 ''INTERNAL_ERROR'' ''internal server error'', None)"

definition handleLogout :: "Crypto \<Rightarrow> HttpRequest \<Rightarrow> World \<Rightarrow> cookie_response \<times> World" where
  "handleLogout cy r w =
     (case readAuthToken r of
        None \<Rightarrow> ((respondData ''logged out'', Some []), w)
      | Some rawToken \<Rightarrow>
          (case Logout cy rawToken w of
             (Inl e, w) \<Rightarrow> (internal_error, w)
           | (Inr _, w) \<Rightarrow> ((respondData ''logged out'', Some []), w)))"

definition handleRefresh :: "Crypto \<Rightarrow> time \<Rightarrow> HttpRequest \<Rightarrow> World \<Rightarrow> cookie_response \<times> World" where
  "handleRefresh cy dur r w =
     (case readAuthToken r of
        None \<Rightarrow> (unauthorized, w)
      | Some rawToken \<Rightarrow>
          (case Refresh cy dur rawToken w of
             (Inl e, w) \<Rightarrow> (if e = ErrInvalidCredentials then unauthorized else internal_error, w)
           | (Inr (user, _), w) \<Rightarrow> ((Response 200 (UserData user), None), w)))"

text \<open>\<open>len([]rune(s))\<close> of valid UTF-8: the bytes that do not continue a rune.\<close>

definition rune_count :: "string \<Rightarrow> nat" where
  "rune_count s = length (filter (\<lambda>c. \<not> (128 \<le> (of_char c :: nat) \<and> (of_char c :: nat) < 192)) s)"

definition handleChangePassword ::
  "Crypto \<Rightarrow> time \<Rightarrow> bool \<Rightarrow> string option \<Rightarrow> (string \<times> string) option \<Rightarrow> HttpRequest \<Rightarrow> Request \<Rightarrow> World \<Rightarrow> cookie_response \<times> World" where
  "handleChangePassword cy dur trustProxy rnd req r rq w =
     (case rq_User rq of
        None \<Rightarrow> ((respondError 401 ''AUTHENTICATION_REQUIRED'' ''authentication required'', None), w)
      | Some user \<Rightarrow> (case req of
          None \<Rightarrow> ((bad_body, None), w)
        | Some (current, new) \<Rightarrow>
            if strings_TrimSpace new = []
            then ((respondError 400 ''VALIDATION_ERROR'' ''new_password is required'', None), w)
            else if rune_count (strings_TrimSpace new) < 8
            then ((respondError 400 ''VALIDATION_ERROR'' ''new password must be at least 8 characters'', None), w)
            else if cy_Verify cy current (u_PasswordHash user) \<noteq> Inr True
            then ((respondError 403 ''INVALID_CURRENT_PASSWORD'' [], None), w)
            else case cy_Hash cy new of
              Inl e \<Rightarrow> ((respondError 500 ''INTERNAL_ERROR'' ''failed to hash password'', None), w)
            | Inr hash \<Rightarrow>
                (case UsersRepo_Update (u_ID user) [SetPasswordHash hash] w of
                   (Inl e, w) \<Rightarrow> ((respondError 500 ''INTERNAL_ERROR'' ''failed to update password'', None), w)
                 | (Inr _, w) \<Rightarrow>
                     (case SetMustChangePassword (u_ID user) False [] w of
                        (Inl e, w) \<Rightarrow> ((respondError 500 ''INTERNAL_ERROR'' ''failed to clear password change requirement'', None), w)
                      | (Inr _, w) \<Rightarrow>
                          (case RevokeAllForUserWithReason (u_ID user) ''password_changed'' w of
                             (Inl e, w) \<Rightarrow> ((respondError 500 ''INTERNAL_ERROR'' ''failed to revoke sessions'', None), w)
                           | (Inr _, w) \<Rightarrow>
                               (case CreateSessionForUser cy dur rnd (u_ID user) (h_UserAgent r) (extractIP trustProxy r) w of
                                  (Inl e, w) \<Rightarrow> ((respondError 500 ''INTERNAL_ERROR'' ''failed to create session'', None), w)
                                | (Inr rawToken, w) \<Rightarrow> ((respondData ''password changed'', Some rawToken), w)))))))"

definition handleMe :: handler where
  "handleMe rq w =
     (case rq_User rq of
        Some user \<Rightarrow> (Response 200 (UserData user), w)
      | None \<Rightarrow>
          if rq_TokenInvalid rq then (respondError 401 ''SESSION_EXPIRED'' ''session expired'', w)
          else (respondError 401 ''AUTHENTICATION_REQUIRED'' ''authentication required'', w))"

section \<open>Login and its rate limit\<close>

text \<open>
  The Redis commands are a parameter over an abstract state \<open>'r\<close>: \<open>INCR\<close> gives the new value, or
  \<open>None\<close> on an error; the error of \<open>EXPIRE\<close> is dropped by the caller, so only its effect counts.
\<close>

record 'r Redis =
  rd_Incr :: "string \<Rightarrow> time \<Rightarrow> 'r \<Rightarrow> int option \<times> 'r"
  rd_Expire :: "string \<Rightarrow> time \<Rightarrow> time \<Rightarrow> 'r \<Rightarrow> 'r"
  rd_Del :: "string \<Rightarrow> time \<Rightarrow> 'r \<Rightarrow> 'r"

definition login_key :: "string \<Rightarrow> string \<Rightarrow> string" where
  "login_key ip email = ''ratelimit:login:'' @ ip @ '':'' @ email"

definition normalized_email :: "string \<Rightarrow> string" where
  "normalized_email email = strings_ToLower (strings_TrimSpace email)"

type_synonym 'r login_handler = "'r \<Rightarrow> World \<Rightarrow> cookie_response \<times> 'r \<times> World"

text \<open>\<open>email\<close> is what \<open>json.Unmarshal\<close> finds in the body, empty when it fails.\<close>

definition LoginRateLimit :: "'r Redis \<Rightarrow> bool \<Rightarrow> HttpRequest \<Rightarrow> string \<Rightarrow> 'r login_handler \<Rightarrow> 'r login_handler" where
  "LoginRateLimit R trustProxy h email next r w =
     (let key = login_key (extractIP trustProxy h) (normalized_email email) in
      case rd_Incr R key (w_now w) r of
        (None, r) \<Rightarrow> next r w
      | (Some n, r) \<Rightarrow>
          let r = (if n = 1 then rd_Expire R key (15 * time_Minute) (w_now w) r else r)
          in if n > 5 then ((respondError 429 ''RATE_LIMITED'' ''too many login attempts'', None), r, w)
             else next r w)"

definition handleLogin ::
  "Crypto \<Rightarrow> 'r Redis \<Rightarrow> time \<Rightarrow> bool \<Rightarrow> string option \<Rightarrow> (string \<times> string) option \<Rightarrow> HttpRequest \<Rightarrow> 'r login_handler" where
  "handleLogin cy R dur trustProxy rnd req h r w =
     (case req of
        None \<Rightarrow> ((respondError 400 ''BAD_REQUEST'' ''invalid JSON'', None), r, w)
      | Some (em, password) \<Rightarrow>
          let email = normalized_email em; ip = extractIP trustProxy h
          in case Login cy dur rnd email password (h_UserAgent h) ip w of
            (Inl e, w) \<Rightarrow>
              ((if e = ErrInvalidCredentials then respondError 401 ''UNAUTHORIZED'' ''invalid email or password''
                else respondError 500 ''INTERNAL_ERROR'' ''internal server error'', None), r, w)
          | (Inr (user, rawToken), w) \<Rightarrow>
              ((Response 200 (UserData user), Some rawToken), rd_Del R (login_key ip email) (w_now w) r, w))"

section \<open>Handlers of API tokens\<close>

definition allowedScopes :: "string list" where
  "allowedScopes = [''scans:write'', ''findings:read'']"

text \<open>\<open>time.Duration(n) * 24 * time.Hour\<close>, in 64 bits.\<close>

definition wrap_int64 :: "int \<Rightarrow> int" where
  "wrap_int64 x = (x + 2 ^ 63) mod 2 ^ 64 - 2 ^ 63"

definition token_expiry :: "int option \<Rightarrow> time \<Rightarrow> time option" where
  "token_expiry days now = (case days of
     None \<Rightarrow> None
   | Some n \<Rightarrow> if n > 0 then Some (now + wrap_int64 (n * 24 * time_Hour)) else None)"

definition handleCreateAPIToken ::
  "Crypto \<Rightarrow> string option \<Rightarrow> string option \<Rightarrow> (string \<times> string list \<times> int option) option \<Rightarrow> handler" where
  "handleCreateAPIToken cy prefixRaw secretRaw req rq w =
     (case rq_Param rq ''id'' of
        None \<Rightarrow> (bad_project, w)
      | Some projectID \<Rightarrow> (case req of
          None \<Rightarrow> (bad_body, w)
        | Some (name, scopes, days) \<Rightarrow>
            if name = [] \<or> scopes = [] then (respondError 400 ''VALIDATION_ERROR'' ''name and scopes are required'', w)
            else if \<not> list_all (\<lambda>s. s \<in> set allowedScopes) scopes
              then (respondError 400 ''VALIDATION_ERROR'' ''unknown scope'', w)
            else (case rq_User rq of
              None \<Rightarrow> (respondError 401 ''AUTHENTICATION_REQUIRED'' ''session required to create tokens'', w)
            | Some user \<Rightarrow>
                (case GeneratePAT cy prefixRaw secretRaw of
                   Inl _ \<Rightarrow> (respondError 500 ''INTERNAL_ERROR'' ''failed to generate token'', w)
                 | Inr (fullToken, prefix, hash) \<Rightarrow>
                     (case APITokensRepo_Create \<lparr>t_ID = uuid_Nil, t_ProjectID = projectID, t_Name = name, t_Prefix = prefix,
                          t_TokenHash = hash, t_Scopes = scopes, t_CreatedByUserID = u_ID user, t_CreatedByEmail = [],
                          t_LastUsedAt = None, t_ExpiresAt = token_expiry days (w_now w), t_RevokedAt = None, t_CreatedAt = 0\<rparr> w of
                        (Inl e, w) \<Rightarrow> (respondError 500 ''INTERNAL_ERROR'' ''failed to create token'', w)
                      | (Inr t, w) \<Rightarrow> (Response 201 (TokenData fullToken), w))))))"

definition handleListAPITokens :: "Request \<Rightarrow> World \<Rightarrow> (response + APIToken list) \<times> World" where
  "handleListAPITokens rq w =
     (case rq_Param rq ''id'' of
        None \<Rightarrow> (Inl bad_project, w)
      | Some p \<Rightarrow> (case ListByProject p w of
          (Inl e, w) \<Rightarrow> (Inl (respondError 500 ''INTERNAL_ERROR'' ''failed to list tokens''), w)
        | (Inr ts, w) \<Rightarrow> (Inr ts, w)))"

definition handleRevokeAPIToken :: handler where
  "handleRevokeAPIToken rq w =
     (case (rq_Param rq ''id'', rq_Param rq ''tokenID'') of
        (None, _) \<Rightarrow> (bad_project, w)
      | (_, None) \<Rightarrow> (respondError 400 ''VALIDATION_ERROR'' ''invalid token id'', w)
      | (Some projectID, Some tokenID) \<Rightarrow>
          (case APITokensRepo_Revoke tokenID projectID w of
             (Inl e, w) \<Rightarrow> (respondError 500 ''INTERNAL_ERROR'' ''failed to revoke token'', w)
           | (Inr _, w) \<Rightarrow> (respondData ''revoked'', w)))"

end
