(* ===== verification/AuthCorrect.thy ===== *)
theory AuthCorrect
  imports Auth Gates
begin

text \<open>
  What authentication guarantees: tokens parse back to what was generated, a request carries a user only
  with a live session, revoking ends sessions, and the rate limit holds against a Redis that behaves as
  documented.
\<close>

section \<open>API tokens\<close>

lemma upper_lower_base32:
  assumes "set s \<subseteq> set base32_alphabet"
  shows "strings_ToUpper (strings_ToLower s) = s"
proof -
  have "list_all (\<lambda>c. upper_char (lower_char c) = c) base32_alphabet"
    by (simp add: base32_alphabet_def upper_char_def lower_char_def Let_def char_of_def bit_0)
  then have "upper_char (lower_char c) = c" if "c \<in> set s" for c
    unfolding list_all_iff using subsetD [OF assms that] by (rule bspec)
  then show ?thesis by (simp add: strings_ToUpper_def strings_ToLower_def map_idI)
qed

lemma base32_lower_chars: "set (strings_ToLower (base32_EncodeToString p)) \<subseteq> set ''abcdefghijklmnopqrstuvwxyz234567''"
proof -
  have "list_all (\<lambda>c. lower_char c \<in> set ''abcdefghijklmnopqrstuvwxyz234567'') base32_alphabet"
    unfolding base32_alphabet_def by code_simp
  then show ?thesis using base32.encode_letters [of p]
    by (auto simp: strings_ToLower_def base32_EncodeToString_def list_all_iff)
qed

lemma token_chars_plain:
  "c \<in> set ''abcdefghijklmnopqrstuvwxyz234567'' \<Longrightarrow> \<not> is_space c \<and> c \<noteq> CHR ''_''"
  "c \<in> set base64url_alphabet \<Longrightarrow> \<not> is_space c"
proof -
  have "list_all (\<lambda>c. \<not> is_space c \<and> c \<noteq> CHR ''_'') ''abcdefghijklmnopqrstuvwxyz234567''"
    "list_all (\<lambda>c. \<not> is_space c) base64url_alphabet"
    unfolding base64url_alphabet_def by code_simp+
  then show "c \<in> set ''abcdefghijklmnopqrstuvwxyz234567'' \<Longrightarrow> \<not> is_space c \<and> c \<noteq> CHR ''_''"
    "c \<in> set base64url_alphabet \<Longrightarrow> \<not> is_space c"
    unfolding list_all_iff by blast+
qed

lemma SplitN_4:
  assumes "CHR ''_'' \<notin> set a" "CHR ''_'' \<notin> set b" "CHR ''_'' \<notin> set c"
  shows "strings_SplitN (a @ ''_'' @ b @ ''_'' @ c @ ''_'' @ d) (CHR ''_'') 4 = [a, b, c, d]"
  using assms by (simp add: numeral_eq_Suc Cut_append)

lemma TrimSpace_surrounded:
  assumes "\<forall>c \<in> set a. is_space c" "\<forall>c \<in> set b. is_space c" and "s \<noteq> []" "\<not> is_space (hd s)" "\<not> is_space (last s)"
  shows "strings_TrimSpace (a @ s @ b) = s"
proof -
  obtain x xs where s: "s = x # xs" using assms(3) by (cases s) auto
  have "dropWhile is_space (a @ s @ b) = s @ b" using assms by (simp add: dropWhile_append2 s)
  moreover have "dropWhile is_space (rev (s @ b)) = rev s"
  proof -
    obtain y ys where rs: "rev s = y # ys" using assms(3) by (cases "rev s") auto
    then have "y = last s" by (metis last.simps last_snoc rev_rev_ident rev.simps(2))
    then show ?thesis using dropWhile_append2 [of "rev b" is_space "rev s"] assms(2,5) by (simp add: rs)
  qed
  ultimately show ?thesis by (simp add: strings_TrimSpace_def)
qed

lemma PAT_parse_surrounded:
  assumes "length p = 5" and "length sr = patSecretBytes" and "\<forall>c \<in> set (before @ after). is_space c"
  shows "\<exists>tok prefix secret. GeneratePAT cy (Some p) (Some sr) = Inr (tok, prefix, HashPATSecret cy secret) \<and>
    ParsePAT (before @ tok @ after) = Inr (prefix, secret) \<and> secret = base64_EncodeToString sr"
proof -
  let ?prefix = "strings_ToLower (base32_EncodeToString p)" and ?secret = "base64_EncodeToString sr"
  define tok where "tok = patPrefixLiteral @ ?prefix @ ''_'' @ ?secret"
  have lens: "length ?prefix = 8" "length ?secret = 43"
    using base32.length_encode [of p] base64url.length_encode [of sr] assms(1,2)
    by (simp_all add: base32_EncodeToString_def base64_EncodeToString_def patSecretBytes_def)
  have pc: "\<forall>c \<in> set ?prefix. \<not> is_space c \<and> c \<noteq> CHR ''_''" using base32_lower_chars token_chars_plain(1) by blast
  have sc: "\<forall>c \<in> set ?secret. \<not> is_space c"
    using base64url.encode_letters [of sr] token_chars_plain(2) by (auto simp: base64_EncodeToString_def)
  have "last tok = last ?secret" using lens(2) by (cases ?secret) (auto simp: tok_def)
  moreover have "\<not> is_space (last ?secret)" using sc lens(2) by (metis last_in_set length_0_conv zero_neq_numeral)
  moreover have "\<not> is_space (hd tok)" "tok \<noteq> []" by (simp_all add: tok_def patPrefixLiteral_def is_space_def)
  ultimately have trim: "strings_TrimSpace (before @ tok @ after) = tok"
    using assms(3) by (intro TrimSpace_surrounded) auto
  have "tok = ''rl'' @ ''_'' @ ''pat'' @ ''_'' @ ?prefix @ ''_'' @ ?secret" by (simp add: tok_def patPrefixLiteral_def)
  then have split: "strings_SplitN tok (CHR ''_'') 4 = [''rl'', ''pat'', ?prefix, ?secret]"
    using pc by (simp only:) (rule SplitN_4, auto)
  have "strings_ToUpper ?prefix = base32_EncodeToString p"
    using base32.encode_letters [of p] by (intro upper_lower_base32) (simp add: base32_EncodeToString_def)
  then have "base32_DecodeString (strings_ToUpper ?prefix) \<noteq> None" by (simp add: base32_roundtrip)
  moreover have "strings_TrimSpace ?prefix = ?prefix" "strings_TrimSpace ?secret = ?secret"
    using pc sc by (auto intro: TrimSpace_no_space)
  moreover have "strings_HasPrefix tok patPrefixLiteral" by (simp add: tok_def)
  ultimately have "ParsePAT (before @ tok @ after) = Inr (?prefix, ?secret)"
    using lens by (simp add: ParsePAT_def trim split Let_def base64_roundtrip patPrefixSize_def)
  moreover have "GeneratePAT cy (Some p) (Some sr) = Inr (tok, ?prefix, HashPATSecret cy ?secret)"
    using lens by (simp add: GeneratePAT_def patPrefixSize_def Let_def tok_def)
  ultimately show ?thesis by blast
qed

lemma PAT_parse:
  assumes "length p = 5" and "length sr = patSecretBytes"
  shows "\<exists>tok prefix secret. GeneratePAT cy (Some p) (Some sr) = Inr (tok, prefix, HashPATSecret cy secret) \<and>
    ParsePAT ([] @ tok @ []) = Inr (prefix, secret) \<and> secret = base64_EncodeToString sr"
  by (rule PAT_parse_surrounded [OF assms]) simp

text \<open>
  A generated token parses back to its prefix and secret, with any white space around it and any
  underscore inside the secret, and the hash of the secret is the stored hash; so a stored token can be
  found by the prefix and recognised by the hash.
\<close>

theorem PAT_roundtrip:
  assumes "length p = 5" and "length sr = patSecretBytes" and "\<forall>c \<in> set (before @ after). is_space c"
  shows "\<exists>tok prefix secret. GeneratePAT cy (Some p) (Some sr) = Inr (tok, prefix, HashPATSecret cy secret) \<and>
    ParsePAT (before @ tok @ after) = Inr (prefix, secret) \<and> secret = base64_EncodeToString sr"
  by (rule PAT_parse_surrounded [OF assms])

definition demo_crypto :: Crypto where
  "demo_crypto = \<lparr>cy_SHA256 = rev, cy_Verify = (\<lambda>p h. Inr (p = h)), cy_Hash = (\<lambda>p. Inr p), cy_ParseIP = (\<lambda>s. None)\<rparr>"

theorem PAT_roundtrip_witness:
  "\<exists>tok prefix secret. GeneratePAT demo_crypto (Some ''01234'') (Some (replicate 32 (CHR ''x''))) = Inr (tok, prefix, HashPATSecret demo_crypto secret) \<and>
    ParsePAT ('' '' @ tok) = Inr (prefix, secret)"
proof -
  have "\<forall>c \<in> set ('' '' @ []). is_space c" by (simp add: is_space_def)
  from PAT_roundtrip [of "''01234''" "replicate 32 (CHR ''x'')" "'' ''" "[]" demo_crypto, OF _ _ this]
  show ?thesis by (auto simp: patSecretBytes_def)
qed

text \<open>
  The lifetime of a token is exact up to 106751 days and unlimited when none, zero or a negative
  number of days is asked for; 106752 days overflow the 64 bits of a duration and make a token that has
  expired before it was issued.
\<close>

theorem token_expiry_bounds:
  "(\<forall>n \<in> {1..106751}. token_expiry (Some n) now = Some (now + n * (24 * time_Hour))) \<and>
   (\<forall>n \<le> 0. token_expiry (Some n) now = None) \<and> token_expiry None now = None \<and>
   (\<exists>t. token_expiry (Some 106752) now = Some t \<and> t < now)"
proof (intro conjI ballI allI impI)
  fix n :: int assume "n \<in> {1..106751}"
  then have "0 < n" "n * 86400000000000 < 2 ^ 63" by auto
  then have "(n * 86400000000000 + 2 ^ 63) mod 2 ^ 64 = n * 86400000000000 + (2 ^ 63 :: int)"
    by (intro mod_pos_pos_trivial) auto
  with \<open>0 < n\<close> show "token_expiry (Some n) now = Some (now + n * (24 * time_Hour))"
    by (simp add: token_expiry_def wrap_int64_def time_defs)
qed (auto simp: token_expiry_def wrap_int64_def time_defs)

theorem token_expiry_bounds_witness:
  "token_expiry (Some 90) 5 = Some (5 + 90 * (24 * time_Hour)) \<and> token_expiry (Some (- 1)) 5 = None"
  using token_expiry_bounds [of 5] by simp

section \<open>Sessions\<close>

text \<open>A row of the sessions with its user, as \<open>GetByTokenHashWithUser\<close> accepts it.\<close>

definition authenticates :: "time \<Rightarrow> string \<Rightarrow> DB \<Rightarrow> Session \<Rightarrow> User \<Rightarrow> bool" where
  "authenticates now hash d s u \<longleftrightarrow> s \<in> set (tb_sessions d) \<and> u \<in> set (tb_users d) \<and> live_session now hash s \<and>
     s_UserID s = u_ID u \<and> u_IsActive u"

lemma find_Some_in: "find P xs = Some x \<Longrightarrow> x \<in> set xs \<and> P x"
  by (induction xs) (auto split: if_splits)

lemma session_with_user_Some: "session_with_user now h d = Some (s, u) \<Longrightarrow> authenticates now h d s u"
  unfolding session_with_user_def authenticates_def by (drule find_Some_in) auto

lemma session_with_user_None: "session_with_user now h d = None \<Longrightarrow> \<not> authenticates now h d s u"
  unfolding session_with_user_def authenticates_def find_None_iff by auto

lemma UpdateLastUsed_effect:
  "UpdateLastUsed i w = (r, w') \<Longrightarrow> w_db w' = w_db w \<or>
     w_db w' = (w_db w)\<lparr>tb_sessions := map (\<lambda>s. if s_ID s = i then s\<lparr>s_LastUsedAt := w_now w\<rparr> else s) (tb_sessions (w_db w))\<rparr>"
  unfolding UpdateLastUsed_def update_sessions_def
  by (auto dest: db_exec_Inl db_exec_Inr split: prod.splits sum.splits if_splits)

lemma UpdateLastUsed_env: "UpdateLastUsed i w = (r, w') \<Longrightarrow> same_env w w'"
  unfolding UpdateLastUsed_def by (auto dest: db_exec_env split: prod.splits sum.splits if_splits)

text \<open>What using a session changes: the time of last use of sessions, nothing else.\<close>

definition used_at :: "DB \<Rightarrow> DB \<Rightarrow> bool" where
  "used_at d d' \<longleftrightarrow> (\<exists>g. (\<forall>s. \<exists>t. g s = s\<lparr>s_LastUsedAt := t\<rparr>) \<and> d' = d\<lparr>tb_sessions := map g (tb_sessions d)\<rparr>)"

lemma used_at_refl: "used_at d d"
  unfolding used_at_def
proof (intro exI [of _ id] conjI allI)
  fix s :: Session show "\<exists>t. id s = s\<lparr>s_LastUsedAt := t\<rparr>" by (rule exI [of _ "s_LastUsedAt s"]) simp
qed simp

lemma used_at_UpdateLastUsed: "UpdateLastUsed i w = (r, w') \<Longrightarrow> used_at (w_db w) (w_db w')"
proof -
  assume u: "UpdateLastUsed i w = (r, w')"
  let ?g = "\<lambda>s. if s_ID s = i then s\<lparr>s_LastUsedAt := w_now w\<rparr> else s"
  have e: "\<exists>t. ?g s = s\<lparr>s_LastUsedAt := t\<rparr>" for s :: Session by (cases "s_ID s = i") (auto intro: exI [of _ "s_LastUsedAt s"])
  have g: "used_at (w_db w) ((w_db w)\<lparr>tb_sessions := map ?g (tb_sessions (w_db w))\<rparr>)"
    unfolding used_at_def by (intro exI [of _ ?g] conjI allI refl) (rule e)
  from UpdateLastUsed_effect [OF u] show ?thesis
  proof
    assume "w_db w' = w_db w" then show ?thesis by (simp only: used_at_refl)
  next
    assume "w_db w' = (w_db w)\<lparr>tb_sessions := map ?g (tb_sessions (w_db w))\<rparr>" then show ?thesis by (simp only: g)
  qed
qed

lemma GetByTokenHashWithUser_Inr:
  "GetByTokenHashWithUser h w = (Inr (s, u), w') \<Longrightarrow> authenticates (w_now w) h (w_db w) s u"
  unfolding GetByTokenHashWithUser_def by (rule session_with_user_Some) (rule db_query_row_Inr)

lemma ValidateToken_spec:
  assumes "ValidateToken cy tok w = (r, w')"
  shows "used_at (w_db w) (w_db w') \<and> same_env w w' \<and>
    (\<forall>u s'. r = Inr (u, s') \<longrightarrow> (\<exists>s t. s' = s\<lparr>s_LastUsedAt := t\<rparr> \<and> authenticates (w_now w) (HashToken cy tok) (w_db w) s u))"
proof -
  obtain x w1 where x: "GetByTokenHashWithUser (HashToken cy tok) w = (x, w1)" by fastforce
  have w1: "w_db w1 = w_db w" "same_env w w1"
    using x db_query_row_db db_query_row_env unfolding GetByTokenHashWithUser_def by blast+
  show ?thesis
  proof (cases x)
    case (Inl e)
    then show ?thesis using assms x w1 used_at_refl by (auto simp: ValidateToken_def)
  next
    case (Inr su)
    obtain s u where su: "su = (s, u)" by (cases su)
    obtain y w2 where y: "UpdateLastUsed (s_ID s) w1 = (y, w2)" by fastforce
    have "w' = w2" "r = Inr (u, s) \<or> r = Inr (u, s\<lparr>s_LastUsedAt := w_now w2\<rparr>)"
      using assms x Inr su y by (auto simp: ValidateToken_def split: sum.splits)
    moreover have "authenticates (w_now w) (HashToken cy tok) (w_db w) s u"
      using GetByTokenHashWithUser_Inr x Inr su by blast
    moreover have "u' = u \<and> (\<exists>t. s' = s\<lparr>s_LastUsedAt := t\<rparr>)" if "r = Inr (u', s')" for u' s'
      using that calculation(2) by (auto intro: exI [of _ "s_LastUsedAt s"])
    moreover have "used_at (w_db w) (w_db w2)" "same_env w w2"
      using used_at_UpdateLastUsed [OF y] UpdateLastUsed_env [OF y] w1 by (auto simp: same_env_def)
    ultimately show ?thesis by blast
  qed
qed

text \<open>A token that no live session carries is refused, whenever and in whatever world.\<close>

lemma ValidateToken_no_session:
  assumes "\<forall>s \<in> set (tb_sessions (w_db w)). s_TokenHash s = HashToken cy tok \<longrightarrow> s_RevokedAt s \<noteq> None"
  shows "\<exists>e w'. ValidateToken cy tok w = (Inl e, w')"
proof -
  obtain r w' where v: "ValidateToken cy tok w = (r, w')" by fastforce
  show ?thesis
  proof (cases r)
    case (Inr us)
    then show ?thesis using ValidateToken_spec [OF v] assms
      by (cases us) (auto simp: authenticates_def live_session_def)
  qed (use v in blast)
qed

section \<open>Loading the session\<close>

text \<open>
  C11. A request reaches a handler with a user only by a live session: behind the session middleware the
  handler runs at most once, either with a request that has neither a user nor an API token, or with
  the active user of a session that is neither revoked nor expired and whose hash is the hash of the
  token in the cookie or the header, or with the stored, unrevoked and unexpired API token whose hash is
  the hash of the secret in the header, and never with both; otherwise the answer is 401. Nothing in the
  tables changes before the handler but the time a session was last used.
\<close>

theorem LoadSession_authenticates:
  assumes "LoadSession cy h next rq w = (r, w')" and "rq_User rq = None" and "rq_Token rq = None"
  shows "(status_of r = 401 \<and> w_db w' = w_db w) \<or>
    (\<exists>rq' w1. next rq' w1 = (r, w') \<and> used_at (w_db w) (w_db w1) \<and> w_now w1 = w_now w \<and> rq_Param rq' = rq_Param rq \<and>
      (case (rq_User rq', rq_Token rq') of
         (None, None) \<Rightarrow> True
       | (Some u, None) \<Rightarrow> \<exists>tok s. readAuthToken h = Some tok \<and> authenticates (w_now w) (HashToken cy tok) (w_db w) s u
       | (None, Some t) \<Rightarrow> \<exists>bearer prefix secret. readBearerToken h = Some bearer \<and> ParsePAT bearer = Inr (prefix, secret) \<and>
           t \<in> set (tb_tokens (w_db w)) \<and> live_token (w_now w) prefix t \<and> t_TokenHash t = HashPATSecret cy secret
       | (Some _, Some _) \<Rightarrow> False))"
proof (cases "\<exists>bearer. readBearerToken h = Some bearer \<and> strings_HasPrefix (strings_TrimSpace bearer) ''rl_pat_''")
  case True
  then obtain bearer where b: "readBearerToken h = Some bearer" "strings_HasPrefix (strings_TrimSpace bearer) ''rl_pat_''" by blast
  show ?thesis
  proof (cases "ParsePAT bearer")
    case (Inr ps)
    obtain prefix secret where ps: "ps = (prefix, secret)" by (cases ps)
    obtain x w1 where x: "GetByPrefix prefix w = (x, w1)" by fastforce
    have w1: "w_db w1 = w_db w" "w_now w1 = w_now w"
      using x db_query_row_db db_query_row_env unfolding GetByPrefix_def same_env_def by blast+
    show ?thesis
    proof (cases "\<exists>t. x = Inr t \<and> HashPATSecret cy secret = t_TokenHash t")
      case True
      then obtain t where t: "x = Inr t" "HashPATSecret cy secret = t_TokenHash t" by blast
      have "t \<in> set (tb_tokens (w_db w)) \<and> live_token (w_now w) prefix t"
        using x t(1) unfolding GetByPrefix_def by (auto dest!: db_query_row_Inr find_Some_in)
      moreover have "next (rq\<lparr>rq_Token := Some t\<rparr>) w1 = (r, w')"
        using assms(1) b Inr ps x t by (simp add: LoadSession_def)
      ultimately show ?thesis using b Inr ps t w1 assms(2) used_at_refl
        by (intro disjI2 exI [of _ "rq\<lparr>rq_Token := Some t\<rparr>"] exI [of _ w1]) auto
    next
      case False
      then have "status_of r = 401 \<and> w_db w' = w_db w"
        using assms(1) b Inr ps x w1 by (cases x) (auto simp: LoadSession_def Let_def split: if_splits)
      then show ?thesis ..
    qed
  next
    case (Inl e)
    then have "status_of r = 401 \<and> w_db w' = w_db w" using assms(1) b by (auto simp: LoadSession_def Let_def)
    then show ?thesis ..
  qed
next
  case False
  have l: "LoadSession cy h next rq w = (case readAuthToken h of
            None \<Rightarrow> next rq w
          | Some rawToken \<Rightarrow>
              (case ValidateToken cy rawToken w of
                 (Inl e, w) \<Rightarrow> next (if e = ErrInvalidCredentials then rq\<lparr>rq_TokenInvalid := True\<rparr> else rq) w
               | (Inr (user, s), w) \<Rightarrow> next (rq\<lparr>rq_User := Some user, rq_Session := Some s\<rparr>) w))"
    using False by (auto simp: LoadSession_def Let_def split: option.splits)
  show ?thesis
  proof (cases "readAuthToken h")
    case None
    then have "next rq w = (r, w')" using l assms(1) by simp
    then show ?thesis using assms(2,3) used_at_refl by (intro disjI2 exI [of _ rq] exI [of _ w]) auto
  next
    case (Some tok)
    obtain x w1 where x: "ValidateToken cy tok w = (x, w1)" by fastforce
    note v = ValidateToken_spec [OF x]
    show ?thesis
    proof (cases x)
      case (Inl e)
      let ?rq = "if e = ErrInvalidCredentials then rq\<lparr>rq_TokenInvalid := True\<rparr> else rq"
      have "next ?rq w1 = (r, w')" using l assms(1) Some x Inl by simp
      then show ?thesis using assms(2,3) v by (intro disjI2 exI [of _ ?rq] exI [of _ w1]) (auto simp: same_env_def)
    next
      case (Inr us)
      obtain u s where us: "us = (u, s)" by (cases us)
      let ?rq = "rq\<lparr>rq_User := Some u, rq_Session := Some s\<rparr>"
      have "next ?rq w1 = (r, w')" using l assms(1) Some x Inr us by simp
      then show ?thesis using assms(3) v Inr us Some
        by (intro disjI2 exI [of _ ?rq] exI [of _ w1]) (auto simp: same_env_def)
    qed
  qed
qed

definition auth_db :: DB where
  "auth_db = DB_empty\<lparr>tb_users := [User_zero\<lparr>u_ID := 7, u_Email := ''a'', u_PasswordHash := ''secret12'', u_IsActive := True\<rparr>],
     tb_projects := [(5, ''A'')],
     tb_sessions := [\<lparr>s_ID = 1, s_UserID = 7, s_TokenHash = rev ''tok'', s_ExpiresAt = 100, s_RevokedAt = None, s_UserAgent = [],
       s_IP = None, s_CreatedAt = 1, s_LastUsedAt = 1\<rparr>]\<rparr>"

definition auth_http :: HttpRequest where
  "auth_http = \<lparr>h_Cookie = Some ''tok'', h_Authorization = [], h_ForwardedFor = [], h_RemoteAddr = ''10.0.0.1:99'', h_UserAgent = [],
     h_Method = ''POST'', h_Path = [], h_FullPath = [], h_RequestID = [], h_TraceID = [], h_RoutePattern = [], h_URLParam = (\<lambda>p. [])\<rparr>"

definition empty_rq :: Request where
  "empty_rq = \<lparr>rq_User = None, rq_Token = None, rq_Session = None, rq_Param = (\<lambda>p. None), rq_TokenInvalid = False\<rparr>"

theorem LoadSession_authenticates_witness:
  "\<exists>r w' rq' w1. LoadSession demo_crypto auth_http handleMe empty_rq (World_start auth_db 9) = (r, w') \<and> status_of r = 200 \<and>
     handleMe rq' w1 = (r, w') \<and> used_at auth_db (w_db w1)"
proof -
  let ?w = "World_start auth_db 9"
  obtain r w' where l: "LoadSession demo_crypto auth_http handleMe empty_rq ?w = (r, w')" by fastforce
  have "status_of (fst (LoadSession demo_crypto auth_http handleMe empty_rq ?w)) = 200" by code_simp
  then have s: "status_of r = 200" using l by simp
  from LoadSession_authenticates [OF l] s
  obtain rq' w1 where "handleMe rq' w1 = (r, w')" "used_at (w_db ?w) (w_db w1)" by (auto simp: empty_rq_def)
  then show ?thesis using l s by (auto simp: World_start_def)
qed

section \<open>Ending sessions\<close>

lemma Revoke_Inr:
  assumes "SessionsRepo_Revoke h w = (Inr x, w')"
  shows "\<forall>s \<in> set (tb_sessions (w_db w')). s_TokenHash s = h \<longrightarrow> s_RevokedAt s \<noteq> None"
proof -
  let ?g = "\<lambda>s. if s_TokenHash s = h \<and> s_RevokedAt s = None then s\<lparr>s_RevokedAt := Some (w_now w)\<rparr> else s"
  have "w_db w' = (w_db w)\<lparr>tb_sessions := map ?g (tb_sessions (w_db w))\<rparr>"
    using db_exec_Inr [OF assms [unfolded SessionsRepo_Revoke_def]] by (simp add: update_sessions_def)
  then have rows: "tb_sessions (w_db w') = map ?g (tb_sessions (w_db w))" by simp
  have g: "s_TokenHash (?g s) = h \<longrightarrow> s_RevokedAt (?g s) \<noteq> None" for s by auto
  show ?thesis
  proof
    fix s assume "s \<in> set (tb_sessions (w_db w'))"
    then obtain s0 where "s = ?g s0" unfolding rows set_map by blast
    then show "s_TokenHash s = h \<longrightarrow> s_RevokedAt s \<noteq> None" using g [of s0] by (simp only:)
  qed
qed

text \<open>
  Logging out ends the session for good: when the answer is a success, the cookie is deleted and the
  token of the request is refused from then on, at any later time and whatever else fails, as long as no
  row of a session with the same hash is added.
\<close>

theorem logout_ends_session:
  assumes "handleLogout cy h w = ((r, c), w')" and "readAuthToken h = Some tok" and "status_of r = 200"
    and "\<forall>s \<in> set (tb_sessions (w_db w2)). s \<in> set (tb_sessions (w_db w')) \<or> s_TokenHash s \<noteq> HashToken cy tok"
  shows "c = Some [] \<and> (\<exists>e w3. ValidateToken cy tok w2 = (Inl e, w3))"
proof -
  obtain x w1 where x: "Logout cy tok w = (x, w1)" by fastforce
  have w1: "x = Inr ()" "w1 = w'" "c = Some []"
    using assms(1-3) x by (auto simp: handleLogout_def internal_error_def split: sum.splits)
  then have "\<forall>s \<in> set (tb_sessions (w_db w')). s_TokenHash s = HashToken cy tok \<longrightarrow> s_RevokedAt s \<noteq> None"
    using x Revoke_Inr unfolding Logout_def by blast
  with assms(4) have "\<exists>e w3. ValidateToken cy tok w2 = (Inl e, w3)" by (intro ValidateToken_no_session) blast
  with w1 show ?thesis by blast
qed

theorem logout_ends_session_witness:
  "\<exists>e w3. ValidateToken demo_crypto ''tok'' (snd (handleLogout demo_crypto auth_http (World_start auth_db 9))) = (Inl e, w3)"
proof -
  let ?w = "World_start auth_db 9"
  obtain r c w' where l: "handleLogout demo_crypto auth_http ?w = ((r, c), w')" by (metis prod.exhaust)
  have "status_of (fst (fst (handleLogout demo_crypto auth_http ?w))) = 200" by code_simp
  moreover have "readAuthToken auth_http = Some ''tok''" by code_simp
  ultimately show ?thesis using logout_ends_session [OF l, of "''tok''" w'] l by simp
qed

lemma CreateSession_Inr:
  assumes "CreateSessionForUser cy dur rnd uid ua ip w = (Inr tok, w')"
  shows "w_db w' = (w_db w)\<lparr>tb_sessions := tb_sessions (w_db w) @ [new_session cy dur (w_uuid w (w_next w)) uid tok ua ip (w_now w)]\<rparr>"
proof -
  have "GenerateToken rnd = Inr tok"
    using assms by (auto simp: CreateSessionForUser_def split: sum.splits prod.splits)
  then obtain x where "SessionsRepo_Create (new_session cy dur (w_uuid w (w_next w)) uid tok ua ip (w_now w))
      (w\<lparr>w_next := Suc (w_next w)\<rparr>) = (Inr x, w')"
    using assms by (auto simp: CreateSessionForUser_def uuid_New_def split: sum.splits prod.splits)
  from db_exec_Inr [OF this [unfolded SessionsRepo_Create_def]] show ?thesis
    by (auto simp: insert_session_def dest!: sym [of _ "w_db w'"] split: if_splits)
qed

lemma RevokeAll_Inr:
  "RevokeAllForUserWithReason uid reason w = (Inr x, w') \<Longrightarrow> w_db w' = (w_db w)\<lparr>tb_sessions :=
     map (\<lambda>s. if s_UserID s = uid \<and> s_RevokedAt s = None then s\<lparr>s_RevokedAt := Some (w_now w)\<rparr> else s) (tb_sessions (w_db w))\<rparr>"
  unfolding RevokeAllForUserWithReason_def by (drule db_exec_Inr) (auto simp: update_sessions_def dest!: sym [of _ "w_db w'"])

lemma guarded_Inr: "(if c then Inl a else if k then Inl b else Inr (y, d')) = Inr (x, dw) \<Longrightarrow> dw = d'"
  by (auto split: if_splits)

lemma SetMustChange_Inr:
  assumes "SetMustChangePassword uid b reason w = (Inr x, w')"
  shows "w_db w' = (w_db w)\<lparr>tb_users := map (\<lambda>u. if u_ID u = uid then u\<lparr>u_MustChangePassword := b\<rparr> else u) (tb_users (w_db w))\<rparr>"
  using guarded_Inr [OF db_exec_Inr [OF assms [unfolded SetMustChangePassword_def]]]
  by (simp only: update_user_def snd_conv)

lemma Update_Inr:
  "UsersRepo_Update uid flds w = (Inr x, w') \<Longrightarrow> flds \<noteq> [] \<Longrightarrow> global_role_set flds = None \<Longrightarrow> w_db w' = (w_db w)\<lparr>tb_users :=
     map (\<lambda>u. if u_ID u = uid then (fold set_field flds u)\<lparr>u_UpdatedAt := w_now w\<rparr> else u) (tb_users (w_db w))\<rparr>"
  unfolding UsersRepo_Update_def
  by (auto simp: update_fields_def update_user_def dest!: db_exec_Inr sym [of _ "w_db w'"] split: if_splits prod.splits sum.splits)

text \<open>
  C24. Changing the password takes effect at once and everywhere: after a success the user's row has the
  new hash and no pending password change, the only live session of the user is the one whose token is
  in the cookie, and the sessions of other users are as they were.
\<close>

theorem change_password_revokes:
  assumes "handleChangePassword cy dur tp rnd req h rq w = ((r, c), w')" and "status_of r = 200"
  shows "\<exists>u old new hash tok. rq_User rq = Some u \<and> req = Some (old, new) \<and> cy_Verify cy old (u_PasswordHash u) = Inr True \<and>
    cy_Hash cy new = Inr hash \<and> c = Some tok \<and>
    (\<forall>x \<in> set (tb_users (w_db w')). u_ID x = u_ID u \<longrightarrow> u_PasswordHash x = hash \<and> \<not> u_MustChangePassword x) \<and>
    (\<forall>s \<in> set (tb_sessions (w_db w')). s_UserID s = u_ID u \<and> s_RevokedAt s = None \<longrightarrow> s_TokenHash s = HashToken cy tok) \<and>
    filter (\<lambda>s. s_UserID s \<noteq> u_ID u) (tb_sessions (w_db w')) = filter (\<lambda>s. s_UserID s \<noteq> u_ID u) (tb_sessions (w_db w))"
proof -
  obtain u where u: "rq_User rq = Some u" using assms by (auto simp: handleChangePassword_def split: option.splits)
  obtain old new where req: "req = Some (old, new)"
    using assms u by (auto simp: handleChangePassword_def bad_body_def split: option.splits)
  have v: "cy_Verify cy old (u_PasswordHash u) = Inr True"
    using assms u req by (auto simp: handleChangePassword_def split: if_splits)
  obtain hash where hash: "cy_Hash cy new = Inr hash"
    using assms u req v by (auto simp: handleChangePassword_def split: if_splits sum.splits)
  have h: "handleChangePassword cy dur tp rnd req h rq w =
     (case UsersRepo_Update (u_ID u) [SetPasswordHash hash] w of
        (Inl e, w) \<Rightarrow> ((respondError 500 ''INTERNAL_ERROR'' ''failed to update password'', None), w)
      | (Inr _, w) \<Rightarrow>
          (case SetMustChangePassword (u_ID u) False [] w of
             (Inl e, w) \<Rightarrow> ((respondError 500 ''INTERNAL_ERROR'' ''failed to clear password change requirement'', None), w)
           | (Inr _, w) \<Rightarrow>
               (case RevokeAllForUserWithReason (u_ID u) ''password_changed'' w of
                  (Inl e, w) \<Rightarrow> ((respondError 500 ''INTERNAL_ERROR'' ''failed to revoke sessions'', None), w)
                | (Inr _, w) \<Rightarrow>
                    (case CreateSessionForUser cy dur rnd (u_ID u) (h_UserAgent h) (extractIP tp h) w of
                       (Inl e, w) \<Rightarrow> ((respondError 500 ''INTERNAL_ERROR'' ''failed to create session'', None), w)
                     | (Inr rawToken, w) \<Rightarrow> ((respondData ''password changed'', Some rawToken), w)))))"
    using assms u req v hash by (auto simp: handleChangePassword_def split: if_splits)
  obtain w1 where 1: "UsersRepo_Update (u_ID u) [SetPasswordHash hash] w = (Inr (), w1)"
    using assms h by (auto split: prod.splits sum.splits)
  obtain w2 where 2: "SetMustChangePassword (u_ID u) False [] w1 = (Inr (), w2)"
    using assms h 1 by (auto split: prod.splits sum.splits)
  obtain w3 where 3: "RevokeAllForUserWithReason (u_ID u) ''password_changed'' w2 = (Inr (), w3)"
    using assms h 1 2 by (auto split: prod.splits sum.splits)
  obtain tok where 4: "CreateSessionForUser cy dur rnd (u_ID u) (h_UserAgent h) (extractIP tp h) w3 = (Inr tok, w')" "c = Some tok"
    using assms h 1 2 3 by (auto split: prod.splits sum.splits)
  note db = Update_Inr [OF 1] SetMustChange_Inr [OF 2] RevokeAll_Inr [OF 3] CreateSession_Inr [OF 4(1)]
  have users: "tb_users (w_db w') = map (\<lambda>x. if u_ID x = u_ID u then x\<lparr>u_PasswordHash := hash, u_UpdatedAt := w_now w,
      u_MustChangePassword := False\<rparr> else x) (tb_users (w_db w))"
    using db by simp
  have sessions: "tb_sessions (w_db w') = map (\<lambda>s. if s_UserID s = u_ID u \<and> s_RevokedAt s = None then s\<lparr>s_RevokedAt := Some (w_now w2)\<rparr> else s)
      (tb_sessions (w_db w)) @ [new_session cy dur (w_uuid w3 (w_next w3)) (u_ID u) tok (h_UserAgent h) (extractIP tp h) (w_now w3)]"
    using db by simp
  have "filter (\<lambda>s. s_UserID s \<noteq> u_ID u) (map (\<lambda>s. if s_UserID s = u_ID u \<and> s_RevokedAt s = None then s\<lparr>s_RevokedAt := t\<rparr> else s) xs) =
      filter (\<lambda>s. s_UserID s \<noteq> u_ID u) xs" for xs :: "Session list" and t
    by (induction xs) auto
  then have "filter (\<lambda>s. s_UserID s \<noteq> u_ID u) (tb_sessions (w_db w')) = filter (\<lambda>s. s_UserID s \<noteq> u_ID u) (tb_sessions (w_db w))"
    by (simp add: sessions new_session_def)
  moreover have "\<forall>s \<in> set (tb_sessions (w_db w')). s_UserID s = u_ID u \<and> s_RevokedAt s = None \<longrightarrow> s_TokenHash s = HashToken cy tok"
    by (auto simp: sessions new_session_def)
  moreover have "\<forall>x \<in> set (tb_users (w_db w')). u_ID x = u_ID u \<longrightarrow> u_PasswordHash x = hash \<and> \<not> u_MustChangePassword x"
    by (auto simp: users)
  ultimately show ?thesis using u req v hash 4(2) by blast
qed

theorem change_password_revokes_witness:
  "\<exists>r tok w'. handleChangePassword demo_crypto 500 False (Some ''r'') (Some (''secret12'', ''longer-secret'')) auth_http
      (empty_rq\<lparr>rq_User := Some (hd (tb_users auth_db))\<rparr>) (World_start auth_db 9) = ((r, Some tok), w') \<and>
     filter (\<lambda>s. s_UserID s \<noteq> 7) (tb_sessions (w_db w')) = []"
proof -
  let ?rq = "empty_rq\<lparr>rq_User := Some (hd (tb_users auth_db))\<rparr>" and ?w = "World_start auth_db 9"
  let ?h = "handleChangePassword demo_crypto 500 False (Some ''r'') (Some (''secret12'', ''longer-secret'')) auth_http ?rq ?w"
  obtain r c w' where h: "?h = ((r, c), w')" by (metis prod.exhaust)
  have "status_of (fst (fst ?h)) = 200" by code_simp
  then have s: "status_of r = 200" unfolding h by simp
  from change_password_revokes [OF h s] obtain u tok where u: "rq_User ?rq = Some u" "c = Some tok"
    "filter (\<lambda>s. s_UserID s \<noteq> u_ID u) (tb_sessions (w_db w')) = filter (\<lambda>s. s_UserID s \<noteq> u_ID u) (tb_sessions (w_db ?w))" by blast
  have "u_ID u = 7" using u(1) by (auto simp: auth_db_def)
  moreover have "filter (\<lambda>s. s_UserID s \<noteq> 7) (tb_sessions (w_db ?w)) = []" by (simp add: World_start_def auth_db_def)
  ultimately show ?thesis using h u(2,3) by auto
qed

section \<open>Refreshing\<close>

definition extended :: "Session \<Rightarrow> Session \<Rightarrow> bool" where
  "extended s s' \<longleftrightarrow> s_ID s' = s_ID s \<and> s_UserID s' = s_UserID s \<and> s_TokenHash s' = s_TokenHash s \<and>
     s_RevokedAt s' = s_RevokedAt s \<and> s_ExpiresAt s \<le> s_ExpiresAt s'"

lemma extended_used: "used_at d d' \<Longrightarrow> list_all2 extended (tb_sessions d) (tb_sessions d')"
proof -
  assume "used_at d d'"
  then obtain g where g: "\<And>s. \<exists>t. g s = s\<lparr>s_LastUsedAt := t\<rparr>" "d' = d\<lparr>tb_sessions := map g (tb_sessions d)\<rparr>"
    unfolding used_at_def by blast
  have "extended s (g s)" for s using g(1) [of s] by (auto simp: extended_def)
  then show ?thesis by (simp add: g(2) list_all2_map2 list.rel_refl_strong)
qed

lemma used_at_ids: "used_at d d' \<Longrightarrow> map (\<lambda>s. (s_ID s, s_ExpiresAt s)) (tb_sessions d') = map (\<lambda>s. (s_ID s, s_ExpiresAt s)) (tb_sessions d)"
  unfolding used_at_def
proof (elim exE conjE)
  fix g assume g: "\<forall>s. \<exists>t. g s = s\<lparr>s_LastUsedAt := t\<rparr>" and d': "d' = d\<lparr>tb_sessions := map g (tb_sessions d)\<rparr>"
  have "(s_ID (g s), s_ExpiresAt (g s)) = (s_ID s, s_ExpiresAt s)" for s
    using spec [OF g, of s] by auto
  then show ?thesis by (simp add: d')
qed

lemma UpdateExpiresAt_Inr:
  assumes "UpdateExpiresAt i t w = (Inr x, w')"
  shows "w_db w' = (w_db w)\<lparr>tb_sessions := map (\<lambda>s. if s_ID s = i \<and> s_RevokedAt s = None then s\<lparr>s_ExpiresAt := t\<rparr> else s) (tb_sessions (w_db w))\<rparr>"
proof -
  let ?u = "\<lambda>d. Inr (update_sessions (\<lambda>s. s_ID s = i \<and> s_RevokedAt s = None) (\<lambda>s. s\<lparr>s_ExpiresAt := t\<rparr>) d) :: err + bool \<times> DB"
  obtain b where "db_exec ?u w = (Inr b, w')"
    using assms unfolding UpdateExpiresAt_def by (auto split: prod.splits sum.splits if_splits)
  from db_exec_Inr [OF this] show ?thesis by (simp add: update_sessions_def)
qed

text \<open>
  A refresh keeps a session alive: when it succeeds and sessions last at least a day, the session is
  live, belongs to an active user and is good for at least another 24 hours, and no session in the table
  was shortened, revoked or given to another user or token.
\<close>

theorem Refresh_extends:
  assumes "24 * time_Hour \<le> dur" and "distinct (map s_ID (tb_sessions (w_db w)))" and "Refresh cy dur tok w = (Inr (u, s'), w')"
  shows "24 * time_Hour \<le> s_ExpiresAt s' - w_now w \<and> list_all2 extended (tb_sessions (w_db w)) (tb_sessions (w_db w')) \<and>
    (\<exists>s. authenticates (w_now w) (HashToken cy tok) (w_db w) s u \<and> extended s s')"
proof -
  obtain x w1 where x: "ValidateToken cy tok w = (x, w1)" by fastforce
  obtain s1 where s1: "x = Inr (u, s1)"
    using assms(3) x by (auto simp: Refresh_def split: sum.splits prod.splits if_splits)
  from ValidateToken_spec [OF x] s1 obtain s t where s: "s1 = s\<lparr>s_LastUsedAt := t\<rparr>" "authenticates (w_now w) (HashToken cy tok) (w_db w) s u"
    and used: "used_at (w_db w) (w_db w1)" and env: "w_now w1 = w_now w" by (auto simp: same_env_def)
  show ?thesis
  proof (cases "s_ExpiresAt s1 - w_now w1 < 24 * time_Hour")
    case False
    then have "s' = s1" "w' = w1" using assms(3) x s1 by (auto simp: Refresh_def)
    then show ?thesis using False env s extended_used [OF used] by (auto simp: extended_def)
  next
    case True
    obtain w2 where w2: "UpdateExpiresAt (s_ID s1) (w_now w1 + dur) w1 = (Inr (), w2)" "w2 = w'"
      "s' = s1\<lparr>s_ExpiresAt := w_now w2 + dur\<rparr>"
      using assms(3) x s1 True by (auto simp: Refresh_def split: sum.splits prod.splits)
    have now: "w_now w2 = w_now w"
      using w2(1) env unfolding UpdateExpiresAt_def
      by (auto dest!: db_exec_env simp: same_env_def split: prod.splits sum.splits if_splits)
    let ?g = "\<lambda>r. if s_ID r = s_ID s1 \<and> s_RevokedAt r = None then r\<lparr>s_ExpiresAt := w_now w1 + dur\<rparr> else r"
    have w': "tb_sessions (w_db w') = map ?g (tb_sessions (w_db w1))"
      using UpdateExpiresAt_Inr [OF w2(1)] w2(2) by simp
    have "s_ExpiresAt r \<le> w_now w1 + dur" if r: "r \<in> set (tb_sessions (w_db w1))" "s_ID r = s_ID s1" for r
    proof -
      have "(s_ID r, s_ExpiresAt r) \<in> set (map (\<lambda>s. (s_ID s, s_ExpiresAt s)) (tb_sessions (w_db w)))"
        unfolding used_at_ids [OF used, symmetric] using r(1) by auto
      then obtain r0 where "r0 \<in> set (tb_sessions (w_db w))" "s_ID r0 = s_ID s" "s_ExpiresAt r0 = s_ExpiresAt r"
        using r(2) s(1) by auto
      then have "r0 = s" using assms(2) s(2) by (auto simp: authenticates_def distinct_map inj_on_def)
      then show ?thesis using True s(1) env assms(1) \<open>s_ExpiresAt r0 = s_ExpiresAt r\<close> by simp
    qed
    then have "list_all2 extended (tb_sessions (w_db w1)) (tb_sessions (w_db w'))"
      unfolding w' list_all2_map2 by (intro list.rel_refl_strong) (auto simp: extended_def)
    with extended_used [OF used] have "list_all2 extended (tb_sessions (w_db w)) (tb_sessions (w_db w'))"
      by (rule list_all2_trans [rotated]) (auto simp: extended_def)
    moreover have "extended s s'" using s(1) w2(3) True env now assms(1) by (simp add: extended_def)
    ultimately show ?thesis using s(2) w2(3) now assms(1) by auto
  qed
qed

theorem Refresh_extends_witness:
  "\<exists>u s' w'. Refresh demo_crypto (48 * time_Hour) ''tok'' (World_start auth_db 9) = (Inr (u, s'), w') \<and> 24 * time_Hour \<le> s_ExpiresAt s' - 9"
proof -
  let ?R = "Refresh demo_crypto (48 * time_Hour) ''tok'' (World_start auth_db 9)"
  have "isl (fst ?R) = False" by code_simp
  then obtain u s' w' where R: "?R = (Inr (u, s'), w')" by (cases ?R; cases "fst ?R") auto
  have "distinct (map s_ID (tb_sessions (w_db (World_start auth_db 9))))" by (simp add: World_start_def auth_db_def)
  from Refresh_extends [OF _ this R] R show ?thesis by (auto simp: World_start_def time_defs)
qed

end
