(* ===== verification/LoginLimit.thy ===== *)
theory LoginLimit
  imports AuthCorrect
begin

text \<open>
  The login rate limit against a Redis that behaves as documented, and the way from issuing an API token
  to authenticating with it.
\<close>

section \<open>Redis as documented\<close>

text \<open>
  \<open>entry\<close> reads a counter and its expiry from the abstract state. \<open>INCR\<close> counts from zero when the key
  is missing or has expired and keeps the expiry; \<open>EXPIRE\<close> sets the expiry of an existing key or, when
  the call fails, does nothing.
\<close>

definition live_entry :: "('r \<Rightarrow> string \<Rightarrow> (int \<times> time option) option) \<Rightarrow> 'r \<Rightarrow> string \<Rightarrow> time \<Rightarrow> int \<times> time option" where
  "live_entry entry r k now = (case entry r k of
     None \<Rightarrow> (0, None)
   | Some (v, None) \<Rightarrow> (v, None)
   | Some (v, Some e) \<Rightarrow> if now < e then (v, Some e) else (0, None))"

definition redis_ok :: "'r Redis \<Rightarrow> ('r \<Rightarrow> string \<Rightarrow> (int \<times> time option) option) \<Rightarrow> bool" where
  "redis_ok R entry \<longleftrightarrow>
     (\<forall>k now r. case live_entry entry r k now of (v, ex) \<Rightarrow>
        fst (rd_Incr R k now r) = Some (v + 1) \<and> entry (snd (rd_Incr R k now r)) k = Some (v + 1, ex)) \<and>
     (\<forall>k d now r. entry (rd_Expire R k d now r) k = entry r k \<or>
        (\<exists>v ex. entry r k = Some (v, ex) \<and> entry (rd_Expire R k d now r) k = Some (v, Some (now + d))))"

lemma redis_incr:
  assumes "redis_ok R entry" and "live_entry entry r k now = (v, ex)"
  shows "\<exists>r'. rd_Incr R k now r = (Some (v + 1), r') \<and> entry r' k = Some (v + 1, ex)"
proof -
  have "fst (rd_Incr R k now r) = Some (v + 1) \<and> entry (snd (rd_Incr R k now r)) k = Some (v + 1, ex)"
    using conjunct1 [OF assms(1) [unfolded redis_ok_def], THEN spec, of k, THEN spec, of now, THEN spec, of r] assms(2) by simp
  then show ?thesis by (cases "rd_Incr R k now r") auto
qed

lemma redis_expire:
  assumes "redis_ok R entry" and "entry r k = Some (v, ex)"
  shows "entry (rd_Expire R k d now r) k = Some (v, ex) \<or> entry (rd_Expire R k d now r) k = Some (v, Some (now + d))"
  using conjunct2 [OF assms(1) [unfolded redis_ok_def], THEN spec, of k, THEN spec, of d, THEN spec, of now, THEN spec, of r] assms(2)
  by auto

text \<open>Attempts with one e-mail address from one client, each at its time with its password.\<close>

fun login_attempts ::
  "Crypto \<Rightarrow> 'r Redis \<Rightarrow> time \<Rightarrow> bool \<Rightarrow> HttpRequest \<Rightarrow> string \<Rightarrow> (time \<times> string) list \<Rightarrow> 'r \<Rightarrow> World \<Rightarrow> response list" where
  "login_attempts cy R dur tp h em [] r w = []"
| "login_attempts cy R dur tp h em ((t, pw) # as) r w =
     (case LoginRateLimit R tp h em (handleLogin cy R dur tp None (Some (em, pw)) h) r (w\<lparr>w_now := t\<rparr>) of
        ((resp, c), r', w') \<Rightarrow> resp # login_attempts cy R dur tp h em as r' w')"

section \<open>The limit\<close>

lemma Login_wrong_password:
  assumes "\<And>hash. cy_Verify cy pw hash \<noteq> Inr True"
  shows "\<exists>e w'. Login cy dur rnd email pw ua ip w = (Inl e, w')"
proof -
  obtain x w1 where x: "UsersRepo_GetByEmail (strings_ToLower (strings_TrimSpace email)) w = (x, w1)" by fastforce
  show ?thesis
  proof (cases x)
    case (Inr u)
    then show ?thesis using x assms [of "u_PasswordHash u"]
      by (cases "cy_Verify cy pw (u_PasswordHash u)") (auto simp: Login_def)
  qed (use x in \<open>auto simp: Login_def\<close>)
qed

lemma handleLogin_wrong_password:
  assumes "\<And>hash. cy_Verify cy pw hash \<noteq> Inr True"
  obtains resp c w' where "handleLogin cy R dur tp rnd (Some (em, pw)) h r w = ((resp, c), r, w')" "status_of resp \<noteq> 429"
proof -
  obtain e w' where "Login cy dur rnd (normalized_email em) pw (h_UserAgent h) (extractIP tp h) w = (Inl e, w')"
    using Login_wrong_password [OF assms] by blast
  then show ?thesis by (intro that [of _ _ w']) (auto simp: handleLogin_def Let_def split: if_splits)
qed

text \<open>From a counter that stands at \<open>n\<close> and does not expire before \<open>deadline\<close>, at most \<open>5 - n\<close> attempts pass.\<close>

lemma attempts_from:
  assumes ok: "redis_ok R entry" and wrong: "\<And>pw hash. cy_Verify cy pw hash \<noteq> Inr True"
    and key: "key = login_key (extractIP tp h) (normalized_email em)"
  shows "entry r key = Some (int n, ex) \<Longrightarrow> (\<forall>e. ex = Some e \<longrightarrow> (\<forall>a \<in> set as. fst a < e)) \<Longrightarrow> 0 < n \<Longrightarrow>
    length (filter (\<lambda>resp. status_of resp \<noteq> 429) (login_attempts cy R dur tp h em as r w)) = min (5 - n) (length as)"
proof (induction as arbitrary: r w n ex)
  case (Cons a as)
  obtain t pw where a: "a = (t, pw)" by (cases a)
  have live: "live_entry entry r key t = (int n, ex)"
    using Cons.prems(1,2) a by (auto simp: live_entry_def split: option.splits)
  obtain r1 where i: "rd_Incr R key t r = (Some (int n + 1), r1)" "entry r1 key = Some (int n + 1, ex)"
    using redis_incr [OF ok live] by blast
  have e: "entry r1 key = Some (int (Suc n), ex)" using i(2) by (simp add: add.commute)
  have ex: "\<forall>e. ex = Some e \<longrightarrow> (\<forall>a \<in> set as. fst a < e)" using Cons.prems(2) by auto
  note IH = Cons.IH [OF e ex]
  show ?case
  proof (cases "5 \<le> n")
    case True
    then have "LoginRateLimit R tp h em (handleLogin cy R dur tp None (Some (em, pw)) h) r (w\<lparr>w_now := t\<rparr>) =
        ((respondError 429 ''RATE_LIMITED'' ''too many login attempts'', None), r1, w\<lparr>w_now := t\<rparr>)"
      using i(1) Cons.prems(3) by (simp add: LoginRateLimit_def key [symmetric] Let_def)
    then show ?thesis using IH True a by simp
  next
    case False
    obtain resp c w' where l: "handleLogin cy R dur tp None (Some (em, pw)) h r1 (w\<lparr>w_now := t\<rparr>) = ((resp, c), r1, w')"
      "status_of resp \<noteq> 429"
      by (rule handleLogin_wrong_password [OF wrong])
    have "LoginRateLimit R tp h em (handleLogin cy R dur tp None (Some (em, pw)) h) r (w\<lparr>w_now := t\<rparr>) = ((resp, c), r1, w')"
      using i(1) Cons.prems(3) False l(1) by (simp add: LoginRateLimit_def key [symmetric] Let_def)
    then show ?thesis using IH l(2) False a by simp
  qed
qed simp


text \<open>A store of counters with expiry in which \<open>EXPIRE\<close> succeeds.\<close>

definition map_redis :: "(string \<rightharpoonup> int \<times> time option) Redis" where
  "map_redis = \<lparr>
     rd_Incr = (\<lambda>k now r. case live_entry (\<lambda>r. r) r k now of (v, ex) \<Rightarrow> (Some (v + 1), r(k \<mapsto> (v + 1, ex)))),
     rd_Expire = (\<lambda>k d now r. case r k of None \<Rightarrow> r | Some (v, ex) \<Rightarrow> r(k \<mapsto> (v, Some (now + d)))),
     rd_Del = (\<lambda>k now r. r(k := None))\<rparr>"

lemma map_redis_ok: "redis_ok map_redis (\<lambda>r. r)"
  by (auto simp: redis_ok_def map_redis_def split: prod.splits option.splits)


section \<open>Authenticating with a token just issued\<close>

lemma find_snoc: "find P xs = None \<Longrightarrow> P x \<Longrightarrow> find P (xs @ [x]) = Some x"
  by (induction xs) (auto split: if_splits)

lemma TokensCreate_Inr:
  assumes "APITokensRepo_Create t w = (Inr t', w')" and "t_ID t = uuid_Nil"
  shows "\<exists>i. tb_tokens (w_db w') = tb_tokens (w_db w) @ [t\<lparr>t_ID := i, t_CreatedByEmail := [], t_LastUsedAt := None,
    t_RevokedAt := None, t_CreatedAt := w_now w\<rparr>] \<and> t' = t\<lparr>t_ID := i\<rparr>"
  using assms unfolding APITokensRepo_Create_def uuid_New_def
  by (intro exI [of _ "w_uuid w (w_next w)"]) (auto dest!: db_exec_Inr sym [of _ "w_db w'"] split: if_splits prod.splits sum.splits)


definition token_rq :: Request where
  "token_rq = empty_rq\<lparr>rq_User := Some (hd (tb_users auth_db)), rq_Param := (\<lambda>p. if p = ''id'' then Some 5 else None)\<rparr>"

abbreviation demo_issue :: "response \<times> World" where
  "demo_issue \<equiv> handleCreateAPIToken demo_crypto (Some ''01234'') (Some (replicate 32 (CHR ''x'')))
     (Some (''ci'', [''scans:write''], Some 30)) token_rq (World_start auth_db 9)"

definition demo_token :: string where
  "demo_token = (case fst demo_issue of Response _ (TokenData tok) \<Rightarrow> tok | _ \<Rightarrow> [])"


end
