(* ===== verification/Scores.thy ===== *)
theory Scores
  imports Prelude Complex_Main
begin

text \<open>
  The numbers that rank a finding: \<open>internal/domain/scoring.go\<close>, \<open>internal/domain/epss/trend.go\<close> and
  \<open>internal/domain/kev/urgency.go\<close>. A \<open>float64\<close> is a real number here: the model computes exactly, so it
  differs from the code by rounding, and in the sums only by that.
\<close>

section \<open>Durations\<close>

text \<open>\<open>Time.Sub\<close> saturates at the bounds of a 64-bit duration; \<open>int\<close> of a float truncates toward zero.\<close>

definition time_Sub :: "time \<Rightarrow> time \<Rightarrow> int" where
  "time_Sub a b = max (- (2 ^ 63)) (min (2 ^ 63 - 1) (a - b))"

definition trunc_div :: "int \<Rightarrow> int \<Rightarrow> int" where
  "trunc_div a b = (if a \<ge> 0 then a div b else - ((- a) div b))"

definition time_Day :: time where "time_Day = 24 * time_Hour"

lemma time_Day_val: "time_Day = 86400000000000"
  by (simp add: time_Day_def time_defs)

section \<open>KEV: urgency of a due date\<close>

definition ComputeUrgency :: "time option \<Rightarrow> time \<Rightarrow> string \<times> int" where
  "ComputeUrgency dueDate now =
     (case dueDate of
        None \<Rightarrow> (''no_deadline'', 0)
      | Some due \<Rightarrow>
          let daysUntil = trunc_div (time_Sub due now) time_Day in
          if daysUntil < 0 then (''overdue'', daysUntil)
          else if daysUntil < 7 then (''imminent'', daysUntil)
          else if daysUntil < 30 then (''high'', daysUntil)
          else if daysUntil < 90 then (''normal'', daysUntil)
          else (''low'', daysUntil))"

section \<open>EPSS: tier and trend\<close>

definition ScoreTier :: "real \<Rightarrow> string" where
  "ScoreTier score =
     (if score \<ge> 0.90 then ''critical''
      else if score \<ge> 0.50 then ''elevated''
      else if score \<ge> 0.10 then ''moderate''
      else if score \<ge> 0.01 then ''low''
      else ''minimal'')"

record HistoryPoint =
  hp_Date :: time
  hp_Score :: real
  hp_Percentile :: real

record TrendStats =
  Trend7d :: real
  Trend30d :: real
  Peak90d :: real
  IsRising :: bool

definition TrendStats_zero :: TrendStats where
  "TrendStats_zero = \<lparr>Trend7d = 0, Trend30d = 0, Peak90d = 0, IsRising = False\<rparr>"

text \<open>The first loop, over all points.\<close>

definition peak :: "HistoryPoint list \<Rightarrow> real \<Rightarrow> real" where
  "peak points start = fold (\<lambda>p m. if hp_Score p > m then hp_Score p else m) points start"

text \<open>The second loop, over the points from the last to the first, left when the 30 days are reached.\<close>

fun trend_loop :: "HistoryPoint \<Rightarrow> HistoryPoint list \<Rightarrow> bool \<Rightarrow> TrendStats \<Rightarrow> TrendStats" where
  "trend_loop current [] found7 stats = stats"
| "trend_loop current (p # ps) found7 stats =
     (let d7 = \<not> found7 \<and> hp_Date p \<le> hp_Date current - 7 * time_Day;
          stats = (if d7 then stats\<lparr>Trend7d := hp_Score current - hp_Score p\<rparr> else stats) in
      if hp_Date p \<le> hp_Date current - 30 * time_Day then stats\<lparr>Trend30d := hp_Score current - hp_Score p\<rparr>
      else trend_loop current ps (found7 \<or> d7) stats)"

definition ComputeTrend :: "HistoryPoint list \<Rightarrow> TrendStats" where
  "ComputeTrend points =
     (if points = [] then TrendStats_zero
      else let current = last points;
        stats = trend_loop current (rev points) False (TrendStats_zero\<lparr>Peak90d := peak points (hp_Score current)\<rparr>)
      in stats\<lparr>IsRising := Trend7d stats > 0.10\<rparr>)"

text \<open>The reference: the difference to the latest point that is old enough.\<close>

definition change_since :: "HistoryPoint list \<Rightarrow> int \<Rightarrow> real" where
  "change_since points days =
     (case filter (\<lambda>p. hp_Date p \<le> hp_Date (last points) - days * time_Day) points of
        [] \<Rightarrow> 0
      | old \<Rightarrow> hp_Score (last points) - hp_Score (last old))"

lemma peak_Max: "peak points start = Max (set (start # map hp_Score points))"
proof -
  have "peak points start = fold max (map hp_Score points) start"
    unfolding peak_def by (induction points arbitrary: start) (auto simp: max_def intro!: arg_cong [where f = "fold max _"])
  then show ?thesis by (simp only: Max.set_eq_fold)
qed

lemma trend_loop_30:
  "Trend30d (trend_loop current points found7 stats) =
    (case dropWhile (\<lambda>p. hp_Date p > hp_Date current - 30 * time_Day) points of [] \<Rightarrow> Trend30d stats
     | p # _ \<Rightarrow> hp_Score current - hp_Score p)"
  by (induction points arbitrary: found7 stats) (auto simp: Let_def not_less cong: list.case_cong)

lemma old_30_7: "t \<le> c - 30 * time_Day \<Longrightarrow> t \<le> c - 7 * time_Day"
  by (simp add: time_Day_val)

lemma trend_loop_7:
  "Trend7d (trend_loop current points found7 stats) =
    (if found7 then Trend7d stats else
     case dropWhile (\<lambda>p. hp_Date p > hp_Date current - 7 * time_Day) points of [] \<Rightarrow> Trend7d stats
     | p # _ \<Rightarrow> hp_Score current - hp_Score p)"
  by (induction points arbitrary: found7 stats) (auto simp: Let_def not_less dest: old_30_7 cong: list.case_cong)

lemma trend_loop_rest: "Peak90d (trend_loop current points found7 stats) = Peak90d stats"
  by (induction points arbitrary: found7 stats) (auto simp: Let_def)

lemma hd_dropWhile_rev: "(case dropWhile (\<lambda>p. \<not> P p) (rev xs) of [] \<Rightarrow> a | p # _ \<Rightarrow> f p) =
  (case filter P xs of [] \<Rightarrow> a | old \<Rightarrow> f (last old))"
  by (induction xs rule: rev_induct) (auto split: list.splits)

lemma change_since_loop:
  "(case dropWhile (\<lambda>p. hp_Date p > hp_Date (last points) - d * time_Day) (rev points) of [] \<Rightarrow> 0
     | p # _ \<Rightarrow> hp_Score (last points) - hp_Score p) = change_since points d"
  unfolding change_since_def not_le [symmetric] by (rule hd_dropWhile_rev)

text \<open>
  The trend of an EPSS history is the reference one: the changes since the latest points at least 7 and
  at least 30 days older than the last one (zero without such a point, whatever the order of the points),
  the highest score, and the mark for a rise of more than 0.10 in 7 days.
\<close>

theorem ComputeTrend_reference:
  "ComputeTrend points = (if points = [] then TrendStats_zero else
     \<lparr>Trend7d = change_since points 7, Trend30d = change_since points 30, Peak90d = Max (hp_Score ` set points),
      IsRising = change_since points 7 > 0.10\<rparr>)"
proof (cases "points = []")
  case False
  let ?st = "trend_loop (last points) (rev points) False (TrendStats_zero\<lparr>Peak90d := peak points (hp_Score (last points))\<rparr>)"
  have t: "Trend7d ?st = change_since points 7" "Trend30d ?st = change_since points 30"
    by (simp_all add: trend_loop_7 trend_loop_30 TrendStats_zero_def change_since_loop cong: list.case_cong)
  have "insert (hp_Score (last points)) (hp_Score ` set points) = hp_Score ` set points" using False by auto
  then have "Peak90d ?st = Max (hp_Score ` set points)" by (simp add: trend_loop_rest peak_Max)
  with t show ?thesis using False by (simp add: ComputeTrend_def Let_def)
qed (simp add: ComputeTrend_def)

text \<open>The tiers of the days left, as the comment on the constants gives them.\<close>

definition documented_tier :: "time \<Rightarrow> time \<Rightarrow> string" where
  "documented_tier due now =
     (if due < now then ''overdue'' else if due - now < 7 * time_Day then ''imminent''
      else if due - now < 30 * time_Day then ''high'' else if due - now < 90 * time_Day then ''normal'' else ''low'')"

lemma trunc_div_neg: "0 < b \<Longrightarrow> trunc_div a b < 0 \<longleftrightarrow> a \<le> - b"
  by (auto simp: trunc_div_def pos_imp_zdiv_neg_iff pos_imp_zdiv_pos_iff)

lemma trunc_div_less:
  assumes "0 < b" and "0 < n"
  shows "trunc_div a b < n \<longleftrightarrow> a < n * b"
proof (cases "a \<ge> 0")
  case True
  have r: "a = a div b * b + a mod b" "0 \<le> a mod b" "a mod b < b" using assms(1) by simp_all
  have "a div b < n \<longleftrightarrow> a < n * b"
  proof
    assume "a div b < n"
    then have "(a div b + 1) * b \<le> n * b" using assms(1) by (intro mult_right_mono) auto
    then have "a div b * b + b \<le> n * b" by (simp add: distrib_right)
    then show "a < n * b" using r by linarith
  next
    assume "a < n * b"
    then have "a div b * b < n * b" using r by linarith
    then show "a div b < n" using assms(1) by simp
  qed
  with True show ?thesis by (simp add: trunc_div_def)
next
  case False
  then have "0 \<le> (- a) div b" using assms(1) by (simp add: pos_imp_zdiv_nonneg_iff)
  moreover have "0 < n * b" using assms by simp
  ultimately show ?thesis using False assms(2) by (simp add: trunc_div_def)
qed

text \<open>
  The urgency of a KEV entry is the documented one except on the first day after its due date: an entry
  overdue by less than 24 hours is reported as imminent with 0 days left, because the number of days is
  truncated toward zero.
\<close>

theorem ComputeUrgency_tier:
  assumes "\<bar>due - now\<bar> < 2 ^ 63"
  shows "fst (ComputeUrgency (Some due) now) =
    (if now - time_Day < due \<and> due < now then ''imminent'' else documented_tier due now)"
proof -
  have sub: "time_Sub due now = due - now" using assms by (auto simp: time_Sub_def)
  show ?thesis unfolding ComputeUrgency_def option.case sub Let_def
    by (simp add: trunc_div_neg trunc_div_less time_Day_val documented_tier_def)
qed

theorem ComputeUrgency_tier_witness:
  "fst (ComputeUrgency (Some 5000000) 6000000) = ''imminent'' \<and> documented_tier 5000000 6000000 = ''overdue''"
  using ComputeUrgency_tier [of 5000000 6000000] by (simp add: documented_tier_def time_Day_val)

section \<open>The priority score\<close>

definition math_Round :: "real \<Rightarrow> real" where
  "math_Round x = (if x \<ge> 0 then of_int \<lfloor>x + 1 / 2\<rfloor> else - of_int \<lfloor>- x + 1 / 2\<rfloor>)"

definition kev_bonus :: "bool \<Rightarrow> bool \<Rightarrow> real" where
  "kev_bonus isKEV kevRansomware = (if isKEV then 10 else 0) + (if kevRansomware then 5 else 0)"

definition urgency_bonus :: "bool \<Rightarrow> int \<Rightarrow> real" where
  "urgency_bonus isKEV daysUntilKevDue =
     (if daysUntilKevDue < 0 \<and> isKEV then 7
      else if daysUntilKevDue < 7 \<and> isKEV then 5
      else if daysUntilKevDue < 30 \<and> isKEV then 3
      else if daysUntilKevDue < 90 \<and> isKEV then 1
      else 0)"

text \<open>The weighted sum before the normalisation.\<close>

definition raw_score :: "real \<Rightarrow> real \<Rightarrow> real \<Rightarrow> bool \<Rightarrow> bool \<Rightarrow> int \<Rightarrow> bool \<Rightarrow> bool \<Rightarrow> real \<Rightarrow> real" where
  "raw_score baseScore epssScore epssTrend7d isKEV kevRansomware daysUntilKevDue isBDU osvHasFix daysOld =
     (let bduVal = (if isBDU then 5 else 0);
          recency = 10 * exp (- daysOld / 365);
          trendBonus = (if epssTrend7d > 0.10 then 5 else 0);
          fixBonus = (if osvHasFix then 2 else 0)
      in baseScore * 0.30 + epssScore * 100 * 0.25 + (kev_bonus isKEV kevRansomware + urgency_bonus isKEV daysUntilKevDue) * 0.20 +
         bduVal * 0.10 + recency * 0.10 + 5 * 0.05 + trendBonus * 0.05 + fixBonus * 0.03)"

definition CalculatePriorityScore :: "real \<Rightarrow> real \<Rightarrow> real \<Rightarrow> bool \<Rightarrow> bool \<Rightarrow> int \<Rightarrow> bool \<Rightarrow> bool \<Rightarrow> real \<Rightarrow> real" where
  "CalculatePriorityScore baseScore epssScore epssTrend7d isKEV kevRansomware daysUntilKevDue isBDU osvHasFix daysOld =
     (let score = raw_score baseScore epssScore epssTrend7d isKEV kevRansomware daysUntilKevDue isBDU osvHasFix daysOld / 33.25 * 10
      in min 10 (max 0 (math_Round (score * 100) / 100)))"

lemma math_Round_mono: "x \<le> y \<Longrightarrow> math_Round x \<le> math_Round y"
proof -
  assume le: "x \<le> y"
  consider "0 \<le> x" | "x < 0" "0 \<le> y" | "y < 0" by linarith
  then show ?thesis
  proof cases
    case 1
    then show ?thesis using le by (auto simp: math_Round_def intro!: floor_mono)
  next
    case 2
    have "0 \<le> \<lfloor>- x + 1 / 2\<rfloor>" "0 \<le> \<lfloor>y + 1 / 2\<rfloor>" using 2 by auto
    then show ?thesis using 2 unfolding math_Round_def by (smt (verit) of_int_0_le_iff)
  next
    case 3
    then show ?thesis using le by (auto simp: math_Round_def intro!: floor_mono)
  qed
qed

lemma math_Round_int: "\<exists>n::int. math_Round x = of_int n"
proof (cases "x \<ge> 0")
  case False
  then have "math_Round x = of_int (- \<lfloor>- x + 1 / 2\<rfloor>)" by (simp add: math_Round_def)
  then show ?thesis ..
qed (auto simp: math_Round_def)

lemma cut_hundredths: "\<exists>m::int. min 10 (max 0 (of_int n / 100 :: real)) = of_int m / 100"
proof -
  have "min 10 (max 0 (of_int n / 100 :: real)) = of_int (min 1000 (max 0 n)) / 100" by (simp add: min_def max_def)
  then show ?thesis ..
qed

lemma urgency_bonus_mono: "(k \<longrightarrow> k') \<Longrightarrow> d' \<le> d \<Longrightarrow> urgency_bonus k d \<le> urgency_bonus k' d'"
  by (auto simp: urgency_bonus_def)

lemma raw_score_mono:
  assumes "b \<le> b'" "e \<le> e'" "t \<le> t'" "k \<longrightarrow> k'" "r \<longrightarrow> r'" "d' \<le> d" "bdu \<longrightarrow> bdu'" "hf \<longrightarrow> hf'" "old' \<le> old"
  shows "raw_score b e t k r d bdu hf old \<le> raw_score b' e' t' k' r' d' bdu' hf' old'"
proof -
  have "kev_bonus k r \<le> kev_bonus k' r'" using assms(4,5) by (auto simp: kev_bonus_def)
  moreover have "urgency_bonus k d \<le> urgency_bonus k' d'" using assms(4,6) by (rule urgency_bonus_mono)
  moreover have "exp (- old / 365) \<le> exp (- old' / 365)" using assms(9) by simp
  moreover have "(if t > 0.10 then 5 else 0 :: real) \<le> (if t' > 0.10 then 5 else 0)" using assms(3) by auto
  moreover have "(if bdu then 5 else 0 :: real) \<le> (if bdu' then 5 else 0)" "(if hf then 2 else 0 :: real) \<le> (if hf' then 2 else 0)"
    using assms(7,8) by auto
  ultimately show ?thesis using assms(1,2) unfolding raw_score_def Let_def by (intro add_mono mult_right_mono) auto
qed

text \<open>
  C40. The priority score is always between 0 and 10, has at most two decimals, and never falls when a
  finding gets worse: a higher CVSS, EPSS or trend, an entry in KEV, BDU or with ransomware, a closer due
  date, a known fix or a younger finding. The documented maximum of 33.25 is exceeded by a KEV entry used
  for ransomware; the score is then cut to 10.
\<close>

theorem priority_score_bounds_mono:
  assumes "b \<le> b'" "e \<le> e'" "t \<le> t'" "k \<longrightarrow> k'" "r \<longrightarrow> r'" "d' \<le> d" "bdu \<longrightarrow> bdu'" "hf \<longrightarrow> hf'" "old' \<le> old"
  shows "0 \<le> CalculatePriorityScore b e t k r d bdu hf old \<and> CalculatePriorityScore b e t k r d bdu hf old \<le> 10 \<and>
    (\<exists>n::int. CalculatePriorityScore b e t k r d bdu hf old = of_int n / 100) \<and>
    CalculatePriorityScore b e t k r d bdu hf old \<le> CalculatePriorityScore b' e' t' k' r' d' bdu' hf' old' \<and>
    33.25 < raw_score 10 1 1 True True (-1) True True 0"
proof (intro conjI)
  show "\<exists>n::int. CalculatePriorityScore b e t k r d bdu hf old = of_int n / 100"
    unfolding CalculatePriorityScore_def Let_def
    using math_Round_int [of "raw_score b e t k r d bdu hf old / 33.25 * 10 * 100"] cut_hundredths by metis
  show "CalculatePriorityScore b e t k r d bdu hf old \<le> CalculatePriorityScore b' e' t' k' r' d' bdu' hf' old'"
    unfolding CalculatePriorityScore_def Let_def using raw_score_mono [OF assms]
    by (intro min.mono max.mono divide_right_mono math_Round_mono mult_right_mono order_refl) auto
  show "33.25 < raw_score 10 1 1 True True (-1) True True 0"
    by (simp add: raw_score_def kev_bonus_def urgency_bonus_def)
qed (simp_all add: CalculatePriorityScore_def Let_def)

theorem priority_score_bounds_mono_witness:
  "CalculatePriorityScore 5 0 0 False False 40 False False 100 \<le> CalculatePriorityScore 9 0 0 True False 3 False False 100"
  using priority_score_bounds_mono [of 5 9 0 0 0 0 False True False False 3 40 False False False False 100 100] by simp

end
