(* ===== verification/AuditLog.thy ===== *)
theory AuditLog
  imports Auth
begin

text \<open>
  The audit log: \<open>internal/storage/audit_log_repo.go\<close>, \<open>internal/api/audit_middleware.go\<close>,
  \<open>internal/api/admin_audit.go\<close> and \<open>internal/audit/writer.go\<close>.

  A handler hands its records to the audit writer; they are the list \<open>w_audit\<close> of the world. What the
  writer's goroutines do with them is the step relation at the end. The tables keep a record as its
  columns: no parsed user agent is a parsed one with empty texts, and the e-mail is read from \<open>users\<close>.
\<close>

section \<open>The repository\<close>

record AuditListFilter =
  af_From :: "time option"
  af_To :: "time option"
  af_UserID :: "uuid option"
  af_ResourceType :: string
  af_ResourceID :: string
  af_Action :: string
  af_Method :: string
  af_StatusMin :: "int option"
  af_RiskLevel :: string
  af_Q :: string
  af_RequestID :: string
  af_TraceID :: string
  af_SessionID :: string
  af_Cursor :: "(time \<times> uuid) option option"
  af_Limit :: int

definition audit_defaults :: "AuditRecord \<Rightarrow> World \<Rightarrow> AuditRecord \<times> World" where
  "audit_defaults rec w =
     (let (rec, w) = (if au_ID rec = uuid_Nil then (case uuid_New w of (i, w) \<Rightarrow> (rec\<lparr>au_ID := i\<rparr>, w)) else (rec, w))
      in (if au_CreatedAt rec = 0 then rec\<lparr>au_CreatedAt := w_now w\<rparr> else rec, w))"

text \<open>The columns of a record.\<close>

definition no_agent :: AuditUAParsed where
  "no_agent = \<lparr>ua_Browser = [], ua_OS = [], ua_IsTor = False, ua_IsVPN = False, ua_IsDatacenter = False, ua_CountryCode = []\<rparr>"

definition no_integrity :: AuditIntegrity where
  "no_integrity = \<lparr>ai_Hash = [], ai_PrevHash = [], ai_Verified = False\<rparr>"

definition audit_row :: "AuditRecord \<Rightarrow> AuditRecord" where
  "audit_row rec = rec\<lparr>
     au_UAParsed := Some (case au_UAParsed rec of None \<Rightarrow> no_agent | Some u \<Rightarrow> u),
     au_Integrity := Some (case au_Integrity rec of None \<Rightarrow> no_integrity | Some i \<Rightarrow> i),
     au_UserEmail := None\<rparr>"

definition audit_key :: "AuditRecord \<Rightarrow> time \<times> uuid" where
  "audit_key r = (au_CreatedAt r, au_ID r)"

definition insert_audit :: "AuditRecord \<Rightarrow> DB \<Rightarrow> err + unit \<times> DB" where
  "insert_audit rec d =
     (if audit_key rec \<in> audit_key ` set (tb_audit d) then Inl ErrUnique
      else if (\<exists>u \<in> set_option (au_UserID rec). u \<notin> u_ID ` set (tb_users d)) then Inl (Err ''violates foreign key constraint'')
      else Inr ((), d\<lparr>tb_audit := tb_audit d @ [audit_row rec]\<rparr>))"

definition AuditLogRepo_Create :: "AuditRecord \<Rightarrow> unit op" where
  "AuditLogRepo_Create rec w = (case audit_defaults rec w of (rec, w) \<Rightarrow> db_exec (insert_audit rec) w)"

text \<open>What a row of the table reads as.\<close>

definition scanAuditRecord :: "DB \<Rightarrow> AuditRecord \<Rightarrow> AuditRecord" where
  "scanAuditRecord d r = r\<lparr>
     au_Integrity := (case au_Integrity r of None \<Rightarrow> None | Some i \<Rightarrow>
       if strings_TrimSpace (ai_Hash i) \<noteq> [] \<or> strings_TrimSpace (ai_PrevHash i) \<noteq> [] then Some i else None),
     au_UserEmail := (case au_UserID r of None \<Rightarrow> None
       | Some u \<Rightarrow> map_option u_Email (find (\<lambda>x. u_ID x = u) (tb_users d)))\<rparr>"

text \<open>The conditions \<open>List\<close> and \<open>ListAfter\<close> share.\<close>

definition audit_where :: "AuditListFilter \<Rightarrow> (AuditRecord \<Rightarrow> bool) list" where
  "audit_where ff =
     (case af_From ff of None \<Rightarrow> [] | Some t \<Rightarrow> [\<lambda>a. au_CreatedAt a \<ge> t]) @
     (case af_To ff of None \<Rightarrow> [] | Some t \<Rightarrow> [\<lambda>a. au_CreatedAt a \<le> t]) @
     (case af_UserID ff of None \<Rightarrow> [] | Some u \<Rightarrow> [\<lambda>a. au_UserID a = Some u]) @
     cond_if (af_ResourceType ff \<noteq> []) (\<lambda>a. au_ResourceType a = Some (af_ResourceType ff)) @
     cond_if (af_ResourceID ff \<noteq> []) (\<lambda>a. au_ResourceID a = Some (af_ResourceID ff)) @
     cond_if (af_Action ff \<noteq> []) (\<lambda>a. au_Action a = Some (af_Action ff)) @
     cond_if (af_Method ff \<noteq> []) (\<lambda>a. au_Method a = strings_ToUpper (af_Method ff)) @
     (case af_StatusMin ff of None \<Rightarrow> [] | Some n \<Rightarrow> [\<lambda>a. au_StatusCode a \<ge> n]) @
     cond_if (af_RiskLevel ff \<noteq> []) (\<lambda>a. au_RiskLevel a = af_RiskLevel ff) @
     cond_if (af_RequestID ff \<noteq> []) (\<lambda>a. au_RequestID a = af_RequestID ff) @
     cond_if (af_TraceID ff \<noteq> []) (\<lambda>a. au_TraceID a = af_TraceID ff) @
     cond_if (af_SessionID ff \<noteq> []) (\<lambda>a. au_SessionID a = af_SessionID ff) @
     cond_if (af_Q ff \<noteq> []) (\<lambda>a. let pat = ''%'' @ af_Q ff @ ''%'' in
       ILIKE (au_Path a) pat \<or> ILIKE (au_UserAgent a) pat \<or> ILIKE (au_RequestID a) pat)"

definition audit_limit :: "int \<Rightarrow> nat" where
  "audit_limit n = (if n \<le> 0 \<or> n > 200 then 50 else nat n)"

text \<open>Newest first; one row more than the limit tells whether there is a next page.\<close>

definition AuditLogRepo_List :: "AuditListFilter \<Rightarrow> (AuditRecord list \<times> (time \<times> uuid) option) op" where
  "AuditLogRepo_List ff w =
     (let limit = audit_limit (af_Limit ff) in
      case af_Cursor ff of
        Some None \<Rightarrow> (Inl (Err ''storage.AuditLogRepo.List: invalid cursor''), w)
      | cur \<Rightarrow>
          let cursor = (case cur of Some (Some c) \<Rightarrow> [\<lambda>a. audit_key a < c] | _ \<Rightarrow> [])
          in case db_query (\<lambda>d. map (scanAuditRecord d) (take (limit + 1) (order_rows False audit_key
                 (filter (whereClause (audit_where ff @ cursor)) (tb_audit d))))) w of
            (Inl e, w) \<Rightarrow> (Inl e, w)
          | (Inr out, w) \<Rightarrow>
              if length out > limit then (Inr (take limit out, Some (audit_key (out ! (limit - 1)))), w)
              else (Inr (out, None), w))"

definition AuditLogRepo_ListAfter :: "AuditListFilter \<Rightarrow> time \<Rightarrow> uuid \<Rightarrow> int \<Rightarrow> AuditRecord list op" where
  "AuditLogRepo_ListAfter ff afterCreatedAt afterID want =
     (let limit = (if want \<le> 0 \<or> want > 200 then 100 else nat want) in
      db_query (\<lambda>d. map (scanAuditRecord d) (take limit (order_rows True audit_key
        (filter (whereClause (audit_where ff @ [\<lambda>a. audit_key a > (afterCreatedAt, afterID)])) (tb_audit d))))))"

definition latest_audit :: "uuid \<Rightarrow> DB \<Rightarrow> AuditRecord option" where
  "latest_audit i d = (case order_rows False au_CreatedAt (filter (\<lambda>a. au_ID a = i) (tb_audit d)) of
     [] \<Rightarrow> None | r # _ \<Rightarrow> Some r)"

definition AuditLogRepo_GetByID :: "uuid \<Rightarrow> AuditRecord op" where
  "AuditLogRepo_GetByID i w =
     (case db_query_row (\<lambda>d. map_option (scanAuditRecord d) (latest_audit i d)) w of
        (Inl e, w) \<Rightarrow> (Inl (if e = ErrNoRows then Err ''storage.AuditLogRepo.GetByID: not found'' else e), w)
      | (Inr r, w) \<Rightarrow> (Inr r, w))"

definition AuditLogRepo_GetDiff :: "uuid \<Rightarrow> AuditChange list op" where
  "AuditLogRepo_GetDiff i w =
     (case db_query_row (\<lambda>d. map_option au_Changes (latest_audit i d)) w of
        (Inl e, w) \<Rightarrow> (Inl (if e = ErrNoRows then Err ''storage.AuditLogRepo.GetDiff: not found'' else e), w)
      | (Inr r, w) \<Rightarrow> (Inr r, w))"

text \<open>The records of the same trace or session.\<close>

definition AuditLogRepo_ListRelated :: "uuid \<Rightarrow> int \<Rightarrow> AuditRecord list op" where
  "AuditLogRepo_ListRelated i want =
     (let limit = (if want \<le> 0 \<or> want > 20 then 10 else nat want) in
      db_query (\<lambda>d. case latest_audit i d of
          None \<Rightarrow> []
        | Some b \<Rightarrow> map (scanAuditRecord d) (take limit (order_rows False audit_key
            (filter (\<lambda>a. au_ID a \<noteq> i \<and>
               (au_TraceID b \<noteq> [] \<and> au_TraceID a = au_TraceID b \<or> au_SessionID b \<noteq> [] \<and> au_SessionID a = au_SessionID b))
             (tb_audit d))))))"

section \<open>Statistics\<close>

record AuditHourStat =
  ah_Hour :: time
  ah_Total :: nat
  ah_ErrorCount :: nat
  ah_ErrorRatio :: real
  ah_Success2xx :: nat
  ah_Redirect3xx :: nat
  ah_Client4xx :: nat
  ah_Server5xx :: nat

record AuditStats =
  as_From :: time
  as_To :: time
  as_Events24h :: nat
  as_UniqueUsers24h :: nat
  as_Errors24h :: nat
  as_Critical24h :: nat
  as_PrevEvents24h :: nat
  as_PrevUnique24h :: nat
  as_PrevErrors24h :: nat
  as_PrevCritical24h :: nat
  as_Histogram :: "AuditHourStat list"

definition count_rows :: "('a \<Rightarrow> bool) \<Rightarrow> 'a list \<Rightarrow> nat" where
  "count_rows P rows = length (filter P rows)"

definition distinct_users :: "AuditRecord list \<Rightarrow> nat" where
  "distinct_users rows = length (remdups (concat (map (\<lambda>a. case au_UserID a of None \<Rightarrow> [] | Some u \<Rightarrow> [u]) rows)))"

definition is_critical :: "AuditRecord \<Rightarrow> bool" where
  "is_critical a \<longleftrightarrow> au_RiskLevel a \<in> {''high'', ''critical''}"

definition date_trunc_hour :: "time \<Rightarrow> time" where
  "date_trunc_hour t = t div time_Hour * time_Hour"

text \<open>\<open>generate_series\<close> of the hours from the first to the last.\<close>

definition hour_series :: "time \<Rightarrow> time \<Rightarrow> time list" where
  "hour_series from_ts to_ts =
     map (\<lambda>n. date_trunc_hour from_ts + int n * time_Hour)
       [0..<nat ((date_trunc_hour to_ts - date_trunc_hour from_ts) div time_Hour + 1)]"

definition hour_stat :: "AuditRecord list \<Rightarrow> time \<Rightarrow> AuditHourStat" where
  "hour_stat rows b =
     (let hour = filter (\<lambda>a. date_trunc_hour (au_CreatedAt a) = b) rows;
          status_in = (\<lambda>lo hi. count_rows (\<lambda>a. lo \<le> au_StatusCode a \<and> au_StatusCode a < hi) hour);
          errors = count_rows (\<lambda>a. au_StatusCode a \<ge> 400) hour
      in \<lparr>ah_Hour = b, ah_Total = length hour, ah_ErrorCount = errors,
          ah_ErrorRatio = (if length hour = 0 then 0 else real errors / real (length hour)),
          ah_Success2xx = status_in 200 300, ah_Redirect3xx = status_in 300 400, ah_Client4xx = status_in 400 500,
          ah_Server5xx = count_rows (\<lambda>a. au_StatusCode a \<ge> 500) hour\<rparr>)"

definition AuditLogRepo_Stats :: "time \<Rightarrow> time \<Rightarrow> AuditStats op" where
  "AuditLogRepo_Stats from_ts to_ts w =
     (if to_ts < from_ts then (Inl (Err ''storage.AuditLogRepo.Stats: invalid range''), w)
      else
        let cur = (\<lambda>d. filter (\<lambda>a. from_ts \<le> au_CreatedAt a \<and> au_CreatedAt a \<le> to_ts) (tb_audit d));
            prev = (\<lambda>d. filter (\<lambda>a. from_ts - (to_ts - from_ts) \<le> au_CreatedAt a \<and> au_CreatedAt a < from_ts) (tb_audit d))
        in case db_query (\<lambda>d. (cur d, prev d)) w of
          (Inl e, w) \<Rightarrow> (Inl e, w)
        | (Inr (c, p), w) \<Rightarrow>
            (case db_query (\<lambda>d. map (hour_stat (cur d)) (hour_series from_ts to_ts)) w of
               (Inl e, w) \<Rightarrow> (Inl e, w)
             | (Inr hist, w) \<Rightarrow>
                 (Inr \<lparr>as_From = from_ts, as_To = to_ts,
                    as_Events24h = length c, as_UniqueUsers24h = distinct_users c,
                    as_Errors24h = count_rows (\<lambda>a. au_StatusCode a \<ge> 400) c, as_Critical24h = count_rows is_critical c,
                    as_PrevEvents24h = length p, as_PrevUnique24h = distinct_users p,
                    as_PrevErrors24h = count_rows (\<lambda>a. au_StatusCode a \<ge> 400) p, as_PrevCritical24h = count_rows is_critical p,
                    as_Histogram = hist\<rparr>, w)))"

section \<open>The middleware\<close>

text \<open>How ids and times print, which the code leaves to the libraries.\<close>

record Formats =
  fm_UUID :: "uuid \<Rightarrow> string"
  fm_Time :: "time \<Rightarrow> string"

definition Submit :: "AuditRecord \<Rightarrow> World \<Rightarrow> World" where
  "Submit rec w = w\<lparr>w_audit := w_audit w @ [rec]\<rparr>"

definition maskIP :: "string \<Rightarrow> string" where
  "maskIP ip = (case strings_Split ip (CHR ''.'') of
     [a, b, c, _] \<Rightarrow> strings_Join [a, b, c, ''x''] ''.''
   | _ \<Rightarrow> ip)"

definition singularize :: "string \<Rightarrow> string" where
  "singularize s =
     (if s = ''findings'' then ''finding'' else if s = ''projects'' then ''project''
      else if s = ''users'' then ''user'' else if s = ''comments'' then ''comment''
      else strings_TrimSuffix s ''s'')"

definition ptrOrNil :: "string \<Rightarrow> string option" where
  "ptrOrNil s = (if strings_TrimSpace s = [] then None else Some s)"

definition resource_action :: "string \<Rightarrow> string \<Rightarrow> string" where
  "resource_action lastpart method =
     (if strings_HasPrefix lastpart ''{'' then
        (if method = ''POST'' then ''create''
         else if method = ''PUT'' \<or> method = ''PATCH'' then ''update''
         else if method = ''DELETE'' then ''delete'' else [])
      else if lastpart = ''close'' then ''close''
      else if lastpart = ''reopen'' then ''reopen''
      else if lastpart = ''assign'' then (if method = ''DELETE'' then ''unassign'' else ''assign'')
      else if lastpart = ''comments'' then ''comment''
      else if lastpart = ''status'' then ''change_status''
      else if lastpart = ''members'' then ''manage_members''
      else if method = ''POST'' then ''create'' else [])"

text \<open>Type, id and action of the resource a route is about; empty when unknown.\<close>

definition parseResource :: "HttpRequest \<Rightarrow> string \<times> string \<times> string" where
  "parseResource h =
     (let parts = strings_Split (strings_TrimPrefix (h_RoutePattern h) ''/api/v1/'') (CHR ''/'');
          resID = (if h_URLParam h ''id'' \<noteq> [] then h_URLParam h ''id'' else h_URLParam h ''event_id'')
      in (singularize (hd parts), resID, resource_action (last parts) (h_Method h)))"

definition deriveAuditRisk :: "string \<Rightarrow> int \<Rightarrow> string \<times> string list" where
  "deriveAuditRisk method status =
     (let deleted = method = ''DELETE''; client = 400 \<le> status \<and> status < 500; server = status \<ge> 500;
          level = (if deleted then ''high'' else ''low'');
          level = (if client \<and> level = ''low'' then ''medium'' else level);
          level = (if server then ''critical'' else level)
      in (level, (if deleted then [''delete_action''] else []) @ (if client then [''client_error''] else []) @
            (if server then [''server_error''] else [])))"

definition parseUserAgent :: "string \<Rightarrow> AuditUAParsed" where
  "parseUserAgent raw =
     (let ua = strings_ToLower raw; has = strings_Contains ua
      in no_agent\<lparr>
        ua_Browser := (if has ''edg'' then ''Edge'' else if has ''firefox'' then ''Firefox''
          else if has ''chrome'' then ''Chrome'' else if has ''safari'' then ''Safari'' else ''Unknown''),
        ua_OS := (if has ''windows'' then ''Windows'' else if has ''mac os'' \<or> has ''macintosh'' then ''macOS''
          else if has ''android'' then ''Android'' else if has ''iphone'' \<or> has ''ipad'' then ''iOS''
          else if has ''linux'' then ''Linux'' else ''Unknown'')\<rparr>)"

definition inferAuditChanges :: "AuditRecord \<Rightarrow> AuditChange list" where
  "inferAuditChanges rec =
     (if au_Changes rec \<noteq> [] then au_Changes rec
      else case (au_Action rec, au_ResourceType rec, au_ResourceID rec) of
        (Some action, Some rt, Some ri) \<Rightarrow>
          if au_StatusCode rec \<ge> 400 then []
          else
            let resource = JsonObject [(''id'', JsonString ri), (''type'', JsonString rt)] in
            if action = ''create'' then [\<lparr>ac_Field = ''resource'', ac_Before = JsonNull, ac_After = resource, ac_PII = False\<rparr>]
            else if action = ''delete'' then [\<lparr>ac_Field = ''resource'', ac_Before = resource, ac_After = JsonNull, ac_PII = False\<rparr>]
            else []
      | _ \<Rightarrow> [])"

text \<open>The fields of the request every audit record starts from.\<close>

definition request_record :: "bool \<Rightarrow> HttpRequest \<Rightarrow> uuid \<Rightarrow> time \<Rightarrow> AuditRecord" where
  "request_record trustProxy h i now =
     \<lparr>au_ID = i, au_RequestID = h_RequestID h, au_TraceID = strings_TrimSpace (h_TraceID h), au_SessionID = [],
      au_Method = h_Method h, au_Path = h_Path h, au_FullPath = h_FullPath h, au_StatusCode = 200,
      au_UserAgent = h_UserAgent h, au_UAParsed = None, au_DurationMs = 0, au_CreatedAt = now,
      au_IP = (let ip = extractIP trustProxy h in if strings_TrimSpace ip \<noteq> [] then Some (maskIP ip) else None),
      au_UserID = None, au_ResourceType = None, au_ResourceID = None, au_Action = None, au_RiskLevel = [],
      au_RiskSignals = [], au_Changes = [], au_Integrity = None, au_UserEmail = None\<rparr>"

definition middleware_record :: "Formats \<Rightarrow> bool \<Rightarrow> HttpRequest \<Rightarrow> Request \<Rightarrow> int \<Rightarrow> time \<Rightarrow> uuid \<Rightarrow> time \<Rightarrow> AuditRecord" where
  "middleware_record fm trustProxy h rq status start i now =
     (let (riskLevel, riskSignals) = deriveAuditRisk (h_Method h) status;
          (rt, rid, act) = parseResource h;
          rec = (request_record trustProxy h i now)\<lparr>
            au_StatusCode := status, au_UAParsed := Some (parseUserAgent (h_UserAgent h)),
            au_DurationMs := (now - start) div (time_Second div 1000),
            au_RiskLevel := riskLevel, au_RiskSignals := riskSignals,
            au_UserID := map_option u_ID (rq_User rq),
            au_SessionID := (case rq_Session rq of None \<Rightarrow> [] | Some s \<Rightarrow> fm_UUID fm (s_ID s)),
            au_ResourceType := ptrOrNil rt, au_ResourceID := ptrOrNil rid, au_Action := ptrOrNil act\<rparr>
      in rec\<lparr>au_Changes := inferAuditChanges rec\<rparr>)"

text \<open>A panic of the handler runs through to the recovery middleware outside: nothing is submitted.\<close>

definition AuditMiddleware :: "Formats \<Rightarrow> bool \<Rightarrow> HttpRequest \<Rightarrow> handler \<Rightarrow> handler" where
  "AuditMiddleware fm trustProxy h next rq w =
     (if h_Method h \<in> {''HEAD'', ''OPTIONS''} \<or> strings_HasPrefix (h_Path h) ''/api/v1/auth/'' \<or>
         strings_HasPrefix (h_Path h) ''/api/v1/admin/audit/stream'' then next rq w
      else case next rq w of
        (Panic, w') \<Rightarrow> (Panic, w')
      | (Response status b, w') \<Rightarrow>
          (case uuid_New w' of (i, w') \<Rightarrow>
             (Response status b,
              Submit (middleware_record fm trustProxy h rq (int status) (w_now w) i (w_now w')) w')))"

section \<open>Handlers\<close>

text \<open>The texts of the query string and how they parse; \<open>qs_Get\<close> is empty for a missing parameter.\<close>

record Query =
  qs_Get :: "string \<Rightarrow> string"
  qs_Time :: "string \<Rightarrow> time option"
  qs_UUID :: "string \<Rightarrow> uuid option"
  qs_Cursor :: "string \<Rightarrow> (time \<times> uuid) option"

text \<open>An optional parameter: absent when blank, an error when it does not parse.\<close>

definition optional_param :: "Query \<Rightarrow> string \<Rightarrow> (string \<Rightarrow> 'a option) \<Rightarrow> string + 'a option" where
  "optional_param q name parse =
     (let raw = strings_TrimSpace (qs_Get q name) in
      if raw = [] then Inr None
      else case parse raw of None \<Rightarrow> Inl (''invalid '' @ name) | Some v \<Rightarrow> Inr (Some v))"

definition parseAuditFilter :: "Query \<Rightarrow> string + AuditListFilter" where
  "parseAuditFilter q =
     (let text = (\<lambda>name. strings_TrimSpace (qs_Get q name)) in
      case optional_param q ''limit'' strconv_Atoi of Inl e \<Rightarrow> Inl e
    | Inr limit \<Rightarrow> (case optional_param q ''from'' (qs_Time q) of Inl e \<Rightarrow> Inl e
    | Inr from_ts \<Rightarrow> (case optional_param q ''to'' (qs_Time q) of Inl e \<Rightarrow> Inl e
    | Inr to_ts \<Rightarrow> (case optional_param q ''user_id'' (qs_UUID q) of Inl e \<Rightarrow> Inl e
    | Inr user \<Rightarrow> (case optional_param q ''status_min'' strconv_Atoi of Inl e \<Rightarrow> Inl e
    | Inr status_min \<Rightarrow>
        Inr \<lparr>af_From = from_ts, af_To = to_ts, af_UserID = user, af_ResourceType = text ''resource_type'',
          af_ResourceID = text ''resource_id'', af_Action = text ''action'', af_Method = text ''method'',
          af_StatusMin = status_min, af_RiskLevel = text ''risk_level'', af_Q = text ''q'',
          af_RequestID = text ''request_id'', af_TraceID = text ''trace_id'', af_SessionID = text ''session_id'',
          af_Cursor = (if text ''cursor'' = [] then None else Some (qs_Cursor q (text ''cursor''))),
          af_Limit = (case limit of None \<Rightarrow> 50 | Some n \<Rightarrow> n)\<rparr>)))))"

definition canGroupAuditEvents :: "AuditRecord \<Rightarrow> AuditRecord \<Rightarrow> bool" where
  "canGroupAuditEvents a b \<longleftrightarrow>
     au_UserID a \<noteq> None \<and> au_UserID b = au_UserID a \<and> au_Method a = au_Method b \<and>
     au_Action a \<noteq> None \<and> au_Action b = au_Action a \<and>
     au_ResourceType a \<noteq> None \<and> au_ResourceType b = au_ResourceType a \<and>
     au_ResourceID a \<noteq> None \<and> au_ResourceID b = au_ResourceID a \<and>
     \<bar>au_CreatedAt a - au_CreatedAt b\<bar> \<le> 30 * time_Second"

record auditFeedGroup =
  fg_Kind :: string
  fg_Count :: nat
  fg_FirstTimestamp :: time
  fg_LastTimestamp :: time
  fg_Sample :: AuditRecord
  fg_Events :: "AuditRecord list"

datatype feed_item = FeedGroup auditFeedGroup | FeedRecord AuditRecord

text \<open>The longest run after the current record, compared with the current record.\<close>

function groupAuditFeed :: "AuditRecord list \<Rightarrow> feed_item list" where
  "groupAuditFeed [] = []"
| "groupAuditFeed (a # as) =
     (let ev = a # takeWhile (canGroupAuditEvents a) as in
      if length ev \<ge> 3
      then FeedGroup \<lparr>fg_Kind = ''group'', fg_Count = length ev, fg_FirstTimestamp = au_CreatedAt a,
             fg_LastTimestamp = au_CreatedAt (last ev), fg_Sample = a, fg_Events = ev\<rparr> #
           groupAuditFeed (dropWhile (canGroupAuditEvents a) as)
      else FeedRecord a # groupAuditFeed as)"
  by pat_completeness auto
termination by (relation "measure length") (auto simp: le_imp_less_Suc length_dropWhile_le)

text \<open>A listing handler answers with the items, their number and the cursor of the next page.\<close>

definition handleListAuditLog :: "Query \<Rightarrow> World \<Rightarrow> (response + feed_item list \<times> nat \<times> (time \<times> uuid) option) \<times> World" where
  "handleListAuditLog q w =
     (case parseAuditFilter q of
        Inl msg \<Rightarrow> (Inl (respondError 400 ''VALIDATION_ERROR'' msg), w)
      | Inr ff \<Rightarrow>
          (case AuditLogRepo_List ff w of
             (Inl e, w) \<Rightarrow> (Inl (respondError 500 ''INTERNAL_ERROR'' ''failed to list audit''), w)
           | (Inr (items, nxt), w) \<Rightarrow>
               if strings_EqualFold (strings_TrimSpace (qs_Get q ''grouped'')) ''true''
               then (Inr (groupAuditFeed items, length items, nxt), w)
               else (Inr (map FeedRecord items, length items, nxt), w)))"

definition mask_change :: "AuditChange \<Rightarrow> AuditChange" where
  "mask_change c = (if ac_PII c then c\<lparr>ac_Before := JsonString ''***'', ac_After := JsonString ''***''\<rparr> else c)"

definition handleGetAuditDiff :: "uuid option \<Rightarrow> World \<Rightarrow> (response + AuditChange list) \<times> World" where
  "handleGetAuditDiff param w =
     (case param of
        None \<Rightarrow> (Inl (respondError 400 ''VALIDATION_ERROR'' ''invalid id''), w)
      | Some i \<Rightarrow>
          (case AuditLogRepo_GetDiff i w of
             (Inl e, w) \<Rightarrow> (Inl (respondError 404 ''NOT_FOUND'' ''audit event not found''), w)
           | (Inr changes, w) \<Rightarrow> (Inr (map mask_change changes), w)))"

definition handleGetAuditEvent :: "uuid option \<Rightarrow> World \<Rightarrow> (response + AuditRecord) \<times> World" where
  "handleGetAuditEvent param w =
     (case param of
        None \<Rightarrow> (Inl (respondError 400 ''VALIDATION_ERROR'' ''invalid id''), w)
      | Some i \<Rightarrow>
          (case AuditLogRepo_GetByID i w of
             (Inl e, w) \<Rightarrow> (Inl (respondError 404 ''NOT_FOUND'' ''audit event not found''), w)
           | (Inr r, w) \<Rightarrow> (Inr r, w)))"

definition handleGetRelatedAuditEvents :: "uuid option \<Rightarrow> string \<Rightarrow> World \<Rightarrow> (response + AuditRecord list) \<times> World" where
  "handleGetRelatedAuditEvents param rawLimit w =
     (case param of
        None \<Rightarrow> (Inl (respondError 400 ''VALIDATION_ERROR'' ''invalid id''), w)
      | Some i \<Rightarrow>
          (case (if strings_TrimSpace rawLimit = [] then Some 10 else strconv_Atoi (strings_TrimSpace rawLimit)) of
             None \<Rightarrow> (Inl (respondError 400 ''VALIDATION_ERROR'' ''invalid limit''), w)
           | Some limit \<Rightarrow>
               (case AuditLogRepo_ListRelated i limit w of
                  (Inl e, w) \<Rightarrow> (Inl (respondError 500 ''INTERNAL_ERROR'' ''failed to list related events''), w)
                | (Inr items, w) \<Rightarrow> (Inr items, w))))"

definition handleAuditStats :: "Query \<Rightarrow> World \<Rightarrow> (response + AuditStats) \<times> World" where
  "handleAuditStats q w =
     (case optional_param q ''from'' (qs_Time q) of
        Inl msg \<Rightarrow> (Inl (respondError 400 ''VALIDATION_ERROR'' msg), w)
      | Inr from_ts \<Rightarrow> (case optional_param q ''to'' (qs_Time q) of
          Inl msg \<Rightarrow> (Inl (respondError 400 ''VALIDATION_ERROR'' msg), w)
        | Inr to_ts \<Rightarrow>
            (case AuditLogRepo_Stats (case from_ts of None \<Rightarrow> w_now w - 24 * time_Hour | Some t \<Rightarrow> t)
                (case to_ts of None \<Rightarrow> w_now w | Some t \<Rightarrow> t) w of
               (Inl e, w) \<Rightarrow> (Inl (respondError 500 ''INTERNAL_ERROR'' ''failed to build audit stats''), w)
             | (Inr stats, w) \<Rightarrow> (Inr stats, w))))"

section \<open>Export and stream\<close>

text \<open>
  The loop of an export: page after page until a page comes without a cursor or a query fails, where the
  output just ends. The result is the records written; it is \<open>None\<close> when the loop does not end.
\<close>

partial_function (option) export_loop :: "AuditListFilter \<Rightarrow> AuditRecord list \<Rightarrow> World \<Rightarrow> (AuditRecord list \<times> World) option" where
  "export_loop ff out w =
     (case AuditLogRepo_List ff w of
        (Inl e, w) \<Rightarrow> Some (out, w)
      | (Inr (items, nxt), w) \<Rightarrow>
          (case nxt of
             None \<Rightarrow> Some (out @ items, w)
           | Some c \<Rightarrow> export_loop (ff\<lparr>af_Cursor := Some (Some c)\<rparr>) (out @ items) w))"

definition csv_row :: "Formats \<Rightarrow> AuditRecord \<Rightarrow> string list" where
  "csv_row fm a =
     [fm_UUID fm (au_ID a), fm_Time fm (au_CreatedAt a), (case au_UserEmail a of None \<Rightarrow> [] | Some s \<Rightarrow> s),
      au_Method a, au_FullPath a, strconv_Itoa (au_StatusCode a),
      (case au_ResourceType a of None \<Rightarrow> [] | Some s \<Rightarrow> s), (case au_Action a of None \<Rightarrow> [] | Some s \<Rightarrow> s),
      au_RequestID a, au_TraceID a, au_SessionID a, au_RiskLevel a]"

datatype export = ExportError response | ExportCSV "string list list" | ExportNDJSON "AuditRecord list"

definition csv_header :: "string list" where
  "csv_header = [''id'', ''timestamp'', ''user_email'', ''method'', ''path'', ''status'', ''resource'', ''action'',
     ''request_id'', ''trace_id'', ''session_id'', ''risk_level'']"

definition handleAuditExport :: "Formats \<Rightarrow> Query \<Rightarrow> World \<Rightarrow> (export \<times> World) option" where
  "handleAuditExport fm q w =
     (case parseAuditFilter q of
        Inl msg \<Rightarrow> Some (ExportError (respondError 400 ''VALIDATION_ERROR'' msg), w)
      | Inr ff \<Rightarrow>
          let format = strings_ToLower (strings_TrimSpace (qs_Get q ''format'')) in
          if format \<noteq> ''csv'' \<and> format \<noteq> ''ndjson''
          then Some (ExportError (respondError 400 ''VALIDATION_ERROR'' ''format must be csv or ndjson''), w)
          else map_option (\<lambda>(rows, w).
                 (if format = ''csv'' then ExportCSV (csv_header # map (csv_row fm) rows) else ExportNDJSON rows, w))
                 (export_loop (ff\<lparr>af_Limit := 200\<rparr>) [] w))"

text \<open>
  The stream: where it starts, and one tick of its timer, which sends the records behind the last one
  sent and remembers the last one. \<open>None\<close> ends the stream.
\<close>

definition stream_start :: "uuid option \<Rightarrow> World \<Rightarrow> (time \<times> uuid) \<times> World" where
  "stream_start lastEventID w =
     (let start = (w_now w - 3 * time_Second, uuid_Nil) in
      case lastEventID of
        None \<Rightarrow> (start, w)
      | Some i \<Rightarrow>
          (case AuditLogRepo_GetByID i w of
             (Inl e, w) \<Rightarrow> (start, w)
           | (Inr ev, w) \<Rightarrow> ((au_CreatedAt ev, i), w)))"

definition stream_tick :: "AuditListFilter \<Rightarrow> time \<times> uuid \<Rightarrow> World \<Rightarrow> (AuditRecord list \<times> (time \<times> uuid)) option \<times> World" where
  "stream_tick ff pos w =
     (case AuditLogRepo_ListAfter ff (fst pos) (snd pos) 100 w of
        (Inl e, w) \<Rightarrow> (None, w)
      | (Inr items, w) \<Rightarrow> (Some (items, if items = [] then pos else audit_key (last items)), w))"

end
