(* ===== verification/AuditWriter.thy ===== *)
theory AuditWriter
  imports AuditLog "HOL-Library.Multiset"
begin

text \<open>
  The audit writer of \<open>internal/audit/writer.go\<close> as a step relation: submitters, the goroutine that
  drains the channel, the goroutines started when the channel is full, and \<open>Close\<close>, in any interleaving.

  A submitter checks \<open>dead\<close> under the lock, releases the lock, and then sends: two steps. Taking a record
  from the channel and storing it is one step of the draining goroutine, whose end \<open>Close\<close> waits for.
\<close>

section \<open>The writer\<close>

record Writer =
  wr_ch :: "AuditRecord list"
  wr_dead :: bool
  wr_checked :: "AuditRecord list"
  wr_direct :: "AuditRecord list"
  wr_tried :: "AuditRecord list"
  wr_panicked :: "AuditRecord list"
  wr_world :: World

definition NewWriter :: "World \<Rightarrow> Writer" where
  "NewWriter w = \<lparr>wr_ch = [], wr_dead = False, wr_checked = [], wr_direct = [], wr_tried = [], wr_panicked = [], wr_world = w\<rparr>"

definition writer_capacity :: nat where "writer_capacity = 1024"

text \<open>One call of \<open>Create\<close>, whose error is dropped.\<close>

definition store :: "AuditRecord \<Rightarrow> Writer \<Rightarrow> Writer" where
  "store r s = s\<lparr>wr_tried := wr_tried s @ [r], wr_world := snd (AuditLogRepo_Create r (wr_world s))\<rparr>"

datatype writer_event =
    Checked AuditRecord
  | Refused AuditRecord
  | Queued AuditRecord
  | Spawned AuditRecord
  | SendPanic AuditRecord
  | Drained AuditRecord
  | Direct AuditRecord
  | Closed

inductive writer_step :: "Writer \<Rightarrow> writer_event \<Rightarrow> Writer \<Rightarrow> bool" where
  check: "\<not> wr_dead s \<Longrightarrow> writer_step s (Checked r) (s\<lparr>wr_checked := wr_checked s @ [r]\<rparr>)"
| refuse: "wr_dead s \<Longrightarrow> writer_step s (Refused r) s"
| queue: "wr_checked s = xs @ r # ys \<Longrightarrow> \<not> wr_dead s \<Longrightarrow> length (wr_ch s) < writer_capacity \<Longrightarrow>
    writer_step s (Queued r) (s\<lparr>wr_checked := xs @ ys, wr_ch := wr_ch s @ [r]\<rparr>)"
| spawn: "wr_checked s = xs @ r # ys \<Longrightarrow> \<not> wr_dead s \<Longrightarrow> \<not> length (wr_ch s) < writer_capacity \<Longrightarrow>
    writer_step s (Spawned r) (s\<lparr>wr_checked := xs @ ys, wr_direct := wr_direct s @ [r]\<rparr>)"
| send_closed: "wr_checked s = xs @ r # ys \<Longrightarrow> wr_dead s \<Longrightarrow>
    writer_step s (SendPanic r) (s\<lparr>wr_checked := xs @ ys, wr_panicked := wr_panicked s @ [r]\<rparr>)"
| drain: "wr_ch s = r # rs \<Longrightarrow> writer_step s (Drained r) (store r (s\<lparr>wr_ch := rs\<rparr>))"
| direct: "wr_direct s = xs @ r # ys \<Longrightarrow> writer_step s (Direct r) (store r (s\<lparr>wr_direct := xs @ ys\<rparr>))"
| close: "\<not> wr_dead s \<Longrightarrow> writer_step s Closed (s\<lparr>wr_dead := True\<rparr>)"

inductive_cases writer_stepE: "writer_step s e s'"

inductive writer_run :: "Writer \<Rightarrow> writer_event list \<Rightarrow> Writer \<Rightarrow> bool" where
  start: "writer_run s [] s"
| step: "writer_run s es s' \<Longrightarrow> writer_step s' e s'' \<Longrightarrow> writer_run s (es @ [e]) s''"

text \<open>The records whose submitter saw an open writer.\<close>

fun accepted_event :: "writer_event \<Rightarrow> AuditRecord list" where
  "accepted_event (Checked r) = [r]"
| "accepted_event _ = []"

definition accepted :: "writer_event list \<Rightarrow> AuditRecord list" where
  "accepted es = concat (map accepted_event es)"

lemma accepted_simps [simp]: "accepted [] = []" "accepted (es @ [e]) = accepted es @ accepted_event e"
  by (simp_all add: accepted_def)

section \<open>Where a record is\<close>

definition in_flight :: "Writer \<Rightarrow> AuditRecord multiset" where
  "in_flight s = mset (wr_checked s) + mset (wr_ch s) + mset (wr_direct s)"

definition kept :: "Writer \<Rightarrow> AuditRecord multiset" where
  "kept s = in_flight s + mset (wr_tried s) + mset (wr_panicked s)"

lemma store_simps [simp]:
  "wr_ch (store r s) = wr_ch s" "wr_dead (store r s) = wr_dead s" "wr_checked (store r s) = wr_checked s"
  "wr_direct (store r s) = wr_direct s" "wr_tried (store r s) = wr_tried s @ [r]"
  "wr_panicked (store r s) = wr_panicked s" "wr_world (store r s) = snd (AuditLogRepo_Create r (wr_world s))"
  by (simp_all add: store_def)

text \<open>The abstract writer is a bag: a step adds the record accepted, or only moves records.\<close>

lemma kept_step: "writer_step s e s' \<Longrightarrow> kept s' = kept s + mset (accepted_event e)"
  by (erule writer_stepE) (auto simp: kept_def in_flight_def)

lemma kept_run: "writer_run s es s' \<Longrightarrow> kept s' = kept s + mset (accepted es)"
  by (induction rule: writer_run.induct) (simp_all add: kept_step)

lemma capacity_step: "writer_step s e s' \<Longrightarrow> length (wr_ch s) \<le> writer_capacity \<Longrightarrow> length (wr_ch s') \<le> writer_capacity"
  by (erule writer_stepE) auto

lemma capacity_run: "writer_run s es s' \<Longrightarrow> length (wr_ch s) \<le> writer_capacity \<Longrightarrow> length (wr_ch s') \<le> writer_capacity"
  by (induction rule: writer_run.induct) (simp_all add: capacity_step)

lemma accepted_kept:
  assumes "writer_run (NewWriter w) es s"
  shows "mset (accepted es) = in_flight s + mset (wr_tried s) + mset (wr_panicked s)"
  using kept_run [OF assms] by (simp add: kept_def in_flight_def NewWriter_def)


section \<open>What is stored\<close>

text \<open>A record as the middleware makes it: with an id and a time, of a known user or none.\<close>

definition proper_record :: "DB \<Rightarrow> AuditRecord \<Rightarrow> bool" where
  "proper_record d r \<longleftrightarrow> au_ID r \<noteq> uuid_Nil \<and> au_CreatedAt r \<noteq> 0 \<and> (\<forall>u. au_UserID r = Some u \<longrightarrow> u \<in> u_ID ` set (tb_users d))"

lemma audit_key_row [simp]: "audit_key (audit_row r) = audit_key r"
  by (simp add: audit_key_def audit_row_def)

lemma Create_proper:
  assumes "proper_record (w_db w) r" and "audit_key r \<notin> audit_key ` set (tb_audit (w_db w))" and "w_faults w = []"
  shows "AuditLogRepo_Create r w = (Inr (), w\<lparr>w_db := (w_db w)\<lparr>tb_audit := tb_audit (w_db w) @ [audit_row r]\<rparr>\<rparr>)"
  using assms by (auto simp: AuditLogRepo_Create_def audit_defaults_def insert_audit_def proper_record_def)

text \<open>The table of a fault-free database follows the records tried, as long as their keys differ.\<close>

definition follows :: "World \<Rightarrow> Writer \<Rightarrow> bool" where
  "follows w s \<longleftrightarrow> w_faults (wr_world s) = [] \<and> tb_users (w_db (wr_world s)) = tb_users (w_db w) \<and>
     tb_audit (w_db (wr_world s)) = tb_audit (w_db w) @ map audit_row (wr_tried s)"

lemma follows_store:
  assumes "follows w s" and "proper_record (w_db w) r"
    and "audit_key r \<notin> audit_key ` set (tb_audit (w_db w))" and "audit_key r \<notin> audit_key ` set (wr_tried s)"
  shows "follows w (store r s)"
proof -
  have "proper_record (w_db (wr_world s)) r" "w_faults (wr_world s) = []"
    using assms(1,2) by (simp_all add: follows_def proper_record_def)
  moreover have "audit_key r \<notin> audit_key ` set (tb_audit (w_db (wr_world s)))"
    using assms(1,3,4) by (auto simp: follows_def image_Un image_image)
  ultimately show ?thesis using assms(1) by (simp add: follows_def Create_proper)
qed

lemma follows_drop: "follows w (s\<lparr>wr_ch := x\<rparr>) = follows w s" "follows w (s\<lparr>wr_direct := x\<rparr>) = follows w s"
  by (simp_all add: follows_def)

lemma kept_distinct:
  assumes "distinct (map audit_key (accepted es))" and "mset (accepted es) = kept s" and "r \<in># in_flight s"
  shows "audit_key r \<notin> audit_key ` set (wr_tried s)"
proof
  assume "audit_key r \<in> audit_key ` set (wr_tried s)"
  then obtain r' where r': "r' \<in> set (wr_tried s)" "audit_key r' = audit_key r" by auto
  have m: "mset (map audit_key (accepted es)) = image_mset audit_key (kept s)" using assms(2) by simp
  obtain A where A: "in_flight s = add_mset r A" using assms(3) by (metis multi_member_split)
  obtain B where B: "mset (wr_tried s) = add_mset r' B" using r'(1) by (metis multi_member_split set_mset_mset)
  have "\<not> (count (image_mset audit_key (kept s)) (audit_key r) \<le> 1)"
    using r'(2) by (simp add: kept_def A B)
  then show False using assms(1) m by (metis distinct_count_atmost_1 le_numeral_extra(4) linorder_not_le not_less_zero less_one count_greater_zero_iff nat_le_linear)
qed

lemma step_stored:
  assumes "writer_step s e s'" and "follows w s" and "mset as = kept s" and "distinct (map audit_key as)"
    and "\<forall>r \<in> set as. proper_record (w_db w) r \<and> audit_key r \<notin> audit_key ` set (tb_audit (w_db w))"
  shows "follows w s'"
  using assms(1)
proof cases
  case (drain r rs)
  then have r: "r \<in># in_flight s" by (simp add: in_flight_def)
  then have "r \<in># kept s" by (simp add: kept_def)
  then have "r \<in> set as" by (metis assms(3) set_mset_mset)
  then show ?thesis using drain assms(2,5) kept_distinct [of "[Checked r. r \<leftarrow> as]" s r] assms(3,4) r
    by (simp add: follows_store follows_drop accepted_def comp_def)
next
  case (direct xs r ys)
  then have r: "r \<in># in_flight s" by (simp add: in_flight_def)
  then have "r \<in># kept s" by (simp add: kept_def)
  then have "r \<in> set as" by (metis assms(3) set_mset_mset)
  then show ?thesis using direct assms(2,5) kept_distinct [of "[Checked r. r \<leftarrow> as]" s r] assms(3,4) r
    by (simp add: follows_store follows_drop accepted_def comp_def)
qed (use assms(2) in \<open>simp_all add: follows_def\<close>)

lemma run_stored:
  assumes "writer_run (NewWriter w) es s"
  shows "w_faults w = [] \<Longrightarrow> distinct (map audit_key (accepted es)) \<Longrightarrow>
    \<forall>r \<in> set (accepted es). proper_record (w_db w) r \<and> audit_key r \<notin> audit_key ` set (tb_audit (w_db w)) \<Longrightarrow> follows w s"
  using assms
proof (induction "NewWriter w" es s rule: writer_run.induct)
  case start
  then show ?case by (simp add: follows_def NewWriter_def)
next
  case (step es s' e s'')
  have "mset (accepted es) = kept s'" using kept_run [OF step(1)] by (simp add: kept_def in_flight_def NewWriter_def)
  then show ?case using step by (intro step_stored [OF step(3)]) auto
qed

text \<open>
  With a database that answers, a closed and drained writer has stored every accepted record exactly
  once: the log is the old one followed by the accepted records in the order they were stored, provided
  no submitter was caught between its check and its send when the writer closed.
\<close>

theorem writer_stores_all:
  assumes "writer_run (NewWriter w) es s" and "w_faults w = []" and "distinct (map audit_key (accepted es))"
    and "\<forall>r \<in> set (accepted es). proper_record (w_db w) r \<and> audit_key r \<notin> audit_key ` set (tb_audit (w_db w))"
    and "in_flight s = {#}" and "wr_panicked s = []"
  shows "mset (wr_tried s) = mset (accepted es) \<and> tb_audit (w_db (wr_world s)) = tb_audit (w_db w) @ map audit_row (wr_tried s)"
  using accepted_kept [OF assms(1)] run_stored [OF assms(1-4)] assms(5,6) by (simp add: follows_def)

definition demo_record :: AuditRecord where
  "demo_record = \<lparr>au_ID = 1, au_RequestID = [], au_TraceID = [], au_SessionID = [], au_Method = ''POST'', au_Path = ''/x'',
     au_FullPath = ''/x'', au_StatusCode = 200, au_UserAgent = [], au_UAParsed = None, au_DurationMs = 0, au_CreatedAt = 5,
     au_IP = None, au_UserID = None, au_ResourceType = None, au_ResourceID = None, au_Action = None, au_RiskLevel = ''low'',
     au_RiskSignals = [], au_Changes = [], au_Integrity = None, au_UserEmail = None\<rparr>"

lemma run_checked: "writer_run (NewWriter w) [Checked r] ((NewWriter w)\<lparr>wr_checked := [r]\<rparr>)"
proof -
  let ?s = "NewWriter w"
  have "writer_step ?s (Checked r) (?s\<lparr>wr_checked := wr_checked ?s @ [r]\<rparr>)"
    by (rule writer_step.check) (simp add: NewWriter_def)
  from writer_run.step [OF writer_run.start this] show ?thesis by (simp add: NewWriter_def)
qed

lemma run_then: "writer_run s es t \<Longrightarrow> writer_step t e u \<Longrightarrow> u = u' \<Longrightarrow> writer_run s (es @ [e]) u'"
  by (auto intro: writer_run.step)

lemma writer_run_one:
  "writer_run (NewWriter w) [Checked r, Queued r, Closed, Drained r]
     (store r ((NewWriter w)\<lparr>wr_dead := True\<rparr>))"
proof -
  let ?s = "NewWriter w"
  have "writer_run ?s ([Checked r] @ [Queued r]) (?s\<lparr>wr_ch := [r]\<rparr>)"
    by (rule run_then [OF run_checked writer_step.queue [where xs = "[]" and ys = "[]"]]) (simp_all add: NewWriter_def writer_capacity_def)
  then have "writer_run ?s (([Checked r] @ [Queued r]) @ [Closed]) (?s\<lparr>wr_ch := [r], wr_dead := True\<rparr>)"
    by (rule writer_run.step) (rule writer_step.close, simp add: NewWriter_def)
  then have "writer_run ?s ((([Checked r] @ [Queued r]) @ [Closed]) @ [Drained r]) (store r (?s\<lparr>wr_dead := True\<rparr>))"
    by (rule run_then [OF _ writer_step.drain]) (simp_all add: NewWriter_def)
  then show ?thesis by simp
qed

theorem writer_stores_all_witness:
  "tb_audit (w_db (wr_world (store demo_record ((NewWriter (World_start DB_empty 9))\<lparr>wr_dead := True\<rparr>)))) = [audit_row demo_record]"
  using writer_stores_all [OF writer_run_one [of "World_start DB_empty 9" demo_record]]
  by (simp add: World_start_def DB_empty_def demo_record_def proper_record_def in_flight_def NewWriter_def accepted_def)

section \<open>Closing\<close>

text \<open>
  A submitter that has passed its check when \<open>Close\<close> runs sends on a closed channel and panics: the
  check and the send are not under one lock.
\<close>

theorem submit_close_race:
  "\<exists>s. writer_run (NewWriter w) [Checked r, Closed, SendPanic r] s \<and> wr_panicked s = [r] \<and> wr_tried s = []"
proof -
  let ?s = "NewWriter w"
  have "writer_run ?s ([Checked r] @ [Closed]) (?s\<lparr>wr_checked := [r], wr_dead := True\<rparr>)"
    by (rule writer_run.step [OF run_checked]) (rule writer_step.close, simp add: NewWriter_def)
  then have "writer_run ?s (([Checked r] @ [Closed]) @ [SendPanic r]) (?s\<lparr>wr_dead := True, wr_panicked := [r]\<rparr>)"
    by (rule run_then [OF _ writer_step.send_closed [where xs = "[]" and ys = "[]"]]) (simp_all add: NewWriter_def)
  then show ?thesis by (intro exI [of _ "?s\<lparr>wr_dead := True, wr_panicked := [r]\<rparr>"]) (simp add: NewWriter_def)
qed

text \<open>Once closed with no submitter in between, the work only shrinks, and it can always go on.\<close>

definition quiet :: "Writer \<Rightarrow> bool" where
  "quiet s \<longleftrightarrow> wr_dead s \<and> wr_checked s = []"

lemma quiet_step:
  assumes "writer_step s e s'" and "quiet s"
  shows "quiet s' \<and> wr_panicked s' = wr_panicked s \<and>
    (if \<exists>r. e = Refused r then in_flight s' = in_flight s else size (in_flight s) = Suc (size (in_flight s')))"
  using assms by cases (auto simp: quiet_def in_flight_def)

definition working :: "writer_event list \<Rightarrow> nat" where
  "working es = length (filter (\<lambda>e. \<not> (\<exists>r. e = Refused r)) es)"

lemma quiet_run:
  "writer_run s es s' \<Longrightarrow> quiet s \<Longrightarrow>
   quiet s' \<and> wr_panicked s' = wr_panicked s \<and> size (in_flight s) = working es + size (in_flight s')"
  by (induction rule: writer_run.induct) (auto simp: working_def dest!: quiet_step split: if_splits)

lemma quiet_progress:
  assumes "quiet s" and "in_flight s \<noteq> {#}"
  shows "\<exists>e s'. writer_step s e s' \<and> quiet s' \<and> size (in_flight s) = Suc (size (in_flight s'))"
proof -
  obtain e s' where "writer_step s e s'" "\<not> (\<exists>r. e = Refused r)"
  proof (cases "wr_ch s")
    case Nil
    then obtain r rs where "wr_direct s = [] @ r # rs" using assms by (cases "wr_direct s") (auto simp: in_flight_def quiet_def)
    from writer_step.direct [OF this] that show ?thesis by blast
  next
    case (Cons r rs)
    from writer_step.drain [OF this] that show ?thesis by blast
  qed
  then show ?thesis using quiet_step [OF _ assms(1)] by (metis (no_types, lifting))
qed

lemma run_cons: "writer_step s e s' \<Longrightarrow> writer_run s' es s'' \<Longrightarrow> writer_run s (e # es) s''"
proof (induction es arbitrary: s'' rule: rev_induct)
  case Nil
  then show ?case by (auto elim: writer_run.cases intro: writer_run.step [where es = "[]", simplified] writer_run.start)
next
  case (snoc x xs)
  from snoc.prems(2) obtain t where "writer_run s' xs t" "writer_step t x s''" by (cases rule: writer_run.cases) auto
  then show ?case using snoc.IH [OF snoc.prems(1)] writer_run.step [of s "e # xs" t x s''] by simp
qed

lemma quiet_drains: "quiet s \<Longrightarrow> \<exists>es s'. writer_run s es s' \<and> in_flight s' = {#}"
proof (induction "size (in_flight s)" arbitrary: s)
  case 0
  then show ?case using writer_run.start [of s] by auto
next
  case (Suc n)
  then have "in_flight s \<noteq> {#}" by auto
  then obtain e t where t: "writer_step s e t" "quiet t" "size (in_flight s) = Suc (size (in_flight t))"
    using quiet_progress [OF Suc.prems] by blast
  then obtain es s' where "writer_run t es s'" "in_flight s' = {#}" using Suc.hyps(1) [OF _ t(2)] Suc.hyps(2) by auto
  then show ?case using run_cons [OF t(1)] by blast
qed




end
