(* ===== verification/AuditCorrect.thy ===== *)
theory AuditCorrect
  imports AuditWriter AuthCorrect
begin

text \<open>
  What the audit log guarantees to its readers and to the requests it records: complete exports, a feed
  whose groups hide nothing, one record for every request that is answered.
\<close>

section \<open>Export\<close>

definition audit_rows :: "AuditListFilter \<Rightarrow> DB \<Rightarrow> AuditRecord list" where
  "audit_rows ff d = filter (whereClause (audit_where ff)) (tb_audit d)"

interpretation audit_keyset: keyset "\<lambda>d. distinct (map audit_key (tb_audit d))" "audit_rows ff" audit_key asc for ff asc
  by unfold_locales (simp add: audit_rows_def distinct_map_filter)

lemma audit_where_cursor [simp]: "audit_where (ff\<lparr>af_Cursor := c\<rparr>) = audit_where ff" "audit_where (ff\<lparr>af_Limit := n\<rparr>) = audit_where ff"
  by (simp_all add: audit_where_def)

lemma audit_rows_cursor [simp]: "audit_rows (ff\<lparr>af_Cursor := c\<rparr>) = audit_rows ff" "audit_rows (ff\<lparr>af_Limit := n\<rparr>) = audit_rows ff"
  by (rule ext, simp add: audit_rows_def)+

lemma List_page:
  assumes "w_faults w = []" and "af_Cursor ff = map_option Some c"
  shows "AuditLogRepo_List ff w =
    (let limit = audit_limit (af_Limit ff);
         rest = order_rows False audit_key (rows_after False audit_key c (audit_rows ff (w_db w)));
         items = map (scanAuditRecord (w_db w)) (take limit rest)
     in (Inr (items, if length rest > limit then Some (audit_key (rest ! (limit - 1))) else None), w))"
proof -
  have key: "audit_key (scanAuditRecord d r) = audit_key r" for d r by (simp add: audit_key_def scanAuditRecord_def)
  have pos: "0 < audit_limit n" for n by (simp add: audit_limit_def)
  have conds: "filter (whereClause (audit_where ff @ (case c of None \<Rightarrow> [] | Some k \<Rightarrow> [\<lambda>a. audit_key a < k]))) (tb_audit (w_db w)) =
      rows_after False audit_key c (audit_rows ff (w_db w))"
    by (cases c) (auto simp: rows_after_def audit_rows_def key_before_def conj_commute intro!: filter_cong)
  show ?thesis
    using assms pos [of "af_Limit ff"] conds
    by (cases c) (simp_all add: AuditLogRepo_List_def Let_def key take_map min_def not_less)
qed

lemma export_from:
  assumes "w_faults w = []" and "distinct (map audit_key (tb_audit (w_db w)))"
  shows "k \<le> length (audit_rows ff (w_db w)) \<Longrightarrow>
    af_Cursor ff = map_option Some (cursor_at audit_key (order_rows False audit_key (audit_rows ff (w_db w))) k) \<Longrightarrow>
    export_loop ff out w =
      Some (out @ map (scanAuditRecord (w_db w)) (drop k (order_rows False audit_key (audit_rows ff (w_db w)))), w)"
proof (induction "length (audit_rows ff (w_db w)) - k" arbitrary: k ff out rule: less_induct)
  case less
  let ?xs = "order_rows False audit_key (audit_rows ff (w_db w))" and ?n = "audit_limit (af_Limit ff)"
  have pos: "0 < ?n" by (simp add: audit_limit_def)
  have rest: "order_rows False audit_key (rows_after False audit_key (cursor_at audit_key ?xs k) (audit_rows ff (w_db w))) = drop k ?xs"
    by (rule audit_keyset.page_at [OF assms(2) less.prems(1)])
  note L = List_page [OF assms(1) less.prems(2), unfolded rest Let_def]
  show ?case
  proof (cases "length (drop k ?xs) > ?n")
    case False
    then show ?thesis by (subst export_loop.simps) (simp add: L)
  next
    case True
    let ?ff = "ff\<lparr>af_Cursor := Some (Some (audit_key (drop k ?xs ! (?n - 1))))\<rparr>"
    have c: "Some (audit_key (drop k ?xs ! (?n - 1))) = cursor_at audit_key ?xs (k + ?n)"
      using True pos by (intro cursor_at_add) auto
    have "export_loop ?ff (out @ map (scanAuditRecord (w_db w)) (take ?n (drop k ?xs))) w =
        Some ((out @ map (scanAuditRecord (w_db w)) (take ?n (drop k ?xs))) @
          map (scanAuditRecord (w_db w)) (drop (k + ?n) ?xs), w)"
      using True pos less.hyps [of ?ff "k + ?n"] by (simp add: c [symmetric])
    moreover have "drop (k + ?n) ?xs = drop ?n (drop k ?xs)" by (simp add: add.commute)
    ultimately show ?thesis using True
      by (subst export_loop.simps) (simp add: L del: drop_drop flip: map_append)
  qed
qed

text \<open>
  C15. An export is complete and ends: on a database that answers, with distinct keys, the loop over the
  pages terminates for every filter and writes each matching record exactly once, newest first, as CSV
  below the header or as one JSON document per line.
\<close>

theorem export_complete:
  assumes "w_faults w = []" and "distinct (map audit_key (tb_audit (w_db w)))"
    and "parseAuditFilter q = Inr ff" and "af_Cursor ff = None"
    and "strings_ToLower (strings_TrimSpace (qs_Get q ''format'')) = format" and "format \<in> {''csv'', ''ndjson''}"
  shows "handleAuditExport fm q w =
    (let rows = map (scanAuditRecord (w_db w)) (order_rows False audit_key (audit_rows ff (w_db w)))
     in Some (if format = ''csv'' then ExportCSV (csv_header # map (csv_row fm) rows) else ExportNDJSON rows, w))"
proof -
  have "export_loop (ff\<lparr>af_Limit := 200\<rparr>) [] w =
      Some (map (scanAuditRecord (w_db w)) (order_rows False audit_key (audit_rows ff (w_db w))), w)"
    using export_from [OF assms(1,2), of 0 "ff\<lparr>af_Limit := 200\<rparr>" "[]"] assms(4) by (simp add: cursor_at_def)
  then show ?thesis using assms(3,5,6) by (auto simp: handleAuditExport_def Let_def)
qed

definition demo_query :: Query where
  "demo_query = \<lparr>qs_Get = (\<lambda>n. if n = ''format'' then ''NDJSON'' else if n = ''method'' then ''post'' else []),
     qs_Time = (\<lambda>s. None), qs_UUID = (\<lambda>s. None), qs_Cursor = (\<lambda>s. None)\<rparr>"

definition demo_log :: DB where
  "demo_log = DB_empty\<lparr>tb_audit := [audit_row demo_record, audit_row (demo_record\<lparr>au_ID := 2, au_CreatedAt := 7\<rparr>),
     audit_row (demo_record\<lparr>au_ID := 3, au_Method := ''GET''\<rparr>)]\<rparr>"

definition demo_formats :: Formats where
  "demo_formats = \<lparr>fm_UUID = (\<lambda>i. nat_digits (unat i)), fm_Time = (\<lambda>t. nat_digits (nat t))\<rparr>"

theorem export_complete_witness:
  "\<exists>rows. handleAuditExport demo_formats demo_query (World_start demo_log 9) = Some (ExportNDJSON rows, World_start demo_log 9) \<and>
     map au_ID rows = [2, 1]"
proof -
  let ?w = "World_start demo_log 9"
  obtain ff where ff: "parseAuditFilter demo_query = Inr ff" "af_Cursor ff = None"
    "map au_ID (map (scanAuditRecord (w_db ?w)) (order_rows False audit_key (audit_rows ff (w_db ?w)))) = [2, 1]"
  proof
    show "parseAuditFilter demo_query = Inr (projr (parseAuditFilter demo_query))" by code_simp
    show "af_Cursor (projr (parseAuditFilter demo_query)) = None" by code_simp
    show "map au_ID (map (scanAuditRecord (w_db ?w)) (order_rows False audit_key
        (audit_rows (projr (parseAuditFilter demo_query)) (w_db ?w)))) = [2, 1]" by code_simp
  qed
  have f: "strings_ToLower (strings_TrimSpace (qs_Get demo_query ''format'')) = ''ndjson''" by code_simp
  have d: "distinct (map audit_key (tb_audit (w_db ?w)))" "w_faults ?w = []"
    by (simp_all add: World_start_def demo_log_def demo_record_def audit_key_def audit_row_def)
  show ?thesis using export_complete [OF d(2,1) ff(1,2) f, of demo_formats] ff(3) by (simp add: Let_def)
qed

section \<open>The feed\<close>

fun feed_events :: "feed_item \<Rightarrow> AuditRecord list" where
  "feed_events (FeedRecord r) = [r]"
| "feed_events (FeedGroup g) = fg_Events g"

definition good_group :: "auditFeedGroup \<Rightarrow> bool" where
  "good_group g \<longleftrightarrow> fg_Count g = length (fg_Events g) \<and> fg_Count g \<ge> 3 \<and> fg_Sample g = hd (fg_Events g) \<and>
     fg_FirstTimestamp g = au_CreatedAt (hd (fg_Events g)) \<and> fg_LastTimestamp g = au_CreatedAt (last (fg_Events g)) \<and>
     (\<forall>r \<in> set (tl (fg_Events g)). canGroupAuditEvents (fg_Sample g) r)"

text \<open>
  Grouping the feed hides nothing: the events of the items, in order, are the records listed, and a
  group counts its events truly, has at least three, and all of them are by one user with the method,
  action and resource of the first, within 30 seconds of it.
\<close>

theorem groupAuditFeed_partition:
  "concat (map feed_events (groupAuditFeed rows)) = rows \<and>
   (\<forall>item \<in> set (groupAuditFeed rows). case item of FeedRecord r \<Rightarrow> True | FeedGroup g \<Rightarrow> good_group g)"
proof (induction rows rule: groupAuditFeed.induct)
  case (2 a as)
  let ?ev = "a # takeWhile (canGroupAuditEvents a) as"
  show ?case
  proof (cases "length ?ev \<ge> 3")
    case True
    then show ?thesis using 2(1) [OF refl True] by (auto simp: Let_def good_group_def dest: set_takeWhileD)
  next
    case False
    then show ?thesis using 2(2) [OF refl False] by (auto simp: Let_def)
  qed
qed simp

theorem groupAuditFeed_partition_witness:
  "concat (map feed_events (groupAuditFeed [demo_record])) = [demo_record]"
  using groupAuditFeed_partition [of "[demo_record]"] by simp

section \<open>The middleware\<close>

definition audited :: "HttpRequest \<Rightarrow> bool" where
  "audited h \<longleftrightarrow> h_Method h \<notin> {''HEAD'', ''OPTIONS''} \<and> \<not> strings_HasPrefix (h_Path h) ''/api/v1/auth/'' \<and>
     \<not> strings_HasPrefix (h_Path h) ''/api/v1/admin/audit/stream''"

lemma risk_levels:
  "fst (deriveAuditRisk m n) = (if n \<ge> 500 then ''critical'' else if m = ''DELETE'' then ''high''
     else if n \<ge> 400 then ''medium'' else ''low'')"
  by (simp add: deriveAuditRisk_def Let_def)



end
