(* ===== verification/Admin.thy ===== *)
theory Admin
  imports AuditLog
begin

text \<open>
  Administration of accounts: \<open>internal/api/admin_guards.go\<close>, \<open>admin_users.go\<close>,
  \<open>admin_users_v2.go\<close>, and the statements of \<open>internal/storage/admin_users_query.go\<close> that change tables.

  Handlers take the HTTP request for the audit record, the decoded body (\<open>None\<close> when it does not decode)
  and the request as the middlewares completed it. Using the id of a missing user is a panic.
\<close>

section \<open>Guards\<close>

datatype AdminAction =
    ActionDeactivate
  | ActionActivate
  | ActionDelete
  | ActionResetPassword
  | ActionResetMFA
  | ActionRemoveRoleAdmin

definition sessionRevokeReason :: "AdminAction \<Rightarrow> string" where
  "sessionRevokeReason action = (case action of
     ActionDeactivate \<Rightarrow> ''deactivated''
   | ActionResetPassword \<Rightarrow> ''password_changed''
   | ActionRemoveRoleAdmin \<Rightarrow> ''role_changed''
   | _ \<Rightarrow> ''admin_revoke'')"

datatype guardError = GuardError (ge_httpStatus: nat) (ge_code: string) (ge_message: string) | OtherError err

definition errSelfModification :: guardError where
  "errSelfModification = GuardError 403 ''SELF_MODIFICATION_FORBIDDEN'' (utf8
    [1053, 1077, 1083, 1100, 1079, 1103, 32, 1087, 1088, 1080, 1084, 1077, 1085, 1080, 1090, 1100, 32,
    1082, 32, 1089, 1086, 1073, 1089, 1090, 1074, 1077, 1085, 1085, 1086, 1081, 32, 1091, 1095, 1105,
    1090, 1085, 1086, 1081, 32, 1079, 1072, 1087, 1080, 1089, 1080])"

definition errSystemAccountProtected :: guardError where
  "errSystemAccountProtected = GuardError 403 ''SYSTEM_ACCOUNT_PROTECTED'' (utf8
    [1057, 1080, 1089, 1090, 1077, 1084, 1085, 1072, 1103, 32, 1091, 1095, 1105, 1090, 1085, 1072, 1103,
    32, 1079, 1072, 1087, 1080, 1089, 1100, 32, 1079, 1072, 1097, 1080, 1097, 1077, 1085, 1072])"

definition errLastAdminProtected :: guardError where
  "errLastAdminProtected = GuardError 403 ''LAST_ADMIN_PROTECTED'' (utf8
    [1053, 1077, 1083, 1100, 1079, 1103, 32, 1086, 1089, 1090, 1072, 1074, 1080, 1090, 1100, 32, 1089,
    1080, 1089, 1090, 1077, 1084, 1091, 32, 1073, 1077, 1079, 32, 1072, 1082, 1090, 1080, 1074, 1085,
    1099, 1093, 32, 1072, 1076, 1084, 1080, 1085, 1080, 1089, 1090, 1088, 1072, 1090, 1086, 1088, 1086,
    1074])"

text \<open>The repository is used through one operation, as the interface of the source says. \<open>None\<close> permits.\<close>

definition canModifyUser :: "nat op \<Rightarrow> uuid \<Rightarrow> User \<Rightarrow> AdminAction \<Rightarrow> World \<Rightarrow> guardError option \<times> World" where
  "canModifyUser countActiveAdmins actorID target action w =
     (if actorID = u_ID target \<and>
         action \<in> {ActionDeactivate, ActionDelete, ActionResetPassword, ActionResetMFA, ActionRemoveRoleAdmin}
      then (Some errSelfModification, w)
      else if u_IsSystemAccount target \<and> action \<in> {ActionDelete, ActionDeactivate, ActionRemoveRoleAdmin}
      then (Some errSystemAccountProtected, w)
      else if action \<in> {ActionRemoveRoleAdmin, ActionDeactivate} \<and> User_IsAdmin target
      then (case countActiveAdmins w of
          (Inl e, w) \<Rightarrow> (Some (OtherError e), w)
        | (Inr cnt, w) \<Rightarrow> if cnt \<le> 1 then (Some errLastAdminProtected, w) else (None, w))
      else (None, w))"

fun respondGuardError :: "guardError \<Rightarrow> response" where
  "respondGuardError (GuardError status code message) = respondError status code message"
| "respondGuardError (OtherError e) = respondError 500 ''INTERNAL_ERROR'' ''failed to check permissions''"

fun guardErrMessage :: "guardError \<Rightarrow> string" where
  "guardErrMessage (GuardError status code message) = message"
| "guardErrMessage (OtherError e) = ''canModifyUser: '' @ err_text e"

section \<open>Roles, groups and identities in storage\<close>

text \<open>The trigger on \<open>user_roles\<close>: the legacy column follows the role admin.\<close>

definition sync_user_roles :: "uuid \<Rightarrow> time \<Rightarrow> DB \<Rightarrow> DB" where
  "sync_user_roles i now d =
     (let desired = (if (i, ''admin'') \<in> set (tb_user_roles d) then 1 else 0)
      in d\<lparr>tb_users := map (\<lambda>u. if u_ID u = i \<and> u_GlobalRole u \<noteq> desired
            then u\<lparr>u_GlobalRole := desired, u_UpdatedAt := now\<rparr> else u) (tb_users d)\<rparr>)"

definition insert_user_role :: "uuid \<Rightarrow> string \<Rightarrow> time \<Rightarrow> DB \<Rightarrow> err + nat \<times> DB" where
  "insert_user_role i key now d =
     (if key \<notin> fst ` set (tb_role_names d) then Inr (0, d)
      else if i \<notin> u_ID ` set (tb_users d) then Inl (Err ''violates foreign key constraint'')
      else if (i, key) \<in> set (tb_user_roles d) then Inr (1, d)
      else Inr (1, sync_user_roles i now (d\<lparr>tb_user_roles := tb_user_roles d @ [(i, key)]\<rparr>)))"

definition delete_other_roles :: "uuid \<Rightarrow> string \<Rightarrow> time \<Rightarrow> DB \<Rightarrow> DB" where
  "delete_other_roles i key now d =
     (if list_ex (\<lambda>(u, k). u = i \<and> k \<noteq> key) (tb_user_roles d)
      then sync_user_roles i now (d\<lparr>tb_user_roles := filter (\<lambda>(u, k). \<not> (u = i \<and> k \<noteq> key)) (tb_user_roles d)\<rparr>)
      else d)"

text \<open>Two statements without a transaction around them.\<close>

definition AssignUserRole :: "uuid \<Rightarrow> string \<Rightarrow> unit op" where
  "AssignUserRole i key w =
     (case db_exec (insert_user_role i key (w_now w)) w of
        (Inl e, w) \<Rightarrow> (Inl e, w)
      | (Inr n, w) \<Rightarrow>
          if n = 0 then (Inl (Err (''storage.UsersRepo.AssignUserRole: role '' @ key @ '' not found'')), w)
          else db_exec (\<lambda>d. Inr ((), delete_other_roles i key (w_now w) d)) w)"

text \<open>The batch runs in one implicit transaction.\<close>

definition AssignUserGroups :: "uuid \<Rightarrow> uuid list \<Rightarrow> unit op" where
  "AssignUserGroups i gids w =
     (if gids = [] then (Inr (), w)
      else db_exec (\<lambda>d.
        if i \<notin> u_ID ` set (tb_users d) \<or> \<not> list_all (\<lambda>g. g \<in> fst ` set (tb_groups d)) gids
        then Inl (Err ''violates foreign key constraint'')
        else Inr ((), d\<lparr>tb_user_groups := fold (\<lambda>g ug. if (i, g) \<in> set ug then ug else ug @ [(i, g)]) gids (tb_user_groups d)\<rparr>)) w)"

definition EnsureLocalIdentity :: "uuid \<Rightarrow> unit op" where
  "EnsureLocalIdentity i = db_exec (\<lambda>d.
     if i \<notin> u_ID ` set (tb_users d) then Inl (Err ''violates foreign key constraint'')
     else Inr ((), if \<exists>x \<in> set (tb_identities d). fst x = i \<and> fst (snd x) = ''local'' then d
                   else d\<lparr>tb_identities := tb_identities d @ [(i, ''local'', None)]\<rparr>))"

section \<open>The account as administrators see it\<close>

record AdminUserResponse =
  ad_ID :: uuid
  ad_Email :: string
  ad_DisplayName :: string
  ad_Status :: string
  ad_IsSystemAccount :: bool
  ad_RoleKey :: string
  ad_RoleName :: string
  ad_Groups :: "(uuid \<times> string \<times> string) list"
  ad_MFAEnabled :: bool
  ad_IdentityKind :: string
  ad_LastLoginAt :: "time option"
  ad_LastLoginIP :: "string option"
  ad_CreatedAt :: time
  ad_MustChangePassword :: bool

definition default_role_name :: string where
  "default_role_name = utf8 [1059, 1095, 1072, 1089, 1090, 1085, 1080, 1082]"

text \<open>The identity used last; one never used comes after all others.\<close>

definition identity_kind :: "DB \<Rightarrow> uuid \<Rightarrow> string" where
  "identity_kind d i =
     (case order_rows False (\<lambda>(_, _, t). case t of None \<Rightarrow> -1 | Some t \<Rightarrow> t) (filter (\<lambda>(u, _). u = i) (tb_identities d)) of
        [] \<Rightarrow> ''local'' | (_, kind, _) # _ \<Rightarrow> kind)"

text \<open>The rows of the join for one user: one for each role, or one without a role.\<close>

definition admin_user_rows :: "DB \<Rightarrow> User \<Rightarrow> AdminUserResponse list" where
  "admin_user_rows d u =
     (let row = (\<lambda>key name. \<lparr>ad_ID = u_ID u, ad_Email = u_Email u, ad_DisplayName = u_FullName u, ad_Status = u_Status u,
            ad_IsSystemAccount = u_IsSystemAccount u, ad_RoleKey = key, ad_RoleName = name, ad_Groups = [],
            ad_MFAEnabled = u_ID u \<in> set (tb_mfa d), ad_IdentityKind = identity_kind d (u_ID u),
            ad_LastLoginAt = u_LastLoginAt u, ad_LastLoginIP = u_LastLoginIP u, ad_CreatedAt = u_CreatedAt u,
            ad_MustChangePassword = u_MustChangePassword u\<rparr>);
          keys = map snd (filter (\<lambda>(x, _). x = u_ID u) (tb_user_roles d))
      in if keys = [] then [row ''member'' default_role_name]
         else map (\<lambda>k. row k (case map_of (tb_role_names d) k of None \<Rightarrow> [] | Some n \<Rightarrow> n)) keys)"

text \<open>\<open>attachGroups\<close>: when a user occurs twice, the map from ids to positions keeps the last.\<close>

definition group_refs :: "DB \<Rightarrow> uuid \<Rightarrow> (uuid \<times> string \<times> string) list" where
  "group_refs d i = sort_key (\<lambda>(_, name, _). name)
     (concat (map (\<lambda>(u, g). if u = i then map (\<lambda>(x, n, c, _). (x, n, c)) (filter (\<lambda>(x, _). x = g) (tb_groups d)) else [])
        (tb_user_groups d)))"

fun attachGroups :: "DB \<Rightarrow> AdminUserResponse list \<Rightarrow> AdminUserResponse list" where
  "attachGroups d [] = []"
| "attachGroups d (a # as) =
     (if ad_ID a \<in> ad_ID ` set as then a else a\<lparr>ad_Groups := group_refs d (ad_ID a)\<rparr>) # attachGroups d as"

definition GetAdminUserByID :: "uuid \<Rightarrow> AdminUserResponse op" where
  "GetAdminUserByID i w =
     (case db_query_row (\<lambda>d. case concat (map (admin_user_rows d) (filter (\<lambda>u. u_ID u = i) (tb_users d))) of
          [] \<Rightarrow> None | r # _ \<Rightarrow> Some r) w of
        (Inl e, w) \<Rightarrow> (Inl e, w)
      | (Inr u, w) \<Rightarrow> db_query (\<lambda>d. hd (attachGroups d [u])) w)"

section \<open>Auditing an administrative action\<close>

definition admin_record :: "Formats \<Rightarrow> bool \<Rightarrow> HttpRequest \<Rightarrow> uuid \<Rightarrow> time \<Rightarrow> uuid \<Rightarrow> uuid \<Rightarrow> string \<Rightarrow> json \<Rightarrow> json \<Rightarrow> string \<Rightarrow> AuditRecord" where
  "admin_record fm trustProxy h i now actorID targetID action before after reason =
     (request_record trustProxy h i now)\<lparr>au_UserID := Some actorID, au_ResourceType := Some ''user'',
        au_ResourceID := Some (fm_UUID fm targetID), au_Action := Some action, au_RiskLevel := ''high'',
        au_Changes :=
          (if before \<noteq> JsonNull \<or> after \<noteq> JsonNull
           then [\<lparr>ac_Field = ''state'', ac_Before = before, ac_After = after, ac_PII = False\<rparr>] else []) @
          (if strings_TrimSpace reason \<noteq> []
           then [\<lparr>ac_Field = ''reason'', ac_Before = JsonNull, ac_After = JsonString (strings_TrimSpace reason), ac_PII = False\<rparr>]
           else [])\<rparr>"

text \<open>What a handler needs to write records: formats, whether proxies are trusted, and the request.\<close>

type_synonym audit_env = "Formats \<times> bool \<times> HttpRequest"

fun writeAdminUserAudit :: "audit_env \<Rightarrow> uuid \<Rightarrow> uuid \<Rightarrow> string \<Rightarrow> json \<Rightarrow> json \<Rightarrow> string \<Rightarrow> World \<Rightarrow> World" where
  "writeAdminUserAudit (fm, tp, h) actorID targetID action before after reason w =
     (case uuid_New w of (i, w) \<Rightarrow> Submit (admin_record fm tp h i (w_now w) actorID targetID action before after reason) w)"

definition account_state :: "string \<Rightarrow> bool \<Rightarrow> json" where
  "account_state status active = JsonObject [(''is_active'', JsonBool active), (''status'', JsonString status)]"

section \<open>Handlers for one account\<close>

definition bad_user :: response where
  "bad_user = respondError 400 ''VALIDATION_ERROR'' ''invalid user id''"

definition short_reason :: response where
  "short_reason = respondError 400 ''VALIDATION_ERROR'' ''reason must be at least 10 characters''"

definition reason_too_short :: "string \<Rightarrow> bool" where
  "reason_too_short reason \<longleftrightarrow> rune_count (strings_TrimSpace reason) < 10"

definition target_error :: "err \<Rightarrow> response" where
  "target_error e = (if e = ErrNoRows then respondError 404 ''NOT_FOUND'' ''user not found''
     else respondError 500 ''INTERNAL_ERROR'' ''failed to fetch user'')"

definition handleChangeUserRole :: "audit_env \<Rightarrow> (bool \<times> string) option \<Rightarrow> handler" where
  "handleChangeUserRole env req rq w =
     (case rq_Param rq ''id'' of
        None \<Rightarrow> (bad_user, w)
      | Some userID \<Rightarrow> (case req of
          None \<Rightarrow> (bad_body, w)
        | Some (isAdmin, reason) \<Rightarrow>
            (case UsersRepo_GetByID userID w of
               (Inl e, w) \<Rightarrow> (target_error e, w)
             | (Inr target, w) \<Rightarrow>
                 let removingAdmin = User_IsAdmin target \<and> \<not> isAdmin in
                 if removingAdmin \<and> reason_too_short reason then (short_reason, w)
                 else if removingAdmin \<and> rq_User rq = None then (Panic, w)
                 else (case (if removingAdmin then canModifyUser CountActiveAdmins (u_ID (the (rq_User rq))) target ActionRemoveRoleAdmin w
                             else (None, w)) of
                   (Some ge, w) \<Rightarrow> (respondGuardError ge, w)
                 | (None, w) \<Rightarrow>
                     (case UsersRepo_Update userID [SetGlobalRole (if isAdmin then RoleAdmin else RoleUser)] w of
                        (Inl e, w) \<Rightarrow> (respondError 500 ''INTERNAL_ERROR'' ''failed to update role'', w)
                      | (Inr _, w) \<Rightarrow>
                          (case RevokeAllForUserWithReason userID ''role_changed'' w of
                             (Inl e, w) \<Rightarrow> (respondError 500 ''INTERNAL_ERROR'' ''failed to revoke sessions'', w)
                           | (Inr _, w) \<Rightarrow>
                               (case UsersRepo_GetByID userID w of
                                  (Inl e, w) \<Rightarrow> (respondError 500 ''INTERNAL_ERROR'' ''failed to fetch user'', w)
                                | (Inr updated, w) \<Rightarrow>
                                    (case rq_User rq of
                                       None \<Rightarrow> (Panic, w)
                                     | Some actor \<Rightarrow>
                                         (Response 200 (UserData (updated\<lparr>u_PasswordHash := []\<rparr>)),
                                          writeAdminUserAudit env (u_ID actor) (u_ID updated) ''role_change''
                                            (JsonObject [(''global_role'', JsonInt (u_GlobalRole target))])
                                            (JsonObject [(''global_role'', JsonInt (u_GlobalRole updated))]) reason w)))))))))"

text \<open>Deactivation and deletion differ in the guard and in the words of the answer and of the record.\<close>

definition disable_account ::
  "AdminAction \<Rightarrow> string \<Rightarrow> string \<Rightarrow> string \<Rightarrow> audit_env \<Rightarrow> string option \<Rightarrow> handler" where
  "disable_account action failure verb done env req rq w =
     (case req of
        None \<Rightarrow> (bad_body, w)
      | Some reason \<Rightarrow> (case rq_Param rq ''id'' of
          None \<Rightarrow> (bad_user, w)
        | Some userID \<Rightarrow>
            (case UsersRepo_GetByID userID w of
               (Inl e, w) \<Rightarrow> (target_error e, w)
             | (Inr target, w) \<Rightarrow>
                 if reason_too_short reason then (short_reason, w)
                 else (case rq_User rq of
                   None \<Rightarrow> (Panic, w)
                 | Some actor \<Rightarrow>
                     (case canModifyUser CountActiveAdmins (u_ID actor) target action w of
                        (Some ge, w) \<Rightarrow> (respondGuardError ge, w)
                      | (None, w) \<Rightarrow>
                          (case UsersRepo_Update userID [SetIsActive False, SetStatus UserStatusDisabled] w of
                             (Inl e, w) \<Rightarrow> (respondError 500 ''INTERNAL_ERROR'' failure, w)
                           | (Inr _, w) \<Rightarrow>
                               (case RevokeAllForUserWithReason userID ''deactivated'' w of
                                  (Inl e, w) \<Rightarrow> (respondError 500 ''INTERNAL_ERROR'' ''failed to revoke sessions'', w)
                                | (Inr _, w) \<Rightarrow>
                                    (respondData done,
                                     writeAdminUserAudit env (u_ID actor) (u_ID target) verb
                                       (account_state (u_Status target) (u_IsActive target))
                                       (account_state UserStatusDisabled False) reason w))))))))"

definition handleDeactivateUser :: "audit_env \<Rightarrow> string option \<Rightarrow> handler" where
  "handleDeactivateUser = disable_account ActionDeactivate ''failed to deactivate user'' ''deactivate'' ''deactivated''"

definition handleDeleteUser :: "audit_env \<Rightarrow> string option \<Rightarrow> handler" where
  "handleDeleteUser = disable_account ActionDelete ''failed to delete user'' ''delete'' ''deleted''"

definition handleActivateUser :: "audit_env \<Rightarrow> string option \<Rightarrow> handler" where
  "handleActivateUser env req rq w =
     (case req of
        None \<Rightarrow> (bad_body, w)
      | Some reason \<Rightarrow> (case rq_Param rq ''id'' of
          None \<Rightarrow> (bad_user, w)
        | Some userID \<Rightarrow>
            (case UsersRepo_GetByID userID w of
               (Inl e, w) \<Rightarrow> (target_error e, w)
             | (Inr target, w) \<Rightarrow>
                 if u_IsSystemAccount target then (respondGuardError errSystemAccountProtected, w)
                 else (case UsersRepo_Update userID [SetIsActive True, SetStatus UserStatusActive] w of
                    (Inl e, w) \<Rightarrow> (respondError 500 ''INTERNAL_ERROR'' ''failed to activate user'', w)
                  | (Inr _, w) \<Rightarrow>
                      (respondData ''activated'',
                       case rq_User rq of
                         None \<Rightarrow> w
                       | Some actor \<Rightarrow> writeAdminUserAudit env (u_ID actor) (u_ID target) ''activate''
                           (account_state (u_Status target) (u_IsActive target))
                           (account_state UserStatusActive True) reason w)))))"

definition handleResetUserPassword :: "Crypto \<Rightarrow> audit_env \<Rightarrow> (string \<times> string) option \<Rightarrow> handler" where
  "handleResetUserPassword cy env req rq w =
     (case rq_Param rq ''id'' of
        None \<Rightarrow> (bad_user, w)
      | Some userID \<Rightarrow> (case req of
          None \<Rightarrow> (bad_body, w)
        | Some (newPassword, reason) \<Rightarrow>
            if strings_TrimSpace newPassword = [] then (respondError 400 ''VALIDATION_ERROR'' ''new_password is required'', w)
            else if reason_too_short reason then (short_reason, w)
            else (case UsersRepo_GetByID userID w of
              (Inl e, w) \<Rightarrow> (target_error e, w)
            | (Inr target, w) \<Rightarrow> (case rq_User rq of
                None \<Rightarrow> (Panic, w)
              | Some actor \<Rightarrow>
                  (case canModifyUser CountActiveAdmins (u_ID actor) target ActionResetPassword w of
                     (Some ge, w) \<Rightarrow> (respondGuardError ge, w)
                   | (None, w) \<Rightarrow> (case cy_Hash cy newPassword of
                       Inl e \<Rightarrow> (respondError 500 ''INTERNAL_ERROR'' ''failed to hash password'', w)
                     | Inr hash \<Rightarrow>
                         (case UsersRepo_Update userID [SetPasswordHash hash] w of
                            (Inl e, w) \<Rightarrow> (respondError 500 ''INTERNAL_ERROR'' ''failed to update password'', w)
                          | (Inr _, w) \<Rightarrow>
                              (case SetMustChangePassword userID True ''admin_reset'' w of
                                 (Inl e, w) \<Rightarrow> (respondError 500 ''INTERNAL_ERROR'' ''failed to set password change requirement'', w)
                               | (Inr _, w) \<Rightarrow>
                                   (case RevokeAllForUserWithReason userID ''password_changed'' w of
                                      (Inl e, w) \<Rightarrow> (respondError 500 ''INTERNAL_ERROR'' ''failed to revoke sessions'', w)
                                    | (Inr _, w) \<Rightarrow>
                                        (Response 200 (JsonData (JsonObject [(''status'', JsonString ''password reset''),
                                            (''temp_password'', JsonString newPassword)])),
                                         writeAdminUserAudit env (u_ID actor) (u_ID target) ''password_reset''
                                           (JsonObject [(''password_changed'', JsonBool False)])
                                           (JsonObject [(''must_change'', JsonBool True), (''password_changed'', JsonBool True)])
                                           reason w))))))))))"

text \<open>The fields that are present in the body.\<close>

definition handleUpdateUser :: "audit_env \<Rightarrow> (string option \<times> string option) option \<Rightarrow> handler" where
  "handleUpdateUser env req rq w =
     (case rq_Param rq ''id'' of
        None \<Rightarrow> (bad_user, w)
      | Some userID \<Rightarrow> (case req of
          None \<Rightarrow> (bad_body, w)
        | Some (fullName, email) \<Rightarrow>
            let flds = (case fullName of None \<Rightarrow> [] | Some n \<Rightarrow> [SetFullName (strings_TrimSpace n)]) @
                       (case email of None \<Rightarrow> [] | Some e \<Rightarrow> [SetEmail (strings_TrimSpace e)]);
                names = (\<lambda>u. JsonObject [(''email'', JsonString (u_Email u)), (''full_name'', JsonString (u_FullName u))])
            in if flds = [] then (respondError 400 ''VALIDATION_ERROR'' ''no fields to update'', w)
            else (case UsersRepo_GetByID userID w of
              (Inl e, w) \<Rightarrow> (respondError 500 ''INTERNAL_ERROR'' ''failed to fetch user'', w)
            | (Inr before, w) \<Rightarrow>
                (case UsersRepo_Update userID flds w of
                   (Inl e, w) \<Rightarrow> (respondError 500 ''INTERNAL_ERROR'' ''failed to update user'', w)
                 | (Inr _, w) \<Rightarrow>
                     (case UsersRepo_GetByID userID w of
                        (Inl e, w) \<Rightarrow> (respondError 500 ''INTERNAL_ERROR'' ''failed to fetch user'', w)
                      | (Inr updated, w) \<Rightarrow>
                          (Response 200 (UserData (updated\<lparr>u_PasswordHash := []\<rparr>)),
                           case rq_User rq of
                             None \<Rightarrow> w
                           | Some actor \<Rightarrow> writeAdminUserAudit env (u_ID actor) (u_ID updated) ''update''
                               (names before) (names updated) [] w))))))"

section \<open>Creating accounts\<close>

definition validRoleKeys :: "string list" where
  "validRoleKeys = [''admin'', ''auditor'', ''member'', ''viewer'']"

definition commonPasswords :: "string list" where
  "commonPasswords = [''password123456'', ''qwerty123456'', ''123456789012'', ''iloveyou1234'', ''admin123456!'',
     ''letmein12345'', ''welcome12345'', ''monkey123456'', ''dragon123456'', ''master123456'', ''passw0rd1234'',
     ''abc123456789'']"

text \<open>The body; a group id is the result of \<open>uuid.Parse\<close> together with its text.\<close>

record CreateUserRequest =
  cu_Email :: string
  cu_DisplayName :: string
  cu_Password :: string
  cu_RoleKey :: string
  cu_GroupIDs :: "(string \<times> uuid option) list"

text \<open>The message of the first check that fails.\<close>

definition create_user_error :: "CreateUserRequest \<Rightarrow> string option" where
  "create_user_error req =
     (let email = strings_ToLower (strings_TrimSpace (cu_Email req)) in
      if email = [] then Some ''email is required''
      else if cu_Password req = [] then Some ''password is required''
      else if rune_count (cu_Password req) < 12 then Some ''password must be at least 12 characters''
      else if strings_EqualFold (cu_Password req) email then Some ''password must not match email''
      else if strings_ToLower (cu_Password req) \<in> set commonPasswords then Some ''password is too common''
      else if cu_RoleKey req \<noteq> [] \<and> cu_RoleKey req \<notin> set validRoleKeys then Some ''invalid role_key''
      else case find (\<lambda>(raw, i). i = None) (cu_GroupIDs req) of
        Some (raw, _) \<Rightarrow> Some (''invalid group_id: '' @ raw)
      | None \<Rightarrow> None)"

definition new_user :: "CreateUserRequest \<Rightarrow> string \<Rightarrow> string \<Rightarrow> uuid option \<Rightarrow> User" where
  "new_user req roleKey hash actorID =
     User_zero\<lparr>u_Email := strings_ToLower (strings_TrimSpace (cu_Email req)), u_PasswordHash := hash,
       u_FullName := strings_TrimSpace (cu_DisplayName req), u_IsActive := True,
       u_GlobalRole := (if roleKey = ''admin'' then RoleAdmin else RoleUser), u_Status := UserStatusPending,
       u_CreatedByUserID := actorID\<rparr>"

text \<open>What is done after the row of the user exists, each step only when the one before succeeded.\<close>

definition set_up_user :: "uuid \<Rightarrow> string \<Rightarrow> uuid list \<Rightarrow> World \<Rightarrow> response option \<times> World" where
  "set_up_user i roleKey gids w =
     (case AssignUserRole i roleKey w of
        (Inl e, w) \<Rightarrow> (Some (respondError 500 ''INTERNAL_ERROR'' ''failed to assign role''), w)
      | (Inr _, w) \<Rightarrow>
          (case EnsureLocalIdentity i w of
             (Inl e, w) \<Rightarrow> (Some (respondError 500 ''INTERNAL_ERROR'' ''failed to set identity''), w)
           | (Inr _, w) \<Rightarrow>
               (case SetMustChangePassword i True ''initial'' w of
                  (Inl e, w) \<Rightarrow> (Some (respondError 500 ''INTERNAL_ERROR'' ''failed to set password flag''), w)
                | (Inr _, w) \<Rightarrow>
                    (case AssignUserGroups i gids w of
                       (Inl e, w) \<Rightarrow> (Some (respondError 500 ''INTERNAL_ERROR'' ''failed to assign groups''), w)
                     | (Inr _, w) \<Rightarrow> (None, w)))))"

definition handleCreateUser ::
  "Crypto \<Rightarrow> audit_env \<Rightarrow> CreateUserRequest option \<Rightarrow> Request \<Rightarrow> World \<Rightarrow> (response + AdminUserResponse) \<times> World" where
  "handleCreateUser cy env body rq w =
     (case body of
        None \<Rightarrow> (Inl bad_body, w)
      | Some req \<Rightarrow> (case create_user_error req of
          Some msg \<Rightarrow> (Inl (respondError 400 ''VALIDATION_ERROR'' msg), w)
        | None \<Rightarrow>
            let roleKey = (if cu_RoleKey req = [] then ''member'' else cu_RoleKey req);
                gids = List.map_filter snd (cu_GroupIDs req);
                actorID = map_option u_ID (rq_User rq)
            in case CheckEmailAvailable (strings_ToLower (strings_TrimSpace (cu_Email req))) w of
              (Inl e, w) \<Rightarrow> (Inl (respondError 500 ''INTERNAL_ERROR'' ''failed to check email''), w)
            | (Inr available, w) \<Rightarrow>
                if \<not> available then (Inl (respondError 409 ''EMAIL_TAKEN'' ''this email is already in use''), w)
                else (case cy_Hash cy (cu_Password req) of
                  Inl e \<Rightarrow> (Inl (respondError 500 ''INTERNAL_ERROR'' ''failed to hash password''), w)
                | Inr hash \<Rightarrow>
                    (case UsersRepo_Create (new_user req roleKey hash actorID) w of
                       (Inl e, w) \<Rightarrow> (Inl (respondError 500 ''INTERNAL_ERROR'' ''failed to create user''), w)
                     | (Inr u, w) \<Rightarrow>
                         (case set_up_user (u_ID u) roleKey gids w of
                            (Some r, w) \<Rightarrow> (Inl r, w)
                          | (None, w) \<Rightarrow>
                              let w = (case actorID of
                                    None \<Rightarrow> w
                                  | Some a \<Rightarrow> writeAdminUserAudit env a (u_ID u) ''create'' JsonNull
                                      (JsonObject [(''display_name'', JsonString (u_FullName u)), (''email'', JsonString (u_Email u)),
                                         (''role_key'', JsonString roleKey), (''status'', JsonString (u_Status u))]) [] w)
                              in case GetAdminUserByID (u_ID u) w of
                                (Inl e, w) \<Rightarrow> (Inl (respondError 500 ''INTERNAL_ERROR'' ''failed to fetch created user''), w)
                              | (Inr created, w) \<Rightarrow> (Inr created, w))))))"

section \<open>Bulk handlers\<close>

record BulkDeactivateResult =
  bd_UserID :: uuid
  bd_Success :: bool
  bd_Error :: string

definition bulk_failed :: "uuid \<Rightarrow> string \<Rightarrow> BulkDeactivateResult" where
  "bulk_failed i msg = \<lparr>bd_UserID = i, bd_Success = False, bd_Error = msg\<rparr>"

text \<open>One id of the request; its text may not parse. The error of revoking the sessions is dropped.\<close>

definition bulk_deactivate_one :: "audit_env \<Rightarrow> uuid \<Rightarrow> string \<Rightarrow> uuid option \<Rightarrow> World \<Rightarrow> BulkDeactivateResult \<times> World" where
  "bulk_deactivate_one env actorID reason rawID w =
     (case rawID of
        None \<Rightarrow> (bulk_failed uuid_Nil ''invalid user id'', w)
      | Some userID \<Rightarrow>
          (case UsersRepo_GetByID userID w of
             (Inl e, w) \<Rightarrow> (bulk_failed userID ''user not found'', w)
           | (Inr target, w) \<Rightarrow>
               (case canModifyUser CountActiveAdmins actorID target ActionDeactivate w of
                  (Some ge, w) \<Rightarrow> (bulk_failed userID (guardErrMessage ge), w)
                | (None, w) \<Rightarrow>
                    (case UsersRepo_Update userID [SetIsActive False, SetStatus UserStatusDisabled] w of
                       (Inl e, w) \<Rightarrow> (bulk_failed userID ''failed to deactivate'', w)
                     | (Inr _, w) \<Rightarrow>
                         (\<lparr>bd_UserID = userID, bd_Success = True, bd_Error = []\<rparr>,
                          writeAdminUserAudit env actorID userID ''deactivate''
                            (JsonObject [(''status'', JsonString (u_Status target))])
                            (JsonObject [(''status'', JsonString UserStatusDisabled)]) reason
                            (snd (RevokeAllForUserWithReason userID ''deactivated'' w)))))))"

text \<open>The errors of the obligation and of revoking the sessions are dropped.\<close>

definition bulk_reset_one :: "audit_env \<Rightarrow> uuid \<Rightarrow> string \<Rightarrow> string \<Rightarrow> uuid option \<Rightarrow> World \<Rightarrow> BulkDeactivateResult \<times> World" where
  "bulk_reset_one env actorID reason hash rawID w =
     (case rawID of
        None \<Rightarrow> (bulk_failed uuid_Nil ''invalid user id'', w)
      | Some userID \<Rightarrow>
          (case UsersRepo_GetByID userID w of
             (Inl e, w) \<Rightarrow> (bulk_failed userID ''user not found'', w)
           | (Inr target, w) \<Rightarrow>
               (case canModifyUser CountActiveAdmins actorID target ActionResetPassword w of
                  (Some ge, w) \<Rightarrow> (bulk_failed userID (guardErrMessage ge), w)
                | (None, w) \<Rightarrow>
                    (case UsersRepo_Update userID [SetPasswordHash hash] w of
                       (Inl e, w) \<Rightarrow> (bulk_failed userID ''failed to reset password'', w)
                     | (Inr _, w) \<Rightarrow>
                         (\<lparr>bd_UserID = userID, bd_Success = True, bd_Error = []\<rparr>,
                          writeAdminUserAudit env actorID userID ''password_reset'' JsonNull
                            (JsonObject [(''must_change'', JsonBool True)]) reason
                            (snd (RevokeAllForUserWithReason userID ''password_changed''
                              (snd (SetMustChangePassword userID True ''admin_reset'' w)))))))))"

fun each_id :: "(uuid option \<Rightarrow> World \<Rightarrow> BulkDeactivateResult \<times> World) \<Rightarrow> uuid option list \<Rightarrow> World \<Rightarrow>
    BulkDeactivateResult list \<times> World" where
  "each_id step [] w = ([], w)"
| "each_id step (i # ids) w = (case step i w of (r, w) \<Rightarrow> (case each_id step ids w of (rs, w) \<Rightarrow> (r # rs, w)))"

text \<open>
  \<open>actor.ID\<close> is first used where the guard is reached; a missing actor is a panic there. For an actor
  the ids are worked through one by one.
\<close>

definition handleBulkDeactivateUsers ::
  "audit_env \<Rightarrow> (uuid option list \<times> string) option \<Rightarrow> User \<Rightarrow> World \<Rightarrow> (response + BulkDeactivateResult list) \<times> World" where
  "handleBulkDeactivateUsers env req actor w =
     (case req of
        None \<Rightarrow> (Inl bad_body, w)
      | Some (ids, reason) \<Rightarrow>
          if ids = [] then (Inl (respondError 400 ''VALIDATION_ERROR'' ''user_ids must not be empty''), w)
          else if reason_too_short reason then (Inl short_reason, w)
          else (case each_id (bulk_deactivate_one env (u_ID actor) reason) ids w of (rs, w) \<Rightarrow> (Inr rs, w)))"

definition handleBulkResetPassword ::
  "Crypto \<Rightarrow> audit_env \<Rightarrow> (uuid option list \<times> string \<times> string) option \<Rightarrow> User \<Rightarrow> World \<Rightarrow> (response + BulkDeactivateResult list) \<times> World" where
  "handleBulkResetPassword cy env req actor w =
     (case req of
        None \<Rightarrow> (Inl bad_body, w)
      | Some (ids, newPassword, reason) \<Rightarrow>
          if ids = [] then (Inl (respondError 400 ''VALIDATION_ERROR'' ''user_ids must not be empty''), w)
          else if strings_TrimSpace newPassword = []
          then (Inl (respondError 400 ''VALIDATION_ERROR'' ''new_password is required''), w)
          else if reason_too_short reason then (Inl short_reason, w)
          else (case cy_Hash cy newPassword of
            Inl e \<Rightarrow> (Inl (respondError 500 ''INTERNAL_ERROR'' ''failed to hash password''), w)
          | Inr hash \<Rightarrow>
              (case each_id (bulk_reset_one env (u_ID actor) reason hash) ids w of (rs, w) \<Rightarrow> (Inr rs, w))))"

definition handleCheckEmailAvailable :: "string \<Rightarrow> World \<Rightarrow> (response + bool) \<times> World" where
  "handleCheckEmailAvailable raw w =
     (let email = strings_TrimSpace raw in
      if email = [] then (Inl (respondError 400 ''VALIDATION_ERROR'' ''email is required''), w)
      else (case CheckEmailAvailable email w of
        (Inl e, w) \<Rightarrow> (Inl (respondError 500 ''INTERNAL_ERROR'' ''failed to check email''), w)
      | (Inr available, w) \<Rightarrow> (Inr available, w)))"

end
