(* ===== verification/AdminList.thy ===== *)
theory AdminList
  imports Admin "HOL-Library.Option_ord"
begin

text \<open>
  Listing accounts: the read-only part of \<open>internal/storage/admin_users_query.go\<close> and
  \<open>users_repo.go\<close>, and the handlers of \<open>admin_users.go\<close>, \<open>admin_users_v2.go\<close> and
  \<open>users_search.go\<close> that use it. Texts compare byte by byte, ids as texts compare like the ids.
\<close>

section \<open>The filter and the cursor\<close>

text \<open>The cursor decoded; times in it are cut to milliseconds.\<close>

record listUsersCursor =
  lc_Sort :: string
  lc_LastLoginMS :: "int option"
  lc_CreatedMS :: int
  lc_Email :: string
  lc_FullName :: string
  lc_ID :: uuid

record UserListFilter =
  uf_Q :: string
  uf_Roles :: "string list"
  uf_Statuses :: "string list"
  uf_GroupID :: "uuid option"
  uf_MFA :: "bool option"
  uf_Source :: string
  uf_Dormant :: bool
  uf_Sort :: string
  uf_Cursor :: "listUsersCursor option option"
  uf_Limit :: int

definition time_Milli :: int where "time_Milli = time_Second div 1000"

definition UnixMilli :: "time \<Rightarrow> int" where "UnixMilli t = t div time_Milli"
definition from_UnixMilli :: "int \<Rightarrow> time" where "from_UnixMilli ms = ms * time_Milli"

definition encodeListCursor :: "AdminUserResponse \<Rightarrow> string \<Rightarrow> listUsersCursor" where
  "encodeListCursor u order =
     \<lparr>lc_Sort = order, lc_LastLoginMS = map_option UnixMilli (ad_LastLoginAt u), lc_CreatedMS = UnixMilli (ad_CreatedAt u),
      lc_Email = ad_Email u, lc_FullName = ad_DisplayName u, lc_ID = ad_ID u\<rparr>"

definition users_where :: "time \<Rightarrow> DB \<Rightarrow> UserListFilter \<Rightarrow> (AdminUserResponse \<Rightarrow> bool) list" where
  "users_where now d f =
     (let q = strings_TrimSpace (uf_Q f); pat = ''%'' @ q @ ''%'' in
      cond_if (q \<noteq> []) (\<lambda>u. ILIKE (ad_Email u) pat \<or> ILIKE (ad_DisplayName u) pat)) @
     cond_if (uf_Roles f \<noteq> []) (\<lambda>u. ad_RoleKey u \<in> set (uf_Roles f)) @
     cond_if (uf_Statuses f \<noteq> []) (\<lambda>u. ad_Status u \<in> set (uf_Statuses f)) @
     (case uf_GroupID f of None \<Rightarrow> [] | Some g \<Rightarrow> [\<lambda>u. (ad_ID u, g) \<in> set (tb_user_groups d)]) @
     (case uf_MFA f of None \<Rightarrow> [] | Some b \<Rightarrow> [\<lambda>u. ad_MFAEnabled u = b]) @
     cond_if (uf_Source f \<noteq> []) (\<lambda>u. ad_IdentityKind u = uf_Source f) @
     cond_if (uf_Dormant f) (\<lambda>u. case ad_LastLoginAt u of None \<Rightarrow> True | Some t \<Rightarrow> t < now - 90 * 24 * time_Hour)"

text \<open>The conditions a cursor adds, by the sort order; an unknown order has none. Names are never NULL.\<close>

definition users_cursor :: "string \<Rightarrow> listUsersCursor \<Rightarrow> AdminUserResponse \<Rightarrow> bool" where
  "users_cursor order c u =
     (if order = ''last_login_desc'' then
        (case lc_LastLoginMS c of
           Some ms \<Rightarrow> (case ad_LastLoginAt u of
               None \<Rightarrow> True
             | Some t \<Rightarrow> t < from_UnixMilli ms \<or> t = from_UnixMilli ms \<and> ad_ID u < lc_ID c)
         | None \<Rightarrow> ad_LastLoginAt u = None \<and> ad_ID u < lc_ID c)
      else if order = ''created_at_desc'' then
        ad_CreatedAt u < from_UnixMilli (lc_CreatedMS c) \<or>
        ad_CreatedAt u = from_UnixMilli (lc_CreatedMS c) \<and> ad_ID u < lc_ID c
      else if order = ''email_asc'' then
        strings_ToLower (ad_Email u) > strings_ToLower (lc_Email c) \<or>
        strings_ToLower (ad_Email u) = strings_ToLower (lc_Email c) \<and> ad_ID u > lc_ID c
      else if order = ''name_asc'' then
        (if lc_FullName c \<noteq> [] then
           ad_DisplayName u > lc_FullName c \<or> ad_DisplayName u = lc_FullName c \<and> ad_ID u > lc_ID c
         else False)
      else True)"

definition users_order :: "string \<Rightarrow> AdminUserResponse list \<Rightarrow> AdminUserResponse list" where
  "users_order order rows =
     (if order = ''created_at_desc'' then order_rows False (\<lambda>u. (ad_CreatedAt u, ad_ID u)) rows
      else if order = ''email_asc'' then order_rows True (\<lambda>u. (strings_ToLower (ad_Email u), ad_ID u)) rows
      else if order = ''name_asc'' then order_rows True (\<lambda>u. (ad_DisplayName u, strings_ToLower (ad_Email u), ad_ID u)) rows
      else order_rows False (\<lambda>u. (ad_LastLoginAt u, ad_ID u)) rows)"

definition users_limit :: "int \<Rightarrow> nat" where
  "users_limit n = (if n \<le> 0 \<or> n > 200 then 50 else nat n)"

text \<open>The groups of the users of a page, which are not asked for when the page is empty.\<close>

definition fetch_groups :: "AdminUserResponse list \<Rightarrow> AdminUserResponse list op" where
  "fetch_groups users w = (if users = [] then (Inr [], w) else db_query (\<lambda>d. attachGroups d users) w)"

text \<open>The rows, the count of all matching rows, whether there are more, and the cursor of the next page.\<close>

definition ListV2 :: "UserListFilter \<Rightarrow> (AdminUserResponse list \<times> nat \<times> bool \<times> listUsersCursor option) op" where
  "ListV2 f w =
     (let limit = users_limit (uf_Limit f);
          order = (if uf_Sort f = [] then ''last_login_desc'' else uf_Sort f);
          base = (\<lambda>d. filter (whereClause (users_where (w_now w) d f)) (concat (map (admin_user_rows d) (tb_users d))))
      in case uf_Cursor f of
        Some None \<Rightarrow> (Inl (Err ''storage.UsersRepo.ListV2: invalid cursor''), w)
      | cur \<Rightarrow>
          let cursor = (case cur of Some (Some c) \<Rightarrow> users_cursor order c | _ \<Rightarrow> (\<lambda>u. True))
          in case db_query (\<lambda>d. length (base d)) w of
            (Inl e, w) \<Rightarrow> (Inl e, w)
          | (Inr cnt, w) \<Rightarrow>
              (case db_query (\<lambda>d. take (limit + 1) (users_order order (filter cursor (base d)))) w of
                 (Inl e, w) \<Rightarrow> (Inl e, w)
               | (Inr rows, w) \<Rightarrow>
                   let hasMore = length rows > limit; users = take limit rows
                   in case fetch_groups users w of
                     (Inl e, w) \<Rightarrow> (Inl e, w)
                   | (Inr users, w) \<Rightarrow>
                       (Inr (users, cnt, hasMore, if hasMore then Some (encodeListCursor (last users) order) else None), w)))"

section \<open>Handlers\<close>

text \<open>\<open>fmt.Sscanf\<close> of the limit and \<open>decodeListCursor\<close> are arguments.\<close>

definition parseUserListFilter :: "Query \<Rightarrow> int option \<Rightarrow> (string \<Rightarrow> listUsersCursor option) \<Rightarrow> UserListFilter" where
  "parseUserListFilter q limit decodeCursor =
     \<lparr>uf_Q = strings_TrimSpace (qs_Get q ''q''),
      uf_Roles = (if qs_Get q ''role'' = [] then [] else strings_Split (qs_Get q ''role'') (CHR '','')),
      uf_Statuses = (if qs_Get q ''status'' = [] then [] else strings_Split (qs_Get q ''status'') (CHR '','')),
      uf_GroupID = (if qs_Get q ''group'' = [] then None else qs_UUID q (qs_Get q ''group'')),
      uf_MFA = (if qs_Get q ''mfa'' = [] then None else Some (qs_Get q ''mfa'' = ''enabled'')),
      uf_Source = qs_Get q ''source'',
      uf_Dormant = (qs_Get q ''dormant'' = ''true''),
      uf_Sort = qs_Get q ''sort'',
      uf_Cursor = (if qs_Get q ''cursor'' = [] then None else Some (decodeCursor (qs_Get q ''cursor''))),
      uf_Limit = (case limit of None \<Rightarrow> 50 | Some n \<Rightarrow> n)\<rparr>"

definition handleListUsers :: "UserListFilter \<Rightarrow> World \<Rightarrow>
    (response + AdminUserResponse list \<times> nat \<times> bool \<times> listUsersCursor option) \<times> World" where
  "handleListUsers f w = (case ListV2 f w of
     (Inl e, w) \<Rightarrow> (Inl (respondError 500 ''INTERNAL_ERROR'' ''failed to list users''), w)
   | (Inr page, w) \<Rightarrow> (Inr page, w))"

definition user_csv_header :: "string list" where
  "user_csv_header = [''ID'', ''Email'', utf8 [1048, 1084, 1103], utf8 [1056, 1086, 1083, 1100], utf8 [1057, 1090, 1072, 1090, 1091, 1089], utf8 [1048, 1089, 1090, 1086, 1095, 1085, 1080, 1082],
     ''MFA'', utf8 [1043, 1088, 1091, 1087, 1087, 1099], utf8 [1055, 1086, 1089, 1083, 1077, 1076, 1085, 1080, 1081, 32, 1074, 1093, 1086, 1076], utf8 [73, 80, 32, 1074, 1093, 1086, 1076, 1072], utf8 [1057, 1086, 1079, 1076, 1072, 1085]]"

definition boolToCSV :: "bool \<Rightarrow> string" where
  "boolToCSV b = (if b then utf8 [1076, 1072] else utf8 [1085, 1077, 1090])"

definition user_csv_row :: "Formats \<Rightarrow> AdminUserResponse \<Rightarrow> string list" where
  "user_csv_row fm u =
     [fm_UUID fm (ad_ID u), ad_Email u, ad_DisplayName u, ad_RoleKey u, ad_Status u, ad_IdentityKind u,
      boolToCSV (ad_MFAEnabled u), strings_Join (map (\<lambda>(_, name, _). name) (ad_Groups u)) '';'',
      (case ad_LastLoginAt u of None \<Rightarrow> [] | Some t \<Rightarrow> fm_Time fm t), (case ad_LastLoginIP u of None \<Rightarrow> [] | Some ip \<Rightarrow> ip),
      fm_Time fm (ad_CreatedAt u)]"

definition handleExportUsersCSV :: "Formats \<Rightarrow> UserListFilter \<Rightarrow> World \<Rightarrow> (response + string list list) \<times> World" where
  "handleExportUsersCSV fm f w =
     (case ListV2 (f\<lparr>uf_Limit := 10000, uf_Cursor := None\<rparr>) w of
        (Inl e, w) \<Rightarrow> (Inl (respondError 500 ''INTERNAL_ERROR'' ''failed to list users''), w)
      | (Inr (users, _, _, _), w) \<Rightarrow> (Inr (user_csv_header # map (user_csv_row fm) users), w))"

definition ListGroups :: "string \<Rightarrow> int \<Rightarrow> (uuid \<times> string \<times> string \<times> string option) list op" where
  "ListGroups q want =
     (let limit = (if want \<le> 0 \<or> want > 50 then 10 else nat want) in
      db_query (\<lambda>d. take limit (sort_key (\<lambda>(_, name, _). name)
        (if q = [] then tb_groups d
         else filter (\<lambda>(_, name, _). ILIKE name (''%'' @ strings_TrimSpace q @ ''%'')) (tb_groups d)))))"

definition handleListGroups :: "string \<Rightarrow> int option \<Rightarrow> World \<Rightarrow> (response + (uuid \<times> string \<times> string \<times> string option) list) \<times> World" where
  "handleListGroups q limit w =
     (case ListGroups q (case limit of None \<Rightarrow> 10 | Some n \<Rightarrow> if n \<le> 0 then 10 else n) w of
        (Inl e, w) \<Rightarrow> (Inl (respondError 500 ''INTERNAL_ERROR'' ''failed to list groups''), w)
      | (Inr gs, w) \<Rightarrow> (Inr gs, w))"

definition handleGetAccessCounts :: "World \<Rightarrow> (response + nat \<times> nat \<times> nat) \<times> World" where
  "handleGetAccessCounts w =
     (case UsersRepo_Count w of
        (Inl e, w) \<Rightarrow> (Inl (respondError 500 ''INTERNAL_ERROR'' ''failed to count users''), w)
      | (Inr users, w) \<Rightarrow>
          (case db_query (\<lambda>d. length (tb_groups d)) w of
             (Inl e, w) \<Rightarrow> (Inl (respondError 500 ''INTERNAL_ERROR'' ''failed to count groups''), w)
           | (Inr groups, w) \<Rightarrow>
               (case db_query (\<lambda>d. length (tb_role_names d)) w of
                  (Inl e, w) \<Rightarrow> (Inl (respondError 500 ''INTERNAL_ERROR'' ''failed to count roles''), w)
                | (Inr roles, w) \<Rightarrow> (Inr (users, groups, roles), w))))"

section \<open>Plain listings\<close>

definition UsersRepo_List :: "int \<Rightarrow> int \<Rightarrow> (User list \<times> nat) op" where
  "UsersRepo_List wantLimit wantOffset w =
     (let limit = (if wantLimit \<le> 0 \<or> wantLimit > 200 then 50 else nat wantLimit);
          offset = (if wantOffset < 0 then 0 else nat wantOffset)
      in case db_query (\<lambda>d. length (tb_users d)) w of
        (Inl e, w) \<Rightarrow> (Inl e, w)
      | (Inr cnt, w) \<Rightarrow>
          (case db_query (\<lambda>d. take limit (drop offset (map scanUser (sort_key (\<lambda>u. (- u_CreatedAt u, u_ID u)) (tb_users d))))) w of
             (Inl e, w) \<Rightarrow> (Inl e, w)
           | (Inr users, w) \<Rightarrow> (Inr (users, cnt), w)))"

definition SearchActive :: "string \<Rightarrow> int \<Rightarrow> User list op" where
  "SearchActive q want =
     (let limit = (if want \<le> 0 \<or> want > 100 then 20 else nat want); pat = ''%'' @ strings_TrimSpace q @ ''%'' in
      db_query (\<lambda>d. take limit (map scanUser (sort_key (\<lambda>u. strings_ToLower (u_Email u))
        (filter (\<lambda>u. u_IsActive u \<and> (ILIKE (u_Email u) pat \<or> ILIKE (u_FullName u) pat)) (tb_users d))))))"

definition handleSearchUsers :: "string \<Rightarrow> World \<Rightarrow> (response + (uuid \<times> string \<times> string) list) \<times> World" where
  "handleSearchUsers raw w =
     (let q = strings_TrimSpace raw in
      if q = [] then (Inr [], w)
      else case SearchActive q 20 w of
        (Inl e, w) \<Rightarrow> (Inl (respondError 500 ''INTERNAL_ERROR'' ''failed to search users''), w)
      | (Inr users, w) \<Rightarrow> (Inr (map (\<lambda>u. (u_ID u, u_Email u, u_FullName u)) users), w))"

definition ListAllRolesForUser :: "uuid \<Rightarrow> (uuid \<times> string \<times> ProjectRoleRow) list op" where
  "ListAllRolesForUser i = db_query (\<lambda>d. sort_key (\<lambda>(_, name, _). name)
     (concat (map (\<lambda>r. map (\<lambda>(p, name). (p, name, r)) (filter (\<lambda>(p, _). p = upr_ProjectID r) (tb_projects d)))
        (filter (\<lambda>r. upr_UserID r = i) (tb_roles d)))))"

definition handleGetUserRoles :: "uuid option \<Rightarrow> World \<Rightarrow> (response + (uuid \<times> string \<times> ProjectRoleRow) list) \<times> World" where
  "handleGetUserRoles param w =
     (case param of
        None \<Rightarrow> (Inl bad_user, w)
      | Some i \<Rightarrow> (case ListAllRolesForUser i w of
          (Inl e, w) \<Rightarrow> (Inl (respondError 500 ''INTERNAL_ERROR'' ''failed to fetch user roles''), w)
        | (Inr roles, w) \<Rightarrow> (Inr roles, w)))"

end
