(* ===== verification/AdminCorrect.thy ===== *)
theory AdminCorrect
  imports AdminList AuthCorrect
begin

text \<open>
  What the administration of accounts guarantees: the guard against losing the last active
  administrator, taken alone and between requests that interleave, what a deactivation ends, and how
  complete the listings are.
\<close>

section \<open>Counting administrators\<close>

text \<open>
  The interface \<open>adminCountRepo\<close> of the guard: counting changes nothing and counts the rows of active
  administrators.
\<close>

locale admin_counter =
  fixes countAdmins :: "nat op"
  assumes count_reads: "countAdmins w = (r, w') \<Longrightarrow> w_db w' = w_db w"
    and count_exact: "countAdmins w = (Inr n, w') \<Longrightarrow> n = length (filter is_active_admin (tb_users (w_db w)))"

context admin_counter
begin

lemma guard_reads: "canModifyUser countAdmins a t act w = (g, w') \<Longrightarrow> w_db w' = w_db w"
  by (auto simp: canModifyUser_def dest: count_reads split: if_splits prod.splits sum.splits)

text \<open>What a permission means.\<close>

lemma guard_permits:
  assumes "canModifyUser countAdmins a t act w = (None, w')"
  shows "(act \<noteq> ActionActivate \<longrightarrow> a \<noteq> u_ID t) \<and>
    (act \<in> {ActionDelete, ActionDeactivate, ActionRemoveRoleAdmin} \<longrightarrow> \<not> u_IsSystemAccount t) \<and>
    (act \<in> {ActionRemoveRoleAdmin, ActionDeactivate} \<longrightarrow> User_IsAdmin t \<longrightarrow>
       1 < length (filter is_active_admin (tb_users (w_db w))))"
  using assms count_exact
  by (cases act) (auto simp: canModifyUser_def split: if_splits prod.splits sum.splits)

end

interpretation admins: admin_counter CountActiveAdmins
  by unfold_locales (auto simp: CountActiveAdmins_def dest: db_query_db db_query_Inr)

section \<open>What the operations do to the accounts\<close>

lemma UsersRepo_GetByID_Inr:
  "UsersRepo_GetByID i w = (Inr t, w') \<Longrightarrow> \<exists>u. find (\<lambda>u. u_ID u = i) (tb_users (w_db w)) = Some u \<and> t = scanUser u"
  unfolding UsersRepo_GetByID_def by (drule db_query_row_Inr) auto

lemma sync_users: "sync_users_global_role i role d = Inr d' \<Longrightarrow> tb_users d' = tb_users d \<and> tb_sessions d' = tb_sessions d"
  by (auto simp: sync_users_global_role_def Let_def split: if_splits)

definition set_user :: "uuid \<Rightarrow> (User \<Rightarrow> User) \<Rightarrow> User list \<Rightarrow> User list" where
  "set_user i g us = map (\<lambda>u. if u_ID u = i then g u else u) us"

lemma Update_users:
  assumes "UsersRepo_Update i flds w = (r, w')"
  shows "(tb_users (w_db w') = tb_users (w_db w) \<or>
      tb_users (w_db w') = set_user i (\<lambda>u. (fold set_field flds u)\<lparr>u_UpdatedAt := w_now w\<rparr>) (tb_users (w_db w))) \<and>
    tb_sessions (w_db w') = tb_sessions (w_db w)"
proof -
  obtain x w1 where x: "db_exec (update_fields i flds (w_now w)) w = (x, w1)" by fastforce
  show ?thesis
  proof (cases x)
    case (Inl e)
    then have "w_db w' = w_db w"
      using assms x db_exec_Inl [of "update_fields i flds (w_now w)" w e w1] by (auto simp: UsersRepo_Update_def split: if_splits)
    then show ?thesis by simp
  next
    case (Inr found)
    then have "update_fields i flds (w_now w) (w_db w) = Inr (found, w_db w1)" using x by (auto dest: db_exec_Inr)
    then have "tb_users (w_db w1) = set_user i (\<lambda>u. (fold set_field flds u)\<lparr>u_UpdatedAt := w_now w\<rparr>) (tb_users (w_db w)) \<and>
        tb_sessions (w_db w1) = tb_sessions (w_db w)"
      by (auto simp: update_fields_def update_user_def set_user_def map_sum_def dest!: sync_users sym [of _ "w_db w1"]
          split: if_splits option.splits sum.splits)
    then show ?thesis using assms x Inr by (auto simp: UsersRepo_Update_def split: if_splits)
  qed
qed

lemma RevokeAll_users: "RevokeAllForUserWithReason i reason w = (r, w') \<Longrightarrow> tb_users (w_db w') = tb_users (w_db w)"
  unfolding RevokeAllForUserWithReason_def
  by (cases r) (auto simp: update_sessions_def dest!: db_exec_Inl db_exec_Inr sym [of _ "w_db w'"])

lemma audit_db [simp]: "w_db (writeAdminUserAudit env a t act b c reason w) = w_db w"
  by (cases env) (simp add: uuid_New_def Submit_def)

lemma SetMustChange_users:
  assumes "SetMustChangePassword i b reason w = (r, w')"
  shows "tb_users (w_db w') = tb_users (w_db w) \<or> tb_users (w_db w') = set_user i (\<lambda>u. u\<lparr>u_MustChangePassword := b\<rparr>) (tb_users (w_db w))"
proof (cases r)
  case (Inl e)
  then show ?thesis using assms db_exec_Inl by (fastforce simp: SetMustChangePassword_def)
next
  case (Inr x)
  then show ?thesis using SetMustChange_Inr [of i b reason w x w'] assms by (simp add: set_user_def)
qed

section \<open>The last active administrator\<close>

definition ids_distinct :: "DB \<Rightarrow> bool" where
  "ids_distinct d \<longleftrightarrow> distinct (map u_ID (tb_users d))"

definition has_active_admin :: "DB \<Rightarrow> bool" where
  "has_active_admin d \<longleftrightarrow> list_ex is_active_admin (tb_users d)"

definition admin_inv :: "DB \<Rightarrow> bool" where
  "admin_inv d \<longleftrightarrow> ids_distinct d \<and> has_active_admin d"

lemma admin_inv_cong: "tb_users d = tb_users d' \<Longrightarrow> admin_inv d = admin_inv d'"
  by (simp add: admin_inv_def ids_distinct_def has_active_admin_def)

text \<open>
  Changing the row of one account keeps an active administrator when the account was none, stays one, or
  is not the only one.
\<close>

lemma set_user_inv:
  assumes "admin_inv d" and "tb_users d' = set_user i g (tb_users d)" and "\<And>u. u_ID (g u) = u_ID u"
    and "\<And>u. u \<in> set (tb_users d) \<Longrightarrow> u_ID u = i \<Longrightarrow> is_active_admin u \<Longrightarrow>
      is_active_admin (g u) \<or> 1 < length (filter is_active_admin (tb_users d))"
  shows "admin_inv d'"
proof -
  have "map u_ID (tb_users d') = map u_ID (tb_users d)" using assms(3) by (simp add: assms(2) set_user_def)
  then have dist: "ids_distinct d'" using assms(1) by (simp add: admin_inv_def ids_distinct_def)
  obtain a where a: "a \<in> set (tb_users d)" "is_active_admin a"
    using assms(1) by (auto simp: admin_inv_def has_active_admin_def list_ex_iff)
  have "\<exists>u \<in> set (tb_users d). is_active_admin (if u_ID u = i then g u else u)"
  proof (cases "u_ID a = i \<and> \<not> is_active_admin (g a)")
    case False
    then show ?thesis using a by (intro bexI [of _ a]) auto
  next
    case True
    then have two: "1 < length (filter is_active_admin (tb_users d))" using assms(4) a by blast
    have "distinct (filter is_active_admin (tb_users d))"
      using assms(1) by (simp add: admin_inv_def ids_distinct_def distinct_map)
    then have "card (set (filter is_active_admin (tb_users d))) = length (filter is_active_admin (tb_users d))"
      by (rule distinct_card)
    then have "\<not> set (filter is_active_admin (tb_users d)) \<subseteq> {a}"
      using two by (metis card_mono finite.emptyI finite.insertI is_singletonI is_singleton_altdef linorder_not_le)
    then obtain b where b: "b \<in> set (tb_users d)" "is_active_admin b" "b \<noteq> a" by auto
    have "u_ID b \<noteq> u_ID a" using assms(1) a(1) b(1,3) by (auto simp: admin_inv_def ids_distinct_def distinct_map inj_on_def)
    then show ?thesis using True b by (intro bexI [of _ b]) auto
  qed
  then obtain u where u: "u \<in> set (tb_users d)" "is_active_admin (if u_ID u = i then g u else u)" by blast
  have "(if u_ID u = i then g u else u) \<in> set (tb_users d')"
    unfolding assms(2) set_user_def set_map by (rule image_eqI [OF refl u(1)])
  then show ?thesis using dist u(2) unfolding admin_inv_def has_active_admin_def list_ex_iff by blast
qed

text \<open>An update behind a permission of the guard, or of an account that is no active administrator.\<close>

lemma guarded_update_inv:
  assumes "admin_inv (w_db w)" and "UsersRepo_GetByID i w0 = (Inr t, w1)" and "w_db w0 = w_db w"
    and "UsersRepo_Update i flds w = (r, w')" and "\<And>u. u_ID (fold set_field flds u) = u_ID u"
    and "User_IsAdmin t \<Longrightarrow> 1 < length (filter is_active_admin (tb_users (w_db w))) \<or>
      (\<forall>u. is_active_admin u \<longrightarrow> is_active_admin (fold set_field flds u))"
  shows "admin_inv (w_db w')"
proof -
  obtain u where u: "find (\<lambda>u. u_ID u = i) (tb_users (w_db w)) = Some u" "t = scanUser u"
    using UsersRepo_GetByID_Inr [OF assms(2)] assms(3) by auto
  have only: "x = u" if "x \<in> set (tb_users (w_db w))" "u_ID x = i" for x
    using that u(1) assms(1) by (auto simp: admin_inv_def ids_distinct_def distinct_map inj_on_def dest!: find_Some_in)
  have adm: "is_active_admin u \<Longrightarrow> User_IsAdmin t" by (simp add: is_active_admin_def u(2) scanUser_def User_IsAdmin_def)
  have act: "is_active_admin (v\<lparr>u_UpdatedAt := n\<rparr>) = is_active_admin v" for v n by (simp add: is_active_admin_def)
  from Update_users [OF assms(4)] show ?thesis
  proof (elim conjE disjE)
    assume "tb_users (w_db w') = tb_users (w_db w)"
    then show ?thesis using assms(1) admin_inv_cong by blast
  next
    assume s: "tb_users (w_db w') = set_user i (\<lambda>u. (fold set_field flds u)\<lparr>u_UpdatedAt := w_now w\<rparr>) (tb_users (w_db w))"
    show ?thesis
      by (rule set_user_inv [OF assms(1) s]) (use only adm assms(5,6) in \<open>auto simp: act\<close>)
  qed
qed

text \<open>The requests of administrators that act on accounts that exist, one after the other; time and faults may change in between.\<close>

inductive admin_request :: "World \<Rightarrow> World \<Rightarrow> bool" where
  role: "handleChangeUserRole env req rq w = (r, w') \<Longrightarrow> admin_request w w'"
| deactivate: "handleDeactivateUser env req rq w = (r, w') \<Longrightarrow> admin_request w w'"
| bulk_deactivate: "handleBulkDeactivateUsers env req2 actor w = (rs, w') \<Longrightarrow> admin_request w w'"
| activate: "handleActivateUser env req rq w = (r, w') \<Longrightarrow> admin_request w w'"
| reset: "handleResetUserPassword cy env req3 rq w = (r, w') \<Longrightarrow> admin_request w w'"
| bulk_reset: "handleBulkResetPassword cy env req4 actor w = (rs, w') \<Longrightarrow> admin_request w w'"
| update: "handleUpdateUser env req5 rq w = (r, w') \<Longrightarrow> admin_request w w'"
| later: "admin_request w (w\<lparr>w_now := t, w_faults := fs\<rparr>)"

lemma role_inv:
  assumes "handleChangeUserRole env req rq w = (r, w')" and "admin_inv (w_db w)"
  shows "admin_inv (w_db w')"
proof (cases "w_db w' = w_db w")
  case False
  obtain i isAdmin reason where p: "rq_Param rq ''id'' = Some i" "req = Some (isAdmin, reason)"
    using assms(1) False by (auto simp: handleChangeUserRole_def split: option.splits)
  obtain x w1 where x: "UsersRepo_GetByID i w = (x, w1)" by fastforce
  note x_db = UsersRepo_GetByID_db [OF x]
  obtain t where t: "x = Inr t" using assms(1) False p x x_db by (cases x) (auto simp: handleChangeUserRole_def)
  let ?rem = "User_IsAdmin t \<and> \<not> isAdmin"
  obtain g w2 where g: "(if ?rem then canModifyUser CountActiveAdmins (u_ID (the (rq_User rq))) t ActionRemoveRoleAdmin w1
      else (None, w1)) = (g, w2)" by fastforce
  have g_db: "w_db w2 = w_db w1" using g admins.guard_reads by (auto split: if_splits)
  have gn: "g = None" using assms(1) False p x t x_db g g_db
    by (cases g) (auto simp: handleChangeUserRole_def Let_def split: if_splits)
  let ?flds = "[SetGlobalRole (if isAdmin then RoleAdmin else RoleUser)]"
  obtain y w3 where y: "UsersRepo_Update i ?flds w2 = (y, w3)" by fastforce
  have w': "tb_users (w_db w') = tb_users (w_db w3)"
    using assms(1) False p x t g gn y x_db g_db
    by (auto simp: handleChangeUserRole_def Let_def dest!: RevokeAll_users UsersRepo_GetByID_db
        split: if_splits sum.splits prod.splits option.splits)
  have "admin_inv (w_db w3)"
  proof (rule guarded_update_inv [OF _ x [unfolded t] _ y])
    show "admin_inv (w_db w2)" "w_db w = w_db w2" using assms(2) x_db g_db by simp_all
    show "u_ID (fold set_field ?flds u) = u_ID u" for u by simp
    assume "User_IsAdmin t"
    then show "1 < length (filter is_active_admin (tb_users (w_db w2))) \<or>
        (\<forall>u. is_active_admin u \<longrightarrow> is_active_admin (fold set_field ?flds u))"
      using g gn g_db admins.guard_permits [of "u_ID (the (rq_User rq))" t ActionRemoveRoleAdmin w1 w2]
      by (cases isAdmin) (auto simp: is_active_admin_def)
  qed
  then show ?thesis using w' admin_inv_cong by blast
qed (use assms(2) in simp)

lemma disable_guarded:
  assumes "canModifyUser CountActiveAdmins a t ActionDeactivate w0 = (None, w1)" and "UsersRepo_GetByID i wa = (Inr t, w0)"
    and "UsersRepo_Update i [SetIsActive False, SetStatus UserStatusDisabled] w1 = (y, w2)" and "admin_inv (w_db w0)"
  shows "admin_inv (w_db w2)"
proof (rule guarded_update_inv [OF _ assms(2) _ assms(3)])
  note db = admins.guard_reads [OF assms(1)] UsersRepo_GetByID_db [OF assms(2)]
  show "admin_inv (w_db w1)" "w_db wa = w_db w1" using assms(4) db by simp_all
  show "u_ID (fold set_field [SetIsActive False, SetStatus UserStatusDisabled] u) = u_ID u" for u by simp
  assume "User_IsAdmin t"
  then show "1 < length (filter is_active_admin (tb_users (w_db w1))) \<or>
      (\<forall>u. is_active_admin u \<longrightarrow> is_active_admin (fold set_field [SetIsActive False, SetStatus UserStatusDisabled] u))"
    using admins.guard_permits [OF assms(1)] db by simp
qed

lemma deactivate_inv:
  assumes "handleDeactivateUser env req rq w = (r, w')" and "admin_inv (w_db w)"
  shows "admin_inv (w_db w')"
proof (cases "w_db w' = w_db w")
  case False
  note d = assms(1) [unfolded handleDeactivateUser_def disable_account_def]
  obtain i reason where p: "rq_Param rq ''id'' = Some i" "req = Some reason" using d False by (auto split: option.splits)
  obtain x w1 where x: "UsersRepo_GetByID i w = (x, w1)" by fastforce
  note x_db = UsersRepo_GetByID_db [OF x]
  obtain t where t: "x = Inr t" using d False p x x_db by (cases x) auto
  obtain actor where a: "rq_User rq = Some actor" using d False p x t x_db by (auto split: if_splits option.splits)
  obtain g w2 where g: "canModifyUser CountActiveAdmins (u_ID actor) t ActionDeactivate w1 = (g, w2)" by fastforce
  note g_db = admins.guard_reads [OF g]
  have gn: "g = None" using d False p x t a x_db g g_db by (cases g) (auto split: if_splits)
  obtain y w3 where y: "UsersRepo_Update i [SetIsActive False, SetStatus UserStatusDisabled] w2 = (y, w3)" by fastforce
  have "tb_users (w_db w') = tb_users (w_db w3)"
    using d False p x t a g gn y x_db g_db by (auto dest!: RevokeAll_users split: if_splits sum.splits prod.splits)
  then show ?thesis
    using disable_guarded [OF g [unfolded gn] x [unfolded t] y] assms(2) x_db admin_inv_cong by metis
qed (use assms(2) in simp)

lemma bulk_deactivate_one_inv:
  assumes "bulk_deactivate_one env a reason raw w = (r, w')" and "admin_inv (w_db w)"
  shows "admin_inv (w_db w')"
proof (cases "w_db w' = w_db w")
  case False
  note d = assms(1) [unfolded bulk_deactivate_one_def]
  obtain i where p: "raw = Some i" using d False by (auto split: option.splits)
  obtain x w1 where x: "UsersRepo_GetByID i w = (x, w1)" by fastforce
  note x_db = UsersRepo_GetByID_db [OF x]
  obtain t where t: "x = Inr t" using d False p x x_db by (cases x) auto
  obtain g w2 where g: "canModifyUser CountActiveAdmins a t ActionDeactivate w1 = (g, w2)" by fastforce
  note g_db = admins.guard_reads [OF g]
  have gn: "g = None" using d False p x t x_db g g_db by (cases g) auto
  obtain y w3 where y: "UsersRepo_Update i [SetIsActive False, SetStatus UserStatusDisabled] w2 = (y, w3)" by fastforce
  obtain z w4 where z: "RevokeAllForUserWithReason i ''deactivated'' w3 = (z, w4)" by fastforce
  have "tb_users (w_db w') = tb_users (w_db w3)"
    using d p x t g gn y z RevokeAll_users [OF z] by (auto split: sum.splits)
  then show ?thesis
    using disable_guarded [OF g [unfolded gn] x [unfolded t] y] assms(2) x_db admin_inv_cong by metis
qed (use assms(2) in simp)

lemma each_id_inv:
  assumes "\<And>i w r w'. step i w = (r, w') \<Longrightarrow> admin_inv (w_db w) \<Longrightarrow> admin_inv (w_db w')"
  shows "each_id step ids w = (rs, w') \<Longrightarrow> admin_inv (w_db w) \<Longrightarrow> admin_inv (w_db w')"
  by (induction ids arbitrary: w rs) (auto split: prod.splits dest: assms)

text \<open>Operations that leave role and status alone, or only activate.\<close>

lemma harmless_update_inv:
  assumes "UsersRepo_Update i flds w = (r, w')" and "admin_inv (w_db w)" and "\<And>u. u_ID (fold set_field flds u) = u_ID u"
    and "\<And>u. is_active_admin u \<Longrightarrow> is_active_admin (fold set_field flds u)"
  shows "admin_inv (w_db w')"
  using Update_users [OF assms(1)]
proof (elim conjE disjE)
  assume "tb_users (w_db w') = tb_users (w_db w)"
  then show ?thesis using assms(2) admin_inv_cong by blast
next
  assume s: "tb_users (w_db w') = set_user i (\<lambda>u. (fold set_field flds u)\<lparr>u_UpdatedAt := w_now w\<rparr>) (tb_users (w_db w))"
  show ?thesis by (rule set_user_inv [OF assms(2) s]) (use assms(3,4) in \<open>simp_all add: is_active_admin_def\<close>)
qed

lemma must_change_inv:
  assumes "SetMustChangePassword i b reason w = (r, w')" and "admin_inv (w_db w)"
  shows "admin_inv (w_db w')"
  using SetMustChange_users [OF assms(1)]
proof
  assume "tb_users (w_db w') = tb_users (w_db w)"
  then show ?thesis using assms(2) admin_inv_cong by blast
next
  assume s: "tb_users (w_db w') = set_user i (\<lambda>u. u\<lparr>u_MustChangePassword := b\<rparr>) (tb_users (w_db w))"
  show ?thesis by (rule set_user_inv [OF assms(2) s]) (simp_all add: is_active_admin_def)
qed

lemma revoke_inv: "RevokeAllForUserWithReason i reason w = (r, w') \<Longrightarrow> admin_inv (w_db w) \<Longrightarrow> admin_inv (w_db w')"
  using RevokeAll_users admin_inv_cong by metis

lemma get_inv: "UsersRepo_GetByID i w = (r, w') \<Longrightarrow> admin_inv (w_db w) \<Longrightarrow> admin_inv (w_db w')"
  using UsersRepo_GetByID_db by metis

lemma guard_inv: "canModifyUser CountActiveAdmins a t act w = (g, w') \<Longrightarrow> admin_inv (w_db w) \<Longrightarrow> admin_inv (w_db w')"
  using admins.guard_reads by metis

lemma password_update_inv: "UsersRepo_Update i [SetPasswordHash h] w = (r, w') \<Longrightarrow> admin_inv (w_db w) \<Longrightarrow> admin_inv (w_db w')"
  by (erule harmless_update_inv) (simp_all add: is_active_admin_def)

lemma activate_update_inv:
  "UsersRepo_Update i [SetIsActive True, SetStatus UserStatusActive] w = (r, w') \<Longrightarrow> admin_inv (w_db w) \<Longrightarrow> admin_inv (w_db w')"
  by (erule harmless_update_inv) (simp_all add: is_active_admin_def)

lemma name_update_inv:
  "UsersRepo_Update i [SetFullName n] w = (r, w') \<Longrightarrow> admin_inv (w_db w) \<Longrightarrow> admin_inv (w_db w')"
  "UsersRepo_Update i [SetEmail e] w = (r, w') \<Longrightarrow> admin_inv (w_db w) \<Longrightarrow> admin_inv (w_db w')"
  "UsersRepo_Update i [SetFullName n, SetEmail e] w = (r, w') \<Longrightarrow> admin_inv (w_db w) \<Longrightarrow> admin_inv (w_db w')"
  by (erule harmless_update_inv; simp add: is_active_admin_def)+

lemmas keeps_admin = get_inv guard_inv must_change_inv revoke_inv password_update_inv activate_update_inv name_update_inv

lemma activate_inv: "handleActivateUser env req rq w = (r, w') \<Longrightarrow> admin_inv (w_db w) \<Longrightarrow> admin_inv (w_db w')"
  by (auto simp: handleActivateUser_def split: option.splits sum.splits prod.splits if_splits; (drule (1) keeps_admin)+; simp)

lemma reset_inv: "handleResetUserPassword cy env req rq w = (r, w') \<Longrightarrow> admin_inv (w_db w) \<Longrightarrow> admin_inv (w_db w')"
  by (auto simp: handleResetUserPassword_def split: option.splits sum.splits prod.splits if_splits; (drule (1) keeps_admin)+; simp)

lemma update_inv: "handleUpdateUser env req rq w = (r, w') \<Longrightarrow> admin_inv (w_db w) \<Longrightarrow> admin_inv (w_db w')"
  unfolding handleUpdateUser_def Let_def
  by (auto split: option.splits sum.splits prod.splits if_splits; (drule (1) keeps_admin)+; simp)

lemma bulk_reset_one_inv: "bulk_reset_one env a reason h raw w = (r, w') \<Longrightarrow> admin_inv (w_db w) \<Longrightarrow> admin_inv (w_db w')"
proof -
  have snd_inv: "admin_inv (w_db v) \<Longrightarrow>
      admin_inv (w_db (snd (RevokeAllForUserWithReason i rr (snd (SetMustChangePassword i b rs v)))))" for v i rr b rs
    using must_change_inv [OF surjective_pairing] revoke_inv [OF surjective_pairing] by blast
  show "bulk_reset_one env a reason h raw w = (r, w') \<Longrightarrow> admin_inv (w_db w) \<Longrightarrow> admin_inv (w_db w')"
    by (auto simp: bulk_reset_one_def intro!: snd_inv split: option.splits sum.splits prod.splits; (drule (1) keeps_admin)+; simp)
qed

lemma each_deactivate_inv:
  "each_id (bulk_deactivate_one env a reason) ids w = (rs, w') \<Longrightarrow> admin_inv (w_db w) \<Longrightarrow> admin_inv (w_db w')"
  by (rule each_id_inv [OF bulk_deactivate_one_inv])

lemma each_reset_inv:
  "each_id (bulk_reset_one env a reason h) ids w = (rs, w') \<Longrightarrow> admin_inv (w_db w) \<Longrightarrow> admin_inv (w_db w')"
  by (rule each_id_inv [OF bulk_reset_one_inv])

lemma admin_request_inv: "admin_request w w' \<Longrightarrow> admin_inv (w_db w) \<Longrightarrow> admin_inv (w_db w')"
proof (induction rule: admin_request.induct)
  case (bulk_deactivate env req actor w rs w')
  then show ?case
    by (auto simp: handleBulkDeactivateUsers_def dest: each_deactivate_inv
        split: option.splits prod.splits if_splits)
next
  case (bulk_reset cy env req actor w rs w')
  then show ?case
    by (auto simp: handleBulkResetPassword_def dest: each_reset_inv
        split: option.splits prod.splits if_splits sum.splits)
qed (auto dest: role_inv deactivate_inv activate_inv reset_inv update_inv)

text \<open>
  C10. Requests one after the other never take away the last active administrator: starting with one, any
  sequence of role changes, deactivations (alone or in bulk), activations, password resets and renamings
  by any actors, with any database faults, leaves an account with the role admin and the status active.
\<close>

theorem active_admin_remains:
  assumes "admin_request\<^sup>*\<^sup>* w w'" and "ids_distinct (w_db w)" and "has_active_admin (w_db w)"
  shows "has_active_admin (w_db w')"
proof -
  have "admin_inv (w_db w')" using assms(1)
    by (induction rule: rtranclp_induct) (use assms(2,3) admin_request_inv in \<open>auto simp: admin_inv_def\<close>)
  then show ?thesis by (simp add: admin_inv_def)
qed

definition admin_user :: "uuid \<Rightarrow> string \<Rightarrow> User" where
  "admin_user i status = User_zero\<lparr>u_ID := i, u_GlobalRole := RoleAdmin, u_Status := status, u_IsActive := True\<rparr>"

definition two_admins :: DB where
  "two_admins = DB_empty\<lparr>tb_users := [(admin_user 1 ''active'')\<lparr>u_Email := ''a''\<rparr>, (admin_user 2 ''active'')\<lparr>u_Email := ''b''\<rparr>],
     tb_role_names := [(''admin'', ''A''), (''member'', ''M''), (''auditor'', ''U'')]\<rparr>"

definition admin_env :: audit_env where
  "admin_env = (\<lparr>fm_UUID = (\<lambda>i. nat_digits (unat i)), fm_Time = (\<lambda>t. [])\<rparr>, False, auth_http)"

definition admin_rq :: "User \<Rightarrow> uuid \<Rightarrow> Request" where
  "admin_rq u i = empty_rq\<lparr>rq_User := Some u, rq_Param := (\<lambda>p. if p = ''id'' then Some i else None)\<rparr>"

theorem active_admin_remains_witness:
  "has_active_admin (w_db (snd (handleDeactivateUser admin_env (Some ''left the company'') (admin_rq (admin_user 1 ''active'') 2)
     (World_start two_admins 9)))) \<and>
   status_of (fst (handleDeactivateUser admin_env (Some ''left the company'') (admin_rq (admin_user 1 ''active'') 2)
     (World_start two_admins 9))) = 200"
proof
  let ?h = "handleDeactivateUser admin_env (Some ''left the company'') (admin_rq (admin_user 1 ''active'') 2) (World_start two_admins 9)"
  have "admin_request\<^sup>*\<^sup>* (World_start two_admins 9) (snd ?h)"
    by (intro r_into_rtranclp admin_request.deactivate) (rule surjective_pairing)
  then show "has_active_admin (w_db (snd ?h))"
    by (rule active_admin_remains) (simp_all add: ids_distinct_def has_active_admin_def World_start_def two_admins_def
        admin_user_def is_active_admin_def UserStatusActive_def)
  show "status_of (fst ?h) = 200" by code_simp
qed

text \<open>
  Deleting is not covered: an administrator whose own account is still pending deletes the only active
  administrator, and no active administrator is left.
\<close>

theorem delete_leaves_no_admin:
  "case handleDeleteUser admin_env (Some ''left the company'') (admin_rq (admin_user 2 ''pending'') 1)
       (World_start (two_admins\<lparr>tb_users := [admin_user 1 ''active'', admin_user 2 ''pending'']\<rparr>) 9) of
     (r, w') \<Rightarrow> status_of r = 200 \<and> \<not> has_active_admin (w_db w')"
  by code_simp

text \<open>
  The guard does not hold between requests that interleave: when two administrators deactivate each
  other and both guards run before both updates, both are permitted and none is left.
\<close>

theorem guard_race:
  "let w = World_start two_admins 9; off = [SetIsActive False, SetStatus UserStatusDisabled] in
   fst (canModifyUser CountActiveAdmins 1 (admin_user 2 ''active'') ActionDeactivate w) = None \<and>
   fst (canModifyUser CountActiveAdmins 2 (admin_user 1 ''active'') ActionDeactivate w) = None \<and>
   fst (CountActiveAdmins (snd (UsersRepo_Update 1 off (snd (UsersRepo_Update 2 off w))))) = Inr 0"
  by code_simp

section \<open>What a deactivation ends\<close>

lemma same_env_audit: "same_env w w' \<Longrightarrow> w_audit w' = w_audit w"
  by (simp add: same_env_def)

lemma GetByID_audit: "UsersRepo_GetByID i w = (r, w') \<Longrightarrow> w_audit w' = w_audit w"
  unfolding UsersRepo_GetByID_def by (rule same_env_audit, erule db_query_row_env)

lemma canModify_audit: "canModifyUser CountActiveAdmins a t act w = (g, w') \<Longrightarrow> w_audit w' = w_audit w"
  by (auto simp: canModifyUser_def CountActiveAdmins_def dest: same_env_audit [OF db_query_env]
      split: if_splits prod.splits sum.splits)

lemma Update_audit: "UsersRepo_Update i flds w = (r, w') \<Longrightarrow> w_audit w' = w_audit w"
  by (auto simp: UsersRepo_Update_def dest: same_env_audit [OF db_exec_env] split: if_splits prod.splits sum.splits)

lemma RevokeAll_audit: "RevokeAllForUserWithReason i reason w = (r, w') \<Longrightarrow> w_audit w' = w_audit w"
  unfolding RevokeAllForUserWithReason_def by (rule same_env_audit, erule db_exec_env)

lemmas audit_frames = GetByID_audit canModify_audit Update_audit RevokeAll_audit

lemma admin_audit_record:
  "\<exists>rec. w_audit (writeAdminUserAudit env a t act b c reason w) = w_audit w @ [rec] \<and> au_UserID rec = Some a \<and>
     au_Action rec = Some act \<and> au_RiskLevel rec = ''high'' \<and> au_ResourceID rec = Some (fm_UUID (fst env) t) \<and>
     (strings_TrimSpace reason \<noteq> [] \<longrightarrow>
        (\<exists>ch \<in> set (au_Changes rec). ac_Field ch = ''reason'' \<and> ac_After ch = JsonString (strings_TrimSpace reason)))"
  by (cases env) (simp add: uuid_New_def Submit_def admin_record_def)

text \<open>
  C22. A deactivation that succeeds ends all access of the account at once and is on record: the account is
  inactive and disabled, all its sessions are revoked, so that no token of it authenticates any more, and
  exactly one audit record names the actor, the account, the action and the reason.
\<close>

theorem deactivation_ends_access:
  assumes "handleDeactivateUser env req rq w = (r, w')" and "status_of r = 200"
  shows "\<exists>i actor reason rec. rq_Param rq ''id'' = Some i \<and> rq_User rq = Some actor \<and> req = Some reason \<and>
    (\<forall>u \<in> set (tb_users (w_db w')). u_ID u = i \<longrightarrow> \<not> u_IsActive u \<and> u_Status u = UserStatusDisabled) \<and>
    (\<forall>s \<in> set (tb_sessions (w_db w')). s_UserID s = i \<longrightarrow> s_RevokedAt s \<noteq> None) \<and>
    w_audit w' = w_audit w @ [rec] \<and> au_UserID rec = Some (u_ID actor) \<and> au_Action rec = Some ''deactivate'' \<and>
    au_ResourceID rec = Some (fm_UUID (fst env) i) \<and>
    (\<exists>ch \<in> set (au_Changes rec). ac_Field ch = ''reason'' \<and> ac_After ch = JsonString (strings_TrimSpace reason))"
proof -
  note d = assms(1) [unfolded handleDeactivateUser_def disable_account_def]
  note no = bad_body_def bad_user_def target_error_def short_reason_def respondError_def
  obtain i reason where p: "rq_Param rq ''id'' = Some i" "req = Some reason"
    using d assms(2) by (auto simp: no split: option.splits)
  obtain x w1 where x: "UsersRepo_GetByID i w = (x, w1)" by fastforce
  obtain t where t: "x = Inr t" using d assms(2) p x by (cases x) (auto simp: no split: if_splits)
  obtain actor where a: "rq_User rq = Some actor" and long: "\<not> reason_too_short reason"
    using d assms(2) p x t by (auto simp: no split: if_splits option.splits)
  obtain g w2 where g: "canModifyUser CountActiveAdmins (u_ID actor) t ActionDeactivate w1 = (g, w2)" by fastforce
  have gn: "g = None"
    using d assms(2) p x t a long g
    by (cases g) (auto simp: canModifyUser_def errSelfModification_def errSystemAccountProtected_def errLastAdminProtected_def no
        split: if_splits sum.splits prod.splits)
  let ?off = "[SetIsActive False, SetStatus UserStatusDisabled]"
  obtain y w3 where y: "UsersRepo_Update i ?off w2 = (Inr y, w3)"
    using d assms(2) p x t a long g gn by (auto simp: no split: sum.splits prod.splits)
  obtain z w4 where z: "RevokeAllForUserWithReason i ''deactivated'' w3 = (Inr z, w4)"
    using d assms(2) p x t a long g gn y by (auto simp: no split: sum.splits prod.splits)
  have w': "w' = writeAdminUserAudit env (u_ID actor) (u_ID t) ''deactivate''
      (account_state (u_Status t) (u_IsActive t)) (account_state UserStatusDisabled False) reason w4"
    using d p x t a long g gn y z by simp
  have ut: "u_ID t = i" using UsersRepo_GetByID_Inr [OF x [unfolded t]] by (auto simp: scanUser_def dest!: find_Some_in)
  have users: "tb_users (w_db w') = map (\<lambda>u. if u_ID u = i then (fold set_field ?off u)\<lparr>u_UpdatedAt := w_now w2\<rparr> else u) (tb_users (w_db w2))"
    using Update_Inr [OF y] RevokeAll_Inr [OF z] by (simp add: w')
  have sess: "tb_sessions (w_db w') = map (\<lambda>s. if s_UserID s = i \<and> s_RevokedAt s = None
      then s\<lparr>s_RevokedAt := Some (w_now w3)\<rparr> else s) (tb_sessions (w_db w3))"
    using RevokeAll_Inr [OF z] by (simp add: w')
  have "strings_TrimSpace reason \<noteq> []" using long by (auto simp: reason_too_short_def rune_count_def)
  then obtain rec where rec: "w_audit w' = w_audit w4 @ [rec]" "au_UserID rec = Some (u_ID actor)"
    "au_Action rec = Some ''deactivate''" "au_ResourceID rec = Some (fm_UUID (fst env) i)"
    "\<exists>ch \<in> set (au_Changes rec). ac_Field ch = ''reason'' \<and> ac_After ch = JsonString (strings_TrimSpace reason)"
    using admin_audit_record [of env "u_ID actor" "u_ID t" "''deactivate''"] unfolding w' ut by blast
  have "w_audit w4 = w_audit w" using audit_frames(1) [OF x] canModify_audit [OF g] Update_audit [OF y] RevokeAll_audit [OF z] by simp
  then have aud: "w_audit w' = w_audit w @ [rec]" using rec(1) by simp
  have u1: "\<forall>u \<in> set (tb_users (w_db w')). u_ID u = i \<longrightarrow> \<not> u_IsActive u \<and> u_Status u = UserStatusDisabled"
    unfolding users set_map ball_simps by simp
  have s1: "\<forall>s \<in> set (tb_sessions (w_db w')). s_UserID s = i \<longrightarrow> s_RevokedAt s \<noteq> None"
    unfolding sess set_map ball_simps by simp
  show ?thesis using p a aud u1 s1 rec(2-5) by blast
qed

theorem deactivation_ends_access_witness:
  "\<exists>rec. w_audit (snd (handleDeactivateUser admin_env (Some ''left the company'') (admin_rq (admin_user 1 ''active'') 2)
     (World_start two_admins 9))) = [rec] \<and> au_Action rec = Some ''deactivate''"
proof -
  let ?h = "handleDeactivateUser admin_env (Some ''left the company'') (admin_rq (admin_user 1 ''active'') 2) (World_start two_admins 9)"
  have "status_of (fst ?h) = 200" by code_simp
  from deactivation_ends_access [OF surjective_pairing this] show ?thesis by (auto simp: World_start_def)
qed

section \<open>Listings\<close>

text \<open>The page the listing shows on a database that answers.\<close>

definition users_page :: "UserListFilter \<Rightarrow> listUsersCursor option \<Rightarrow> World \<Rightarrow>
    AdminUserResponse list \<times> nat \<times> bool \<times> listUsersCursor option" where
  "users_page f c w =
    (let limit = users_limit (uf_Limit f);
         order = (if uf_Sort f = [] then ''last_login_desc'' else uf_Sort f);
         base = filter (whereClause (users_where (w_now w) (w_db w) f)) (concat (map (admin_user_rows (w_db w)) (tb_users (w_db w))));
         rows = users_order order (case c of None \<Rightarrow> base | Some c \<Rightarrow> filter (users_cursor order c) base);
         page = attachGroups (w_db w) (take limit rows)
     in (page, length base, limit < length rows, if limit < length rows then Some (encodeListCursor (last page) order) else None))"

lemma users_page_cursor [simp]: "users_page (f\<lparr>uf_Cursor := x\<rparr>) = users_page f"
  by (rule ext)+ (simp add: users_page_def users_where_def)

lemma ListV2_ok:
  assumes "w_faults w = []" and "uf_Cursor f = map_option Some c"
  shows "ListV2 f w = (Inr (users_page f c w), w)"
proof -
  have t: "take m (take (m + 1) xs) = take m xs" "m < length (take (m + 1) xs) \<longleftrightarrow> m < length xs" for m and xs :: "'a list"
    by (auto simp: min_def)
  have g: "fetch_groups us w = (Inr (attachGroups (w_db w) us), w)" for us
    using assms(1) by (simp add: fetch_groups_def)
  show ?thesis using assms by (cases c) (simp_all add: ListV2_def users_page_def Let_def t g)
qed

text \<open>
  The export of all accounts asks for 10000 rows, which the listing takes for a wrong limit: it never
  has more than 50 accounts.
\<close>

theorem users_export_truncated:
  assumes "handleExportUsersCSV fm f w = (Inr rows, w')"
  shows "length rows \<le> 51"
proof -
  have att: "length (attachGroups d us) = length us" for d us by (induction us) auto
  have fetch: "length us' = length us" if "fetch_groups us w = (Inr us', w')" for us us' w w'
    using that att by (auto simp: fetch_groups_def dest!: db_query_Inr split: if_splits)
  have "users_limit 10000 = 50" by (simp add: users_limit_def)
  then have "length us \<le> 50" if "ListV2 (f\<lparr>uf_Limit := 10000, uf_Cursor := None\<rparr>) w = (Inr (us, x), w1)" for us x w1
    using that by (auto simp: ListV2_def Let_def dest!: fetch split: if_splits sum.splits prod.splits)
  then show ?thesis using assms by (auto simp: handleExportUsersCSV_def split: sum.splits prod.splits)
qed

definition list_filter :: UserListFilter where
  "list_filter = \<lparr>uf_Q = [], uf_Roles = [], uf_Statuses = [], uf_GroupID = None, uf_MFA = None, uf_Source = [],
     uf_Dormant = False, uf_Sort = ''created_at_desc'', uf_Cursor = None, uf_Limit = 1\<rparr>"

theorem users_export_truncated_witness:
  "\<exists>rows w'. handleExportUsersCSV (fst admin_env) list_filter (World_start two_admins 9) = (Inr rows, w') \<and> length rows \<le> 51"
proof -
  let ?w = "World_start two_admins 9" and ?f = "list_filter\<lparr>uf_Limit := 10000, uf_Cursor := None\<rparr>"
  have "w_faults ?w = []" "uf_Cursor ?f = map_option Some None" by (simp_all add: World_start_def)
  note L = ListV2_ok [OF this]
  obtain us n hm c where "users_page ?f None ?w = (us, n, hm, c)" by (metis prod_cases4)
  then have "handleExportUsersCSV (fst admin_env) list_filter ?w =
      (Inr (user_csv_header # map (user_csv_row (fst admin_env)) us), ?w)"
    using L by (simp add: handleExportUsersCSV_def)
  then show ?thesis using users_export_truncated by blast
qed

text \<open>
  The cursor keeps milliseconds only: of two accounts created in the same millisecond, the page behind
  the first shows nothing, although both are counted.
\<close>

theorem users_cursor_skips:
  "let w = World_start (two_admins\<lparr>tb_users := [(admin_user 1 ''active'')\<lparr>u_CreatedAt := 5000700\<rparr>,
         (admin_user 2 ''active'')\<lparr>u_CreatedAt := 5000300\<rparr>]\<rparr>) 9;
       (p1, n1, more1, c1) = projr (fst (ListV2 list_filter w));
       (p2, n2, more2, c2) = projr (fst (ListV2 (list_filter\<lparr>uf_Cursor := Some c1\<rparr>) w))
   in map ad_ID p1 = [1] \<and> n1 = 2 \<and> more1 \<and> p2 = [] \<and> \<not> more2"
proof -
  let ?w = "World_start (two_admins\<lparr>tb_users := [(admin_user 1 ''active'')\<lparr>u_CreatedAt := 5000700\<rparr>,
      (admin_user 2 ''active'')\<lparr>u_CreatedAt := 5000300\<rparr>]\<rparr>) 9"
  let ?c = "\<lparr>lc_Sort = ''created_at_desc'', lc_LastLoginMS = None, lc_CreatedMS = 5, lc_Email = [], lc_FullName = [], lc_ID = 1\<rparr>"
  have c: "(case users_page list_filter None ?w of (p, n, hm, c) \<Rightarrow> (map ad_ID p, n, hm, c)) = ([1], 2, True, Some ?c)"
    by code_simp
  have "(case users_page list_filter (Some ?c) ?w of (p, n, hm, c) \<Rightarrow> (p, hm)) = ([], False)" by code_simp
  then obtain p2 n2 c2 where p2: "users_page list_filter (Some ?c) ?w = (p2, n2, False, c2)" "p2 = []"
    by (auto split: prod.splits)
  obtain p1 where p1: "users_page list_filter None ?w = (p1, 2, True, Some ?c)" "map ad_ID p1 = [1]"
    using c by (auto split: prod.splits)
  have f: "w_faults ?w = []" and c0: "uf_Cursor list_filter = map_option Some None"
    by (simp_all add: World_start_def list_filter_def)
  have c1: "uf_Cursor (list_filter\<lparr>uf_Cursor := Some (Some ?c)\<rparr>) = map_option Some (Some ?c)" by simp
  show ?thesis
    using p1(2) p2(2) by (simp add: ListV2_ok [OF f c0] ListV2_ok [OF f c1] p1(1) p2(1) Let_def)
qed

text \<open>
  Making an auditor an administrator leaves both roles: the trigger removes only admin and member. The
  account is then listed twice, and counted twice.
\<close>

definition promote_auditor :: "response \<times> World" where
  "promote_auditor = handleChangeUserRole admin_env (Some (True, ''promoted'')) (admin_rq (admin_user 1 ''active'') 2)
     (World_start (two_admins\<lparr>tb_users := [admin_user 1 ''active'', (admin_user 2 ''active'')\<lparr>u_GlobalRole := RoleUser\<rparr>],
        tb_user_roles := [(1, ''admin''), (2, ''auditor'')]\<rparr>) 9)"

theorem promoted_auditor_twice:
  "status_of (fst promote_auditor) = 200 \<and>
   (case projr (fst (ListV2 (list_filter\<lparr>uf_Limit := 10\<rparr>) (snd promote_auditor))) of (rows, n, _) \<Rightarrow>
      n = 3 \<and> map (\<lambda>u. (ad_ID u, ad_RoleKey u)) rows = [(2, ''admin''), (2, ''auditor''), (1, ''admin'')])"
proof -
  have f: "w_faults (snd promote_auditor) = []" by code_simp
  have p: "case users_page (list_filter\<lparr>uf_Limit := 10\<rparr>) None (snd promote_auditor) of (rows, n, _) \<Rightarrow>
      n = 3 \<and> map (\<lambda>u. (ad_ID u, ad_RoleKey u)) rows = [(2, ''admin''), (2, ''auditor''), (1, ''admin'')]" by code_simp
  have c: "uf_Cursor (list_filter\<lparr>uf_Limit := 10\<rparr>) = map_option Some None" by (simp add: list_filter_def)
  have "status_of (fst promote_auditor) = 200" by code_simp
  then show ?thesis using p by (simp only: ListV2_ok [OF f c] fst_conv sum.sel simp_thms)
qed

end
