(* ===== verification/Comments.thy ===== *)
theory Comments
  imports Gates "HOL-Library.AList"
begin

text \<open>
  Comments on findings: \<open>internal/api/comments.go\<close> and the queries it uses in
  \<open>internal/storage/finding_events_repo.go\<close>. A comment is an event; editing and deleting append events
  that name it, and the listing replays them.

  The HTML policy of the sanitizer is a parameter, and so is the order in which Go walks through a map.
\<close>

section \<open>Queries\<close>

text \<open>
  The author is a left join scanned into columns that do not take NULL: an event without a user ends the
  query in an error.
\<close>

definition event_author :: "DB \<Rightarrow> FindingEvent \<Rightarrow> (FindingEvent \<times> User) option" where
  "event_author d e = (case ev_UserID e of
     None \<Rightarrow> None
   | Some u \<Rightarrow> map_option (Pair e) (find (\<lambda>x. u_ID x = u) (tb_users d)))"

definition scan_null :: err where "scan_null = Err ''cannot scan NULL''"

definition FindingEventsRepo_GetByID :: "uuid \<Rightarrow> (FindingEvent \<times> User) op" where
  "FindingEventsRepo_GetByID i w =
     (case db_query_row (\<lambda>d. map_option (event_author d) (find (\<lambda>e. ev_ID e = i) (tb_events d))) w of
        (Inl e, w) \<Rightarrow> (Inl e, w)
      | (Inr None, w) \<Rightarrow> (Inl scan_null, w)
      | (Inr (Some ea), w) \<Rightarrow> (Inr ea, w))"

definition is_comment_event :: "uuid \<Rightarrow> FindingEvent \<Rightarrow> bool" where
  "is_comment_event i e \<longleftrightarrow> ev_FindingID e = i \<and> ev_EventType e \<in> {''comment_added'', ''comment_edited'', ''comment_deleted''}"

definition ListCommentsForFinding :: "uuid \<Rightarrow> (FindingEvent \<times> User) list op" where
  "ListCommentsForFinding i w =
     (case db_query (\<lambda>d. map (event_author d) (order_rows True (\<lambda>e. (ev_CreatedAt e, ev_ID e))
          (filter (is_comment_event i) (tb_events d)))) w of
        (Inl e, w) \<Rightarrow> (Inl e, w)
      | (Inr rows, w) \<Rightarrow> if None \<in> set rows then (Inl scan_null, w) else (Inr (map the rows), w))"

section \<open>Handlers\<close>

definition sanitizeCommentText :: "(string \<Rightarrow> string) \<Rightarrow> string \<Rightarrow> string + string" where
  "sanitizeCommentText sanitize raw =
     (let trimmed = strings_TrimSpace raw in
      if trimmed = [] then Inl ''empty comment''
      else if length trimmed > 4096 then Inl ''comment too long''
      else let sanitized = strings_TrimSpace (sanitize trimmed) in
        if sanitized = [] then Inl ''empty comment'' else Inr sanitized)"

definition new_event :: "uuid \<Rightarrow> uuid \<Rightarrow> uuid \<Rightarrow> string \<Rightarrow> EventPayload \<Rightarrow> time \<Rightarrow> FindingEvent" where
  "new_event i findingID userID eventType payload now =
     \<lparr>ev_ID = i, ev_FindingID = findingID, ev_UserID = Some userID, ev_EventType = eventType, ev_Payload = payload,
      ev_CreatedAt = now\<rparr>"

text \<open>A handler of comments answers with the event it appended.\<close>

type_synonym comment_handler = "Request \<Rightarrow> World \<Rightarrow> (response + FindingEvent) \<times> World"

definition append_event :: "uuid \<Rightarrow> uuid \<Rightarrow> string \<Rightarrow> EventPayload \<Rightarrow> string \<Rightarrow> World \<Rightarrow> (response + FindingEvent) \<times> World" where
  "append_event findingID userID eventType payload failure w =
     (case uuid_New w of (i, w) \<Rightarrow>
        let event = new_event i findingID userID eventType payload (w_now w) in
        (case FindingEventsRepo_Create event w of
           (Inl e, w) \<Rightarrow> (Inl (respondError 500 ''INTERNAL_ERROR'' failure), w)
         | (Inr _, w) \<Rightarrow> (Inr event, w)))"

definition handleCreateComment :: "(string \<Rightarrow> string) \<Rightarrow> string option \<Rightarrow> comment_handler" where
  "handleCreateComment sanitize body rq w =
     (case rq_Param rq ''id'' of
        None \<Rightarrow> (Inl bad_id, w)
      | Some findingID \<Rightarrow> (case body of
          None \<Rightarrow> (Inl bad_body, w)
        | Some text \<Rightarrow> (case sanitizeCommentText sanitize text of
            Inl msg \<Rightarrow> (Inl (respondError 400 ''VALIDATION_ERROR'' msg), w)
          | Inr sanitized \<Rightarrow> (case rq_User rq of
              None \<Rightarrow> (Inl Panic, w)
            | Some user \<Rightarrow>
                append_event findingID (u_ID user) ''comment_added'' (CommentAddedPayload sanitized) ''failed to create comment'' w))))"

definition comment_missing :: "err \<Rightarrow> response" where
  "comment_missing e = (if e = ErrNoRows then respondError 404 ''NOT_FOUND'' ''comment not found''
     else respondError 500 ''INTERNAL_ERROR'' ''failed to fetch comment'')"

definition bad_event_id :: response where
  "bad_event_id = respondError 400 ''VALIDATION_ERROR'' ''invalid event id''"

definition edit_window :: time where "edit_window = 15 * time_Minute"

definition handleEditComment :: "(string \<Rightarrow> string) \<Rightarrow> string option \<Rightarrow> comment_handler" where
  "handleEditComment sanitize body rq w =
     (case rq_Param rq ''event_id'' of
        None \<Rightarrow> (Inl bad_event_id, w)
      | Some eventID \<Rightarrow>
          (case FindingEventsRepo_GetByID eventID w of
             (Inl e, w) \<Rightarrow> (Inl (comment_missing e), w)
           | (Inr (original, _), w) \<Rightarrow>
               let forbidden = (Inl (respondError 403 ''FORBIDDEN'' ''cannot edit''), w) in
               if ev_EventType original \<noteq> ''comment_added'' \<or> ev_UserID original = None then forbidden
               else (case rq_User rq of
                 None \<Rightarrow> (Inl Panic, w)
               | Some user \<Rightarrow>
                   if \<not> (ev_UserID original = Some (u_ID user) \<and> ev_CreatedAt original > w_now w - edit_window) then forbidden
                   else (case body of
                     None \<Rightarrow> (Inl bad_body, w)
                   | Some text \<Rightarrow> (case sanitizeCommentText sanitize text of
                       Inl msg \<Rightarrow> (Inl (respondError 400 ''VALIDATION_ERROR'' msg), w)
                     | Inr sanitized \<Rightarrow>
                         append_event (ev_FindingID original) (u_ID user) ''comment_edited''
                           (CommentEditedPayload (ev_ID original) sanitized) ''failed to edit comment'' w)))))"

text \<open>A deletion answers without a body; here too the event is the result.\<close>

definition handleDeleteComment :: comment_handler where
  "handleDeleteComment rq w =
     (case rq_Param rq ''event_id'' of
        None \<Rightarrow> (Inl bad_event_id, w)
      | Some eventID \<Rightarrow>
          (case FindingEventsRepo_GetByID eventID w of
             (Inl e, w) \<Rightarrow> (Inl (comment_missing e), w)
           | (Inr (original, _), w) \<Rightarrow>
               if ev_EventType original \<noteq> ''comment_added'' then (Inl (respondError 403 ''FORBIDDEN'' ''cannot delete''), w)
               else (case FindingsRepo_GetProjectID (ev_FindingID original) w of
                 (Inl e, w) \<Rightarrow> (Inl (respondError 404 ''NOT_FOUND'' ''finding not found''), w)
               | (Inr projectID, w) \<Rightarrow> (case rq_User rq of
                   None \<Rightarrow> (Inl Panic, w)
                 | Some user \<Rightarrow>
                     (case (if User_IsAdmin user then (Inr False, w)
                            else case GetRole (u_ID user) projectID w of
                              (Inl e, w) \<Rightarrow> (Inl e, w)
                            | (Inr role, w) \<Rightarrow> (Inr (role = Some RoleProjectAdmin), w)) of
                        (Inl e, w) \<Rightarrow> (Inl (respondError 500 ''INTERNAL_ERROR'' ''failed to check role''), w)
                      | (Inr isProjectAdmin, w) \<Rightarrow>
                          if ev_UserID original \<noteq> Some (u_ID user) \<and> \<not> User_IsAdmin user \<and> \<not> isProjectAdmin
                          then (Inl (respondError 403 ''FORBIDDEN'' ''cannot delete''), w)
                          else append_event (ev_FindingID original) (u_ID user) ''comment_deleted''
                            (CommentDeletedPayload (ev_ID original)) ''failed to delete comment'' w)))))"

section \<open>Replaying the events\<close>

record commentState =
  cs_ID :: uuid
  cs_Author :: "uuid \<times> string \<times> string"
  cs_Text :: string
  cs_CreatedAt :: time
  cs_Edited :: bool
  cs_Deleted :: bool

text \<open>
  \<open>json.Unmarshal\<close> into the payload of the event's type: an object without a field leaves it zero.
\<close>

definition payload_text :: "EventPayload \<Rightarrow> string" where
  "payload_text p = (case p of CommentAddedPayload text \<Rightarrow> text | _ \<Rightarrow> [])"

definition payload_original :: "EventPayload \<Rightarrow> uuid" where
  "payload_original p = (case p of CommentEditedPayload i _ \<Rightarrow> i | CommentDeletedPayload i \<Rightarrow> i | _ \<Rightarrow> uuid_Nil)"

definition payload_new_text :: "EventPayload \<Rightarrow> string" where
  "payload_new_text p = (case p of CommentEditedPayload _ text \<Rightarrow> text | _ \<Rightarrow> [])"

text \<open>The map from ids to states as an association list; each event adds or changes one state.\<close>

definition change_state :: "uuid \<Rightarrow> (commentState \<Rightarrow> commentState) \<Rightarrow> (uuid \<times> commentState) list \<Rightarrow> (uuid \<times> commentState) list" where
  "change_state i g states = map (\<lambda>(k, st). (k, if k = i then g st else st)) states"

definition new_state :: "FindingEvent \<Rightarrow> User \<Rightarrow> commentState" where
  "new_state e author = \<lparr>cs_ID = ev_ID e, cs_Author = (u_ID author, u_Email author, u_FullName author),
     cs_Text = payload_text (ev_Payload e), cs_CreatedAt = ev_CreatedAt e, cs_Edited = False, cs_Deleted = False\<rparr>"

fun comment_step :: "(FindingEvent \<times> User) \<Rightarrow> (uuid \<times> commentState) list \<Rightarrow> (uuid \<times> commentState) list" where
  "comment_step (e, author) states =
     (if ev_EventType e = ''comment_added'' then AList.update (ev_ID e) (new_state e author) states
      else if ev_EventType e = ''comment_edited'' then
        change_state (payload_original (ev_Payload e))
          (\<lambda>st. st\<lparr>cs_Text := payload_new_text (ev_Payload e), cs_Edited := True\<rparr>) states
      else if ev_EventType e = ''comment_deleted'' then
        change_state (payload_original (ev_Payload e)) (\<lambda>st. st\<lparr>cs_Deleted := True\<rparr>) states
      else states)"

definition comment_states :: "(FindingEvent \<times> User) list \<Rightarrow> commentState list" where
  "comment_states events = map snd (fold comment_step events [])"

definition handleListComments :: "(commentState list \<Rightarrow> commentState list) \<Rightarrow> Request \<Rightarrow> World \<Rightarrow> (response + commentState list) \<times> World" where
  "handleListComments map_order rq w =
     (case rq_Param rq ''id'' of
        None \<Rightarrow> (Inl bad_id, w)
      | Some findingID \<Rightarrow>
          (case ListCommentsForFinding findingID w of
             (Inl e, w) \<Rightarrow> (Inl (respondError 500 ''INTERNAL_ERROR'' ''failed to list comments''), w)
           | (Inr events, w) \<Rightarrow> (Inr (sort_key cs_CreatedAt (map_order (comment_states events))), w)))"

end
