(* ===== verification/CommentsCorrect.thy ===== *)
theory CommentsCorrect
  imports Comments
begin

text \<open>
  What holds of comments: the replayed listing is the one a reader expects, and nobody changes a comment of
  somebody else without the right to it.
\<close>

section \<open>The listing\<close>

text \<open>
  The reference: a comment as its own event and the events after it make it. The text is that of the last
  edit that names it.
\<close>

definition edits_of :: "uuid \<Rightarrow> (FindingEvent \<times> User) list \<Rightarrow> string list" where
  "edits_of i later = [payload_new_text (ev_Payload e). (e, _) \<leftarrow> later,
     ev_EventType e = ''comment_edited'' \<and> payload_original (ev_Payload e) = i]"

definition deleted_in :: "uuid \<Rightarrow> (FindingEvent \<times> User) list \<Rightarrow> bool" where
  "deleted_in i later = list_ex (\<lambda>(e, _). ev_EventType e = ''comment_deleted'' \<and> payload_original (ev_Payload e) = i) later"

definition view_after :: "(FindingEvent \<times> User) list \<Rightarrow> commentState \<Rightarrow> commentState" where
  "view_after later st = st\<lparr>cs_Text := last (cs_Text st # edits_of (cs_ID st) later),
     cs_Edited := cs_Edited st \<or> edits_of (cs_ID st) later \<noteq> [], cs_Deleted := cs_Deleted st \<or> deleted_in (cs_ID st) later\<rparr>"

fun comments_view :: "(FindingEvent \<times> User) list \<Rightarrow> commentState list" where
  "comments_view [] = []"
| "comments_view ((e, author) # later) =
     (if ev_EventType e = ''comment_added'' then [view_after later (new_state e author)] else []) @ comments_view later"

lemma view_after_Nil [simp]: "view_after [] st = st"
  by (simp add: view_after_def edits_of_def deleted_in_def)

lemma edits_of_Cons [simp]: "edits_of i ((e, a) # later) =
  (if ev_EventType e = ''comment_edited'' \<and> payload_original (ev_Payload e) = i then [payload_new_text (ev_Payload e)] else [])
    @ edits_of i later"
  by (simp add: edits_of_def)

lemma deleted_in_Cons [simp]: "deleted_in i ((e, a) # later) \<longleftrightarrow>
  (ev_EventType e = ''comment_deleted'' \<and> payload_original (ev_Payload e) = i) \<or> deleted_in i later"
  by (simp add: deleted_in_def)

text \<open>The states that are there when the remaining events come are viewed after them; their keys are their ids.\<close>

definition keyed :: "(uuid \<times> commentState) list \<Rightarrow> bool" where
  "keyed states \<longleftrightarrow> list_all (\<lambda>(k, st). k = cs_ID st) states"

lemma cs_ID_new_state [simp]: "cs_ID (new_state e a) = ev_ID e"
  by (simp add: new_state_def)

lemma update_fresh: "k \<notin> fst ` set al \<Longrightarrow> AList.update k v al = al @ [(k, v)]"
  by (induction al) auto

lemma keyed_simps [simp]: "keyed []" "keyed (x # xs) \<longleftrightarrow> fst x = cs_ID (snd x) \<and> keyed xs" "keyed (xs @ ys) \<longleftrightarrow> keyed xs \<and> keyed ys"
  by (auto simp: keyed_def)

lemma keyed_change: "keyed states \<Longrightarrow> (\<And>st. cs_ID (g st) = cs_ID st) \<Longrightarrow> keyed (change_state i g states)"
  by (induction states) (auto simp: change_state_def)

lemma keys_change [simp]: "fst ` set (change_state i g states) = fst ` set states"
  by (force simp: change_state_def)

lemma view_change:
  assumes "keyed states" and "\<And>st. cs_ID st = i \<Longrightarrow> view_after later (g st) = view_after (x # later) st"
    and "\<And>st. cs_ID st \<noteq> i \<Longrightarrow> view_after later st = view_after (x # later) st"
  shows "map (view_after later \<circ> snd) (change_state i g states) = map (view_after (x # later) \<circ> snd) states"
  using assms(1) by (induction states) (auto simp: change_state_def assms(2,3))

lemma replay:
  assumes "keyed states" and "distinct (map (ev_ID \<circ> fst) events)" and "fst ` set states \<inter> (ev_ID \<circ> fst) ` set events = {}"
  shows "map snd (fold comment_step events states) = map (view_after events \<circ> snd) states @ comments_view events"
  using assms
proof (induction events arbitrary: states)
  case Nil then show ?case by (simp add: comp_def)
next
  case (Cons x later)
  obtain e a where x: "x = (e, a)" by (cases x)
  consider (added) "ev_EventType e = ''comment_added''" | (edited) "ev_EventType e = ''comment_edited''"
    | (deleted) "ev_EventType e = ''comment_deleted''"
    | (other) "ev_EventType e \<notin> {''comment_added'', ''comment_edited'', ''comment_deleted''}" by auto
  then show ?case
  proof cases
    case added
    have step: "comment_step x states = states @ [(ev_ID e, new_state e a)]"
      using Cons.prems(3) added x by (auto simp: update_fresh)
    have "map snd (fold comment_step later (comment_step x states)) =
        map (view_after later \<circ> snd) (comment_step x states) @ comments_view later"
      unfolding step using Cons.prems x by (intro Cons.IH) auto
    moreover have "view_after later st = view_after (x # later) st" for st
      using added by (simp add: x view_after_def)
    ultimately show ?thesis using added x step by (simp add: comp_def)
  next
    case edited
    let ?i = "payload_original (ev_Payload e)" and ?g = "\<lambda>st. st\<lparr>cs_Text := payload_new_text (ev_Payload e), cs_Edited := True\<rparr>"
    have step: "comment_step x states = change_state ?i ?g states" using edited x by simp
    have "map snd (fold comment_step later (comment_step x states)) =
        map (view_after later \<circ> snd) (comment_step x states) @ comments_view later"
      unfolding step using Cons.prems x by (intro Cons.IH keyed_change) auto
    moreover have "map (view_after later \<circ> snd) (change_state ?i ?g states) = map (view_after (x # later) \<circ> snd) states"
      using Cons.prems(1) edited by (intro view_change) (auto simp: x view_after_def)
    ultimately show ?thesis using edited x step by simp
  next
    case deleted
    let ?i = "payload_original (ev_Payload e)"
    have step: "comment_step x states = change_state ?i (\<lambda>st. st\<lparr>cs_Deleted := True\<rparr>) states" using deleted x by simp
    have "map snd (fold comment_step later (comment_step x states)) =
        map (view_after later \<circ> snd) (comment_step x states) @ comments_view later"
      unfolding step using Cons.prems x by (intro Cons.IH keyed_change) auto
    moreover have "map (view_after later \<circ> snd) (change_state ?i (\<lambda>st. st\<lparr>cs_Deleted := True\<rparr>) states) =
        map (view_after (x # later) \<circ> snd) states"
      using Cons.prems(1) deleted by (intro view_change) (auto simp: x view_after_def)
    ultimately show ?thesis using deleted x step by simp
  next
    case other
    have step: "comment_step x states = states" using other x by simp
    have "map snd (fold comment_step later states) = map (view_after later \<circ> snd) states @ comments_view later"
      using Cons.prems x by (intro Cons.IH) auto
    moreover have "view_after later st = view_after (x # later) st" for st
      using other by (simp add: x view_after_def)
    ultimately show ?thesis using other x step by (simp add: comp_def)
  qed
qed

lemma comment_states_view:
  "distinct (map (ev_ID \<circ> fst) events) \<Longrightarrow> comment_states events = comments_view events"
  using replay [of "[]" events] by (simp add: comment_states_def)

lemma event_author_event: "event_author d e = Some x \<Longrightarrow> fst x = e"
  by (auto simp: event_author_def split: option.splits)

lemma map_Some_the: "None \<notin> set xs \<Longrightarrow> map Some (map the xs) = xs"
  by (induction xs) auto

lemma ListCommentsForFinding_Inr:
  "ListCommentsForFinding i w = (Inr events, w') \<Longrightarrow> map Some events = map (event_author (w_db w))
     (order_rows True (\<lambda>e. (ev_CreatedAt e, ev_ID e)) (filter (is_comment_event i) (tb_events (w_db w))))"
  by (auto simp: ListCommentsForFinding_def simp del: set_map map_map dest!: db_query_Inr intro!: map_Some_the
      split: prod.splits sum.splits if_splits)

lemma authors_events: "map Some events = map (event_author d) es \<Longrightarrow> map fst events = es"
  by (induction events arbitrary: es) (auto dest!: event_author_event [OF sym] simp: Cons_eq_map_conv)

text \<open>
  C18. A successful listing of comments shows, by age, exactly the comments of the finding: one for each
  comment event, with its author, the text of the last edit that names it (its own text when there is none)
  and marked as edited or deleted when such an event follows, in whatever order the map of the handler is
  walked.
\<close>

theorem listing_shows_comments:
  assumes "handleListComments map_order rq w = (Inr shown, w')" and "rq_Param rq ''id'' = Some i"
    and "distinct (map ev_ID (tb_events (w_db w)))" and "\<And>xs. mset (map_order xs) = mset xs"
  shows "\<exists>events. map Some events = map (event_author (w_db w)) (order_rows True (\<lambda>e. (ev_CreatedAt e, ev_ID e))
      (filter (is_comment_event i) (tb_events (w_db w)))) \<and>
    mset shown = mset (comments_view events) \<and> sorted (map cs_CreatedAt shown)"
proof -
  obtain events w1 where list: "ListCommentsForFinding i w = (Inr events, w1)"
    and shown: "shown = sort_key cs_CreatedAt (map_order (comment_states events))"
    using assms(1,2) by (auto simp: handleListComments_def split: prod.splits sum.splits)
  note es = ListCommentsForFinding_Inr [OF list]
  have "distinct (map ev_ID (map fst events))"
    unfolding authors_events [OF es] distinct_order_rows using assms(3) by (simp add: distinct_map_filter)
  then have "comment_states events = comments_view events" by (intro comment_states_view) simp
  then show ?thesis using shown assms(4) es by auto
qed

section \<open>A log of comments\<close>

definition demo_author :: "uuid \<Rightarrow> User" where
  "demo_author i = User_zero\<lparr>u_ID := i, u_IsActive := True\<rparr>"

definition demo_event :: "uuid \<Rightarrow> uuid \<Rightarrow> string \<Rightarrow> EventPayload \<Rightarrow> time \<Rightarrow> FindingEvent" where
  "demo_event i u kind payload t = new_event i 7 u kind payload t"

definition comments_db :: DB where
  "comments_db = DB_empty\<lparr>tb_users := [demo_author 1, demo_author 2],
     tb_events := [demo_event 11 1 ''comment_added'' (CommentAddedPayload ''first'') 10,
       demo_event 12 2 ''comment_added'' (CommentAddedPayload ''second'') 20,
       demo_event 13 1 ''comment_edited'' (CommentEditedPayload 11 ''better'') 30,
       demo_event 14 2 ''comment_deleted'' (CommentDeletedPayload 12) 40]\<rparr>"

definition comments_rq :: "uuid \<Rightarrow> uuid \<Rightarrow> Request" where
  "comments_rq u i = \<lparr>rq_User = Some (demo_author u), rq_Token = None, rq_Session = None, rq_Param = (\<lambda>p. Some i),
     rq_TokenInvalid = False\<rparr>"

lemma comments_demo:
  "w_faults (World_start comments_db 50) = []"
  "fst (handleListComments rev (comments_rq 1 7) (World_start comments_db 50)) =
     Inr [\<lparr>cs_ID = 11, cs_Author = (1, [], []), cs_Text = ''better'', cs_CreatedAt = 10, cs_Edited = True, cs_Deleted = False\<rparr>,
       \<lparr>cs_ID = 12, cs_Author = (2, [], []), cs_Text = ''second'', cs_CreatedAt = 20, cs_Edited = False, cs_Deleted = True\<rparr>]"
  by code_simp+

theorem listing_shows_comments_witness:
  "\<exists>shown w'. handleListComments rev (comments_rq 1 7) (World_start comments_db 50) = (Inr shown, w') \<and>
     map cs_Text shown = [''better'', ''second''] \<and> sorted (map cs_CreatedAt shown)"
proof -
  obtain shown w' where l: "handleListComments rev (comments_rq 1 7) (World_start comments_db 50) = (Inr shown, w')"
    using comments_demo(2) by (metis fst_conv surj_pair)
  moreover have "map cs_Text shown = [''better'', ''second'']" using comments_demo(2) l by auto
  moreover have "distinct (map ev_ID (tb_events (w_db (World_start comments_db 50))))" by code_simp
  ultimately show ?thesis using listing_shows_comments [OF l, of 7] by (auto simp: comments_rq_def)
qed

section \<open>Who may change a comment\<close>

text \<open>The only change of a comment handler: one event of the user, appended.\<close>

definition appends :: "World \<Rightarrow> FindingEvent \<Rightarrow> World \<Rightarrow> bool" where
  "appends w e w' \<longleftrightarrow> w_db w' = (w_db w)\<lparr>tb_events := tb_events (w_db w) @ [e]\<rparr> \<and> ev_ID e \<notin> ev_ID ` set (tb_events (w_db w))"

lemma append_event_changes:
  assumes "append_event f u kind payload msg w = (r, w')" and "w_db w' \<noteq> w_db w"
  shows "\<exists>e. r = Inr e \<and> appends w e w' \<and> ev_EventType e = kind \<and> ev_Payload e = payload \<and> ev_FindingID e = f \<and>
    ev_UserID e = Some u \<and> ev_CreatedAt e = w_now w"
  using assms by (auto simp: append_event_def Let_def uuid_New_def FindingEventsRepo_Create_def new_event_def appends_def insert_event_def
      dest!: db_exec_Inl db_exec_Inr split: sum.splits prod.splits if_splits)

lemma append_event_after_reads:
  assumes "append_event f u kind payload msg w1 = (r, w')" and "w_db w' \<noteq> w_db w" and "w_db w1 = w_db w" and "w_now w1 = w_now w"
  shows "\<exists>e. r = Inr e \<and> appends w e w' \<and> ev_EventType e = kind \<and> ev_Payload e = payload \<and> ev_FindingID e = f \<and>
    ev_UserID e = Some u \<and> ev_CreatedAt e = w_now w"
  using append_event_changes [OF assms(1)] assms(2-) by (simp add: appends_def)

lemma findSomeD: "find P xs = Some x \<Longrightarrow> x \<in> set xs \<and> P x"
  by (auto simp: find_Some_iff)

lemma db_query_row_now: "db_query_row q w = (r, w') \<Longrightarrow> w_now w' = w_now w"
  using db_query_row_env [of q w] by (simp add: same_env_def)

lemma EventsGetByID_reads:
  assumes "FindingEventsRepo_GetByID i w = (r, w')"
  shows "w_db w' = w_db w \<and> w_now w' = w_now w"
  using assms by (auto simp: FindingEventsRepo_GetByID_def dest: db_query_row_db db_query_row_now
      split: sum.splits prod.splits option.splits)

lemma EventsGetByID_Inr:
  assumes "FindingEventsRepo_GetByID i w = (Inr (e, a), w')"
  shows "e \<in> set (tb_events (w_db w)) \<and> ev_ID e = i"
  using assms by (auto simp: FindingEventsRepo_GetByID_def find_Some_iff dest!: db_query_row_Inr event_author_event
      split: sum.splits prod.splits option.splits)

lemma GetRole_now: "GetRole u p w = (r, w') \<Longrightarrow> w_now w' = w_now w"
  by (auto simp: GetRole_def dest: db_query_row_now split: prod.splits sum.splits if_splits)

lemma GetProjectID_now: "FindingsRepo_GetProjectID i w = (r, w') \<Longrightarrow> w_now w' = w_now w"
  by (simp add: FindingsRepo_GetProjectID_def db_query_row_now)

text \<open>The comment an event of the log is, with the right of a user to edit and to delete it.\<close>

definition may_edit :: "World \<Rightarrow> User \<Rightarrow> FindingEvent \<Rightarrow> bool" where
  "may_edit w user original \<longleftrightarrow> ev_UserID original = Some (u_ID user) \<and> w_now w < ev_CreatedAt original + edit_window"

definition may_delete :: "World \<Rightarrow> User \<Rightarrow> FindingEvent \<Rightarrow> bool" where
  "may_delete w user original \<longleftrightarrow> ev_UserID original = Some (u_ID user) \<or> User_IsAdmin user \<or>
     (\<exists>f \<in> set (tb_findings (w_db w)). f_ID f = ev_FindingID original \<and>
        role_in (w_db w) (u_ID user) (f_ProjectID f) = Some RoleProjectAdmin)"

definition comment_of :: "World \<Rightarrow> uuid \<Rightarrow> FindingEvent \<Rightarrow> bool" where
  "comment_of w i original \<longleftrightarrow> original \<in> set (tb_events (w_db w)) \<and> ev_ID original = i \<and> ev_EventType original = ''comment_added''"

lemma handleEditComment_changes:
  assumes "handleEditComment sanitize body rq w = (r, w')" and "w_db w' \<noteq> w_db w"
  shows "\<exists>i user original e text. rq_Param rq ''event_id'' = Some i \<and> rq_User rq = Some user \<and> comment_of w i original \<and>
    may_edit w user original \<and> appends w e w' \<and> ev_UserID e = Some (u_ID user) \<and> ev_EventType e = ''comment_edited'' \<and>
    ev_Payload e = CommentEditedPayload i text \<and> ev_FindingID e = ev_FindingID original"
proof -
  from assms obtain i original a w1 where i: "rq_Param rq ''event_id'' = Some i" and g: "FindingEventsRepo_GetByID i w = (Inr (original, a), w1)"
    by (auto simp: handleEditComment_def dest: EventsGetByID_reads split: option.splits sum.splits prod.splits)
  note reads = EventsGetByID_reads [OF g] and row = EventsGetByID_Inr [OF g]
  from assms i g obtain user newtext where u: "rq_User rq = Some user" and may: "ev_EventType original = ''comment_added''"
      "ev_UserID original = Some (u_ID user)" "w_now w - edit_window < ev_CreatedAt original"
    and ap: "append_event (ev_FindingID original) (u_ID user) ''comment_edited'' (CommentEditedPayload (ev_ID original) newtext)
      ''failed to edit comment'' w1 = (r, w')"
    using reads by (auto simp: handleEditComment_def Let_def split: option.splits sum.splits if_splits)
  from append_event_after_reads [OF ap assms(2)] reads obtain e where "appends w e w'" "ev_EventType e = ''comment_edited''"
      "ev_Payload e = CommentEditedPayload i newtext" "ev_FindingID e = ev_FindingID original" "ev_UserID e = Some (u_ID user)"
    using row by auto
  moreover have "comment_of w i original" "may_edit w user original" using row may by (auto simp: comment_of_def may_edit_def)
  ultimately show ?thesis using i u by blast
qed

lemma handleDeleteComment_changes:
  assumes "handleDeleteComment rq w = (r, w')" and "w_db w' \<noteq> w_db w"
  shows "\<exists>i user original e. rq_Param rq ''event_id'' = Some i \<and> rq_User rq = Some user \<and> comment_of w i original \<and>
    may_delete w user original \<and> appends w e w' \<and> ev_UserID e = Some (u_ID user) \<and> ev_EventType e = ''comment_deleted'' \<and>
    ev_Payload e = CommentDeletedPayload i \<and> ev_FindingID e = ev_FindingID original"
proof -
  from assms obtain i original a w1 where i: "rq_Param rq ''event_id'' = Some i" and g: "FindingEventsRepo_GetByID i w = (Inr (original, a), w1)"
    by (auto simp: handleDeleteComment_def dest: EventsGetByID_reads split: option.splits sum.splits prod.splits)
  note reads = EventsGetByID_reads [OF g] and row = EventsGetByID_Inr [OF g]
  from assms i g obtain p w2 where added: "ev_EventType original = ''comment_added''"
    and f: "FindingsRepo_GetProjectID (ev_FindingID original) w1 = (Inr p, w2)"
    using reads by (auto simp: handleDeleteComment_def dest: FindingsRepo_GetProjectID_db split: if_splits sum.splits prod.splits)
  have reads2: "w_db w2 = w_db w" "w_now w2 = w_now w" using reads FindingsRepo_GetProjectID_db [OF f] GetProjectID_now [OF f] by auto
  from assms i g f added reads2 obtain user where u: "rq_User rq = Some user"
    by (auto simp: handleDeleteComment_def split: option.splits)
  let ?role = "if User_IsAdmin user then (Inr False, w2) else case GetRole (u_ID user) p w2 of
      (Inl e, w) \<Rightarrow> (Inl e, w) | (Inr role, w) \<Rightarrow> (Inr (role = Some RoleProjectAdmin), w)"
  from assms i g f added reads2 u have "\<exists>b w3. ?role = (Inr b, w3)"
    by (cases ?role) (auto simp: handleDeleteComment_def dest: GetRole_db split: sum.splits if_splits prod.splits)
  then obtain b w3 where role: "?role = (Inr b, w3)" by blast
  then have db3: "w_db w3 = w_db w" "w_now w3 = w_now w"
    using reads2 by (auto dest: GetRole_db GetRole_now split: if_splits sum.splits prod.splits)
  from role have b: "b \<longrightarrow> role_in (w_db w) (u_ID user) p = Some RoleProjectAdmin"
    using reads2 by (auto dest!: GetRole_Inr split: if_splits sum.splits prod.splits)
  from assms i g f added reads2 u role db3
  have may: "ev_UserID original = Some (u_ID user) \<or> User_IsAdmin user \<or> b"
    and ap: "append_event (ev_FindingID original) (u_ID user) ''comment_deleted'' (CommentDeletedPayload (ev_ID original))
      ''failed to delete comment'' w3 = (r, w')"
    by (auto simp: handleDeleteComment_def split: if_splits)
  from f obtain x where "x \<in> set (tb_findings (w_db w))" "f_ID x = ev_FindingID original" "f_ProjectID x = p"
    using reads by (auto simp: FindingsRepo_GetProjectID_def dest!: db_query_row_Inr dest: findSomeD)
  moreover from append_event_after_reads [OF ap assms(2) db3] obtain e where "appends w e w'" "ev_EventType e = ''comment_deleted''"
      "ev_Payload e = CommentDeletedPayload i" "ev_FindingID e = ev_FindingID original" "ev_UserID e = Some (u_ID user)"
    using row by auto
  moreover have "comment_of w i original" using row added by (simp add: comment_of_def)
  moreover have "may_delete w user original" using may b calculation(1-3) by (auto simp: may_delete_def)
  ultimately show ?thesis using i u by blast
qed

text \<open>
  C20. Editing or deleting a comment changes nothing but by appending one event of the requesting user that
  names an existing comment; an edit comes from the author within fifteen minutes, a deletion from the
  author, a global administrator or an administrator of the finding's project.
\<close>

theorem comment_changes_authorised:
  assumes "(handleEditComment sanitize body rq w = (r, w') \<and> kind = ''comment_edited'') \<or>
    (handleDeleteComment rq w = (r, w') \<and> kind = ''comment_deleted'')" and "w_db w' \<noteq> w_db w"
  shows "\<exists>i user original e. rq_Param rq ''event_id'' = Some i \<and> rq_User rq = Some user \<and> comment_of w i original \<and>
    (if kind = ''comment_edited'' then may_edit w user original else may_delete w user original) \<and>
    appends w e w' \<and> ev_UserID e = Some (u_ID user) \<and> ev_EventType e = kind \<and> payload_original (ev_Payload e) = i \<and>
    ev_FindingID e = ev_FindingID original"
  using assms(1)
proof (elim disjE conjE)
  assume "handleEditComment sanitize body rq w = (r, w')" and k: "kind = ''comment_edited''"
  from handleEditComment_changes [OF this(1) assms(2)] k show ?thesis by (fastforce simp: payload_original_def)
next
  assume "handleDeleteComment rq w = (r, w')" and k: "kind = ''comment_deleted''"
  from handleDeleteComment_changes [OF this(1) assms(2)] k show ?thesis by (fastforce simp: payload_original_def)
qed

lemma delete_demo:
  "map ev_EventType (tb_events (w_db (snd (handleDeleteComment (comments_rq 1 11)
     (World_start (comments_db\<lparr>tb_findings := [Finding_zero\<lparr>f_ID := 7, f_ProjectID := 5\<rparr>]\<rparr>) 50))))) =
   [''comment_added'', ''comment_added'', ''comment_edited'', ''comment_deleted'', ''comment_deleted'']"
  by code_simp

theorem comment_changes_authorised_witness:
  "\<exists>r w'. handleDeleteComment (comments_rq 1 11)
     (World_start (comments_db\<lparr>tb_findings := [Finding_zero\<lparr>f_ID := 7, f_ProjectID := 5\<rparr>]\<rparr>) 50) = (r, w') \<and>
   (\<exists>user original. comment_of (World_start (comments_db\<lparr>tb_findings := [Finding_zero\<lparr>f_ID := 7, f_ProjectID := 5\<rparr>]\<rparr>) 50) 11 original \<and>
      may_delete (World_start (comments_db\<lparr>tb_findings := [Finding_zero\<lparr>f_ID := 7, f_ProjectID := 5\<rparr>]\<rparr>) 50) user original)"
proof -
  let ?w = "World_start (comments_db\<lparr>tb_findings := [Finding_zero\<lparr>f_ID := 7, f_ProjectID := 5\<rparr>]\<rparr>) 50"
  obtain r w' where d: "handleDeleteComment (comments_rq 1 11) ?w = (r, w')" by fastforce
  have "length (tb_events (w_db w')) = 5" using arg_cong [OF delete_demo, of length] d by simp
  moreover have "length (tb_events (w_db ?w)) = 4" by code_simp
  ultimately have "w_db w' \<noteq> w_db ?w" by auto
  from comment_changes_authorised [OF disjI2 [OF conjI [OF d refl]] this] d show ?thesis
    by (auto simp: comments_rq_def)
qed

end
