(* ===== verification/ParserBase.thy ===== *)
theory ParserBase
  imports Json Fingerprint KindResolver
begin

text \<open>
  What the scanner report parsers of \<open>internal/parser\<close> share: small helpers, the regular expressions as
  functions, and the interface \<open>Parser\<close> with the promise the import relies on. A parser sees the bytes of
  the report; a Go \<open>error\<close> is its text.
\<close>

section \<open>Helpers\<close>

fun firstNonEmpty :: "string list \<Rightarrow> string" where
  "firstNonEmpty [] = []"
| "firstNonEmpty (v # vs) = (if strings_TrimSpace v \<noteq> [] then v else firstNonEmpty vs)"

declare firstNonEmpty.simps [simp del]

definition emptyToNil :: "string \<Rightarrow> string option" where
  "emptyToNil s = (let v = strings_TrimSpace s in if v = [] then None else Some v)"

definition clampInt :: "int \<Rightarrow> int \<Rightarrow> int \<Rightarrow> int" where
  "clampInt n lo hi = (if n < lo then lo else if n > hi then hi else n)"

text \<open>The paragraphs of a description: a labelled part for each text that is not blank.\<close>

definition part :: "string \<Rightarrow> string \<Rightarrow> string list" where
  "part label text = (let v = strings_TrimSpace text in if v = [] then [] else [label @ v])"

definition paragraphs :: "string list list \<Rightarrow> string" where
  "paragraphs parts = strings_Join (concat parts) [CHR 0x0A, CHR 0x0A]"

definition firstLine :: "string \<Rightarrow> string" where
  "firstLine s = (let s = strings_TrimSpace s in
     case strings_Cut s (CHR 0x0A) of None \<Rightarrow> s | Some (a, _) \<Rightarrow> strings_TrimSpace a)"

definition maskSecret :: "string \<Rightarrow> string" where
  "maskSecret value = (let value = strings_TrimSpace value in
     if length value \<le> 8 then ''***'' else take 4 value @ ''...'' @ drop (length value - 4) value)"

section \<open>Regular expressions\<close>

text \<open>
  A match of an expression at the start of a text is its length, never zero here; the matches of a text are
  found from left to right.
\<close>

function find_all :: "(string \<Rightarrow> nat option) \<Rightarrow> string \<Rightarrow> string list" where
  "find_all m s = (if s = [] then [] else case m s of
     None \<Rightarrow> find_all m (tl s)
   | Some n \<Rightarrow> if n = 0 then find_all m (tl s) else take n s # find_all m (drop n s))"
  by pat_completeness auto
termination
  by (relation "measure (\<lambda>(m, s). length s)") auto

declare find_all.simps [simp del]

text \<open>\<open>(?i)CVE-\\d{4}-\\d{4,}\<close>\<close>

definition cveRegex :: "string \<Rightarrow> nat option" where
  "cveRegex s =
     (let digits = length (takeWhile is_digit (drop 9 s)) in
      if strings_ToLower (take 4 s) = ''cve-'' \<and> length s \<ge> 9 \<and> list_all is_digit (take 4 (drop 4 s)) \<and>
         take 1 (drop 8 s) = ''-'' \<and> digits \<ge> 4
      then Some (9 + digits) else None)"

text \<open>
  \<open>(?i)(?:cwe[-_/ ]?|/definitions/)(\\d+)\<close>: the digits of the first match, and \<open>CWE-(\\d+)\<close>: those of all
  matches.
\<close>

definition cwe_prefix :: "string \<Rightarrow> nat option" where
  "cwe_prefix s =
     (if strings_ToLower (take 3 s) = ''cwe'' then
        (case drop 3 s of c # _ \<Rightarrow> Some (if c \<in> set ''-_/ '' then 4 else 3) | [] \<Rightarrow> None)
      else if strings_ToLower (take 13 s) = ''/definitions/'' then Some 13 else None)"

definition digits_at :: "nat \<Rightarrow> string \<Rightarrow> string option" where
  "digits_at n s = (let ds = takeWhile is_digit (drop n s) in if ds = [] then None else Some ds)"

fun cweRefRegexp :: "string \<Rightarrow> string option" where
  "cweRefRegexp [] = None"
| "cweRefRegexp (c # cs) =
     (case Option.bind (cwe_prefix (c # cs)) (\<lambda>n. digits_at n (c # cs)) of
        Some ds \<Rightarrow> Some ds | None \<Rightarrow> cweRefRegexp cs)"

definition cwe_tag :: "string \<Rightarrow> nat option" where
  "cwe_tag s = (if take 4 s = ''CWE-'' then map_option (\<lambda>ds. 4 + length ds) (digits_at 4 s) else None)"

text \<open>\<open><[^>]+>\<close>, replaced by a space.\<close>

definition html_tag :: "string \<Rightarrow> nat option" where
  "html_tag s = (case s of [] \<Rightarrow> None | c # cs \<Rightarrow>
     let n = length (takeWhile (\<lambda>x. x \<noteq> CHR ''>'') cs) in
     if c = CHR ''<'' \<and> n > 0 \<and> n < length cs then Some (n + 2) else None)"

function replace_tags :: "string \<Rightarrow> string" where
  "replace_tags s = (if s = [] then [] else case html_tag s of
     None \<Rightarrow> hd s # replace_tags (tl s)
   | Some n \<Rightarrow> '' '' @ (if n = 0 then replace_tags (tl s) else replace_tags (drop n s)))"
  by pat_completeness auto
termination
  by (relation "measure length") auto

declare replace_tags.simps [simp del]

definition stripHTML :: "string \<Rightarrow> string" where
  "stripHTML s = strings_TrimSpace (strings_Join (strings_Fields (replace_tags s)) '' '')"

text \<open>\<open>fmt.Sscanf(s, "%d", ...)\<close>: blanks, a sign and the digits that follow; the rest is ignored.\<close>

definition sscanf_d :: "string \<Rightarrow> int option" where
  "sscanf_d s =
     (let s = dropWhile (\<lambda>c. is_space c \<and> c \<noteq> CHR 0x0A) s;
          sign = (case s of c # _ \<Rightarrow> if c = CHR ''-'' \<or> c = CHR ''+'' then [c] else [] | [] \<Rightarrow> [])
      in strconv_Atoi (sign @ takeWhile is_digit (drop (length sign) s)))"

section \<open>Ordered results of map keys\<close>

text \<open>The keys of a Go map used as a set, sorted.\<close>

definition sorted_set :: "'a::linorder list \<Rightarrow> 'a list" where
  "sorted_set xs = sort (remdups xs)"

lemma sorted_set_props [simp]:
  "set (sorted_set xs) = set xs" "distinct (sorted_set xs)" "sorted (sorted_set xs)"
  by (simp_all add: sorted_set_def)

section \<open>The interface\<close>

text \<open>
  A finding as every parser makes it: its numbers within the ranges of the domain, open until triaged, a kind
  of the domain, a source, and no project yet.
\<close>

definition in_ranges :: "Finding \<Rightarrow> bool" where
  "in_ranges f \<longleftrightarrow> SeverityInfo \<le> f_Severity f \<and> f_Severity f \<le> SeverityCritical \<and>
     0 \<le> f_Confidence f \<and> f_Confidence f \<le> 3 \<and> StatusOpen \<le> f_Status f \<and> f_Status f \<le> StatusRiskAccepted \<and>
     f_Kind f \<in> {KindSCA..KindOther}"

lemma in_ranges_fingerprint: "in_ranges (x\<lparr>f_Fingerprint := t\<rparr>) = in_ranges x"
  by (simp add: in_ranges_def)

text \<open>Most parsers end by the fingerprint of the finding they made.\<close>

definition fingerprinted :: "Decoder \<Rightarrow> Finding \<Rightarrow> Finding" where
  "fingerprinted dc f = f\<lparr>f_Fingerprint := CalculateFingerprint (jd_hash dc) f\<rparr>"

lemma fingerprinted_simps [simp]:
  "f_Severity (fingerprinted dc f) = f_Severity f" "f_Confidence (fingerprinted dc f) = f_Confidence f"
  "f_Status (fingerprinted dc f) = f_Status f" "f_Kind (fingerprinted dc f) = f_Kind f"
  "f_Fingerprint (fingerprinted dc f) = CalculateFingerprint (jd_hash dc) f"
  by (simp_all add: fingerprinted_def)

lemma CalculateFingerprint_fingerprint [simp]:
  "CalculateFingerprint H (f\<lparr>f_Fingerprint := t\<rparr>) = CalculateFingerprint H f"
  by (simp add: CalculateFingerprint_def fingerprint_text_def fingerprint_parts_def)

text \<open>
  The key of a finding is the fingerprint of its fields. Only a vulnerability that Trivy reports has a key over
  other texts.
\<close>

definition keyed_by :: "(string \<Rightarrow> string) \<Rightarrow> Finding \<Rightarrow> bool" where
  "keyed_by H f \<longleftrightarrow> f_Fingerprint f = CalculateFingerprint H f \<or>
     f_SourceType f = ''trivy'' \<and> f_Kind f = KindSCA \<and> f_Fingerprint f \<in> range H"

lemma fingerprinted_keyed [simp]: "keyed_by (jd_hash dc) (fingerprinted dc f)"
  by (simp add: keyed_by_def fingerprinted_def)

record Parser =
  CanParse :: "string \<Rightarrow> bool"
  Parse :: "string \<Rightarrow> string + Finding list"

locale parser =
  fixes p :: Parser and H :: "string \<Rightarrow> string"
  assumes parsed_in_ranges: "Parse p data = Inr fs \<Longrightarrow> f \<in> set fs \<Longrightarrow> in_ranges f"
    and parsed_keyed: "Parse p data = Inr fs \<Longrightarrow> f \<in> set fs \<Longrightarrow> keyed_by H f"

end
