(* ===== verification/SarifFormat.thy ===== *)
theory SarifFormat
  imports ParserBase
begin

text \<open>
  The structs of \<open>internal/parser/sarif.go\<close> that a SARIF report is decoded into, each as a record with its
  decoder. Structs with one field are their field.
\<close>

record sarifMessage =
  sm_Text :: string
  sm_Markdown :: string

definition decode_sarifMessage :: "json option \<Rightarrow> sarifMessage option" where
  "decode_sarifMessage j = do {
     obj \<leftarrow> dec_struct j;
     x1 \<leftarrow> dec_string (json_field obj ''text'');
     x2 \<leftarrow> dec_string (json_field obj ''markdown'');
     Some \<lparr>sm_Text = x1, sm_Markdown = x2\<rparr>
   }"

record sarifToolComponentRef =
  st_GUID :: string
  st_Name :: string

definition decode_sarifToolComponentRef :: "json option \<Rightarrow> sarifToolComponentRef option" where
  "decode_sarifToolComponentRef j = do {
     obj \<leftarrow> dec_struct j;
     x1 \<leftarrow> dec_string (json_field obj ''guid'');
     x2 \<leftarrow> dec_string (json_field obj ''name'');
     Some \<lparr>st_GUID = x1, st_Name = x2\<rparr>
   }"

definition decode_problem_severity :: "json option \<Rightarrow> string option" where
  "decode_problem_severity j = Option.bind (dec_struct j) (\<lambda>obj. dec_string (json_field obj ''severity''))"

text \<open>The properties keep all their entries beside the decoded ones (their \<open>UnmarshalJSON\<close>).\<close>

record sarifProperties =
  sp_Tags :: "string list"
  sp_SecuritySeverity :: "json option"
  sp_References :: "string list"
  sp_Solution :: sarifMessage
  sp_Confidence :: string
  sp_Precision :: string
  sp_Problem_Severity :: string
  sp_Raw :: json_object

definition decode_sarifProperties :: "json option \<Rightarrow> sarifProperties option" where
  "decode_sarifProperties j = do {
     obj \<leftarrow> dec_struct j;
     x1 \<leftarrow> dec_list dec_string (json_field obj ''tags'');
     x2 \<leftarrow> dec_any (json_field obj ''security-severity'');
     x3 \<leftarrow> dec_list dec_string (json_field obj ''references'');
     x4 \<leftarrow> decode_sarifMessage (json_field obj ''solution'');
     x5 \<leftarrow> dec_string (json_field obj ''confidence'');
     x6 \<leftarrow> dec_string (json_field obj ''precision'');
     x7 \<leftarrow> decode_problem_severity (json_field obj ''problem'');
     Some \<lparr>sp_Tags = x1, sp_SecuritySeverity = x2, sp_References = x3, sp_Solution = x4,
       sp_Confidence = x5, sp_Precision = x6, sp_Problem_Severity = x7, sp_Raw = obj\<rparr>
   }"

definition decode_level :: "json option \<Rightarrow> string option" where
  "decode_level j = Option.bind (dec_struct j) (\<lambda>obj. dec_string (json_field obj ''level''))"

record sarifRelationTarget =
  sg_ID :: string
  sg_GUID :: string
  sg_ToolComponent :: sarifToolComponentRef

definition decode_sarifRelationTarget :: "json option \<Rightarrow> sarifRelationTarget option" where
  "decode_sarifRelationTarget j = do {
     obj \<leftarrow> dec_struct j;
     x1 \<leftarrow> dec_string (json_field obj ''id'');
     x2 \<leftarrow> dec_string (json_field obj ''guid'');
     x3 \<leftarrow> decode_sarifToolComponentRef (json_field obj ''toolComponent'');
     Some \<lparr>sg_ID = x1, sg_GUID = x2, sg_ToolComponent = x3\<rparr>
   }"

record sarifRelationship =
  sl_Kinds :: "string list"
  sl_Target :: sarifRelationTarget

definition decode_sarifRelationship :: "json option \<Rightarrow> sarifRelationship option" where
  "decode_sarifRelationship j = do {
     obj \<leftarrow> dec_struct j;
     x1 \<leftarrow> dec_list dec_string (json_field obj ''kinds'');
     x2 \<leftarrow> decode_sarifRelationTarget (json_field obj ''target'');
     Some \<lparr>sl_Kinds = x1, sl_Target = x2\<rparr>
   }"

record sarifRule =
  sr_ID :: string
  sr_Name :: string
  sr_ShortDescription :: sarifMessage
  sr_FullDescription :: sarifMessage
  sr_Help :: sarifMessage
  sr_DefaultConfig_Level :: string
  sr_Properties :: sarifProperties
  sr_Relationships :: "sarifRelationship list"
  sr_HelpURI :: string

definition decode_sarifRule :: "json option \<Rightarrow> sarifRule option" where
  "decode_sarifRule j = do {
     obj \<leftarrow> dec_struct j;
     x1 \<leftarrow> dec_string (json_field obj ''id'');
     x2 \<leftarrow> dec_string (json_field obj ''name'');
     x3 \<leftarrow> decode_sarifMessage (json_field obj ''shortDescription'');
     x4 \<leftarrow> decode_sarifMessage (json_field obj ''fullDescription'');
     x5 \<leftarrow> decode_sarifMessage (json_field obj ''help'');
     x6 \<leftarrow> decode_level (json_field obj ''defaultConfiguration'');
     x7 \<leftarrow> decode_sarifProperties (json_field obj ''properties'');
     x8 \<leftarrow> dec_list decode_sarifRelationship (json_field obj ''relationships'');
     x9 \<leftarrow> dec_string (json_field obj ''helpUri'');
     Some \<lparr>sr_ID = x1, sr_Name = x2, sr_ShortDescription = x3, sr_FullDescription = x4, sr_Help = x5,
       sr_DefaultConfig_Level = x6, sr_Properties = x7, sr_Relationships = x8, sr_HelpURI = x9\<rparr>
   }"

record sarifDriver =
  sd_Name :: string
  sd_FullName :: string
  sd_Organization :: string
  sd_Product :: string
  sd_Version :: string
  sd_SemanticVersion :: string
  sd_InformationURI :: string
  sd_Rules :: "sarifRule list"
  sd_SupportedTaxonomies :: "sarifToolComponentRef list"

definition decode_sarifDriver :: "json option \<Rightarrow> sarifDriver option" where
  "decode_sarifDriver j = do {
     obj \<leftarrow> dec_struct j;
     x1 \<leftarrow> dec_string (json_field obj ''name'');
     x2 \<leftarrow> dec_string (json_field obj ''fullName'');
     x3 \<leftarrow> dec_string (json_field obj ''organization'');
     x4 \<leftarrow> dec_string (json_field obj ''product'');
     x5 \<leftarrow> dec_string (json_field obj ''version'');
     x6 \<leftarrow> dec_string (json_field obj ''semanticVersion'');
     x7 \<leftarrow> dec_string (json_field obj ''informationUri'');
     x8 \<leftarrow> dec_list decode_sarifRule (json_field obj ''rules'');
     x9 \<leftarrow> dec_list decode_sarifToolComponentRef (json_field obj ''supportedTaxonomies'');
     Some \<lparr>sd_Name = x1, sd_FullName = x2, sd_Organization = x3, sd_Product = x4, sd_Version = x5,
       sd_SemanticVersion = x6, sd_InformationURI = x7, sd_Rules = x8, sd_SupportedTaxonomies = x9\<rparr>
   }"

definition decode_tool :: "json option \<Rightarrow> sarifDriver option" where
  "decode_tool j = Option.bind (dec_struct j) (\<lambda>obj. decode_sarifDriver (json_field obj ''driver''))"

record sarifReportingDescriptorRef =
  sq_ID :: string
  sq_Index :: int

definition decode_sarifReportingDescriptorRef :: "json option \<Rightarrow> sarifReportingDescriptorRef option" where
  "decode_sarifReportingDescriptorRef j = do {
     obj \<leftarrow> dec_struct j;
     x1 \<leftarrow> dec_string (json_field obj ''id'');
     x2 \<leftarrow> dec_int (json_field obj ''index'');
     Some \<lparr>sq_ID = x1, sq_Index = x2\<rparr>
   }"

record sarifLocationProps =
  sx_Attack :: string
  sx_Evidence :: string
  sx_Parameter :: string
  sx_Raw :: json_object

definition decode_sarifLocationProps :: "json option \<Rightarrow> sarifLocationProps option" where
  "decode_sarifLocationProps j = do {
     obj \<leftarrow> dec_struct j;
     x1 \<leftarrow> dec_string (json_field obj ''attack'');
     x2 \<leftarrow> dec_string (json_field obj ''evidence'');
     x3 \<leftarrow> dec_string (json_field obj ''parameter'');
     Some \<lparr>sx_Attack = x1, sx_Evidence = x2, sx_Parameter = x3, sx_Raw = obj\<rparr>
   }"

record sarifLogicalLocation =
  sv_Name :: string
  sv_Properties :: sarifProperties

definition decode_sarifLogicalLocation :: "json option \<Rightarrow> sarifLogicalLocation option" where
  "decode_sarifLogicalLocation j = do {
     obj \<leftarrow> dec_struct j;
     x1 \<leftarrow> dec_string (json_field obj ''name'');
     x2 \<leftarrow> decode_sarifProperties (json_field obj ''properties'');
     Some \<lparr>sv_Name = x1, sv_Properties = x2\<rparr>
   }"

definition decode_snippet :: "json option \<Rightarrow> string option" where
  "decode_snippet j = Option.bind (dec_struct j) (\<lambda>obj. dec_string (json_field obj ''text''))"

definition decode_contextRegion :: "json option \<Rightarrow> string option" where
  "decode_contextRegion j = Option.bind (dec_struct j) (\<lambda>obj. decode_snippet (json_field obj ''snippet''))"

record sarifRegion =
  sn_StartLine :: int
  sn_EndLine :: int
  sn_StartColumn :: int
  sn_EndColumn :: int
  sn_Snippet_Text :: string

definition decode_sarifRegion :: "json option \<Rightarrow> sarifRegion option" where
  "decode_sarifRegion j = do {
     obj \<leftarrow> dec_struct j;
     x1 \<leftarrow> dec_int (json_field obj ''startLine'');
     x2 \<leftarrow> dec_int (json_field obj ''endLine'');
     x3 \<leftarrow> dec_int (json_field obj ''startColumn'');
     x4 \<leftarrow> dec_int (json_field obj ''endColumn'');
     x5 \<leftarrow> decode_snippet (json_field obj ''snippet'');
     Some \<lparr>sn_StartLine = x1, sn_EndLine = x2, sn_StartColumn = x3, sn_EndColumn = x4,
       sn_Snippet_Text = x5\<rparr>
   }"

record sarifArtifactLocation =
  sa_URI :: string
  sa_URIBaseID :: string

definition decode_sarifArtifactLocation :: "json option \<Rightarrow> sarifArtifactLocation option" where
  "decode_sarifArtifactLocation j = do {
     obj \<leftarrow> dec_struct j;
     x1 \<leftarrow> dec_string (json_field obj ''uri'');
     x2 \<leftarrow> dec_string (json_field obj ''uriBaseId'');
     Some \<lparr>sa_URI = x1, sa_URIBaseID = x2\<rparr>
   }"

record sarifPhysicalLocation =
  sh_ArtifactLocation :: sarifArtifactLocation
  sh_Region :: sarifRegion
  sh_ContextRegion_Text :: string

definition decode_sarifPhysicalLocation :: "json option \<Rightarrow> sarifPhysicalLocation option" where
  "decode_sarifPhysicalLocation j = do {
     obj \<leftarrow> dec_struct j;
     x1 \<leftarrow> decode_sarifArtifactLocation (json_field obj ''artifactLocation'');
     x2 \<leftarrow> decode_sarifRegion (json_field obj ''region'');
     x3 \<leftarrow> decode_contextRegion (json_field obj ''contextRegion'');
     Some \<lparr>sh_ArtifactLocation = x1, sh_Region = x2, sh_ContextRegion_Text = x3\<rparr>
   }"

record sarifLocation =
  sc_PhysicalLocation :: sarifPhysicalLocation
  sc_LogicalLocations :: "sarifLogicalLocation list"
  sc_Message :: sarifMessage
  sc_Properties :: sarifLocationProps

definition decode_sarifLocation :: "json option \<Rightarrow> sarifLocation option" where
  "decode_sarifLocation j = do {
     obj \<leftarrow> dec_struct j;
     x1 \<leftarrow> decode_sarifPhysicalLocation (json_field obj ''physicalLocation'');
     x2 \<leftarrow> dec_list decode_sarifLogicalLocation (json_field obj ''logicalLocations'');
     x3 \<leftarrow> decode_sarifMessage (json_field obj ''message'');
     x4 \<leftarrow> decode_sarifLocationProps (json_field obj ''properties'');
     Some \<lparr>sc_PhysicalLocation = x1, sc_LogicalLocations = x2, sc_Message = x3, sc_Properties = x4\<rparr>
   }"

record sarifWebRequest =
  sw_Method :: string
  sw_Target :: string
  sw_Headers :: "(string \<times> string) list"

definition decode_sarifWebRequest :: "json option \<Rightarrow> sarifWebRequest option" where
  "decode_sarifWebRequest j = do {
     obj \<leftarrow> dec_struct j;
     x1 \<leftarrow> dec_string (json_field obj ''method'');
     x2 \<leftarrow> dec_string (json_field obj ''target'');
     x3 \<leftarrow> dec_map dec_string (json_field obj ''headers'');
     Some \<lparr>sw_Method = x1, sw_Target = x2, sw_Headers = x3\<rparr>
   }"

record sarifWebResponse =
  sb_StatusCode :: int
  sb_Headers :: "(string \<times> string) list"
  sb_NoResponseReceived :: bool

definition decode_sarifWebResponse :: "json option \<Rightarrow> sarifWebResponse option" where
  "decode_sarifWebResponse j = do {
     obj \<leftarrow> dec_struct j;
     x1 \<leftarrow> dec_int (json_field obj ''statusCode'');
     x2 \<leftarrow> dec_map dec_string (json_field obj ''headers'');
     x3 \<leftarrow> dec_bool (json_field obj ''noResponseReceived'');
     Some \<lparr>sb_StatusCode = x1, sb_Headers = x2, sb_NoResponseReceived = x3\<rparr>
   }"

record sarifResult =
  ss_RuleID :: string
  ss_RuleIndex :: int
  ss_Rule :: "sarifReportingDescriptorRef option"
  ss_Level :: string
  ss_Message :: sarifMessage
  ss_Locations :: "sarifLocation list"
  ss_PartialFingerprints :: "(string \<times> string) list"
  ss_Properties :: sarifProperties
  ss_WebRequest :: "sarifWebRequest option"
  ss_WebResponse :: "sarifWebResponse option"

definition decode_sarifResult :: "json option \<Rightarrow> sarifResult option" where
  "decode_sarifResult j = do {
     obj \<leftarrow> dec_struct j;
     x1 \<leftarrow> dec_string (json_field obj ''ruleId'');
     x2 \<leftarrow> dec_int (json_field obj ''ruleIndex'');
     x3 \<leftarrow> dec_ptr decode_sarifReportingDescriptorRef (json_field obj ''rule'');
     x4 \<leftarrow> dec_string (json_field obj ''level'');
     x5 \<leftarrow> decode_sarifMessage (json_field obj ''message'');
     x6 \<leftarrow> dec_list decode_sarifLocation (json_field obj ''locations'');
     x7 \<leftarrow> dec_map dec_string (json_field obj ''partialFingerprints'');
     x8 \<leftarrow> decode_sarifProperties (json_field obj ''properties'');
     x9 \<leftarrow> dec_ptr decode_sarifWebRequest (json_field obj ''webRequest'');
     x10 \<leftarrow> dec_ptr decode_sarifWebResponse (json_field obj ''webResponse'');
     Some \<lparr>ss_RuleID = x1, ss_RuleIndex = x2, ss_Rule = x3, ss_Level = x4, ss_Message = x5,
       ss_Locations = x6, ss_PartialFingerprints = x7, ss_Properties = x8, ss_WebRequest = x9,
       ss_WebResponse = x10\<rparr>
   }"

record sarifTaxon =
  so_GUID :: string
  so_ID :: string
  so_HelpURI :: string

definition decode_sarifTaxon :: "json option \<Rightarrow> sarifTaxon option" where
  "decode_sarifTaxon j = do {
     obj \<leftarrow> dec_struct j;
     x1 \<leftarrow> dec_string (json_field obj ''guid'');
     x2 \<leftarrow> dec_string (json_field obj ''id'');
     x3 \<leftarrow> dec_string (json_field obj ''helpUri'');
     Some \<lparr>so_GUID = x1, so_ID = x2, so_HelpURI = x3\<rparr>
   }"

record sarifTaxonomy =
  sy_GUID :: string
  sy_Name :: string
  sy_Taxa :: "sarifTaxon list"

definition decode_sarifTaxonomy :: "json option \<Rightarrow> sarifTaxonomy option" where
  "decode_sarifTaxonomy j = do {
     obj \<leftarrow> dec_struct j;
     x1 \<leftarrow> dec_string (json_field obj ''guid'');
     x2 \<leftarrow> dec_string (json_field obj ''name'');
     x3 \<leftarrow> dec_list decode_sarifTaxon (json_field obj ''taxa'');
     Some \<lparr>sy_GUID = x1, sy_Name = x2, sy_Taxa = x3\<rparr>
   }"

record sarifRun =
  su_Driver :: sarifDriver
  su_Results :: "sarifResult list"
  su_Taxonomies :: "sarifTaxonomy list"

definition decode_sarifRun :: "json option \<Rightarrow> sarifRun option" where
  "decode_sarifRun j = do {
     obj \<leftarrow> dec_struct j;
     x1 \<leftarrow> decode_tool (json_field obj ''tool'');
     x2 \<leftarrow> dec_list decode_sarifResult (json_field obj ''results'');
     x3 \<leftarrow> dec_list decode_sarifTaxonomy (json_field obj ''taxonomies'');
     Some \<lparr>su_Driver = x1, su_Results = x2, su_Taxonomies = x3\<rparr>
   }"

record sarifReport =
  sarif_Schema :: string
  sarif_Version :: string
  sarif_Runs :: "sarifRun list"

definition decode_sarifReport :: "json option \<Rightarrow> sarifReport option" where
  "decode_sarifReport j = do {
     obj \<leftarrow> dec_struct j;
     x1 \<leftarrow> dec_string (json_field obj ''$schema'');
     x2 \<leftarrow> dec_string (json_field obj ''version'');
     x3 \<leftarrow> dec_list decode_sarifRun (json_field obj ''runs'');
     Some \<lparr>sarif_Schema = x1, sarif_Version = x2, sarif_Runs = x3\<rparr>
   }"

end
