(* ===== verification/Sarif.thy ===== *)
theory Sarif
  imports SarifFormat
begin

text \<open>
  The SARIF parser, \<open>internal/parser/sarif.go\<close>: the choice of rule, location, severity and confidence of a
  result, its CVE and CWE numbers, the package and web metadata, and the finding made of them.
\<close>

section \<open>Texts of properties\<close>

definition normalizeSARIFPropertyKey :: "string \<Rightarrow> string" where
  "normalizeSARIFPropertyKey key =
     filter (\<lambda>c. is_digit c \<or> (97 \<le> (of_char c :: nat) \<and> (of_char c :: nat) \<le> 122)) (strings_ToLower key)"

definition sarifRawString :: "Decoder \<Rightarrow> json \<Rightarrow> string" where
  "sarifRawString dc raw =
     (case raw of
        JsonString s \<Rightarrow> strings_TrimSpace s
      | JsonInt _ \<Rightarrow> strings_TrimSpace (jd_text dc raw)
      | JsonFloat _ \<Rightarrow> strings_TrimSpace (jd_text dc raw)
      | _ \<Rightarrow> [])"

text \<open>The first wanted property with a text, in the order in which the map is walked.\<close>

definition sarifStringProperty :: "Decoder \<Rightarrow> sarifProperties \<Rightarrow> string list \<Rightarrow> string" where
  "sarifStringProperty dc props keys =
     (let wanted = map normalizeSARIFPropertyKey keys in
      case filter (\<lambda>v. v \<noteq> [])
          (map (sarifRawString dc \<circ> snd)
            (filter (\<lambda>(k, _). normalizeSARIFPropertyKey k \<in> set wanted) (jd_walk dc (sp_Raw props)))) of
        [] \<Rightarrow> [] | v # _ \<Rightarrow> v)"

definition hasParserString :: "string option \<Rightarrow> bool" where
  "hasParserString v = (case v of None \<Rightarrow> False | Some s \<Rightarrow> strings_TrimSpace s \<noteq> [])"

section \<open>Package URLs\<close>

text \<open>Ecosystem, component and version of a package URL.\<close>

definition before_any :: "char list \<Rightarrow> string \<Rightarrow> string" where
  "before_any cs s = takeWhile (\<lambda>c. c \<notin> set cs) s"

definition parsePURLMetadata :: "string \<Rightarrow> string \<times> string \<times> string" where
  "parsePURLMetadata raw =
     (let trimmed = strings_TrimSpace raw;
          purl = strings_TrimPrefix trimmed ''pkg:'' in
      if purl = trimmed then ([], [], [])
      else
        let purl = before_any ''?#'' purl;
            (version, purl) = (case strings_LastIndex purl (CHR ''@'') of
               None \<Rightarrow> ([], purl) | Some i \<Rightarrow> (strings_TrimSpace (drop (Suc i) purl), take i purl)) in
        case strings_Cut purl (CHR ''/'') of
          Some (eco, rest) \<Rightarrow>
            let componentPath = strings_TrimSpace rest;
                component = (case strings_LastIndex componentPath (CHR ''/'') of
                  Some i \<Rightarrow> strings_TrimSpace (drop (Suc i) componentPath) | None \<Rightarrow> componentPath)
            in (strings_TrimSpace eco, component, version)
        | None \<Rightarrow> (strings_TrimSpace purl, [], version))"

definition applyPURLMetadata :: "Finding \<Rightarrow> Finding" where
  "applyPURLMetadata f =
     (case f_Purl f of
        None \<Rightarrow> f
      | Some purl \<Rightarrow>
          if strings_TrimSpace purl = [] then f
          else case parsePURLMetadata purl of (ecosystem, component, version) \<Rightarrow>
            let f = (if strings_TrimSpace (f_Component f) = [] \<and> component \<noteq> [] then f\<lparr>f_Component := component\<rparr> else f);
                f = (if strings_TrimSpace (f_ComponentVersion f) = [] \<and> version \<noteq> [] then f\<lparr>f_ComponentVersion := version\<rparr> else f)
            in if \<not> hasParserString (f_PackageEcosystem f) \<and> ecosystem \<noteq> [] then f\<lparr>f_PackageEcosystem := Some ecosystem\<rparr> else f)"

definition set_text :: "string \<Rightarrow> (string \<Rightarrow> Finding \<Rightarrow> Finding) \<Rightarrow> Finding \<Rightarrow> Finding" where
  "set_text v upd f = (if v \<noteq> [] then upd v f else f)"

definition applySARIFPackageMetadata :: "Decoder \<Rightarrow> sarifProperties \<Rightarrow> Finding \<Rightarrow> Finding" where
  "applySARIFPackageMetadata dc props f =
     (if sp_Raw props = [] then f
      else
        let f = set_text (sarifStringProperty dc props [''purl'', ''packageURL'', ''packageUrl'', ''package_url'', ''packagePurl'', ''pkgPurl''])
                  (\<lambda>v. f_Purl_update (\<lambda>_. Some v)) f;
            f = set_text (sarifStringProperty dc props [''packageName'', ''package_name'', ''package'', ''pkgName'', ''pkg_name'', ''component'', ''componentName'', ''dependencyName''])
                  (\<lambda>v. f_Component_update (\<lambda>_. v)) f;
            f = set_text (sarifStringProperty dc props [''version'', ''installedVersion'', ''installed_version'', ''packageVersion'', ''package_version'', ''currentVersion'', ''pkgVersion''])
                  (\<lambda>v. f_ComponentVersion_update (\<lambda>_. v)) f;
            f = set_text (sarifStringProperty dc props [''fixedVersion'', ''fixed_version'', ''fixVersion'', ''patchedVersion'', ''patched_version''])
                  (\<lambda>v. f_FixedVersion_update (\<lambda>_. Some v)) f;
            f = set_text (sarifStringProperty dc props [''ecosystem'', ''packageEcosystem'', ''package_ecosystem'', ''type'', ''packageType'', ''package_type'', ''language''])
                  (\<lambda>v. f_PackageEcosystem_update (\<lambda>_. Some v)) f
        in applyPURLMetadata f)"

section \<open>Rule and location of a result\<close>

text \<open>Both maps of rules as lookups: the last rule with an id, the rule at an index.\<close>

definition rule_by_id :: "sarifRule list \<Rightarrow> string \<Rightarrow> sarifRule option" where
  "rule_by_id rules i = find (\<lambda>r. sr_ID r = i) (rev rules)"

definition rule_by_index :: "sarifRule list \<Rightarrow> int \<Rightarrow> sarifRule option" where
  "rule_by_index rules i = (if 0 \<le> i \<and> i < int (length rules) then Some (rules ! nat i) else None)"

definition sarifRule_zero :: sarifRule where
  "sarifRule_zero = the (decode_sarifRule None)"

definition rule_named :: "sarifRule list \<Rightarrow> string \<Rightarrow> sarifRule option" where
  "rule_named rules i = (let i = strings_TrimSpace i in if i = [] then None else rule_by_id rules i)"

definition resolveSARIFRule :: "sarifResult \<Rightarrow> sarifRule list \<Rightarrow> sarifRule" where
  "resolveSARIFRule result rules =
     (case rule_named rules (ss_RuleID result) of
        Some r \<Rightarrow> r
      | None \<Rightarrow>
          (case Option.bind (ss_Rule result) (\<lambda>ref. case rule_named rules (sq_ID ref) of
              Some r \<Rightarrow> Some r | None \<Rightarrow> rule_by_index rules (sq_Index ref)) of
             Some r \<Rightarrow> r
           | None \<Rightarrow> (case rule_by_index rules (ss_RuleIndex result) of Some r \<Rightarrow> r | None \<Rightarrow> sarifRule_zero)))"

definition firstSARIFLocation :: "sarifResult \<Rightarrow> sarifLocation option" where
  "firstSARIFLocation result = (case ss_Locations result of [] \<Rightarrow> None | loc # _ \<Rightarrow> Some loc)"

definition request_target :: "sarifResult \<Rightarrow> string" where
  "request_target result = (case ss_WebRequest result of None \<Rightarrow> [] | Some req \<Rightarrow> strings_TrimSpace (sw_Target req))"

definition extractPrimaryLocation :: "sarifLocation option \<Rightarrow> sarifResult \<Rightarrow> string \<times> int \<times> int" where
  "extractPrimaryLocation loc result =
     (case loc of
        None \<Rightarrow> (request_target result, 0, 0)
      | Some loc \<Rightarrow>
          let filePath = strings_TrimSpace (sa_URI (sh_ArtifactLocation (sc_PhysicalLocation loc)));
              filePath = (if filePath = [] then request_target result else filePath);
              region = sh_Region (sc_PhysicalLocation loc);
              lineStart = sn_StartLine region;
              lineEnd = (if sn_EndLine region = 0 then lineStart else sn_EndLine region)
          in (filePath, lineStart, lineEnd))"

definition extractBestSnippet :: "sarifLocation option \<Rightarrow> string" where
  "extractBestSnippet loc =
     (case loc of
        None \<Rightarrow> []
      | Some loc \<Rightarrow> strings_TrimSpace (firstNonEmpty
          [sn_Snippet_Text (sh_Region (sc_PhysicalLocation loc)), sh_ContextRegion_Text (sc_PhysicalLocation loc),
           sx_Attack (sc_Properties loc), sm_Text (sc_Message loc)]))"

section \<open>CVE and CWE numbers\<close>

text \<open>The result is sorted, so the order of the fingerprint map does not matter.\<close>

definition extractCVEs :: "sarifResult \<Rightarrow> sarifRule \<Rightarrow> string list" where
  "extractCVEs result rule =
     (let texts = [ss_RuleID result, sm_Text (ss_Message result), sr_ID rule, sr_Name rule, sm_Text (sr_ShortDescription rule),
            sm_Text (sr_FullDescription rule), sm_Text (sr_Help rule)] @ sp_Tags (sr_Properties rule) @
            [v. (k, v) \<leftarrow> ss_PartialFingerprints result, strings_Contains (strings_ToLower (strings_TrimSpace k)) ''cve'']
      in sorted_set (map strings_ToUpper (concat (map (find_all cveRegex) texts))))"

definition extractCWEIDs :: "string list \<Rightarrow> int list" where
  "extractCWEIDs tags = List.map_filter (\<lambda>tag.
     if strings_HasPrefix (strings_ToLower (strings_TrimSpace tag)) ''cwe-'' then strconv_Atoi (strings_TrimSpace (drop 4 tag)) else None) tags"

definition extractCWEIDsFromReferences :: "string list \<Rightarrow> int list" where
  "extractCWEIDsFromReferences refs = List.map_filter (\<lambda>ref. Option.bind (cweRefRegexp ref) strconv_Atoi) refs"

definition is_cwe_ref :: "sarifToolComponentRef \<Rightarrow> bool" where
  "is_cwe_ref ref \<longleftrightarrow> strings_EqualFold (strings_TrimSpace (st_Name ref)) ''CWE'' \<and> strings_TrimSpace (st_GUID ref) \<noteq> []"

definition buildCWETaxonomyGUIDSet :: "sarifRun \<Rightarrow> string list" where
  "buildCWETaxonomyGUIDSet run =
     map (strings_TrimSpace \<circ> sy_GUID) (filter (\<lambda>t. strings_EqualFold (strings_TrimSpace (sy_Name t)) ''CWE'' \<and> strings_TrimSpace (sy_GUID t) \<noteq> []) (su_Taxonomies run)) @
     map (strings_TrimSpace \<circ> st_GUID) (filter is_cwe_ref (sd_SupportedTaxonomies (su_Driver run)))"

definition extractAllCWEIDs :: "sarifRule \<Rightarrow> string list \<Rightarrow> int list" where
  "extractAllCWEIDs rule guids =
     sorted_set (extractCWEIDs (sp_Tags (sr_Properties rule)) @ extractCWEIDsFromReferences (sp_References (sr_Properties rule)) @
       List.map_filter (\<lambda>rel. let target = sl_Target rel; targetID = strings_TrimSpace (sg_ID target) in
         if targetID \<noteq> [] \<and> (strings_TrimSpace (st_GUID (sg_ToolComponent target)) \<in> set guids \<or>
              strings_EqualFold (strings_TrimSpace (st_Name (sg_ToolComponent target))) ''CWE'')
         then strconv_Atoi targetID else None) (sr_Relationships rule))"

section \<open>Severity and confidence\<close>

definition parseSARIFSecuritySeverity :: "Decoder \<Rightarrow> json option \<Rightarrow> rat option" where
  "parseSARIFSecuritySeverity dc v =
     (case v of
        Some (JsonInt n) \<Rightarrow> Some (of_int n)
      | Some (JsonFloat x) \<Rightarrow> Some x
      | Some (JsonString s) \<Rightarrow> (let s = strings_TrimSpace s in if s = [] then None else jd_float dc s)
      | _ \<Rightarrow> None)"

definition level_severity :: "string \<Rightarrow> int" where
  "level_severity level =
     (let l = strings_ToLower (strings_TrimSpace level) in
      if l = ''error'' then SeverityHigh else if l = ''warning'' then SeverityMedium
      else if l = ''note'' then SeverityLow else SeverityInfo)"

definition mapSARIFSeverity :: "string \<Rightarrow> rat option \<Rightarrow> int" where
  "mapSARIFSeverity level securitySeverity =
     (case securitySeverity of
        None \<Rightarrow> level_severity level
      | Some score \<Rightarrow>
          if score \<ge> 7 then SeverityHigh else if score \<ge> 4 then SeverityMedium
          else if score > 0 then SeverityLow else level_severity level)"

definition mapSARIFConfidence :: "string \<Rightarrow> string \<Rightarrow> int" where
  "mapSARIFConfidence explicit level =
     (let e = strings_ToLower (strings_TrimSpace explicit); l = strings_ToLower (strings_TrimSpace level) in
      if e \<in> {''very-high'', ''high'', ''confirmed''} then 2
      else if e = ''medium'' then 1
      else if e \<in> {''low'', ''false positive''} then 0
      else if l = ''error'' then 2 else if l = ''warning'' then 1 else 0)"

section \<open>Description\<close>

definition sameText :: "string \<Rightarrow> string \<Rightarrow> bool" where
  "sameText a b = strings_EqualFold (strings_TrimSpace a) (strings_TrimSpace b)"

definition appendUniqueText :: "string list \<Rightarrow> string \<Rightarrow> string list" where
  "appendUniqueText dst value =
     (let value = strings_TrimSpace value in
      if value = [] \<or> list_ex (\<lambda>e. sameText e value) dst then dst else dst @ [value])"

definition buildSARIFDescription :: "sarifRule \<Rightarrow> sarifResult \<Rightarrow> sarifLocation option \<Rightarrow> string \<Rightarrow> string" where
  "buildSARIFDescription rule result loc title =
     (let msg = strings_TrimSpace (sm_Text (ss_Message result));
          location = (case loc of None \<Rightarrow> [] | Some loc \<Rightarrow>
            part ''Attack: '' (sx_Attack (sc_Properties loc)) @ part ''Evidence: '' (sx_Evidence (sc_Properties loc)) @
            part ''Parameter: '' (sx_Parameter (sc_Properties loc)));
          request = (case ss_WebRequest result of None \<Rightarrow> [] | Some req \<Rightarrow>
            part ''Request: '' (strings_Join [sw_Method req, sw_Target req] '' ''));
          response = (case ss_WebResponse result of None \<Rightarrow> [] | Some res \<Rightarrow>
            if sb_NoResponseReceived res then [''Response: no response received'']
            else if sb_StatusCode res > 0 then [''Response status: '' @ strconv_Itoa (sb_StatusCode res)] else []);
          solution = sp_Solution (sr_Properties rule);
          references = sp_References (sr_Properties rule)
      in strings_Join (foldl appendUniqueText []
        ([strings_TrimSpace (sm_Text (sr_FullDescription rule)), strings_TrimSpace (sm_Markdown (sr_Help rule)),
          strings_TrimSpace (sm_Text (sr_Help rule))] @
         (if msg \<noteq> [] \<and> \<not> sameText msg title then [''Instance details: '' @ msg] else []) @
         location @ request @ response @
         part ''Remediation: '' (firstNonEmpty [sm_Markdown solution, sm_Text solution]) @
         (if references \<noteq> [] then [''References:'' @ [CHR 0x0A] @ ''- '' @ strings_Join references ([CHR 0x0A] @ ''- '')] else []) @
         part ''Help URI: '' (sr_HelpURI rule))) [CHR 0x0A, CHR 0x0A])"

section \<open>Web metadata\<close>

definition opt_pair :: "string \<Rightarrow> string \<Rightarrow> json_object" where
  "opt_pair key text = (let v = strings_TrimSpace text in if v = [] then [] else [(key, JsonString v)])"

definition string_map :: "(string \<times> string) list \<Rightarrow> json" where
  "string_map m = JsonObject (sort_key fst (map (\<lambda>(k, v). (k, JsonString v)) m))"

text \<open>A marshalled map has its keys in order; here the map is empty or written out.\<close>

definition marshal_map :: "Decoder \<Rightarrow> json_object \<Rightarrow> string" where
  "marshal_map dc payload = (if payload = [] then [] else jd_text dc (JsonObject (sort_key fst payload)))"

definition sarifWebEvidence :: "Decoder \<Rightarrow> sarifResult \<Rightarrow> sarifLocation option \<Rightarrow> string" where
  "sarifWebEvidence dc result loc = marshal_map dc
     ((case ss_WebRequest result of None \<Rightarrow> [] | Some req \<Rightarrow>
         opt_pair ''method'' (sw_Method req) @ opt_pair ''target'' (sw_Target req) @
         (if sw_Headers req \<noteq> [] then [(''request_headers'', string_map (sw_Headers req))] else [])) @
      (case ss_WebResponse result of None \<Rightarrow> [] | Some res \<Rightarrow>
         (if sb_StatusCode res > 0 then [(''status_code'', JsonInt (sb_StatusCode res))] else []) @
         (if sb_Headers res \<noteq> [] then [(''response_headers'', string_map (sb_Headers res))] else []) @
         (if sb_NoResponseReceived res then [(''no_response_received'', JsonBool True)] else [])) @
      (case loc of None \<Rightarrow> [] | Some loc \<Rightarrow>
         opt_pair ''attack'' (sx_Attack (sc_Properties loc)) @ opt_pair ''evidence'' (sx_Evidence (sc_Properties loc)) @
         opt_pair ''parameter'' (sx_Parameter (sc_Properties loc))))"

definition applySARIFWebMetadata :: "Decoder \<Rightarrow> sarifResult \<Rightarrow> sarifLocation option \<Rightarrow> Finding \<Rightarrow> Finding" where
  "applySARIFWebMetadata dc result loc f =
     (let f = (case ss_WebRequest result of None \<Rightarrow> f | Some req \<Rightarrow>
            set_text (strings_TrimSpace (sw_Method req)) (\<lambda>v. f_HTTPMethod_update (\<lambda>_. Some v))
              (set_text (strings_TrimSpace (sw_Target req)) (\<lambda>v. f_URL_update (\<lambda>_. Some v)) f));
          f = (case loc of None \<Rightarrow> f | Some loc \<Rightarrow>
            set_text (strings_TrimSpace (sx_Parameter (sc_Properties loc))) (\<lambda>v. f_HTTPParam_update (\<lambda>_. Some v)) f)
      in set_text (sarifWebEvidence dc result loc) (\<lambda>v. f_HTTPEvidence_update (\<lambda>_. v)) f)"

section \<open>The findings of a report\<close>

text \<open>
  The secret of a finding is known by its fingerprint: the first fingerprint of the result whose name speaks
  of a secret or a value (in the order of a map walk), or the rule, commit and file.
\<close>

definition partial_secret :: "Decoder \<Rightarrow> (string \<times> string) list \<Rightarrow> string" where
  "partial_secret dc prints =
     (case filter (\<lambda>(k, _). strings_Contains (strings_ToLower k) ''secret'' \<or> strings_Contains (strings_ToLower k) ''value'')
         (jd_walk dc (map (\<lambda>(k, v). (k, JsonString v)) prints)) of
        (_, JsonString v) # _ \<Rightarrow> v | _ \<Rightarrow> [])"

definition secret_metadata :: "Decoder \<Rightarrow> sarifResult \<Rightarrow> Finding \<Rightarrow> Finding" where
  "secret_metadata dc result f =
     (let ruleIDStr = (case f_RuleID f of None \<Rightarrow> [] | Some r \<Rightarrow> r);
          commitStr = (case f_CommitSHA f of None \<Rightarrow> [] | Some c \<Rightarrow> c);
          fpVal = partial_secret dc (ss_PartialFingerprints result);
          fpVal = (if fpVal = [] then ruleIDStr @ '':'' @ commitStr @ '':'' @ f_FilePath f else fpVal)
      in f\<lparr>f_SecretFingerprint := Some (ComputeSecretFingerprint (jd_hash dc) ruleIDStr fpVal), f_SecretKind := f_RuleID f\<rparr>)"

definition sarif_base :: "Decoder \<Rightarrow> string list \<Rightarrow> string \<Rightarrow> sarifRule \<Rightarrow> sarifResult \<Rightarrow> Finding" where
  "sarif_base dc guids sourceName rule result =
     (let loc = firstSARIFLocation result;
          title = firstNonEmpty [strings_TrimSpace (sr_Name rule), strings_TrimSpace (sm_Text (sr_ShortDescription rule)),
            strings_TrimSpace (sm_Text (ss_Message result)), strings_TrimSpace (ss_RuleID result)];
          level = firstNonEmpty [strings_TrimSpace (ss_Level result), strings_TrimSpace (sr_DefaultConfig_Level rule),
            strings_TrimSpace (sp_Problem_Severity (sr_Properties rule))];
          (filePath, lineStart, lineEnd) = extractPrimaryLocation loc result
      in Finding_zero\<lparr>
           f_Kind := KindOther, f_Title := title, f_Description := buildSARIFDescription rule result loc title,
           f_Severity := mapSARIFSeverity level (parseSARIFSecuritySeverity dc (sp_SecuritySeverity (sr_Properties rule))),
           f_Confidence := mapSARIFConfidence (firstNonEmpty [strings_TrimSpace (sp_Confidence (sr_Properties rule)),
             strings_TrimSpace (sp_Precision (sr_Properties rule))]) level,
           f_Status := StatusOpen, f_FilePath := filePath, f_LineStart := lineStart, f_LineEnd := lineEnd,
           f_CVEIDs := extractCVEs result rule, f_CWEIDs := extractAllCWEIDs rule guids, f_SourceType := sourceName\<rparr>)"

definition sarif_finding :: "Decoder \<Rightarrow> sarifRun \<Rightarrow> sarifResult \<Rightarrow> Finding" where
  "sarif_finding dc run result =
     (let rule = resolveSARIFRule result (sd_Rules (su_Driver run));
          loc = firstSARIFLocation result;
          f = sarif_base dc (buildCWETaxonomyGUIDSet run) (strings_TrimSpace (sd_Name (su_Driver run))) rule result;
          f = f\<lparr>f_RuleID := emptyToNil (firstNonEmpty [ss_RuleID result, sr_ID rule]),
                f_RuleName := emptyToNil (firstNonEmpty [sr_Name rule, sm_Text (sr_ShortDescription rule)])\<rparr>;
          f = set_text (extractBestSnippet loc) (\<lambda>v. f_CodeSnippet_update (\<lambda>_. Some v)) f;
          f = applySARIFPackageMetadata dc (sr_Properties rule) f;
          f = applySARIFPackageMetadata dc (ss_Properties result) f;
          f = applySARIFWebMetadata dc result loc f;
          f = f\<lparr>f_Kind := ResolveKind (Some f) []\<rparr>;
          f = (if f_Kind f = KindSecrets then secret_metadata dc result f else f)
      in fingerprinted dc f)"

definition isSARIFReport :: "string \<Rightarrow> string \<Rightarrow> bool" where
  "isSARIFReport schema version \<longleftrightarrow>
     strings_Contains (strings_ToLower (strings_TrimSpace schema)) ''sarif'' \<or> strings_TrimSpace version = ''2.1.0''"

definition SARIFParser_CanParse :: "Decoder \<Rightarrow> string \<Rightarrow> bool" where
  "SARIFParser_CanParse dc data =
     (case do { j \<leftarrow> jd_parse dc data; obj \<leftarrow> dec_struct (Some j); s \<leftarrow> dec_string (json_field obj ''$schema'');
                v \<leftarrow> dec_string (json_field obj ''version''); Some (s, v) } of
        None \<Rightarrow> False | Some (s, v) \<Rightarrow> isSARIFReport s v)"

definition decode_report :: "Decoder \<Rightarrow> string \<Rightarrow> sarifReport option" where
  "decode_report dc data = Option.bind (jd_parse dc data) (decode_sarifReport \<circ> Some)"

definition SARIFParser_Parse :: "Decoder \<Rightarrow> string \<Rightarrow> string + Finding list" where
  "SARIFParser_Parse dc data =
     (case decode_report dc data of
        None \<Rightarrow> Inl ''parser.SARIFParser.Parse: unmarshal''
      | Some report \<Rightarrow> Inr [sarif_finding dc run result. run \<leftarrow> sarif_Runs report, result \<leftarrow> su_Results run])"

definition SARIFParser :: "Decoder \<Rightarrow> Parser" where
  "SARIFParser dc = \<lparr>CanParse = SARIFParser_CanParse dc, Parse = SARIFParser_Parse dc\<rparr>"

section \<open>The promise of the interface\<close>

text \<open>What the steps after the first leave alone.\<close>

definition same_ranges :: "Finding \<Rightarrow> Finding \<Rightarrow> bool" where
  "same_ranges f g \<longleftrightarrow> f_Severity g = f_Severity f \<and> f_Confidence g = f_Confidence f \<and> f_Status g = f_Status f \<and>
     f_Kind g = f_Kind f"

lemma same_ranges_trans: "same_ranges f g \<Longrightarrow> same_ranges g h \<Longrightarrow> same_ranges f h"
  by (simp add: same_ranges_def)

lemma same_ranges_in: "same_ranges f g \<Longrightarrow> in_ranges f \<Longrightarrow> in_ranges g"
  by (simp add: same_ranges_def in_ranges_def)

lemma same_ranges_updates [simp]:
  "same_ranges f (f_Purl_update u g) = same_ranges f g" "same_ranges f (f_Component_update u2 g) = same_ranges f g"
  "same_ranges f (f_ComponentVersion_update u2 g) = same_ranges f g" "same_ranges f (f_FixedVersion_update u g) = same_ranges f g"
  "same_ranges f (f_PackageEcosystem_update u g) = same_ranges f g" "same_ranges f (f_HTTPMethod_update u g) = same_ranges f g"
  "same_ranges f (f_URL_update u g) = same_ranges f g" "same_ranges f (f_HTTPParam_update u g) = same_ranges f g"
  "same_ranges f (f_HTTPEvidence_update u2 g) = same_ranges f g" "same_ranges f (f_CodeSnippet_update u g) = same_ranges f g"
  "same_ranges f (f_RuleID_update u g) = same_ranges f g" "same_ranges f (f_RuleName_update u g) = same_ranges f g"
  "same_ranges f f"
  by (simp_all add: same_ranges_def)

lemma same_ranges_set_text [simp]:
  "(\<And>v g. same_ranges f (upd v g) = same_ranges f g) \<Longrightarrow> same_ranges f (set_text v upd g) = same_ranges f g"
  by (simp add: set_text_def)

lemma same_ranges_if [simp]: "same_ranges f (if b then g else h) = (if b then same_ranges f g else same_ranges f h)"
  by simp

lemma applyPURL_ranges [simp]: "same_ranges f (applyPURLMetadata g) = same_ranges f g"
  by (simp add: applyPURLMetadata_def Let_def split: option.splits prod.splits)

lemma package_ranges [simp]: "same_ranges f (applySARIFPackageMetadata dc props g) = same_ranges f g"
  by (simp add: applySARIFPackageMetadata_def Let_def)

lemma web_ranges [simp]: "same_ranges f (applySARIFWebMetadata dc result loc g) = same_ranges f g"
  by (simp add: applySARIFWebMetadata_def Let_def split: option.splits)

lemma secret_ranges: "same_ranges f (secret_metadata dc result g) = same_ranges f g"
  by (simp add: same_ranges_def secret_metadata_def Let_def)

lemma sarif_base_ranges: "in_ranges (sarif_base dc guids sourceName rule result)"
proof -
  have "level_severity l \<in> {0..3}" for l by (simp add: level_severity_def Let_def)
  then have "mapSARIFSeverity l x \<in> {0..4}" for l x
    by (auto simp: mapSARIFSeverity_def split: option.splits) (smt (verit))+
  moreover have "mapSARIFConfidence e l \<in> {0..3}" for e l by (simp add: mapSARIFConfidence_def Let_def)
  ultimately show ?thesis by (simp add: sarif_base_def in_ranges_def Let_def split: prod.splits)
qed

lemma ResolveKind_default: "KindSCA \<le> ResolveKind fo [] \<and> ResolveKind fo [] \<le> KindOther"
  by (rule ResolveKind_range) simp

lemma sarif_finding_ranges: "in_ranges (sarif_finding dc run result)"
proof -
  let ?rule = "resolveSARIFRule result (sd_Rules (su_Driver run))" and ?loc = "firstSARIFLocation result"
  let ?base = "sarif_base dc (buildCWETaxonomyGUIDSet run) (strings_TrimSpace (sd_Name (su_Driver run))) ?rule result"
  define g where "g = applySARIFWebMetadata dc result ?loc (applySARIFPackageMetadata dc (ss_Properties result)
    (applySARIFPackageMetadata dc (sr_Properties ?rule) (set_text (extractBestSnippet ?loc) (\<lambda>v. f_CodeSnippet_update (\<lambda>_. Some v))
      (?base\<lparr>f_RuleID := emptyToNil (firstNonEmpty [ss_RuleID result, sr_ID ?rule]),
        f_RuleName := emptyToNil (firstNonEmpty [sr_Name ?rule, sm_Text (sr_ShortDescription ?rule)])\<rparr>))))"
  have "same_ranges ?base g" by (simp add: g_def)
  then have "in_ranges g" using sarif_base_ranges same_ranges_in by blast
  then have h: "in_ranges (g\<lparr>f_Kind := ResolveKind (Some g) []\<rparr>)" (is "in_ranges ?h")
    using ResolveKind_default [of "Some g"] by (simp add: in_ranges_def)
  then have "in_ranges (secret_metadata dc result ?h)"
    using same_ranges_in secret_ranges same_ranges_updates(13) by blast
  with h have "in_ranges (if f_Kind ?h = KindSecrets then secret_metadata dc result ?h else ?h)"
    by (simp only: if_split simp_thms)
  then show ?thesis unfolding sarif_finding_def Let_def g_def [symmetric] by (simp only: fingerprinted_def in_ranges_fingerprint)
qed

interpretation sarif: parser "SARIFParser dc" "jd_hash dc" for dc
proof
  fix data fs f
  assume "Parse (SARIFParser dc) data = Inr fs" and "f \<in> set fs"
  then obtain run result where f: "f = sarif_finding dc run result"
    by (auto simp: SARIFParser_def SARIFParser_Parse_def split: option.splits)
  show "in_ranges f" unfolding f by (rule sarif_finding_ranges)
  show "keyed_by (jd_hash dc) f" unfolding f by (simp add: sarif_finding_def Let_def)
qed

end
