(* ===== verification/AppScreener.thy ===== *)
theory AppScreener
  imports Sarif
begin

text \<open>
  SARIF reports with the extensions of appScreener (\<open>internal/parser/appscreener.go\<close>): the entries \<open>x-origin\<close>,
  \<open>x-classifications\<close> and \<open>x-severity\<close> of the properties. The HTML sanitizer bluemonday and
  \<open>html.UnescapeString\<close> are arguments.
\<close>

record Sanitizer =
  UGCPolicy_Sanitize :: "string \<Rightarrow> string"
  StrictPolicy_Sanitize :: "string \<Rightarrow> string"
  html_UnescapeString :: "string \<Rightarrow> string"

definition appScreenerSourceType :: string where
  "appScreenerSourceType = ''appscreener''"

section \<open>The extensions\<close>

record appScreenerSCARating =
  ar_Method :: string
  ar_Severity :: string

definition decode_appScreenerSCARating :: "json option \<Rightarrow> appScreenerSCARating option" where
  "decode_appScreenerSCARating j = do {
     obj \<leftarrow> dec_struct j;
     x1 \<leftarrow> dec_string (json_field obj ''method'');
     x2 \<leftarrow> dec_string (json_field obj ''severity'');
     Some \<lparr>ar_Method = x1, ar_Severity = x2\<rparr>
   }"

record appScreenerSCAOrigin =
  ao_ScaID :: string
  ao_Severity :: "int option"
  ao_Description :: string
  ao_CWE :: "string list"
  ao_Rating :: "appScreenerSCARating list"
  ao_Aliases :: "string list"
  ao_VersionEnd :: string
  ao_VersionEndIsIncluding :: bool

definition decode_appScreenerSCAOrigin :: "json option \<Rightarrow> appScreenerSCAOrigin option" where
  "decode_appScreenerSCAOrigin j = do {
     obj \<leftarrow> dec_struct j;
     x1 \<leftarrow> dec_string (json_field obj ''scaId'');
     x2 \<leftarrow> dec_ptr dec_int (json_field obj ''severity'');
     x3 \<leftarrow> dec_string (json_field obj ''description'');
     x4 \<leftarrow> dec_list dec_string (json_field obj ''cwe'');
     x5 \<leftarrow> dec_list decode_appScreenerSCARating (json_field obj ''rating'');
     x6 \<leftarrow> dec_list dec_string (json_field obj ''aliases'');
     x7 \<leftarrow> dec_string (json_field obj ''versionEnd'');
     x8 \<leftarrow> dec_bool (json_field obj ''versionEndIsIncluding'');
     Some \<lparr>ao_ScaID = x1, ao_Severity = x2, ao_Description = x3, ao_CWE = x4, ao_Rating = x5,
       ao_Aliases = x6, ao_VersionEnd = x7, ao_VersionEndIsIncluding = x8\<rparr>
   }"

definition appScreenerSCAOrigin_zero :: appScreenerSCAOrigin where
  "appScreenerSCAOrigin_zero = the (decode_appScreenerSCAOrigin None)"

definition appScreenerClassifications :: "json option \<Rightarrow> string list option" where
  "appScreenerClassifications j = Option.bind (dec_struct j) (\<lambda>obj. dec_list dec_string (json_field obj ''cwe''))"

text \<open>The component is decoded as far as it goes: what does not fit leaves its field empty.\<close>

record appScreenerComponentOrigin =
  ac_Name :: string
  ac_Version :: string
  ac_Purl :: string
  ac_CPE :: string
  ac_Type :: string

definition component_text :: "json option \<Rightarrow> string \<Rightarrow> string" where
  "component_text j name = (case j of
     Some (JsonObject obj) \<Rightarrow> (case dec_string (json_field obj name) of Some s \<Rightarrow> s | None \<Rightarrow> []) | _ \<Rightarrow> [])"

definition decode_component :: "json option \<Rightarrow> appScreenerComponentOrigin" where
  "decode_component j = \<lparr>ac_Name = component_text j ''name'', ac_Version = component_text j ''version'',
     ac_Purl = component_text j ''purl'', ac_CPE = component_text j ''cpe'', ac_Type = component_text j ''type''\<rparr>"

definition appScreenerResultOrigin :: "sarifResult \<Rightarrow> appScreenerSCAOrigin option" where
  "appScreenerResultOrigin result =
     (case json_entry (sp_Raw (ss_Properties result)) ''x-origin'' of
        None \<Rightarrow> None
      | Some raw \<Rightarrow> if raw = JsonNull then None else decode_appScreenerSCAOrigin (Some raw))"

definition appScreenerComponent :: "sarifResult \<Rightarrow> appScreenerComponentOrigin" where
  "appScreenerComponent result =
     (case firstSARIFLocation result of
        None \<Rightarrow> decode_component None
      | Some loc \<Rightarrow>
          (case sc_LogicalLocations loc of
             [] \<Rightarrow> decode_component None
           | logical # _ \<Rightarrow>
               let component = decode_component (json_entry (sp_Raw (sv_Properties logical)) ''x-origin'') in
               if strings_TrimSpace (ac_Name component) = [] then component\<lparr>ac_Name := sv_Name logical\<rparr> else component))"

definition parseAppScreenerCWEIDs :: "string list \<Rightarrow> int list" where
  "parseAppScreenerCWEIDs values = sorted_set (List.map_filter (\<lambda>v.
     Option.bind (strconv_Atoi (strings_TrimPrefix (strings_ToUpper (strings_TrimSpace v)) ''CWE-''))
       (\<lambda>i. if i \<le> 0 then None else Some i)) values)"

definition appScreenerRuleCWEIDs :: "sarifRule \<Rightarrow> int list" where
  "appScreenerRuleCWEIDs rule =
     (case json_entry (sp_Raw (sr_Properties rule)) ''x-classifications'' of
        None \<Rightarrow> []
      | Some raw \<Rightarrow> (case appScreenerClassifications (Some raw) of None \<Rightarrow> [] | Some cwe \<Rightarrow> parseAppScreenerCWEIDs cwe))"

section \<open>Severity\<close>

definition appScreenerSeverityText :: "string \<Rightarrow> int option" where
  "appScreenerSeverityText v =
     (let s = strings_ToLower (strings_TrimSpace v) in
      if s = ''critical'' then Some SeverityCritical else if s = ''high'' then Some SeverityHigh
      else if s \<in> {''medium'', ''moderate''} then Some SeverityMedium else if s = ''low'' then Some SeverityLow
      else if s \<in> {''info'', ''informational'', ''none''} then Some SeverityInfo else None)"

definition appScreenerSeverityFromRaw :: "json option \<Rightarrow> int option" where
  "appScreenerSeverityFromRaw raw =
     (if raw = None then None
      else case dec_int raw of
        Some n \<Rightarrow> Some (clampInt n SeverityInfo SeverityCritical)
      | None \<Rightarrow>
          (case dec_string raw of
             None \<Rightarrow> None
           | Some s \<Rightarrow> map_option (\<lambda>n. clampInt n SeverityInfo SeverityCritical) (strconv_Atoi (strings_TrimSpace s))))"

definition appScreenerLevelSeverity :: "string \<Rightarrow> int" where
  "appScreenerLevelSeverity level =
     (let s = strings_ToLower (strings_TrimSpace level) in
      if s = ''error'' then SeverityHigh else if s = ''warning'' then SeverityMedium else if s = ''note'' then SeverityLow
      else SeverityInfo)"

text \<open>The rating of the newest method that has one, then any rating.\<close>

fun first_rating :: "appScreenerSCARating list \<Rightarrow> int option" where
  "first_rating [] = None"
| "first_rating (rating # ratings) =
     (case appScreenerSeverityText (ar_Severity rating) of Some s \<Rightarrow> Some s | None \<Rightarrow> first_rating ratings)"

definition rated_by :: "string \<Rightarrow> appScreenerSCARating \<Rightarrow> bool" where
  "rated_by method rating \<longleftrightarrow> strings_Contains (strings_ToLower (strings_TrimSpace (ar_Method rating))) method"

definition appScreenerRatingSeverity :: "appScreenerSCARating list \<Rightarrow> int option" where
  "appScreenerRatingSeverity ratings =
     first_rating (concat (map (\<lambda>method. filter (rated_by method) ratings) [''cvssv4'', ''cvssv3.1'', ''cvssv3'', ''cvssv2'']) @ ratings)"

definition appScreenerSASTSeverity :: "sarifResult \<Rightarrow> sarifLocation option \<Rightarrow> string \<Rightarrow> int" where
  "appScreenerSASTSeverity result loc level =
     (case Option.bind loc (\<lambda>loc. appScreenerSeverityFromRaw (json_entry (sx_Raw (sc_Properties loc)) ''x-severity'')) of
        Some severity \<Rightarrow> severity
      | None \<Rightarrow>
          (case appScreenerSeverityFromRaw (json_entry (sp_Raw (ss_Properties result)) ''x-severity'') of
             Some severity \<Rightarrow> severity
           | None \<Rightarrow> appScreenerLevelSeverity level))"

definition appScreenerSCASeverity :: "appScreenerSCAOrigin \<Rightarrow> string \<Rightarrow> int" where
  "appScreenerSCASeverity origin level =
     (case appScreenerRatingSeverity (ao_Rating origin) of
        Some severity \<Rightarrow> severity
      | None \<Rightarrow> (case ao_Severity origin of
           Some n \<Rightarrow> clampInt n SeverityInfo SeverityCritical | None \<Rightarrow> appScreenerLevelSeverity level))"

section \<open>The findings\<close>

definition appScreenerCVEs :: "appScreenerSCAOrigin \<Rightarrow> string list" where
  "appScreenerCVEs origin = sorted_set (map strings_ToUpper (concat (map (find_all cveRegex) (ao_ScaID origin # ao_Aliases origin))))"

definition appScreenerPackageEcosystem :: "appScreenerComponentOrigin \<Rightarrow> string option" where
  "appScreenerPackageEcosystem component =
     (let purl = strings_TrimSpace (ac_Purl component);
          ecosystem = (if purl = [] then [] else fst (parsePURLMetadata purl));
          componentType = strings_TrimSpace (ac_Type component)
      in if ecosystem \<noteq> [] then Some ecosystem else if componentType \<noteq> [] then Some componentType else None)"

definition appScreenerFixedVersion :: "appScreenerSCAOrigin \<Rightarrow> string option" where
  "appScreenerFixedVersion origin =
     (let version = strings_TrimSpace (ao_VersionEnd origin) in
      if version = [] \<or> ao_VersionEndIsIncluding origin then None else Some version)"

definition buildAppScreenerSCATitle :: "appScreenerSCAOrigin \<Rightarrow> appScreenerComponentOrigin \<Rightarrow> string" where
  "buildAppScreenerSCATitle origin component =
     (let scaID = strings_TrimSpace (ao_ScaID origin);
          componentText = strings_TrimSpace (strings_Join [strings_TrimSpace (ac_Name component), strings_TrimSpace (ac_Version component)] '' '')
      in if scaID \<noteq> [] \<and> componentText \<noteq> [] then scaID @ '': '' @ componentText
         else if scaID \<noteq> [] then scaID
         else if componentText \<noteq> [] then ''Vulnerability in '' @ componentText
         else ''appScreener SCA finding'')"

definition sanitizeAppScreenerDescription :: "Sanitizer \<Rightarrow> string \<Rightarrow> string" where
  "sanitizeAppScreenerDescription policy raw =
     (let sanitized = strings_TrimSpace (UGCPolicy_Sanitize policy raw) in
      if sanitized = [] then []
      else html_UnescapeString policy (strings_TrimSpace (StrictPolicy_Sanitize policy sanitized)))"

definition buildAppScreenerSASTFinding :: "Sanitizer \<Rightarrow> sarifResult \<Rightarrow> sarifRule \<Rightarrow> Finding" where
  "buildAppScreenerSASTFinding policy result rule =
     (let loc = firstSARIFLocation result;
          (filePath, lineStart, lineEnd) = extractPrimaryLocation loc result;
          title = firstNonEmpty [strings_TrimSpace (sr_Name rule), strings_TrimSpace (sm_Text (ss_Message result)),
            strings_TrimSpace (ss_RuleID result), ''appScreener SAST finding''];
          level = firstNonEmpty [strings_TrimSpace (ss_Level result), strings_TrimSpace (sr_DefaultConfig_Level rule)];
          f = Finding_zero\<lparr>
            f_Kind := KindSAST, f_Title := title,
            f_Description := sanitizeAppScreenerDescription policy (sm_Text (sr_FullDescription rule)),
            f_Severity := appScreenerSASTSeverity result loc level, f_Confidence := mapSARIFConfidence [] level,
            f_Status := StatusOpen, f_FilePath := filePath, f_LineStart := lineStart, f_LineEnd := lineEnd, f_CVEIDs := [],
            f_CWEIDs := appScreenerRuleCWEIDs rule, f_SourceType := appScreenerSourceType,
            f_RuleID := emptyToNil (firstNonEmpty [strings_TrimSpace (ss_RuleID result), strings_TrimSpace (sr_ID rule)]),
            f_RuleName := emptyToNil (strings_TrimSpace (sr_Name rule))\<rparr>
      in set_text (extractBestSnippet loc) (\<lambda>v. f_CodeSnippet_update (\<lambda>_. Some v)) f)"

definition buildAppScreenerSCAFinding :: "Sanitizer \<Rightarrow> sarifResult \<Rightarrow> appScreenerSCAOrigin \<Rightarrow> Finding" where
  "buildAppScreenerSCAFinding policy result origin =
     (let component = appScreenerComponent result; level = strings_TrimSpace (ss_Level result)
      in applyPURLMetadata (Finding_zero\<lparr>
           f_Kind := KindSCA, f_Title := buildAppScreenerSCATitle origin component,
           f_Description := sanitizeAppScreenerDescription policy (ao_Description origin),
           f_Severity := appScreenerSCASeverity origin level, f_Confidence := mapSARIFConfidence [] level,
           f_Status := StatusOpen, f_Component := strings_TrimSpace (ac_Name component),
           f_ComponentVersion := strings_TrimSpace (ac_Version component), f_CVEIDs := appScreenerCVEs origin,
           f_CWEIDs := parseAppScreenerCWEIDs (ao_CWE origin), f_CPEURI := strings_TrimSpace (ac_CPE component),
           f_FixedVersion := appScreenerFixedVersion origin, f_PackageEcosystem := appScreenerPackageEcosystem component,
           f_Purl := emptyToNil (ac_Purl component), f_SourceType := appScreenerSourceType,
           f_RuleID := emptyToNil (strings_TrimSpace (ss_RuleID result))\<rparr>))"

definition appscreener_finding :: "Decoder \<Rightarrow> Sanitizer \<Rightarrow> sarifRun \<Rightarrow> sarifResult \<Rightarrow> Finding" where
  "appscreener_finding dc policy run result =
     (let origin = appScreenerResultOrigin result;
          rule = (case rule_by_id (sd_Rules (su_Driver run)) (strings_TrimSpace (ss_RuleID result)) of
             Some rule \<Rightarrow> rule | None \<Rightarrow> sarifRule_zero)
      in fingerprinted dc
           (if origin \<noteq> None \<or> strings_EqualFold (strings_TrimSpace (ss_RuleID result)) ''SCA''
            then buildAppScreenerSCAFinding policy result (case origin of Some or_ \<Rightarrow> or_ | None \<Rightarrow> appScreenerSCAOrigin_zero)
            else buildAppScreenerSASTFinding policy result rule))"

section \<open>The parser\<close>

definition normalizeAppScreenerIdentity :: "string \<Rightarrow> string" where
  "normalizeAppScreenerIdentity v = strings_ToLower (strings_Join (strings_Fields (strings_TrimSpace v)) '' '')"

definition isAppScreenerDriver :: "sarifDriver \<Rightarrow> bool" where
  "isAppScreenerDriver driver \<longleftrightarrow>
     (let name = normalizeAppScreenerIdentity (sd_Name driver); product = normalizeAppScreenerIdentity (sd_Product driver);
          org = normalizeAppScreenerIdentity (sd_Organization driver); fullName = normalizeAppScreenerIdentity (sd_FullName driver)
      in name = appScreenerSourceType \<or> product = appScreenerSourceType \<or>
         strings_Contains org appScreenerSourceType \<or> strings_Contains fullName appScreenerSourceType \<or>
         strings_Contains org (''solar '' @ appScreenerSourceType) \<or> strings_Contains fullName (''solar '' @ appScreenerSourceType))"

definition AppScreenerParser_CanParse :: "Decoder \<Rightarrow> string \<Rightarrow> bool" where
  "AppScreenerParser_CanParse dc data =
     (case decode_report dc data of
        None \<Rightarrow> False
      | Some report \<Rightarrow>
          if \<not> isSARIFReport (sarif_Schema report) (sarif_Version report) then False
          else case sarif_Runs report of [] \<Rightarrow> False | run # _ \<Rightarrow> isAppScreenerDriver (su_Driver run))"

definition AppScreenerParser_Parse :: "Decoder \<Rightarrow> Sanitizer \<Rightarrow> string \<Rightarrow> string + Finding list" where
  "AppScreenerParser_Parse dc policy data =
     (case decode_report dc data of
        None \<Rightarrow> Inl ''parser.AppScreenerParser.Parse: unmarshal''
      | Some report \<Rightarrow> Inr [appscreener_finding dc policy run result. run \<leftarrow> sarif_Runs report, result \<leftarrow> su_Results run])"

definition AppScreenerParser :: "Decoder \<Rightarrow> Sanitizer \<Rightarrow> Parser" where
  "AppScreenerParser dc policy = \<lparr>CanParse = AppScreenerParser_CanParse dc, Parse = AppScreenerParser_Parse dc policy\<rparr>"

section \<open>The promise of the interface\<close>

lemma appScreenerSeverity_ranges:
  "appScreenerSeverityText v = Some n \<Longrightarrow> 0 \<le> n \<and> n \<le> 4" "appScreenerSeverityFromRaw raw = Some n \<Longrightarrow> 0 \<le> n \<and> n \<le> 4"
  "0 \<le> appScreenerLevelSeverity level \<and> appScreenerLevelSeverity level \<le> 4"
  by (auto simp: appScreenerSeverityText_def appScreenerSeverityFromRaw_def appScreenerLevelSeverity_def clampInt_def Let_def
      split: if_splits option.splits)

lemma first_rating_range: "first_rating rs = Some n \<Longrightarrow> 0 \<le> n \<and> n \<le> 4"
  by (induction rs) (auto dest: appScreenerSeverity_ranges(1,2) split: option.splits)

lemma appScreenerSASTSeverity_range: "0 \<le> appScreenerSASTSeverity result loc level \<and> appScreenerSASTSeverity result loc level \<le> 4"
  using appScreenerSeverity_ranges(3)
  by (auto simp: appScreenerSASTSeverity_def bind_eq_Some_conv dest: appScreenerSeverity_ranges(1,2) split: option.splits)

lemma appScreenerSCASeverity_range: "0 \<le> appScreenerSCASeverity origin level \<and> appScreenerSCASeverity origin level \<le> 4"
  using appScreenerSeverity_ranges(3)
  by (auto simp: appScreenerSCASeverity_def appScreenerRatingSeverity_def clampInt_def dest: first_rating_range split: option.splits)

lemma mapSARIFConfidence_range: "0 \<le> mapSARIFConfidence e l \<and> mapSARIFConfidence e l \<le> 3"
  by (simp add: mapSARIFConfidence_def Let_def)

lemma sast_in_ranges: "in_ranges (buildAppScreenerSASTFinding policy result rule)"
proof -
  obtain p s e where loc: "extractPrimaryLocation (firstSARIFLocation result) result = (p, s, e)" by (cases rule: prod_cases3)
  show ?thesis unfolding buildAppScreenerSASTFinding_def loc Let_def prod.case
    using appScreenerSASTSeverity_range mapSARIFConfidence_range by (simp add: set_text_def in_ranges_def)
qed

lemma sca_in_ranges: "in_ranges (buildAppScreenerSCAFinding policy result origin)"
proof -
  define f where "f = Finding_zero\<lparr>
           f_Kind := KindSCA, f_Title := buildAppScreenerSCATitle origin (appScreenerComponent result),
           f_Description := sanitizeAppScreenerDescription policy (ao_Description origin),
           f_Severity := appScreenerSCASeverity origin (strings_TrimSpace (ss_Level result)),
           f_Confidence := mapSARIFConfidence [] (strings_TrimSpace (ss_Level result)), f_Status := StatusOpen\<rparr>"
  have "in_ranges f" unfolding f_def using appScreenerSCASeverity_range mapSARIFConfidence_range by (simp add: in_ranges_def)
  moreover have "same_ranges f (buildAppScreenerSCAFinding policy result origin)"
    by (simp add: buildAppScreenerSCAFinding_def Let_def f_def same_ranges_def [of _ "Finding_zero\<lparr>f_Kind := _\<rparr>"])
      (simp add: same_ranges_def)
  ultimately show ?thesis by (rule same_ranges_in [rotated])
qed

lemma appscreener_in_ranges: "in_ranges (appscreener_finding dc policy run result)"
  using sast_in_ranges sca_in_ranges by (simp add: appscreener_finding_def Let_def fingerprinted_def in_ranges_fingerprint)

interpretation appscreener: parser "AppScreenerParser dc policy" "jd_hash dc" for dc policy
proof
  fix data fs f
  assume "Parse (AppScreenerParser dc policy) data = Inr fs" and "f \<in> set fs"
  then obtain run result where f: "f = appscreener_finding dc policy run result"
    by (auto simp: AppScreenerParser_def AppScreenerParser_Parse_def split: option.splits)
  show "in_ranges f" unfolding f by (rule appscreener_in_ranges)
  show "keyed_by (jd_hash dc) f" unfolding f by (simp add: appscreener_finding_def Let_def)
qed

end
