(* ===== verification/ScaReports.thy ===== *)
theory ScaReports
  imports ParserBase
begin

text \<open>
  Reports on packages: \<open>internal/parser/trivy.go\<close>, with misconfigurations and secrets beside the
  vulnerabilities, and \<open>grype.go\<close>. Structs are records with their decoders; anonymous structs are flattened
  into the struct that holds them.
\<close>

section \<open>Trivy\<close>

record trivyPkgIdentifier =
  tp_PURL :: string
  tp_UID :: string
  tp_BOMRef :: string

definition decode_trivyPkgIdentifier :: "json option \<Rightarrow> trivyPkgIdentifier option" where
  "decode_trivyPkgIdentifier j = do {
     obj \<leftarrow> dec_struct j;
     x1 \<leftarrow> dec_string (json_field obj ''PURL'');
     x2 \<leftarrow> dec_string (json_field obj ''UID'');
     x3 \<leftarrow> dec_string (json_field obj ''BOMRef'');
     Some \<lparr>tp_PURL = x1, tp_UID = x2, tp_BOMRef = x3\<rparr>
   }"

record trivyVulnerabilitySource =
  td_ID :: string
  td_Name :: string
  td_URL :: string

definition decode_trivyVulnerabilitySource :: "json option \<Rightarrow> trivyVulnerabilitySource option" where
  "decode_trivyVulnerabilitySource j = do {
     obj \<leftarrow> dec_struct j;
     x1 \<leftarrow> dec_string (json_field obj ''ID'');
     x2 \<leftarrow> dec_string (json_field obj ''Name'');
     x3 \<leftarrow> dec_string (json_field obj ''URL'');
     Some \<lparr>td_ID = x1, td_Name = x2, td_URL = x3\<rparr>
   }"

record trivyVulnerability =
  tv_VulnerabilityID :: string
  tv_PkgName :: string
  tv_InstalledVersion :: string
  tv_FixedVersion :: string
  tv_Title :: string
  tv_Description :: string
  tv_Severity :: string
  tv_CweIDs :: "string list"
  tv_PrimaryURL :: string
  tv_Status :: string
  tv_PkgPath :: string
  tv_PkgIdentifier :: trivyPkgIdentifier
  tv_DataSource :: trivyVulnerabilitySource

definition decode_trivyVulnerability :: "json option \<Rightarrow> trivyVulnerability option" where
  "decode_trivyVulnerability j = do {
     obj \<leftarrow> dec_struct j;
     x1 \<leftarrow> dec_string (json_field obj ''VulnerabilityID'');
     x2 \<leftarrow> dec_string (json_field obj ''PkgName'');
     x3 \<leftarrow> dec_string (json_field obj ''InstalledVersion'');
     x4 \<leftarrow> dec_string (json_field obj ''FixedVersion'');
     x5 \<leftarrow> dec_string (json_field obj ''Title'');
     x6 \<leftarrow> dec_string (json_field obj ''Description'');
     x7 \<leftarrow> dec_string (json_field obj ''Severity'');
     x8 \<leftarrow> dec_list dec_string (json_field obj ''CweIDs'');
     x9 \<leftarrow> dec_string (json_field obj ''PrimaryURL'');
     x10 \<leftarrow> dec_string (json_field obj ''Status'');
     x11 \<leftarrow> dec_string (json_field obj ''PkgPath'');
     x12 \<leftarrow> decode_trivyPkgIdentifier (json_field obj ''PkgIdentifier'');
     x13 \<leftarrow> decode_trivyVulnerabilitySource (json_field obj ''DataSource'');
     Some \<lparr>tv_VulnerabilityID = x1, tv_PkgName = x2, tv_InstalledVersion = x3, tv_FixedVersion = x4,
       tv_Title = x5, tv_Description = x6, tv_Severity = x7, tv_CweIDs = x8, tv_PrimaryURL = x9,
       tv_Status = x10, tv_PkgPath = x11, tv_PkgIdentifier = x12, tv_DataSource = x13\<rparr>
   }"

record trivyMisconfiguration =
  tm_ID :: string
  tm_Title :: string
  tm_Description :: string
  tm_Severity :: string
  tm_Resource :: string
  tm_Message :: string
  tm_Resolution :: string

definition decode_trivyMisconfiguration :: "json option \<Rightarrow> trivyMisconfiguration option" where
  "decode_trivyMisconfiguration j = do {
     obj \<leftarrow> dec_struct j;
     x1 \<leftarrow> dec_string (json_field obj ''ID'');
     x2 \<leftarrow> dec_string (json_field obj ''Title'');
     x3 \<leftarrow> dec_string (json_field obj ''Description'');
     x4 \<leftarrow> dec_string (json_field obj ''Severity'');
     x5 \<leftarrow> dec_string (json_field obj ''Resource'');
     x6 \<leftarrow> dec_string (json_field obj ''Message'');
     x7 \<leftarrow> dec_string (json_field obj ''Resolution'');
     Some \<lparr>tm_ID = x1, tm_Title = x2, tm_Description = x3, tm_Severity = x4, tm_Resource = x5,
       tm_Message = x6, tm_Resolution = x7\<rparr>
   }"

record trivySecret =
  ts_RuleID :: string
  ts_Title :: string
  ts_Severity :: string
  ts_StartLine :: int
  ts_EndLine :: int

definition decode_trivySecret :: "json option \<Rightarrow> trivySecret option" where
  "decode_trivySecret j = do {
     obj \<leftarrow> dec_struct j;
     x1 \<leftarrow> dec_string (json_field obj ''RuleID'');
     x2 \<leftarrow> dec_string (json_field obj ''Title'');
     x3 \<leftarrow> dec_string (json_field obj ''Severity'');
     x4 \<leftarrow> dec_int (json_field obj ''StartLine'');
     x5 \<leftarrow> dec_int (json_field obj ''EndLine'');
     Some \<lparr>ts_RuleID = x1, ts_Title = x2, ts_Severity = x3, ts_StartLine = x4, ts_EndLine = x5\<rparr>
   }"

record trivyResult =
  tr_Target :: string
  tr_Class :: string
  tr_Type :: string
  tr_Vulnerabilities :: "trivyVulnerability list"
  tr_Misconfigurations :: "trivyMisconfiguration list"
  tr_Secrets :: "trivySecret list"

definition decode_trivyResult :: "json option \<Rightarrow> trivyResult option" where
  "decode_trivyResult j = do {
     obj \<leftarrow> dec_struct j;
     x1 \<leftarrow> dec_string (json_field obj ''Target'');
     x2 \<leftarrow> dec_string (json_field obj ''Class'');
     x3 \<leftarrow> dec_string (json_field obj ''Type'');
     x4 \<leftarrow> dec_list decode_trivyVulnerability (json_field obj ''Vulnerabilities'');
     x5 \<leftarrow> dec_list decode_trivyMisconfiguration (json_field obj ''Misconfigurations'');
     x6 \<leftarrow> dec_list decode_trivySecret (json_field obj ''Secrets'');
     Some \<lparr>tr_Target = x1, tr_Class = x2, tr_Type = x3, tr_Vulnerabilities = x4,
       tr_Misconfigurations = x5, tr_Secrets = x6\<rparr>
   }"

record trivyReport =
  ty_SchemaVersion :: int
  ty_ArtifactName :: string
  ty_ArtifactType :: string
  ty_Results :: "trivyResult list"

definition decode_trivyReport :: "json option \<Rightarrow> trivyReport option" where
  "decode_trivyReport j = do {
     obj \<leftarrow> dec_struct j;
     x1 \<leftarrow> dec_int (json_field obj ''SchemaVersion'');
     x2 \<leftarrow> dec_string (json_field obj ''ArtifactName'');
     x3 \<leftarrow> dec_string (json_field obj ''ArtifactType'');
     x4 \<leftarrow> dec_list decode_trivyResult (json_field obj ''Results'');
     Some \<lparr>ty_SchemaVersion = x1, ty_ArtifactName = x2, ty_ArtifactType = x3, ty_Results = x4\<rparr>
   }"

text \<open>What \<open>CanParse\<close> looks for: a version, and a result with one of the three lists, even an empty one.\<close>

definition trivy_listed :: "json option \<Rightarrow> bool option" where
  "trivy_listed j = do {
     obj \<leftarrow> dec_struct j;
     _ \<leftarrow> dec_string (json_field obj ''Target'');
     v \<leftarrow> dec_slice dec_any (json_field obj ''Vulnerabilities'');
     m \<leftarrow> dec_slice dec_any (json_field obj ''Misconfigurations'');
     s \<leftarrow> dec_slice dec_any (json_field obj ''Secrets'');
     Some (v \<noteq> None \<or> m \<noteq> None \<or> s \<noteq> None)
   }"

definition TrivyParser_CanParse :: "Decoder \<Rightarrow> string \<Rightarrow> bool" where
  "TrivyParser_CanParse dc data =
     (case do { j \<leftarrow> jd_parse dc data; obj \<leftarrow> dec_struct (Some j); v \<leftarrow> dec_ptr dec_int (json_field obj ''SchemaVersion'');
                rs \<leftarrow> dec_list trivy_listed (json_field obj ''Results''); Some (v, rs) } of
        None \<Rightarrow> False | Some (v, rs) \<Rightarrow> v \<noteq> None \<and> rs \<noteq> [] \<and> True \<in> set rs)"

definition buildTrivyTitle :: "trivyVulnerability \<Rightarrow> string" where
  "buildTrivyTitle v =
     (let title = strings_TrimSpace (tv_Title v); vulnID = strings_TrimSpace (tv_VulnerabilityID v);
          pkg = strings_TrimSpace (tv_PkgName v) in
      if title \<noteq> [] \<and> vulnID \<noteq> [] \<and> pkg \<noteq> [] then title @ '' ['' @ vulnID @ '' in '' @ pkg @ '']''
      else if title \<noteq> [] \<and> vulnID \<noteq> [] then title @ '' ['' @ vulnID @ '']''
      else if vulnID \<noteq> [] \<and> pkg \<noteq> [] then vulnID @ '' in '' @ pkg
      else if title \<noteq> [] then title
      else if vulnID \<noteq> [] then vulnID
      else if pkg \<noteq> [] then ''Vulnerability in '' @ pkg
      else ''Trivy vulnerability'')"

text \<open>A part that is shown when the text itself is not empty, even if only blanks remain.\<close>

definition part_raw :: "string \<Rightarrow> string \<Rightarrow> string list" where
  "part_raw label txt = (if txt = [] then [] else [label @ strings_TrimSpace txt])"

definition buildTrivyDescription :: "trivyReport \<Rightarrow> trivyResult \<Rightarrow> trivyVulnerability \<Rightarrow> string" where
  "buildTrivyDescription report result v = paragraphs [
     part [] (tv_Description v), part ''Fixed version: '' (tv_FixedVersion v), part ''Status: '' (tv_Status v),
     part_raw ''Target: '' (tr_Target result), part_raw ''Class: '' (tr_Class result), part_raw ''Type: '' (tr_Type result),
     part_raw ''Artifact: '' (ty_ArtifactName report), part_raw ''Artifact type: '' (ty_ArtifactType report),
     part ''PURL: '' (tp_PURL (tv_PkgIdentifier v)), part ''Reference: '' (tv_PrimaryURL v),
     part ''Data source: '' (td_Name (tv_DataSource v)), part ''Data source URL: '' (td_URL (tv_DataSource v))]"

definition buildTrivyFilePath :: "trivyReport \<Rightarrow> trivyResult \<Rightarrow> trivyVulnerability \<Rightarrow> string" where
  "buildTrivyFilePath report result v =
     (let pkgPath = strings_TrimSpace (tv_PkgPath v); target = strings_TrimSpace (tr_Target result) in
      if pkgPath \<noteq> [] then pkgPath else if target \<noteq> [] then target else strings_TrimSpace (ty_ArtifactName report))"

definition buildTrivyVulnIDs :: "trivyVulnerability \<Rightarrow> string list" where
  "buildTrivyVulnIDs v = (let i = strings_TrimSpace (tv_VulnerabilityID v) in if i = [] then [] else [i])"

definition parseTrivyCWEs :: "string list \<Rightarrow> int list" where
  "parseTrivyCWEs cweIDs = List.map_filter (\<lambda>raw.
     let s = strings_TrimPrefix (strings_TrimSpace (strings_ToUpper raw)) ''CWE-'' in
     if s = [] then None else Option.bind (sscanf_d s) (\<lambda>i. if i > 0 then Some i else None)) cweIDs"

definition mapTrivySeverity :: "string \<Rightarrow> int" where
  "mapTrivySeverity severity =
     (let s = strings_ToUpper (strings_TrimSpace severity) in
      if s = ''CRITICAL'' then SeverityCritical else if s = ''HIGH'' then SeverityHigh
      else if s = ''MEDIUM'' then SeverityMedium else if s = ''LOW'' then SeverityLow else SeverityInfo)"

text \<open>How many of some texts are not blank.\<close>

definition not_blank :: "string list \<Rightarrow> nat" where
  "not_blank ts = length (filter (\<lambda>t. strings_TrimSpace t \<noteq> []) ts)"

definition mapTrivyConfidence :: "trivyVulnerability \<Rightarrow> int" where
  "mapTrivyConfidence v =
     (let score = not_blank [tv_VulnerabilityID v, tv_PkgName v, tv_InstalledVersion v] in
      if score \<ge> 3 then 3 else if score = 2 then 2 else if score = 1 then 1 else 0)"

definition calculateTrivyFingerprint :: "(string \<Rightarrow> string) \<Rightarrow> trivyReport \<Rightarrow> trivyResult \<Rightarrow> trivyVulnerability \<Rightarrow> string" where
  "calculateTrivyFingerprint H report result v = H (strings_Join [''trivy'',
     strings_TrimSpace (tv_VulnerabilityID v), strings_TrimSpace (tp_PURL (tv_PkgIdentifier v)),
     strings_TrimSpace (tv_PkgName v), strings_TrimSpace (tv_InstalledVersion v), strings_TrimSpace (tr_Target result),
     strings_TrimSpace (tv_PkgPath v), strings_TrimSpace (ty_ArtifactName report)] ''|'')"

definition purl_ecosystem :: "string \<Rightarrow> string option" where
  "purl_ecosystem purl =
     (let purl = strings_TrimSpace (strings_ToLower purl) in
      if strings_HasPrefix purl ''pkg:'' then
        (case strings_Cut (strings_TrimPrefix purl ''pkg:'') (CHR ''/'') of
           Some (eco, _) \<Rightarrow> if eco = [] then None else Some eco | None \<Rightarrow> None)
      else None)"

definition trivyPackageEcosystem :: "string \<Rightarrow> string \<Rightarrow> string option" where
  "trivyPackageEcosystem purl resultType =
     (case purl_ecosystem purl of
        Some eco \<Rightarrow> Some eco
      | None \<Rightarrow> map_of [(''composer'', ''composer''), (''gomod'', ''go''), (''gem'', ''rubygems''), (''nuget'', ''nuget''),
          (''cargo'', ''cargo'')] (strings_ToLower (strings_TrimSpace resultType)))"

definition trivyIacProvider :: "string \<Rightarrow> string" where
  "trivyIacProvider ruleID =
     (let upper = strings_ToUpper (strings_TrimSpace ruleID) in
      if strings_HasPrefix upper ''AVD-AWS-'' then ''aws'' else if strings_HasPrefix upper ''AVD-GCP-'' then ''gcp''
      else if strings_HasPrefix upper ''AVD-AZURE-'' then ''azure''
      else if strings_HasPrefix upper ''AVD-K8S-'' then ''kubernetes'' else [])"

definition buildTrivyMisconfigDescription :: "trivyResult \<Rightarrow> trivyMisconfiguration \<Rightarrow> string" where
  "buildTrivyMisconfigDescription result m = paragraphs [
     part [] (tm_Description m), part ''Message: '' (tm_Message m), part ''Resolution: '' (tm_Resolution m),
     part ''Resource: '' (tm_Resource m), part ''Target: '' (tr_Target result)]"

text \<open>The findings of a vulnerability, a misconfiguration and a secret. The first has a key of its own.\<close>

definition trivy_vulnerability :: "Decoder \<Rightarrow> trivyReport \<Rightarrow> trivyResult \<Rightarrow> trivyVulnerability \<Rightarrow> Finding" where
  "trivy_vulnerability dc report result v = Finding_zero\<lparr>
     f_Kind := KindSCA, f_Title := buildTrivyTitle v, f_Description := buildTrivyDescription report result v,
     f_Severity := mapTrivySeverity (tv_Severity v), f_Confidence := mapTrivyConfidence v, f_Status := StatusOpen,
     f_FilePath := buildTrivyFilePath report result v, f_Component := strings_TrimSpace (tv_PkgName v),
     f_ComponentVersion := strings_TrimSpace (tv_InstalledVersion v), f_CVEIDs := buildTrivyVulnIDs v,
     f_CWEIDs := parseTrivyCWEs (tv_CweIDs v), f_FixedVersion := emptyToNil (tv_FixedVersion v),
     f_PackageEcosystem := trivyPackageEcosystem (tp_PURL (tv_PkgIdentifier v)) (tr_Type result),
     f_Purl := emptyToNil (tp_PURL (tv_PkgIdentifier v)), f_SourceType := ''trivy'',
     f_Fingerprint := calculateTrivyFingerprint (jd_hash dc) report result v\<rparr>"

definition trivy_misconfiguration :: "Decoder \<Rightarrow> trivyResult \<Rightarrow> trivyMisconfiguration \<Rightarrow> Finding" where
  "trivy_misconfiguration dc result mis = fingerprinted dc (Finding_zero\<lparr>
     f_Kind := KindIaC,
     f_Title := firstNonEmpty [strings_TrimSpace (tm_Title mis), strings_TrimSpace (tm_ID mis), ''Trivy misconfiguration''],
     f_Description := buildTrivyMisconfigDescription result mis, f_Severity := mapTrivySeverity (tm_Severity mis),
     f_Confidence := 2, f_Status := StatusOpen, f_FilePath := strings_TrimSpace (tr_Target result), f_SourceType := ''trivy'',
     f_RuleID := emptyToNil (tm_ID mis), f_RuleName := emptyToNil (tm_Title mis), f_IacResource := emptyToNil (tm_Resource mis),
     f_IacProvider := emptyToNil (trivyIacProvider (tm_ID mis))\<rparr>)"

definition trivy_secret :: "Decoder \<Rightarrow> trivyResult \<Rightarrow> trivySecret \<Rightarrow> Finding" where
  "trivy_secret dc result secret = fingerprinted dc (Finding_zero\<lparr>
     f_Kind := KindSecrets,
     f_Title := firstNonEmpty [strings_TrimSpace (ts_Title secret), strings_TrimSpace (ts_RuleID secret), ''Trivy secret''],
     f_Severity := mapTrivySeverity (ts_Severity secret), f_Confidence := 2, f_Status := StatusOpen,
     f_FilePath := strings_TrimSpace (tr_Target result), f_LineStart := ts_StartLine secret, f_LineEnd := ts_EndLine secret,
     f_SourceType := ''trivy'', f_SecretKind := emptyToNil (ts_RuleID secret), f_CVEIDs := [], f_CWEIDs := []\<rparr>)"

definition trivy_result :: "Decoder \<Rightarrow> trivyReport \<Rightarrow> trivyResult \<Rightarrow> Finding list" where
  "trivy_result dc report result =
     (let resultClass = strings_ToLower (strings_TrimSpace (tr_Class result)) in
      if resultClass = ''os-pkgs'' \<or> resultClass = ''lang-pkgs''
      then map (trivy_vulnerability dc report result) (tr_Vulnerabilities result)
      else if resultClass = ''config'' then map (trivy_misconfiguration dc result) (tr_Misconfigurations result)
      else if resultClass = ''secret'' then map (trivy_secret dc result) (tr_Secrets result)
      else [])"

definition TrivyParser_Parse :: "Decoder \<Rightarrow> string \<Rightarrow> string + Finding list" where
  "TrivyParser_Parse dc data =
     (case Option.bind (jd_parse dc data) (decode_trivyReport \<circ> Some) of
        None \<Rightarrow> Inl ''trivy parse: unmarshal report''
      | Some report \<Rightarrow>
          let findings = concat (map (trivy_result dc report) (ty_Results report)) in
          if findings = [] then Inl ''trivy parse: no vulnerabilities found'' else Inr findings)"

definition TrivyParser :: "Decoder \<Rightarrow> Parser" where
  "TrivyParser dc = \<lparr>CanParse = TrivyParser_CanParse dc, Parse = TrivyParser_Parse dc\<rparr>"

section \<open>Grype\<close>

definition decode_path :: "json option \<Rightarrow> string option" where
  "decode_path j = Option.bind (dec_struct j) (\<lambda>obj. dec_string (json_field obj ''path''))"

record grypeSource =
  gs_Type :: string
  gs_Target :: string

definition decode_grypeSource :: "json option \<Rightarrow> grypeSource option" where
  "decode_grypeSource j = do {
     obj \<leftarrow> dec_struct j;
     x1 \<leftarrow> dec_string (json_field obj ''type'');
     x2 \<leftarrow> dec_string (json_field obj ''target'');
     Some \<lparr>gs_Type = x1, gs_Target = x2\<rparr>
   }"

record grypeVulnerability =
  gv_ID :: string
  gv_Severity :: string
  gv_Description :: string
  gv_DataSource :: string
  gv_Namespace :: string
  gv_CWEIDs :: "string list"
  gv_Fix_Versions :: "string list"
  gv_Fix_State :: string

definition decode_grypeVulnerability :: "json option \<Rightarrow> grypeVulnerability option" where
  "decode_grypeVulnerability j = do {
     obj \<leftarrow> dec_struct j;
     x1 \<leftarrow> dec_string (json_field obj ''id'');
     x2 \<leftarrow> dec_string (json_field obj ''severity'');
     x3 \<leftarrow> dec_string (json_field obj ''description'');
     x4 \<leftarrow> dec_string (json_field obj ''dataSource'');
     x5 \<leftarrow> dec_string (json_field obj ''namespace'');
     x6 \<leftarrow> dec_list dec_string (json_field obj ''cweIDs'');
     o1 \<leftarrow> dec_struct (json_field obj ''fix'');
     x7 \<leftarrow> dec_list dec_string (json_field o1 ''versions'');
     x8 \<leftarrow> dec_string (json_field o1 ''state'');
     Some \<lparr>gv_ID = x1, gv_Severity = x2, gv_Description = x3, gv_DataSource = x4, gv_Namespace = x5,
       gv_CWEIDs = x6, gv_Fix_Versions = x7, gv_Fix_State = x8\<rparr>
   }"

record grypeArtifact =
  ga_Name :: string
  ga_Version :: string
  ga_Type :: string
  ga_Language :: string
  ga_PURL :: string
  ga_Locations :: "string list"

definition decode_grypeArtifact :: "json option \<Rightarrow> grypeArtifact option" where
  "decode_grypeArtifact j = do {
     obj \<leftarrow> dec_struct j;
     x1 \<leftarrow> dec_string (json_field obj ''name'');
     x2 \<leftarrow> dec_string (json_field obj ''version'');
     x3 \<leftarrow> dec_string (json_field obj ''type'');
     x4 \<leftarrow> dec_string (json_field obj ''language'');
     x5 \<leftarrow> dec_string (json_field obj ''purl'');
     x6 \<leftarrow> dec_list decode_path (json_field obj ''locations'');
     Some \<lparr>ga_Name = x1, ga_Version = x2, ga_Type = x3, ga_Language = x4, ga_PURL = x5, ga_Locations = x6\<rparr>
   }"

record grypeMatch =
  gm_Vulnerability :: grypeVulnerability
  gm_Artifact :: grypeArtifact

definition decode_grypeMatch :: "json option \<Rightarrow> grypeMatch option" where
  "decode_grypeMatch j = do {
     obj \<leftarrow> dec_struct j;
     x1 \<leftarrow> decode_grypeVulnerability (json_field obj ''vulnerability'');
     x2 \<leftarrow> decode_grypeArtifact (json_field obj ''artifact'');
     Some \<lparr>gm_Vulnerability = x1, gm_Artifact = x2\<rparr>
   }"

record grypeReport =
  gr_Matches :: "grypeMatch list"
  gr_Source :: grypeSource
  gr_Descriptor_Name :: string

definition decode_grypeReport :: "json option \<Rightarrow> grypeReport option" where
  "decode_grypeReport j = do {
     obj \<leftarrow> dec_struct j;
     x1 \<leftarrow> dec_list decode_grypeMatch (json_field obj ''matches'');
     x2 \<leftarrow> decode_grypeSource (json_field obj ''source'');
     o1 \<leftarrow> dec_struct (json_field obj ''descriptor'');
     x3 \<leftarrow> dec_string (json_field o1 ''name'');
     Some \<lparr>gr_Matches = x1, gr_Source = x2, gr_Descriptor_Name = x3\<rparr>
   }"

text \<open>The match of the probe: does it name a vulnerability or a package.\<close>

definition grype_named :: "json option \<Rightarrow> bool option" where
  "grype_named j = do {
     obj \<leftarrow> dec_struct j;
     v \<leftarrow> dec_struct (json_field obj ''vulnerability'');
     i \<leftarrow> dec_string (json_field v ''id'');
     a \<leftarrow> dec_struct (json_field obj ''artifact'');
     n \<leftarrow> dec_string (json_field a ''name'');
     Some (strings_TrimSpace i \<noteq> [] \<or> strings_TrimSpace n \<noteq> [])
   }"

definition grype_matches :: "json option \<Rightarrow> bool" where
  "grype_matches raw = (case dec_list grype_named raw of None \<Rightarrow> False | Some [] \<Rightarrow> True | Some (first # _) \<Rightarrow> first)"

definition GrypeParser_CanParse :: "Decoder \<Rightarrow> string \<Rightarrow> bool" where
  "GrypeParser_CanParse dc data =
     (case do { j \<leftarrow> jd_parse dc data; obj \<leftarrow> dec_struct (Some j); d \<leftarrow> dec_struct (json_field obj ''descriptor'');
                name \<leftarrow> dec_string (json_field d ''name''); Some (json_field obj ''matches'', name) } of
        None \<Rightarrow> False
      | Some (raw, name) \<Rightarrow>
          if raw = None then False
          else if strings_EqualFold (strings_TrimSpace name) ''grype'' then True
          else grype_matches raw)"

definition buildGrypeTitle :: "string \<Rightarrow> string \<Rightarrow> string" where
  "buildGrypeTitle vulnID component =
     (if vulnID \<noteq> [] \<and> component \<noteq> [] then vulnID @ '' in '' @ component
      else if vulnID \<noteq> [] then vulnID
      else if component \<noteq> [] then ''Vulnerability in '' @ component
      else ''Grype vulnerability'')"

definition buildGrypeDescription :: "grypeReport \<Rightarrow> grypeMatch \<Rightarrow> string" where
  "buildGrypeDescription report m = paragraphs [
     part [] (gv_Description (gm_Vulnerability m)), part ''Namespace: '' (gv_Namespace (gm_Vulnerability m)),
     part ''Data source: '' (gv_DataSource (gm_Vulnerability m)), part ''Package type: '' (ga_Type (gm_Artifact m)),
     part ''Language: '' (ga_Language (gm_Artifact m)), part ''Scan source: '' (gs_Type (gr_Source report)),
     part ''Scan target: '' (gs_Target (gr_Source report))]"

definition buildGrypeCVEIDs :: "string \<Rightarrow> string list" where
  "buildGrypeCVEIDs vulnID = (if strings_HasPrefix (strings_ToUpper vulnID) ''CVE-'' then [vulnID] else [])"

definition mapGrypeConfidence :: "grypeVulnerability \<Rightarrow> grypeArtifact \<Rightarrow> int" where
  "mapGrypeConfidence v a =
     (let score = not_blank [gv_ID v, ga_Name a, ga_Version a, ga_PURL a] in
      if score \<ge> 4 then 3 else if score \<ge> 2 then 2 else if score = 1 then 1 else 0)"

fun firstFixedVersion :: "string list \<Rightarrow> string option" where
  "firstFixedVersion [] = None"
| "firstFixedVersion (version # versions) =
     (let value = strings_TrimSpace version in if value \<noteq> [] then Some value else firstFixedVersion versions)"

fun firstArtifactPath :: "string list \<Rightarrow> string \<Rightarrow> string" where
  "firstArtifactPath [] fallback = strings_TrimSpace fallback"
| "firstArtifactPath (location # locations) fallback =
     (let path = strings_TrimSpace location in if path \<noteq> [] then path else firstArtifactPath locations fallback)"

definition grypePackageEcosystem :: "grypeArtifact \<Rightarrow> string option" where
  "grypePackageEcosystem a =
     (case trivyPackageEcosystem (ga_PURL a) [] of
        Some eco \<Rightarrow> Some eco
      | None \<Rightarrow> map_of [(''deb'', ''debian''), (''rpm'', ''rpm''), (''apk'', ''alpine'')]
          (strings_ToLower (strings_TrimSpace (ga_Type a))))"

definition grype_finding :: "Decoder \<Rightarrow> grypeReport \<Rightarrow> grypeMatch \<Rightarrow> Finding" where
  "grype_finding dc report m =
     (let v = gm_Vulnerability m; a = gm_Artifact m; i = strings_TrimSpace (gv_ID v); component = strings_TrimSpace (ga_Name a)
      in fingerprinted dc (Finding_zero\<lparr>
           f_Kind := KindSCA, f_Title := buildGrypeTitle i component, f_Description := buildGrypeDescription report m,
           f_Severity := mapTrivySeverity (gv_Severity v), f_Confidence := mapGrypeConfidence v a, f_Status := StatusOpen,
           f_FilePath := firstArtifactPath (ga_Locations a) (gs_Target (gr_Source report)), f_Component := component,
           f_ComponentVersion := strings_TrimSpace (ga_Version a), f_CVEIDs := buildGrypeCVEIDs i,
           f_CWEIDs := parseTrivyCWEs (gv_CWEIDs v), f_FixedVersion := firstFixedVersion (gv_Fix_Versions v),
           f_PackageEcosystem := grypePackageEcosystem a, f_Purl := emptyToNil (ga_PURL a), f_SourceType := ''grype''\<rparr>))"

definition GrypeParser_Parse :: "Decoder \<Rightarrow> string \<Rightarrow> string + Finding list" where
  "GrypeParser_Parse dc data =
     (case Option.bind (jd_parse dc data) (decode_grypeReport \<circ> Some) of
        None \<Rightarrow> Inl ''grype parse: unmarshal report''
      | Some report \<Rightarrow> Inr (map (grype_finding dc report) (gr_Matches report)))"

definition GrypeParser :: "Decoder \<Rightarrow> Parser" where
  "GrypeParser dc = \<lparr>CanParse = GrypeParser_CanParse dc, Parse = GrypeParser_Parse dc\<rparr>"

section \<open>The promise of the interface\<close>

lemma mapTrivySeverity_range: "0 \<le> mapTrivySeverity s \<and> mapTrivySeverity s \<le> 4"
  by (simp add: mapTrivySeverity_def Let_def)

lemma trivy_in_ranges:
  "in_ranges (trivy_vulnerability dc report result v)" "in_ranges (trivy_misconfiguration dc result mis)"
  "in_ranges (trivy_secret dc result secret)"
  using mapTrivySeverity_range
  by (simp_all add: trivy_vulnerability_def trivy_misconfiguration_def trivy_secret_def in_ranges_def mapTrivyConfidence_def Let_def)

lemma trivy_vulnerability_keyed: "keyed_by (jd_hash dc) (trivy_vulnerability dc report result v)"
  by (simp add: keyed_by_def trivy_vulnerability_def calculateTrivyFingerprint_def)

lemma trivy_result_promise: "f \<in> set (trivy_result dc report result) \<Longrightarrow> in_ranges f \<and> keyed_by (jd_hash dc) f"
  by (auto simp: trivy_result_def Let_def trivy_in_ranges trivy_vulnerability_keyed split: if_splits)
    (simp_all add: trivy_misconfiguration_def trivy_secret_def)

interpretation trivy: parser "TrivyParser dc" "jd_hash dc" for dc
  by unfold_locales
    (auto simp: TrivyParser_def TrivyParser_Parse_def Let_def dest: trivy_result_promise split: option.splits if_splits)

lemma grype_in_ranges: "in_ranges (grype_finding dc report m)"
  using mapTrivySeverity_range by (simp add: grype_finding_def in_ranges_def mapGrypeConfidence_def Let_def)

lemma grype_keyed: "keyed_by (jd_hash dc) (grype_finding dc report m)"
  by (simp add: grype_finding_def Let_def)

interpretation grype: parser "GrypeParser dc" "jd_hash dc" for dc
  by unfold_locales
    (auto simp: GrypeParser_def GrypeParser_Parse_def grype_in_ranges grype_keyed split: option.splits)

end
