(* ===== verification/CodeReports.thy ===== *)
theory CodeReports
  imports ParserBase
begin

text \<open>Reports on source code: \<open>internal/parser/semgrep.go\<close> and \<open>gosec.go\<close>.\<close>

section \<open>Semgrep\<close>

record semgrepResult =
  mr_CheckID :: string
  mr_Path :: string
  mr_Start_Line :: int
  mr_End_Line :: int
  mr_Message :: string
  mr_Severity :: string
  mr_Lines :: string
  mr_CWE :: "json option"
  mr_Confidence :: string

definition decode_semgrepResult :: "json option \<Rightarrow> semgrepResult option" where
  "decode_semgrepResult j = do {
     obj \<leftarrow> dec_struct j;
     x1 \<leftarrow> dec_string (json_field obj ''check_id'');
     x2 \<leftarrow> dec_string (json_field obj ''path'');
     o1 \<leftarrow> dec_struct (json_field obj ''start'');
     x3 \<leftarrow> dec_int (json_field o1 ''line'');
     o2 \<leftarrow> dec_struct (json_field obj ''end'');
     x4 \<leftarrow> dec_int (json_field o2 ''line'');
     o3 \<leftarrow> dec_struct (json_field obj ''extra'');
     x5 \<leftarrow> dec_string (json_field o3 ''message'');
     x6 \<leftarrow> dec_string (json_field o3 ''severity'');
     x7 \<leftarrow> dec_string (json_field o3 ''lines'');
     o4 \<leftarrow> dec_struct (json_field o3 ''metadata'');
     x8 \<leftarrow> dec_any (json_field o4 ''cwe'');
     x9 \<leftarrow> dec_string (json_field o4 ''confidence'');
     Some \<lparr>mr_CheckID = x1, mr_Path = x2, mr_Start_Line = x3, mr_End_Line = x4, mr_Message = x5,
       mr_Severity = x6, mr_Lines = x7, mr_CWE = x8, mr_Confidence = x9\<rparr>
   }"

record semgrepReport =
  mp_Results :: "semgrepResult list"

definition decode_semgrepReport :: "json option \<Rightarrow> semgrepReport option" where
  "decode_semgrepReport j = do {
     obj \<leftarrow> dec_struct j;
     x1 \<leftarrow> dec_list decode_semgrepResult (json_field obj ''results'');
     Some \<lparr>mp_Results = x1\<rparr>
   }"

definition semgrep_check_id :: "json option \<Rightarrow> string option" where
  "semgrep_check_id j = Option.bind (dec_struct j) (\<lambda>obj. dec_string (json_field obj ''check_id''))"

definition SemgrepParser_CanParse :: "Decoder \<Rightarrow> string \<Rightarrow> bool" where
  "SemgrepParser_CanParse dc data =
     (case do { j \<leftarrow> jd_parse dc data; obj \<leftarrow> dec_struct (Some j); dec_list semgrep_check_id (json_field obj ''results'') } of
        Some (check_id # _) \<Rightarrow> strings_TrimSpace check_id \<noteq> [] | _ \<Rightarrow> False)"

definition mapSemgrepSeverity :: "string \<Rightarrow> string \<Rightarrow> int" where
  "mapSemgrepSeverity severity confidence =
     (let s = strings_ToUpper (strings_TrimSpace severity); c = strings_ToUpper (strings_TrimSpace confidence) in
      if s = ''INFO'' then SeverityLow else if s = ''WARNING'' then SeverityMedium
      else if s = ''ERROR'' then (if c = ''HIGH'' then SeverityCritical else SeverityHigh)
      else SeverityInfo)"

definition mapSemgrepConfidence :: "string \<Rightarrow> int" where
  "mapSemgrepConfidence confidence =
     (let c = strings_ToUpper (strings_TrimSpace confidence) in
      if c = ''HIGH'' then 3 else if c = ''MEDIUM'' then 2 else if c = ''LOW'' then 1 else 0)"

definition semgrepRawToStrings :: "json option \<Rightarrow> string list" where
  "semgrepRawToStrings raw = (case raw of
     Some (JsonString v) \<Rightarrow> [v]
   | Some (JsonArray items) \<Rightarrow> List.map_filter (\<lambda>item. case item of JsonString s \<Rightarrow> Some s | _ \<Rightarrow> None) items
   | _ \<Rightarrow> [])"

definition extractSemgrepCWEIDs :: "json option \<Rightarrow> int list" where
  "extractSemgrepCWEIDs raw =
     List.map_filter (\<lambda>tag. strconv_Atoi (drop 4 tag))
       (concat (map (\<lambda>txt. find_all cwe_tag (strings_ToUpper txt)) (semgrepRawToStrings raw)))"

definition semgrep_finding :: "Decoder \<Rightarrow> semgrepResult \<Rightarrow> Finding" where
  "semgrep_finding dc result =
     (let message = strings_TrimSpace (mr_Message result); title = firstLine message;
          ruleID = strings_TrimSpace (mr_CheckID result);
          title = (if title = [] then ruleID else title)
      in fingerprinted dc (Finding_zero\<lparr>
           f_Kind := KindSAST, f_Title := title, f_Description := message,
           f_Severity := mapSemgrepSeverity (mr_Severity result) (mr_Confidence result),
           f_Confidence := mapSemgrepConfidence (mr_Confidence result), f_Status := StatusOpen,
           f_FilePath := strings_TrimSpace (mr_Path result), f_LineStart := mr_Start_Line result, f_LineEnd := mr_End_Line result,
           f_RuleID := emptyToNil ruleID, f_RuleName := emptyToNil (firstLine message), f_CodeSnippet := emptyToNil (mr_Lines result),
           f_CWEIDs := extractSemgrepCWEIDs (mr_CWE result), f_CVEIDs := [], f_SourceType := ''semgrep''\<rparr>))"

definition SemgrepParser_Parse :: "Decoder \<Rightarrow> string \<Rightarrow> string + Finding list" where
  "SemgrepParser_Parse dc data =
     (case Option.bind (jd_parse dc data) (decode_semgrepReport \<circ> Some) of
        None \<Rightarrow> Inl ''parser.SemgrepParser.Parse: unmarshal''
      | Some report \<Rightarrow> Inr (map (semgrep_finding dc) (mp_Results report)))"

definition SemgrepParser :: "Decoder \<Rightarrow> Parser" where
  "SemgrepParser dc = \<lparr>CanParse = SemgrepParser_CanParse dc, Parse = SemgrepParser_Parse dc\<rparr>"

section \<open>Gosec\<close>

record gosecIssue =
  gi_Severity :: string
  gi_Confidence :: string
  gi_CWE_ID :: string
  gi_RuleID :: string
  gi_Details :: string
  gi_File :: string
  gi_Code :: string
  gi_Line :: string
  gi_Column :: string

definition decode_gosecIssue :: "json option \<Rightarrow> gosecIssue option" where
  "decode_gosecIssue j = do {
     obj \<leftarrow> dec_struct j;
     x1 \<leftarrow> dec_string (json_field obj ''severity'');
     x2 \<leftarrow> dec_string (json_field obj ''confidence'');
     o1 \<leftarrow> dec_struct (json_field obj ''cwe'');
     x3 \<leftarrow> dec_string (json_field o1 ''id'');
     x4 \<leftarrow> dec_string (json_field obj ''rule_id'');
     x5 \<leftarrow> dec_string (json_field obj ''details'');
     x6 \<leftarrow> dec_string (json_field obj ''file'');
     x7 \<leftarrow> dec_string (json_field obj ''code'');
     x8 \<leftarrow> dec_string (json_field obj ''line'');
     x9 \<leftarrow> dec_string (json_field obj ''column'');
     Some \<lparr>gi_Severity = x1, gi_Confidence = x2, gi_CWE_ID = x3, gi_RuleID = x4, gi_Details = x5,
       gi_File = x6, gi_Code = x7, gi_Line = x8, gi_Column = x9\<rparr>
   }"

record gosecReport =
  gp_Issues :: "gosecIssue list"

definition decode_gosecReport :: "json option \<Rightarrow> gosecReport option" where
  "decode_gosecReport j = do {
     obj \<leftarrow> dec_struct j;
     x1 \<leftarrow> dec_list decode_gosecIssue (json_field obj ''Issues'');
     Some \<lparr>gp_Issues = x1\<rparr>
   }"

definition GosecParser_CanParse :: "Decoder \<Rightarrow> string \<Rightarrow> bool" where
  "GosecParser_CanParse dc data =
     (case do { j \<leftarrow> jd_parse dc data; obj \<leftarrow> dec_struct (Some j); issues \<leftarrow> dec_raw (json_field obj ''Issues'');
                version \<leftarrow> dec_any (json_field obj ''GosecVersion''); stats \<leftarrow> dec_raw (json_field obj ''Stats'');
                Some (issues, version, stats) } of
        None \<Rightarrow> False
      | Some (issues, version, stats) \<Rightarrow>
          if issues \<noteq> None then True else if version \<noteq> None \<and> stats \<noteq> None then True else False)"

definition mapGosecSeverity :: "string \<Rightarrow> int" where
  "mapGosecSeverity severity =
     (let s = strings_ToUpper (strings_TrimSpace severity) in
      if s = ''HIGH'' then SeverityHigh else if s = ''MEDIUM'' then SeverityMedium else if s = ''LOW'' then SeverityLow
      else SeverityInfo)"

definition mapGosecConfidence :: "string \<Rightarrow> int" where
  "mapGosecConfidence confidence =
     (let c = strings_ToUpper (strings_TrimSpace confidence) in
      if c = ''HIGH'' then 3 else if c = ''MEDIUM'' then 2 else if c = ''LOW'' then 1 else 0)"

definition parseGosecCWEs :: "string \<Rightarrow> int list" where
  "parseGosecCWEs raw = (case strconv_Atoi (strings_TrimSpace raw) of None \<Rightarrow> [] | Some i \<Rightarrow> if i \<le> 0 then [] else [i])"

definition parseGosecPos :: "string \<Rightarrow> int" where
  "parseGosecPos raw = (case strconv_Atoi (strings_TrimSpace raw) of None \<Rightarrow> 0 | Some n \<Rightarrow> if n \<le> 0 then 0 else n)"

definition buildGosecDescription :: "gosecIssue \<Rightarrow> string" where
  "buildGosecDescription issue =
     paragraphs [part [] (gi_Details issue), part ''Rule: '' (gi_RuleID issue), part ''CWE: '' (gi_CWE_ID issue)]"

definition gosec_finding :: "Decoder \<Rightarrow> gosecIssue \<Rightarrow> Finding" where
  "gosec_finding dc issue =
     (let line = parseGosecPos (gi_Line issue); column = parseGosecPos (gi_Column issue);
          line = (if line = 0 then column else line)
      in fingerprinted dc (Finding_zero\<lparr>
           f_Kind := KindSAST,
           f_Title := firstNonEmpty [strings_TrimSpace (gi_Details issue), strings_TrimSpace (gi_RuleID issue), ''gosec issue''],
           f_Description := buildGosecDescription issue, f_Severity := mapGosecSeverity (gi_Severity issue),
           f_Confidence := mapGosecConfidence (gi_Confidence issue), f_Status := StatusOpen,
           f_FilePath := strings_TrimSpace (gi_File issue), f_LineStart := line, f_LineEnd := line,
           f_RuleID := emptyToNil (gi_RuleID issue), f_RuleName := emptyToNil (gi_Details issue),
           f_CodeSnippet := emptyToNil (gi_Code issue), f_CWEIDs := parseGosecCWEs (gi_CWE_ID issue), f_CVEIDs := [],
           f_SourceType := ''gosec''\<rparr>))"

definition GosecParser_Parse :: "Decoder \<Rightarrow> string \<Rightarrow> string + Finding list" where
  "GosecParser_Parse dc data =
     (case Option.bind (jd_parse dc data) (decode_gosecReport \<circ> Some) of
        None \<Rightarrow> Inl ''parser.GosecParser.Parse: unmarshal''
      | Some report \<Rightarrow> Inr (map (gosec_finding dc) (gp_Issues report)))"

definition GosecParser :: "Decoder \<Rightarrow> Parser" where
  "GosecParser dc = \<lparr>CanParse = GosecParser_CanParse dc, Parse = GosecParser_Parse dc\<rparr>"

section \<open>The promise of the interface\<close>

lemma semgrep_in_ranges: "in_ranges (semgrep_finding dc result)"
  by (simp add: semgrep_finding_def in_ranges_def mapSemgrepSeverity_def mapSemgrepConfidence_def Let_def)

lemma gosec_in_ranges: "in_ranges (gosec_finding dc issue)"
  by (simp add: gosec_finding_def in_ranges_def mapGosecSeverity_def mapGosecConfidence_def Let_def)

lemma code_fingerprints:
  "keyed_by (jd_hash dc) (semgrep_finding dc result)" "keyed_by (jd_hash dc) (gosec_finding dc issue)"
  by (simp_all add: semgrep_finding_def gosec_finding_def Let_def)

interpretation semgrep: parser "SemgrepParser dc" "jd_hash dc" for dc
  by unfold_locales
    (auto simp: SemgrepParser_def SemgrepParser_Parse_def semgrep_in_ranges code_fingerprints split: option.splits)

interpretation gosec: parser "GosecParser dc" "jd_hash dc" for dc
  by unfold_locales
    (auto simp: GosecParser_def GosecParser_Parse_def gosec_in_ranges code_fingerprints split: option.splits)

end
