(* ===== verification/SecretReports.thy ===== *)
theory SecretReports
  imports ParserBase
begin

text \<open>
  Reports on leaked secrets: \<open>internal/parser/trufflehog.go\<close>, an array or a stream of documents, and
  \<open>gitleaks.go\<close>, an array or an envelope of one. The value of a secret reaches a finding only hashed or masked.
\<close>

section \<open>TruffleHog\<close>

record trufflehogSourceMetadata =
  he_Data :: json_object

definition decode_trufflehogSourceMetadata :: "json option \<Rightarrow> trufflehogSourceMetadata option" where
  "decode_trufflehogSourceMetadata j = do {
     obj \<leftarrow> dec_struct j;
     x1 \<leftarrow> dec_struct (json_field obj ''Data'');
     Some \<lparr>he_Data = x1\<rparr>
   }"

record trufflehogFinding =
  hf_SourceMetadata :: trufflehogSourceMetadata
  hf_SourceType :: int
  hf_SourceName :: string
  hf_DetectorType :: int
  hf_DetectorName :: string
  hf_DetectorDescription :: string
  hf_DecoderName :: string
  hf_Verified :: bool
  hf_VerificationFromCache :: bool
  hf_Raw :: string
  hf_RawV2 :: string
  hf_Redacted :: string
  hf_ExtraData :: "(string \<times> string) list"

definition decode_trufflehogFinding :: "json option \<Rightarrow> trufflehogFinding option" where
  "decode_trufflehogFinding j = do {
     obj \<leftarrow> dec_struct j;
     x1 \<leftarrow> decode_trufflehogSourceMetadata (json_field obj ''SourceMetadata'');
     x2 \<leftarrow> dec_int (json_field obj ''SourceType'');
     x3 \<leftarrow> dec_string (json_field obj ''SourceName'');
     x4 \<leftarrow> dec_int (json_field obj ''DetectorType'');
     x5 \<leftarrow> dec_string (json_field obj ''DetectorName'');
     x6 \<leftarrow> dec_string (json_field obj ''DetectorDescription'');
     x7 \<leftarrow> dec_string (json_field obj ''DecoderName'');
     x8 \<leftarrow> dec_bool (json_field obj ''Verified'');
     x9 \<leftarrow> dec_bool (json_field obj ''VerificationFromCache'');
     x10 \<leftarrow> dec_string (json_field obj ''Raw'');
     x11 \<leftarrow> dec_string (json_field obj ''RawV2'');
     x12 \<leftarrow> dec_string (json_field obj ''Redacted'');
     x13 \<leftarrow> dec_map dec_string (json_field obj ''ExtraData'');
     Some \<lparr>hf_SourceMetadata = x1, hf_SourceType = x2, hf_SourceName = x3, hf_DetectorType = x4,
       hf_DetectorName = x5, hf_DetectorDescription = x6, hf_DecoderName = x7, hf_Verified = x8,
       hf_VerificationFromCache = x9, hf_Raw = x10, hf_RawV2 = x11, hf_Redacted = x12, hf_ExtraData = x13\<rparr>
   }"

record trufflehogFilesystemMeta =
  hs_File :: string
  hs_Line :: int

definition decode_trufflehogFilesystemMeta :: "json option \<Rightarrow> trufflehogFilesystemMeta option" where
  "decode_trufflehogFilesystemMeta j = do {
     obj \<leftarrow> dec_struct j;
     x1 \<leftarrow> dec_string (json_field obj ''file'');
     x2 \<leftarrow> dec_int (json_field obj ''line'');
     Some \<lparr>hs_File = x1, hs_Line = x2\<rparr>
   }"

record trufflehogGitMeta =
  hg_Commit :: string
  hg_File :: string
  hg_Email :: string
  hg_Repository :: string
  hg_Timestamp :: string
  hg_Line :: int

definition decode_trufflehogGitMeta :: "json option \<Rightarrow> trufflehogGitMeta option" where
  "decode_trufflehogGitMeta j = do {
     obj \<leftarrow> dec_struct j;
     x1 \<leftarrow> dec_string (json_field obj ''commit'');
     x2 \<leftarrow> dec_string (json_field obj ''file'');
     x3 \<leftarrow> dec_string (json_field obj ''email'');
     x4 \<leftarrow> dec_string (json_field obj ''repository'');
     x5 \<leftarrow> dec_string (json_field obj ''timestamp'');
     x6 \<leftarrow> dec_int (json_field obj ''line'');
     Some \<lparr>hg_Commit = x1, hg_File = x2, hg_Email = x3, hg_Repository = x4, hg_Timestamp = x5,
       hg_Line = x6\<rparr>
   }"

record trufflehogGithubMeta =
  hb_Commit :: string
  hb_File :: string
  hb_Email :: string
  hb_Repository :: string
  hb_Link :: string
  hb_Timestamp :: string
  hb_Line :: int
  hb_Visibility :: string

definition decode_trufflehogGithubMeta :: "json option \<Rightarrow> trufflehogGithubMeta option" where
  "decode_trufflehogGithubMeta j = do {
     obj \<leftarrow> dec_struct j;
     x1 \<leftarrow> dec_string (json_field obj ''commit'');
     x2 \<leftarrow> dec_string (json_field obj ''file'');
     x3 \<leftarrow> dec_string (json_field obj ''email'');
     x4 \<leftarrow> dec_string (json_field obj ''repository'');
     x5 \<leftarrow> dec_string (json_field obj ''link'');
     x6 \<leftarrow> dec_string (json_field obj ''timestamp'');
     x7 \<leftarrow> dec_int (json_field obj ''line'');
     x8 \<leftarrow> dec_string (json_field obj ''visibility'');
     Some \<lparr>hb_Commit = x1, hb_File = x2, hb_Email = x3, hb_Repository = x4, hb_Link = x5,
       hb_Timestamp = x6, hb_Line = x7, hb_Visibility = x8\<rparr>
   }"

text \<open>An entry of a map of strings, the empty string when there is none.\<close>

definition string_entry :: "(string \<times> string) list \<Rightarrow> string \<Rightarrow> string" where
  "string_entry m key = (case find (\<lambda>(k, _). k = key) (rev m) of Some (_, v) \<Rightarrow> v | None \<Rightarrow> [])"

definition isTrufflehogFinding :: "trufflehogFinding \<Rightarrow> bool" where
  "isTrufflehogFinding item \<longleftrightarrow>
     (if he_Data (hf_SourceMetadata item) = [] \<or> strings_TrimSpace (hf_DetectorName item) = [] then False
      else strings_Contains (strings_ToLower (strings_TrimSpace (hf_SourceName item))) ''trufflehog'' \<or>
           strings_TrimSpace (hf_DecoderName item) \<noteq> [])"

definition TruffleHogParser_CanParse :: "Decoder \<Rightarrow> string \<Rightarrow> bool" where
  "TruffleHogParser_CanParse dc data =
     (case strings_TrimSpace data of
        [] \<Rightarrow> False
      | c # cs \<Rightarrow>
          if c = CHR ''['' then
            (case Option.bind (jd_parse dc (c # cs)) (dec_list decode_trufflehogFinding \<circ> Some) of
               Some (item # _) \<Rightarrow> isTrufflehogFinding item | _ \<Rightarrow> False)
          else
            (case fst (jd_stream dc (c # cs)) of
               [] \<Rightarrow> False
             | j # _ \<Rightarrow> (case decode_trufflehogFinding (Some j) of None \<Rightarrow> False | Some first \<Rightarrow> isTrufflehogFinding first)))"

definition parseTruffleHogFindings :: "Decoder \<Rightarrow> string \<Rightarrow> string + trufflehogFinding list" where
  "parseTruffleHogFindings dc data =
     (case strings_TrimSpace data of
        [] \<Rightarrow> Inl ''parser.TruffleHogParser.Parse: empty input''
      | c # cs \<Rightarrow>
          if c = CHR ''['' then
            (case Option.bind (jd_parse dc (c # cs)) (dec_list decode_trufflehogFinding \<circ> Some) of
               None \<Rightarrow> Inl ''parser.TruffleHogParser.Parse: unmarshal array'' | Some report \<Rightarrow> Inr report)
          else
            (case jd_stream dc (c # cs) of (docs, ended) \<Rightarrow>
               (case those (map (decode_trufflehogFinding \<circ> Some) docs) of
                  None \<Rightarrow> Inl ''parser.TruffleHogParser.Parse: decode ndjson''
                | Some report \<Rightarrow>
                    if ended then Inr report else Inl ''parser.TruffleHogParser.Parse: decode ndjson'')))"

text \<open>The preview of a secret in the description: what the scanner redacted, or the secret, masked in any case.\<close>

definition buildTruffleHogDescription :: "trufflehogFinding \<Rightarrow> string" where
  "buildTruffleHogDescription item =
     (let rawPreview = firstNonEmpty [strings_TrimSpace (hf_Redacted item), strings_TrimSpace (hf_Raw item),
            strings_TrimSpace (hf_RawV2 item)]
      in paragraphs [
           part [] (hf_DetectorDescription item),
           part (utf8 [1048, 1089, 1090, 1086, 1095, 1085, 1080, 1082, 58, 32]) (hf_SourceName item),
           part (utf8 [1056, 1086, 1090, 1072, 1094, 1080, 1103, 58, 32]) (string_entry (hf_ExtraData item) ''rotation_guide''),
           (if rawPreview = [] then [] else [utf8 [1057, 1077, 1082, 1088, 1077, 1090, 58, 32] @ maskSecret rawPreview]),
           [''Verified: '' @ (if hf_Verified item then ''true'' else ''false'')]])"

definition buildTrufflehogRepositoryURL :: "string \<Rightarrow> string \<Rightarrow> int \<Rightarrow> string" where
  "buildTrufflehogRepositoryURL repository link line =
     (let v = strings_TrimSpace link; repo = strings_TrimSpace repository in
      if v \<noteq> [] then v
      else if repo = [] then []
      else if line > 0 then repo @ ''#L'' @ strconv_Itoa line
      else repo)"

definition extractRawString :: "json_object \<Rightarrow> string \<Rightarrow> string" where
  "extractRawString data key = (case json_entry data key of
     None \<Rightarrow> [] | Some raw \<Rightarrow> (case dec_string (Some raw) of Some value \<Rightarrow> strings_TrimSpace value | None \<Rightarrow> []))"

definition extractRawInt :: "json_object \<Rightarrow> string \<Rightarrow> int" where
  "extractRawInt data key = (case json_entry data key of
     None \<Rightarrow> 0 | Some raw \<Rightarrow> (case dec_int (Some raw) of Some value \<Rightarrow> value | None \<Rightarrow> 0))"

text \<open>Where a source says the secret is: the file, the line, the commit and the address.\<close>

type_synonym location = "string \<times> int \<times> string \<times> string"

definition source_filesystem :: "json option \<Rightarrow> location option" where
  "source_filesystem raw = map_option (\<lambda>meta. (strings_TrimSpace (hs_File meta), hs_Line meta, [], []))
     (decode_trufflehogFilesystemMeta raw)"

definition source_git :: "json option \<Rightarrow> location option" where
  "source_git raw = map_option (\<lambda>meta. (strings_TrimSpace (hg_File meta), hg_Line meta, strings_TrimSpace (hg_Commit meta),
     buildTrufflehogRepositoryURL (hg_Repository meta) [] (hg_Line meta))) (decode_trufflehogGitMeta raw)"

definition source_github :: "json option \<Rightarrow> location option" where
  "source_github raw = map_option (\<lambda>meta. (strings_TrimSpace (hb_File meta), hb_Line meta, strings_TrimSpace (hb_Commit meta),
     buildTrufflehogRepositoryURL (hb_Repository meta) (hb_Link meta) (hb_Line meta))) (decode_trufflehogGithubMeta raw)"

definition source_generic :: "json option \<Rightarrow> location option" where
  "source_generic raw = Option.bind (dec_struct raw) (\<lambda>generic.
     let file = firstNonEmpty [extractRawString generic ''file'', extractRawString generic ''path'', extractRawString generic ''key''];
         line = extractRawInt generic ''line''; commit = extractRawString generic ''commit'';
         url = buildTrufflehogRepositoryURL (extractRawString generic ''repository'') (extractRawString generic ''link'') line
     in if file \<noteq> [] \<or> line \<noteq> 0 \<or> commit \<noteq> [] \<or> url \<noteq> [] then Some (file, line, commit, url) else None)"

fun first_source :: "json_object \<Rightarrow> (string \<times> (json option \<Rightarrow> location option)) list \<Rightarrow> location" where
  "first_source data [] = ([], 0, [], [])"
| "first_source data ((key, source) # sources) =
     (case Option.bind (json_entry data key) (source \<circ> Some) of Some loc \<Rightarrow> loc | None \<Rightarrow> first_source data sources)"

definition extractTruffleHogLocation :: "json_object \<Rightarrow> location" where
  "extractTruffleHogLocation data = first_source data
     ([(''Filesystem'', source_filesystem), (''Git'', source_git), (''Github'', source_github)] @
      map (\<lambda>key. (key, source_generic)) [''Gitlab'', ''S3'', ''Docker'', ''Circle'', ''Postman''])"

definition trufflehog_ruleID :: "trufflehogFinding \<Rightarrow> string \<Rightarrow> string" where
  "trufflehog_ruleID item detectorName =
     (let ruleID = strings_TrimSpace (hf_DetectorName item);
          version = strings_TrimSpace (firstNonEmpty [string_entry (hf_ExtraData item) ''version'', string_entry (hf_ExtraData item) ''Version'']);
          ruleID = (if version \<noteq> [] then (if ruleID = [] then detectorName else ruleID) @ ''@'' @ version else ruleID)
      in if ruleID = [] then detectorName else ruleID)"

definition trufflehog_finding :: "Decoder \<Rightarrow> trufflehogFinding \<Rightarrow> Finding" where
  "trufflehog_finding dc item =
     (let detectorName = strings_TrimSpace (hf_DetectorName item);
          detectorName = (if detectorName = [] then ''TruffleHog secret'' else detectorName);
          (filePath, line, commit, url) = extractTruffleHogLocation (he_Data (hf_SourceMetadata item));
          secretKind = (case emptyToNil (hf_DetectorName item) of Some k \<Rightarrow> Some k | None \<Rightarrow> emptyToNil detectorName);
          rawVal = firstNonEmpty [strings_TrimSpace (hf_Raw item), strings_TrimSpace (hf_RawV2 item)];
          secretFP = (if rawVal = [] then None else Some (ComputeSecretFingerprint (jd_hash dc) (hf_DetectorName item) rawVal));
          severity = (if hf_Verified item then SeverityCritical else SeverityHigh);
          confidence = (if hf_Verified item then 3 else 2)
      in fingerprinted dc (Finding_zero\<lparr>
           f_Kind := KindSecrets, f_Title := detectorName, f_Description := buildTruffleHogDescription item,
           f_Severity := severity, f_Confidence := confidence, f_Status := StatusOpen,
           f_FilePath := strings_TrimSpace filePath, f_LineStart := line, f_LineEnd := line, f_SecretKind := secretKind,
           f_CommitSHA := emptyToNil commit, f_RuleID := emptyToNil (trufflehog_ruleID item detectorName),
           f_RuleName := emptyToNil (hf_DetectorName item), f_URL := emptyToNil url, f_SecretFingerprint := secretFP,
           f_SourceType := ''trufflehog'', f_CVEIDs := [], f_CWEIDs := []\<rparr>))"

definition TruffleHogParser_Parse :: "Decoder \<Rightarrow> string \<Rightarrow> string + Finding list" where
  "TruffleHogParser_Parse dc data =
     (case parseTruffleHogFindings dc data of Inl e \<Rightarrow> Inl e | Inr report \<Rightarrow> Inr (map (trufflehog_finding dc) report))"

definition TruffleHogParser :: "Decoder \<Rightarrow> Parser" where
  "TruffleHogParser dc = \<lparr>CanParse = TruffleHogParser_CanParse dc, Parse = TruffleHogParser_Parse dc\<rparr>"

section \<open>Gitleaks\<close>

record gitleaksFinding =
  lf_RuleID :: string
  lf_Description :: string
  lf_File :: string
  lf_StartLine :: int
  lf_EndLine :: int
  lf_Commit :: string
  lf_Author :: string
  lf_Match :: string
  lf_Secret :: string

definition decode_gitleaksFinding :: "json option \<Rightarrow> gitleaksFinding option" where
  "decode_gitleaksFinding j = do {
     obj \<leftarrow> dec_struct j;
     x1 \<leftarrow> dec_string (json_field obj ''RuleID'');
     x2 \<leftarrow> dec_string (json_field obj ''Description'');
     x3 \<leftarrow> dec_string (json_field obj ''File'');
     x4 \<leftarrow> dec_int (json_field obj ''StartLine'');
     x5 \<leftarrow> dec_int (json_field obj ''EndLine'');
     x6 \<leftarrow> dec_string (json_field obj ''Commit'');
     x7 \<leftarrow> dec_string (json_field obj ''Author'');
     x8 \<leftarrow> dec_string (json_field obj ''Match'');
     x9 \<leftarrow> dec_string (json_field obj ''Secret'');
     Some \<lparr>lf_RuleID = x1, lf_Description = x2, lf_File = x3, lf_StartLine = x4, lf_EndLine = x5,
       lf_Commit = x6, lf_Author = x7, lf_Match = x8, lf_Secret = x9\<rparr>
   }"

record gitleaksEnvelope =
  lv_Findings :: "gitleaksFinding list option"
  lv_Leaks :: "gitleaksFinding list option"
  lv_Results :: "gitleaksFinding list option"

definition decode_gitleaksEnvelope :: "json option \<Rightarrow> gitleaksEnvelope option" where
  "decode_gitleaksEnvelope j = do {
     obj \<leftarrow> dec_struct j;
     x1 \<leftarrow> dec_slice decode_gitleaksFinding (json_field obj ''findings'');
     x2 \<leftarrow> dec_slice decode_gitleaksFinding (json_field obj ''leaks'');
     x3 \<leftarrow> dec_slice decode_gitleaksFinding (json_field obj ''results'');
     Some \<lparr>lv_Findings = x1, lv_Leaks = x2, lv_Results = x3\<rparr>
   }"

text \<open>The first list of the envelope that is not empty, or the first that is there at all.\<close>

definition decodeGitleaksFindings :: "Decoder \<Rightarrow> string \<Rightarrow> gitleaksFinding list option" where
  "decodeGitleaksFindings dc data =
     (case jd_parse dc data of
        None \<Rightarrow> None
      | Some j \<Rightarrow>
          (case dec_list decode_gitleaksFinding (Some j) of
             Some asList \<Rightarrow> Some asList
           | None \<Rightarrow>
               (case decode_gitleaksEnvelope (Some j) of
                  None \<Rightarrow> None
                | Some asEnvelope \<Rightarrow>
                    let present = List.map_filter id [lv_Findings asEnvelope, lv_Leaks asEnvelope, lv_Results asEnvelope] in
                    (case filter (\<lambda>collection. collection \<noteq> []) present of
                       collection # _ \<Rightarrow> Some collection
                     | [] \<Rightarrow> (case present of collection # _ \<Rightarrow> Some collection | [] \<Rightarrow> None)))))"

definition GitleaksParser_CanParse :: "Decoder \<Rightarrow> string \<Rightarrow> bool" where
  "GitleaksParser_CanParse dc data =
     (case decodeGitleaksFindings dc data of
        Some (first # _) \<Rightarrow> strings_TrimSpace (lf_RuleID first) \<noteq> [] \<and>
          (strings_TrimSpace (lf_Match first) \<noteq> [] \<or> strings_TrimSpace (lf_Secret first) \<noteq> [])
      | _ \<Rightarrow> False)"

definition buildGitleaksDescription :: "string \<Rightarrow> string \<Rightarrow> string \<Rightarrow> string \<Rightarrow> string" where
  "buildGitleaksDescription shortCommit author match secret =
     (let secretValue = strings_TrimSpace match;
          secretValue = (if secretValue = [] then strings_TrimSpace secret else secretValue);
          masked = maskSecret secretValue
      in if shortCommit = [] then
           (if author = [] then ''Secret detected: '' @ masked else ''Secret detected by '' @ author @ '': '' @ masked)
         else if author = [] then ''Secret in commit '' @ shortCommit @ '': '' @ masked
         else ''Secret in commit '' @ shortCommit @ '' by '' @ author @ '': '' @ masked)"

definition gitleaks_finding :: "Decoder \<Rightarrow> gitleaksFinding \<Rightarrow> Finding" where
  "gitleaks_finding dc item =
     (let ruleID = strings_TrimSpace (lf_RuleID item);
          description = strings_TrimSpace (lf_Description item);
          description = (if description = [] then ''Potential secret detected'' else description);
          commit = strings_TrimSpace (lf_Commit item);
          shortCommit = take 8 commit;
          secretVal = strings_TrimSpace (lf_Secret item);
          secretFP = (if secretVal = [] then None else Some (ComputeSecretFingerprint (jd_hash dc) ruleID secretVal))
      in fingerprinted dc (Finding_zero\<lparr>
           f_Kind := KindSecrets, f_Title := description,
           f_Description := buildGitleaksDescription shortCommit (strings_TrimSpace (lf_Author item)) (lf_Match item) (lf_Secret item),
           f_Severity := SeverityHigh, f_Confidence := 2, f_Status := StatusOpen, f_FilePath := strings_TrimSpace (lf_File item),
           f_LineStart := lf_StartLine item, f_LineEnd := lf_EndLine item, f_RuleID := emptyToNil ruleID,
           f_RuleName := emptyToNil description, f_SecretKind := emptyToNil ruleID, f_CommitSHA := emptyToNil commit,
           f_SecretFingerprint := secretFP, f_CVEIDs := [], f_CWEIDs := [], f_SourceType := ''gitleaks''\<rparr>))"

definition GitleaksParser_Parse :: "Decoder \<Rightarrow> string \<Rightarrow> string + Finding list" where
  "GitleaksParser_Parse dc data =
     (case decodeGitleaksFindings dc data of
        None \<Rightarrow> Inl ''parser.GitleaksParser.Parse: unmarshal: unsupported gitleaks payload''
      | Some report \<Rightarrow> Inr (map (gitleaks_finding dc) report))"

definition GitleaksParser :: "Decoder \<Rightarrow> Parser" where
  "GitleaksParser dc = \<lparr>CanParse = GitleaksParser_CanParse dc, Parse = GitleaksParser_Parse dc\<rparr>"

section \<open>The promise of the interface\<close>

lemma secret_in_ranges: "in_ranges (trufflehog_finding dc item)" "in_ranges (gitleaks_finding dc leak)"
  by (simp_all add: trufflehog_finding_def gitleaks_finding_def in_ranges_def Let_def split: prod.splits)

lemma secret_fingerprints:
  "keyed_by (jd_hash dc) (trufflehog_finding dc item)" "keyed_by (jd_hash dc) (gitleaks_finding dc leak)"
  by (simp_all add: trufflehog_finding_def gitleaks_finding_def Let_def split: prod.splits)

interpretation trufflehog: parser "TruffleHogParser dc" "jd_hash dc" for dc
  by unfold_locales
    (auto simp: TruffleHogParser_def TruffleHogParser_Parse_def secret_in_ranges secret_fingerprints split: sum.splits)

interpretation gitleaks: parser "GitleaksParser dc" "jd_hash dc" for dc
  by unfold_locales
    (auto simp: GitleaksParser_def GitleaksParser_Parse_def secret_in_ranges secret_fingerprints split: option.splits)

end
