(* ===== verification/SiteReports.thy ===== *)
theory SiteReports
  imports ParserBase
begin

text \<open>
  Reports on infrastructure and on sites: \<open>internal/parser/checkov.go\<close>, a section or an array of sections,
  and \<open>zap.go\<close>, with a finding for each instance of an alert.
\<close>

section \<open>Checkov\<close>

record checkovResultConfiguration =
  kc_Instruction :: string
  kc_StartLine :: int
  kc_EndLine :: int
  kc_Content :: string
  kc_Value :: "json option"

definition decode_checkovResultConfiguration :: "json option \<Rightarrow> checkovResultConfiguration option" where
  "decode_checkovResultConfiguration j = do {
     obj \<leftarrow> dec_struct j;
     x1 \<leftarrow> dec_string (json_field obj ''instruction'');
     x2 \<leftarrow> dec_int (json_field obj ''startline'');
     x3 \<leftarrow> dec_int (json_field obj ''endline'');
     x4 \<leftarrow> dec_string (json_field obj ''content'');
     x5 \<leftarrow> dec_any (json_field obj ''value'');
     Some \<lparr>kc_Instruction = x1, kc_StartLine = x2, kc_EndLine = x3, kc_Content = x4, kc_Value = x5\<rparr>
   }"

record checkovResult =
  kr_Result :: string
  kr_ResultsConfiguration :: "checkovResultConfiguration list"

definition decode_checkovResult :: "json option \<Rightarrow> checkovResult option" where
  "decode_checkovResult j = do {
     obj \<leftarrow> dec_struct j;
     x1 \<leftarrow> dec_string (json_field obj ''result'');
     x2 \<leftarrow> dec_list decode_checkovResultConfiguration (json_field obj ''results_configuration'');
     Some \<lparr>kr_Result = x1, kr_ResultsConfiguration = x2\<rparr>
   }"

text \<open>A line of code is an array of anything, a number and a text as a rule.\<close>

definition decode_checkovCodeLine :: "json option \<Rightarrow> json option list option" where
  "decode_checkovCodeLine = dec_list dec_any"

record checkovCheck =
  kk_CheckID :: string
  kk_BCCheckID :: string
  kk_CheckName :: string
  kk_CheckResult :: checkovResult
  kk_CodeBlock :: "json option list list"
  kk_FilePath :: string
  kk_FileAbsPath :: string
  kk_RepoFilePath :: string
  kk_FileLineRange :: "int list"
  kk_Resource :: string
  kk_Evaluations :: json_object
  kk_CheckClass :: string
  kk_FixedDefinition :: string
  kk_EntityTags :: json_object
  kk_CallerFilePath :: string
  kk_CallerFileLineRange :: "int list"
  kk_ResourceAddress :: string
  kk_Severity :: string
  kk_BCCategory :: string
  kk_Benchmarks :: "string list"
  kk_Description :: string
  kk_ShortDescription :: string
  kk_VulnerabilityDetails :: string
  kk_ConnectedNode :: "json option"
  kk_Guideline :: string
  kk_Details :: "string list"
  kk_CheckLen :: int
  kk_DefinitionContextFilePath :: string

definition decode_checkovCheck :: "json option \<Rightarrow> checkovCheck option" where
  "decode_checkovCheck j = do {
     obj \<leftarrow> dec_struct j;
     x1 \<leftarrow> dec_string (json_field obj ''check_id'');
     x2 \<leftarrow> dec_string (json_field obj ''bc_check_id'');
     x3 \<leftarrow> dec_string (json_field obj ''check_name'');
     x4 \<leftarrow> decode_checkovResult (json_field obj ''check_result'');
     x5 \<leftarrow> dec_list decode_checkovCodeLine (json_field obj ''code_block'');
     x6 \<leftarrow> dec_string (json_field obj ''file_path'');
     x7 \<leftarrow> dec_string (json_field obj ''file_abs_path'');
     x8 \<leftarrow> dec_string (json_field obj ''repo_file_path'');
     x9 \<leftarrow> dec_list dec_int (json_field obj ''file_line_range'');
     x10 \<leftarrow> dec_string (json_field obj ''resource'');
     x11 \<leftarrow> dec_struct (json_field obj ''evaluations'');
     x12 \<leftarrow> dec_string (json_field obj ''check_class'');
     x13 \<leftarrow> dec_string (json_field obj ''fixed_definition'');
     x14 \<leftarrow> dec_struct (json_field obj ''entity_tags'');
     x15 \<leftarrow> dec_string (json_field obj ''caller_file_path'');
     x16 \<leftarrow> dec_list dec_int (json_field obj ''caller_file_line_range'');
     x17 \<leftarrow> dec_string (json_field obj ''resource_address'');
     x18 \<leftarrow> dec_string (json_field obj ''severity'');
     x19 \<leftarrow> dec_string (json_field obj ''bc_category'');
     x20 \<leftarrow> dec_list dec_string (json_field obj ''benchmarks'');
     x21 \<leftarrow> dec_string (json_field obj ''description'');
     x22 \<leftarrow> dec_string (json_field obj ''short_description'');
     x23 \<leftarrow> dec_string (json_field obj ''vulnerability_details'');
     x24 \<leftarrow> dec_any (json_field obj ''connected_node'');
     x25 \<leftarrow> dec_string (json_field obj ''guideline'');
     x26 \<leftarrow> dec_list dec_string (json_field obj ''details'');
     x27 \<leftarrow> dec_int (json_field obj ''check_len'');
     x28 \<leftarrow> dec_string (json_field obj ''definition_context_file_path'');
     Some \<lparr>kk_CheckID = x1, kk_BCCheckID = x2, kk_CheckName = x3, kk_CheckResult = x4,
       kk_CodeBlock = x5, kk_FilePath = x6, kk_FileAbsPath = x7, kk_RepoFilePath = x8, kk_FileLineRange = x9,
       kk_Resource = x10, kk_Evaluations = x11, kk_CheckClass = x12, kk_FixedDefinition = x13,
       kk_EntityTags = x14, kk_CallerFilePath = x15, kk_CallerFileLineRange = x16, kk_ResourceAddress = x17,
       kk_Severity = x18, kk_BCCategory = x19, kk_Benchmarks = x20, kk_Description = x21,
       kk_ShortDescription = x22, kk_VulnerabilityDetails = x23, kk_ConnectedNode = x24, kk_Guideline = x25,
       kk_Details = x26, kk_CheckLen = x27, kk_DefinitionContextFilePath = x28\<rparr>
   }"

record checkovReportSection =
  ks_CheckType :: string
  ks_PassedChecks :: "checkovCheck list option"
  ks_FailedChecks :: "checkovCheck list option"
  ks_SkippedChecks :: "checkovCheck list option"
  ks_ParsingErrors :: "json option list option"
  ks_Summary_Passed :: int
  ks_Summary_Failed :: int
  ks_Summary_Skipped :: int
  ks_Summary_ParsingErrors :: int
  ks_ResourceCount :: int
  ks_CheckovVer :: string
  ks_URL :: string

definition decode_checkovReportSection :: "json option \<Rightarrow> checkovReportSection option" where
  "decode_checkovReportSection j = do {
     obj \<leftarrow> dec_struct j;
     x1 \<leftarrow> dec_string (json_field obj ''check_type'');
     o1 \<leftarrow> dec_struct (json_field obj ''results'');
     x2 \<leftarrow> dec_slice decode_checkovCheck (json_field o1 ''passed_checks'');
     x3 \<leftarrow> dec_slice decode_checkovCheck (json_field o1 ''failed_checks'');
     x4 \<leftarrow> dec_slice decode_checkovCheck (json_field o1 ''skipped_checks'');
     x5 \<leftarrow> dec_slice dec_raw (json_field o1 ''parsing_errors'');
     o2 \<leftarrow> dec_struct (json_field obj ''summary'');
     x6 \<leftarrow> dec_int (json_field o2 ''passed'');
     x7 \<leftarrow> dec_int (json_field o2 ''failed'');
     x8 \<leftarrow> dec_int (json_field o2 ''skipped'');
     x9 \<leftarrow> dec_int (json_field o2 ''parsing_errors'');
     x10 \<leftarrow> dec_int (json_field o2 ''resource_count'');
     x11 \<leftarrow> dec_string (json_field o2 ''checkov_version'');
     x12 \<leftarrow> dec_string (json_field obj ''url'');
     Some \<lparr>ks_CheckType = x1, ks_PassedChecks = x2, ks_FailedChecks = x3, ks_SkippedChecks = x4,
       ks_ParsingErrors = x5, ks_Summary_Passed = x6, ks_Summary_Failed = x7, ks_Summary_Skipped = x8,
       ks_Summary_ParsingErrors = x9, ks_ResourceCount = x10, ks_CheckovVer = x11, ks_URL = x12\<rparr>
   }"

definition parseCheckovSections :: "Decoder \<Rightarrow> string \<Rightarrow> checkovReportSection list option" where
  "parseCheckovSections dc data =
     (case jd_parse dc data of
        None \<Rightarrow> None
      | Some j \<Rightarrow>
          (case dec_list decode_checkovReportSection (Some j) of
             Some sections \<Rightarrow> Some sections
           | None \<Rightarrow> map_option (\<lambda>single. [single]) (decode_checkovReportSection (Some j))))"

definition checkov_section :: "checkovReportSection \<Rightarrow> bool" where
  "checkov_section s \<longleftrightarrow>
     (if strings_TrimSpace (ks_CheckType s) \<noteq> [] then True
      else if ks_PassedChecks s \<noteq> None \<or> ks_FailedChecks s \<noteq> None \<or> ks_SkippedChecks s \<noteq> None \<or> ks_ParsingErrors s \<noteq> None then True
      else ks_ResourceCount s > 0 \<or> strings_TrimSpace (ks_CheckovVer s) \<noteq> [])"

definition CheckovParser_CanParse :: "Decoder \<Rightarrow> string \<Rightarrow> bool" where
  "CheckovParser_CanParse dc data =
     (case parseCheckovSections dc data of None \<Rightarrow> False | Some sections \<Rightarrow> list_ex checkov_section sections)"

definition mapCheckovSeverity :: "string \<Rightarrow> int" where
  "mapCheckovSeverity severity =
     (let s = strings_ToUpper (strings_TrimSpace severity) in
      if s = ''CRITICAL'' then SeverityCritical else if s = ''HIGH'' then SeverityHigh
      else if s = ''MEDIUM'' then SeverityMedium else if s = ''LOW'' then SeverityLow
      else if s = ''INFO'' then SeverityInfo else SeverityMedium)"

definition checkovProvider :: "string \<Rightarrow> string" where
  "checkovProvider checkID =
     (let upper = strings_ToUpper (strings_TrimSpace checkID) in
      case find (\<lambda>(pattern, _). strings_HasPrefix upper pattern)
          [(''CKV_AWS_'', ''aws''), (''CKV_AZURE_'', ''azure''), (''CKV_GCP_'', ''gcp''), (''CKV_K8S_'', ''kubernetes''),
           (''CKV_DOCKER_'', ''docker'')] of
        Some (_, v) \<Rightarrow> v | None \<Rightarrow> [])"

definition checkovLines :: "int list \<Rightarrow> checkovResultConfiguration list \<Rightarrow> int \<times> int" where
  "checkovLines lineRange conf =
     (case lineRange of
        a # b # _ \<Rightarrow> (a, b)
      | [a] \<Rightarrow> (a, a)
      | [] \<Rightarrow> (case find (\<lambda>item. kc_StartLine item > 0 \<and> kc_EndLine item > 0) conf of
                 Some item \<Rightarrow> (kc_StartLine item, kc_EndLine item) | None \<Rightarrow> (0, 0)))"

definition checkovCodeSnippet :: "json option list list \<Rightarrow> checkovResultConfiguration list \<Rightarrow> string" where
  "checkovCodeSnippet codeBlock conf =
     (let code = List.map_filter (\<lambda>pair. case pair of _ # Some (JsonString txt) # _ \<Rightarrow> Some txt | _ \<Rightarrow> None) codeBlock;
          contents = filter (\<lambda>v. v \<noteq> []) (map (\<lambda>item. strings_TrimSpace (kc_Content item)) conf)
      in strings_Join (if code \<noteq> [] then code else contents) [CHR 0x0A])"

definition checkovFilePath :: "checkovCheck \<Rightarrow> string" where
  "checkovFilePath check = firstNonEmpty [strings_TrimSpace (kk_RepoFilePath check), strings_TrimSpace (kk_FilePath check),
     strings_TrimSpace (kk_CallerFilePath check), strings_TrimSpace (kk_FileAbsPath check)]"

definition checkovDescription :: "checkovReportSection \<Rightarrow> checkovCheck \<Rightarrow> string" where
  "checkovDescription s check = paragraphs [
     part [] (kk_Description check), part ''Summary: '' (kk_ShortDescription check), part ''Guideline: '' (kk_Guideline check),
     part ''Details: '' (kk_VulnerabilityDetails check), part ''Category: '' (kk_BCCategory check),
     (if kk_Benchmarks check \<noteq> [] then [''Benchmarks: '' @ strings_Join (kk_Benchmarks check) '', ''] else []),
     part ''Check type: '' (ks_CheckType s), part ''Report URL: '' (ks_URL s)]"

definition checkov_finding :: "Decoder \<Rightarrow> checkovReportSection \<Rightarrow> checkovCheck \<Rightarrow> Finding" where
  "checkov_finding dc s check =
     (let (lineStart, lineEnd) = checkovLines (kk_FileLineRange check) (kr_ResultsConfiguration (kk_CheckResult check))
      in fingerprinted dc (Finding_zero\<lparr>
           f_Kind := KindIaC,
           f_Title := firstNonEmpty [strings_TrimSpace (kk_CheckName check), strings_TrimSpace (kk_CheckID check), ''Checkov policy violation''],
           f_Description := checkovDescription s check, f_Severity := mapCheckovSeverity (kk_Severity check), f_Confidence := 2,
           f_Status := StatusOpen, f_FilePath := checkovFilePath check, f_LineStart := lineStart, f_LineEnd := lineEnd,
           f_RuleID := emptyToNil (firstNonEmpty [kk_CheckID check, kk_BCCheckID check]),
           f_RuleName := emptyToNil (firstNonEmpty [kk_CheckName check, kk_ShortDescription check]),
           f_IacResource := emptyToNil (firstNonEmpty [kk_Resource check, kk_ResourceAddress check]),
           f_IacProvider := emptyToNil (checkovProvider (kk_CheckID check)),
           f_CodeSnippet := emptyToNil (checkovCodeSnippet (kk_CodeBlock check) (kr_ResultsConfiguration (kk_CheckResult check))),
           f_CVEIDs := [], f_CWEIDs := [], f_SourceType := ''checkov''\<rparr>))"

definition CheckovParser_Parse :: "Decoder \<Rightarrow> string \<Rightarrow> string + Finding list" where
  "CheckovParser_Parse dc data =
     (case parseCheckovSections dc data of
        None \<Rightarrow> Inl ''parser.CheckovParser.Parse: unmarshal''
      | Some sections \<Rightarrow> Inr [checkov_finding dc s check. s \<leftarrow> sections, check \<leftarrow> case_option [] id (ks_FailedChecks s)])"

definition CheckovParser :: "Decoder \<Rightarrow> Parser" where
  "CheckovParser dc = \<lparr>CanParse = CheckovParser_CanParse dc, Parse = CheckovParser_Parse dc\<rparr>"

section \<open>ZAP\<close>

record zapInstance =
  zi_URI :: string
  zi_Method :: string
  zi_Param :: string
  zi_Attack :: string
  zi_Evidence :: string
  zi_Other :: string

definition decode_zapInstance :: "json option \<Rightarrow> zapInstance option" where
  "decode_zapInstance j = do {
     obj \<leftarrow> dec_struct j;
     x1 \<leftarrow> dec_string (json_field obj ''uri'');
     x2 \<leftarrow> dec_string (json_field obj ''method'');
     x3 \<leftarrow> dec_string (json_field obj ''param'');
     x4 \<leftarrow> dec_string (json_field obj ''attack'');
     x5 \<leftarrow> dec_string (json_field obj ''evidence'');
     x6 \<leftarrow> dec_string (json_field obj ''otherinfo'');
     Some \<lparr>zi_URI = x1, zi_Method = x2, zi_Param = x3, zi_Attack = x4, zi_Evidence = x5, zi_Other = x6\<rparr>
   }"

record zapAlert =
  za_PluginID :: string
  za_AlertRef :: string
  za_Alert :: string
  za_Name :: string
  za_RiskCode :: string
  za_Confidence :: string
  za_RiskDesc :: string
  za_Desc :: string
  za_Instances :: "zapInstance list"
  za_Solution :: string
  za_OtherInfo :: string
  za_Reference :: string
  za_CWEID :: string

definition decode_zapAlert :: "json option \<Rightarrow> zapAlert option" where
  "decode_zapAlert j = do {
     obj \<leftarrow> dec_struct j;
     x1 \<leftarrow> dec_string (json_field obj ''pluginid'');
     x2 \<leftarrow> dec_string (json_field obj ''alertRef'');
     x3 \<leftarrow> dec_string (json_field obj ''alert'');
     x4 \<leftarrow> dec_string (json_field obj ''name'');
     x5 \<leftarrow> dec_string (json_field obj ''riskcode'');
     x6 \<leftarrow> dec_string (json_field obj ''confidence'');
     x7 \<leftarrow> dec_string (json_field obj ''riskdesc'');
     x8 \<leftarrow> dec_string (json_field obj ''desc'');
     x9 \<leftarrow> dec_list decode_zapInstance (json_field obj ''instances'');
     x10 \<leftarrow> dec_string (json_field obj ''solution'');
     x11 \<leftarrow> dec_string (json_field obj ''otherinfo'');
     x12 \<leftarrow> dec_string (json_field obj ''reference'');
     x13 \<leftarrow> dec_string (json_field obj ''cweid'');
     Some \<lparr>za_PluginID = x1, za_AlertRef = x2, za_Alert = x3, za_Name = x4, za_RiskCode = x5,
       za_Confidence = x6, za_RiskDesc = x7, za_Desc = x8, za_Instances = x9, za_Solution = x10,
       za_OtherInfo = x11, za_Reference = x12, za_CWEID = x13\<rparr>
   }"

record zapSite =
  zs_Name :: string
  zs_Alerts :: "zapAlert list"

definition decode_zapSite :: "json option \<Rightarrow> zapSite option" where
  "decode_zapSite j = do {
     obj \<leftarrow> dec_struct j;
     x1 \<leftarrow> dec_string (json_field obj ''@name'');
     x2 \<leftarrow> dec_list decode_zapAlert (json_field obj ''alerts'');
     Some \<lparr>zs_Name = x1, zs_Alerts = x2\<rparr>
   }"

record zapReport =
  zr_ProgramName :: string
  zr_Version :: string
  zr_Sites :: "zapSite list"

definition decode_zapReport :: "json option \<Rightarrow> zapReport option" where
  "decode_zapReport j = do {
     obj \<leftarrow> dec_struct j;
     x1 \<leftarrow> dec_string (json_field obj ''@programName'');
     x2 \<leftarrow> dec_string (json_field obj ''@version'');
     x3 \<leftarrow> dec_list decode_zapSite (json_field obj ''site'');
     Some \<lparr>zr_ProgramName = x1, zr_Version = x2, zr_Sites = x3\<rparr>
   }"

definition ZAPParser_CanParse :: "Decoder \<Rightarrow> string \<Rightarrow> bool" where
  "ZAPParser_CanParse dc data =
     (case do { j \<leftarrow> jd_parse dc data; obj \<leftarrow> dec_struct (Some j); name \<leftarrow> dec_string (json_field obj ''@programName'');
                sites \<leftarrow> dec_slice dec_any (json_field obj ''site''); Some (name, sites) } of
        None \<Rightarrow> False | Some (name, sites) \<Rightarrow> strings_EqualFold (strings_TrimSpace name) ''ZAP'' \<and> sites \<noteq> None)"

definition mapZAPSeverity :: "string \<Rightarrow> int" where
  "mapZAPSeverity riskCode =
     (let s = strings_TrimSpace riskCode in
      if s = ''4'' then SeverityCritical else if s = ''3'' then SeverityHigh else if s = ''2'' then SeverityMedium
      else if s = ''1'' then SeverityLow else SeverityInfo)"

definition mapZAPConfidence :: "string \<Rightarrow> int" where
  "mapZAPConfidence confidence = (case strconv_Atoi (strings_TrimSpace confidence) of
     None \<Rightarrow> 0 | Some val \<Rightarrow> if val < 0 then 0 else if val > 3 then 3 else val)"

definition zapDescription :: "zapAlert \<Rightarrow> string" where
  "zapDescription a = paragraphs [
     part [] (stripHTML (strings_TrimSpace (za_Desc a))), part ''Solution: '' (stripHTML (strings_TrimSpace (za_Solution a))),
     part ''Other info: '' (stripHTML (strings_TrimSpace (za_OtherInfo a))),
     part ''Reference: '' (stripHTML (strings_TrimSpace (za_Reference a)))]"

definition zapEvidence :: "Decoder \<Rightarrow> zapInstance \<Rightarrow> string" where
  "zapEvidence dc i =
     (let payload = List.map_filter (\<lambda>(name, v). let v = strings_TrimSpace v in if v = [] then None else Some (name, JsonString v))
            [(''attack'', zi_Attack i), (''evidence'', zi_Evidence i), (''otherinfo'', zi_Other i)]
      in if payload = [] then [] else jd_text dc (JsonObject payload))"

definition zapCWE :: "string \<Rightarrow> int list" where
  "zapCWE raw = (case strconv_Atoi (strings_TrimSpace raw) of None \<Rightarrow> [] | Some i \<Rightarrow> if i \<le> 0 then [] else [i])"

definition zap_finding :: "Decoder \<Rightarrow> string \<Rightarrow> zapAlert \<Rightarrow> zapInstance \<Rightarrow> Finding" where
  "zap_finding dc siteURL alert inst =
     fingerprinted dc (Finding_zero\<lparr>
       f_Kind := KindDAST,
       f_Title := firstNonEmpty [strings_TrimSpace (za_Alert alert), strings_TrimSpace (za_Name alert),
         strings_TrimSpace (za_AlertRef alert), ''ZAP alert''],
       f_Description := zapDescription alert, f_Severity := mapZAPSeverity (za_RiskCode alert),
       f_Confidence := mapZAPConfidence (za_Confidence alert), f_Status := StatusOpen,
       f_RuleID := emptyToNil (strings_TrimSpace (za_PluginID alert)),
       f_RuleName := emptyToNil (firstNonEmpty [strings_TrimSpace (za_Name alert), strings_TrimSpace (za_Alert alert)]),
       f_URL := emptyToNil (firstNonEmpty [strings_TrimSpace (zi_URI inst), siteURL]),
       f_HTTPMethod := emptyToNil (strings_TrimSpace (zi_Method inst)), f_HTTPParam := emptyToNil (strings_TrimSpace (zi_Param inst)),
       f_HTTPEvidence := zapEvidence dc inst, f_CWEIDs := zapCWE (za_CWEID alert), f_CVEIDs := [], f_SourceType := ''zap''\<rparr>)"

text \<open>An alert without instances is one on the site itself.\<close>

definition zap_instances :: "string \<Rightarrow> zapAlert \<Rightarrow> zapInstance list" where
  "zap_instances siteURL alert =
     (if za_Instances alert = []
      then [\<lparr>zi_URI = siteURL, zi_Method = [], zi_Param = [], zi_Attack = [], zi_Evidence = [], zi_Other = []\<rparr>]
      else za_Instances alert)"

definition ZAPParser_Parse :: "Decoder \<Rightarrow> string \<Rightarrow> string + Finding list" where
  "ZAPParser_Parse dc data =
     (case Option.bind (jd_parse dc data) (decode_zapReport \<circ> Some) of
        None \<Rightarrow> Inl ''parser.ZAPParser.Parse: unmarshal''
      | Some report \<Rightarrow> Inr [zap_finding dc (strings_TrimSpace (zs_Name site)) alert inst.
          site \<leftarrow> zr_Sites report, alert \<leftarrow> zs_Alerts site, inst \<leftarrow> zap_instances (strings_TrimSpace (zs_Name site)) alert])"

definition ZAPParser :: "Decoder \<Rightarrow> Parser" where
  "ZAPParser dc = \<lparr>CanParse = ZAPParser_CanParse dc, Parse = ZAPParser_Parse dc\<rparr>"

section \<open>The promise of the interface\<close>

lemma checkov_in_ranges: "in_ranges (checkov_finding dc s check)"
  by (simp add: checkov_finding_def in_ranges_def mapCheckovSeverity_def Let_def split: prod.splits)

lemma zap_in_ranges: "in_ranges (zap_finding dc siteURL alert inst)"
  by (simp add: zap_finding_def in_ranges_def mapZAPSeverity_def mapZAPConfidence_def Let_def split: option.splits)

lemma site_fingerprints:
  "keyed_by (jd_hash dc) (checkov_finding dc s check)" "keyed_by (jd_hash dc) (zap_finding dc siteURL alert inst)"
  by (simp_all add: checkov_finding_def zap_finding_def Let_def split: prod.splits)

interpretation checkov: parser "CheckovParser dc" "jd_hash dc" for dc
  by unfold_locales
    (auto simp: CheckovParser_def CheckovParser_Parse_def checkov_in_ranges site_fingerprints split: option.splits)

interpretation zap: parser "ZAPParser dc" "jd_hash dc" for dc
  by unfold_locales
    (auto simp: ZAPParser_def ZAPParser_Parse_def zap_in_ranges site_fingerprints split: option.splits)

text \<open>
  Two instances of an alert make findings with one fingerprint: the address, the method and the parameter do
  not count.
\<close>

lemma zap_instances_share: "f_Fingerprint (zap_finding dc siteURL alert inst) = f_Fingerprint (zap_finding dc siteURL' alert inst')"
  by (simp add: zap_finding_def CalculateFingerprint_def fingerprint_text_def fingerprint_parts_def Let_def)

end
