(* ===== verification/GenericReport.thy ===== *)
theory GenericReport
  imports ParserBase
begin

text \<open>
  The format of our own, \<open>internal/parser/generic.go\<close>: numbers within their ranges or names for severity,
  confidence and status, and CWE ids as numbers or texts.
\<close>

section \<open>Numbers or names\<close>

text \<open>A name is looked up, a number is clamped, \<open>null\<close> is zero, anything else an error.\<close>

definition dec_flex :: "(string \<Rightarrow> int) \<Rightarrow> int \<Rightarrow> json option \<Rightarrow> int option" where
  "dec_flex names hi j = (case j of Some (JsonString s) \<Rightarrow> Some (names s) | _ \<Rightarrow> map_option (\<lambda>n. clampInt n 0 hi) (dec_int j))"

definition parseSeverityString :: "string \<Rightarrow> int" where
  "parseSeverityString s =
     (let s = strings_ToLower (strings_TrimSpace s) in
      if s \<in> {''critical'', ''crit''} then SeverityCritical else if s = ''high'' then SeverityHigh
      else if s \<in> {''medium'', ''moderate''} then SeverityMedium else if s = ''low'' then SeverityLow else SeverityInfo)"

definition flexSeverity :: "json option \<Rightarrow> int option" where
  "flexSeverity = dec_flex parseSeverityString 4"

definition confidence_name :: "string \<Rightarrow> int" where
  "confidence_name s =
     (let s = strings_ToLower (strings_TrimSpace s) in
      if s = ''confirmed'' then 3 else if s = ''high'' then 2 else if s = ''medium'' then 1 else 0)"

definition flexConfidence :: "json option \<Rightarrow> int option" where
  "flexConfidence = dec_flex confidence_name 3"

definition status_name :: "string \<Rightarrow> int" where
  "status_name s =
     (let s = strings_ToLower (strings_TrimSpace s) in
      if s \<in> {''risk_accepted'', ''accepted''} then StatusRiskAccepted
      else if s \<in> {''resolved'', ''fixed''} then StatusResolved
      else if s \<in> {''false_positive'', ''fp''} then StatusFP
      else if s = ''confirmed'' then StatusConfirmed else StatusOpen)"

definition flexStatus :: "json option \<Rightarrow> int option" where
  "flexStatus = dec_flex status_name 4"

definition flex_cwe :: "json \<Rightarrow> int option" where
  "flex_cwe item =
     (case dec_int (Some item) of
        Some n \<Rightarrow> Some n
      | None \<Rightarrow>
          (case dec_string (Some item) of
             None \<Rightarrow> None
           | Some str \<Rightarrow> strconv_Atoi (strings_TrimPrefix (strings_ToUpper (strings_TrimSpace str)) ''CWE-'')))"

definition flexCWEIDs :: "json option \<Rightarrow> int list option" where
  "flexCWEIDs j = map_option (List.map_filter flex_cwe) (dec_list (\<lambda>x. x) j)"

definition decode_uuid :: "Decoder \<Rightarrow> json option \<Rightarrow> uuid option" where
  "decode_uuid dc j = (case j of Some (JsonString s) \<Rightarrow> jd_uuid dc s | _ \<Rightarrow> None)"

section \<open>The report\<close>

record genericFinding =
  nf_Kind :: string
  nf_Title :: string
  nf_Description :: string
  nf_Severity :: int
  nf_Confidence :: int
  nf_Status :: int
  nf_FilePath :: string
  nf_LineStart :: int
  nf_LineEnd :: int
  nf_Component :: string
  nf_ComponentVersion :: string
  nf_CVEIDs :: "string list"
  nf_CWEIDs :: "int list"
  nf_CPEURI :: string
  nf_FixedVersion :: "string option"
  nf_PackageEcosystem :: "string option"
  nf_Purl :: "string option"
  nf_CodeSnippet :: "string option"
  nf_CodeFlow :: "json option"
  nf_URL :: "string option"
  nf_HTTPMethod :: "string option"
  nf_HTTPParam :: "string option"
  nf_HTTPEvidence :: "json option"
  nf_IacResource :: "string option"
  nf_IacProvider :: "string option"
  nf_SecretKind :: "string option"
  nf_CommitSHA :: "string option"
  nf_RuleID :: "string option"
  nf_RuleName :: "string option"
  nf_SourceType :: "string option"

definition decode_genericFinding :: "json option \<Rightarrow> genericFinding option" where
  "decode_genericFinding j = do {
     obj \<leftarrow> dec_struct j;
     x1 \<leftarrow> dec_string (json_field obj ''kind'');
     x2 \<leftarrow> dec_string (json_field obj ''title'');
     x3 \<leftarrow> dec_string (json_field obj ''description'');
     x4 \<leftarrow> flexSeverity (json_field obj ''severity'');
     x5 \<leftarrow> flexConfidence (json_field obj ''confidence'');
     x6 \<leftarrow> flexStatus (json_field obj ''status'');
     x7 \<leftarrow> dec_string (json_field obj ''file_path'');
     x8 \<leftarrow> dec_int (json_field obj ''line_start'');
     x9 \<leftarrow> dec_int (json_field obj ''line_end'');
     x10 \<leftarrow> dec_string (json_field obj ''component'');
     x11 \<leftarrow> dec_string (json_field obj ''component_version'');
     x12 \<leftarrow> dec_list dec_string (json_field obj ''cve_ids'');
     x13 \<leftarrow> flexCWEIDs (json_field obj ''cwe_ids'');
     x14 \<leftarrow> dec_string (json_field obj ''cpe_uri'');
     x15 \<leftarrow> dec_ptr dec_string (json_field obj ''fixed_version'');
     x16 \<leftarrow> dec_ptr dec_string (json_field obj ''package_ecosystem'');
     x17 \<leftarrow> dec_ptr dec_string (json_field obj ''purl'');
     x18 \<leftarrow> dec_ptr dec_string (json_field obj ''code_snippet'');
     x19 \<leftarrow> dec_raw (json_field obj ''code_flow'');
     x20 \<leftarrow> dec_ptr dec_string (json_field obj ''url'');
     x21 \<leftarrow> dec_ptr dec_string (json_field obj ''http_method'');
     x22 \<leftarrow> dec_ptr dec_string (json_field obj ''http_param'');
     x23 \<leftarrow> dec_raw (json_field obj ''http_evidence'');
     x24 \<leftarrow> dec_ptr dec_string (json_field obj ''iac_resource'');
     x25 \<leftarrow> dec_ptr dec_string (json_field obj ''iac_provider'');
     x26 \<leftarrow> dec_ptr dec_string (json_field obj ''secret_kind'');
     x27 \<leftarrow> dec_ptr dec_string (json_field obj ''commit_sha'');
     x28 \<leftarrow> dec_ptr dec_string (json_field obj ''rule_id'');
     x29 \<leftarrow> dec_ptr dec_string (json_field obj ''rule_name'');
     x30 \<leftarrow> dec_ptr dec_string (json_field obj ''source_type'');
     Some \<lparr>nf_Kind = x1, nf_Title = x2, nf_Description = x3, nf_Severity = x4, nf_Confidence = x5,
       nf_Status = x6, nf_FilePath = x7, nf_LineStart = x8, nf_LineEnd = x9, nf_Component = x10,
       nf_ComponentVersion = x11, nf_CVEIDs = x12, nf_CWEIDs = x13, nf_CPEURI = x14, nf_FixedVersion = x15,
       nf_PackageEcosystem = x16, nf_Purl = x17, nf_CodeSnippet = x18, nf_CodeFlow = x19, nf_URL = x20,
       nf_HTTPMethod = x21, nf_HTTPParam = x22, nf_HTTPEvidence = x23, nf_IacResource = x24,
       nf_IacProvider = x25, nf_SecretKind = x26, nf_CommitSHA = x27, nf_RuleID = x28, nf_RuleName = x29,
       nf_SourceType = x30\<rparr>
   }"

record genericReport =
  nr_ProjectID :: "uuid option"
  nr_SourceType :: string
  nr_Findings :: "genericFinding list"

definition decode_genericReport :: "Decoder \<Rightarrow> json option \<Rightarrow> genericReport option" where
  "decode_genericReport dc j = do {
     obj \<leftarrow> dec_struct j;
     x1 \<leftarrow> dec_ptr (decode_uuid dc) (json_field obj ''project_id'');
     x2 \<leftarrow> dec_string (json_field obj ''source_type'');
     x3 \<leftarrow> dec_list decode_genericFinding (json_field obj ''findings'');
     Some \<lparr>nr_ProjectID = x1, nr_SourceType = x2, nr_Findings = x3\<rparr>
   }"

definition GenericParser_CanParse :: "Decoder \<Rightarrow> string \<Rightarrow> bool" where
  "GenericParser_CanParse dc data =
     (case do { j \<leftarrow> jd_parse dc data; obj \<leftarrow> dec_struct (Some j); s \<leftarrow> dec_string (json_field obj ''source_type'');
                fs \<leftarrow> dec_slice dec_any (json_field obj ''findings''); Some (s, fs) } of
        None \<Rightarrow> False | Some (s, fs) \<Rightarrow> s \<noteq> [] \<and> fs \<noteq> None)"

definition raw_text :: "Decoder \<Rightarrow> json option \<Rightarrow> string" where
  "raw_text dc raw = (case raw of None \<Rightarrow> [] | Some j \<Rightarrow> jd_text dc j)"

definition generic_finding :: "Decoder \<Rightarrow> genericReport \<Rightarrow> genericFinding \<Rightarrow> Finding" where
  "generic_finding dc report item =
     (let kind = (if strings_TrimSpace (nf_Kind item) \<noteq> []
                  then (case ParseFindingKind (nf_Kind item) of (parsed, ok) \<Rightarrow> if ok then parsed else KindOther) else KindOther);
          sourceType = (case nf_SourceType item of Some s \<Rightarrow> if s \<noteq> [] then s else nr_SourceType report | None \<Rightarrow> nr_SourceType report);
          projectID = (case nr_ProjectID report of Some p \<Rightarrow> p | None \<Rightarrow> uuid_Nil)
      in fingerprinted dc (Finding_zero\<lparr>
           f_Kind := kind,
           f_Title := nf_Title item, f_Description := nf_Description item, f_Severity := nf_Severity item,
           f_Confidence := nf_Confidence item, f_Status := nf_Status item, f_FilePath := nf_FilePath item,
           f_LineStart := nf_LineStart item, f_LineEnd := nf_LineEnd item, f_Component := nf_Component item,
           f_ComponentVersion := nf_ComponentVersion item, f_CVEIDs := nf_CVEIDs item,
           f_CWEIDs := nf_CWEIDs item, f_CPEURI := nf_CPEURI item, f_FixedVersion := nf_FixedVersion item,
           f_PackageEcosystem := nf_PackageEcosystem item, f_Purl := nf_Purl item,
           f_CodeSnippet := nf_CodeSnippet item, f_URL := nf_URL item, f_HTTPMethod := nf_HTTPMethod item,
           f_HTTPParam := nf_HTTPParam item, f_IacResource := nf_IacResource item,
           f_IacProvider := nf_IacProvider item, f_SecretKind := nf_SecretKind item,
           f_CommitSHA := nf_CommitSHA item, f_RuleID := nf_RuleID item, f_RuleName := nf_RuleName item,
           f_CodeFlow := raw_text dc (nf_CodeFlow item), f_HTTPEvidence := raw_text dc (nf_HTTPEvidence item),
           f_ProjectID := projectID, f_SourceType := sourceType\<rparr>))"

definition GenericParser_Parse :: "Decoder \<Rightarrow> string \<Rightarrow> string + Finding list" where
  "GenericParser_Parse dc data =
     (case Option.bind (jd_parse dc data) (decode_genericReport dc \<circ> Some) of
        None \<Rightarrow> Inl ''parser.GenericParser.Parse: unmarshal''
      | Some report \<Rightarrow> Inr (map (generic_finding dc report) (nr_Findings report)))"

definition GenericParser :: "Decoder \<Rightarrow> Parser" where
  "GenericParser dc = \<lparr>CanParse = GenericParser_CanParse dc, Parse = GenericParser_Parse dc\<rparr>"

section \<open>The promise of the interface\<close>

lemma dec_flex_range: "dec_flex names hi j = Some n \<Longrightarrow> (\<And>s. 0 \<le> names s \<and> names s \<le> hi) \<Longrightarrow> 0 \<le> hi \<Longrightarrow> 0 \<le> n \<and> n \<le> hi"
  by (auto simp: dec_flex_def clampInt_def split: option.splits json.splits if_splits)

lemma flex_ranges:
  "flexSeverity j = Some n \<Longrightarrow> 0 \<le> n \<and> n \<le> 4" "flexConfidence j = Some n \<Longrightarrow> 0 \<le> n \<and> n \<le> 3"
  "flexStatus j = Some n \<Longrightarrow> 0 \<le> n \<and> n \<le> 4"
  by (auto simp: flexSeverity_def flexConfidence_def flexStatus_def parseSeverityString_def confidence_name_def status_name_def Let_def
      dest!: dec_flex_range)

lemma decoded_finding_ranges:
  assumes "decode_genericFinding j = Some item"
  shows "0 \<le> nf_Severity item \<and> nf_Severity item \<le> 4" "0 \<le> nf_Confidence item \<and> nf_Confidence item \<le> 3"
    "0 \<le> nf_Status item \<and> nf_Status item \<le> 4"
  using assms by (auto simp: decode_genericFinding_def bind_eq_Some_conv dest!: flex_ranges)

lemma dec_list_members: "dec_list f j = Some ys \<Longrightarrow> y \<in> set ys \<Longrightarrow> \<exists>x. f x = Some y"
proof -
  have those: "those (map g xs) = Some zs \<Longrightarrow> y \<in> set zs \<Longrightarrow> \<exists>x. g x = Some y" for g :: "'c \<Rightarrow> 'a option" and xs zs
    by (induction xs arbitrary: zs) (auto split: option.splits)
  show "dec_list f j = Some ys \<Longrightarrow> y \<in> set ys \<Longrightarrow> \<exists>x. f x = Some y"
    using those [of "f \<circ> Some"] by (fastforce simp: dec_list_def dec_slice_def split: option.splits json.splits)
qed

lemma generic_in_ranges:
  assumes "decode_genericReport dc j = Some report" and "item \<in> set (nr_Findings report)"
  shows "in_ranges (generic_finding dc report item)"
proof -
  from assms(1) have "\<exists>x. dec_list decode_genericFinding x = Some (nr_Findings report)"
    by (auto simp: decode_genericReport_def bind_eq_Some_conv)
  with assms(2) obtain x where "decode_genericFinding x = Some item" by (blast dest: dec_list_members)
  note ranges = decoded_finding_ranges [OF this]
  show ?thesis using ranges ParseFindingKind_range [of "nf_Kind item"]
    by (simp add: generic_finding_def in_ranges_def Let_def split: prod.splits)
qed

lemma generic_fingerprints: "keyed_by (jd_hash dc) (generic_finding dc report item)"
  by (simp add: generic_finding_def Let_def)

interpretation generic: parser "GenericParser dc" "jd_hash dc" for dc
  by unfold_locales
    (auto simp: GenericParser_def GenericParser_Parse_def generic_fingerprints bind_eq_Some_conv generic_in_ranges split: option.splits)

end
