(* ===== verification/Detector.thy ===== *)
theory Detector
  imports AppScreener ScaReports CodeReports SecretReports SiteReports GenericReport "HOL-Library.AList"
begin

text \<open>
  Which parser reads a report (\<open>internal/parser/detect.go\<close>): the first one of the table that can, and the
  kinds of findings whose parser left them open.
\<close>

definition parsers :: "Decoder \<Rightarrow> Sanitizer \<Rightarrow> (string \<times> Parser) list" where
  "parsers dc policy = [
     (''appscreener'', AppScreenerParser dc policy), (''sarif'', SARIFParser dc), (''trivy'', TrivyParser dc),
     (''semgrep'', SemgrepParser dc), (''gosec'', GosecParser dc), (''trufflehog'', TruffleHogParser dc),
     (''gitleaks'', GitleaksParser dc), (''checkov'', CheckovParser dc), (''zap'', ZAPParser dc),
     (''grype'', GrypeParser dc), (''generic'', GenericParser dc)]"

definition NewDetector :: "(string \<times> FindingKind) list \<Rightarrow> (string \<times> FindingKind) list" where
  "NewDetector overrides = fold (\<lambda>(scanner, kind) copied. AList.update (NormalizeScannerName scanner) kind copied) overrides []"

definition resolve_fallback :: "Decoder \<Rightarrow> (string \<times> FindingKind) list \<Rightarrow> Finding \<Rightarrow> Finding" where
  "resolve_fallback dc overrides f =
     (if f_Kind f \<noteq> KindOther then f
      else let resolved = ResolveKind (Some f) overrides in
        if resolved = f_Kind f then f else fingerprinted dc (f\<lparr>f_Kind := resolved\<rparr>))"

definition resolveFallbackKinds :: "Decoder \<Rightarrow> (string \<times> FindingKind) list \<Rightarrow> Finding list \<Rightarrow> Finding list" where
  "resolveFallbackKinds dc overrides findings = map (resolve_fallback dc overrides) findings"

text \<open>The name of the parser and its findings, or its error.\<close>

definition DetectAndParse ::
  "Decoder \<Rightarrow> Sanitizer \<Rightarrow> (string \<times> FindingKind) list \<Rightarrow> string \<Rightarrow> string \<times> (string + Finding list)" where
  "DetectAndParse dc policy overrides data =
     (case find (\<lambda>(_, p). CanParse p data) (parsers dc policy) of
        None \<Rightarrow> ([], Inl ''unsupported format: no parser matched the input'')
      | Some (name, p) \<Rightarrow>
          (case Parse p data of
             Inl e \<Rightarrow> (name, Inl e)
           | Inr findings \<Rightarrow> (name, Inr (resolveFallbackKinds dc overrides findings))))"

section \<open>What every parser promises\<close>

lemma parsers_promise: "(name, p) \<in> set (parsers dc policy) \<Longrightarrow> parser p (jd_hash dc)"
  unfolding parsers_def
  by (auto intro: appscreener.parser_axioms sarif.parser_axioms trivy.parser_axioms semgrep.parser_axioms gosec.parser_axioms
      trufflehog.parser_axioms gitleaks.parser_axioms checkov.parser_axioms zap.parser_axioms grype.parser_axioms
      generic.parser_axioms)

lemma detected_by:
  assumes "DetectAndParse dc policy overrides data = (name, Inr fs)"
  obtains p gs where "(name, p) \<in> set (parsers dc policy)" "Parse p data = Inr gs" "fs = map (resolve_fallback dc overrides) gs"
proof -
  obtain p where "find (\<lambda>(_, p). CanParse p data) (parsers dc policy) = Some (name, p)"
    and "case Parse p data of Inl _ \<Rightarrow> False | Inr gs \<Rightarrow> fs = map (resolve_fallback dc overrides) gs"
    using assms by (auto simp: DetectAndParse_def resolveFallbackKinds_def split: option.splits sum.splits)
  then show thesis using that by (auto simp: find_Some_iff split: sum.splits) (metis nth_mem)
qed

lemma NewDetector_kinds: "ran (map_of (NewDetector overrides)) \<subseteq> snd ` set overrides"
proof -
  have "ran (map_of (fold (\<lambda>(s, k) m. AList.update (NormalizeScannerName s) k m) overrides m)) \<subseteq> ran (map_of m) \<union> snd ` set overrides"
    for m
  proof (induction overrides arbitrary: m)
    case (Cons x xs)
    obtain s k where x: "x = (s, k)" by (cases x)
    have "ran (map_of (AList.update a k m)) \<subseteq> insert k (ran (map_of m))" for a
      by (auto simp: update_conv ran_def split: if_splits)
    then show ?case using Cons [of "AList.update (NormalizeScannerName s) k m"] by (simp add: x) blast
  qed simp
  from this [of "[]"] show ?thesis by (simp add: NewDetector_def)
qed

lemma resolve_fallback_promise:
  assumes "in_ranges f" and "keyed_by (jd_hash dc) f" and "ran (map_of overrides) \<subseteq> {KindSCA..KindOther}"
  shows "in_ranges (resolve_fallback dc overrides f)" and "keyed_by (jd_hash dc) (resolve_fallback dc overrides f)"
proof -
  have "KindSCA \<le> ResolveKind (Some f) overrides \<and> ResolveKind (Some f) overrides \<le> KindOther"
    using assms(3) by (intro ResolveKind_range) auto
  then show "in_ranges (resolve_fallback dc overrides f)"
    using assms(1) by (auto simp: resolve_fallback_def in_ranges_def Let_def)
  show "keyed_by (jd_hash dc) (resolve_fallback dc overrides f)"
    using assms(2) by (simp add: resolve_fallback_def Let_def)
qed


lemma resolve_fallback_open:
  "f_Kind (resolve_fallback dc overrides f) = KindOther \<Longrightarrow>
   resolve_fallback dc overrides f = f \<and> ResolveKind (Some f) overrides = KindOther"
  by (auto simp: resolve_fallback_def Let_def split: if_splits)

section \<open>The findings of a report\<close>


text \<open>A stream of one TruffleHog document.\<close>

definition demo_decoder :: Decoder where
  "demo_decoder = \<lparr>
     jd_parse = (\<lambda>_. None),
     jd_stream = (\<lambda>_. ([JsonObject [(''SourceMetadata'', JsonObject [(''Data'', JsonObject [(''Git'', JsonNull)])]),
       (''DetectorName'', JsonString ''AWS''), (''DecoderName'', JsonString ''PLAIN'')]], True)),
     jd_text = (\<lambda>_. []), jd_float = (\<lambda>_. None), jd_uuid = (\<lambda>_. None), jd_hash = (\<lambda>_. ''h''), jd_walk = (\<lambda>obj. obj)\<rparr>"

definition demo_sanitizer :: Sanitizer where
  "demo_sanitizer = \<lparr>UGCPolicy_Sanitize = (\<lambda>s. s), StrictPolicy_Sanitize = (\<lambda>s. s), html_UnescapeString = (\<lambda>s. s)\<rparr>"

definition demo_item :: trufflehogFinding where
  "demo_item = (the (decode_trufflehogFinding None))\<lparr>hf_SourceMetadata := \<lparr>he_Data = [(''Git'', JsonNull)]\<rparr>,
     hf_DetectorName := ''AWS'', hf_DecoderName := ''PLAIN''\<rparr>"

lemma demo_decoder_simps [simp]: "jd_parse demo_decoder data = None" "jd_hash demo_decoder s = ''h''"
  by (simp_all add: demo_decoder_def)

lemma demo_detected:
  "DetectAndParse demo_decoder demo_sanitizer overrides ''{'' = (''trufflehog'', Inr [trufflehog_finding demo_decoder demo_item])"
proof -
  have blank: "strings_TrimSpace ''AWS'' = ''AWS''" "strings_TrimSpace ''PLAIN'' = ''PLAIN''" "strings_TrimSpace ''{'' = ''{''"
    by (simp_all add: strings_TrimSpace_def strings_TrimLeftSpace_def is_space_def)
  obtain j where j: "jd_stream demo_decoder ''{'' = ([j], True)" "decode_trufflehogFinding (Some j) = Some demo_item"
    by (simp add: demo_decoder_def demo_item_def decode_trufflehogFinding_def decode_trufflehogSourceMetadata_def json_field_def
        strings_EqualFold_def strings_ToLower_def lower_char_def dec_string_def dec_int_def dec_bool_def dec_map_def dec_struct_def)
  have "isTrufflehogFinding demo_item" by (simp add: isTrufflehogFinding_def demo_item_def blank)
  with j blank have t: "TruffleHogParser_CanParse demo_decoder ''{''" "TruffleHogParser_Parse demo_decoder ''{'' = Inr [trufflehog_finding demo_decoder demo_item]"
    by (simp_all add: TruffleHogParser_CanParse_def TruffleHogParser_Parse_def parseTruffleHogFindings_def)
  have "f_Kind (trufflehog_finding demo_decoder demo_item) = KindSecrets"
    by (simp add: trufflehog_finding_def Let_def split: prod.splits)
  with t show ?thesis
    by (simp add: DetectAndParse_def parsers_def AppScreenerParser_def AppScreenerParser_CanParse_def decode_report_def SARIFParser_def
        SARIFParser_CanParse_def TrivyParser_def TrivyParser_CanParse_def SemgrepParser_def SemgrepParser_CanParse_def GosecParser_def
        GosecParser_CanParse_def TruffleHogParser_def resolveFallbackKinds_def resolve_fallback_def)
qed


end
