(* ===== verification/Scans.thy ===== *)
theory Scans
  imports Gates Detector
begin

text \<open>
  Scans: \<open>internal/storage/scans_repo.go\<close> and \<open>internal/api/scans.go\<close>. A pipeline uploads a report with a
  token of the project; the findings of the report, the links to them and the scan are stored in one
  transaction, and their ids are published to the enrichment workers after the commit.

  The multipart form is given as it was decoded; what a handler publishes is part of its result.
\<close>

section \<open>Repository\<close>


definition insert_scan :: "time \<Rightarrow> Scan \<Rightarrow> DB \<Rightarrow> err + unit \<times> DB" where
  "insert_scan now scan d =
     (if sc_ID scan \<in> sc_ID ` set (tb_scans d) then Inl ErrUnique
      else if sc_ProjectID scan \<notin> fst ` set (tb_projects d) \<or>
         (case sc_TokenID scan of None \<Rightarrow> False | Some t \<Rightarrow> t \<notin> t_ID ` set (tb_tokens d)) \<or>
         (case sc_TriggeredByUser scan of None \<Rightarrow> False | Some u \<Rightarrow> u \<notin> u_ID ` set (tb_users d))
      then Inl (Err ''violates foreign key constraint'')
      else Inr ((), d\<lparr>tb_scans := tb_scans d @
        [scan\<lparr>sc_StartedAt := now, sc_FinishedAt := None, sc_FindingsImported := 0, sc_FindingsUpdated := 0\<rparr>]\<rparr>))"

text \<open>\<open>Create\<close> fills in the id, which the caller sees.\<close>

definition ScansRepo_Create :: "Scan \<Rightarrow> Scan op" where
  "ScansRepo_Create scan w =
     (let (scan, w) = (if sc_ID scan = uuid_Nil then (case uuid_New w of (i, w) \<Rightarrow> (scan\<lparr>sc_ID := i\<rparr>, w)) else (scan, w)) in
      case db_exec (insert_scan (w_now w) scan) w of
        (Inl e, w) \<Rightarrow> (Inl e, w) | (Inr _, w) \<Rightarrow> (Inr scan, w))"

definition complete_scan :: "time \<Rightarrow> uuid \<Rightarrow> string \<Rightarrow> string \<Rightarrow> int \<Rightarrow> int \<Rightarrow> DB \<Rightarrow> DB" where
  "complete_scan now i status scanner imported updated d = d\<lparr>tb_scans := map (\<lambda>s. if sc_ID s = i
     then s\<lparr>sc_FinishedAt := Some now, sc_Status := status, sc_Scanner := scanner, sc_FindingsImported := imported,
            sc_FindingsUpdated := updated\<rparr> else s) (tb_scans d)\<rparr>"

definition ScansRepo_Complete :: "uuid \<Rightarrow> string \<Rightarrow> string \<Rightarrow> int \<Rightarrow> int \<Rightarrow> unit op" where
  "ScansRepo_Complete i status scanner imported updated w =
     db_exec (\<lambda>d. Inr ((), complete_scan (w_now w) i status scanner imported updated d)) w"

definition fail_scan :: "time \<Rightarrow> uuid \<Rightarrow> DB \<Rightarrow> DB" where
  "fail_scan now i d = d\<lparr>tb_scans := map (\<lambda>s. if sc_ID s = i
     then s\<lparr>sc_FinishedAt := Some now, sc_Status := ScanStatusFailed, sc_FindingsImported := 0, sc_FindingsUpdated := 0\<rparr>
     else s) (tb_scans d)\<rparr>"

definition ScansRepo_Fail :: "uuid \<Rightarrow> unit op" where
  "ScansRepo_Fail i w = db_exec (\<lambda>d. Inr ((), fail_scan (w_now w) i d)) w"

definition link_finding :: "uuid \<Rightarrow> uuid \<Rightarrow> bool \<Rightarrow> DB \<Rightarrow> err + unit \<times> DB" where
  "link_finding f s isNew d =
     (if list_ex (\<lambda>l. sf_FindingID l = f \<and> sf_ScanID l = s) (tb_scan_findings d) then Inr ((), d)
      else if f \<notin> f_ID ` set (tb_findings d) \<or> s \<notin> sc_ID ` set (tb_scans d) then Inl (Err ''violates foreign key constraint'')
      else Inr ((), d\<lparr>tb_scan_findings := tb_scan_findings d @ [\<lparr>sf_ScanID = s, sf_FindingID = f, sf_IsNew = isNew\<rparr>]\<rparr>))"

definition ScansRepo_LinkFinding :: "uuid \<Rightarrow> uuid \<Rightarrow> bool \<Rightarrow> unit op" where
  "ScansRepo_LinkFinding f s isNew = db_exec (link_finding f s isNew)"

text \<open>A cursor that does not decode, \<open>Some None\<close>, is ignored.\<close>

record ScanListFilter =
  sl_ProjectID :: uuid
  sl_Branch :: string
  sl_Scanner :: string
  sl_Status :: string
  sl_Cursor :: "(time \<times> uuid) option option"
  sl_Limit :: int

definition scan_key :: "Scan \<Rightarrow> time \<times> uuid" where
  "scan_key s = (sc_StartedAt s, sc_ID s)"

definition scan_where :: "ScanListFilter \<Rightarrow> (Scan \<Rightarrow> bool) list" where
  "scan_where f = [\<lambda>s. sc_ProjectID s = sl_ProjectID f] @
     cond_if (strings_TrimSpace (sl_Branch f) \<noteq> []) (\<lambda>s. sc_Branch s = sl_Branch f) @
     cond_if (strings_TrimSpace (sl_Scanner f) \<noteq> []) (\<lambda>s. sc_Scanner s = sl_Scanner f) @
     cond_if (strings_TrimSpace (sl_Status f) \<noteq> []) (\<lambda>s. sc_Status s = sl_Status f) @
     (case sl_Cursor f of Some (Some c) \<Rightarrow> [\<lambda>s. scan_key s < c] | _ \<Rightarrow> [])"

definition ScansRepo_ListByProject :: "ScanListFilter \<Rightarrow> (Scan list \<times> (time \<times> uuid) option) op" where
  "ScansRepo_ListByProject f w =
     (let limit = (if sl_Limit f \<le> 0 \<or> sl_Limit f > 200 then 50 else nat (sl_Limit f)) in
      case db_query (\<lambda>d. take (limit + 1) (order_rows False scan_key (filter (whereClause (scan_where f)) (tb_scans d)))) w of
        (Inl e, w) \<Rightarrow> (Inl e, w)
      | (Inr out, w) \<Rightarrow>
          if length out > limit then (Inr (take limit out, Some (scan_key (out ! (limit - 1)))), w) else (Inr (out, None), w))"

definition ScansRepo_Get :: "uuid \<Rightarrow> Scan op" where
  "ScansRepo_Get i = db_query_row (\<lambda>d. find (\<lambda>s. sc_ID s = i) (tb_scans d))"

text \<open>
  The findings of a scan with their flag. A row has the 43 columns of \<open>findingColumns\<close> and the flag, but the
  loop scans it into 43 variables (the fingerprint of the secret is left out), which is an error of the driver.
\<close>

definition scan_finding_columns :: nat where "scan_finding_columns = 43 + 1"
definition scan_finding_dests :: nat where "scan_finding_dests = 43"

definition scan_rows :: "nat \<Rightarrow> nat \<Rightarrow> 'a list \<Rightarrow> err + 'a list" where
  "scan_rows columns dests rows =
     (if rows \<noteq> [] \<and> columns \<noteq> dests
      then Inl (Err ''number of field descriptions must equal number of destinations'') else Inr rows)"

definition linked_findings :: "uuid \<Rightarrow> DB \<Rightarrow> (Finding \<times> bool) list" where
  "linked_findings i d = sort_key (\<lambda>(f, _). (- f_Severity f, f_ID f))
     [(with_score d f, sf_IsNew l). l \<leftarrow> tb_scan_findings d, sf_ScanID l = i, f \<leftarrow> tb_findings d, f_ID f = sf_FindingID l]"

definition ListFindings :: "uuid \<Rightarrow> int \<Rightarrow> (Finding \<times> bool) list op" where
  "ListFindings i want w =
     (let limit = (if want \<le> 0 \<or> want > 200 then 200 else nat want) in
      case db_query (\<lambda>d. take limit (linked_findings i d)) w of
        (Inl e, w) \<Rightarrow> (Inl e, w)
      | (Inr rows, w) \<Rightarrow> (scan_rows scan_finding_columns scan_finding_dests rows, w))"

definition ListRecentForFinding :: "uuid \<Rightarrow> int \<Rightarrow> Scan list op" where
  "ListRecentForFinding i want =
     (let limit = (if want \<le> 0 \<or> want > 50 then 5 else nat want) in
      db_query (\<lambda>d. take limit (order_rows False sc_StartedAt
        [s. l \<leftarrow> tb_scan_findings d, sf_FindingID l = i, s \<leftarrow> tb_scans d, sc_ID s = sf_ScanID l])))"

section \<open>Uploading a report\<close>

text \<open>
  \<open>n, _ := strconv.Atoi(s)\<close> keeps the number of a text that is out of range: the nearest \<open>int\<close>.
\<close>

definition atoi_value :: "string \<Rightarrow> int" where
  "atoi_value s =
     (case strconv_Atoi s of
        Some n \<Rightarrow> n
      | None \<Rightarrow>
          let digits = (case s of c # cs \<Rightarrow> if c = CHR ''-'' \<or> c = CHR ''+'' then cs else s | [] \<Rightarrow> []) in
          if digits = [] \<or> \<not> list_all is_digit digits then 0
          else if hd s = CHR ''-'' then - (2 ^ 63) else 2 ^ 63 - 1)"

definition wrap_shift_mb :: "int \<Rightarrow> int" where
  "wrap_shift_mb mb = (mb * 2 ^ 20 + 2 ^ 63) mod 2 ^ 64 - 2 ^ 63"

definition maxScanSizeBytes :: "string \<Rightarrow> int" where
  "maxScanSizeBytes env =
     (let mb = atoi_value (strings_TrimSpace env); mb = (if mb \<le> 0 then 50 else mb) in wrap_shift_mb mb)"

definition maxScanFormMemoryBytes :: "string \<Rightarrow> int" where
  "maxScanFormMemoryBytes env =
     (case strconv_Atoi (strings_TrimSpace env) of
        None \<Rightarrow> 8 * 2 ^ 20 | Some mb \<Rightarrow> if mb \<le> 0 then 8 * 2 ^ 20 else wrap_shift_mb mb)"

text \<open>
  The form: the values of its text fields, and the first file named \<open>report\<close> with its size and what opening
  and reading it gives. A form that is not multipart, or larger than the limit, is \<open>None\<close>.
\<close>

record ReportFile =
  rf_Size :: int
  rf_Open :: "string option option"

record ScanForm =
  sf_Value :: "string \<Rightarrow> string list"
  sf_Report :: "ReportFile option"

definition formVal :: "ScanForm \<Rightarrow> string \<Rightarrow> string" where
  "formVal form key = (case sf_Value form key of v # _ \<Rightarrow> strings_TrimSpace v | [] \<Rightarrow> [])"

definition nonempty :: "string \<Rightarrow> string option" where
  "nonempty s = (if s = [] then None else Some s)"

definition new_scan :: "APIToken \<Rightarrow> ScanForm \<Rightarrow> int \<Rightarrow> Scan" where
  "new_scan tok form rawSize =
     \<lparr>sc_ID = uuid_Nil, sc_ProjectID = t_ProjectID tok, sc_CommitSHA = formVal form ''commit_sha'',
      sc_Branch = formVal form ''branch'',
      sc_Scanner = (let scanner = formVal form ''scanner'' in if scanner = [] then ''unknown'' else scanner),
      sc_ScannerVersion = nonempty (formVal form ''scanner_version''), sc_CIJobURL = nonempty (formVal form ''ci_job_url''),
      sc_StartedAt = 0, sc_FinishedAt = None, sc_FindingsImported = 0, sc_FindingsUpdated = 0,
      sc_Status = ScanStatusRunning, sc_TokenID = Some (t_ID tok), sc_TriggeredByUser = None,
      sc_AssetHint = nonempty (formVal form ''asset_hint''), sc_RawReportSize = Some rawSize\<rparr>"

text \<open>The fields the handler fills in.\<close>

definition finding_times :: "(string \<Rightarrow> string) \<Rightarrow> time \<Rightarrow> Finding \<Rightarrow> Finding" where
  "finding_times H now f =
     (let f = (if f_FirstSeen f = 0 then f\<lparr>f_FirstSeen := now\<rparr> else f);
          f = (if f_LastSeen f = 0 then f\<lparr>f_LastSeen := now\<rparr> else f);
          f = (if f_TimesSeen f = 0 then f\<lparr>f_TimesSeen := 1\<rparr> else f)
      in if f_Fingerprint f = [] then f\<lparr>f_Fingerprint := CalculateFingerprint H f\<rparr> else f)"

definition scanned :: "(string \<Rightarrow> string) \<Rightarrow> Scan \<Rightarrow> time \<Rightarrow> Finding \<Rightarrow> Finding" where
  "scanned H scan now f =
     finding_times H now (f\<lparr>f_ProjectID := sc_ProjectID scan, f_CommitSHA := Some (sc_CommitSHA scan)\<rparr>)"

definition scan_error :: "string \<Rightarrow> response" where
  "scan_error msg = respondError 500 ''INTERNAL_ERROR'' msg"

text \<open>The loop over the findings: the ids in the order of the findings, and how many were new and known.\<close>

fun store_findings ::
  "(string \<Rightarrow> string) \<Rightarrow> Scan \<Rightarrow> time \<Rightarrow> Finding list \<Rightarrow> World \<Rightarrow> (response + uuid list \<times> int \<times> int) \<times> World" where
  "store_findings H scan now [] w = (Inr ([], 0, 0), w)"
| "store_findings H scan now (f # fs) w =
     (case FindingsRepo_CreateTx (scanned H scan now f) w of
        (Inl e, w) \<Rightarrow> (Inl (scan_error ''failed to upsert finding''), w)
      | (Inr (isNew, g), w) \<Rightarrow>
          (case ScansRepo_LinkFinding (f_ID g) (sc_ID scan) isNew w of
             (Inl e, w) \<Rightarrow> (Inl (scan_error ''failed to link finding to scan''), w)
           | (Inr _, w) \<Rightarrow>
               (case store_findings H scan now fs w of
                  (Inl resp, w) \<Rightarrow> (Inl resp, w)
                | (Inr (ids, imported, updated), w) \<Rightarrow>
                    (Inr (f_ID g # ids, if isNew then imported + 1 else imported, if isNew then updated else updated + 1), w))))"

text \<open>What follows the creation of the scan, up to the commit.\<close>

definition scan_body ::
  "Decoder \<Rightarrow> Sanitizer \<Rightarrow> (string \<times> FindingKind) list \<Rightarrow> string \<Rightarrow> Scan \<Rightarrow> World \<Rightarrow>
   (response + Scan \<times> uuid list \<times> int \<times> int) \<times> World" where
  "scan_body dc policy overrides data scan w =
     (case DetectAndParse dc policy overrides data of
        (_, Inl e) \<Rightarrow> (Inl (respondError 400 ''PARSE_ERROR'' e), w)
      | (detected, Inr findings) \<Rightarrow>
          let scan = (if detected \<noteq> [] \<and> sc_Scanner scan = ''unknown'' then scan\<lparr>sc_Scanner := detected\<rparr> else scan) in
          (case store_findings (jd_hash dc) scan (w_now w) findings w of
             (Inl resp, w) \<Rightarrow> (Inl resp, w)
           | (Inr (ids, imported, updated), w) \<Rightarrow>
               (case ScansRepo_Complete (sc_ID scan) ScanStatusCompleted (sc_Scanner scan) imported updated w of
                  (Inl e, w) \<Rightarrow> (Inl (scan_error ''failed to finalize scan''), w)
                | (Inr _, w) \<Rightarrow> (Inr (scan, ids, imported, updated), w))))"

text \<open>
  The transaction. A failure after the creation rolls back and then marks the scan as failed, outside of the
  transaction that was to create it.
\<close>

definition run_scan ::
  "Decoder \<Rightarrow> Sanitizer \<Rightarrow> (string \<times> FindingKind) list \<Rightarrow> string \<Rightarrow> Scan \<Rightarrow> World \<Rightarrow> (response \<times> uuid list) \<times> World" where
  "run_scan dc policy overrides data scan w =
     (case db_call w of (ok, w1) \<Rightarrow>
        if \<not> ok then ((scan_error ''failed to begin transaction'', []), w1)
        else case ScansRepo_Create scan w1 of
          (Inl e, w2) \<Rightarrow> ((scan_error ''failed to create scan'', []), w2\<lparr>w_db := w_db w1\<rparr>)
        | (Inr scan, w2) \<Rightarrow>
            (case scan_body dc policy overrides data scan w2 of
               (Inl resp, w3) \<Rightarrow> ((resp, []), snd (ScansRepo_Fail (sc_ID scan) (w3\<lparr>w_db := w_db w1\<rparr>)))
             | (Inr (scan, ids, imported, updated), w3) \<Rightarrow>
                 (case db_call w3 of (ok, w4) \<Rightarrow>
                    if \<not> ok
                    then ((scan_error ''failed to commit scan'', []), snd (ScansRepo_Fail (sc_ID scan) (w4\<lparr>w_db := w_db w1\<rparr>)))
                    else ((Response 200 (ScanData (sc_ID scan) imported updated), ids), w4))))"

definition bad_scan :: "string \<Rightarrow> response" where
  "bad_scan msg = respondError 400 ''VALIDATION_ERROR'' msg"

definition handleCreateScan ::
  "Decoder \<Rightarrow> Sanitizer \<Rightarrow> (string \<times> FindingKind) list \<Rightarrow> string \<Rightarrow> ScanForm option \<Rightarrow> Request \<Rightarrow> World \<Rightarrow>
   (response \<times> uuid list) \<times> World" where
  "handleCreateScan dc policy overrides env form rq w =
     (case rq_Token rq of
        None \<Rightarrow> ((respondError 401 ''AUTHENTICATION_REQUIRED'' ''api token required'', []), w)
      | Some tok \<Rightarrow>
          (case form of
             None \<Rightarrow> ((bad_scan ''invalid multipart form'', []), w)
           | Some form \<Rightarrow>
               if formVal form ''commit_sha'' = [] \<or> formVal form ''branch'' = []
               then ((bad_scan ''commit_sha and branch are required'', []), w)
               else (case sf_Report form of
                 None \<Rightarrow> ((bad_scan ''report is required'', []), w)
               | Some hdr \<Rightarrow>
                   (case rf_Open hdr of
                      None \<Rightarrow> ((bad_scan ''failed to open report'', []), w)
                    | Some None \<Rightarrow> ((bad_scan ''failed to read report'', []), w)
                    | Some (Some file) \<Rightarrow>
                        run_scan dc policy overrides (take (nat (maxScanSizeBytes env)) file) (new_scan tok form (rf_Size hdr)) w))))"

section \<open>Reading scans\<close>

definition handleListScans ::
  "(string \<Rightarrow> string) \<Rightarrow> (time \<times> uuid) option option \<Rightarrow> Request \<Rightarrow> World \<Rightarrow>
   (response + Scan list \<times> nat \<times> (time \<times> uuid) option) \<times> World" where
  "handleListScans query cursor rq w =
     (case rq_Param rq ''id'' of
        None \<Rightarrow> (Inl (bad_scan ''invalid project id''), w)
      | Some projectID \<Rightarrow>
          let limit = (case strconv_Atoi (query ''limit'') of Some n \<Rightarrow> n | None \<Rightarrow> 50) in
          (case ScansRepo_ListByProject \<lparr>sl_ProjectID = projectID, sl_Branch = query ''branch'', sl_Scanner = query ''scanner'',
                  sl_Status = query ''status'', sl_Cursor = cursor, sl_Limit = limit\<rparr> w of
             (Inl e, w) \<Rightarrow> (Inl (scan_error ''failed to list scans''), w)
           | (Inr (scans, nxt), w) \<Rightarrow> (Inr (scans, length scans, nxt), w)))"

text \<open>Whether the caller may see the scan; \<open>Some\<close> is the response that refuses.\<close>

definition scan_access :: "Request \<Rightarrow> Scan \<Rightarrow> World \<Rightarrow> response option \<times> World" where
  "scan_access rq scan w =
     (case rq_Token rq of
        Some tok \<Rightarrow>
          if t_ProjectID tok \<noteq> sc_ProjectID scan
          then (Some (respondError 403 ''FORBIDDEN'' ''token does not belong to this project''), w) else (None, w)
      | None \<Rightarrow>
          (case rq_User rq of
             None \<Rightarrow> (Some (respondError 401 ''AUTHENTICATION_REQUIRED'' ''authentication required''), w)
           | Some user \<Rightarrow>
               if User_IsAdmin user then (None, w)
               else (case GetRole (u_ID user) (sc_ProjectID scan) w of
                 (Inr (Some role), w) \<Rightarrow>
                   if role < RoleViewer then (Some (respondError 403 ''FORBIDDEN'' ''access denied''), w) else (None, w)
               | (_, w) \<Rightarrow> (Some (respondError 403 ''FORBIDDEN'' ''access denied''), w))))"

definition handleGetScan :: "Request \<Rightarrow> World \<Rightarrow> (response + Scan \<times> (Finding \<times> bool) list) \<times> World" where
  "handleGetScan rq w =
     (case rq_Param rq ''id'' of
        None \<Rightarrow> (Inl (bad_scan ''invalid scan id''), w)
      | Some scanID \<Rightarrow>
          (case ScansRepo_Get scanID w of
             (Inl e, w) \<Rightarrow>
               (Inl (if e = ErrNoRows then respondError 404 ''NOT_FOUND'' ''scan not found''
                     else scan_error ''failed to get scan''), w)
           | (Inr scan, w) \<Rightarrow>
               (case scan_access rq scan w of
                  (Some resp, w) \<Rightarrow> (Inl resp, w)
                | (None, w) \<Rightarrow>
                    (case ListFindings scanID 200 w of
                       (Inl e, w) \<Rightarrow> (Inl (scan_error ''failed to list scan findings''), w)
                     | (Inr findings, w) \<Rightarrow> (Inr (scan, findings), w)))))"

end
