(* ===== verification/ScansCorrect.thy ===== *)
theory ScansCorrect
  imports Scans FindingsCorrect
begin

text \<open>
  An upload stores everything or nothing, and what reading a scan with findings comes to.
\<close>

section \<open>The parts of the transaction\<close>

definition linked :: "DB \<Rightarrow> uuid \<Rightarrow> uuid set" where
  "linked d s = sf_FindingID ` {l \<in> set (tb_scan_findings d). sf_ScanID l = s}"

definition finding_ids :: "DB \<Rightarrow> uuid set" where
  "finding_ids d = f_ID ` set (tb_findings d)"

lemma CreateTx_effect:
  assumes "FindingsRepo_CreateTx f w = (Inr (isNew, g), w')" and "findings_ok (w_db w)"
  shows "findings_ok (w_db w')" "f_ID g \<in> finding_ids (w_db w')" "finding_ids (w_db w) \<subseteq> finding_ids (w_db w')"
    "length (tb_findings (w_db w')) = length (tb_findings (w_db w)) + (if isNew then 1 else 0)"
    "tb_scans (w_db w') = tb_scans (w_db w)" "tb_scan_findings (w_db w') = tb_scan_findings (w_db w)"
proof -
  obtain h i where h: "upsert_finding h (w_db w) = Inr ((i, isNew), w_db w')" "f_ID g = i"
    using Create_Inr [OF assms(1) [unfolded CreateTx_is_Create]] by metis
  show "findings_ok (w_db w')" using upsert_ok [OF assms(2) h(1)] .
  note r = upsert_result [OF h(1)]
  have ids: "finding_ids (d\<lparr>tb_findings := map (\<lambda>r. if P r then seen_again e r else r) xs\<rparr>) = f_ID ` set xs" for d P e xs
    by (auto simp: finding_ids_def image_Un image_image)
  show "f_ID g \<in> finding_ids (w_db w')" "finding_ids (w_db w) \<subseteq> finding_ids (w_db w')"
    using r(2,3) h(2) ids by (cases isNew; auto simp: finding_ids_def)+
  show "length (tb_findings (w_db w')) = length (tb_findings (w_db w)) + (if isNew then 1 else 0)"
    "tb_scans (w_db w') = tb_scans (w_db w)" "tb_scan_findings (w_db w') = tb_scan_findings (w_db w)"
    using r(2,3) by (cases isNew; simp)+
qed

lemma LinkFinding_effect:
  assumes "ScansRepo_LinkFinding f s isNew w = (Inr x, w')"
  shows "f \<in> linked (w_db w') s" "linked (w_db w) s \<subseteq> linked (w_db w') s" "tb_findings (w_db w') = tb_findings (w_db w)"
    "tb_scans (w_db w') = tb_scans (w_db w)"
proof -
  have "w_db w' = w_db w \<and> f \<in> linked (w_db w) s \<or>
      w_db w' = (w_db w)\<lparr>tb_scan_findings := tb_scan_findings (w_db w) @ [\<lparr>sf_ScanID = s, sf_FindingID = f, sf_IsNew = isNew\<rparr>]\<rparr>"
    using db_exec_Inr [OF assms [unfolded ScansRepo_LinkFinding_def]]
    by (force simp: link_finding_def linked_def list_ex_iff split: if_splits)
  then show "f \<in> linked (w_db w') s" "linked (w_db w) s \<subseteq> linked (w_db w') s" "tb_findings (w_db w') = tb_findings (w_db w)"
    "tb_scans (w_db w') = tb_scans (w_db w)"
    by (force simp: linked_def)+
qed

text \<open>What the loop leaves: every finding stored and linked, none lost, the two counters their number.\<close>

definition stored :: "Scan \<Rightarrow> DB \<Rightarrow> DB \<Rightarrow> uuid list \<Rightarrow> int \<Rightarrow> int \<Rightarrow> bool" where
  "stored scan d d' ids imported updated \<longleftrightarrow>
     findings_ok d' \<and> tb_scans d' = tb_scans d \<and> 0 \<le> imported \<and> 0 \<le> updated \<and> imported + updated = int (length ids) \<and>
     int (length (tb_findings d')) = int (length (tb_findings d)) + imported \<and>
     set ids \<subseteq> finding_ids d' \<and> set ids \<subseteq> linked d' (sc_ID scan) \<and>
     finding_ids d \<subseteq> finding_ids d' \<and> linked d (sc_ID scan) \<subseteq> linked d' (sc_ID scan)"

lemma stored_step:
  assumes "findings_ok d1" "i \<in> finding_ids d1" "finding_ids d \<subseteq> finding_ids d1"
    "length (tb_findings d1) = length (tb_findings d) + (if isNew then 1 else 0)" "tb_scans d1 = tb_scans d"
    "tb_scan_findings d1 = tb_scan_findings d"
    and "i \<in> linked d2 (sc_ID scan)" "linked d1 (sc_ID scan) \<subseteq> linked d2 (sc_ID scan)" "tb_findings d2 = tb_findings d1"
    "tb_scans d2 = tb_scans d1"
    and "stored scan d2 d' ids imported updated"
  shows "stored scan d d' (i # ids) (if isNew then imported + 1 else imported) (if isNew then updated else updated + 1)"
proof -
  have "linked d (sc_ID scan) = linked d1 (sc_ID scan)" using assms(6) by (simp add: linked_def)
  moreover have "finding_ids d2 = finding_ids d1" using assms(9) by (simp add: finding_ids_def)
  ultimately show ?thesis using assms unfolding stored_def by (auto split: if_splits)
qed

lemma store_findings_effect:
  assumes "store_findings H scan now fs w = (Inr (ids, imported, updated), w')" and "findings_ok (w_db w)"
  shows "stored scan (w_db w) (w_db w') ids imported updated \<and> length ids = length fs"
  using assms
proof (induction fs arbitrary: w ids imported updated)
  case Nil
  then show ?case by (auto simp: stored_def)
next
  case (Cons f fs)
  obtain isNew g w1 where 1: "FindingsRepo_CreateTx (scanned H scan now f) w = (Inr (isNew, g), w1)"
    using Cons.prems(1) by (auto split: prod.splits sum.splits)
  obtain x w2 where 2: "ScansRepo_LinkFinding (f_ID g) (sc_ID scan) isNew w1 = (Inr x, w2)"
    using Cons.prems(1) 1 by (auto split: prod.splits sum.splits)
  obtain ids' n u where 3: "store_findings H scan now fs w2 = (Inr (ids', n, u), w')"
    and r: "ids = f_ID g # ids'" "imported = (if isNew then n + 1 else n)" "updated = (if isNew then u else u + 1)"
    using Cons.prems(1) 1 2 by (auto split: prod.splits sum.splits)
  note c = CreateTx_effect [OF 1 Cons.prems(2)] and l = LinkFinding_effect [OF 2]
  have "findings_ok (w_db w2)" using c(1) l(3) by (simp add: findings_ok_def)
  note IH = Cons.IH [OF 3 this]
  show ?case using stored_step [OF c l conjunct1 [OF IH]] IH r by simp
qed

lemma Fail_unknown:
  assumes "i \<notin> sc_ID ` set (tb_scans (w_db w))"
  shows "w_db (snd (ScansRepo_Fail i w)) = w_db w"
proof -
  have "map (\<lambda>s. if sc_ID s = i then g s else s) (tb_scans (w_db w)) = tb_scans (w_db w)" for g
    using assms by (intro map_idI) auto
  then have same: "fail_scan now i (w_db w) = w_db w" for now by (simp add: fail_scan_def)
  obtain r w' where e: "ScansRepo_Fail i w = (r, w')" by fastforce
  show ?thesis
  proof (cases r)
    case (Inl err)
    then show ?thesis using db_exec_Inl e unfolding ScansRepo_Fail_def by fastforce
  next
    case (Inr x)
    then show ?thesis using db_exec_Inr [of _ w x w'] e same unfolding ScansRepo_Fail_def by fastforce
  qed
qed

lemma Create_scan_effect:
  assumes "ScansRepo_Create scan w = (Inr scan', w')"
  obtains row where "w_db w' = (w_db w)\<lparr>tb_scans := tb_scans (w_db w) @ [row]\<rparr>" "sc_ID row = sc_ID scan'"
    "sc_ID row \<notin> sc_ID ` set (tb_scans (w_db w))" "sc_ProjectID row = sc_ProjectID scan" "sc_ProjectID scan' = sc_ProjectID scan"
proof -
  let ?s = "if sc_ID scan = uuid_Nil then scan\<lparr>sc_ID := w_uuid w (w_next w)\<rparr> else scan"
    and ?w0 = "if sc_ID scan = uuid_Nil then w\<lparr>w_next := Suc (w_next w)\<rparr> else w"
  have 1: "db_exec (insert_scan (w_now w) ?s) ?w0 = (Inr (), w')" and 0: "scan' = ?s"
    using assms by (auto simp: ScansRepo_Create_def uuid_New_def Let_def split: if_splits prod.splits sum.splits)
  have w0: "w_db ?w0 = w_db w" "sc_ProjectID ?s = sc_ProjectID scan" by simp_all
  have "insert_scan (w_now w) ?s (w_db w) = Inr ((), w_db w')" using db_exec_Inr [OF 1] w0 by simp
  then show thesis
    by (intro that [of "?s\<lparr>sc_StartedAt := w_now w, sc_FinishedAt := None, sc_FindingsImported := 0, sc_FindingsUpdated := 0\<rparr>"])
      (auto simp: insert_scan_def 0 split: if_splits)
qed


section \<open>Everything or nothing\<close>

lemma scan_body_effect:
  assumes "scan_body dc policy overrides data scan w = (Inr (scan', ids, imported, updated), w')" and "findings_ok (w_db w)"
  shows "sc_ID scan' = sc_ID scan \<and> (\<exists>now d. stored scan (w_db w) d ids imported updated \<and>
    w_db w' = complete_scan now (sc_ID scan) ScanStatusCompleted (sc_Scanner scan') imported updated d)"
proof -
  obtain detected fs where d: "DetectAndParse dc policy overrides data = (detected, Inr fs)"
    using assms(1) by (cases "DetectAndParse dc policy overrides data"; cases "snd (DetectAndParse dc policy overrides data)")
      (auto simp: scan_body_def)
  define s where "s = (if detected \<noteq> [] \<and> sc_Scanner scan = ''unknown'' then scan\<lparr>sc_Scanner := detected\<rparr> else scan)"
  note body = assms(1) [unfolded scan_body_def d prod.case sum.case Let_def, folded s_def]
  obtain ids' n u w1 where 1: "store_findings (jd_hash dc) s (w_now w) fs w = (Inr (ids', n, u), w1)"
    using body by (cases "store_findings (jd_hash dc) s (w_now w) fs w"; cases "fst (store_findings (jd_hash dc) s (w_now w) fs w)") auto
  have same: "ids' = ids" "n = imported" "u = updated" "s = scan'"
    and 2: "ScansRepo_Complete (sc_ID s) ScanStatusCompleted (sc_Scanner s) n u w1 = (Inr (), w')"
    using body 1 by (auto split: prod.splits sum.splits)
  have i: "sc_ID scan' = sc_ID scan" unfolding same(4) [symmetric] s_def by simp
  have "stored scan (w_db w) (w_db w1) ids imported updated"
    using store_findings_effect [OF 1 assms(2)] i same by (simp add: stored_def)
  moreover have "w_db w' = complete_scan (w_now w1) (sc_ID scan) ScanStatusCompleted (sc_Scanner scan') imported updated (w_db w1)"
    using db_exec_Inr [OF 2 [unfolded ScansRepo_Complete_def]] i same by simp
  ultimately show ?thesis using i by blast
qed

lemma complete_last:
  assumes "i \<notin> sc_ID ` set ss" and "sc_ID row = i" and "tb_scans d = ss @ [row]"
  obtains row' where "tb_scans (complete_scan now i status scanner imported updated d) = ss @ [row']"
    "sc_ID row' = i" "sc_ProjectID row' = sc_ProjectID row" "sc_Status row' = status" "sc_FindingsImported row' = imported"
    "sc_FindingsUpdated row' = updated"
proof -
  have "map (\<lambda>s. if sc_ID s = i then g s else s) ss = ss" for g using assms(1) by (intro map_idI) auto
  then show thesis using assms(2,3)
    by (intro that [of "row\<lparr>sc_FinishedAt := Some now, sc_Status := status, sc_Scanner := scanner, sc_FindingsImported := imported,
            sc_FindingsUpdated := updated\<rparr>"]) (auto simp: complete_scan_def)
qed

text \<open>What an upload is worth: the new row of the table of scans, and the findings behind its numbers.\<close>

definition uploaded :: "uuid \<Rightarrow> DB \<Rightarrow> DB \<Rightarrow> Scan \<Rightarrow> uuid list \<Rightarrow> bool" where
  "uploaded project d d' scan ids \<longleftrightarrow>
     tb_scans d' = tb_scans d @ [scan] \<and> sc_ID scan \<notin> sc_ID ` set (tb_scans d) \<and>
     sc_ProjectID scan = project \<and> sc_Status scan = ScanStatusCompleted \<and>
     sc_FindingsImported scan + sc_FindingsUpdated scan = int (length ids) \<and>
     int (length (tb_findings d')) = int (length (tb_findings d)) + sc_FindingsImported scan \<and>
     set ids \<subseteq> finding_ids d' \<and> set ids \<subseteq> linked d' (sc_ID scan) \<and> findings_ok d'"

lemma uploaded_all:
  assumes s: "stored scan0 d1 d2 ids imported updated" and c: "w_db w4 = complete_scan now (sc_ID scan0) ScanStatusCompleted scanner imported updated d2"
    and d1: "d1 = d\<lparr>tb_scans := tb_scans d @ [row]\<rparr>" and row: "sc_ID row = sc_ID scan0" "sc_ID row \<notin> sc_ID ` set (tb_scans d)"
  shows "\<exists>scan. uploaded (sc_ProjectID row) d (w_db w4) scan ids \<and> sc_ID scan = sc_ID scan0 \<and> sc_FindingsImported scan = imported \<and>
    sc_FindingsUpdated scan = updated"
proof -
  have t: "tb_scans d2 = tb_scans d @ [row]" using s d1 by (simp add: stored_def)
  obtain row' where r: "tb_scans (w_db w4) = tb_scans d @ [row']" "sc_ID row' = sc_ID scan0" "sc_ProjectID row' = sc_ProjectID row"
    "sc_Status row' = ScanStatusCompleted" "sc_FindingsImported row' = imported" "sc_FindingsUpdated row' = updated"
    unfolding c using complete_last [OF row(2) refl t] row(1) by metis
  have "tb_findings (w_db w4) = tb_findings d2" "tb_scan_findings (w_db w4) = tb_scan_findings d2"
    by (simp_all add: c complete_scan_def)
  then have "uploaded (sc_ProjectID row) d (w_db w4) row' ids"
    using s r row d1 by (simp add: uploaded_def stored_def finding_ids_def linked_def findings_ok_def)
  then show ?thesis using r by blast
qed

lemma scan_body_refuses: "scan_body dc policy overrides data scan w = (Inl resp, w') \<Longrightarrow> status_of resp \<noteq> 200"
proof -
  have "store_findings H s now fs w = (Inl resp, w') \<Longrightarrow> status_of resp \<noteq> 200" for H s now fs w w'
    by (induction fs arbitrary: w) (auto simp: scan_error_def respondError_def split: prod.splits sum.splits)
  then show "scan_body dc policy overrides data scan w = (Inl resp, w') \<Longrightarrow> status_of resp \<noteq> 200"
    by (auto simp: scan_body_def Let_def scan_error_def respondError_def split: prod.splits sum.splits)
qed

lemma run_scan_effect:
  assumes "run_scan dc policy overrides data scan w = ((resp, ids), w')" and "findings_ok (w_db w)"
  shows "status_of resp \<noteq> 200 \<and> w_db w' = w_db w \<and> ids = [] \<or>
    (\<exists>row. resp = Response 200 (ScanData (sc_ID row) (sc_FindingsImported row) (sc_FindingsUpdated row)) \<and>
       uploaded (sc_ProjectID scan) (w_db w) (w_db w') row ids)"
proof -
  obtain ok w1 where 1: "db_call w = (ok, w1)" by fastforce
  note db1 = db_call_db [OF 1]
  consider (refused) "status_of resp \<noteq> 200" "w_db w' = w_db w" "ids = []"
    | (body) s w2 where "ok" "ScansRepo_Create scan w1 = (Inr s, w2)"
    using assms(1) 1 db1
    by (cases ok; cases "ScansRepo_Create scan w1"; cases "fst (ScansRepo_Create scan w1)")
      (auto simp: run_scan_def scan_error_def respondError_def)
  then show ?thesis
  proof cases
    case (body s w2)
    obtain row where row: "w_db w2 = (w_db w1)\<lparr>tb_scans := tb_scans (w_db w1) @ [row]\<rparr>" "sc_ID row = sc_ID s"
      "sc_ID row \<notin> sc_ID ` set (tb_scans (w_db w1))" "sc_ProjectID row = sc_ProjectID scan"
      using Create_scan_effect [OF body(2)] by metis
    have fresh: "sc_ID s \<notin> sc_ID ` set (tb_scans (w_db w))" using row(2,3) db1 by simp
    have failed: "w_db (snd (ScansRepo_Fail (sc_ID s) (v\<lparr>w_db := w_db w1\<rparr>))) = w_db w" for v
      using Fail_unknown [of "sc_ID s" "v\<lparr>w_db := w_db w1\<rparr>"] fresh db1 by simp
    note run = assms(1) [unfolded run_scan_def 1 prod.case body(2) sum.case]
    show ?thesis
    proof (cases "scan_body dc policy overrides data s w2")
      case (Pair r w3)
      show ?thesis
      proof (cases r)
        case (Inl err)
        then show ?thesis using run body(1) Pair failed scan_body_refuses [of dc policy overrides data s w2 err w3] by auto
      next
        case (Inr x)
        obtain s' ids' n u where x: "x = (s', ids', n, u)" by (cases x)
        have "findings_ok (w_db w2)" using assms(2) row(1) db1 by (simp add: findings_ok_def)
        note eff = scan_body_effect [OF Pair [unfolded Inr x] this]
        then obtain now d where e: "stored s (w_db w2) d ids' n u" "sc_ID s' = sc_ID s"
          "w_db w3 = complete_scan now (sc_ID s) ScanStatusCompleted (sc_Scanner s') n u d" by blast
        obtain ok4 w4 where 4: "db_call w3 = (ok4, w4)" by fastforce
        show ?thesis
        proof (cases ok4)
          case True
          obtain scan' where "uploaded (sc_ProjectID row) (w_db w1) (w_db w3) scan' ids'" "sc_ID scan' = sc_ID s"
            "sc_FindingsImported scan' = n" "sc_FindingsUpdated scan' = u"
            using uploaded_all [OF e(1,3) row(1,2,3)] by blast
          then show ?thesis using run body(1) Pair Inr x 4 True db_call_db [OF 4] db1 row(4) e(2) by auto
        next
          case False
          then show ?thesis using run body(1) Pair Inr x 4 failed e(2) by (auto simp: scan_error_def respondError_def)
        qed
      qed
    qed
  qed simp
qed


definition demo_token_scan :: APIToken where
  "demo_token_scan = \<lparr>t_ID = 3, t_ProjectID = 5, t_Name = ''ci'', t_Prefix = [], t_TokenHash = [], t_Scopes = [''scans:write''],
     t_CreatedByUserID = 7, t_CreatedByEmail = [], t_LastUsedAt = None, t_ExpiresAt = None, t_RevokedAt = None, t_CreatedAt = 0\<rparr>"

definition scans_rq :: Request where
  "scans_rq = \<lparr>rq_User = None, rq_Token = Some demo_token_scan, rq_Session = None,
     rq_Param = (\<lambda>p. if p = ''id'' then Some 8 else None), rq_TokenInvalid = False\<rparr>"

definition scans_db :: DB where
  "scans_db = demo_db\<lparr>tb_tokens := [demo_token_scan]\<rparr>"

definition demo_form :: ScanForm where
  "demo_form = \<lparr>sf_Value = (\<lambda>key. if key = ''commit_sha'' then [''c0ffee''] else if key = ''branch'' then [''main''] else []),
     sf_Report = Some \<lparr>rf_Size = 1, rf_Open = Some (Some ''{'')\<rparr>\<rparr>"


lemma demo_upload:
  "\<exists>i ids w'. handleCreateScan demo_decoder demo_sanitizer [] [] (Some demo_form) scans_rq (World_start scans_db 9) =
     ((Response 200 (ScanData i 1 0), ids), w')"
proof -
  have blank: "strings_TrimSpace ''c0ffee'' = ''c0ffee''" "strings_TrimSpace ''main'' = ''main''" "strings_TrimSpace [] = []"
    by (simp_all add: strings_TrimSpace_def is_space_def)
  have size: "take (nat (maxScanSizeBytes [])) ''{'' = ''{''"
    by (simp add: maxScanSizeBytes_def atoi_value_def strconv_Atoi_def blank wrap_shift_mb_def Let_def)
  define f where "f = trufflehog_finding demo_decoder demo_item"
  have f: "f_Kind f = KindSecrets" "f_Fingerprint f = ''h''" "f_ID f = uuid_Nil" "f_FirstSeen f = 0" "f_LastSeen f = 0" "f_TimesSeen f = 0"
    by (simp_all add: f_def trufflehog_finding_def fingerprinted_def CalculateFingerprint_def Let_def Finding_zero_def split: prod.splits)
  have stored: "f_Fingerprint demo_finding = ''fp''" "f_ID demo_finding = 11" by (simp_all add: demo_finding_def)
  note detected = demo_detected [of "[]", folded f_def]
  show ?thesis
    by (simp add: handleCreateScan_def scans_rq_def formVal_def demo_form_def blank size run_scan_def World_start_def
        ScansRepo_Create_def new_scan_def uuid_New_def insert_scan_def scans_db_def demo_db_def DB_seed_def DB_empty_def demo_token_scan_def scan_body_def
        detected scanned_def finding_times_def FindingsRepo_CreateTx_def create_defaults_def f findingKindToDB_def
        upsert_finding_def stored ScansRepo_LinkFinding_def link_finding_def ScansRepo_Complete_def complete_scan_def Let_def nonempty_def)
qed


section \<open>Reading\<close>

lemma ListFindings_none:
  assumes "ListFindings i want w = (Inr fs, w')"
  shows "fs = [] \<and> linked_findings i (w_db w) = []"
proof -
  obtain rows where "db_query (\<lambda>d. take (if want \<le> 0 \<or> want > 200 then 200 else nat want) (linked_findings i d)) w = (Inr rows, w')"
    and "scan_rows scan_finding_columns scan_finding_dests rows = Inr fs"
    using assms by (auto simp: ListFindings_def Let_def split: prod.splits sum.splits)
  then show ?thesis
    by (auto dest!: db_query_Inr simp: scan_rows_def scan_finding_columns_def scan_finding_dests_def split: if_splits)
qed

lemma scan_access_db: "scan_access rq scan w = (r, w') \<Longrightarrow> w_db w' = w_db w"
  by (cases "rq_Token rq"; cases "rq_User rq"; cases "GetRole (u_ID (the (rq_User rq))) (sc_ProjectID scan) w")
    (auto simp: scan_access_def dest: GetRole_db split: if_splits sum.splits option.splits)

text \<open>
  C38. A scan that has findings cannot be shown: whenever the handler answers with a scan, no finding is linked
  to it. The query selects one column more than the loop over its rows takes, so the first row is an error.
\<close>

theorem shown_scan_has_no_findings:
  assumes "handleGetScan rq w = (Inr (scan, fs), w')"
  shows "fs = [] \<and> linked_findings (sc_ID scan) (w_db w) = []"
proof -
  obtain i w1 where get: "ScansRepo_Get i w = (Inr scan, w1)" and rest: "(case scan_access rq scan w1 of
      (Some resp, w) \<Rightarrow> (Inl resp, w)
    | (None, w) \<Rightarrow> (case ListFindings i 200 w of
        (Inl e, w) \<Rightarrow> (Inl (scan_error ''failed to list scan findings''), w) | (Inr findings, w) \<Rightarrow> (Inr (scan, findings), w)))
      = (Inr (scan, fs), w')"
    using assms unfolding handleGetScan_def by (auto split: option.splits sum.splits prod.splits)
  have i: "sc_ID scan = i" and w1: "w_db w1 = w_db w"
    using db_query_row_Inr [OF get [unfolded ScansRepo_Get_def]] db_query_row_db [OF get [unfolded ScansRepo_Get_def]]
    by (auto simp: find_Some_iff)
  obtain r w2 where a: "scan_access rq scan w1 = (r, w2)" by fastforce
  have "w_db w2 = w_db w1" by (rule scan_access_db [OF a])
  moreover have "ListFindings i 200 w2 = (Inr fs, w')" using rest a by (auto split: option.splits sum.splits prod.splits)
  ultimately show ?thesis using ListFindings_none i w1 by metis
qed

definition shown_db :: DB where
  "shown_db = scans_db\<lparr>tb_scans := [(new_scan demo_token_scan demo_form 0)\<lparr>sc_ID := 8\<rparr>]\<rparr>"

theorem shown_scan_has_no_findings_witness:
  "\<exists>scan w'. handleGetScan scans_rq (World_start shown_db 9) = (Inr (scan, []), w') \<and> linked_findings (sc_ID scan) shown_db = []"
proof -
  have "\<exists>scan w'. handleGetScan scans_rq (World_start shown_db 9) = (Inr (scan, []), w')"
    by (simp add: handleGetScan_def scans_rq_def ScansRepo_Get_def World_start_def shown_db_def scan_access_def new_scan_def
        ListFindings_def linked_findings_def scan_rows_def scans_db_def demo_db_def DB_seed_def DB_empty_def)
  then show ?thesis using shown_scan_has_no_findings by (fastforce simp: World_start_def)
qed

end
