(* ===== verification/Import.thy ===== *)
theory Import
  imports Scans
begin

text \<open>
  The import of a report by a user (\<open>internal/api/import.go\<close>): each finding is validated and stored for itself,
  with an event, and the findings that are new are published to the enrichment workers. What a handler
  publishes is part of its result; metrics and the summary in the log are left out.
\<close>

record ImportResult =
  im_Format :: string
  im_Imported :: int
  im_Updated :: int
  im_Errors :: "(nat \<times> string) list"
  im_Published :: "uuid list"

text \<open>The query parameter \<open>project_id\<close>: absent, not an id (\<open>Some None\<close>), or an id.\<close>

definition ProjectIDFromQuery :: "uuid option option \<Rightarrow> ProjectIDExtractor" where
  "ProjectIDFromQuery param rq w =
     (case param of Some (Some p) \<Rightarrow> (Inr p, w) | _ \<Rightarrow> (Inl (Err ''invalid UUID''), w))"

text \<open>What became of a finding: rejected with a message, or stored.\<close>

datatype outcome = Rejected string | Stored uuid bool

definition created_event :: "uuid \<Rightarrow> Finding \<Rightarrow> uuid \<Rightarrow> time \<Rightarrow> FindingEvent" where
  "created_event i f user now = \<lparr>ev_ID = i, ev_FindingID = f_ID f, ev_UserID = Some user, ev_EventType = ''created'',
     ev_Payload = CreatedPayload (f_SourceType f) (f_Fingerprint f), ev_CreatedAt = now\<rparr>"

definition seen_again_event :: "uuid \<Rightarrow> Finding \<Rightarrow> time \<Rightarrow> FindingEvent" where
  "seen_again_event i f now = \<lparr>ev_ID = i, ev_FindingID = f_ID f, ev_UserID = None, ev_EventType = ''seen_again'',
     ev_Payload = RawPayload ''{}'', ev_CreatedAt = now\<rparr>"

text \<open>A failure to store the event is ignored (or logged).\<close>

definition import_finding :: "(string \<Rightarrow> string) \<Rightarrow> uuid \<Rightarrow> uuid \<Rightarrow> time \<Rightarrow> Finding \<Rightarrow> World \<Rightarrow> outcome \<times> World" where
  "import_finding H user overrideProjectID now f w =
     (let f = (if overrideProjectID \<noteq> uuid_Nil then f\<lparr>f_ProjectID := overrideProjectID\<rparr> else f) in
      if f_ProjectID f = uuid_Nil then (Rejected ''project_id is required'', w)
      else let f = finding_times H now f in
        (case Finding_Validate f of
           Some msg \<Rightarrow> (Rejected msg, w)
         | None \<Rightarrow>
             (case FindingsRepo_Create f w of
                (Inl e, w) \<Rightarrow> (Rejected ''failed to save finding'', w)
              | (Inr (isNew, f), w) \<Rightarrow>
                  (case uuid_New w of (i, w) \<Rightarrow>
                     let event = (if isNew then created_event i f user (w_now w) else seen_again_event i f (w_now w))
                     in (Stored (f_ID f) isNew, snd (FindingEventsRepo_Create event w))))))"

fun import_findings :: "(string \<Rightarrow> string) \<Rightarrow> uuid \<Rightarrow> uuid \<Rightarrow> time \<Rightarrow> Finding list \<Rightarrow> World \<Rightarrow> outcome list \<times> World" where
  "import_findings H user overrideProjectID now [] w = ([], w)"
| "import_findings H user overrideProjectID now (f # fs) w =
     (case import_finding H user overrideProjectID now f w of (out, w) \<Rightarrow>
        (case import_findings H user overrideProjectID now fs w of (outs, w) \<Rightarrow> (out # outs, w)))"

definition new_ids :: "outcome list \<Rightarrow> uuid list" where
  "new_ids outs = List.map_filter (\<lambda>out. case out of Stored i isNew \<Rightarrow> if isNew then Some i else None | Rejected _ \<Rightarrow> None) outs"

definition import_errors :: "outcome list \<Rightarrow> (nat \<times> string) list" where
  "import_errors outs = List.map_filter (\<lambda>(i, out). case out of Rejected msg \<Rightarrow> Some (i, msg) | Stored _ _ \<Rightarrow> None) (enumerate 0 outs)"

definition import_result :: "string \<Rightarrow> outcome list \<Rightarrow> ImportResult" where
  "import_result format outs = \<lparr>im_Format = format, im_Imported = int (length (new_ids outs)),
     im_Updated = int (length (filter (\<lambda>out. case out of Stored _ isNew \<Rightarrow> \<not> isNew | Rejected _ \<Rightarrow> False) outs)),
     im_Errors = import_errors outs, im_Published = new_ids outs\<rparr>"

definition import_limit :: nat where "import_limit = 50 * 2 ^ 20"

definition import_report ::
  "Decoder \<Rightarrow> Sanitizer \<Rightarrow> (string \<times> FindingKind) list \<Rightarrow> uuid \<Rightarrow> string option \<Rightarrow> User \<Rightarrow> World \<Rightarrow>
   (response + ImportResult) \<times> World" where
  "import_report dc policy overrides overrideProjectID body user w =
     (case body of
        None \<Rightarrow> (Inl (respondError 400 ''VALIDATION_ERROR'' ''failed to read request body''), w)
      | Some data \<Rightarrow>
          (case DetectAndParse dc policy overrides (take import_limit data) of
             (_, Inl e) \<Rightarrow> (Inl (respondError 400 ''PARSE_ERROR'' e), w)
           | (format, Inr findings) \<Rightarrow>
               if findings = [] \<and> format \<noteq> ''grype''
               then (Inl (respondError 400 ''VALIDATION_ERROR'' ''no findings found in input''), w)
               else (case import_findings (jd_hash dc) (u_ID user) overrideProjectID (w_now w) findings w of
                 (outs, w) \<Rightarrow> (Inr (import_result format outs), w))))"

definition handleImport ::
  "Decoder \<Rightarrow> Sanitizer \<Rightarrow> (string \<times> FindingKind) list \<Rightarrow> uuid option option \<Rightarrow> string option \<Rightarrow> Request \<Rightarrow> World \<Rightarrow>
   (response + ImportResult) \<times> World" where
  "handleImport dc policy overrides param body rq w =
     (if param = Some None then (Inl (respondError 400 ''VALIDATION_ERROR'' ''invalid project_id query param''), w)
      else let overrideProjectID = (case param of Some (Some p) \<Rightarrow> p | _ \<Rightarrow> uuid_Nil) in
      case rq_User rq of
        None \<Rightarrow> (Inl Panic, w)
      | Some user \<Rightarrow>
          if User_IsAdmin user then import_report dc policy overrides overrideProjectID body user w
          else if overrideProjectID = uuid_Nil
          then (Inl (respondError 400 ''VALIDATION_ERROR'' ''project_id query param is required''), w)
          else (case GetRole (u_ID user) overrideProjectID w of
            (Inl e, w) \<Rightarrow> (Inl (respondError 500 ''INTERNAL_ERROR'' ''failed to check permissions''), w)
          | (Inr role, w) \<Rightarrow>
              if role = None \<or> the role < RoleTriager then (Inl (respondError 403 ''FORBIDDEN'' ''forbidden''), w)
              else import_report dc policy overrides overrideProjectID body user w))"

end
