(* ===== verification/ImportCorrect.thy ===== *)
theory ImportCorrect
  imports Import ScansCorrect TriageCorrect
begin

text \<open>What an import may do, and that its numbers are those of the table.\<close>

section \<open>Growth of the table\<close>

text \<open>
  The rows that were there keep their identity, project and status; behind them stand the new ones.
\<close>

definition kept_row :: "Finding \<Rightarrow> Finding \<Rightarrow> bool" where
  "kept_row r r' \<longleftrightarrow> f_ID r' = f_ID r \<and> f_Fingerprint r' = f_Fingerprint r \<and> f_ProjectID r' = f_ProjectID r \<and>
     f_Status r' = f_Status r \<and> f_FirstSeen r' = f_FirstSeen r"

definition grown :: "(Finding \<Rightarrow> bool) \<Rightarrow> nat \<Rightarrow> DB \<Rightarrow> DB \<Rightarrow> bool" where
  "grown P n d d' \<longleftrightarrow> findings_ok d' \<and> (\<exists>olds news. tb_findings d' = olds @ news \<and> list_all2 kept_row (tb_findings d) olds \<and>
     length news = n \<and> (\<forall>f \<in> set news. P f))"

lemma kept_row_refl [simp]: "kept_row r r"
  by (simp add: kept_row_def)

lemma grown_none: "findings_ok d' \<Longrightarrow> tb_findings d' = tb_findings d \<Longrightarrow> grown P 0 d d'"
  by (auto simp: grown_def list_all2_refl)

lemma grown_trans:
  assumes "grown P m d d1" and "grown P n d1 d2" and P: "\<And>r r'. kept_row r r' \<Longrightarrow> P r \<Longrightarrow> P r'"
  shows "grown P (m + n) d d2"
proof -
  obtain o1 n1 where 1: "tb_findings d1 = o1 @ n1" "list_all2 kept_row (tb_findings d) o1" "length n1 = m" "\<forall>f \<in> set n1. P f"
    using assms(1) by (auto simp: grown_def)
  obtain o2 n2 where 2: "tb_findings d2 = o2 @ n2" "list_all2 kept_row (o1 @ n1) o2" "length n2 = n" "\<forall>f \<in> set n2. P f" "findings_ok d2"
    using assms(2) 1(1) by (auto simp: grown_def)
  obtain a b where o2: "o2 = a @ b" "list_all2 kept_row o1 a" "list_all2 kept_row n1 b"
    using 2(2) by (auto simp: list_all2_append1)
  have "list_all2 kept_row (tb_findings d) a"
    using list_all2_trans [of kept_row kept_row kept_row, OF _ 1(2) o2(2)] by (simp add: kept_row_def)
  moreover have "\<forall>f \<in> set b. P f" using o2(3) 1(4) by (induction rule: list_all2_induct) (auto dest: P)
  moreover have "length b = m" using o2(3) 1(3) by (simp add: list_all2_lengthD)
  ultimately show ?thesis using 2 o2(1) unfolding grown_def by (intro conjI exI [of _ a] exI [of _ "b @ n2"]) auto
qed

lemma upsert_grown:
  assumes "upsert_finding f d = Inr ((i, ins), d')" and "findings_ok d" and "P (inserted_row f)"
  shows "grown P (if ins then 1 else 0) d d'"
proof (cases ins)
  case True
  then have "tb_findings d' = tb_findings d @ [inserted_row f]" using upsert_result(2) [OF assms(1)] by simp
  then show ?thesis using True upsert_ok [OF assms(2,1)] assms(3)
    unfolding grown_def by (intro conjI exI [of _ "tb_findings d"] exI [of _ "[inserted_row f]"]) (auto simp: list_all2_refl)
next
  case False
  then have "tb_findings d' = map (\<lambda>r. if f_Fingerprint r = f_Fingerprint f then seen_again f r else r) (tb_findings d)"
    using upsert_result(3) [OF assms(1)] by simp
  then show ?thesis using False upsert_ok [OF assms(2,1)]
    by (auto simp: grown_def list_all2_map2 kept_row_def intro!: list_all2_refl)
qed

lemma event_create_keeps: "tb_findings (w_db (snd (FindingEventsRepo_Create ev w))) = tb_findings (w_db w)"
proof -
  obtain r w' where e: "db_exec (insert_event ev) w = (r, w')" by fastforce
  then show ?thesis using db_exec_Inl [of "insert_event ev" w _ w'] db_exec_Inr [of "insert_event ev" w _ w'] insert_event_Inr
    by (cases r) (fastforce simp: FindingEventsRepo_Create_def)+
qed

section \<open>One finding\<close>

text \<open>Where the new rows of an import may be: in the project that was named, if one was.\<close>

definition in_project :: "uuid \<Rightarrow> Finding \<Rightarrow> bool" where
  "in_project p f \<longleftrightarrow> (p = uuid_Nil \<or> f_ProjectID f = p) \<and> f_ProjectID f \<noteq> uuid_Nil"

definition is_new :: "outcome \<Rightarrow> nat" where
  "is_new out = (case out of Stored _ isNew \<Rightarrow> if isNew then 1 else 0 | Rejected _ \<Rightarrow> 0)"

lemma in_project_kept: "kept_row r r' \<Longrightarrow> in_project p r \<Longrightarrow> in_project p r'"
  by (simp add: in_project_def kept_row_def)

lemma finding_times_project [simp]: "f_ProjectID (finding_times H now f) = f_ProjectID f"
  by (simp add: finding_times_def Let_def)

lemma import_finding_grown:
  assumes "import_finding H user p now f w = (out, w')" and "findings_ok (w_db w)"
  shows "grown (in_project p) (is_new out) (w_db w) (w_db w')"
proof -
  define g where "g = (if p \<noteq> uuid_Nil then f\<lparr>f_ProjectID := p\<rparr> else f)"
  note run = assms(1) [unfolded import_finding_def Let_def, folded g_def]
  have same: "grown (in_project p) 0 (w_db w) d" if "d = w_db w" for d using that assms(2) by (simp add: grown_none)
  show ?thesis
  proof (cases "f_ProjectID g = uuid_Nil \<or> Finding_Validate (finding_times H now g) \<noteq> None")
    case True
    then show ?thesis using run same by (auto simp: is_new_def split: option.splits if_splits)
  next
    case False
    obtain r w1 where c: "FindingsRepo_Create (finding_times H now g) w = (r, w1)" by fastforce
    show ?thesis
    proof (cases r)
      case (Inl e)
      then show ?thesis using run False c same [OF create.Inl_unchanged [OF c [unfolded Inl]]] by (auto simp: is_new_def)
    next
      case (Inr x)
      obtain isNew h where x: "x = (isNew, h)" by (cases x)
      obtain k i where k: "upsert_finding k (w_db w) = Inr ((i, isNew), w_db w1)" "f_ProjectID k = f_ProjectID g"
        using Create_Inr [OF c [unfolded Inr x]] by (metis finding_times_project)
      have "in_project p (inserted_row k)" using k(2) False by (auto simp: in_project_def g_def)
      from upsert_grown [OF k(1) assms(2), of "in_project p", OF this]
      have gr: "grown (in_project p) (if isNew then 1 else 0) (w_db w) (w_db w1)" .
      have "tb_findings (w_db w') = tb_findings (w_db w1)" "is_new out = (if isNew then 1 else 0)"
        using run False c Inr x event_create_keeps by (auto simp: uuid_New_def is_new_def split: bool.splits)
      then show ?thesis using gr by (simp add: grown_def findings_ok_def)
    qed
  qed
qed

lemma import_findings_grown:
  assumes "import_findings H user p now fs w = (outs, w')" and "findings_ok (w_db w)"
  shows "grown (in_project p) (sum_list (map is_new outs)) (w_db w) (w_db w') \<and> length outs = length fs"
  using assms
proof (induction fs arbitrary: w outs)
  case Nil
  then show ?case by (auto simp: grown_none)
next
  case (Cons f fs)
  obtain out w1 outs' where 1: "import_finding H user p now f w = (out, w1)"
    and 2: "import_findings H user p now fs w1 = (outs', w')" "outs = out # outs'"
    using Cons.prems(1) by (auto split: prod.splits)
  note g = import_finding_grown [OF 1 Cons.prems(2)]
  then have "findings_ok (w_db w1)" by (simp add: grown_def)
  note rest = Cons.IH [OF 2(1) this]
  show ?case using grown_trans [OF g conjunct1 [OF rest] in_project_kept] rest 2(2) by simp
qed


section \<open>The import\<close>

lemma outcomes_counted:
  "length (new_ids outs) = sum_list (map is_new outs)"
  "length (import_errors outs) + length (new_ids outs) +
     length (filter (\<lambda>out. case out of Stored _ isNew \<Rightarrow> \<not> isNew | Rejected _ \<Rightarrow> False) outs) = length outs"
proof -
  show "length (new_ids outs) = sum_list (map is_new outs)"
    by (induction outs) (auto simp: new_ids_def List.map_filter_def is_new_def split: outcome.splits if_splits)
  have "length (List.map_filter (\<lambda>(i, out). case out of Rejected msg \<Rightarrow> Some (i, msg) | Stored _ _ \<Rightarrow> None) (enumerate k outs)) +
      length (new_ids outs) + length (filter (\<lambda>out. case out of Stored _ isNew \<Rightarrow> \<not> isNew | Rejected _ \<Rightarrow> False) outs) =
      length outs" for k
  proof (induction outs arbitrary: k)
    case (Cons out outs)
    from Cons [of "Suc k"] show ?case by (cases out) (auto simp: new_ids_def List.map_filter_def)
  qed (simp add: new_ids_def List.map_filter_def)
  then show "length (import_errors outs) + length (new_ids outs) +
     length (filter (\<lambda>out. case out of Stored _ isNew \<Rightarrow> \<not> isNew | Rejected _ \<Rightarrow> False) outs) = length outs"
    by (simp add: import_errors_def)
qed

lemma GetRole_both: "GetRole u p w = (Inr r, w') \<Longrightarrow> w_db w' = w_db w \<and> role_in (w_db w) u p = r"
  using GetRole_db GetRole_Inr by blast

text \<open>Who may import: an administrator, or a triager of the project that is named.\<close>

definition may_import :: "User \<Rightarrow> uuid \<Rightarrow> DB \<Rightarrow> bool" where
  "may_import user p d \<longleftrightarrow> User_IsAdmin user \<or>
     p \<noteq> uuid_Nil \<and> (case role_in d (u_ID user) p of None \<Rightarrow> False | Some role \<Rightarrow> RoleTriager \<le> role)"

definition named_project :: "uuid option option \<Rightarrow> uuid" where
  "named_project param = (case param of Some (Some p) \<Rightarrow> p | _ \<Rightarrow> uuid_Nil)"

lemma import_report_result:
  assumes "import_report dc policy overrides p body user w = (r, w')" and "findings_ok (w_db w)"
  shows "case r of
     Inl _ \<Rightarrow> w_db w' = w_db w
   | Inr res \<Rightarrow> (\<exists>data fs. body = Some data \<and> DetectAndParse dc policy overrides (take import_limit data) = (im_Format res, Inr fs) \<and>
       im_Imported res + im_Updated res + int (length (im_Errors res)) = int (length fs)) \<and>
       grown (in_project p) (nat (im_Imported res)) (w_db w) (w_db w')"
proof -
  consider (refused) e where "r = Inl e" "w' = w"
    | (stored) data format fs outs where "body = Some data"
      "DetectAndParse dc policy overrides (take import_limit data) = (format, Inr fs)"
      "import_findings (jd_hash dc) (u_ID user) p (w_now w) fs w = (outs, w')" "r = Inr (import_result format outs)"
    using assms(1) unfolding import_report_def by (auto split: option.splits prod.splits sum.splits if_splits)
  then show ?thesis
  proof cases
    case stored
    note g = import_findings_grown [OF stored(3) assms(2)]
    show ?thesis using g stored outcomes_counted [of outs] by (auto simp: import_result_def)
  qed simp
qed

text \<open>
  C17. An import that is answered with numbers was made by an administrator or by a triager of the named
  project. The numbers add up to the findings of the report, and the table agrees with them: as many rows are
  new as are reported as imported, all in the named project, and the rows that were there keep their
  identity, their project, their status and their first sighting. An import that is refused changes nothing.
\<close>

theorem import_authorised_and_counted:
  assumes "handleImport dc policy overrides param body rq w = (r, w')" and "findings_ok (w_db w)"
  shows "case r of
     Inl _ \<Rightarrow> w_db w' = w_db w
   | Inr res \<Rightarrow> (\<exists>user. rq_User rq = Some user \<and> may_import user (named_project param) (w_db w)) \<and>
       (\<exists>data fs. body = Some data \<and> DetectAndParse dc policy overrides (take import_limit data) = (im_Format res, Inr fs) \<and>
          im_Imported res + im_Updated res + int (length (im_Errors res)) = int (length fs)) \<and>
       grown (in_project (named_project param)) (nat (im_Imported res)) (w_db w) (w_db w')"
proof -
  consider (refused) e where "r = Inl e" "w_db w' = w_db w"
    | (run) user w1 where "rq_User rq = Some user" "w_db w1 = w_db w" "may_import user (named_project param) (w_db w)"
      "import_report dc policy overrides (named_project param) body user w1 = (r, w')"
    using assms(1) unfolding handleImport_def named_project_def [symmetric] Let_def
    by (auto simp: may_import_def dest: GetRole_db dest!: GetRole_both split: option.splits sum.splits if_splits prod.splits)
  then show ?thesis
  proof cases
    case run
    then have "findings_ok (w_db w1)" using assms(2) by simp
    from import_report_result [OF run(4) this] run show ?thesis by (cases r) auto
  qed simp
qed


lemma demo_import:
  "\<exists>res w'. handleImport demo_decoder demo_sanitizer [] (Some (Some 5)) (Some ''{'') demo_rq (World_start triager_db 9) = (Inr res, w') \<and>
     im_Imported res = 1 \<and> im_Errors res = []"
proof -
  define f where "f = trufflehog_finding demo_decoder demo_item"
  have f: "f_Kind f = KindSecrets" "f_Fingerprint f = ''h''" "f_ID f = uuid_Nil" "f_FirstSeen f = 0" "f_LastSeen f = 0" "f_TimesSeen f = 0"
    by (simp_all add: f_def trufflehog_finding_def fingerprinted_def CalculateFingerprint_def Let_def Finding_zero_def split: prod.splits)
  have valid: "f_Title f \<noteq> []" "f_SourceType f \<noteq> []" "in_ranges f"
    using secret_in_ranges(1) [of demo_decoder demo_item]
    by (simp_all add: f_def trufflehog_finding_def fingerprinted_def Let_def split: prod.splits)
  then have v: "0 \<le> f_Severity f" "f_Severity f \<le> 4" "0 \<le> f_Confidence f" "f_Confidence f \<le> 3" "0 \<le> f_Status f" "f_Status f \<le> 4"
    by (simp_all add: in_ranges_def)
  have stored: "f_Fingerprint demo_finding = ''fp''" "f_ID demo_finding = 11" by (simp_all add: demo_finding_def)
  have body: "take import_limit ''{'' = ''{''" by (simp add: import_limit_def)
  have may: "GetRole 7 5 (World_start triager_db 9) = (Inr (Some RoleTriager), World_start triager_db 9)"
    by (simp add: GetRole_def World_start_def role_in_def role_row_def triager_db_def)
  define w where "w = World_start triager_db 9"
  have w: "w_faults w = []" "w_next w = 0" "w_uuid w 0 = 1000" "tb_findings (w_db w) = [demo_finding]" "tb_projects (w_db w) = [(5, ''A''), (6, ''B'')]"
    "w_now w = 9"
    by (simp_all add: w_def World_start_def triager_db_def demo_db_def)
  have accepted: "Finding_Validate (f\<lparr>f_ProjectID := 5, f_FirstSeen := 9, f_LastSeen := 9, f_TimesSeen := 1\<rparr>) = None"
    unfolding Finding_Validate_None_iff using valid v f by simp
  show ?thesis using demo_detected [of "[]"] unfolding w_def [symmetric]
    by (simp add: handleImport_def demo_rq_def User_zero_def User_IsAdmin_def may [folded w_def] import_report_def body
        import_finding_def finding_times_def f w accepted Let_def FindingsRepo_Create_def create_defaults_def
        findingKindToDB_def upsert_finding_def stored uuid_New_def f_def [symmetric] import_result_def new_ids_def import_errors_def
        List.map_filter_def)
qed

theorem import_authorised_and_counted_witness:
  "\<exists>res w'. handleImport demo_decoder demo_sanitizer [] (Some (Some 5)) (Some ''{'') demo_rq (World_start triager_db 9) = (Inr res, w') \<and>
     im_Imported res = 1 \<and> grown (in_project 5) 1 triager_db (w_db w')"
proof -
  obtain res w' where h: "handleImport demo_decoder demo_sanitizer [] (Some (Some 5)) (Some ''{'') demo_rq (World_start triager_db 9) = (Inr res, w')"
    "im_Imported res = 1" using demo_import by blast
  have "findings_ok (w_db (World_start triager_db 9))" by (simp add: findings_ok_def World_start_def triager_db_def demo_db_def)
  from import_authorised_and_counted [OF h(1) this] h show ?thesis by (simp add: World_start_def named_project_def)
qed

end
