(* ===== verification/Cvss.thy ===== *)
theory Cvss
  imports Prelude
begin

text \<open>
  CVSS vectors: \<open>internal/domain/cvss/parser.go\<close>. A vector is a list of \<open>metric:value\<close> parts between
  slashes, after a prefix that names the version. The parsers of versions 3 and 4 share \<open>splitVector\<close>; the
  one of version 2 has a copy of its loop and takes a vector with any first part. An error is named by the
  branch that returns it.
\<close>

datatype cvss_error = EmptyVector | NoParts | MissingPrefix "string list" | IncompleteMetrics

record V31Metrics =
  v31_Raw :: string
  v31_AV :: string
  v31_AC :: string
  v31_PR :: string
  v31_UI :: string
  v31_S :: string
  v31_C :: string
  v31_I :: string
  v31_A :: string

record V40Metrics =
  v40_Raw :: string
  v40_AV :: string
  v40_AC :: string
  v40_AT :: string
  v40_PR :: string
  v40_UI :: string
  v40_VC :: string
  v40_VI :: string
  v40_VA :: string
  v40_SC :: string
  v40_SI :: string
  v40_SA :: string

record V2Metrics =
  v2_Raw :: string
  v2_AV :: string
  v2_AC :: string
  v2_Au :: string
  v2_C :: string
  v2_I :: string
  v2_A :: string

section \<open>Splitting\<close>

text \<open>The loop over the parts: a part without a colon, or with an empty side, is skipped, and a later part replaces an earlier one.\<close>

fun metric_values :: "string list \<Rightarrow> (string \<rightharpoonup> string) \<Rightarrow> (string \<rightharpoonup> string)" where
  "metric_values [] values = values"
| "metric_values (part # parts) values = metric_values parts
     (case strings_Cut part (CHR '':'') of
        None \<Rightarrow> values
      | Some (k, v) \<Rightarrow> if k = [] \<or> v = [] then values else values(k \<mapsto> v))"

text \<open>What indexing a map of strings gives for a key it does not have.\<close>

definition metric :: "(string \<rightharpoonup> string) \<Rightarrow> string \<Rightarrow> string" where
  "metric values k = (case values k of None \<Rightarrow> [] | Some v \<Rightarrow> v)"

definition splitVector :: "string \<Rightarrow> string list \<Rightarrow> cvss_error + (string \<rightharpoonup> string)" where
  "splitVector vector expectedPrefixes =
     (if strings_TrimSpace vector = [] then Inl EmptyVector
      else let parts = strings_Split vector (CHR ''/'') in
        if parts = [] then Inl NoParts
        else if expectedPrefixes \<noteq> [] \<and> hd parts \<notin> set expectedPrefixes \<and> strings_Cut (hd parts) (CHR '':'') = None
        then Inl (MissingPrefix expectedPrefixes)
        else let startIdx = (if hd parts \<in> set expectedPrefixes then 1 else 0) in
          Inr (metric_values (drop startIdx parts) Map.empty))"

section \<open>The three versions\<close>

definition v31_names :: "string list" where
  "v31_names = [''AV'', ''AC'', ''PR'', ''UI'', ''S'', ''C'', ''I'', ''A'']"

definition v40_names :: "string list" where
  "v40_names = [''AV'', ''AC'', ''AT'', ''PR'', ''UI'', ''VC'', ''VI'', ''VA'', ''SC'', ''SI'', ''SA'']"

definition v2_names :: "string list" where
  "v2_names = [''AV'', ''AC'', ''Au'', ''C'', ''I'', ''A'']"

definition ParseV31 :: "string \<Rightarrow> cvss_error + V31Metrics" where
  "ParseV31 vector = (case splitVector vector [''CVSS:3.1'', ''CVSS:3.0''] of
     Inl e \<Rightarrow> Inl e
   | Inr values \<Rightarrow>
       let res = \<lparr>v31_Raw = vector, v31_AV = metric values ''AV'', v31_AC = metric values ''AC'',
             v31_PR = metric values ''PR'', v31_UI = metric values ''UI'', v31_S = metric values ''S'',
             v31_C = metric values ''C'', v31_I = metric values ''I'', v31_A = metric values ''A''\<rparr> in
       if v31_AV res = [] \<or> v31_AC res = [] \<or> v31_PR res = [] \<or> v31_UI res = [] \<or> v31_S res = [] \<or>
          v31_C res = [] \<or> v31_I res = [] \<or> v31_A res = []
       then Inl IncompleteMetrics else Inr res)"

definition ParseV40 :: "string \<Rightarrow> cvss_error + V40Metrics" where
  "ParseV40 vector = (case splitVector vector [''CVSS:4.0''] of
     Inl e \<Rightarrow> Inl e
   | Inr values \<Rightarrow>
       let res = \<lparr>v40_Raw = vector, v40_AV = metric values ''AV'', v40_AC = metric values ''AC'',
             v40_AT = metric values ''AT'', v40_PR = metric values ''PR'', v40_UI = metric values ''UI'',
             v40_VC = metric values ''VC'', v40_VI = metric values ''VI'', v40_VA = metric values ''VA'',
             v40_SC = metric values ''SC'', v40_SI = metric values ''SI'', v40_SA = metric values ''SA''\<rparr> in
       if v40_AV res = [] \<or> v40_AC res = [] \<or> v40_AT res = [] \<or> v40_PR res = [] \<or> v40_UI res = [] \<or>
          v40_VC res = [] \<or> v40_VI res = [] \<or> v40_VA res = [] \<or> v40_SC res = [] \<or> v40_SI res = [] \<or> v40_SA res = []
       then Inl IncompleteMetrics else Inr res)"

definition ParseV2 :: "string \<Rightarrow> cvss_error + V2Metrics" where
  "ParseV2 vector =
     (if strings_TrimSpace vector = [] then Inl EmptyVector
      else let parts = strings_Split vector (CHR ''/'') in
        if parts = [] then Inl NoParts
        else let startIdx = (if hd parts = ''CVSS:2.0'' then 1 else 0);
               values = metric_values (drop startIdx parts) Map.empty;
               res = \<lparr>v2_Raw = vector, v2_AV = metric values ''AV'', v2_AC = metric values ''AC'',
                 v2_Au = metric values ''Au'', v2_C = metric values ''C'', v2_I = metric values ''I'',
                 v2_A = metric values ''A''\<rparr> in
          if v2_AV res = [] \<or> v2_AC res = [] \<or> v2_Au res = [] \<or> v2_C res = [] \<or> v2_I res = [] \<or> v2_A res = []
          then Inl IncompleteMetrics else Inr res)"

section \<open>Writing a vector\<close>

text \<open>A vector as the standard writes it, from its prefix and its metrics in any order, and which metrics can be written.\<close>

definition format_vector :: "string \<Rightarrow> (string \<times> string) list \<Rightarrow> string" where
  "format_vector prefix ms = strings_Join (prefix # map (\<lambda>(k, v). k @ CHR '':'' # v) ms) ''/''"

definition writable :: "(string \<times> string) list \<Rightarrow> bool" where
  "writable ms \<longleftrightarrow> list_all (\<lambda>(k, v). k \<noteq> [] \<and> v \<noteq> [] \<and> CHR '':'' \<notin> set k \<and> CHR ''/'' \<notin> set (k @ v)) ms"

lemma writable_simps [simp]:
  "writable []"
  "writable ((k, v) # ms) \<longleftrightarrow> (k \<noteq> [] \<and> v \<noteq> [] \<and> CHR '':'' \<notin> set k \<and> CHR ''/'' \<notin> set (k @ v)) \<and> writable ms"
  by (simp_all add: writable_def)

lemma metric_values_written:
  "writable ms \<Longrightarrow> metric_values (map (\<lambda>(k, v). k @ CHR '':'' # v) ms) m = m ++ map_of (rev ms)"
  by (induction ms arbitrary: m) (auto simp: Cut_append map_add_def fun_eq_iff split: option.splits)

lemma format_parts:
  assumes "writable ms" "CHR ''/'' \<notin> set prefix"
  shows "strings_Split (format_vector prefix ms) (CHR ''/'') = prefix # map (\<lambda>(k, v). k @ CHR '':'' # v) ms"
  unfolding format_vector_def by (rule Split_Join) (use assms in \<open>auto simp: writable_def list_all_iff\<close>)

lemma TrimSpace_Nil_iff: "strings_TrimSpace s = [] \<longleftrightarrow> (\<forall>c \<in> set s. is_space c)"
proof -
  have "dropWhile is_space s = [] \<or> \<not> is_space (hd (dropWhile is_space s)) \<and> dropWhile is_space s \<noteq> []"
    using hd_dropWhile by blast
  then have "(\<forall>c \<in> set (dropWhile is_space s). is_space c) \<longleftrightarrow> dropWhile is_space s = []"
    by (metis list.set_sel(1) empty_iff empty_set)
  then show ?thesis by (simp add: strings_TrimSpace_def)
qed

lemma TrimSpace_not_Nil: "c \<in> set s \<Longrightarrow> \<not> is_space c \<Longrightarrow> strings_TrimSpace s \<noteq> []"
  by (auto simp: TrimSpace_Nil_iff)

lemma format_starts: "\<exists>rest. format_vector prefix ms = prefix @ rest"
  by (cases ms) (auto simp: format_vector_def)

lemma format_not_blank:
  assumes "CHR ''C'' \<in> set prefix"
  shows "strings_TrimSpace (format_vector prefix ms) \<noteq> []"
proof -
  have "CHR ''C'' \<in> set (format_vector prefix ms)" using format_starts[of prefix ms] assms by auto
  then show ?thesis by (rule TrimSpace_not_Nil) (simp add: is_space_def)
qed

lemma splitVector_written:
  assumes "writable ms" "CHR ''/'' \<notin> set prefix" "prefix \<in> set prefixes" "CHR ''C'' \<in> set prefix"
  shows "splitVector (format_vector prefix ms) prefixes = Inr (map_of (rev ms))"
  using assms by (auto simp: splitVector_def format_not_blank format_parts metric_values_written Let_def)

text \<open>The value a metric has in a written vector is its last one, and it is empty exactly for a metric that is not written.\<close>

definition last_value :: "(string \<times> string) list \<Rightarrow> string \<Rightarrow> string" where
  "last_value ms = metric (map_of (rev ms))"

lemma last_value_empty: "writable ms \<Longrightarrow> last_value ms k = [] \<longleftrightarrow> k \<notin> fst ` set ms"
proof (cases "map_of (rev ms) k")
  case None
  then have "k \<notin> fst ` set ms" by (simp add: map_of_eq_None_iff)
  with None show ?thesis by (simp add: last_value_def metric_def)
next
  case (Some v)
  assume w: "writable ms"
  from Some have "(k, v) \<in> set ms" using map_of_SomeD by fastforce
  with w Some show ?thesis by (force simp: last_value_def metric_def writable_def list_all_iff)
qed

text \<open>
  C37. Parsing a written vector gives back its metrics, in whatever order they are written and with any
  others beside them; of a metric written twice the last value counts. A vector that lacks one of the base
  metrics of its version is refused. This holds of the three versions with their prefixes.
\<close>

theorem vectors_parse_in_any_order:
  assumes "writable ms"
  shows "(\<forall>prefix \<in> {''CVSS:3.1'', ''CVSS:3.0''}. ParseV31 (format_vector prefix ms) =
      (if set v31_names \<subseteq> fst ` set ms
       then Inr \<lparr>v31_Raw = format_vector prefix ms, v31_AV = last_value ms ''AV'', v31_AC = last_value ms ''AC'',
         v31_PR = last_value ms ''PR'', v31_UI = last_value ms ''UI'', v31_S = last_value ms ''S'',
         v31_C = last_value ms ''C'', v31_I = last_value ms ''I'', v31_A = last_value ms ''A''\<rparr>
       else Inl IncompleteMetrics)) \<and>
    ParseV40 (format_vector ''CVSS:4.0'' ms) =
      (if set v40_names \<subseteq> fst ` set ms
       then Inr \<lparr>v40_Raw = format_vector ''CVSS:4.0'' ms, v40_AV = last_value ms ''AV'', v40_AC = last_value ms ''AC'',
         v40_AT = last_value ms ''AT'', v40_PR = last_value ms ''PR'', v40_UI = last_value ms ''UI'',
         v40_VC = last_value ms ''VC'', v40_VI = last_value ms ''VI'', v40_VA = last_value ms ''VA'',
         v40_SC = last_value ms ''SC'', v40_SI = last_value ms ''SI'', v40_SA = last_value ms ''SA''\<rparr>
       else Inl IncompleteMetrics) \<and>
    ParseV2 (format_vector ''CVSS:2.0'' ms) =
      (if set v2_names \<subseteq> fst ` set ms
       then Inr \<lparr>v2_Raw = format_vector ''CVSS:2.0'' ms, v2_AV = last_value ms ''AV'', v2_AC = last_value ms ''AC'',
         v2_Au = last_value ms ''Au'', v2_C = last_value ms ''C'', v2_I = last_value ms ''I'', v2_A = last_value ms ''A''\<rparr>
       else Inl IncompleteMetrics)"
  using last_value_empty[OF assms]
  by (intro conjI; simp add: ParseV31_def ParseV40_def ParseV2_def Let_def splitVector_written[OF assms] v31_names_def
      v40_names_def v2_names_def format_not_blank format_parts[OF assms] metric_values_written[OF assms]
      flip: last_value_def)

theorem vectors_parse_in_any_order_witness:
  "ParseV2 ''CVSS:2.0/A:P/AV:N/AC:L/Au:N/C:P/I:N/C:C'' = Inr \<lparr>v2_Raw = ''CVSS:2.0/A:P/AV:N/AC:L/Au:N/C:P/I:N/C:C'',
     v2_AV = ''N'', v2_AC = ''L'', v2_Au = ''N'', v2_C = ''C'', v2_I = ''N'', v2_A = ''P''\<rparr> \<and>
   ParseV31 ''CVSS:3.1/AV:N'' = Inl IncompleteMetrics \<and> ParseV40 ''CVSS:4.0/AV:N'' = Inl IncompleteMetrics"
proof -
  let ?ms = "[(''A'', ''P''), (''AV'', ''N''), (''AC'', ''L''), (''Au'', ''N''), (''C'', ''P''), (''I'', ''N''), (''C'', ''C'')]"
  have "ParseV2 (format_vector ''CVSS:2.0'' ?ms) = Inr \<lparr>v2_Raw = format_vector ''CVSS:2.0'' ?ms, v2_AV = ''N'', v2_AC = ''L'',
      v2_Au = ''N'', v2_C = ''C'', v2_I = ''N'', v2_A = ''P''\<rparr>"
    using vectors_parse_in_any_order[of ?ms, THEN conjunct2, THEN conjunct2]
    by (simp add: v2_names_def last_value_def metric_def)
  moreover have "ParseV31 (format_vector ''CVSS:3.1'' [(''AV'', ''N'')]) = Inl IncompleteMetrics"
    using vectors_parse_in_any_order[of "[(''AV'', ''N'')]", THEN conjunct1] by (simp add: v31_names_def)
  moreover have "ParseV40 (format_vector ''CVSS:4.0'' [(''AV'', ''N'')]) = Inl IncompleteMetrics"
    using vectors_parse_in_any_order[of "[(''AV'', ''N'')]", THEN conjunct2, THEN conjunct1] by (simp add: v40_names_def)
  ultimately show ?thesis by (simp add: format_vector_def)
qed

end
