(* ===== verification/Osv.thy ===== *)
theory Osv
  imports Json
begin

text \<open>
  OSV data: the summary of the affected ranges of a vulnerability (\<open>internal/domain/osv/ranges.go\<close>) and the
  guess of a package ecosystem (\<open>ecosystem.go\<close>). An event of a range is a Go map, which is walked in any
  order: the order is the argument \<open>walk\<close>.
\<close>

section \<open>Ranges\<close>

record RangeEvent =
  re_Type :: string
  re_Version :: string

record VersionRange =
  vr_Type :: string
  vr_Repo :: string
  vr_Events :: "RangeEvent list"
  vr_IntroducedIn :: string
  vr_FixedIn :: string
  vr_LastAffected :: string

record RangeSummary =
  rs_FixedVersions :: "string list"
  rs_IntroducedVersions :: "string list"
  rs_HasFix :: bool
  rs_Ranges :: "VersionRange list"

definition VersionRange_zero :: VersionRange where
  "VersionRange_zero = \<lparr>vr_Type = [], vr_Repo = [], vr_Events = [], vr_IntroducedIn = [], vr_FixedIn = [], vr_LastAffected = []\<rparr>"

definition RangeSummary_zero :: RangeSummary where
  "RangeSummary_zero = \<lparr>rs_FixedVersions = [], rs_IntroducedVersions = [], rs_HasFix = False, rs_Ranges = []\<rparr>"

text \<open>One entry of an event. The maps of versions already seen hold what the two lists of the summary hold.\<close>

definition range_entry :: "string \<times> string \<Rightarrow> VersionRange \<times> RangeSummary \<Rightarrow> VersionRange \<times> RangeSummary" where
  "range_entry = (\<lambda>(k, raw) (rng, result).
     let v = strings_TrimSpace raw in
     if v = [] then (rng, result)
     else let rng = rng\<lparr>vr_Events := vr_Events rng @ [\<lparr>re_Type = k, re_Version = v\<rparr>]\<rparr> in
       if k = ''introduced'' then
         (if vr_IntroducedIn rng = [] then rng\<lparr>vr_IntroducedIn := v\<rparr> else rng,
          if v \<notin> set (rs_IntroducedVersions result) \<and> v \<noteq> ''0''
          then result\<lparr>rs_IntroducedVersions := rs_IntroducedVersions result @ [v]\<rparr> else result)
       else if k = ''fixed'' then
         (if vr_FixedIn rng = [] then rng\<lparr>vr_FixedIn := v\<rparr> else rng,
          if v \<notin> set (rs_FixedVersions result)
          then result\<lparr>rs_FixedVersions := rs_FixedVersions result @ [v]\<rparr> else result)
       else if k = ''last_affected'' then
         (if vr_LastAffected rng = [] then rng\<lparr>vr_LastAffected := v\<rparr> else rng, result)
       else (rng, result))"

text \<open>A range: a field of another type leaves the zero value, and events that do not decode are ignored.\<close>

definition text_field :: "json_object \<Rightarrow> string \<Rightarrow> string" where
  "text_field r key = (case json_entry r key of None \<Rightarrow> [] | Some j \<Rightarrow> case_option [] id (dec_string (Some j)))"

definition range_entries :: "((string \<times> string) list \<Rightarrow> (string \<times> string) list) \<Rightarrow> json_object \<Rightarrow> (string \<times> string) list" where
  "range_entries walk r = (case json_entry r ''events'' of
       None \<Rightarrow> []
     | Some j \<Rightarrow> (case dec_list (dec_map dec_string) (Some j) of None \<Rightarrow> [] | Some events \<Rightarrow> concat (map walk events)))"

definition parse_range :: "((string \<times> string) list \<Rightarrow> (string \<times> string) list) \<Rightarrow> json_object \<Rightarrow> RangeSummary \<Rightarrow> RangeSummary" where
  "parse_range walk r result =
     (let rng = VersionRange_zero\<lparr>vr_Type := text_field r ''type'', vr_Repo := text_field r ''repo''\<rparr>;
          (rng, result) = fold range_entry (range_entries walk r) (rng, result)
      in result\<lparr>rs_Ranges := rs_Ranges result @ [rng]\<rparr>)"

definition ParseRanges :: "Decoder \<Rightarrow> ((string \<times> string) list \<Rightarrow> (string \<times> string) list) \<Rightarrow> string \<Rightarrow> RangeSummary option" where
  "ParseRanges dc walk raw =
     (if raw = [] \<or> raw = ''null'' then Some RangeSummary_zero
      else map_option
        (\<lambda>rawRanges. let result = fold (parse_range walk) rawRanges RangeSummary_zero
           in result\<lparr>rs_HasFix := rs_FixedVersions result \<noteq> []\<rparr>)
        (Option.bind (jd_parse dc raw) (dec_list dec_struct \<circ> Some)))"

section \<open>What a summary says\<close>

text \<open>The trimmed versions of the events of one type.\<close>

definition versions :: "string \<Rightarrow> (string \<times> string) list \<Rightarrow> string list" where
  "versions k entries = filter (\<lambda>v. v \<noteq> []) (map (strings_TrimSpace \<circ> snd) (filter (\<lambda>e. fst e = k) entries))"

lemma range_entry_fixed:
  "set (rs_FixedVersions (snd (range_entry e (rng, result)))) = set (versions ''fixed'' [e]) \<union> set (rs_FixedVersions result)"
  "distinct (rs_FixedVersions result) \<Longrightarrow> distinct (rs_FixedVersions (snd (range_entry e (rng, result))))"
  by (auto simp: range_entry_def versions_def Let_def split: prod.splits if_splits)

lemma range_entry_introduced:
  "set (rs_IntroducedVersions (snd (range_entry e (rng, result)))) =
     (set (versions ''introduced'' [e]) - {''0''}) \<union> set (rs_IntroducedVersions result)"
  "distinct (rs_IntroducedVersions result) \<Longrightarrow> distinct (rs_IntroducedVersions (snd (range_entry e (rng, result))))"
  by (auto simp: range_entry_def versions_def Let_def split: prod.splits if_splits)

lemma versions_simps: "versions k [] = []" "set (versions k (e # es)) = set (versions k [e]) \<union> set (versions k es)"
  "set (versions k (es @ es')) = set (versions k es) \<union> set (versions k es')"
  by (auto simp: versions_def)

lemma range_entries_effect:
  assumes "distinct (rs_FixedVersions result)" "distinct (rs_IntroducedVersions result)"
  shows "set (rs_FixedVersions (snd (fold range_entry es (rng, result)))) = set (versions ''fixed'' es) \<union> set (rs_FixedVersions result) \<and>
    set (rs_IntroducedVersions (snd (fold range_entry es (rng, result)))) =
      (set (versions ''introduced'' es) - {''0''}) \<union> set (rs_IntroducedVersions result) \<and>
    distinct (rs_FixedVersions (snd (fold range_entry es (rng, result)))) \<and>
    distinct (rs_IntroducedVersions (snd (fold range_entry es (rng, result))))"
  using assms
proof (induction es arbitrary: rng result)
  case Nil
  then show ?case by (simp add: versions_simps)
next
  case (Cons e es)
  obtain rng' result' where step: "range_entry e (rng, result) = (rng', result')" by fastforce
  note entry = range_entry_fixed[where e = e and rng = rng and result = result]
    range_entry_introduced[where e = e and rng = rng and result = result]
  have "distinct (rs_FixedVersions result')" "distinct (rs_IntroducedVersions result')"
    using entry Cons.prems step by simp_all
  from Cons.IH[OF this, of rng'] entry show ?case
    by (auto simp: step versions_simps(2)[of _ e es])
qed

text \<open>All entries of a document, and the walk of Go's maps as any rearrangement.\<close>

definition all_entries :: "((string \<times> string) list \<Rightarrow> (string \<times> string) list) \<Rightarrow> json_object list \<Rightarrow> (string \<times> string) list" where
  "all_entries walk rs = concat (map (range_entries walk) rs)"

lemma parse_ranges_effect:
  assumes "distinct (rs_FixedVersions result)" "distinct (rs_IntroducedVersions result)"
  shows "set (rs_FixedVersions (fold (parse_range walk) rs result)) =
      set (versions ''fixed'' (all_entries walk rs)) \<union> set (rs_FixedVersions result) \<and>
    set (rs_IntroducedVersions (fold (parse_range walk) rs result)) =
      (set (versions ''introduced'' (all_entries walk rs)) - {''0''}) \<union> set (rs_IntroducedVersions result) \<and>
    distinct (rs_FixedVersions (fold (parse_range walk) rs result)) \<and>
    distinct (rs_IntroducedVersions (fold (parse_range walk) rs result))"
  using assms
proof (induction rs arbitrary: result)
  case Nil
  then show ?case by (simp add: all_entries_def versions_simps)
next
  case (Cons r rs)
  define rng where "rng = VersionRange_zero\<lparr>vr_Type := text_field r ''type'', vr_Repo := text_field r ''repo''\<rparr>"
  obtain rng' result' where step: "fold range_entry (range_entries walk r) (rng, result) = (rng', result')" by fastforce
  note effect = range_entries_effect[OF Cons.prems, of "range_entries walk r" rng, unfolded step snd_conv]
  have parsed: "parse_range walk r result = result'\<lparr>rs_Ranges := rs_Ranges result' @ [rng']\<rparr>"
    using step by (simp add: parse_range_def flip: rng_def)
  from Cons.IH[of "parse_range walk r result"] effect show ?case
    by (auto simp: parsed all_entries_def versions_simps(3))
qed

lemma versions_walk:
  assumes "\<forall>es. set (walk es) = set es"
  shows "set (versions k (all_entries walk rs)) = set (versions k (all_entries id rs))"
proof -
  have "set (range_entries walk r) = set (range_entries id r)" for r
    using assms by (simp add: range_entries_def split: option.splits)
  then have "set (all_entries walk rs) = set (all_entries id rs)" by (simp add: all_entries_def)
  then show ?thesis by (simp add: versions_def set_eq_iff image_iff)
qed

text \<open>
  The summary names every version an event fixes, once, and every version but 0 an event introduces, once;
  it has a fix exactly when there is such an event. In whatever order Go walks the events.
\<close>

lemma summary_names_versions:
  assumes "\<forall>es. set (walk es) = set es" and "ParseRanges dc walk raw = Some summary" and "raw \<noteq> []" "raw \<noteq> ''null''"
    and "Option.bind (jd_parse dc raw) (dec_list dec_struct \<circ> Some) = Some rs"
  shows "set (rs_FixedVersions summary) = set (versions ''fixed'' (all_entries id rs)) \<and>
    set (rs_IntroducedVersions summary) = set (versions ''introduced'' (all_entries id rs)) - {''0''} \<and>
    distinct (rs_FixedVersions summary) \<and> distinct (rs_IntroducedVersions summary) \<and>
    rs_HasFix summary = (versions ''fixed'' (all_entries id rs) \<noteq> [])"
proof -
  let ?result = "fold (parse_range walk) rs RangeSummary_zero"
  have summary: "summary = ?result\<lparr>rs_HasFix := rs_FixedVersions ?result \<noteq> []\<rparr>"
    using assms(2-5) by (simp add: ParseRanges_def Let_def)
  have effect: "set (rs_FixedVersions ?result) = set (versions ''fixed'' (all_entries id rs))"
    "set (rs_IntroducedVersions ?result) = set (versions ''introduced'' (all_entries id rs)) - {''0''}"
    "distinct (rs_FixedVersions ?result)" "distinct (rs_IntroducedVersions ?result)"
    using parse_ranges_effect[of RangeSummary_zero walk rs] versions_walk[OF assms(1)] by (simp_all add: RangeSummary_zero_def)
  moreover have "(rs_FixedVersions ?result \<noteq> []) = (versions ''fixed'' (all_entries id rs) \<noteq> [])"
    using effect(1) by (metis set_empty)
  ultimately show ?thesis by (simp add: summary)
qed

section \<open>Ecosystems\<close>

definition ecosystemFromSource :: "string \<Rightarrow> string" where
  "ecosystemFromSource sourceType = (let s = strings_ToLower (strings_TrimSpace sourceType) in
     if strings_Contains s ''trivy'' then []
     else if strings_Contains s ''npm'' then ''npm''
     else if strings_Contains s ''pip'' \<or> strings_Contains s ''pypi'' \<or> strings_Contains s ''poetry'' then ''PyPI''
     else if strings_Contains s ''cargo'' then ''crates.io''
     else if strings_Contains s ''gem'' then ''RubyGems''
     else if strings_Contains s ''maven'' \<or> strings_Contains s ''gradle'' then ''Maven''
     else if strings_Contains s ''nuget'' then ''NuGet''
     else if strings_Contains s ''go-'' \<or> strings_Contains s ''gomod'' then ''Go''
     else if strings_Contains s ''composer'' then ''Packagist''
     else if strings_Contains s ''hex'' then ''Hex''
     else if strings_Contains s ''pub'' then ''Pub''
     else [])"

definition ecosystemFromComponent :: "string \<Rightarrow> string" where
  "ecosystemFromComponent component = (let c = strings_TrimSpace component in
     if c = [] then []
     else if strings_HasPrefix c ''@'' \<and> strings_Contains c ''/'' then ''npm''
     else if strings_Count c (CHR '':'') = 1 \<and> \<not> strings_Contains c ''/'' then ''Maven''
     else if strings_Contains c ''/'' then
       let first = hd (strings_Split c (CHR ''/'')) in
       if strings_Contains first ''.'' \<and>
          (strings_Contains first ''github.com'' \<or> strings_Contains first ''gitlab.com'' \<or>
           strings_Contains first ''golang.org'' \<or> strings_Contains first ''.io'' \<or> strings_Contains first ''.dev'' \<or>
           strings_Contains first ''.com'' \<or> strings_Contains first ''.org'')
       then ''Go'' else ''npm''
     else if \<not> strings_ContainsAny c ''/@:'' then ''PyPI''
     else [])"

definition DetectEcosystem :: "string \<Rightarrow> string \<Rightarrow> string \<Rightarrow> string" where
  "DetectEcosystem sourceType kind component = (let eco = ecosystemFromSource sourceType in
     if eco \<noteq> [] then eco else ecosystemFromComponent component)"

text \<open>
  A component with no slash, colon or at sign is taken for a Python package whenever the source type says
  nothing; a source type that names Trivy never decides.
\<close>

lemma DetectEcosystem_plain:
  assumes "strings_TrimSpace c \<noteq> []" "CHR ''/'' \<notin> set (strings_TrimSpace c)" "CHR '':'' \<notin> set (strings_TrimSpace c)"
    "CHR ''@'' \<notin> set (strings_TrimSpace c)" "ecosystemFromSource sourceType = []"
  shows "DetectEcosystem sourceType kind c = ''PyPI''"
  using assms by (auto simp: DetectEcosystem_def ecosystemFromComponent_def Contains_char strings_ContainsAny_def list_ex_iff
      strings_Count_def filter_empty_conv Let_def)

lemma DetectEcosystem_trivy:
  "strings_Contains (strings_ToLower (strings_TrimSpace sourceType)) ''trivy'' \<Longrightarrow>
   DetectEcosystem sourceType kind component = ecosystemFromComponent component"
  by (simp add: DetectEcosystem_def ecosystemFromSource_def)

end
