(* ===== verification/Cwe.thy ===== *)
theory Cwe
  imports Main "HOL-Library.Mapping"
begin

text \<open>
  CWE data: the chain of parents of a weakness (\<open>internal/domain/cwe/hierarchy.go\<close>) and the tables that
  map weaknesses to the OWASP Top 10 and the CWE Top 25 (\<open>mapping.go\<close>). The source of the parents is an
  argument of the code, so it is one of the model.
\<close>

section \<open>The chain of parents\<close>

record ParentChainEntry =
  pc_CWEID :: int
  pc_Name :: string
  pc_Category :: string

type_synonym cwe_lookup = "int \<Rightarrow> (string \<times> int list \<times> string) option"

text \<open>One level: the next queue, the visited identifiers and the chain.\<close>

fun chain_level :: "cwe_lookup \<Rightarrow> int list \<Rightarrow> int list \<times> int set \<times> ParentChainEntry list \<Rightarrow> int list \<times> int set \<times> ParentChainEntry list" where
  "chain_level lookup [] s = s"
| "chain_level lookup (i # queue) (nextQueue, visited, chain) =
     (if i \<in> visited then chain_level lookup queue (nextQueue, visited, chain)
      else case lookup i of
          None \<Rightarrow> chain_level lookup queue (nextQueue, insert i visited, chain)
        | Some (name, parentIDs, category) \<Rightarrow> chain_level lookup queue
            (nextQueue @ filter (\<lambda>pid. pid \<notin> insert i visited) parentIDs, insert i visited,
             chain @ [\<lparr>pc_CWEID = i, pc_Name = name, pc_Category = category\<rparr>]))"

fun chain_levels :: "cwe_lookup \<Rightarrow> nat \<Rightarrow> int list \<Rightarrow> int set \<times> ParentChainEntry list \<Rightarrow> ParentChainEntry list" where
  "chain_levels lookup 0 queue (visited, chain) = chain"
| "chain_levels lookup (Suc depth) queue (visited, chain) =
     (if queue = [] then chain
      else let (nextQueue, visited, chain) = chain_level lookup queue ([], visited, chain)
        in chain_levels lookup depth nextQueue (visited, chain))"

definition ResolveParentChain :: "int list \<Rightarrow> int \<Rightarrow> cwe_lookup \<Rightarrow> ParentChainEntry list" where
  "ResolveParentChain startParentIDs maxDepth lookup =
     (if startParentIDs = [] \<or> maxDepth \<le> 0 then []
      else chain_levels lookup (nat maxDepth) startParentIDs ({}, []))"

section \<open>What the chain holds\<close>

text \<open>The known weaknesses that are \<open>n\<close> steps above one of \<open>S\<close>, through known ones.\<close>

inductive above :: "cwe_lookup \<Rightarrow> int set \<Rightarrow> nat \<Rightarrow> int \<Rightarrow> bool" for lookup S where
  here: "i \<in> S \<Longrightarrow> lookup i = Some e \<Longrightarrow> above lookup S 0 i"
| up: "above lookup S n i \<Longrightarrow> lookup i = Some (name, parents, category) \<Longrightarrow> p \<in> set parents \<Longrightarrow> lookup p = Some e \<Longrightarrow>
    above lookup S (Suc n) p"

inductive_cases above_0: "above lookup S 0 i"

definition known :: "cwe_lookup \<Rightarrow> int set \<Rightarrow> int set" where
  "known lookup S = S \<inter> dom lookup"

definition parents_of :: "cwe_lookup \<Rightarrow> int set \<Rightarrow> int set" where
  "parents_of lookup S = (\<Union>i \<in> S. case lookup i of None \<Rightarrow> {} | Some (_, ps, _) \<Rightarrow> set ps)"

lemma known_simps: "known lookup {} = {}" "known lookup (S \<union> T) = known lookup S \<union> known lookup T"
  "known lookup (insert i S) = (if lookup i = None then known lookup S else insert i (known lookup S))"
  by (auto simp: known_def)

lemma parents_of_simps: "parents_of lookup {} = {}" "parents_of lookup (S \<union> T) = parents_of lookup S \<union> parents_of lookup T"
  "parents_of lookup (insert i S) = (case lookup i of None \<Rightarrow> {} | Some (_, ps, _) \<Rightarrow> set ps) \<union> parents_of lookup S"
  by (auto simp: parents_of_def)

lemma above_mono: "above lookup S n i \<Longrightarrow> S \<subseteq> T \<Longrightarrow> above lookup T n i"
  by (induction rule: above.induct) (auto intro: above.intros)

lemma above_known: "above lookup S n i \<Longrightarrow> i \<in> dom lookup"
  by (induction rule: above.induct) auto

lemma above_0_iff: "above lookup S 0 i \<longleftrightarrow> i \<in> known lookup S"
  by (auto simp: known_def intro: above.here elim: above_0)

lemma in_parents_of:
  "x \<in> parents_of lookup S \<longleftrightarrow> (\<exists>s name ps category. s \<in> S \<and> lookup s = Some (name, ps, category) \<and> x \<in> set ps)"
  by (fastforce simp: parents_of_def split: option.splits prod.splits)

lemma above_parents: "above lookup Q n x \<Longrightarrow> Q \<subseteq> parents_of lookup S \<Longrightarrow> above lookup S (Suc n) x"
proof (induction rule: above.induct)
  case (here i e)
  then obtain s name ps category where "s \<in> S" "lookup s = Some (name, ps, category)" "i \<in> set ps"
    by (meson in_parents_of subsetD)
  then show ?case using here(2) by (blast intro: above.intros)
qed (blast intro: above.up)

text \<open>From a set whose parents are in the set or queued, a step that leaves it goes through the queue.\<close>

lemma above_leaves:
  assumes "parents_of lookup V \<subseteq> V \<union> Q"
  shows "above lookup V n x \<Longrightarrow> x \<in> V \<or> (\<exists>j < n. above lookup Q j x)"
proof (induction rule: above.induct)
  case (up n i name parents category p e)
  have "i \<in> V \<Longrightarrow> p \<in> V \<union> Q" using assms up by (force simp: parents_of_def)
  then show ?case using up by (blast intro: above.intros)
qed blast

definition chain_ids :: "ParentChainEntry list \<Rightarrow> int list" where
  "chain_ids chain = map pc_CWEID chain"

definition described :: "cwe_lookup \<Rightarrow> ParentChainEntry \<Rightarrow> bool" where
  "described lookup e = (\<exists>ps. lookup (pc_CWEID e) = Some (pc_Name e, ps, pc_Category e))"

text \<open>What holds between two levels: the chain lists the known visited identifiers once.\<close>

definition chain_inv :: "cwe_lookup \<Rightarrow> int set \<Rightarrow> ParentChainEntry list \<Rightarrow> bool" where
  "chain_inv lookup visited chain \<longleftrightarrow> distinct (chain_ids chain) \<and> set (chain_ids chain) = known lookup visited \<and>
     list_all (described lookup) chain"

lemma chain_inv_add:
  assumes "chain_inv lookup visited chain" "i \<notin> visited"
  shows "lookup i = None \<Longrightarrow> chain_inv lookup (insert i visited) chain"
    and "lookup i = Some (name, ps, category) \<Longrightarrow>
      chain_inv lookup (insert i visited) (chain @ [\<lparr>pc_CWEID = i, pc_Name = name, pc_Category = category\<rparr>])"
  using assms by (auto simp: chain_inv_def chain_ids_def known_def described_def)

lemma chain_level_effect:
  "chain_level lookup queue (nq, visited, chain) = (nq', visited', chain') \<Longrightarrow> chain_inv lookup visited chain \<Longrightarrow>
   visited' = visited \<union> set queue \<and> chain_inv lookup visited' chain' \<and> set nq \<subseteq> set nq' \<and>
   set nq' \<subseteq> set nq \<union> parents_of lookup (set queue) \<and>
   parents_of lookup visited' \<subseteq> parents_of lookup visited \<union> visited' \<union> set nq'"
proof (induction queue arbitrary: nq visited chain)
  case (Cons i queue)
  consider "i \<in> visited" | "i \<notin> visited" "lookup i = None"
    | name ps category where "i \<notin> visited" "lookup i = Some (name, ps, category)" by (metis option.exhaust prod_cases3)
  then show ?case
  proof cases
    case 1
    then show ?thesis using Cons by (auto simp: parents_of_simps)
  next
    case 2
    then show ?thesis using Cons.prems Cons.IH[of nq "insert i visited" chain] chain_inv_add(1)
      by (auto simp: parents_of_simps)
  next
    case 3
    define nq1 where "nq1 = nq @ filter (\<lambda>pid. pid \<notin> insert i visited) ps"
    have "chain_level lookup queue (nq1, insert i visited, chain @ [\<lparr>pc_CWEID = i, pc_Name = name, pc_Category = category\<rparr>])
      = (nq', visited', chain')" using Cons.prems(1) 3 by (simp add: nq1_def)
    from Cons.IH[OF this chain_inv_add(2)[OF Cons.prems(2) 3]] 3 show ?thesis
      by (auto simp: parents_of_simps nq1_def)
  qed
qed (auto simp: parents_of_simps)

lemma chain_levels_effect:
  assumes "chain_inv lookup visited chain" "parents_of lookup visited \<subseteq> visited \<union> set queue"
  shows "distinct (chain_ids (chain_levels lookup depth queue (visited, chain))) \<and>
    set (chain_ids (chain_levels lookup depth queue (visited, chain))) =
      known lookup visited \<union> {x. \<exists>n < depth. above lookup (set queue) n x} \<and>
    list_all (described lookup) (chain_levels lookup depth queue (visited, chain))"
  using assms
proof (induction depth arbitrary: queue visited chain)
  case 0
  then show ?case by (simp add: chain_inv_def)
next
  case (Suc depth)
  have none: "\<not> above lookup {} n x" for n x
    by (induction n arbitrary: x) (auto simp: above_0_iff known_simps elim: above.cases)
  obtain nq V chain' where level: "chain_level lookup queue ([], visited, chain) = (nq, V, chain')" by (metis prod_cases3)
  note effect = chain_level_effect[OF level Suc.prems(1)]
  have closed: "parents_of lookup V \<subseteq> V \<union> set nq" using effect Suc.prems(2) by auto
  have reach: "known lookup V \<union> {x. \<exists>n < depth. above lookup (set nq) n x} =
      known lookup visited \<union> {x. \<exists>n < Suc depth. above lookup (set queue) n x}" (is "?L = ?R")
  proof
    have "above lookup (set nq) n x \<Longrightarrow> above lookup (set queue) (Suc n) x" for n x
      using effect above_parents[of lookup "set nq" n x "set queue"] by simp
    moreover have "known lookup V = known lookup visited \<union> {x. above lookup (set queue) 0 x}"
      using effect by (auto simp: known_simps above_0_iff)
    ultimately show "?L \<subseteq> ?R" by (auto intro: exI[of _ 0] simp: less_Suc_eq_0_disj)
    have "above lookup (set queue) n x \<Longrightarrow> n < Suc depth \<Longrightarrow> x \<in> ?L" for n x
      using above_leaves[OF closed, of n x] above_mono[of lookup "set queue" n x V] above_known[of lookup "set queue" n x] effect
      by (auto simp: known_def)
    then show "?R \<subseteq> ?L" using effect by (auto simp: known_def)
  qed
  show ?case
  proof (cases "queue = []")
    case True
    then show ?thesis using Suc.prems(1) none by (simp add: chain_inv_def)
  next
    case False
    have inv: "chain_inv lookup V chain'" using effect by blast
    show ?thesis unfolding reach[symmetric] using False Suc.IH[OF inv closed] by (simp add: level)
  qed
qed

text \<open>
  C35. The chain of a weakness lists, once each and with their data, exactly the known weaknesses that are
  fewer than \<open>maxDepth\<close> steps above one of its parents. So the walk ends on a cycle of parents too, and the
  set of visited weaknesses costs no ancestor.
\<close>

theorem chain_lists_the_ancestors:
  "distinct (map pc_CWEID (ResolveParentChain parents maxDepth lookup)) \<and>
   pc_CWEID ` set (ResolveParentChain parents maxDepth lookup) = {x. \<exists>n < nat maxDepth. above lookup (set parents) n x} \<and>
   (\<forall>e. e \<in> set (ResolveParentChain parents maxDepth lookup) \<longrightarrow>
      (\<exists>ps. lookup (pc_CWEID e) = Some (pc_Name e, ps, pc_Category e)))"
proof -
  have start: "chain_inv lookup {} []" by (simp add: chain_inv_def chain_ids_def known_simps)
  have none: "\<not> above lookup {} n x" for n x
    by (induction n arbitrary: x) (auto simp: above_0_iff known_simps elim: above.cases)
  show ?thesis
    using chain_levels_effect[OF start, of parents "nat maxDepth"] none
    by (auto simp: ResolveParentChain_def chain_ids_def described_def list_all_iff parents_of_simps known_simps)
qed

text \<open>A cycle: CWE-1 is its own grandparent.\<close>

definition demo_parents :: cwe_lookup where
  "demo_parents = map_of [(1, (''one'', [2], ''Base'')), (2, (''two'', [1, 3], ''Class''))]"

theorem chain_lists_the_ancestors_witness:
  "map pc_CWEID (ResolveParentChain [2, 1] 5 demo_parents) = [2, 1] \<and>
   (\<exists>ps. demo_parents 2 = Some (''two'', ps, ''Class'')) \<and> \<not> above demo_parents {2, 1} 0 3"
proof -
  have chain: "ResolveParentChain [2, 1] 5 demo_parents =
      [\<lparr>pc_CWEID = 2, pc_Name = ''two'', pc_Category = ''Class''\<rparr>, \<lparr>pc_CWEID = 1, pc_Name = ''one'', pc_Category = ''Base''\<rparr>]"
    by (simp add: ResolveParentChain_def demo_parents_def eval_nat_numeral)
  have "pc_CWEID ` set (ResolveParentChain [2, 1] 5 demo_parents) = {x. \<exists>n < nat 5. above demo_parents (set [2, 1]) n x}"
    using chain_lists_the_ancestors[of "[2, 1]" 5 demo_parents, THEN conjunct2, THEN conjunct1] .
  then have "3 \<notin> {x. \<exists>n < nat 5. above demo_parents (set [2, 1]) n x}" by (simp add: chain)
  then have "\<not> above demo_parents {2, 1} 0 3" by simp
  moreover have "\<exists>ps. demo_parents 2 = Some (''two'', ps, ''Class'')" by (simp add: demo_parents_def)
  ultimately show ?thesis by (simp add: chain)
qed

section \<open>The tables\<close>

record OWASPCategory =
  oc_ID :: string
  oc_Name :: string

text \<open>The rows of \<open>owaspMap\<close>, a category at a time.\<close>

definition owasp_rows :: "(OWASPCategory \<times> int list) list" where
  "owasp_rows = [
     (\<lparr>oc_ID = ''A01:2021'', oc_Name = ''Broken Access Control''\<rparr>,
      [22, 23, 35, 59, 200, 201, 219, 264, 275, 276, 284, 285, 352, 359, 377, 402, 425, 441, 497, 538, 540,
       548, 552, 566, 601, 639, 651, 668, 706, 862, 863, 913, 922, 1275]),
     (\<lparr>oc_ID = ''A02:2021'', oc_Name = ''Cryptographic Failures''\<rparr>,
      [261, 296, 310, 319, 321, 322, 323, 324, 325, 326, 327, 328, 329, 330, 331, 335, 336, 337, 338, 340, 347,
       523, 720, 757, 759, 760, 780, 818, 916]),
     (\<lparr>oc_ID = ''A03:2021'', oc_Name = ''Injection''\<rparr>,
      [20, 74, 75, 77, 78, 79, 80, 83, 87, 88, 89, 90, 91, 93, 94, 95, 96, 97, 98, 99, 100, 113, 116, 138, 184,
       470, 471, 564, 610, 643, 644, 652, 917, 1236]),
     (\<lparr>oc_ID = ''A04:2021'', oc_Name = ''Insecure Design''\<rparr>,
      [73, 183, 209, 256, 501, 522, 587, 602, 603, 656, 799, 840, 841, 927]),
     (\<lparr>oc_ID = ''A05:2021'', oc_Name = ''Security Misconfiguration''\<rparr>,
      [2, 11, 13, 15, 16, 260, 315, 520, 526, 537, 541, 547, 611, 614, 756, 776, 942, 1004, 1032, 1174]),
     (\<lparr>oc_ID = ''A06:2021'', oc_Name = ''Vulnerable and Outdated Components''\<rparr>,
      [937, 1035, 1104]),
     (\<lparr>oc_ID = ''A07:2021'', oc_Name = ''Identification and Authentication Failures''\<rparr>,
      [255, 259, 287, 288, 290, 294, 295, 297, 300, 302, 304, 306, 307, 346, 384, 521, 613, 620, 640, 798, 940,
       1216]),
     (\<lparr>oc_ID = ''A08:2021'', oc_Name = ''Software and Data Integrity Failures''\<rparr>,
      [345, 353, 426, 494, 502, 565, 784, 829, 830, 915]),
     (\<lparr>oc_ID = ''A09:2021'', oc_Name = ''Security Logging and Monitoring Failures''\<rparr>,
      [117, 223, 532, 778]),
     (\<lparr>oc_ID = ''A10:2021'', oc_Name = ''Server-Side Request Forgery (SSRF)''\<rparr>,
      [918])]"

definition owaspMap :: "(int \<times> OWASPCategory) list" where
  "owaspMap = concat (map (\<lambda>(cat, ids). map (\<lambda>i. (i, cat)) ids) owasp_rows)"

definition top25Map :: "(int \<times> nat) list" where
  "top25Map =
    [(79, 1), (787, 2), (89, 3), (352, 4), (22, 5), (125, 6), (78, 7), (416, 8), (862, 9), (434, 10), (94, 11),
     (20, 12), (77, 13), (287, 14), (269, 15), (502, 16), (200, 17), (863, 18), (918, 19), (119, 20),
     (476, 21), (798, 22), (190, 23), (400, 24), (306, 25)]"

definition LookupOWASP :: "int \<Rightarrow> OWASPCategory option" where
  "LookupOWASP cweID = map_of owaspMap cweID"

definition LookupTop25 :: "int \<Rightarrow> nat option" where
  "LookupTop25 cweID = map_of top25Map cweID"

text \<open>The tables are Go map literals: no weakness is listed twice, and the ranks are 1 to 25, each given once.\<close>

lemma owaspMap_distinct: "distinct (map fst owaspMap)"
  by code_simp

lemma top25Map_ranks: "distinct (map fst top25Map) \<and> map snd top25Map = [1..<26]"
  by code_simp

lemma LookupOWASP_iff: "LookupOWASP i = Some c \<longleftrightarrow> (i, c) \<in> set owaspMap"
  by (simp add: LookupOWASP_def owaspMap_distinct)

lemma LookupTop25_ranks: "\<exists>!i. LookupTop25 i = Some r" if "1 \<le> r" "r \<le> 25"
proof -
  have "r \<in> set (map snd top25Map)" using that top25Map_ranks by auto
  then obtain i where i: "(i, r) \<in> set top25Map" by auto
  moreover have "(j, r) \<in> set top25Map \<Longrightarrow> j = i" for j
    using i top25Map_ranks distinct_map[of snd top25Map] by (auto dest!: inj_onD[of snd _ "(j, r)" "(i, r)"])
  ultimately show ?thesis using top25Map_ranks by (auto simp: LookupTop25_def)
qed

end
