(* ===== verification/NvdCpe.thy ===== *)
theory NvdCpe
  imports Json "HOL-Library.List_Lexorder"
begin

text \<open>
  Matching a component against the CPE data of the NVD: \<open>internal/enrichment/nvd/cpe.go\<close>, with its
  decoding, the normal form of product names, the comparison of versions and the verdict, and the classes
  of references of \<open>refs.go\<close>.
\<close>

section \<open>The configurations\<close>

record nvdCPEMatch =
  nm_Vulnerable :: bool
  nm_Criteria :: string
  nm_VersionStartIncluding :: string
  nm_VersionStartExcluding :: string
  nm_VersionEndIncluding :: string
  nm_VersionEndExcluding :: string

definition decode_nvdCPEMatch :: "json option \<Rightarrow> nvdCPEMatch option" where
  "decode_nvdCPEMatch j = do {
     obj \<leftarrow> dec_struct j;
     x1 \<leftarrow> dec_bool (json_field obj ''vulnerable'');
     x2 \<leftarrow> dec_string (json_field obj ''criteria'');
     x3 \<leftarrow> dec_string (json_field obj ''versionStartIncluding'');
     x4 \<leftarrow> dec_string (json_field obj ''versionStartExcluding'');
     x5 \<leftarrow> dec_string (json_field obj ''versionEndIncluding'');
     x6 \<leftarrow> dec_string (json_field obj ''versionEndExcluding'');
     Some \<lparr>nm_Vulnerable = x1, nm_Criteria = x2, nm_VersionStartIncluding = x3, nm_VersionStartExcluding = x4,
       nm_VersionEndIncluding = x5, nm_VersionEndExcluding = x6\<rparr>
   }"

datatype nvdNode = nvdNode (nn_Operator: string) (nn_CPEMatch: "nvdCPEMatch list") (nn_Children: "nvdNode list") (nn_Negate: bool)

text \<open>The nodes nest; a child is decoded like its parent, and a child that does not decode fails the whole document.\<close>

lemma dec_slice_cong [fundef_cong]:
  "j = j' \<Longrightarrow> (\<And>xs x. j' = Some (JsonArray xs) \<Longrightarrow> x \<in> set xs \<Longrightarrow> f (Some x) = g (Some x)) \<Longrightarrow> dec_slice f j = dec_slice g j'"
  by (auto simp: dec_slice_def comp_def split: option.splits json.splits intro!: arg_cong[where f = those] arg_cong[where f = "map_option Some"])

lemma dec_list_cong [fundef_cong]:
  "j = j' \<Longrightarrow> (\<And>xs x. j' = Some (JsonArray xs) \<Longrightarrow> x \<in> set xs \<Longrightarrow> f (Some x) = g (Some x)) \<Longrightarrow> dec_list f j = dec_list g j'"
  unfolding dec_list_def using dec_slice_cong[of j j' f g] by simp

lemma json_field_size: "json_field obj name = Some v \<Longrightarrow> size v < size (JsonObject obj)"
proof -
  assume "json_field obj name = Some v"
  then obtain k where "(k, v) \<in> set obj" by (force simp: json_field_def find_Some_iff in_set_conv_nth rev_nth)
  from size_list_estimation'[OF this, of "size v" "size_prod (\<lambda>_. 0) size"] show ?thesis by simp
qed

function decode_nvdNode :: "json option \<Rightarrow> nvdNode option" where
  "decode_nvdNode j = (case dec_struct j of
      None \<Rightarrow> None
    | Some obj \<Rightarrow> do {
        x1 \<leftarrow> dec_string (json_field obj ''operator'');
        x2 \<leftarrow> dec_list decode_nvdCPEMatch (json_field obj ''cpeMatch'');
        x3 \<leftarrow> dec_list decode_nvdNode (json_field obj ''children'');
        x4 \<leftarrow> dec_bool (json_field obj ''negate'');
        Some (nvdNode x1 x2 x3 x4)
      })"
  by pat_completeness auto
termination
proof (relation "measure (\<lambda>j. case j of None \<Rightarrow> 0 | Some v \<Rightarrow> size v)")
  fix j obj x1 x2 xs x
  assume "dec_struct j = Some obj" "json_field obj ''children'' = Some (JsonArray xs)" "x \<in> set xs"
  moreover from this have "size x < size (JsonArray xs)" by (simp add: size_list_estimation' less_Suc_eq_le)
  ultimately show "(Some x, j) \<in> measure (\<lambda>j. case j of None \<Rightarrow> 0 | Some v \<Rightarrow> size v)"
    using json_field_size[of obj "''children''" "JsonArray xs"]
    by (auto simp: dec_struct_def json_field_def split: option.splits json.splits)
qed simp

record nvdConfiguration =
  nc_Operator :: string
  nc_Nodes :: "nvdNode list"

definition decode_nvdConfiguration :: "json option \<Rightarrow> nvdConfiguration option" where
  "decode_nvdConfiguration j = do {
     obj \<leftarrow> dec_struct j;
     x1 \<leftarrow> dec_string (json_field obj ''operator'');
     x2 \<leftarrow> dec_list decode_nvdNode (json_field obj ''nodes'');
     Some \<lparr>nc_Operator = x1, nc_Nodes = x2\<rparr>
   }"

definition flattenCPEMatches :: "Decoder \<Rightarrow> string \<Rightarrow> nvdCPEMatch list" where
  "flattenCPEMatches dc raw = (case Option.bind (jd_parse dc raw) (dec_list decode_nvdConfiguration \<circ> Some) of
       None \<Rightarrow> []
     | Some cfgs \<Rightarrow> concat (map (\<lambda>cfg. concat (map nn_CPEMatch (nc_Nodes cfg))) cfgs))"

section \<open>Names of products\<close>

text \<open>
  \<open>strings.Map\<close> over the runes of a text: a rune outside ASCII becomes one dash, here one per byte, which the
  loop below makes one.
\<close>

definition plain_char :: "char \<Rightarrow> bool" where
  "plain_char c \<longleftrightarrow> CHR ''a'' \<le> c \<and> c \<le> CHR ''z'' \<or> CHR ''0'' \<le> c \<and> c \<le> CHR ''9''"

lemma ReplaceAll_shorter:
  "length new < length old \<Longrightarrow> length (strings_ReplaceAll s old new) \<le> length s \<and>
    (strings_Contains s old \<longrightarrow> length (strings_ReplaceAll s old new) < length s)"
proof (induction s old new rule: strings_ReplaceAll.induct)
  case (2 c cs old new)
  then show ?case
    by (cases "strings_HasPrefix (c # cs) old")
      (auto simp: strings_Contains_def HasPrefix_iff dest!: arg_cong[where f = length] split: if_splits)
qed (auto simp: strings_Contains_def)

function collapse :: "string \<Rightarrow> string" where
  "collapse s = (if strings_Contains s ''--'' then collapse (strings_ReplaceAll s ''--'' ''-'') else s)"
  by pat_completeness auto
termination
  by (relation "measure length") (simp_all add: ReplaceAll_shorter)

declare collapse.simps [simp del]

definition normalize :: "string \<Rightarrow> string" where
  "normalize s =
     (let s = strings_ToLower (strings_TrimSpace s);
          s = strings_ReplaceAll s [CHR 0x5C] [];
          s = map (\<lambda>r. if plain_char r then r else CHR ''-'') s;
          s = strings_Trim s (CHR ''-'')
      in collapse s)"

definition productAliases :: "string \<Rightarrow> string list" where
  "productAliases base = base # map (\<lambda>sfx. strings_TrimSuffix base sfx)
     (filter (\<lambda>sfx. strings_HasSuffix base sfx \<and> strings_TrimSuffix base sfx \<noteq> [])
       [''-firmware'', ''-software'', ''-hardware'', ''_firmware'', ''_software'', ''_hardware''])"

definition tokenEqualsWhole :: "string \<Rightarrow> string \<Rightarrow> bool" where
  "tokenEqualsWhole compound whole \<longleftrightarrow> whole \<noteq> [] \<and> compound \<noteq> [] \<and> strings_Contains compound ''-'' \<and>
     list_ex (\<lambda>token. token = whole \<and> 4 \<le> length token) (strings_Split compound (CHR ''-''))"

definition productsMatch :: "string \<Rightarrow> string \<Rightarrow> bool" where
  "productsMatch component product \<longleftrightarrow> component = product \<or>
     list_ex (\<lambda>cv. list_ex (\<lambda>pv. cv = pv \<or> tokenEqualsWhole cv pv \<or> tokenEqualsWhole pv cv) (productAliases product))
       (productAliases component)"

definition extractProduct :: "string \<Rightarrow> string option" where
  "extractProduct criteria = (let parts = strings_Split criteria (CHR '':'') in
     if length parts \<le> 4 then None else Some (parts ! 4))"

section \<open>Versions\<close>

definition normalizeVersion :: "string \<Rightarrow> string" where
  "normalizeVersion v = (let res = strings_TrimPrefix (strings_TrimSpace v) ''v'' in
     case strings_Index res ''-'' of None \<Rightarrow> res | Some idx \<Rightarrow> take idx res)"

definition splitVersion :: "string \<Rightarrow> string list" where
  "splitVersion v = (if v = [] then [] else strings_Split v (CHR ''.''))"

definition version_char :: "char \<Rightarrow> bool" where
  "version_char ch \<longleftrightarrow> CHR ''0'' \<le> ch \<and> ch \<le> CHR ''9'' \<or> CHR ''a'' \<le> ch \<and> ch \<le> CHR ''z'' \<or> CHR ''A'' \<le> ch \<and> ch \<le> CHR ''Z''"

definition hasComparableSegments :: "string \<Rightarrow> bool" where
  "hasComparableSegments v \<longleftrightarrow> list_all (\<lambda>seg. seg \<noteq> [] \<and> list_all version_char seg) (strings_Split v (CHR ''.''))"

text \<open>The comparison of two segments, 0 for the loop to go on: as numbers when both are, otherwise by bytes.\<close>

definition compare_segments :: "string \<Rightarrow> string \<Rightarrow> int" where
  "compare_segments a b = (case (strconv_Atoi a, strconv_Atoi b) of
     (Some ai, Some bi) \<Rightarrow> (if ai < bi then -1 else if ai > bi then 1 else 0)
   | _ \<Rightarrow> (if a < b then -1 else if b < a then 1 else 0))"

fun compare_lists :: "string list \<Rightarrow> string list \<Rightarrow> int" where
  "compare_lists (a # aa) (b # bb) = (let cmp = compare_segments a b in if cmp \<noteq> 0 then cmp else compare_lists aa bb)"
| "compare_lists [] (b # bb) = -1"
| "compare_lists (a # aa) [] = 1"
| "compare_lists [] [] = 0"

definition compareVersions :: "string \<Rightarrow> string \<Rightarrow> int" where
  "compareVersions a b = compare_lists (splitVersion (normalizeVersion a)) (splitVersion (normalizeVersion b))"

definition compareVersionsSafe :: "string \<Rightarrow> string \<Rightarrow> int option" where
  "compareVersionsSafe a b = (let na = normalizeVersion a; nb = normalizeVersion b in
     if na = [] \<or> nb = [] then None
     else if \<not> hasComparableSegments na \<or> \<not> hasComparableSegments nb then None
     else Some (compareVersions na nb))"

definition formatRange :: "nvdCPEMatch \<Rightarrow> string" where
  "formatRange cm =
     (let (left, start) = (if nm_VersionStartIncluding cm \<noteq> [] then (''['', nm_VersionStartIncluding cm)
            else if nm_VersionStartExcluding cm \<noteq> [] then (''('', nm_VersionStartExcluding cm) else (''('', utf8 [8722, 8734]));
          (right, fin) = (if nm_VersionEndIncluding cm \<noteq> [] then ('']'', nm_VersionEndIncluding cm)
            else if nm_VersionEndExcluding cm \<noteq> [] then ('')'', nm_VersionEndExcluding cm) else ('')'', utf8 [43, 8734]))
      in left @ start @ '', '' @ fin @ right)"

definition version_is :: "string \<Rightarrow> string \<Rightarrow> string \<Rightarrow> string" where
  "version_is v how bound = utf8 [1074, 1077, 1088, 1089, 1080, 1103, 32] @ v @ how @ bound"

definition below_text :: string where "below_text = utf8 [32, 1085, 1080, 1078, 1077, 32]"
definition above_text :: string where "above_text = utf8 [32, 1074, 1099, 1096, 1077, 32]"
definition in_range_text :: string where "in_range_text = utf8 [32, 1074, 32, 1076, 1080, 1072, 1087, 1072, 1079, 1086, 1085, 1077, 32]"

text \<open>
  The four bounds in turn: an absent one passes, \<open>None\<close> when a bound cannot be compared, and otherwise whether
  the version passed and the reason.
\<close>

definition check_bound :: "string \<Rightarrow> string \<Rightarrow> (int \<Rightarrow> bool) \<Rightarrow> string \<Rightarrow> (bool \<times> string) option \<Rightarrow> (bool \<times> string) option" where
  "check_bound v bound fails reason rest =
     (if bound = [] then rest
      else case compareVersionsSafe v bound of
          None \<Rightarrow> None
        | Some cmp \<Rightarrow> if fails cmp then Some (False, reason) else rest)"

definition checkVersionRange :: "string \<Rightarrow> nvdCPEMatch \<Rightarrow> (bool \<times> string) option" where
  "checkVersionRange componentVersion cm = (let v = normalizeVersion componentVersion in
     if v = [] then None
     else check_bound v (nm_VersionStartIncluding cm) (\<lambda>cmp. cmp < 0)
         (version_is componentVersion below_text (nm_VersionStartIncluding cm))
      (check_bound v (nm_VersionStartExcluding cm) (\<lambda>cmp. cmp \<le> 0)
         (version_is componentVersion below_text (nm_VersionStartExcluding cm))
      (check_bound v (nm_VersionEndIncluding cm) (\<lambda>cmp. cmp > 0)
         (version_is componentVersion above_text (nm_VersionEndIncluding cm))
      (check_bound v (nm_VersionEndExcluding cm) (\<lambda>cmp. cmp \<ge> 0)
         (version_is componentVersion above_text (nm_VersionEndExcluding cm))
      (Some (True, version_is componentVersion in_range_text (formatRange cm)))))))"

section \<open>The verdict\<close>

record CPEMatchInfo =
  ci_Criteria :: string
  ci_Vulnerable :: bool
  ci_VersionStartIncluding :: string
  ci_VersionStartExcluding :: string
  ci_VersionEndIncluding :: string
  ci_VersionEndExcluding :: string
  ci_Reason :: string

record CPEVerdict =
  cv_Verdict :: string
  cv_Matched :: "CPEMatchInfo list"
  cv_ReasonSummary :: string

definition cpe_unknown :: "string \<Rightarrow> CPEVerdict" where
  "cpe_unknown reason = \<lparr>cv_Verdict = ''unknown'', cv_Matched = [], cv_ReasonSummary = reason\<rparr>"

definition match_info :: "nvdCPEMatch \<Rightarrow> string \<Rightarrow> CPEMatchInfo" where
  "match_info cm reason = \<lparr>ci_Criteria = nm_Criteria cm, ci_Vulnerable = nm_Vulnerable cm,
     ci_VersionStartIncluding = nm_VersionStartIncluding cm, ci_VersionStartExcluding = nm_VersionStartExcluding cm,
     ci_VersionEndIncluding = nm_VersionEndIncluding cm, ci_VersionEndExcluding = nm_VersionEndExcluding cm, ci_Reason = reason\<rparr>"

text \<open>The loop: \<open>None\<close> when versions cannot be compared.\<close>

definition product_matches :: "string \<Rightarrow> nvdCPEMatch \<Rightarrow> bool" where
  "product_matches normComponent cm = (case extractProduct (nm_Criteria cm) of
     None \<Rightarrow> False | Some product \<Rightarrow> productsMatch normComponent (normalize product))"

fun cpe_loop :: "string \<Rightarrow> string \<Rightarrow> nvdCPEMatch list \<Rightarrow> bool \<times> bool \<times> CPEMatchInfo list \<Rightarrow> (bool \<times> bool \<times> CPEMatchInfo list) option" where
  "cpe_loop version normComponent [] s = Some s"
| "cpe_loop version normComponent (cm # matches) (productMatched, inRange, considered) =
     (if \<not> product_matches normComponent cm then cpe_loop version normComponent matches (productMatched, inRange, considered)
      else case checkVersionRange version cm of
          None \<Rightarrow> None
        | Some (okInRange, reason) \<Rightarrow> cpe_loop version normComponent matches
            (True, inRange \<or> nm_Vulnerable cm \<and> okInRange, considered @ [match_info cm reason]))"

definition MatchCPE :: "Decoder \<Rightarrow> string \<Rightarrow> string \<Rightarrow> string \<Rightarrow> CPEVerdict" where
  "MatchCPE dc component componentVersion cpeMatchesRaw =
     (if cpeMatchesRaw = [] \<or> strings_TrimSpace component = []
      then cpe_unknown (utf8 [1085, 1077, 1076, 1086, 1089, 1090, 1072, 1090, 1086, 1095, 1085, 1086, 32, 1076, 1072, 1085, 1085, 1099, 1093, 32, 1076, 1083, 1103, 32, 1089, 1086, 1087, 1086, 1089, 1090, 1072, 1074, 1083, 1077, 1085, 1080, 1103])
      else if strings_TrimSpace componentVersion = []
      then cpe_unknown (utf8 [1074, 1077, 1088, 1089, 1080, 1103, 32, 1082, 1086, 1084, 1087, 1086, 1085, 1077, 1085, 1090, 1072, 32, 1085, 1077, 1080, 1079, 1074, 1077, 1089, 1090, 1085, 1072])
      else let matches = flattenCPEMatches dc cpeMatchesRaw in
        if matches = [] then cpe_unknown (utf8 [1085, 1077, 1076, 1086, 1089, 1090, 1072, 1090, 1086, 1095, 1085, 1086, 32, 1076, 1072, 1085, 1085, 1099, 1093, 32, 1076, 1083, 1103, 32, 1089, 1086, 1087, 1086, 1089, 1090, 1072, 1074, 1083, 1077, 1085, 1080, 1103])
        else case cpe_loop componentVersion (normalize component) matches (False, False, []) of
            None \<Rightarrow> cpe_unknown (utf8 [1085, 1077, 32, 1091, 1076, 1072, 1083, 1086, 1089, 1100, 32, 1089, 1088, 1072, 1074, 1085, 1080, 1090, 1100, 32, 1074, 1077, 1088, 1089, 1080, 1080])
          | Some (productMatched, inRange, considered) \<Rightarrow>
              if inRange then \<lparr>cv_Verdict = ''affected'', cv_Matched = considered,
                cv_ReasonSummary = utf8 [1042, 1077, 1088, 1089, 1080, 1103, 32] @ componentVersion @ utf8 [32, 1087, 1086, 1087, 1072, 1076, 1072, 1077, 1090, 32, 1074, 32, 1091, 1103, 1079, 1074, 1080, 1084, 1099, 1081, 32, 1076, 1080, 1072, 1087, 1072, 1079, 1086, 1085]\<rparr>
              else if productMatched then \<lparr>cv_Verdict = ''not_affected'', cv_Matched = considered,
                cv_ReasonSummary = utf8 [1042, 1077, 1088, 1089, 1080, 1103, 32] @ componentVersion @ utf8 [32, 1074, 1085, 1077, 32, 1091, 1103, 1079, 1074, 1080, 1084, 1099, 1093, 32, 1076, 1080, 1072, 1087, 1072, 1079, 1086, 1085, 1086, 1074]\<rparr>
              else cpe_unknown (utf8 [1082, 1086, 1084, 1087, 1086, 1085, 1077, 1085, 1090, 32, 1085, 1077, 32, 1089, 1086, 1087, 1086, 1089, 1090, 1072, 1074, 1083, 1077, 1085, 32, 1089, 32, 67, 80, 69]))"

section \<open>Laws\<close>

text \<open>The order on versions written as numbers is the lexicographic one.\<close>

definition segments :: "string \<Rightarrow> string list" where
  "segments v = strings_Split (normalizeVersion v) (CHR ''.'')"

definition numeric_version :: "string \<Rightarrow> bool" where
  "numeric_version v \<longleftrightarrow> list_all (\<lambda>seg. seg \<noteq> [] \<and> list_all is_digit seg \<and> digits_val seg < 2 ^ 63) (segments v)"

definition numbers :: "string \<Rightarrow> nat list" where
  "numbers v = map digits_val (segments v)"

lemma is_digit_chars: "is_digit c \<Longrightarrow> version_char c \<and> \<not> is_space c \<and> c \<noteq> CHR ''-'' \<and> c \<noteq> CHR ''v'' \<and> c \<noteq> CHR ''+''"
  by (auto simp: is_digit_def version_char_def is_space_def less_eq_char_def)

lemma Atoi_digits:
  assumes "s \<noteq> []" "list_all is_digit s" "digits_val s < 2 ^ 63"
  shows "strconv_Atoi s = Some (int (digits_val s))"
proof -
  obtain c cs where s: "s = c # cs" using assms(1) by (cases s) auto
  moreover have "int (digits_val s) < 2 ^ 63" using assms(3) by (metis of_nat_less_iff of_nat_numeral of_nat_power)
  ultimately show ?thesis using assms is_digit_chars[of c] by (auto simp: strconv_Atoi_def in_int64_def Let_def)
qed

lemma compare_digits:
  assumes "a \<noteq> []" "list_all is_digit a" "digits_val a < 2 ^ 63" "b \<noteq> []" "list_all is_digit b" "digits_val b < 2 ^ 63"
  shows "compare_segments a b = (if digits_val a < digits_val b then -1 else if digits_val b < digits_val a then 1 else 0)"
  using Atoi_digits assms by (simp add: compare_segments_def)

definition order_of :: "'a::linorder \<Rightarrow> 'a \<Rightarrow> int" where
  "order_of a b = (if a < b then -1 else if b < a then 1 else 0)"

lemma compare_lists_numbers:
  "list_all (\<lambda>seg. seg \<noteq> [] \<and> list_all is_digit seg \<and> digits_val seg < 2 ^ 63) aa \<Longrightarrow>
   list_all (\<lambda>seg. seg \<noteq> [] \<and> list_all is_digit seg \<and> digits_val seg < 2 ^ 63) bb \<Longrightarrow>
   compare_lists aa bb = order_of (map digits_val aa) (map digits_val bb)"
  by (induction aa bb rule: compare_lists.induct) (auto simp: compare_digits order_of_def Let_def)

text \<open>A numeric version is its own normal form, and its segments can be compared.\<close>

lemma Split_set: "c \<in> set s \<Longrightarrow> c = sep \<or> (\<exists>p \<in> set (strings_Split s sep). c \<in> set p)"
  by (induction s) (auto split: list.splits if_splits)

lemma numeric_chars: "numeric_version v \<Longrightarrow> c \<in> set (normalizeVersion v) \<Longrightarrow> c = CHR ''.'' \<or> is_digit c"
  using Split_set[of c "normalizeVersion v" "CHR ''.''"] by (auto simp: numeric_version_def segments_def list_all_iff)

lemma numeric_ne: "numeric_version v \<Longrightarrow> normalizeVersion v \<noteq> []"
  by (auto simp: numeric_version_def segments_def)

lemma normalizeVersion_fix:
  assumes "\<forall>c \<in> set s. \<not> is_space c" "CHR ''v'' \<notin> set s" "CHR ''-'' \<notin> set s"
  shows "normalizeVersion s = s"
proof -
  have "\<not> strings_HasPrefix s ''v''" using assms(2) by (auto simp: HasPrefix_iff)
  moreover have "strings_Index s ''-'' = None"
    using assms(3) Contains_char[of s "CHR ''-''"] by (simp add: strings_Contains_def)
  ultimately show ?thesis using assms(1) by (simp add: normalizeVersion_def TrimSpace_no_space strings_TrimPrefix_def)
qed

lemma numeric_normal [simp]:
  assumes "numeric_version v"
  shows "normalizeVersion (normalizeVersion v) = normalizeVersion v"
proof (rule normalizeVersion_fix)
  have dot: "\<not> is_space (CHR ''.'')" by (simp add: is_space_def)
  show "\<forall>c \<in> set (normalizeVersion v). \<not> is_space c" using numeric_chars[OF assms] is_digit_chars dot by blast
  show "CHR ''v'' \<notin> set (normalizeVersion v)" using numeric_chars[OF assms, of "CHR ''v''"] is_digit_chars by auto
  show "CHR ''-'' \<notin> set (normalizeVersion v)" using numeric_chars[OF assms, of "CHR ''-''"] is_digit_chars by auto
qed

lemma numeric_comparable: "numeric_version v \<Longrightarrow> hasComparableSegments (normalizeVersion v)"
  using is_digit_chars by (auto simp: numeric_version_def hasComparableSegments_def segments_def list_all_iff)

lemma numeric_normalized: "numeric_version v \<Longrightarrow> numeric_version (normalizeVersion v) \<and> numbers (normalizeVersion v) = numbers v"
  by (simp add: numeric_version_def numbers_def segments_def flip: segments_def) (simp add: numeric_version_def segments_def)

lemma compareVersionsSafe_numbers:
  assumes "numeric_version a" "numeric_version b"
  shows "compareVersionsSafe a b = Some (order_of (numbers a) (numbers b))"
proof -
  have "splitVersion (normalizeVersion v) = segments v" if "numeric_version v" for v
    using numeric_ne[OF that] by (simp add: splitVersion_def segments_def)
  then show ?thesis
    using assms compare_lists_numbers[OF assms[unfolded numeric_version_def]] numeric_ne numeric_comparable
    by (simp add: compareVersionsSafe_def compareVersions_def Let_def numbers_def)
qed

text \<open>A version between the bounds of a match, over the numbers.\<close>

definition numeric_match :: "nvdCPEMatch \<Rightarrow> bool" where
  "numeric_match cm \<longleftrightarrow> list_all (\<lambda>b. b = [] \<or> numeric_version b)
     [nm_VersionStartIncluding cm, nm_VersionStartExcluding cm, nm_VersionEndIncluding cm, nm_VersionEndExcluding cm]"

definition inside :: "string \<Rightarrow> nvdCPEMatch \<Rightarrow> bool" where
  "inside v cm \<longleftrightarrow>
     (nm_VersionStartIncluding cm = [] \<or> numbers (nm_VersionStartIncluding cm) \<le> numbers v) \<and>
     (nm_VersionStartExcluding cm = [] \<or> numbers (nm_VersionStartExcluding cm) < numbers v) \<and>
     (nm_VersionEndIncluding cm = [] \<or> numbers v \<le> numbers (nm_VersionEndIncluding cm)) \<and>
     (nm_VersionEndExcluding cm = [] \<or> numbers v < numbers (nm_VersionEndExcluding cm))"

lemma order_of_iff: "order_of a b < 0 \<longleftrightarrow> a < b" "order_of a b \<le> 0 \<longleftrightarrow> a \<le> b" "0 < order_of a b \<longleftrightarrow> b < a" "0 \<le> order_of a b \<longleftrightarrow> b \<le> a"
  by (auto simp: order_of_def)

lemma check_bound_numeric:
  assumes "numeric_version v" "bound = [] \<or> numeric_version bound"
  shows "check_bound (normalizeVersion v) bound fails reason rest =
    (if bound \<noteq> [] \<and> fails (order_of (numbers v) (numbers bound)) then Some (False, reason) else rest)"
  using assms numeric_normalized[OF assms(1)] by (auto simp: check_bound_def compareVersionsSafe_numbers)

lemma checkVersionRange_numeric:
  assumes "numeric_version v" "numeric_match cm"
  shows "\<exists>reason. checkVersionRange v cm = Some (inside v cm, reason)"
  using assms
  by (auto simp: checkVersionRange_def Let_def numeric_ne numeric_match_def check_bound_numeric order_of_iff inside_def not_le not_less)

text \<open>Outside of numbers the comparison is no order: each of these three versions is below the next.\<close>

lemma compareVersions_cycle:
  "compareVersions ''2'' ''10'' = -1 \<and> compareVersions ''10'' ''1a'' = -1 \<and> compareVersions ''1a'' ''2'' = -1"
  by code_simp

text \<open>The loop over the matches, when every version to compare is numeric.\<close>

definition relevant :: "string \<Rightarrow> nvdCPEMatch list \<Rightarrow> nvdCPEMatch list" where
  "relevant component matches = filter (product_matches (normalize component)) matches"

lemma cpe_loop_numeric:
  assumes "numeric_version v" "\<forall>cm \<in> set matches. product_matches n cm \<longrightarrow> numeric_match cm"
  shows "\<exists>infos. cpe_loop v n matches (pm, ir, considered) =
      Some (pm \<or> filter (product_matches n) matches \<noteq> [],
        ir \<or> list_ex (\<lambda>cm. nm_Vulnerable cm \<and> inside v cm) (filter (product_matches n) matches), considered @ infos) \<and>
    map ci_Criteria infos = map nm_Criteria (filter (product_matches n) matches)"
  using assms(2)
proof (induction matches arbitrary: pm ir considered)
  case (Cons cm matches)
  show ?case
  proof (cases "product_matches n cm")
    case True
    then obtain reason where reason: "checkVersionRange v cm = Some (inside v cm, reason)"
      using checkVersionRange_numeric[OF assms(1)] Cons.prems by auto
    let ?info = "match_info cm reason"
    from Cons.IH[of True "ir \<or> nm_Vulnerable cm \<and> inside v cm" "considered @ [?info]"] Cons.prems
    obtain infos where "cpe_loop v n matches (True, ir \<or> nm_Vulnerable cm \<and> inside v cm, considered @ [?info]) =
      Some (True, (ir \<or> nm_Vulnerable cm \<and> inside v cm) \<or>
        list_ex (\<lambda>cm. nm_Vulnerable cm \<and> inside v cm) (filter (product_matches n) matches), considered @ ?info # infos)"
      "map ci_Criteria infos = map nm_Criteria (filter (product_matches n) matches)" by auto
    then show ?thesis using True reason by (intro exI[of _ "?info # infos"]) (simp add: match_info_def disj_assoc)
  next
    case False
    then show ?thesis using Cons.IH[of pm ir considered] Cons.prems by simp
  qed
qed simp

lemma numeric_not_blank: "numeric_version v \<Longrightarrow> strings_TrimSpace v \<noteq> []"
  using numeric_ne[of v] by (auto simp: normalizeVersion_def strings_TrimPrefix_def HasPrefix_iff)

text \<open>
  C34. Between versions written with numbers and dots the verdict on a component is what the NVD data say:
  affected exactly when some vulnerable match of its product has the version between its bounds, read as
  lists of numbers in lexicographic order; not affected when its product is named but no such match is; and
  unknown when no match names the product. The verdict lists exactly the matches of the product.
\<close>

theorem cpe_verdict_exact:
  assumes "raw \<noteq> []" "strings_TrimSpace component \<noteq> []" "numeric_version v"
    and "\<forall>cm \<in> set (flattenCPEMatches dc raw). product_matches (normalize component) cm \<longrightarrow> numeric_match cm"
  defines "matches \<equiv> relevant component (flattenCPEMatches dc raw)"
  shows "cv_Verdict (MatchCPE dc component v raw) =
      (if list_ex (\<lambda>cm. nm_Vulnerable cm \<and> inside v cm) matches then ''affected''
       else if matches \<noteq> [] then ''not_affected'' else ''unknown'') \<and>
    map ci_Criteria (cv_Matched (MatchCPE dc component v raw)) = map nm_Criteria matches"
proof -
  obtain infos where loop: "cpe_loop v (normalize component) (flattenCPEMatches dc raw) (False, False, []) =
      Some (matches \<noteq> [], list_ex (\<lambda>cm. nm_Vulnerable cm \<and> inside v cm) matches, infos)"
    and infos: "map ci_Criteria infos = map nm_Criteria matches"
    using cpe_loop_numeric[OF assms(3,4), of False False "[]"] by (auto simp: matches_def relevant_def)
  have none: "flattenCPEMatches dc raw = [] \<Longrightarrow> matches = []" by (simp add: matches_def relevant_def)
  show ?thesis
    using assms(1,2) numeric_not_blank[OF assms(3)] loop infos none
    by (cases "matches = []") (auto simp: MatchCPE_def cpe_unknown_def Let_def)
qed

text \<open>A document with one vulnerable range of the product \<open>lib\<close>, from 1.2 up to 1.10.\<close>

definition demo_cpe_doc :: json where
  "demo_cpe_doc = JsonArray [JsonObject [(''nodes'', JsonArray [JsonObject [(''cpeMatch'', JsonArray [JsonObject
     [(''vulnerable'', JsonBool True), (''criteria'', JsonString ''cpe:2.3:a:acme:lib:*''),
      (''versionStartIncluding'', JsonString ''1.2''), (''versionEndExcluding'', JsonString ''1.10'')]])]])]]"

definition demo_cpe_decoder :: Decoder where
  "demo_cpe_decoder = \<lparr>jd_parse = (\<lambda>_. Some demo_cpe_doc), jd_stream = (\<lambda>_. ([], True)), jd_text = (\<lambda>_. []),
     jd_float = (\<lambda>_. None), jd_uuid = (\<lambda>_. None), jd_hash = id, jd_walk = id\<rparr>"

definition demo_match :: nvdCPEMatch where
  "demo_match = \<lparr>nm_Vulnerable = True, nm_Criteria = ''cpe:2.3:a:acme:lib:*'', nm_VersionStartIncluding = ''1.2'',
     nm_VersionStartExcluding = [], nm_VersionEndIncluding = [], nm_VersionEndExcluding = ''1.10''\<rparr>"

lemma demo_cpe_matches: "flattenCPEMatches demo_cpe_decoder ''doc'' = [demo_match]"
  by (simp add: flattenCPEMatches_def demo_cpe_decoder_def demo_cpe_doc_def demo_match_def dec_list_def dec_slice_def
      decode_nvdConfiguration_def decode_nvdCPEMatch_def json_field_def strings_EqualFold_def strings_ToLower_def lower_char_def
      dec_string_def dec_bool_def dec_struct_def comp_def)

theorem cpe_verdict_exact_witness:
  "cv_Verdict (MatchCPE demo_cpe_decoder ''Lib'' ''v1.9'' ''doc'') = ''affected'' \<and>
   cv_Verdict (MatchCPE demo_cpe_decoder ''Lib'' ''1.10'' ''doc'') = ''not_affected''"
proof -
  have product: "product_matches (normalize ''Lib'') demo_match" by code_simp
  have numeric: "numeric_version ''v1.9'' \<and> numeric_version ''1.10'' \<and> numeric_match demo_match"
    by (simp add: numeric_match_def demo_match_def numeric_version_def segments_def normalizeVersion_def strings_TrimPrefix_def
        strings_HasPrefix_def strings_TrimSpace_def is_space_def is_digit_def digits_val_def digit_val_def)
  have where_: "inside ''v1.9'' demo_match \<and> \<not> inside ''1.10'' demo_match" by code_simp
  have blank: "strings_TrimSpace ''Lib'' \<noteq> []" by code_simp
  have ok: "\<forall>cm \<in> set (flattenCPEMatches demo_cpe_decoder ''doc''). product_matches (normalize ''Lib'') cm \<longrightarrow> numeric_match cm"
    using numeric by (simp add: demo_cpe_matches)
  have vuln: "nm_Vulnerable demo_match" by (simp add: demo_match_def)
  show ?thesis
    using cpe_verdict_exact[of "''doc''" "''Lib''" "''v1.9''" demo_cpe_decoder] cpe_verdict_exact[of "''doc''" "''Lib''" "''1.10''" demo_cpe_decoder]
      numeric where_ blank ok product vuln
    by (simp add: demo_cpe_matches relevant_def)
qed

section \<open>Product names in normal form\<close>

lemma ReplaceAll_dashes:
  "strings_ReplaceAll s ''--'' ''-'' = [] \<longleftrightarrow> s = []"
  "s \<noteq> [] \<Longrightarrow> hd (strings_ReplaceAll s ''--'' ''-'') = hd s \<and> last (strings_ReplaceAll s ''--'' ''-'') = last s"
  "set (strings_ReplaceAll s ''--'' ''-'') \<subseteq> set s"
proof -
  show empty: "strings_ReplaceAll s ''--'' ''-'' = [] \<longleftrightarrow> s = []" for s by (cases s) auto
  show "s \<noteq> [] \<Longrightarrow> hd (strings_ReplaceAll s ''--'' ''-'') = hd s \<and> last (strings_ReplaceAll s ''--'' ''-'') = last s"
    by (induction s "''--''" "''-''" rule: strings_ReplaceAll.induct) (auto simp: HasPrefix_iff empty)
  show "set (strings_ReplaceAll s ''--'' ''-'') \<subseteq> set s"
    by (induction s "''--''" "''-''" rule: strings_ReplaceAll.induct) (auto simp: HasPrefix_iff dest: in_set_dropD)
qed

lemma collapse_props:
  "\<not> strings_Contains (collapse s) ''--''" "set (collapse s) \<subseteq> set s"
  "s \<noteq> [] \<Longrightarrow> collapse s \<noteq> [] \<and> hd (collapse s) = hd s \<and> last (collapse s) = last s"
proof (induction s rule: collapse.induct)
  case (1 s)
  { case 1 then show ?case using "1.IH" by (subst collapse.simps) auto }
  { case 2 then show ?case using "1.IH" ReplaceAll_dashes(3)[of s] by (subst collapse.simps) auto }
  { case 3 then show ?case using "1.IH" ReplaceAll_dashes(1,2)[of s] by (subst (1 2 3) collapse.simps) auto }
qed

text \<open>A normal form has letters, digits and single dashes inside only, so a rune outside ASCII leaves one dash.\<close>

lemma normalize_form:
  "\<not> strings_Contains (normalize s) ''--'' \<and> (\<forall>c \<in> set (normalize s). plain_char c \<or> c = CHR ''-'') \<and>
   (normalize s \<noteq> [] \<longrightarrow> hd (normalize s) \<noteq> CHR ''-'' \<and> last (normalize s) \<noteq> CHR ''-'')"
proof -
  define m where "m = map (\<lambda>r. if plain_char r then r else CHR ''-'')
    (strings_ReplaceAll (strings_ToLower (strings_TrimSpace s)) [CHR 0x5C] [])"
  define t where "t = strings_Trim m (CHR ''-'')"
  have n: "normalize s = collapse t" by (simp add: normalize_def m_def t_def Let_def)
  have "set t \<subseteq> set m" by (auto simp: t_def strings_Trim_def dest!: set_dropWhileD)
  moreover have "\<forall>c \<in> set m. plain_char c \<or> c = CHR ''-''" by (auto simp: m_def)
  ultimately have chars: "\<forall>c \<in> set t. plain_char c \<or> c = CHR ''-''" by blast
  have ends: "hd t \<noteq> CHR ''-'' \<and> last t \<noteq> CHR ''-''" if "t \<noteq> []"
    using trim_ends[OF t_def[unfolded strings_Trim_def] that] by simp
  have "t \<noteq> []" if "collapse t \<noteq> []" using that collapse_props(2)[of t] by auto
  then show ?thesis using collapse_props[of t] chars ends unfolding n by auto
qed

section \<open>References\<close>

record Reference =
  ref_URL :: string
  ref_Source :: string
  ref_Tags :: "string list"

definition decode_Reference :: "json option \<Rightarrow> Reference option" where
  "decode_Reference j = do {
     obj \<leftarrow> dec_struct j;
     x1 \<leftarrow> dec_string (json_field obj ''url'');
     x2 \<leftarrow> dec_string (json_field obj ''source'');
     x3 \<leftarrow> dec_list dec_string (json_field obj ''tags'');
     Some \<lparr>ref_URL = x1, ref_Source = x2, ref_Tags = x3\<rparr>
   }"

definition hasTag :: "string list \<Rightarrow> string \<Rightarrow> bool" where
  "hasTag tags expected = list_ex (\<lambda>tag. tag = expected) tags"

definition hasAnyTag :: "string list \<Rightarrow> string list \<Rightarrow> bool" where
  "hasAnyTag tags expected = list_ex (hasTag tags) expected"

definition classifyReference :: "string list \<Rightarrow> string" where
  "classifyReference tags =
     (if hasTag tags ''Patch'' then ''patch''
      else if hasTag tags ''Exploit'' then ''exploit''
      else if hasTag tags ''Mitigation'' then ''mitigation''
      else if hasAnyTag tags [''Vendor Advisory'', ''Release Notes'', ''Product''] then ''advisory_vendor''
      else if hasAnyTag tags [''Third Party Advisory'', ''VDB Entry'', ''US Government Resource''] then ''advisory_third_party''
      else if hasAnyTag tags [''Issue Tracking'', ''Mailing List'', ''Press/Media Coverage'', ''Technical Description'',
        ''Tool Signature'', ''Related''] then ''report''
      else ''other'')"

text \<open>
  The classes as a map, \<open>None\<close> for nil. \<open>sort.Slice\<close> leaves the order of references with one URL open; the
  model keeps the one of the document.
\<close>

definition ClassifyReferences :: "Decoder \<Rightarrow> string \<Rightarrow> (string \<rightharpoonup> Reference list) option" where
  "ClassifyReferences dc raw =
     (if raw = [] \<or> raw = ''[]'' then None
      else case Option.bind (jd_parse dc raw) (dec_list decode_Reference \<circ> Some) of
          None \<Rightarrow> None
        | Some refs \<Rightarrow>
            let named = filter (\<lambda>ref. ref_URL ref \<noteq> []) refs in
            if named = [] then None
            else Some (\<lambda>cat. case filter (\<lambda>ref. classifyReference (ref_Tags ref) = cat) named of
                [] \<Rightarrow> None | rs \<Rightarrow> Some (sort_key ref_URL rs)))"

text \<open>Every reference with a URL is in one class, the one of its tags, and no other is.\<close>

lemma ClassifyReferences_partition:
  assumes "ClassifyReferences dc raw = Some out"
    and "Option.bind (jd_parse dc raw) (dec_list decode_Reference \<circ> Some) = Some refs"
  shows "(\<exists>rs. out cat = Some rs \<and> r \<in> set rs) \<longleftrightarrow> r \<in> set refs \<and> ref_URL r \<noteq> [] \<and> classifyReference (ref_Tags r) = cat"
proof -
  let ?named = "filter (\<lambda>ref. ref_URL ref \<noteq> []) refs"
  have "out = (\<lambda>cat. case filter (\<lambda>ref. classifyReference (ref_Tags ref) = cat) ?named of
      [] \<Rightarrow> None | rs \<Rightarrow> Some (sort_key ref_URL rs))"
    using assms by (auto simp: ClassifyReferences_def Let_def split: if_splits)
  moreover have "(\<exists>rs. (case xs of [] \<Rightarrow> None | ys \<Rightarrow> Some (sort_key ref_URL ys)) = Some rs \<and> r \<in> set rs) \<longleftrightarrow> r \<in> set xs" for xs
    by (cases xs) (auto simp: set_insort_key)
  ultimately show ?thesis by auto
qed

end
