(* ===== verification/EnrichData.thy ===== *)
theory EnrichData
  imports Db Scores Cvss Osv Cwe NvdCpe "HOL-Library.Product_Lexorder"
begin

text \<open>
  The entries the enrichment of a finding stores: the first half of \<open>internal/enrichment/enrich.go\<close>. The
  reference tables are records of rows as the queries read them, and an entry is a Go map of values of any
  type. A nullable column is an option; an array or JSON column that is NULL reads as empty.
\<close>

section \<open>Values\<close>

datatype any =
    AnyString string
  | AnyReal real
  | AnyInt int
  | AnyBool bool
  | AnyTime time
  | AnyRaw string
  | AnyList "any list"
  | AnyMap "(string \<times> any) list"

type_synonym entry = "(string \<times> any) list"

text \<open>\<open>entry[key] = v\<close>, and the same for a pointer, a text and a slice that is left out when empty.\<close>

definition put :: "string \<Rightarrow> any \<Rightarrow> entry \<Rightarrow> entry" where
  "put k v e = filter (\<lambda>(k', _). k' \<noteq> k) e @ [(k, v)]"

definition put_opt :: "string \<Rightarrow> any option \<Rightarrow> entry \<Rightarrow> entry" where
  "put_opt k v e = (case v of None \<Rightarrow> e | Some x \<Rightarrow> put k x e)"

definition put_text :: "string \<Rightarrow> string option \<Rightarrow> entry \<Rightarrow> entry" where
  "put_text k v e = (case v of None \<Rightarrow> e | Some x \<Rightarrow> if x = [] then e else put k (AnyString x) e)"

definition put_raw :: "string \<Rightarrow> string \<Rightarrow> entry \<Rightarrow> entry" where
  "put_raw k v e = (if v = [] then e else put k (AnyRaw v) e)"

definition put_list :: "string \<Rightarrow> ('a \<Rightarrow> any) \<Rightarrow> 'a list \<Rightarrow> entry \<Rightarrow> entry" where
  "put_list k f xs e = (if xs = [] then e else put k (AnyList (map f xs)) e)"

definition safeStr :: "string option \<Rightarrow> string" where
  "safeStr s = (case s of None \<Rightarrow> [] | Some x \<Rightarrow> x)"

text \<open>
  Reading the rows of a result: the driver closes a result whose row does not scan, so the loop, which means
  to go on with the next row, ends there.
\<close>

definition scanned :: "('r \<Rightarrow> bool) \<Rightarrow> 'r list \<Rightarrow> 'r list" where
  "scanned scans rows = takeWhile scans rows"

section \<open>The identifiers of a finding\<close>

fun normalize_ids :: "string list \<Rightarrow> string list \<Rightarrow> string list" where
  "normalize_ids [] normalized = normalized"
| "normalize_ids (i # ids) normalized = (let v = strings_ToUpper (strings_TrimSpace i) in
     normalize_ids ids (if v = [] \<or> v \<in> set normalized then normalized else normalized @ [v]))"

definition normalizeCVEIDs :: "string list \<Rightarrow> string list" where
  "normalizeCVEIDs cveIDs = (if cveIDs = [] then cveIDs else normalize_ids cveIDs [])"

lemma normalize_ids_set:
  "set (normalize_ids ids acc) = set acc \<union> ((\<lambda>i. strings_ToUpper (strings_TrimSpace i)) ` set ids - {[]})"
  by (induction ids arbitrary: acc) (auto simp: Let_def)

lemma normalize_ids_distinct: "distinct acc \<Longrightarrow> distinct (normalize_ids ids acc)"
  by (induction ids arbitrary: acc) (auto simp: Let_def)

lemma normalizeCVEIDs_props:
  "distinct (normalizeCVEIDs ids)" "set (normalizeCVEIDs ids) = (\<lambda>i. strings_ToUpper (strings_TrimSpace i)) ` set ids - {[]}"
  by (auto simp: normalizeCVEIDs_def normalize_ids_set normalize_ids_distinct)

section \<open>NVD\<close>

record NvdRow =
  nv_cve_id :: string
  nv_description :: "string option"
  nv_v31_score :: "real option"
  nv_v31_vector :: "string option"
  nv_v40_score :: "real option"
  nv_v40_vector :: "string option"
  nv_v2_score :: "real option"
  nv_v2_vector :: "string option"
  nv_cwe_ids :: "int list"
  nv_cpe_matches :: string
  nv_references :: string
  nv_published_at :: "time option"
  nv_modified_at :: "time option"

definition nvd_scans :: "NvdRow \<Rightarrow> bool" where
  "nvd_scans r \<longleftrightarrow> nv_description r \<noteq> None"

definition any_V31 :: "V31Metrics \<Rightarrow> any" where
  "any_V31 m = AnyMap (map (\<lambda>(k, v). (k, AnyString v)) [(''raw'', v31_Raw m), (''AV'', v31_AV m), (''AC'', v31_AC m),
     (''PR'', v31_PR m), (''UI'', v31_UI m), (''S'', v31_S m), (''C'', v31_C m), (''I'', v31_I m), (''A'', v31_A m)])"

definition any_V40 :: "V40Metrics \<Rightarrow> any" where
  "any_V40 m = AnyMap (map (\<lambda>(k, v). (k, AnyString v)) [(''raw'', v40_Raw m), (''AV'', v40_AV m), (''AC'', v40_AC m),
     (''AT'', v40_AT m), (''PR'', v40_PR m), (''UI'', v40_UI m), (''VC'', v40_VC m), (''VI'', v40_VI m), (''VA'', v40_VA m),
     (''SC'', v40_SC m), (''SI'', v40_SI m), (''SA'', v40_SA m)])"

definition any_V2 :: "V2Metrics \<Rightarrow> any" where
  "any_V2 m = AnyMap (map (\<lambda>(k, v). (k, AnyString v)) [(''raw'', v2_Raw m), (''AV'', v2_AV m), (''AC'', v2_AC m),
     (''Au'', v2_Au m), (''C'', v2_C m), (''I'', v2_I m), (''A'', v2_A m)])"

text \<open>The metrics of a vector, \<open>None\<close> when there is none or it does not parse.\<close>

definition metrics_of :: "('m \<Rightarrow> any) \<Rightarrow> (string \<Rightarrow> cvss_error + 'm) \<Rightarrow> string option \<Rightarrow> any option" where
  "metrics_of f parse vec = (case vec of None \<Rightarrow> None
     | Some v \<Rightarrow> (case parse v of Inl _ \<Rightarrow> None | Inr m \<Rightarrow> Some (f m)))"

definition nvd_cvss :: "real option \<Rightarrow> string option \<Rightarrow> any option \<Rightarrow> any option" where
  "nvd_cvss score vec metrics = map_option
     (\<lambda>x. AnyMap (put_opt ''metrics'' metrics [(''score'', AnyReal x), (''vector'', AnyString (safeStr vec))])) score"

definition any_match :: "CPEMatchInfo \<Rightarrow> any" where
  "any_match i = AnyMap
     (put ''reason'' (AnyString (ci_Reason i))
      (put_text ''version_end_excluding'' (Some (ci_VersionEndExcluding i))
       (put_text ''version_end_including'' (Some (ci_VersionEndIncluding i))
        (put_text ''version_start_excluding'' (Some (ci_VersionStartExcluding i))
         (put_text ''version_start_including'' (Some (ci_VersionStartIncluding i))
          [(''criteria'', AnyString (ci_Criteria i)), (''vulnerable'', AnyBool (ci_Vulnerable i))])))))"

definition any_verdict :: "CPEVerdict \<Rightarrow> any" where
  "any_verdict v = AnyMap (put ''reason_summary'' (AnyString (cv_ReasonSummary v))
     (put_list ''matched'' any_match (cv_Matched v) [(''verdict'', AnyString (cv_Verdict v))]))"

definition any_reference :: "Reference \<Rightarrow> any" where
  "any_reference r = AnyMap (put_list ''tags'' AnyString (ref_Tags r)
     (put_text ''source'' (Some (ref_Source r)) [(''url'', AnyString (ref_URL r))]))"

definition ref_categories :: "string list" where
  "ref_categories = [''patch'', ''exploit'', ''mitigation'', ''advisory_vendor'', ''advisory_third_party'', ''report'', ''other'']"

definition any_references :: "(string \<rightharpoonup> Reference list) \<Rightarrow> any" where
  "any_references refs = AnyMap (concat (map (\<lambda>cat. case refs cat of None \<Rightarrow> []
     | Some rs \<Rightarrow> [(cat, AnyList (map any_reference rs))]) ref_categories))"

definition nvd_entry :: "Decoder \<Rightarrow> Finding \<Rightarrow> NvdRow \<Rightarrow> entry" where
  "nvd_entry dc f r =
     (let e = [(''cve_id'', AnyString (nv_cve_id r)), (''description'', AnyString (safeStr (nv_description r)))];
          e = put_opt ''cvss_v40'' (nvd_cvss (nv_v40_score r) (nv_v40_vector r) (metrics_of any_V40 ParseV40 (nv_v40_vector r))) e;
          e = put_opt ''cvss_v31'' (nvd_cvss (nv_v31_score r) (nv_v31_vector r) (metrics_of any_V31 ParseV31 (nv_v31_vector r))) e;
          e = put_opt ''cvss_v2'' (nvd_cvss (nv_v2_score r) (nv_v2_vector r) (metrics_of any_V2 ParseV2 (nv_v2_vector r))) e;
          e = put_list ''cwe_ids'' AnyInt (nv_cwe_ids r) e;
          e = put_raw ''cpe_matches'' (nv_cpe_matches r) e;
          e = put ''cpe_match'' (any_verdict (MatchCPE dc (f_Component f) (f_ComponentVersion f) (nv_cpe_matches r))) e;
          e = (if nv_references r = [] then e
               else put_opt ''references'' (map_option any_references (ClassifyReferences dc (nv_references r))) e);
          e = put_opt ''published_at'' (map_option AnyTime (nv_published_at r)) e
      in put_opt ''modified_at'' (map_option AnyTime (nv_modified_at r)) e)"

text \<open>The base score after a row: the newest version with a score, and the one before when there is none.\<close>

definition nvd_base :: "NvdRow \<Rightarrow> real \<Rightarrow> real" where
  "nvd_base r baseScore = (case nv_v40_score r of Some x \<Rightarrow> x | None \<Rightarrow>
     (case nv_v31_score r of Some x \<Rightarrow> x | None \<Rightarrow> (case nv_v2_score r of Some x \<Rightarrow> x | None \<Rightarrow> baseScore)))"

section \<open>EPSS\<close>

record EpssRow =
  ep_cve_id :: string
  ep_score :: real
  ep_percentile :: real
  ep_score_date :: time

record EpssHistoryRow =
  eh_cve_id :: string
  eh_date :: time
  eh_score :: real
  eh_percentile :: real

text \<open>The history of the last 90 days, by date; a day starts at midnight UTC.\<close>

definition epss_history :: "EpssHistoryRow list \<Rightarrow> time \<Rightarrow> string \<Rightarrow> HistoryPoint list" where
  "epss_history rows now cveID =
     map (\<lambda>r. \<lparr>hp_Date = eh_date r, hp_Score = eh_score r, hp_Percentile = eh_percentile r\<rparr>)
       (sort_key eh_date (filter (\<lambda>r. eh_cve_id r = cveID \<and> now div time_Day * time_Day - 90 * time_Day \<le> eh_date r) rows))"

definition any_point :: "HistoryPoint \<Rightarrow> any" where
  "any_point p = AnyMap [(''date'', AnyTime (hp_Date p)), (''score'', AnyReal (hp_Score p)), (''percentile'', AnyReal (hp_Percentile p))]"

definition epss_entry :: "EpssRow \<Rightarrow> HistoryPoint list \<Rightarrow> entry" where
  "epss_entry r history = (let trend = ComputeTrend history in
     put_list ''history'' any_point history
       [(''cve_id'', AnyString (ep_cve_id r)), (''epss_score'', AnyReal (ep_score r)), (''percentile'', AnyReal (ep_percentile r)),
        (''score_date'', AnyTime (ep_score_date r)), (''tier'', AnyString (ScoreTier (ep_score r))),
        (''trend_7d'', AnyReal (Trend7d trend)), (''trend_30d'', AnyReal (Trend30d trend)),
        (''peak_90d'', AnyReal (Peak90d trend)), (''is_rising'', AnyBool (IsRising trend))])"

section \<open>KEV\<close>

record KevRow =
  kv_cve_id :: string
  kv_vendor :: "string option"
  kv_product :: "string option"
  kv_vulnerability_name :: "string option"
  kv_short_description :: "string option"
  kv_required_action :: "string option"
  kv_notes :: "string option"
  kv_date_added :: "time option"
  kv_due_date :: "time option"
  kv_known_ransomware :: bool

definition kev_scans :: "KevRow \<Rightarrow> bool" where
  "kev_scans r \<longleftrightarrow> kv_vendor r \<noteq> None \<and> kv_product r \<noteq> None \<and> kv_vulnerability_name r \<noteq> None"

definition kev_entry :: "time \<Rightarrow> KevRow \<Rightarrow> entry" where
  "kev_entry now r = (let (tier, daysUntil) = ComputeUrgency (kv_due_date r) now;
       e = [(''cve_id'', AnyString (kv_cve_id r)), (''vendor'', AnyString (safeStr (kv_vendor r))),
         (''product'', AnyString (safeStr (kv_product r))), (''vulnerability_name'', AnyString (safeStr (kv_vulnerability_name r))),
         (''known_ransomware'', AnyBool (kv_known_ransomware r)), (''urgency_tier'', AnyString tier)];
       e = put_opt ''date_added'' (map_option AnyTime (kv_date_added r)) e;
       e = (case kv_due_date r of None \<Rightarrow> e | Some d \<Rightarrow> put ''days_until_due'' (AnyInt daysUntil) (put ''due_date'' (AnyTime d) e));
       e = put_text ''short_description'' (kv_short_description r) e;
       e = put_text ''required_action'' (kv_required_action r) e
     in put_text ''notes'' (kv_notes r) e)"

text \<open>The flags and the closest due date, 999999 days away to begin with.\<close>

definition kev_step :: "time \<Rightarrow> KevRow \<Rightarrow> bool \<times> bool \<times> int \<Rightarrow> bool \<times> bool \<times> int" where
  "kev_step now r = (\<lambda>(isKEV, hasRansomware, minDaysUntilDue).
     let daysUntil = snd (ComputeUrgency (kv_due_date r) now) in
     (True, hasRansomware \<or> kv_known_ransomware r,
      if kv_due_date r \<noteq> None \<and> daysUntil < minDaysUntilDue then daysUntil else minDaysUntilDue))"

section \<open>BDU\<close>

record BduRow =
  bd_bdu_id :: string
  bd_name :: "string option"
  bd_description :: "string option"
  bd_severity :: "string option"
  bd_vul_status :: "string option"
  bd_exploit_status :: "string option"
  bd_fix_status :: "string option"
  bd_vul_class :: "string option"
  bd_exploitation_way :: "string option"
  bd_mitigation_way :: "string option"
  bd_v2_score :: "real option"
  bd_v2_vector :: "string option"
  bd_v3_score :: "real option"
  bd_v3_vector :: "string option"
  bd_v4_score :: "real option"
  bd_v4_vector :: "string option"
  bd_software :: string
  bd_environment :: string
  bd_sources :: "string list"
  bd_remediation :: "string option"
  bd_cwe_ids :: "int list"
  bd_cve_ids :: "string list"
  bd_published_at :: "time option"
  bd_modified_at :: "time option"

definition bdu_scans :: "BduRow \<Rightarrow> bool" where
  "bdu_scans r \<longleftrightarrow> bd_name r \<noteq> None \<and> bd_severity r \<noteq> None"

definition bdu_cvss :: "real option \<Rightarrow> string option \<Rightarrow> (string option \<Rightarrow> any option) \<Rightarrow> any option" where
  "bdu_cvss score vec metrics = map_option (\<lambda>x. AnyMap
     (case vec of None \<Rightarrow> [(''score'', AnyReal x)]
      | Some v \<Rightarrow> if v = [] then [(''score'', AnyReal x)]
          else put_opt ''metrics'' (metrics vec) [(''score'', AnyReal x), (''vector'', AnyString v)])) score"

definition bdu_entry :: "string \<Rightarrow> BduRow \<Rightarrow> entry" where
  "bdu_entry cveID r =
     (let e = [(''bdu_id'', AnyString (bd_bdu_id r)), (''name'', AnyString (safeStr (bd_name r))), (''matched_cve_id'', AnyString cveID)];
          e = put_text ''description'' (bd_description r) e;
          e = put_text ''severity'' (bd_severity r) e;
          e = put_text ''vul_status'' (bd_vul_status r) e;
          e = put_text ''exploit_status'' (bd_exploit_status r) e;
          e = put_text ''fix_status'' (bd_fix_status r) e;
          e = put_text ''vul_class'' (bd_vul_class r) e;
          e = put_text ''exploitation_way'' (bd_exploitation_way r) e;
          e = put_text ''mitigation_way'' (bd_mitigation_way r) e;
          e = put_text ''remediation'' (bd_remediation r) e;
          e = put_opt ''cvss_v2'' (bdu_cvss (bd_v2_score r) (bd_v2_vector r) (metrics_of any_V2 ParseV2)) e;
          e = put_opt ''cvss_v3'' (bdu_cvss (bd_v3_score r) (bd_v3_vector r) (metrics_of any_V31 ParseV31)) e;
          e = put_opt ''cvss_v4'' (bdu_cvss (bd_v4_score r) (bd_v4_vector r) (metrics_of any_V40 ParseV40)) e;
          e = put_raw ''software'' (bd_software r) e;
          e = put_raw ''environment'' (bd_environment r) e;
          e = put_list ''sources'' AnyString (bd_sources r) e;
          e = put_list ''related_cve_ids'' AnyString (bd_cve_ids r) e;
          e = put_list ''cwe_ids'' AnyInt (bd_cwe_ids r) e;
          e = put_opt ''published_at'' (map_option AnyTime (bd_published_at r)) e
      in put_opt ''modified_at'' (map_option AnyTime (bd_modified_at r)) e)"

section \<open>OSV\<close>

record OsvRow =
  ov_osv_id :: string
  ov_summary :: "string option"
  ov_details :: "string option"
  ov_aliases :: "string list"
  ov_ecosystem :: "string option"
  ov_package_name :: "string option"
  ov_affected_ranges :: string
  ov_severity :: string
  ov_references :: string
  ov_published_at :: "time option"
  ov_modified_at :: "time option"

definition osv_scans :: "OsvRow \<Rightarrow> bool" where
  "osv_scans r \<longleftrightarrow> ov_summary r \<noteq> None \<and> ov_details r \<noteq> None \<and> ov_ecosystem r \<noteq> None \<and> ov_package_name r \<noteq> None"

definition any_range :: "VersionRange \<Rightarrow> any" where
  "any_range r = AnyMap
     (put_text ''last_affected'' (Some (vr_LastAffected r))
      (put_text ''fixed_in'' (Some (vr_FixedIn r))
       (put_text ''introduced_in'' (Some (vr_IntroducedIn r))
        (put ''events'' (AnyList (map (\<lambda>ev. AnyMap [(''type'', AnyString (re_Type ev)), (''version'', AnyString (re_Version ev))]) (vr_Events r)))
         (put_text ''repo'' (Some (vr_Repo r)) [(''type'', AnyString (vr_Type r))])))))"

definition osv_entry :: "Decoder \<Rightarrow> ((string \<times> string) list \<Rightarrow> (string \<times> string) list) \<Rightarrow> OsvRow \<Rightarrow> entry" where
  "osv_entry dc walk r =
     (let e = [(''osv_id'', AnyString (ov_osv_id r)), (''summary'', AnyString (safeStr (ov_summary r))), (''match_type'', AnyString ''cve'')];
          e = put_text ''details'' (ov_details r) e;
          e = put_list ''aliases'' AnyString (ov_aliases r) e;
          e = put_text ''ecosystem'' (ov_ecosystem r) e;
          e = put_text ''package_name'' (ov_package_name r) e;
          e = put_opt ''published_at'' (map_option AnyTime (ov_published_at r)) e;
          e = put_opt ''modified_at'' (map_option AnyTime (ov_modified_at r)) e;
          e = put_raw ''severity'' (ov_severity r) e;
          e = put_raw ''references'' (ov_references r) e
      in case ParseRanges dc walk (ov_affected_ranges r) of
          None \<Rightarrow> e
        | Some summary \<Rightarrow>
            let e = (if rs_FixedVersions summary = [] then e
                     else put ''has_fix'' (AnyBool True) (put_list ''fixed_versions'' AnyString (rs_FixedVersions summary) e));
                e = put_list ''introduced_versions'' AnyString (rs_IntroducedVersions summary) e
            in put_list ''ranges'' any_range (rs_Ranges summary) e)"

definition buildOSVEntries :: "Decoder \<Rightarrow> ((string \<times> string) list \<Rightarrow> (string \<times> string) list) \<Rightarrow> OsvRow list \<Rightarrow> entry list" where
  "buildOSVEntries dc walk rows = map (osv_entry dc walk) (scanned osv_scans rows)"

definition entry_has_fix :: "entry \<Rightarrow> bool" where
  "entry_has_fix e \<longleftrightarrow> map_of e ''has_fix'' = Some (AnyBool True)"

text \<open>\<open>ORDER BY modified_at DESC NULLS LAST\<close>.\<close>

definition by_modified :: "OsvRow list \<Rightarrow> OsvRow list" where
  "by_modified rows = sort_key (\<lambda>r. case ov_modified_at r of None \<Rightarrow> (1::nat, 0) | Some t \<Rightarrow> (0, - t)) rows"

section \<open>CWE\<close>

record CweRow =
  cw_cwe_id :: int
  cw_name :: "string option"
  cw_description :: "string option"
  cw_extended_desc :: "string option"
  cw_parent_ids :: "int list"
  cw_category :: "string option"
  cw_likelihood :: "string option"
  cw_impact :: "string option"
  cw_mitigations :: string

definition cwe_scans :: "CweRow \<Rightarrow> bool" where
  "cwe_scans r \<longleftrightarrow> cw_name r \<noteq> None \<and> cw_description r \<noteq> None"

text \<open>
  The lookup of a parent scans the name and the category into strings, so a weakness with neither is not
  found. Each is looked up at most once for a chain; \<open>lost\<close> are those whose query fails.
\<close>

definition lookupCWE :: "CweRow list \<Rightarrow> (int \<Rightarrow> bool) \<Rightarrow> cwe_lookup" where
  "lookupCWE rows lost i = (if lost i then None
     else case find (\<lambda>r. cw_cwe_id r = i) rows of None \<Rightarrow> None
       | Some r \<Rightarrow> (case (cw_name r, cw_category r) of (Some name, Some category) \<Rightarrow> Some (name, cw_parent_ids r, category) | _ \<Rightarrow> None))"

definition any_chain :: "ParentChainEntry \<Rightarrow> any" where
  "any_chain p = AnyMap (put_text ''category'' (Some (pc_Category p)) [(''cwe_id'', AnyInt (pc_CWEID p)), (''name'', AnyString (pc_Name p))])"

definition cwe_entry :: "CweRow list \<Rightarrow> (int \<Rightarrow> bool) \<Rightarrow> CweRow \<Rightarrow> entry" where
  "cwe_entry rows lost r =
     (let e = [(''cwe_id'', AnyInt (cw_cwe_id r)), (''name'', AnyString (safeStr (cw_name r))), (''description'', AnyString (safeStr (cw_description r)))];
          e = put_text ''extended_description'' (cw_extended_desc r) e;
          e = put_text ''category'' (cw_category r) e;
          e = put_text ''likelihood'' (cw_likelihood r) e;
          e = put_text ''impact'' (cw_impact r) e;
          e = put_raw ''mitigations'' (cw_mitigations r) e;
          e = put_list ''parent_chain'' any_chain (ResolveParentChain (cw_parent_ids r) 5 (lookupCWE rows lost)) e;
          e = put_opt ''owasp_top10'' (map_option (\<lambda>c. AnyMap [(''id'', AnyString (oc_ID c)), (''name'', AnyString (oc_Name c))])
                (LookupOWASP (cw_cwe_id r))) e
      in put_opt ''cwe_top25_rank'' (map_option (AnyInt \<circ> int) (LookupTop25 (cw_cwe_id r))) e)"

end
