(* ===== verification/Enrich.thy ===== *)
theory Enrich
  imports EnrichData
begin

text \<open>
  Enriching a finding: \<open>internal/enrichment/enrich.go\<close>. The state is the world of the repositories with the
  tables \<open>finding_enrichments\<close> and \<open>finding_scores\<close> in full; the reference tables, which a run only reads, are
  part of the environment, and so are \<open>json.Marshal\<close>, the decoder and the lookups of weaknesses that fail.
  Every query takes its entry of the fault schedule; most queries that fail are skipped.
\<close>

section \<open>State and environment\<close>

record EnrichState =
  es_world :: World
  es_enrichments :: "FindingEnrichment list"
  es_scores :: "FindingScore list"

record RefTables =
  rt_nvd :: "NvdRow list"
  rt_epss :: "EpssRow list"
  rt_history :: "EpssHistoryRow list"
  rt_kev :: "KevRow list"
  rt_bdu :: "BduRow list"
  rt_osv :: "OsvRow list"
  rt_cwe :: "CweRow list"

record Enricher =
  en_tables :: RefTables
  en_decoder :: Decoder
  en_marshal :: "any \<Rightarrow> string option"
  en_walk :: "(string \<times> string) list \<Rightarrow> (string \<times> string) list"
  en_lost :: "int \<Rightarrow> int \<Rightarrow> bool"

text \<open>\<open>INSERT ... ON CONFLICT (key) DO UPDATE\<close> of a whole row.\<close>

definition upsert :: "('a \<Rightarrow> 'k) \<Rightarrow> 'a \<Rightarrow> 'a list \<Rightarrow> 'a list" where
  "upsert key x rows = (if key x \<in> key ` set rows then map (\<lambda>y. if key y = key x then x else y) rows else rows @ [x])"

text \<open>A query whose failure the code passes over.\<close>

definition try_query :: "'a \<Rightarrow> EnrichState \<Rightarrow> 'a option \<times> EnrichState" where
  "try_query v s = (case db_call (es_world s) of (ok, w) \<Rightarrow> (if ok then Some v else None, s\<lparr>es_world := w\<rparr>))"

definition enrichment_key :: "FindingEnrichment \<Rightarrow> uuid \<times> string" where
  "enrichment_key e = (fe_FindingID e, fe_Source e)"

definition saveEnrichment :: "Enricher \<Rightarrow> uuid \<Rightarrow> string \<Rightarrow> any \<Rightarrow> EnrichState \<Rightarrow> EnrichState" where
  "saveEnrichment env fid source data s = (case en_marshal env data of
       None \<Rightarrow> s
     | Some jsonData \<Rightarrow> (case db_call (es_world s) of (ok, w) \<Rightarrow>
         if ok then s\<lparr>es_world := w, es_enrichments := upsert enrichment_key
           \<lparr>fe_FindingID = fid, fe_Source = source, fe_Data = jsonData, fe_EnrichedAt = w_now w\<rparr> (es_enrichments s)\<rparr>
         else s\<lparr>es_world := w\<rparr>))"

definition save_entries :: "Enricher \<Rightarrow> uuid \<Rightarrow> string \<Rightarrow> entry list \<Rightarrow> EnrichState \<Rightarrow> EnrichState" where
  "save_entries env fid source entries s =
     (if entries = [] then s else saveEnrichment env fid source (AnyList (map AnyMap entries)) s)"

section \<open>The sources\<close>

definition nvd_rows :: "Enricher \<Rightarrow> string list \<Rightarrow> NvdRow list" where
  "nvd_rows env cves = filter (\<lambda>r. nv_cve_id r \<in> set cves) (rt_nvd (en_tables env))"

definition enrich_nvd :: "Enricher \<Rightarrow> Finding \<Rightarrow> string list \<Rightarrow> EnrichState \<Rightarrow> real \<times> EnrichState" where
  "enrich_nvd env f cves s = (case try_query (scanned nvd_scans (nvd_rows env cves)) s of
       (None, s) \<Rightarrow> (0, s)
     | (Some rows, s) \<Rightarrow> (fold nvd_base rows 0, save_entries env (f_ID f) ''nvd'' (map (nvd_entry (en_decoder env) f) rows) s))"

text \<open>EPSS: each current row has its history read; the values of the row with the highest score are kept.\<close>

definition epss_best :: "EpssRow \<Rightarrow> HistoryPoint list \<Rightarrow> real \<times> real \<times> real \<Rightarrow> real \<times> real \<times> real" where
  "epss_best r history = (\<lambda>(score, pct, trend). if ep_score r > score
     then (ep_score r, ep_percentile r, Trend7d (ComputeTrend history)) else (score, pct, trend))"

fun epss_loop :: "Enricher \<Rightarrow> EpssRow list \<Rightarrow> entry list \<times> real \<times> real \<times> real \<Rightarrow> EnrichState \<Rightarrow> (entry list \<times> real \<times> real \<times> real) \<times> EnrichState" where
  "epss_loop env [] acc s = (acc, s)"
| "epss_loop env (r # rows) (entries, best) s =
     (case try_query (epss_history (rt_history (en_tables env)) (w_now (es_world s)) (ep_cve_id r)) s of
        (h, s) \<Rightarrow> let history = case_option [] id h
          in epss_loop env rows (entries @ [epss_entry r history], epss_best r history best) s)"

definition enrich_epss :: "Enricher \<Rightarrow> uuid \<Rightarrow> string list \<Rightarrow> EnrichState \<Rightarrow> (real \<times> real \<times> real) \<times> EnrichState" where
  "enrich_epss env fid cves s = (case try_query (filter (\<lambda>r. ep_cve_id r \<in> set cves) (rt_epss (en_tables env))) s of
       (None, s) \<Rightarrow> ((0, 0, 0), s)
     | (Some rows, s) \<Rightarrow> (case epss_loop env rows ([], 0, 0, 0) s of
           ((entries, best), s) \<Rightarrow> (best, save_entries env fid ''epss'' entries s)))"

definition kev_rows :: "Enricher \<Rightarrow> string list \<Rightarrow> KevRow list" where
  "kev_rows env cves = scanned kev_scans (filter (\<lambda>r. kv_cve_id r \<in> set cves) (rt_kev (en_tables env)))"

definition enrich_kev :: "Enricher \<Rightarrow> uuid \<Rightarrow> string list \<Rightarrow> EnrichState \<Rightarrow> (bool \<times> bool \<times> int) \<times> EnrichState" where
  "enrich_kev env fid cves s = (case try_query (kev_rows env cves) s of
       (None, s) \<Rightarrow> ((False, False, 999999), s)
     | (Some rows, s) \<Rightarrow> let now = w_now (es_world s) in
         (fold (kev_step now) rows (False, False, 999999), save_entries env fid ''kev'' (map (kev_entry now) rows) s))"

text \<open>BDU: one query for each identifier.\<close>

definition bdu_rows :: "Enricher \<Rightarrow> string \<Rightarrow> BduRow list" where
  "bdu_rows env cveID = scanned bdu_scans (filter (\<lambda>r. cveID \<in> set (bd_cve_ids r)) (rt_bdu (en_tables env)))"

fun bdu_loop :: "Enricher \<Rightarrow> string list \<Rightarrow> entry list \<Rightarrow> EnrichState \<Rightarrow> entry list \<times> EnrichState" where
  "bdu_loop env [] entries s = (entries, s)"
| "bdu_loop env (cveID # cves) entries s = (case try_query (bdu_rows env cveID) s of
       (None, s) \<Rightarrow> bdu_loop env cves entries s
     | (Some rows, s) \<Rightarrow> bdu_loop env cves (entries @ map (bdu_entry cveID) rows) s)"

definition enrich_bdu :: "Enricher \<Rightarrow> uuid \<Rightarrow> string list \<Rightarrow> EnrichState \<Rightarrow> bool \<times> EnrichState" where
  "enrich_bdu env fid cves s = (case bdu_loop env cves [] s of
     (entries, s) \<Rightarrow> (entries \<noteq> [], save_entries env fid ''bdu'' entries s))"

text \<open>OSV: by the aliases, and when nothing is found by the ecosystem and the package. The results are whether anything matched and whether a fix is known.\<close>

definition osv_by_alias :: "Enricher \<Rightarrow> string list \<Rightarrow> entry list" where
  "osv_by_alias env cves = buildOSVEntries (en_decoder env) (en_walk env)
     (take 20 (by_modified (filter (\<lambda>r. set (ov_aliases r) \<inter> set cves \<noteq> {}) (rt_osv (en_tables env)))))"

definition osv_by_package :: "Enricher \<Rightarrow> string \<Rightarrow> string \<Rightarrow> entry list" where
  "osv_by_package env eco component = map (put ''match_type'' (AnyString ''package_fallback''))
     (buildOSVEntries (en_decoder env) (en_walk env)
       (take 10 (by_modified (filter (\<lambda>r. ov_ecosystem r = Some eco \<and> ov_package_name r = Some component) (rt_osv (en_tables env))))))"

definition enrich_osv_alias :: "Enricher \<Rightarrow> uuid \<Rightarrow> string list \<Rightarrow> EnrichState \<Rightarrow> (bool \<times> bool) \<times> EnrichState" where
  "enrich_osv_alias env fid cves s =
     (if cves = [] then ((False, False), s)
      else case try_query (osv_by_alias env cves) s of
          (None, s) \<Rightarrow> ((False, False), s)
        | (Some entries, s) \<Rightarrow> ((entries \<noteq> [], list_ex entry_has_fix entries), save_entries env fid ''osv'' entries s))"

definition enrich_osv :: "Enricher \<Rightarrow> Finding \<Rightarrow> string list \<Rightarrow> EnrichState \<Rightarrow> bool \<times> EnrichState" where
  "enrich_osv env f cves s = (case enrich_osv_alias env (f_ID f) cves s of
     ((osvMatched, osvHasFix), s) \<Rightarrow>
       let ecosystem = DetectEcosystem (f_SourceType f) (FindingKind_String (f_Kind f)) (f_Component f) in
       if osvMatched \<or> f_Component f = [] \<or> ecosystem = [] then (osvHasFix, s)
       else case try_query (osv_by_package env ecosystem (f_Component f)) s of
           (None, s) \<Rightarrow> (osvHasFix, s)
         | (Some entries, s) \<Rightarrow> (osvHasFix \<or> list_ex entry_has_fix entries, save_entries env (f_ID f) ''osv'' entries s))"

definition enrich_cwe :: "Enricher \<Rightarrow> Finding \<Rightarrow> EnrichState \<Rightarrow> EnrichState" where
  "enrich_cwe env f s =
     (if f_CWEIDs f = [] then s
      else let table = rt_cwe (en_tables env) in
        case try_query (scanned cwe_scans (filter (\<lambda>r. cw_cwe_id r \<in> set (f_CWEIDs f)) table)) s of
          (None, s) \<Rightarrow> s
        | (Some rows, s) \<Rightarrow> save_entries env (f_ID f) ''cwe'' (map (\<lambda>r. cwe_entry table (en_lost env (cw_cwe_id r)) r) rows) s)"

section \<open>The finding\<close>

text \<open>What the sources by CVE give: the base score, the EPSS values, the KEV flags and the BDU flag.\<close>

definition enrich_cves ::
  "Enricher \<Rightarrow> Finding \<Rightarrow> string list \<Rightarrow> EnrichState \<Rightarrow> (real \<times> (real \<times> real \<times> real) \<times> (bool \<times> bool \<times> int) \<times> bool) \<times> EnrichState" where
  "enrich_cves env f cves s =
     (if cves = [] then ((0, (0, 0, 0), (False, False, 999999), False), s)
      else case enrich_nvd env f cves s of (base, s) \<Rightarrow>
        (case enrich_epss env (f_ID f) cves s of (best, s) \<Rightarrow>
          (case enrich_kev env (f_ID f) cves s of (kev, s) \<Rightarrow>
            (case enrich_bdu env (f_ID f) cves s of (isBDU, s) \<Rightarrow> ((base, best, kev, isBDU), s)))))"

definition finding_score :: "Finding \<Rightarrow> time \<Rightarrow> real \<times> (real \<times> real \<times> real) \<times> (bool \<times> bool \<times> int) \<times> bool \<Rightarrow> bool \<Rightarrow> FindingScore" where
  "finding_score f now = (\<lambda>(base, (epss, pct, trend), (isKEV, ransomware, minDays), isBDU) osvHasFix.
     let daysOld = max 0 (real_of_int (time_Sub now (f_FirstSeen f)) / real_of_int time_Hour / 24)
     in \<lparr>fs_FindingID = f_ID f, fs_BaseScore = base, fs_EPSSScore = epss, fs_EPSSPercentile = pct, fs_IsKEV = isKEV, fs_IsBDU = isBDU,
       fs_PriorityScore = CalculatePriorityScore base epss trend isKEV ransomware minDays isBDU osvHasFix daysOld,
       fs_CalculatedAt = now\<rparr>)"

text \<open>The score is stored; the listing of findings reads its priority.\<close>

definition save_score :: "FindingScore \<Rightarrow> EnrichState \<Rightarrow> (err + unit) \<times> EnrichState" where
  "save_score row s = (case db_call (es_world s) of (ok, w) \<Rightarrow>
     if \<not> ok then (Inl (Err ''enrichment.EnrichFinding: save score''), s\<lparr>es_world := w\<rparr>)
     else (Inr (), s\<lparr>es_world := w\<lparr>w_db := (w_db w)\<lparr>tb_scores :=
             upsert fst (fs_FindingID row, fs_PriorityScore row) (tb_scores (w_db w))\<rparr>\<rparr>,
           es_scores := upsert fs_FindingID row (es_scores s)\<rparr>))"

definition EnrichFinding :: "Enricher \<Rightarrow> uuid \<Rightarrow> EnrichState \<Rightarrow> (err + unit) \<times> EnrichState" where
  "EnrichFinding env findingID s =
     (case db_query_row (\<lambda>d. find (\<lambda>f. f_ID f = findingID) (tb_findings d)) (es_world s) of
        (Inl e, w) \<Rightarrow> (Inl (Err ''enrichment.EnrichFinding: load finding''), s\<lparr>es_world := w\<rparr>)
      | (Inr f, w) \<Rightarrow>
          let cves = normalizeCVEIDs (f_CVEIDs f) in
          (case enrich_cves env f cves (s\<lparr>es_world := w\<rparr>) of (values_, s) \<Rightarrow>
            (case enrich_osv env f cves s of (osvHasFix, s) \<Rightarrow>
              let s = enrich_cwe env f s in save_score (finding_score f (w_now (es_world s)) values_ osvHasFix) s)))"

fun EnrichBatch :: "Enricher \<Rightarrow> uuid list \<Rightarrow> EnrichState \<Rightarrow> (nat \<times> nat) \<times> EnrichState" where
  "EnrichBatch env [] s = ((0, 0), s)"
| "EnrichBatch env (i # ids) s = (case EnrichFinding env i s of (r, s) \<Rightarrow>
     (case EnrichBatch env ids s of ((enriched, failed), s) \<Rightarrow>
        (case r of Inl _ \<Rightarrow> ((enriched, Suc failed), s) | Inr _ \<Rightarrow> ((Suc enriched, failed), s))))"

section \<open>Reading\<close>

definition GetFindingEnrichments :: "uuid \<Rightarrow> EnrichState \<Rightarrow> (err + FindingEnrichment list) \<times> EnrichState" where
  "GetFindingEnrichments findingID s = (case db_call (es_world s) of (ok, w) \<Rightarrow>
     (if ok then Inr (sort_key fe_Source (filter (\<lambda>e. fe_FindingID e = findingID) (es_enrichments s)))
      else Inl ErrDB, s\<lparr>es_world := w\<rparr>))"

definition GetFindingScore :: "uuid \<Rightarrow> EnrichState \<Rightarrow> (err + FindingScore) \<times> EnrichState" where
  "GetFindingScore findingID s = (case db_call (es_world s) of (ok, w) \<Rightarrow>
     (if \<not> ok then Inl ErrDB
      else case find (\<lambda>x. fs_FindingID x = findingID) (es_scores s) of
          None \<Rightarrow> Inl (Err ''enrichment: finding not found'') | Some x \<Rightarrow> Inr x, s\<lparr>es_world := w\<rparr>))"

end
