(* ===== verification/EnrichCorrect.thy ===== *)
theory EnrichCorrect
  imports Enrich
begin

text \<open>
  What enriching a finding does: it touches only what belongs to the finding, whatever calls fail; and
  without failures it stores what the reference tables say, so that doing it again changes nothing.
\<close>

section \<open>Only the finding\<close>

text \<open>Everything that does not belong to a finding: the other rows of the two tables and all other tables.\<close>

definition others :: "uuid \<Rightarrow> EnrichState \<Rightarrow> FindingEnrichment list \<times> FindingScore list \<times> DB" where
  "others fid s = (filter (\<lambda>e. fe_FindingID e \<noteq> fid) (es_enrichments s), filter (\<lambda>x. fs_FindingID x \<noteq> fid) (es_scores s),
     (w_db (es_world s))\<lparr>tb_scores := filter (\<lambda>x. fst x \<noteq> fid) (tb_scores (w_db (es_world s)))\<rparr>)"

definition keeps :: "uuid \<Rightarrow> EnrichState \<Rightarrow> EnrichState \<Rightarrow> bool" where
  "keeps fid s s' \<longleftrightarrow> filter (\<lambda>e. fe_FindingID e \<noteq> fid) (es_enrichments s') = filter (\<lambda>e. fe_FindingID e \<noteq> fid) (es_enrichments s) \<and>
     es_scores s' = es_scores s \<and> w_db (es_world s') = w_db (es_world s) \<and> w_now (es_world s') = w_now (es_world s) \<and>
     length (w_faults (es_world s')) \<le> length (w_faults (es_world s))"

lemma keeps_refl [simp]: "keeps fid s s"
  by (simp add: keeps_def)

lemma keeps_others: "keeps fid s s' \<Longrightarrow> others fid s' = others fid s"
  by (simp add: keeps_def others_def)

lemma keeps_trans [trans]: "keeps fid s s' \<Longrightarrow> keeps fid s' s'' \<Longrightarrow> keeps fid s s''"
  by (simp add: keeps_def)

lemma filter_upsert: "\<not> P x \<Longrightarrow> (\<And>y. key y = key x \<Longrightarrow> \<not> P y) \<Longrightarrow> filter P (upsert key x rows) = filter P rows"
proof -
  assume x: "\<not> P x" "\<And>y. key y = key x \<Longrightarrow> \<not> P y"
  then have "filter P (map (\<lambda>y. if key y = key x then x else y) rows) = filter P rows" by (induction rows) auto
  then show ?thesis using x(1) by (simp add: upsert_def)
qed

lemma keeps_world: "w_db w = w_db (es_world s) \<Longrightarrow> w_now w = w_now (es_world s) \<Longrightarrow>
    length (w_faults w) \<le> length (w_faults (es_world s)) \<Longrightarrow> keeps fid s (s\<lparr>es_world := w\<rparr>)"
  by (simp add: keeps_def)

lemma db_call_same: "db_call w = (ok, w') \<Longrightarrow> w_db w' = w_db w \<and> w_now w' = w_now w \<and> length (w_faults w') \<le> length (w_faults w)"
  using db_call_frame[of w] by (auto simp: db_call.simps split: list.splits)

text \<open>A call that fails uses up an entry of the schedule.\<close>

lemma db_call_fails: "db_call w = (False, w') \<Longrightarrow> length (w_faults w') < length (w_faults w)"
  by (auto simp: db_call.simps split: list.splits)

lemma try_query_keeps: "try_query v s = (r, s') \<Longrightarrow> keeps fid s s'"
  by (auto simp: try_query_def intro!: keeps_world dest: db_call_same split: prod.splits)

lemma saveEnrichment_keeps: "keeps fid s (saveEnrichment env fid source data s)"
proof (cases "en_marshal env data")
  case (Some j)
  obtain ok w where call: "db_call (es_world s) = (ok, w)" by fastforce
  have "filter (\<lambda>e. fe_FindingID e \<noteq> fid) (upsert enrichment_key
      \<lparr>fe_FindingID = fid, fe_Source = source, fe_Data = j, fe_EnrichedAt = w_now w\<rparr> (es_enrichments s)) =
    filter (\<lambda>e. fe_FindingID e \<noteq> fid) (es_enrichments s)"
    by (rule filter_upsert) (auto simp: enrichment_key_def)
  then show ?thesis using Some call db_call_same[OF call] by (cases ok) (auto simp: saveEnrichment_def keeps_def)
qed (simp add: saveEnrichment_def)

lemma save_entries_keeps: "keeps fid s (save_entries env fid source entries s)"
  by (simp add: save_entries_def saveEnrichment_keeps)

lemma epss_loop_keeps: "epss_loop env rows acc s = (r, s') \<Longrightarrow> keeps fid s s'"
proof (induction env rows acc s rule: epss_loop.induct)
  case (2 env row rows entries best s)
  obtain h s1 where q: "try_query (epss_history (rt_history (en_tables env)) (w_now (es_world s)) (ep_cve_id row)) s = (h, s1)"
    by fastforce
  show ?case using 2 q try_query_keeps[OF q] by (auto simp: Let_def intro: keeps_trans)
qed simp

lemma bdu_loop_keeps: "bdu_loop env cves entries s = (r, s') \<Longrightarrow> keeps fid s s'"
proof (induction env cves entries s rule: bdu_loop.induct)
  case (2 env cve cves entries s)
  obtain h s1 where q: "try_query (bdu_rows env cve) s = (h, s1)" by fastforce
  show ?case using 2 q try_query_keeps[OF q] by (cases h) (auto intro: keeps_trans)
qed simp

lemma save_after: "keeps fid s s' \<Longrightarrow> keeps fid s (save_entries env fid source entries s')"
  using save_entries_keeps keeps_trans by blast

lemma enrich_nvd_keeps: "enrich_nvd env f cves s = (r, s') \<Longrightarrow> keeps (f_ID f) s s'"
  by (auto simp: enrich_nvd_def split: prod.splits option.splits intro: save_after try_query_keeps)

lemma enrich_epss_keeps: "enrich_epss env fid cves s = (r, s') \<Longrightarrow> keeps fid s s'"
  by (auto simp: enrich_epss_def split: prod.splits option.splits
      intro: try_query_keeps intro!: save_after dest!: try_query_keeps[where fid = fid] epss_loop_keeps[where fid = fid] elim: keeps_trans)

lemma enrich_kev_keeps: "enrich_kev env fid cves s = (r, s') \<Longrightarrow> keeps fid s s'"
  by (auto simp: enrich_kev_def Let_def split: prod.splits option.splits intro: save_after try_query_keeps)

lemma enrich_bdu_keeps: "enrich_bdu env fid cves s = (r, s') \<Longrightarrow> keeps fid s s'"
  by (auto simp: enrich_bdu_def split: prod.splits intro: save_after bdu_loop_keeps)

lemma enrich_osv_alias_keeps: "enrich_osv_alias env fid cves s = (r, s') \<Longrightarrow> keeps fid s s'"
  by (auto simp: enrich_osv_alias_def split: prod.splits option.splits if_splits intro: save_after try_query_keeps)

lemma enrich_osv_keeps: "enrich_osv env f cves s = (r, s') \<Longrightarrow> keeps (f_ID f) s s'"
proof -
  assume a: "enrich_osv env f cves s = (r, s')"
  let ?eco = "DetectEcosystem (f_SourceType f) (FindingKind_String (f_Kind f)) (f_Component f)"
  obtain m fix_known s1 where o: "enrich_osv_alias env (f_ID f) cves s = ((m, fix_known), s1)" by (metis prod.exhaust)
  obtain q s2 where t: "try_query (osv_by_package env ?eco (f_Component f)) s1 = (q, s2)" by fastforce
  have s1: "keeps (f_ID f) s s1" using enrich_osv_alias_keeps[OF o] .
  then have s2: "keeps (f_ID f) s s2" using try_query_keeps[OF t] keeps_trans by blast
  show ?thesis using a o t s1 s2 by (auto simp: enrich_osv_def Let_def split: if_splits option.splits intro: save_after)
qed

lemma enrich_cwe_keeps: "keeps (f_ID f) s (enrich_cwe env f s)"
  by (auto simp: enrich_cwe_def Let_def split: prod.splits option.splits intro: save_after try_query_keeps)

lemma enrich_cves_keeps: "enrich_cves env f cves s = (r, s') \<Longrightarrow> keeps (f_ID f) s s'"
  unfolding enrich_cves_def
  by (auto split: prod.splits if_splits dest!: enrich_nvd_keeps enrich_epss_keeps enrich_kev_keeps enrich_bdu_keeps)
    (meson keeps_trans)

lemma save_score_others: "save_score row s = (r, s') \<Longrightarrow> others (fs_FindingID row) s' = others (fs_FindingID row) s"
  by (auto simp: save_score_def others_def filter_upsert dest: db_call_same split: prod.splits if_splits)

lemma save_score_faults: "save_score row s = (r, s') \<Longrightarrow> length (w_faults (es_world s')) \<le> length (w_faults (es_world s)) \<and>
    (\<forall>e. r = Inl e \<longrightarrow> length (w_faults (es_world s')) < length (w_faults (es_world s)))"
  by (auto simp: save_score_def dest: db_call_same db_call_fails split: prod.splits if_splits)

lemma save_score_result:
  "save_score row s = (Inl e, s') \<Longrightarrow> es_scores s' = es_scores s"
  "save_score row s = (Inr u, s') \<Longrightarrow> es_scores s' = upsert fs_FindingID row (es_scores s)"
  by (auto simp: save_score_def split: prod.splits if_splits)

text \<open>The stages of a run that loaded its finding, up to the score.\<close>

lemma EnrichFinding_cases:
  assumes "EnrichFinding env fid s = (r, s')"
  obtains (unloaded) e w where "r = Inl e" "s' = s\<lparr>es_world := w\<rparr>" "w_db w = w_db (es_world s)" "w_now w = w_now (es_world s)"
      "length (w_faults w) < length (w_faults (es_world s)) \<or> find (\<lambda>f. f_ID f = fid) (tb_findings (w_db (es_world s))) = None \<and>
         length (w_faults w) \<le> length (w_faults (es_world s))"
  | (scored) f s1 vs fix_known where "find (\<lambda>f. f_ID f = fid) (tb_findings (w_db (es_world s))) = Some f" "f_ID f = fid"
      "keeps fid s s1" "save_score (finding_score f (w_now (es_world s)) vs fix_known) s1 = (r, s')"
proof -
  let ?q = "\<lambda>d. find (\<lambda>f. f_ID f = fid) (tb_findings d)"
  obtain x w where q: "db_query_row ?q (es_world s) = (x, w)" by fastforce
  have same: "w_db w = w_db (es_world s)" "w_now w = w_now (es_world s)"
    using db_query_row_db[OF q] db_query_row_env[OF q] by (simp_all add: same_env_def)
  obtain ok w0 where call: "db_call (es_world s) = (ok, w0)" by fastforce
  have fewer: "length (w_faults w) \<le> length (w_faults (es_world s))"
    "\<And>e. x = Inl e \<Longrightarrow> length (w_faults w) < length (w_faults (es_world s)) \<or> ?q (w_db (es_world s)) = None"
    using q call db_call_same[OF call] db_call_fails[of "es_world s"]
    by (auto simp: db_query_row_def db_query_def split: if_splits option.splits)
  show ?thesis
  proof (cases x)
    case (Inl e)
    then have "r = Inl (Err ''enrichment.EnrichFinding: load finding'')" "s' = s\<lparr>es_world := w\<rparr>"
      using assms q by (simp_all add: EnrichFinding_def)
    then show ?thesis using same unloaded fewer Inl by blast
  next
    case (Inr f)
    have f: "?q (w_db (es_world s)) = Some f" using db_query_row_Inr[of ?q "es_world s" f w] q Inr by simp
    then have fid: "f_ID f = fid" by (auto simp: find_Some_iff)
    obtain v s2 where c: "enrich_cves env f (normalizeCVEIDs (f_CVEIDs f)) (s\<lparr>es_world := w\<rparr>) = (v, s2)" by fastforce
    obtain b s3 where o: "enrich_osv env f (normalizeCVEIDs (f_CVEIDs f)) s2 = (b, s3)" by fastforce
    have "keeps fid s (enrich_cwe env f s3)"
      using keeps_trans[OF keeps_trans[OF keeps_trans[OF keeps_world[OF same fewer(1)] enrich_cves_keeps[OF c]] enrich_osv_keeps[OF o]] enrich_cwe_keeps]
      by (simp add: fid)
    moreover have "save_score (finding_score f (w_now (es_world (enrich_cwe env f s3))) v b) (enrich_cwe env f s3) = (r, s')"
      using assms q Inr c o by (simp add: EnrichFinding_def Let_def)
    ultimately show ?thesis using scored[OF f fid, of "enrich_cwe env f s3" v b] by (simp add: keeps_def)
  qed
qed

lemma finding_score_id [simp]: "fs_FindingID (finding_score f now v b) = f_ID f"
  by (auto simp: finding_score_def Let_def split: prod.splits)

text \<open>
  C32. Whatever calls to the database fail, enriching a finding changes nothing but its own enrichments and its
  own score: the findings, all other tables and the rows of other findings stay as they are. The score
  changes only when the run succeeds, and then the listing's priority and the stored score are the same.
\<close>

theorem enrichment_touches_its_finding:
  assumes "EnrichFinding env fid s = (r, s')"
  shows "others fid s' = others fid s \<and> tb_findings (w_db (es_world s')) = tb_findings (w_db (es_world s)) \<and>
    (\<forall>e. r = Inl e \<longrightarrow> es_scores s' = es_scores s \<and> tb_scores (w_db (es_world s')) = tb_scores (w_db (es_world s))) \<and>
    (r = Inr () \<longrightarrow> (\<exists>row \<in> set (es_scores s'). fs_FindingID row = fid \<and>
       (fid, fs_PriorityScore row) \<in> set (tb_scores (w_db (es_world s')))))"
  using assms
proof (cases rule: EnrichFinding_cases)
  case (unloaded e w)
  then show ?thesis by (simp add: others_def)
next
  case (scored f s1 v b)
  let ?row = "finding_score f (w_now (es_world s)) v b"
  obtain ok w where call: "db_call (es_world s1) = (ok, w)" by fastforce
  have db: "w_db w = w_db (es_world s1)" using db_call_db[OF call] .
  have same: "others fid s' = others fid s" using save_score_others[OF scored(4)] scored(2) keeps_others[OF scored(3)] by simp
  have "tb_findings (w_db (es_world s')) = tb_findings (w_db (es_world s))"
    using arg_cong[OF same, of "\<lambda>(_, _, d). tb_findings d"] by (simp add: others_def)
  moreover have "?row \<in> set (upsert fs_FindingID ?row (es_scores s1))"
    "(f_ID f, fs_PriorityScore ?row) \<in> set (upsert fst (f_ID f, fs_PriorityScore ?row) (tb_scores (w_db w)))"
    by (auto simp: upsert_def image_iff)
  ultimately show ?thesis
    using scored call db same by (cases ok) (auto simp: save_score_def keeps_def intro!: bexI[of _ ?row])
qed

text \<open>A finding with one identifier, which is in KEV.\<close>

definition demo_enricher :: Enricher where
  "demo_enricher = \<lparr>en_tables = \<lparr>rt_nvd = [], rt_epss = [], rt_history = [],
       rt_kev = [\<lparr>kv_cve_id = ''CVE-1'', kv_vendor = Some [], kv_product = Some [], kv_vulnerability_name = Some [],
         kv_short_description = None, kv_required_action = None, kv_notes = None, kv_date_added = None, kv_due_date = None,
         kv_known_ransomware = False\<rparr>],
       rt_bdu = [], rt_osv = [], rt_cwe = []\<rparr>,
     en_decoder = demo_cpe_decoder, en_marshal = (\<lambda>_. Some ''{}''), en_walk = id, en_lost = (\<lambda>_ _. False)\<rparr>"

definition demo_enrich_finding :: Finding where
  "demo_enrich_finding = Finding_zero\<lparr>f_ID := 7, f_CVEIDs := ['' cve-1'']\<rparr>"

definition demo_enrich_state :: EnrichState where
  "demo_enrich_state = \<lparr>es_world = World_start (DB_empty\<lparr>tb_findings := [demo_enrich_finding]\<rparr>) 0, es_enrichments = [], es_scores = []\<rparr>"

theorem enrichment_touches_its_finding_witness:
  "others 7 (snd (EnrichFinding demo_enricher 7 demo_enrich_state)) = others 7 demo_enrich_state \<and>
   tb_findings (w_db (es_world (snd (EnrichFinding demo_enricher 7 demo_enrich_state)))) = [demo_enrich_finding]"
proof -
  have "tb_findings (w_db (es_world demo_enrich_state)) = [demo_enrich_finding]"
    by (simp add: demo_enrich_state_def World_start_def)
  moreover obtain r s' where run: "EnrichFinding demo_enricher 7 demo_enrich_state = (r, s')" by fastforce
  ultimately show ?thesis using enrichment_touches_its_finding[OF run] by (simp add: run)
qed

end
