(* ===== verification/EnrichPlan.thy ===== *)
theory EnrichPlan
  imports EnrichCorrect
begin

text \<open>
  Enriching a finding when no call to the database fails: the outcome as a function of the finding and the
  reference tables, and that a second run over the same tables changes nothing. The queue of the workers
  delivers a message at least once, so this is what makes a repeated delivery harmless.
\<close>

section \<open>Upserts\<close>

lemma upsert_in: "x \<in> set (upsert key x rows)"
  by (auto simp: upsert_def image_iff)

text \<open>A row is settled when it is the only one of its key; storing a settled row again changes nothing.\<close>

definition settled :: "('a \<Rightarrow> 'k) \<Rightarrow> 'a \<Rightarrow> 'a list \<Rightarrow> bool" where
  "settled key x rows \<longleftrightarrow> x \<in> set rows \<and> (\<forall>y \<in> set rows. key y = key x \<longrightarrow> y = x)"

lemma settled_upsert: "settled key x (upsert key x rows)"
  by (auto simp: settled_def upsert_def image_iff)

lemma settled_other: "settled key x rows \<Longrightarrow> key z \<noteq> key x \<Longrightarrow> settled key x (upsert key z rows)"
  by (auto simp: settled_def upsert_def)

lemma upsert_settled: "settled key x rows \<Longrightarrow> upsert key x rows = rows"
  by (auto simp: settled_def upsert_def intro!: map_idI)

lemma fold_upsert_settled:
  "distinct (map key xs) \<Longrightarrow> x \<in> set xs \<or> settled key x rows \<and> key x \<notin> key ` set xs \<Longrightarrow> settled key x (fold (upsert key) xs rows)"
proof (induction xs arbitrary: rows)
  case (Cons a xs)
  consider "x = a" | "x \<in> set xs" | "settled key x rows" "key x \<notin> key ` set (a # xs)" using Cons.prems by auto
  then show ?case
  proof cases
    case 1
    then show ?thesis using Cons.IH[of "upsert key a rows"] Cons.prems settled_upsert[of key a rows] by simp
  next
    case 2
    then show ?thesis using Cons.IH[of "upsert key a rows"] Cons.prems by simp
  next
    case 3
    then show ?thesis using Cons.IH[of "upsert key a rows"] Cons.prems settled_other[of key x rows a] by fastforce
  qed
qed auto

lemma fold_upsert_again:
  assumes "distinct (map key xs)"
  shows "fold (upsert key) xs (fold (upsert key) xs rows) = fold (upsert key) xs rows"
proof -
  have "fold (upsert key) ys rows' = rows'" if "\<forall>x \<in> set ys. settled key x rows'" for ys rows'
    using that by (induction ys) (auto simp: upsert_settled)
  then show ?thesis using fold_upsert_settled[OF assms] by blast
qed

section \<open>The plan\<close>

definition calm :: "EnrichState \<Rightarrow> bool" where
  "calm s \<longleftrightarrow> w_faults (es_world s) = []"

lemma try_query_calm: "calm s \<Longrightarrow> try_query v s = (Some v, s)"
  by (simp add: try_query_def calm_def)

text \<open>What one source stores: a row, or none when there is nothing or it cannot be marshalled.\<close>

definition source_rows :: "Enricher \<Rightarrow> uuid \<Rightarrow> time \<Rightarrow> string \<times> entry list \<Rightarrow> FindingEnrichment list" where
  "source_rows env fid now = (\<lambda>(source, entries). if entries = [] then []
     else case en_marshal env (AnyList (map AnyMap entries)) of
        None \<Rightarrow> []
      | Some j \<Rightarrow> [\<lparr>fe_FindingID = fid, fe_Source = source, fe_Data = j, fe_EnrichedAt = now\<rparr>])"

definition stored :: "Enricher \<Rightarrow> uuid \<Rightarrow> (string \<times> entry list) list \<Rightarrow> EnrichState \<Rightarrow> EnrichState" where
  "stored env fid plan s = s\<lparr>es_enrichments :=
     fold (upsert enrichment_key) (concat (map (source_rows env fid (w_now (es_world s))) plan)) (es_enrichments s)\<rparr>"

lemma stored_world [simp]: "es_world (stored env fid plan s) = es_world s" "es_scores (stored env fid plan s) = es_scores s"
  "calm (stored env fid plan s) = calm s"
  by (simp_all add: stored_def calm_def)

lemma stored_append: "stored env fid plan' (stored env fid plan s) = stored env fid (plan @ plan') s"
  by (simp add: stored_def)

lemma stored_Nil [simp]: "stored env fid [] s = s"
  by (simp add: stored_def)

lemma save_entries_calm: "calm s \<Longrightarrow> save_entries env fid source entries s = stored env fid [(source, entries)] s"
  by (simp add: save_entries_def saveEnrichment_def stored_def source_rows_def calm_def split: option.splits)

text \<open>The pure counterparts of the loops.\<close>

definition history_of :: "Enricher \<Rightarrow> time \<Rightarrow> EpssRow \<Rightarrow> HistoryPoint list" where
  "history_of env now r = epss_history (rt_history (en_tables env)) now (ep_cve_id r)"

definition epss_rows :: "Enricher \<Rightarrow> string list \<Rightarrow> EpssRow list" where
  "epss_rows env cves = filter (\<lambda>r. ep_cve_id r \<in> set cves) (rt_epss (en_tables env))"

definition epss_values :: "Enricher \<Rightarrow> time \<Rightarrow> EpssRow list \<Rightarrow> real \<times> real \<times> real \<Rightarrow> real \<times> real \<times> real" where
  "epss_values env now rows best = fold (\<lambda>r. epss_best r (history_of env now r)) rows best"

lemma epss_loop_calm:
  "calm s \<Longrightarrow> epss_loop env rows (entries, best) s =
    ((entries @ map (\<lambda>r. epss_entry r (history_of env (w_now (es_world s)) r)) rows,
      epss_values env (w_now (es_world s)) rows best), s)"
  by (induction rows arbitrary: entries best) (simp_all add: try_query_calm epss_values_def history_of_def Let_def)

definition bdu_entries :: "Enricher \<Rightarrow> string list \<Rightarrow> entry list" where
  "bdu_entries env cves = concat (map (\<lambda>c. map (bdu_entry c) (bdu_rows env c)) cves)"

lemma bdu_loop_calm: "calm s \<Longrightarrow> bdu_loop env cves entries s = (entries @ bdu_entries env cves, s)"
  by (induction cves arbitrary: entries) (simp_all add: try_query_calm bdu_entries_def)

definition cve_plan :: "Enricher \<Rightarrow> Finding \<Rightarrow> time \<Rightarrow> string list \<Rightarrow> (string \<times> entry list) list" where
  "cve_plan env f now cves = (if cves = [] then [] else
     [(''nvd'', map (nvd_entry (en_decoder env) f) (scanned nvd_scans (nvd_rows env cves))),
      (''epss'', map (\<lambda>r. epss_entry r (history_of env now r)) (epss_rows env cves)),
      (''kev'', map (kev_entry now) (kev_rows env cves)),
      (''bdu'', bdu_entries env cves)])"

definition cve_values :: "Enricher \<Rightarrow> time \<Rightarrow> string list \<Rightarrow> real \<times> (real \<times> real \<times> real) \<times> (bool \<times> bool \<times> int) \<times> bool" where
  "cve_values env now cves = (if cves = [] then (0, (0, 0, 0), (False, False, 999999), False) else
     (fold nvd_base (scanned nvd_scans (nvd_rows env cves)) 0, epss_values env now (epss_rows env cves) (0, 0, 0),
      fold (kev_step now) (kev_rows env cves) (False, False, 999999), bdu_entries env cves \<noteq> []))"

lemma enrich_cves_calm:
  assumes "calm s"
  shows "enrich_cves env f cves s =
    (cve_values env (w_now (es_world s)) cves, stored env (f_ID f) (cve_plan env f (w_now (es_world s)) cves) s)"
  using assms
  by (simp add: enrich_cves_def cve_values_def cve_plan_def enrich_nvd_def enrich_epss_def enrich_kev_def enrich_bdu_def Let_def
      try_query_calm save_entries_calm epss_loop_calm bdu_loop_calm stored_append flip: epss_rows_def)

text \<open>OSV: the entries by alias, or those by package when there are none.\<close>

definition osv_entries :: "Enricher \<Rightarrow> Finding \<Rightarrow> string list \<Rightarrow> entry list" where
  "osv_entries env f cves =
     (let aliased = (if cves = [] then [] else osv_by_alias env cves);
          eco = DetectEcosystem (f_SourceType f) (FindingKind_String (f_Kind f)) (f_Component f) in
      if aliased \<noteq> [] \<or> f_Component f = [] \<or> eco = [] then aliased else osv_by_package env eco (f_Component f))"

lemma stored_empty: "stored env fid [(source, [])] s = s"
  by (simp add: stored_def source_rows_def)

lemma enrich_osv_calm:
  "calm s \<Longrightarrow> enrich_osv env f cves s =
    (list_ex entry_has_fix (osv_entries env f cves), stored env (f_ID f) [(''osv'', osv_entries env f cves)] s)"
  by (cases "osv_by_alias env cves = []")
    (auto simp: enrich_osv_def enrich_osv_alias_def osv_entries_def Let_def try_query_calm save_entries_calm stored_empty)

definition cwe_entries :: "Enricher \<Rightarrow> Finding \<Rightarrow> entry list" where
  "cwe_entries env f = (if f_CWEIDs f = [] then [] else
     map (\<lambda>r. cwe_entry (rt_cwe (en_tables env)) (en_lost env (cw_cwe_id r)) r)
       (scanned cwe_scans (filter (\<lambda>r. cw_cwe_id r \<in> set (f_CWEIDs f)) (rt_cwe (en_tables env)))))"

lemma enrich_cwe_calm: "calm s \<Longrightarrow> enrich_cwe env f s = stored env (f_ID f) [(''cwe'', cwe_entries env f)] s"
  by (simp add: enrich_cwe_def cwe_entries_def Let_def try_query_calm save_entries_calm stored_empty)

definition enrich_plan :: "Enricher \<Rightarrow> Finding \<Rightarrow> time \<Rightarrow> (string \<times> entry list) list" where
  "enrich_plan env f now = (let cves = normalizeCVEIDs (f_CVEIDs f) in
     cve_plan env f now cves @ [(''osv'', osv_entries env f cves), (''cwe'', cwe_entries env f)])"

definition enrich_score :: "Enricher \<Rightarrow> Finding \<Rightarrow> time \<Rightarrow> FindingScore" where
  "enrich_score env f now = (let cves = normalizeCVEIDs (f_CVEIDs f) in
     finding_score f now (cve_values env now cves) (list_ex entry_has_fix (osv_entries env f cves)))"

definition scored :: "FindingScore \<Rightarrow> EnrichState \<Rightarrow> EnrichState" where
  "scored row s = s\<lparr>es_world := (es_world s)\<lparr>w_db := (w_db (es_world s))\<lparr>tb_scores :=
       upsert fst (fs_FindingID row, fs_PriorityScore row) (tb_scores (w_db (es_world s)))\<rparr>\<rparr>,
     es_scores := upsert fs_FindingID row (es_scores s)\<rparr>"

lemma EnrichFinding_calm:
  assumes "calm s" "find (\<lambda>f. f_ID f = fid) (tb_findings (w_db (es_world s))) = Some f"
  shows "EnrichFinding env fid s = (Inr (), scored (enrich_score env f (w_now (es_world s))) (stored env fid (enrich_plan env f (w_now (es_world s))) s))"
proof -
  have fid: "f_ID f = fid" using assms(2) by (auto simp: find_Some_iff)
  let ?cves = "normalizeCVEIDs (f_CVEIDs f)"
  have row: "db_query_row (\<lambda>d. find (\<lambda>f. f_ID f = fid) (tb_findings d)) (es_world s) = (Inr f, es_world s)"
    using assms by (simp add: calm_def)
  have save: "save_score x s' = (Inr (), scored x s')" if "calm s'" for x s'
    using that by (simp add: save_score_def scored_def calm_def)
  show ?thesis
    using assms(1)
    by (simp add: EnrichFinding_def row enrich_cves_calm enrich_osv_calm enrich_cwe_calm save stored_append
        enrich_plan_def enrich_score_def fid Let_def)
qed

section \<open>The outcome\<close>

lemma source_rows_keys: "map enrichment_key (source_rows env fid now (source, entries)) \<in> {[], [(fid, source)]}"
  by (auto simp: source_rows_def enrichment_key_def split: option.splits)

lemma distinct_concat_keys:
  "(\<And>b. g b = [] \<or> g b = [h b]) \<Longrightarrow> distinct (map h plan) \<Longrightarrow> distinct (concat (map g plan)) \<and> set (concat (map g plan)) \<subseteq> h ` set plan"
proof (induction plan)
  case (Cons a plan)
  then have "distinct (concat (map g plan))" "set (concat (map g plan)) \<subseteq> h ` set plan" "h a \<notin> h ` set plan" by simp_all
  moreover have "g a = [] \<or> g a = [h a]" using Cons.prems(1) .
  ultimately show ?case by (cases "g a = []") auto
qed simp

lemma plan_distinct: "distinct (map enrichment_key (concat (map (source_rows env fid now) (enrich_plan env f now))))"
proof -
  let ?g = "\<lambda>b. map enrichment_key (source_rows env fid now b)"
  have rows: "?g b = [] \<or> ?g b = [(fid, fst b)]" for b
    using source_rows_keys[of env fid now "fst b" "snd b"] by simp
  have "distinct (map fst (enrich_plan env f now))"
    by (simp add: enrich_plan_def cve_plan_def Let_def)
  then have "distinct (map (\<lambda>b. (fid, fst b)) (enrich_plan env f now))" by (simp add: distinct_map inj_on_def)
  with distinct_concat_keys[of ?g "\<lambda>b. (fid, fst b)" "enrich_plan env f now", OF rows] show ?thesis by (simp add: map_concat comp_def)
qed

lemma enrich_again:
  assumes "x = scored row (stored env fid (enrich_plan env f now) s)" "w_now (es_world s) = now"
  shows "scored row (stored env fid (enrich_plan env f now) x) = x"
  using assms by (simp add: scored_def stored_def fold_upsert_again[OF plan_distinct] upsert_settled[OF settled_upsert])

lemma fold_kev: "fold (kev_step now) rows (k, r, m) = (k', r', m') \<Longrightarrow> k' = (k \<or> rows \<noteq> [])"
  by (induction rows arbitrary: k r m) (auto simp: kev_step_def Let_def)

lemma fold_epss: "fst (epss_values env now rows best) = fold (\<lambda>r. max (ep_score r)) rows (fst best)"
  by (induction rows arbitrary: best) (auto simp: epss_values_def epss_best_def max_def split: prod.splits)

lemma fold_max: "fold (\<lambda>r. max (ep_score r)) rows b = Max (insert b (ep_score ` set rows))"
proof -
  have "fold (\<lambda>r. max (ep_score r)) rows b = fold max (map ep_score rows) b" by (simp add: fold_map comp_def)
  also have "\<dots> = Max (set (b # map ep_score rows))" by (rule Max.set_eq_fold[symmetric])
  finally show ?thesis by simp
qed

definition score_of :: "Enricher \<Rightarrow> Finding \<Rightarrow> FindingScore \<Rightarrow> bool" where
  "score_of env f row \<longleftrightarrow> (let cves = normalizeCVEIDs (f_CVEIDs f) in
     fs_FindingID row = f_ID f \<and> (fs_IsKEV row \<longleftrightarrow> kev_rows env cves \<noteq> []) \<and>
     (fs_IsBDU row \<longleftrightarrow> (\<exists>c \<in> set cves. bdu_rows env c \<noteq> [])) \<and>
     fs_EPSSScore row = Max (insert 0 (ep_score ` set (epss_rows env cves))) \<and>
     0 \<le> fs_PriorityScore row \<and> fs_PriorityScore row \<le> 10)"

lemma enrich_score_of: "score_of env f (enrich_score env f now)"
proof -
  let ?cves = "normalizeCVEIDs (f_CVEIDs f)"
  obtain base epss pct trend k r m bdu where v: "cve_values env now ?cves = (base, (epss, pct, trend), (k, r, m), bdu)"
    by (metis prod_cases3)
  have none: "kev_rows env [] = []" "epss_rows env [] = []" by (simp_all add: kev_rows_def scanned_def epss_rows_def)
  have "k \<longleftrightarrow> kev_rows env ?cves \<noteq> []" "bdu \<longleftrightarrow> (\<exists>c \<in> set ?cves. bdu_rows env c \<noteq> [])"
    "epss = Max (insert 0 (ep_score ` set (epss_rows env ?cves)))"
    using v none fold_kev[of now "kev_rows env ?cves" False False 999999 k r m] fold_epss[of env now "epss_rows env ?cves" "(0, 0, 0)"]
    by (auto simp: cve_values_def bdu_entries_def fold_max split: if_splits)
  then show ?thesis
    by (simp add: score_of_def enrich_score_def finding_score_def v Let_def CalculatePriorityScore_def)
qed


lemma demo_enrich_ids: "normalizeCVEIDs (f_CVEIDs demo_enrich_finding) = [''CVE-1'']"
  by code_simp


end
