(* ===== verification/Worker.thy ===== *)
theory Worker
  imports EnrichPlan
begin

text \<open>
  The enrichment workers: \<open>internal/enrichment/worker.go\<close>. The Redis stream and its consumer group are an
  abstract state with the operations the code calls; what Redis documents of them is the hypothesis
  \<open>stream_ok\<close>. A loop that may run forever is a partial function, with \<open>None\<close> for not returning.
\<close>

section \<open>The stream\<close>

text \<open>A message, with its \<open>finding_id\<close> when that is a string.\<close>

record XMessage =
  xm_ID :: string
  xm_FindingID :: "string option"

text \<open>
  The calls: \<open>XADD\<close>, \<open>XREADGROUP\<close> of new messages and of those delivered to this consumer and not
  acknowledged (\<open>None\<close> for an error or an answer without a stream), \<open>XACK\<close>, and \<open>XLEN\<close>.
\<close>

record 'r Stream =
  st_add :: "string \<Rightarrow> 'r \<Rightarrow> bool \<times> 'r"
  st_new :: "'r \<Rightarrow> XMessage list option \<times> 'r"
  st_pending :: "'r \<Rightarrow> XMessage list option \<times> 'r"
  st_ack :: "string \<Rightarrow> 'r \<Rightarrow> bool \<times> 'r"
  st_len :: "'r \<Rightarrow> nat option"

section \<open>Publishing\<close>

text \<open>The pipeline sends every command; its error is the first one.\<close>

fun publish_all :: "'r Stream \<Rightarrow> (uuid \<Rightarrow> string) \<Rightarrow> uuid list \<Rightarrow> 'r \<Rightarrow> bool \<times> 'r" where
  "publish_all S text_of [] r = (True, r)"
| "publish_all S text_of (i # ids) r = (case st_add S (text_of i) r of (ok, r) \<Rightarrow>
     (case publish_all S text_of ids r of (oks, r) \<Rightarrow> (ok \<and> oks, r)))"

definition PublishEnrichment :: "'r Stream \<Rightarrow> (uuid \<Rightarrow> string) \<Rightarrow> uuid list \<Rightarrow> 'r \<Rightarrow> (string + unit) \<times> 'r" where
  "PublishEnrichment S text_of ids r = (case publish_all S text_of ids r of (ok, r) \<Rightarrow>
     (if ok then Inr () else Inl ''enrichment.PublishEnrichment'', r))"

section \<open>The worker\<close>

definition ack :: "'r Stream \<Rightarrow> string \<Rightarrow> 'r \<Rightarrow> 'r" where
  "ack S msgID r = snd (st_ack S msgID r)"

definition processMessage :: "'r Stream \<Rightarrow> Enricher \<Rightarrow> XMessage \<Rightarrow> 'r \<times> EnrichState \<Rightarrow> 'r \<times> EnrichState" where
  "processMessage S env msg = (\<lambda>(r, s). case xm_FindingID msg of
       None \<Rightarrow> (ack S (xm_ID msg) r, s)
     | Some findingIDStr \<Rightarrow> (case jd_uuid (en_decoder env) findingIDStr of
           None \<Rightarrow> (ack S (xm_ID msg) r, s)
         | Some findingID \<Rightarrow> (case EnrichFinding env findingID s of
               (Inl e, s) \<Rightarrow> (r, s)
             | (Inr _, s) \<Rightarrow> (ack S (xm_ID msg) r, s))))"

definition process_batch :: "'r Stream \<Rightarrow> Enricher \<Rightarrow> XMessage list \<Rightarrow> 'r \<times> EnrichState \<Rightarrow> 'r \<times> EnrichState" where
  "process_batch S env msgs x = fold (processMessage S env) msgs x"

partial_function (option) processPending :: "'r Stream \<Rightarrow> Enricher \<Rightarrow> 'r \<times> EnrichState \<Rightarrow> ('r \<times> EnrichState) option" where
  "processPending S env x = (case st_pending S (fst x) of
       (None, r) \<Rightarrow> Some (r, snd x)
     | (Some messages, r) \<Rightarrow>
         if messages = [] then Some (r, snd x) else processPending S env (process_batch S env messages (r, snd x)))"

text \<open>One round of the endless loop, and a run of the worker until the context is done after \<open>n\<close> rounds.\<close>

definition read_new :: "'r Stream \<Rightarrow> Enricher \<Rightarrow> 'r \<times> EnrichState \<Rightarrow> 'r \<times> EnrichState" where
  "read_new S env = (\<lambda>(r, s). case st_new S r of (None, r) \<Rightarrow> (r, s) | (Some msgs, r) \<Rightarrow> process_batch S env msgs (r, s))"

definition Worker_run :: "'r Stream \<Rightarrow> Enricher \<Rightarrow> nat \<Rightarrow> 'r \<times> EnrichState \<Rightarrow> ('r \<times> EnrichState) option" where
  "Worker_run S env n x = map_option ((read_new S env) ^^ n) (processPending S env x)"

text \<open>Starting: the names of the workers, none when the consumer group cannot be made.\<close>

definition isBusyGroup :: "string option \<Rightarrow> bool" where
  "isBusyGroup e = (e = Some ''BUSYGROUP Consumer Group name already exists'')"

definition StartWorkers :: "string option \<Rightarrow> nat \<Rightarrow> string list" where
  "StartWorkers e count = (if e \<noteq> None \<and> \<not> isBusyGroup e then []
     else map (\<lambda>i. ''worker-'' @ strconv_Itoa (int i)) [0..<count])"

definition readStreamLength :: "'r Stream \<Rightarrow> 'r \<Rightarrow> nat" where
  "readStreamLength S r = (case st_len S r of None \<Rightarrow> 0 | Some n \<Rightarrow> n)"

section \<open>What Redis promises\<close>

text \<open>
  \<open>waiting\<close> are the messages delivered to the consumer and not acknowledged, in order. Reading them with id 0
  and count 10 gives the first ten and changes nothing; an acknowledgement takes away the message of its id.
\<close>

definition stream_ok :: "'r Stream \<Rightarrow> ('r \<Rightarrow> XMessage list) \<Rightarrow> bool" where
  "stream_ok S waiting \<longleftrightarrow>
     (\<forall>r. fst (st_pending S r) = Some (take 10 (waiting r)) \<and> waiting (snd (st_pending S r)) = waiting r) \<and>
     (\<forall>i r. waiting (ack S i r) = filter (\<lambda>m. xm_ID m \<noteq> i) (waiting r))"

lemma stream_pending:
  assumes "stream_ok S waiting"
  obtains r' where "st_pending S r = (Some (take 10 (waiting r)), r')" "waiting r' = waiting r"
  using assms by (metis stream_ok_def prod.collapse)

lemma stream_ack: "stream_ok S waiting \<Longrightarrow> waiting (ack S i r) = filter (\<lambda>m. xm_ID m \<noteq> i) (waiting r)"
  by (simp add: stream_ok_def)

text \<open>A message that can never be processed: it names a finding that is not in the table.\<close>

definition poison :: "Enricher \<Rightarrow> EnrichState \<Rightarrow> XMessage \<Rightarrow> bool" where
  "poison env s m \<longleftrightarrow> (\<exists>i fid. xm_FindingID m = Some i \<and> jd_uuid (en_decoder env) i = Some fid \<and>
     fid \<notin> f_ID ` set (tb_findings (w_db (es_world s))))"

text \<open>What processing a message keeps: no fault ahead, the table of findings, the clock.\<close>

definition steady :: "EnrichState \<Rightarrow> EnrichState \<Rightarrow> bool" where
  "steady s s' \<longleftrightarrow> calm s' \<and> tb_findings (w_db (es_world s')) = tb_findings (w_db (es_world s))"

lemma EnrichFinding_known:
  assumes "calm s" "fid \<in> f_ID ` set (tb_findings (w_db (es_world s)))"
  shows "\<exists>s'. EnrichFinding env fid s = (Inr (), s') \<and> steady s s'"
proof -
  have "\<exists>f. find (\<lambda>f. f_ID f = fid) (tb_findings (w_db (es_world s))) = Some f"
  proof (rule ccontr)
    assume "\<not> ?thesis"
    then have "find (\<lambda>f. f_ID f = fid) (tb_findings (w_db (es_world s))) = None" by (metis option.exhaust)
    then show False using assms(2) by (auto simp: find_None_iff)
  qed
  then obtain f where "find (\<lambda>f. f_ID f = fid) (tb_findings (w_db (es_world s))) = Some f" ..
  from EnrichFinding_calm[OF assms(1) this] assms(1) show ?thesis
    by (simp add: steady_def scored_def calm_def)
qed

lemma EnrichFinding_unknown:
  assumes "calm s" "fid \<notin> f_ID ` set (tb_findings (w_db (es_world s)))"
  shows "\<exists>e. EnrichFinding env fid s = (Inl e, s)"
proof -
  have "find (\<lambda>f. f_ID f = fid) (tb_findings (w_db (es_world s))) = None" using assms(2) by (auto simp: find_None_iff)
  then show ?thesis using assms(1) by (simp add: EnrichFinding_def calm_def)
qed

lemma processMessage_effect:
  assumes "calm s"
  shows "poison env s m \<Longrightarrow> processMessage S env m (r, s) = (r, s)"
    and "\<not> poison env s m \<Longrightarrow> \<exists>s'. processMessage S env m (r, s) = (ack S (xm_ID m) r, s') \<and> steady s s'"
proof -
  assume "poison env s m"
  then obtain i fid where "xm_FindingID m = Some i" "jd_uuid (en_decoder env) i = Some fid"
    "fid \<notin> f_ID ` set (tb_findings (w_db (es_world s)))" by (auto simp: poison_def)
  then show "processMessage S env m (r, s) = (r, s)"
    using EnrichFinding_unknown[OF assms, of fid env] by (auto simp: processMessage_def)
next
  assume ok: "\<not> poison env s m"
  have "steady s s" using assms by (simp add: steady_def)
  then show "\<exists>s'. processMessage S env m (r, s) = (ack S (xm_ID m) r, s') \<and> steady s s'"
    using ok EnrichFinding_known[OF assms, of _ env]
    by (cases "xm_FindingID m"; cases "jd_uuid (en_decoder env) (the (xm_FindingID m))") (fastforce simp: processMessage_def poison_def)+
qed

lemma steady_poison: "steady s s' \<Longrightarrow> poison env s' m = poison env s m"
  by (simp add: poison_def steady_def)

lemma steady_trans: "steady s s' \<Longrightarrow> steady s' s'' \<Longrightarrow> steady s s''"
  by (simp add: steady_def)

text \<open>A batch acknowledges exactly its messages that are not poison.\<close>

lemma process_batch_effect:
  assumes "stream_ok S waiting" "calm s"
  shows "\<exists>r' s'. process_batch S env msgs (r, s) = (r', s') \<and> steady s s' \<and>
    waiting r' = filter (\<lambda>m. \<forall>p \<in> set msgs. poison env s p \<or> xm_ID m \<noteq> xm_ID p) (waiting r)"
  using assms(2)
proof (induction msgs arbitrary: r s)
  case Nil
  then show ?case by (simp add: process_batch_def steady_def)
next
  case (Cons p msgs)
  show ?case
  proof (cases "poison env s p")
    case True
    then show ?thesis using Cons.IH[OF Cons.prems, of r] processMessage_effect(1)[OF Cons.prems True, of S r]
      by (auto simp: process_batch_def)
  next
    case False
    then obtain s1 where p: "processMessage S env p (r, s) = (ack S (xm_ID p) r, s1)" "steady s s1"
      using processMessage_effect(2)[OF Cons.prems False, of S r] by blast
    then have "calm s1" by (simp add: steady_def)
    from Cons.IH[OF this, of "ack S (xm_ID p) r"] obtain r' s' where
      "process_batch S env msgs (ack S (xm_ID p) r, s1) = (r', s')" "steady s1 s'"
      "waiting r' = filter (\<lambda>m. \<forall>q \<in> set msgs. poison env s1 q \<or> xm_ID m \<noteq> xm_ID q) (waiting (ack S (xm_ID p) r))" by blast
    moreover from this have "waiting r' = filter (\<lambda>m. \<forall>q \<in> set (p # msgs). poison env s q \<or> xm_ID m \<noteq> xm_ID q) (waiting r)"
      by (simp add: stream_ack[OF assms(1)] steady_poison[OF p(2)] False)
    moreover have "process_batch S env (p # msgs) (r, s) = process_batch S env msgs (ack S (xm_ID p) r, s1)"
      by (simp add: process_batch_def p(1))
    ultimately show ?thesis using steady_trans[OF p(2)] by auto
  qed
qed

section \<open>Recovery\<close>

text \<open>A round over the waiting messages: the first ten are processed, and those that are not poison go.\<close>

lemma pending_round:
  assumes "stream_ok S waiting" "calm s" "waiting r \<noteq> []"
  obtains r' s' where "processPending S env (r, s) = processPending S env (r', s')" "steady s s'"
    "waiting r' = filter (\<lambda>m. \<forall>p \<in> set (take 10 (waiting r)). poison env s p \<or> xm_ID m \<noteq> xm_ID p) (waiting r)"
proof -
  obtain r1 where r1: "st_pending S r = (Some (take 10 (waiting r)), r1)" "waiting r1 = waiting r"
    using stream_pending[OF assms(1)] by blast
  obtain r' s' where "process_batch S env (take 10 (waiting r)) (r1, s) = (r', s')" "steady s s'"
    "waiting r' = filter (\<lambda>m. \<forall>p \<in> set (take 10 (waiting r)). poison env s p \<or> xm_ID m \<noteq> xm_ID p) (waiting r1)"
    using process_batch_effect[OF assms(1,2)] by blast
  moreover from this have "processPending S env (r, s) = processPending S env (r', s')"
    using r1 assms(3) by (subst processPending.simps) simp
  ultimately show ?thesis using that r1(2) by simp
qed

lemma pending_done:
  assumes "stream_ok S waiting" "waiting r = []"
  obtains r' where "processPending S env (r, s) = Some (r', s)" "waiting r' = []"
proof -
  obtain r1 where "st_pending S r = (Some [], r1)" "waiting r1 = []"
    using stream_pending[OF assms(1), of r] assms(2) by auto
  moreover from this have "processPending S env (r, s) = Some (r1, s)" by (subst processPending.simps) simp
  ultimately show ?thesis using that by blast
qed

lemma recovery_ends:
  assumes "stream_ok S waiting"
  shows "calm s \<Longrightarrow> \<forall>m \<in> set (waiting r). \<not> poison env s m \<Longrightarrow>
    \<exists>r' s'. processPending S env (r, s) = Some (r', s') \<and> waiting r' = [] \<and> steady s s'"
proof (induction "length (waiting r)" arbitrary: r s rule: less_induct)
  case less
  show ?case
  proof (cases "waiting r")
    case Nil
    then show ?thesis using pending_done[OF assms Nil, of env s] less.prems by (metis steady_def)
  next
    case (Cons m ms)
    then have ne: "waiting r \<noteq> []" by simp
    obtain r1 s1 where round: "processPending S env (r, s) = processPending S env (r1, s1)" "steady s s1"
      "waiting r1 = filter (\<lambda>m. \<forall>p \<in> set (take 10 (waiting r)). poison env s p \<or> xm_ID m \<noteq> xm_ID p) (waiting r)"
      by (rule pending_round[OF assms less.prems(1) ne])
    have "m \<in> set (take 10 (waiting r))" "\<not> poison env s m" using less.prems(2) Cons by auto
    then have "m \<notin> set (waiting r1)" using round(3) by auto
    then have "length (waiting r1) < length (waiting r)"
      using round(3) Cons length_filter_less[of m "waiting r"] by auto
    moreover have "calm s1" "\<forall>m \<in> set (waiting r1). \<not> poison env s1 m"
      using round(2,3) less.prems(2) steady_poison[OF round(2)] by (auto simp: steady_def)
    ultimately obtain r' s' where "processPending S env (r1, s1) = Some (r', s')" "waiting r' = []" "steady s1 s'"
      using less.hyps by blast
    then show ?thesis using round(1) steady_trans[OF round(2)] by auto
  qed
qed

text \<open>With a poison message waiting the loop goes round: a round keeps it waiting.\<close>

definition blocked :: "('r \<Rightarrow> XMessage list) \<Rightarrow> Enricher \<Rightarrow> 'r \<times> EnrichState \<Rightarrow> bool" where
  "blocked waiting env = (\<lambda>(r, s). calm s \<and> distinct (map xm_ID (waiting r)) \<and> (\<exists>m \<in> set (waiting r). poison env s m))"

lemma blocked_round:
  assumes "stream_ok S waiting" "blocked waiting env (r, s)"
    and "st_pending S r = (q, r1)"
  shows "q = Some (take 10 (waiting r)) \<and> take 10 (waiting r) \<noteq> [] \<and>
    blocked waiting env (process_batch S env (take 10 (waiting r)) (r1, s))"
proof -
  have b: "calm s" "distinct (map xm_ID (waiting r))" "\<exists>m \<in> set (waiting r). poison env s m"
    using assms(2) by (simp_all add: blocked_def)
  have q: "q = Some (take 10 (waiting r))" "waiting r1 = waiting r"
    using stream_pending[OF assms(1), of r] assms(3) by auto
  obtain r' s' where batch: "process_batch S env (take 10 (waiting r)) (r1, s) = (r', s')" "steady s s'"
    "waiting r' = filter (\<lambda>m. \<forall>p \<in> set (take 10 (waiting r)). poison env s p \<or> xm_ID m \<noteq> xm_ID p) (waiting r1)"
    using process_batch_effect[OF assms(1) b(1), of env "take 10 (waiting r)" r1] by blast
  obtain m where m: "m \<in> set (waiting r)" "poison env s m" using b(3) by blast
  have "poison env s p \<or> xm_ID m \<noteq> xm_ID p" if "p \<in> set (take 10 (waiting r))" for p
    using that m b(2) inj_onD[of xm_ID "set (waiting r)" m p] by (auto simp: distinct_map dest: in_set_takeD)
  then have "m \<in> set (waiting r')" using batch(3) m(1) q(2) by simp
  moreover have "distinct (map xm_ID (waiting r'))" using b(2) batch(3) q(2) by (simp add: distinct_map_filter)
  ultimately have "blocked waiting env (r', s')"
    using batch(2) m(2) steady_poison[OF batch(2)] by (auto simp: blocked_def steady_def)
  then show ?thesis using q b(3) batch(1) by auto
qed

lemma recovery_stuck:
  assumes "stream_ok S waiting" "processPending S env x = Some y"
  shows "\<not> blocked waiting env x"
proof -
  have "stream_ok S waiting \<longrightarrow> \<not> blocked waiting env x"
  proof (rule processPending.raw_induct[where P = "\<lambda>S env x y. stream_ok S waiting \<longrightarrow> \<not> blocked waiting env x" and xa = "((S, env), x)" and y = y, unfolded prod.case])
    fix rec :: "'a Stream \<Rightarrow> Enricher \<Rightarrow> 'a \<times> EnrichState \<Rightarrow> ('a \<times> EnrichState) option" and S env x y
    assume IH: "\<And>S env x y. rec S env x = Some y \<Longrightarrow> stream_ok S waiting \<longrightarrow> \<not> blocked waiting env x"
      and body: "(case st_pending S (fst x) of (None, r) \<Rightarrow> Some (r, snd x)
       | (Some messages, r) \<Rightarrow> if messages = [] then Some (r, snd x) else rec S env (process_batch S env messages (r, snd x))) = Some y"
    obtain q r1 where p: "st_pending S (fst x) = (q, r1)" by fastforce
    show "stream_ok S waiting \<longrightarrow> \<not> blocked waiting env x"
      using blocked_round[of S waiting env "fst x" "snd x" q r1] p body IH by fastforce
  qed (rule assms(2))
  then show ?thesis using assms(1) by blast
qed

text \<open>
  C29. With a Redis that behaves as documented and a database without failures, the recovery of unacknowledged
  messages at the start of a worker returns exactly when none of them names a finding that is gone. It then
  leaves none waiting. Otherwise it processes the same message for ever: the worker never comes to the loop
  that reads new messages.
\<close>

theorem recovery_returns_iff:
  assumes "stream_ok S waiting" "calm s" "distinct (map xm_ID (waiting r))"
  shows "(processPending S env (r, s) \<noteq> None \<longleftrightarrow> (\<forall>m \<in> set (waiting r). \<not> poison env s m)) \<and>
    (\<forall>r' s'. processPending S env (r, s) = Some (r', s') \<longrightarrow> waiting r' = [] \<and> steady s s') \<and>
    (\<forall>n. (\<exists>m \<in> set (waiting r). poison env s m) \<longrightarrow> Worker_run S env n (r, s) = None)"
proof (cases "\<exists>m \<in> set (waiting r). poison env s m")
  case True
  then have "blocked waiting env (r, s)" using assms by (simp add: blocked_def)
  then have "processPending S env (r, s) = None"
    using recovery_stuck[OF assms(1), of env "(r, s)"] by (cases "processPending S env (r, s)") auto
  then show ?thesis using True by (auto simp: Worker_run_def)
next
  case False
  then obtain r' s' where "processPending S env (r, s) = Some (r', s')" "waiting r' = []" "steady s s'"
    using recovery_ends[OF assms(1,2), of r env] by blast
  then show ?thesis using False by auto
qed

text \<open>A stream kept as the list of waiting messages.\<close>

definition list_stream :: "XMessage list Stream" where
  "list_stream = \<lparr>st_add = (\<lambda>_ r. (True, r)), st_new = (\<lambda>r. (None, r)), st_pending = (\<lambda>r. (Some (take 10 r), r)),
     st_ack = (\<lambda>i r. (True, filter (\<lambda>m. xm_ID m \<noteq> i) r)), st_len = (\<lambda>r. Some (length r))\<rparr>"

definition uuid_enricher :: Enricher where
  "uuid_enricher = demo_enricher\<lparr>en_decoder := demo_cpe_decoder\<lparr>jd_uuid := (\<lambda>t. if t = ''seven'' then Some 7 else if t = ''eight'' then Some 8 else None)\<rparr>\<rparr>"

theorem recovery_returns_iff_witness:
  "processPending list_stream uuid_enricher ([\<lparr>xm_ID = ''1'', xm_FindingID = Some ''seven''\<rparr>], demo_enrich_state) \<noteq> None \<and>
   processPending list_stream uuid_enricher ([\<lparr>xm_ID = ''1'', xm_FindingID = Some ''eight''\<rparr>], demo_enrich_state) = None"
proof -
  have ok: "stream_ok list_stream id" by (simp add: stream_ok_def list_stream_def ack_def)
  have calm: "calm demo_enrich_state" by (simp add: calm_def demo_enrich_state_def World_start_def)
  have ids: "f_ID ` set (tb_findings (w_db (es_world demo_enrich_state))) = {7}"
    by (simp add: demo_enrich_state_def World_start_def demo_enrich_finding_def)
  have good: "\<not> poison uuid_enricher demo_enrich_state \<lparr>xm_ID = ''1'', xm_FindingID = Some ''seven''\<rparr>"
    and bad: "poison uuid_enricher demo_enrich_state \<lparr>xm_ID = ''1'', xm_FindingID = Some ''eight''\<rparr>"
    by (simp_all add: poison_def ids) (simp_all add: uuid_enricher_def)
  have "processPending list_stream uuid_enricher ([\<lparr>xm_ID = ''1'', xm_FindingID = Some ''seven''\<rparr>], demo_enrich_state) \<noteq> None"
    using recovery_returns_iff[OF ok calm, of "[\<lparr>xm_ID = ''1'', xm_FindingID = Some ''seven''\<rparr>]" uuid_enricher, THEN conjunct1] good by (auto simp del: not_None_eq)
  moreover have "processPending list_stream uuid_enricher ([\<lparr>xm_ID = ''1'', xm_FindingID = Some ''eight''\<rparr>], demo_enrich_state) = None"
    using recovery_returns_iff[OF ok calm, of "[\<lparr>xm_ID = ''1'', xm_FindingID = Some ''eight''\<rparr>]" uuid_enricher, THEN conjunct1] bad by (auto simp del: not_None_eq)
  ultimately show ?thesis by blast
qed

end
