(* ===== verification/Scheduler.thy ===== *)
theory Scheduler
  imports Db "HOL-Library.While_Combinator"
begin

text \<open>
  The synchronisation of the reference tables: \<open>internal/enrichment/scheduler.go\<close> and \<open>pipeline.go\<close>. The
  scheduler is a step relation over its two maps and the runs in progress: the sections under its mutex are
  atomic, and any number of tickers and requests act in between. A run updates the row of its source in
  \<open>sync_status\<close>; the synchronisation itself is an outcome.
\<close>

section \<open>The scheduler\<close>

record Syncer =
  sy_Name :: string
  sy_Full :: bool
  sy_Preserve :: bool

record Scheduler =
  sd_syncers :: "(Syncer \<times> time) list"
  sd_running :: "string \<Rightarrow> bool"
  sd_runningSince :: "string \<rightharpoonup> time"

definition NewScheduler :: Scheduler where
  "NewScheduler = \<lparr>sd_syncers = [], sd_running = (\<lambda>_. False), sd_runningSince = Map.empty\<rparr>"

definition Register :: "Syncer \<Rightarrow> time \<Rightarrow> Scheduler \<Rightarrow> Scheduler" where
  "Register syncer interval s = s\<lparr>sd_syncers := sd_syncers s @ [(syncer, interval)]\<rparr>"

definition GetSyncer :: "string \<Rightarrow> Scheduler \<Rightarrow> Syncer option" where
  "GetSyncer name s = map_option fst (find (\<lambda>sc. sy_Name (fst sc) = name) (sd_syncers s))"

text \<open>The head of \<open>runIfNotRunning\<close> under the mutex, and its deferred release.\<close>

definition acquire :: "string \<Rightarrow> time \<Rightarrow> Scheduler \<Rightarrow> bool \<times> Scheduler" where
  "acquire name now s =
     (if sd_running s name then (False, s)
      else (True, s\<lparr>sd_running := (sd_running s)(name := True), sd_runningSince := (sd_runningSince s)(name \<mapsto> now)\<rparr>))"

definition release :: "string \<Rightarrow> Scheduler \<Rightarrow> Scheduler" where
  "release name s = s\<lparr>sd_running := (sd_running s)(name := False), sd_runningSince := (sd_runningSince s)(name := None)\<rparr>"

text \<open>What a request for a run comes to before the mutex: an error, or the run with whether it is a full one.\<close>

definition TriggerSync :: "string \<Rightarrow> Scheduler \<Rightarrow> string + Syncer \<times> bool" where
  "TriggerSync name s = (case GetSyncer name s of
     None \<Rightarrow> Inl (''unknown sync source: '' @ name) | Some syncer \<Rightarrow> Inr (syncer, False))"

definition TriggerFullSync :: "string \<Rightarrow> Scheduler \<Rightarrow> string + Syncer \<times> bool" where
  "TriggerFullSync name s = (case GetSyncer name s of
     None \<Rightarrow> Inl (''unknown sync source: '' @ name)
   | Some syncer \<Rightarrow> if sy_Full syncer then Inr (syncer, True) else Inl (''full sync is not supported for source: '' @ name))"

text \<open>
  The state with the runs in progress, each the name of its source and whether it is full. A tick of a
  registered syncer and a request that names one start or refuse a run; a run ends with any result, a panic
  included, since the release is deferred.
\<close>

datatype run_result = RunOk | RunError string | RunPanic string

datatype sched_event = Began string bool | Refused string | Ended string bool run_result

type_synonym sched_state = "Scheduler \<times> (string \<times> bool) list"

definition may_run :: "Scheduler \<Rightarrow> Syncer \<Rightarrow> bool \<Rightarrow> bool" where
  "may_run s syncer full \<longleftrightarrow>
     (\<not> full \<and> syncer \<in> fst ` set (sd_syncers s)) \<or>
     TriggerSync (sy_Name syncer) s = Inr (syncer, full) \<or> TriggerFullSync (sy_Name syncer) s = Inr (syncer, full)"

inductive sched_step :: "sched_state \<Rightarrow> sched_event \<Rightarrow> sched_state \<Rightarrow> bool" where
  begin_run: "may_run s syncer full \<Longrightarrow> acquire (sy_Name syncer) now s = (True, s') \<Longrightarrow>
    sched_step (s, runs) (Began (sy_Name syncer) full) (s', (sy_Name syncer, full) # runs)"
| refuse: "may_run s syncer full \<Longrightarrow> acquire (sy_Name syncer) now s = (False, s') \<Longrightarrow>
    sched_step (s, runs) (Refused (sy_Name syncer)) (s', runs)"
| finish: "runs = xs @ (name, full) # ys \<Longrightarrow>
    sched_step (s, runs) (Ended name full result) (release name s, xs @ ys)"

inductive_cases sched_stepE: "sched_step (s, runs) ev (s', runs')"

inductive sched_run :: "sched_state \<Rightarrow> sched_event list \<Rightarrow> sched_state \<Rightarrow> bool" where
  none: "sched_run x [] x"
| more: "sched_run x evs y \<Longrightarrow> sched_step y ev z \<Longrightarrow> sched_run x (evs @ [ev]) z"

definition sched_inv :: "sched_state \<Rightarrow> bool" where
  "sched_inv = (\<lambda>(s, runs). distinct (map fst runs) \<and> (\<forall>name. sd_running s name = (name \<in> fst ` set runs)) \<and>
     dom (sd_runningSince s) = fst ` set runs)"

lemma sched_inv_step: "sched_step x ev y \<Longrightarrow> sched_inv x \<Longrightarrow> sched_inv y"
proof (induction rule: sched_step.induct)
  case (begin_run s syncer full now s' runs)
  then have "s' = s\<lparr>sd_running := (sd_running s)(sy_Name syncer := True), sd_runningSince := (sd_runningSince s)(sy_Name syncer \<mapsto> now)\<rparr>"
    "sy_Name syncer \<notin> fst ` set runs" by (auto simp: acquire_def sched_inv_def split: if_splits)
  then show ?case using begin_run(3) by (simp add: sched_inv_def)
next
  case (refuse s syncer full now s' runs)
  then show ?case by (auto simp: sched_inv_def acquire_def split: if_splits)
next
  case (finish runs xs name full ys s result)
  then have "name \<notin> fst ` set (xs @ ys)" "fst ` set runs = insert name (fst ` set (xs @ ys))"
    by (auto simp: sched_inv_def)
  then show ?case using finish by (auto simp: sched_inv_def release_def)
qed

lemma sched_inv_run: "sched_run x evs y \<Longrightarrow> sched_inv x \<Longrightarrow> sched_inv y"
  by (induction rule: sched_run.induct) (auto dest: sched_inv_step)

definition fresh_scheduler :: "(Syncer \<times> time) list \<Rightarrow> sched_state" where
  "fresh_scheduler syncers = (fold (\<lambda>(syncer, interval). Register syncer interval) syncers NewScheduler, [])"

lemma fresh_inv: "sched_inv (fresh_scheduler syncers)"
proof -
  have "sd_running (fold (\<lambda>(syncer, interval). Register syncer interval) syncers s) = sd_running s \<and>
      sd_runningSince (fold (\<lambda>(syncer, interval). Register syncer interval) syncers s) = sd_runningSince s" for s
    by (induction syncers arbitrary: s) (auto simp: Register_def)
  then show ?thesis by (simp add: sched_inv_def fresh_scheduler_def NewScheduler_def)
qed

text \<open>
  C33. Whatever tickers and requests do, a source is never synchronised twice at the same time; a request is
  refused exactly while a run of the same source is in progress; and when a run ends, even with a panic, its
  source can be synchronised again at once.
\<close>

theorem one_sync_per_source:
  assumes "sched_run (fresh_scheduler syncers) evs (s, runs)"
  shows "distinct (map fst runs) \<and>
    (\<forall>name now. fst (acquire name now s) = (name \<notin> fst ` set runs)) \<and>
    (\<forall>name x y. sched_step (s, runs) (Refused name) y \<longrightarrow> name \<in> fst ` set runs \<and> y = (s, runs)) \<and>
    (\<forall>name full result s' runs' now. sched_step (s, runs) (Ended name full result) (s', runs') \<longrightarrow> fst (acquire name now s'))"
proof -
  have inv: "sched_inv (s, runs)" using sched_inv_run[OF assms fresh_inv] .
  have "sched_step (s, runs) (Ended name full result) (s', runs') \<Longrightarrow> fst (acquire name now s')" for name full result s' runs' now
    by (auto elim!: sched_stepE simp: acquire_def release_def)
  moreover have "sched_step (s, runs) (Refused name) y \<Longrightarrow> name \<in> fst ` set runs \<and> y = (s, runs)" for name y
    using inv by (cases y) (auto elim!: sched_stepE simp: acquire_def sched_inv_def split: if_splits)
  ultimately show ?thesis using inv by (auto simp: sched_inv_def acquire_def)
qed

definition demo_syncer :: Syncer where
  "demo_syncer = \<lparr>sy_Name = ''kev'', sy_Full = False, sy_Preserve = False\<rparr>"

theorem one_sync_per_source_witness:
  "\<exists>s. sched_run (fresh_scheduler [(demo_syncer, 60)]) [Began ''kev'' False] (s, [(''kev'', False)]) \<and>
     \<not> fst (acquire ''kev'' 5 s) \<and> fst (acquire ''kev'' 5 (release ''kev'' s))"
proof -
  let ?f = "fst (fresh_scheduler [(demo_syncer, 60)])"
  let ?s = "snd (acquire ''kev'' 1 ?f)"
  have name: "sy_Name demo_syncer = ''kev''" by (simp add: demo_syncer_def)
  have a: "acquire (sy_Name demo_syncer) 1 ?f = (True, ?s)"
    by (simp add: name acquire_def fresh_scheduler_def Register_def NewScheduler_def)
  have "may_run ?f demo_syncer False" by (simp add: may_run_def fresh_scheduler_def Register_def NewScheduler_def)
  from begin_run[OF this a, of "[]"] have "sched_step (fresh_scheduler [(demo_syncer, 60)]) (Began ''kev'' False) (?s, [(''kev'', False)])"
    by (simp add: name fresh_scheduler_def)
  from sched_run.more[OF sched_run.none this]
  have run: "sched_run (fresh_scheduler [(demo_syncer, 60)]) [Began ''kev'' False] (?s, [(''kev'', False)])" by simp
  have "fst (acquire ''kev'' 5 (release ''kev'' ?s))" by (simp add: acquire_def release_def)
  moreover have "\<not> fst (acquire ''kev'' 5 ?s)"
    using one_sync_per_source[OF run, THEN conjunct2, THEN conjunct1] by simp
  ultimately show ?thesis using run by blast
qed

section \<open>The status of a run\<close>

text \<open>
  The rows of \<open>sync_status\<close> with the columns the code reads, and the numbers of rows of the reference
  tables, \<open>None\<close> for a table whose query fails.
\<close>

record SyncStatus =
  ss_Source :: string
  ss_LastSyncAt :: "time option"
  ss_RecordsCount :: int
  ss_Status :: string
  ss_ErrorMessage :: "string option"
  ss_DurationSeconds :: "int option"

record SyncWorld =
  sw_world :: World
  sw_status :: "SyncStatus list"
  sw_tables :: "string \<Rightarrow> int option"

text \<open>
  How the synchronisation went: its error, how long it took, what the tables hold then, and whether the
  context ended meanwhile, in which case every later statement with it fails.
\<close>

record SyncOutcome =
  so_Error :: "string option"
  so_Nanos :: int
  so_Tables :: "string \<Rightarrow> int option"
  so_Expired :: bool

definition status_exec :: "bool \<Rightarrow> (time \<Rightarrow> SyncStatus list \<Rightarrow> SyncStatus list) \<Rightarrow> SyncWorld \<Rightarrow> bool \<times> SyncWorld" where
  "status_exec expired f s = (if expired then (False, s)
     else case db_call (sw_world s) of (ok, w) \<Rightarrow>
       if ok then (True, s\<lparr>sw_world := w, sw_status := f (w_now w) (sw_status s)\<rparr>) else (False, s\<lparr>sw_world := w\<rparr>))"

definition set_running :: "string \<Rightarrow> time \<Rightarrow> SyncStatus list \<Rightarrow> SyncStatus list" where
  "set_running name now rows =
     (if name \<in> ss_Source ` set rows
      then map (\<lambda>r. if ss_Source r = name then r\<lparr>ss_Status := ''running'', ss_ErrorMessage := None\<rparr> else r) rows
      else rows @ [\<lparr>ss_Source = name, ss_LastSyncAt = Some now, ss_RecordsCount = 0, ss_Status = ''running'',
        ss_ErrorMessage = None, ss_DurationSeconds = None\<rparr>])"

definition set_failed :: "string \<Rightarrow> string \<Rightarrow> int \<Rightarrow> SyncStatus list \<Rightarrow> SyncStatus list" where
  "set_failed name msg duration rows = map (\<lambda>r. if ss_Source r = name
     then r\<lparr>ss_Status := ''error'', ss_ErrorMessage := Some msg, ss_DurationSeconds := Some duration\<rparr> else r) rows"

definition set_done :: "string \<Rightarrow> int \<Rightarrow> int \<Rightarrow> bool \<Rightarrow> time \<Rightarrow> SyncStatus list \<Rightarrow> SyncStatus list" where
  "set_done name cnt duration preserve now rows = map (\<lambda>r. if ss_Source r = name
     then r\<lparr>ss_Status := ''success'', ss_LastSyncAt := (if preserve then ss_LastSyncAt r else Some now), ss_RecordsCount := cnt,
       ss_DurationSeconds := Some duration, ss_ErrorMessage := None\<rparr> else r) rows"

definition source_table :: "string \<Rightarrow> string option" where
  "source_table source = map_of [(''epss'', ''epss_scores''), (''kev'', ''kev_catalog''), (''nvd'', ''nvd_cves''),
     (''bdu'', ''bdu_fstec''), (''osv'', ''osv_vulnerabilities''), (''cwe'', ''cwe_catalog''), (''cpe'', ''cpe_dictionary'')] source"

definition countRecords :: "bool \<Rightarrow> string \<Rightarrow> SyncWorld \<Rightarrow> int \<times> SyncWorld" where
  "countRecords expired source s = (case source_table source of
       None \<Rightarrow> (0, s)
     | Some table \<Rightarrow> if expired then (0, s)
         else case db_call (sw_world s) of (ok, w) \<Rightarrow>
           (if ok then (case sw_tables s table of None \<Rightarrow> 0 | Some n \<Rightarrow> n) else 0, s\<lparr>sw_world := w\<rparr>))"

definition RunSync :: "Syncer \<Rightarrow> SyncOutcome \<Rightarrow> SyncWorld \<Rightarrow> (string + unit) \<times> SyncWorld" where
  "RunSync syncer outcome s =
     (let name = sy_Name syncer in
      case status_exec False (set_running name) s of
        (False, s) \<Rightarrow> (Inl ''enrichment.RunSync: update status to running'', s)
      | (True, s) \<Rightarrow>
          let s = s\<lparr>sw_world := (sw_world s)\<lparr>w_now := w_now (sw_world s) + so_Nanos outcome\<rparr>, sw_tables := so_Tables outcome\<rparr>;
              duration = so_Nanos outcome div time_Second
          in case so_Error outcome of
              Some msg \<Rightarrow> (Inl (''enrichment.RunSync: '' @ name @ '': '' @ msg),
                snd (status_exec (so_Expired outcome) (\<lambda>_. set_failed name msg duration) s))
            | None \<Rightarrow> (case countRecords (so_Expired outcome) name s of
                (cnt, s) \<Rightarrow> (Inr (), snd (status_exec (so_Expired outcome) (set_done name cnt duration (sy_Preserve syncer)) s))))"

definition GetAllSyncStatuses :: "SyncWorld \<Rightarrow> (err + SyncStatus list) \<times> SyncWorld" where
  "GetAllSyncStatuses s = (case db_call (sw_world s) of (ok, w) \<Rightarrow>
     (if ok then Inr (sort_key ss_Source (map (\<lambda>r. r\<lparr>ss_ErrorMessage := Some (case ss_ErrorMessage r of None \<Rightarrow> [] | Some m \<Rightarrow> m),
        ss_DurationSeconds := Some (case ss_DurationSeconds r of None \<Rightarrow> 0 | Some d \<Rightarrow> d)\<rparr>) (sw_status s))) else Inl ErrDB, s\<lparr>sw_world := w\<rparr>))"

section \<open>What the status says\<close>

definition status_of_source :: "string \<Rightarrow> SyncWorld \<Rightarrow> SyncStatus option" where
  "status_of_source name s = find (\<lambda>r. ss_Source r = name) (sw_status s)"

lemma find_map_row:
  "(\<And>r. ss_Source (f r) = ss_Source r) \<Longrightarrow>
   find (\<lambda>r. ss_Source r = name) (map (\<lambda>r. if ss_Source r = name then f r else r) rows) =
   map_option f (find (\<lambda>r. ss_Source r = name) rows)"
  by (induction rows) auto

lemma set_failed_find: "find (\<lambda>r. ss_Source r = name) (set_failed name msg d rows) =
  map_option (\<lambda>r. r\<lparr>ss_Status := ''error'', ss_ErrorMessage := Some msg, ss_DurationSeconds := Some d\<rparr>) (find (\<lambda>r. ss_Source r = name) rows)"
  unfolding set_failed_def by (rule find_map_row) simp

lemma set_done_find: "find (\<lambda>r. ss_Source r = name) (set_done name cnt d preserve now rows) =
  map_option (\<lambda>r. r\<lparr>ss_Status := ''success'', ss_LastSyncAt := (if preserve then ss_LastSyncAt r else Some now), ss_RecordsCount := cnt,
       ss_DurationSeconds := Some d, ss_ErrorMessage := None\<rparr>) (find (\<lambda>r. ss_Source r = name) rows)"
  unfolding set_done_def by (rule find_map_row) simp

lemma find_append_new: "name \<notin> ss_Source ` set rows \<Longrightarrow> ss_Source x = name \<Longrightarrow> find (\<lambda>r. ss_Source r = name) (rows @ [x]) = Some x"
  by (induction rows) auto

lemma find_known: "name \<in> ss_Source ` set rows \<Longrightarrow> \<exists>r. find (\<lambda>r. ss_Source r = name) rows = Some r"
  by (induction rows) auto

text \<open>The row of a source that is being synchronised: the old one, or a new one that claims to be synchronised now.\<close>

definition running_row :: "string \<Rightarrow> time \<Rightarrow> SyncStatus option \<Rightarrow> SyncStatus" where
  "running_row name now old = (case old of
     Some r \<Rightarrow> r\<lparr>ss_Status := ''running'', ss_ErrorMessage := None\<rparr>
   | None \<Rightarrow> \<lparr>ss_Source = name, ss_LastSyncAt = Some now, ss_RecordsCount = 0, ss_Status = ''running'',
       ss_ErrorMessage = None, ss_DurationSeconds = None\<rparr>)"

lemma set_running_find: "find (\<lambda>r. ss_Source r = name) (set_running name now rows) =
  Some (running_row name now (find (\<lambda>r. ss_Source r = name) rows))"
proof (cases "name \<in> ss_Source ` set rows")
  case True
  moreover obtain r where "find (\<lambda>r. ss_Source r = name) rows = Some r" using find_known[OF True] ..
  ultimately show ?thesis by (simp add: set_running_def running_row_def find_map_row)
next
  case False
  moreover have "find (\<lambda>r. ss_Source r = name) rows = None" using False by (auto simp: find_None_iff)
  ultimately show ?thesis by (simp add: set_running_def running_row_def find_append_new)
qed

definition documented_status :: "Syncer \<Rightarrow> SyncOutcome \<Rightarrow> time \<Rightarrow> SyncStatus \<Rightarrow> SyncStatus" where
  "documented_status syncer outcome now old = (case so_Error outcome of
     Some msg \<Rightarrow> old\<lparr>ss_Status := ''error'', ss_ErrorMessage := Some msg, ss_DurationSeconds := Some (so_Nanos outcome div time_Second)\<rparr>
   | None \<Rightarrow> old\<lparr>ss_Status := ''success'', ss_LastSyncAt := (if sy_Preserve syncer then ss_LastSyncAt old else Some (now + so_Nanos outcome)),
       ss_RecordsCount := (case source_table (sy_Name syncer) of None \<Rightarrow> 0
         | Some table \<Rightarrow> (case so_Tables outcome table of None \<Rightarrow> 0 | Some n \<Rightarrow> n)),
       ss_DurationSeconds := Some (so_Nanos outcome div time_Second), ss_ErrorMessage := None\<rparr>)"

text \<open>
  The status of a source after a synchronisation when the database does not fail. A success is recorded
  with the time (unless the source keeps its own), the number of rows and the duration, an error with its
  message and with the time of the last success as it was. But when the context of the run has ended, as it
  has after the time limit, the status stays running; and a source whose first run fails has that run's
  beginning as the time of its last synchronisation.
\<close>

theorem sync_status_after:
  assumes "w_faults (sw_world s) = []"
  shows "status_of_source (sy_Name syncer) (snd (RunSync syncer outcome s)) = Some
      (let old = running_row (sy_Name syncer) (w_now (sw_world s)) (status_of_source (sy_Name syncer) s) in
       if so_Expired outcome then old else documented_status syncer outcome (w_now (sw_world s)) old) \<and>
    (fst (RunSync syncer outcome s) = Inr ()) = (so_Error outcome = None) \<and>
    ss_Status (running_row name now prev) = ''running''"
  using assms
  by (auto simp: RunSync_def status_exec_def countRecords_def Let_def status_of_source_def set_running_find documented_status_def
      set_failed_find set_done_find running_row_def db_call.simps split: option.splits)

theorem sync_status_after_witness:
  "\<exists>s row. status_of_source ''kev'' s = None \<and>
     status_of_source ''kev'' (snd (RunSync demo_syncer \<lparr>so_Error = Some ''deadline'', so_Nanos = 7, so_Tables = Map.empty, so_Expired = True\<rparr> s)) =
       Some row \<and> ss_Status row = ''running'' \<and> ss_LastSyncAt row = Some 5"
proof -
  let ?s = "\<lparr>sw_world = World_start DB_empty 5, sw_status = [], sw_tables = Map.empty\<rparr>"
  let ?o = "\<lparr>so_Error = Some ''deadline'', so_Nanos = 7, so_Tables = Map.empty, so_Expired = True\<rparr>"
  have calm: "w_faults (sw_world ?s) = []" by (simp add: World_start_def)
  have "status_of_source ''kev'' (snd (RunSync demo_syncer ?o ?s)) = Some (running_row ''kev'' 5 None)"
    using sync_status_after[OF calm, of demo_syncer ?o] by (simp add: demo_syncer_def status_of_source_def World_start_def)
  then show ?thesis by (intro exI[of _ ?s]) (simp add: running_row_def status_of_source_def)
qed

end
