(* ===== verification/Projects.thy ===== *)
theory Projects
  imports TriageApi
begin

text \<open>
  Writing projects: the statements of \<open>internal/storage/projects_repo.go\<close> that change tables, and its small functions.

  The texts of identifiers are those of package \<open>google/uuid\<close>, a parameter with its parser and printer, and the
  order of names is the collation of the database, a parameter that gives each name its sort key.
\<close>

section \<open>Text of identifiers, order of names\<close>

record Lib =
  uuid_Parse :: "string \<Rightarrow> uuid option"
  uuid_String :: "uuid \<Rightarrow> string"
  collation :: "string \<Rightarrow> string"

definition good_lib :: "Lib \<Rightarrow> bool" where
  "good_lib L \<longleftrightarrow> (\<forall>u. uuid_Parse L (uuid_String L u) = Some u \<and> uuid_String L u \<noteq> [])"

section \<open>Small functions\<close>

text \<open>A byte string cut at 96 bytes, wherever a character ends.\<close>

definition slug_char :: "char \<Rightarrow> char" where
  "slug_char c = (if c \<in> set '' _/.'' then CHR ''-'' else c)"

definition slugifyProjectName :: "string \<Rightarrow> string" where
  "slugifyProjectName name =
     (let slug = strings_Trim (map slug_char (strings_ToLower (strings_TrimSpace name))) CHR ''-'';
          slug = (if slug = [] then ''project'' else slug)
      in if length slug > 96 then take 96 slug else slug)"

definition storage_emptyToNil :: "string \<Rightarrow> string option" where
  "storage_emptyToNil v = (if strings_TrimSpace v = [] then None else Some v)"

definition uuidOrNil :: "uuid \<Rightarrow> uuid option" where
  "uuidOrNil u = (if u = uuid_Nil then None else Some u)"

definition setDerivedProjectHealth :: "Project \<Rightarrow> Project" where
  "setDerivedProjectHealth p =
     (if p_Status p = ProjectStatusPaused \<or> p_Status p = ProjectStatusArchived then p\<lparr>p_Health := ProjectHealthPaused\<rparr>
      else if \<not> p_SetupCompleted p then p\<lparr>p_Health := ProjectHealthSetup\<rparr>
      else if p_SLABreached p > 0 \<or> sev_Critical (p_FindingsBySev p) > 0 then p\<lparr>p_Health := ProjectHealthBreach\<rparr>
      else if sev_High (p_FindingsBySev p) > 0 then p\<lparr>p_Health := ProjectHealthWarn\<rparr>
      else p\<lparr>p_Health := ProjectHealthHealthy\<rparr>)"

section \<open>Writing a project\<close>

text \<open>The defaults both statements fill in.\<close>

definition project_defaults :: "Project \<Rightarrow> Project" where
  "project_defaults p =
     (let p = (if p_Slug p = [] then p\<lparr>p_Slug := slugifyProjectName (p_Name p)\<rparr> else p);
          p = (if p_IconColor p = [] then p\<lparr>p_IconColor := ''#64748b''\<rparr> else p);
          p = (if p_SourceKind p = []
               then p\<lparr>p_SourceKind := if strings_TrimSpace (p_RepoURL p) \<noteq> [] then ProjectSourceGit else ProjectSourceManual\<rparr>
               else p);
          p = (if p_DefaultBranch p = [] then p\<lparr>p_DefaultBranch := ''main''\<rparr> else p)
      in if p_Visibility p = [] then p\<lparr>p_Visibility := ''workspace''\<rparr> else p)"

definition create_project_defaults :: "Project \<Rightarrow> World \<Rightarrow> Project \<times> World" where
  "create_project_defaults p w =
     (let (i, w) = (if p_ID p = uuid_Nil then uuid_New w else (p_ID p, w));
          now = w_now w;
          p = p\<lparr>p_ID := i, p_CreatedAt := if p_CreatedAt p = 0 then now else p_CreatedAt p,
                p_UpdatedAt := if p_UpdatedAt p = 0 then now else p_UpdatedAt p\<rparr>;
          p = project_defaults p
      in (p\<lparr>p_Status := if p_Status p = [] then ProjectStatusActive else p_Status p, p_SetupCompleted := True\<rparr>, w))"

text \<open>The team is stored when its text is an identifier, and silently NULL otherwise.\<close>

definition team_param :: "Lib \<Rightarrow> Project \<Rightarrow> uuid option" where
  "team_param L p = (case p_Team p of
     None \<Rightarrow> None
   | Some t \<Rightarrow> if pt_ID t = [] then None else uuid_Parse L (pt_ID t))"

definition project_cols :: "Lib \<Rightarrow> Project \<Rightarrow> ProjectCols" where
  "project_cols L p =
     \<lparr>pc_Slug = p_Slug p, pc_Description = Some (p_Description p), pc_IconColor = p_IconColor p, pc_SourceKind = p_SourceKind p,
      pc_RepoURL = storage_emptyToNil (p_RepoURL p), pc_RepoProvider = storage_emptyToNil (p_RepoProvider p),
      pc_DefaultBranch = p_DefaultBranch p, pc_AutoscanOnPush = p_AutoscanOnPush p, pc_Tags = p_Tags p,
      pc_Status = p_Status p, pc_SetupCompleted = p_SetupCompleted p, pc_Pinned = p_Pinned p, pc_Visibility = p_Visibility p,
      pc_SLACriticalDays = p_SLACriticalDays p, pc_SLAHighDays = p_SLAHighDays p, pc_SLAMediumDays = p_SLAMediumDays p,
      pc_SLALowDays = p_SLALowDays p, pc_SLANotifyBeforeDays = p_SLANotifyBeforeDays p, pc_TeamID = team_param L p,
      pc_CreatedAt = p_CreatedAt p, pc_UpdatedAt = p_UpdatedAt p\<rparr>"

text \<open>An integer the driver refuses to send for a column of 32 bits.\<close>

definition int4 :: "int \<Rightarrow> bool" where
  "int4 i \<longleftrightarrow> - (2 ^ 31) \<le> i \<and> i < 2 ^ 31"

definition ErrCheck :: err where "ErrCheck = Err ''violates check constraint''"
definition ErrForeign :: err where "ErrForeign = Err ''violates foreign key constraint''"

definition int4_params :: "ProjectCols \<Rightarrow> bool" where
  "int4_params c \<longleftrightarrow> int4 (pc_SLANotifyBeforeDays c) \<and> list_all (\<lambda>x. case x of None \<Rightarrow> True | Some n \<Rightarrow> int4 n)
     [pc_SLACriticalDays c, pc_SLAHighDays c, pc_SLAMediumDays c, pc_SLALowDays c]"

definition ErrRange :: err where "ErrRange = Err ''out of range for int4''"

text \<open>The constraints a row of \<open>projects\<close> is under, in the order the database looks at them; \<open>other\<close> tells
  the other rows from the row itself.\<close>

definition project_constraints ::
  "DB \<Rightarrow> (uuid \<Rightarrow> bool) \<Rightarrow> uuid \<Rightarrow> string \<Rightarrow> uuid option \<Rightarrow> ProjectCols \<Rightarrow> err option" where
  "project_constraints d other i name owner c =
     (if pc_Visibility c \<notin> {''private'', ''team'', ''workspace''} \<or>
        pc_SourceKind c \<notin> {ProjectSourceManual, ProjectSourceGit, ProjectSourceSarif, ProjectSourceWebhook}
      then Some ErrCheck
      else if (\<exists>(j, n) \<in> set (tb_projects d). other j \<and> (j = i \<or> n = name)) \<or>
        (\<exists>(j, c') \<in> set (tb_project_cols d). other j \<and> pc_Slug c' = pc_Slug c)
      then Some ErrUnique
      else if (case owner of None \<Rightarrow> False | Some u \<Rightarrow> u \<notin> u_ID ` set (tb_users d)) \<or>
        (case pc_TeamID c of None \<Rightarrow> False | Some t \<Rightarrow> t \<notin> tm_ID ` set (tb_teams d))
      then Some ErrForeign else None)"

definition without_key :: "'k \<Rightarrow> ('k \<times> 'v) list \<Rightarrow> ('k \<times> 'v) list" where
  "without_key k = filter (\<lambda>(j, _). j \<noteq> k)"

text \<open>The column \<open>created_by\<close>, NULL when it has no entry.\<close>

definition set_owner :: "uuid \<Rightarrow> uuid option \<Rightarrow> DB \<Rightarrow> DB" where
  "set_owner i owner d = d\<lparr>tb_project_owner := (case owner of None \<Rightarrow> [] | Some u \<Rightarrow> [(i, u)]) @ without_key i (tb_project_owner d)\<rparr>"

definition insert_project :: "Lib \<Rightarrow> Project \<Rightarrow> DB \<Rightarrow> err + DB" where
  "insert_project L p d =
     (if \<not> int4_params (project_cols L p) then Inl ErrRange
      else case project_constraints d (\<lambda>_. True) (p_ID p) (p_Name p) (uuidOrNil (p_CreatedBy p)) (project_cols L p) of
        Some e \<Rightarrow> Inl e
      | None \<Rightarrow> Inr (set_owner (p_ID p) (uuidOrNil (p_CreatedBy p))
          (d\<lparr>tb_projects := tb_projects d @ [(p_ID p, p_Name p)], tb_project_cols := tb_project_cols d @ [(p_ID p, project_cols L p)]\<rparr>)))"

text \<open>The result carries the project as the function completed it.\<close>

definition ProjectsRepo_Create :: "Lib \<Rightarrow> Project \<Rightarrow> Project op" where
  "ProjectsRepo_Create L p w =
     (case create_project_defaults p w of (p, w) \<Rightarrow>
        db_exec (\<lambda>d. case insert_project L p d of Inl e \<Rightarrow> Inl e | Inr d' \<Rightarrow> Inr (p, d')) w)"

text \<open>The update leaves \<open>pinned\<close> and \<open>created_at\<close> alone; it changes nothing when there is no such row.\<close>

definition set_key :: "'k \<Rightarrow> ('v \<Rightarrow> 'v) \<Rightarrow> ('k \<times> 'v) list \<Rightarrow> ('k \<times> 'v) list" where
  "set_key k f = map (\<lambda>(j, v). (j, if j = k then f v else v))"

definition update_project :: "Lib \<Rightarrow> Project \<Rightarrow> DB \<Rightarrow> err + nat \<times> DB" where
  "update_project L p d =
     (if \<not> int4_params (project_cols L p) then Inl ErrRange
      else if p_ID p \<notin> fst ` set (tb_projects d) then Inr (0, d)
      else case project_constraints d (\<lambda>j. j \<noteq> p_ID p) (p_ID p) (p_Name p) (uuidOrNil (p_CreatedBy p)) (project_cols L p) of
        Some e \<Rightarrow> Inl e
      | None \<Rightarrow> Inr (1, set_owner (p_ID p) (uuidOrNil (p_CreatedBy p))
          (d\<lparr>tb_projects := set_key (p_ID p) (\<lambda>_. p_Name p) (tb_projects d),
             tb_project_cols := set_key (p_ID p)
               (\<lambda>c. (project_cols L p)\<lparr>pc_Pinned := pc_Pinned c, pc_CreatedAt := pc_CreatedAt c\<rparr>) (tb_project_cols d)\<rparr>)))"

definition ProjectsRepo_Update :: "Lib \<Rightarrow> Project \<Rightarrow> unit op" where
  "ProjectsRepo_Update L p w =
     (let p = project_defaults (p\<lparr>p_UpdatedAt := w_now w\<rparr>)
      in case db_exec (update_project L p) w of
        (Inl e, w) \<Rightarrow> (Inl e, w)
      | (Inr n, w) \<Rightarrow> if n = 0 then (Inl (Err ''project not found''), w) else (Inr (), w))"

section \<open>Deleting and pinning\<close>

text \<open>
  \<open>DELETE FROM raw_findings\<close>: no part of the program writes that table, so the statement changes nothing.
  Deleting findings takes their events, scores and links to scans with them; deleting the project takes its
  roles, API tokens and scans.
\<close>

definition delete_findings_of :: "uuid \<Rightarrow> DB \<Rightarrow> DB" where
  "delete_findings_of p d =
     (let gone = (\<lambda>i. \<exists>f \<in> set (tb_findings d). f_ID f = i \<and> f_ProjectID f = p)
      in d\<lparr>tb_findings := filter (\<lambda>f. f_ProjectID f \<noteq> p) (tb_findings d),
           tb_events := filter (\<lambda>e. \<not> gone (ev_FindingID e)) (tb_events d),
           tb_scores := filter (\<lambda>s. \<not> gone (fst s)) (tb_scores d),
           tb_scan_findings := filter (\<lambda>s. \<not> gone (sf_FindingID s)) (tb_scan_findings d)\<rparr>)"

definition delete_project_row :: "uuid \<Rightarrow> DB \<Rightarrow> nat \<times> DB" where
  "delete_project_row p d =
     (let scans = (\<lambda>i. \<exists>s \<in> set (tb_scans d). sc_ID s = i \<and> sc_ProjectID s = p)
      in (length (filter (\<lambda>(i, _). i = p) (tb_projects d)),
          d\<lparr>tb_projects := without_key p (tb_projects d), tb_project_owner := without_key p (tb_project_owner d),
            tb_project_cols := without_key p (tb_project_cols d),
            tb_roles := filter (\<lambda>r. upr_ProjectID r \<noteq> p) (tb_roles d),
            tb_tokens := filter (\<lambda>t. t_ProjectID t \<noteq> p) (tb_tokens d),
            tb_scans := filter (\<lambda>s. sc_ProjectID s \<noteq> p) (tb_scans d),
            tb_scan_findings := filter (\<lambda>s. \<not> scans (sf_ScanID s)) (tb_scan_findings d)\<rparr>))"

definition ProjectsRepo_Delete :: "uuid \<Rightarrow> unit op" where
  "ProjectsRepo_Delete p = in_tx (op_bind (db_exec (\<lambda>d. Inr ((), d))) (\<lambda>_.
     op_bind (db_exec (\<lambda>d. Inr ((), delete_findings_of p d))) (\<lambda>_.
     op_bind (db_exec (\<lambda>d. Inr (delete_project_row p d))) (\<lambda>n.
     if n = 0 then op_fail (Err ''project not found'') else op_return ()))))"

definition SetPinned :: "uuid \<Rightarrow> bool \<Rightarrow> unit op" where
  "SetPinned p pinned w =
     (case db_exec (\<lambda>d. Inr (length (filter (\<lambda>(i, _). i = p) (tb_projects d)),
          d\<lparr>tb_project_cols := set_key p (\<lambda>c. c\<lparr>pc_Pinned := pinned, pc_UpdatedAt := w_now w\<rparr>) (tb_project_cols d)\<rparr>)) w of
        (Inl e, w) \<Rightarrow> (Inl e, w)
      | (Inr n, w) \<Rightarrow> if n = 0 then (Inl (Err ''project not found''), w) else (Inr (), w))"

end
