(* ===== verification/ProjectsList.thy ===== *)
theory ProjectsList
  imports Projects
begin

text \<open>
  Reading projects (\<open>internal/storage/projects_repo.go\<close>): one project with its owner, team and counts of findings,
  the listing with filters, orders and cursor, the trend and the quick peek. Days are those of UTC.
\<close>

section \<open>One project\<close>

text \<open>The parts of a row put together again.\<close>

type_synonym ProjectRow = "uuid \<times> string \<times> uuid option \<times> ProjectCols"

definition project_rows :: "DB \<Rightarrow> ProjectRow list" where
  "project_rows d = List.map_filter (\<lambda>(i, name). map_option (\<lambda>c. (i, name, map_of (tb_project_owner d) i, c))
     (map_of (tb_project_cols d) i)) (tb_projects d)"

definition open_finding :: "Finding \<Rightarrow> bool" where
  "open_finding f \<longleftrightarrow> f_Status f \<in> {0, 1, 4}"

definition sla_breached :: "time \<Rightarrow> Finding \<Rightarrow> bool" where
  "sla_breached now f \<longleftrightarrow> open_finding f \<and> f_Severity f \<ge> 3 \<and> now - f_FirstSeen f > 7 * 24 * time_Hour"

definition project_findings :: "DB \<Rightarrow> uuid \<Rightarrow> Finding list" where
  "project_findings d i = filter (\<lambda>f. f_ProjectID f = i) (tb_findings d)"

definition open_with_severity :: "DB \<Rightarrow> uuid \<Rightarrow> int \<Rightarrow> nat" where
  "open_with_severity d i sev = length (filter (\<lambda>f. open_finding f \<and> f_Severity f = sev) (project_findings d i))"

definition severity_counts :: "DB \<Rightarrow> uuid \<Rightarrow> ProjectFindingsBySeverity" where
  "severity_counts d i = \<lparr>sev_Critical = open_with_severity d i 4, sev_High = open_with_severity d i 3,
     sev_Medium = open_with_severity d i 2, sev_Low = open_with_severity d i 1, sev_Info = open_with_severity d i 0\<rparr>"

definition scanner_state :: "DB \<Rightarrow> uuid \<Rightarrow> int \<Rightarrow> string" where
  "scanner_state d i kind = (if list_ex (\<lambda>f. f_Kind f = kind) (project_findings d i) then ''ok'' else ''off'')"

definition project_owner_of :: "DB \<Rightarrow> uuid option \<Rightarrow> ProjectOwner" where
  "project_owner_of d owner =
     (case owner of
        None \<Rightarrow> \<lparr>ow_ID = uuid_Nil, ow_Email = [], ow_DisplayName = ''Unknown Owner''\<rparr>
      | Some i \<Rightarrow> (case find (\<lambda>u. u_ID u = i) (tb_users d) of
          None \<Rightarrow> \<lparr>ow_ID = i, ow_Email = [], ow_DisplayName = ''Unknown Owner''\<rparr>
        | Some u \<Rightarrow> \<lparr>ow_ID = i, ow_Email = u_Email u, ow_DisplayName = if u_FullName u \<noteq> [] then u_FullName u else u_Email u\<rparr>))"

definition project_team_of :: "Lib \<Rightarrow> DB \<Rightarrow> uuid option \<Rightarrow> ProjectTeam option" where
  "project_team_of L d team =
     (case team of None \<Rightarrow> None
      | Some i \<Rightarrow> map_option (\<lambda>t. \<lparr>pt_ID = uuid_String L i, pt_Name = tm_Name t\<rparr>) (find (\<lambda>t. tm_ID t = i) (tb_teams d)))"

definition or_empty :: "string option \<Rightarrow> string" where
  "or_empty v = (case v of None \<Rightarrow> [] | Some s \<Rightarrow> s)"

text \<open>The columns both queries select, and the fields both readers set.\<close>

definition scan_project :: "Lib \<Rightarrow> time \<Rightarrow> DB \<Rightarrow> ProjectRow \<Rightarrow> Project" where
  "scan_project L now d = (\<lambda>(i, name, owner, c).
     let ow = project_owner_of d owner
     in setDerivedProjectHealth
       \<lparr>p_ID = i, p_Slug = pc_Slug c, p_Name = name, p_Description = or_empty (pc_Description c), p_IconColor = pc_IconColor c,
        p_SourceKind = pc_SourceKind c, p_RepoURL = or_empty (pc_RepoURL c), p_RepoProvider = or_empty (pc_RepoProvider c),
        p_DefaultBranch = pc_DefaultBranch c, p_AutoscanOnPush = pc_AutoscanOnPush c,
        p_Tags = Some (case pc_Tags c of None \<Rightarrow> [] | Some ts \<Rightarrow> ts), p_Status = pc_Status c, p_SetupCompleted = pc_SetupCompleted c,
        p_Visibility = pc_Visibility c, p_Owner = ow, p_Team = project_team_of L d (pc_TeamID c),
        p_Pinned = pc_Pinned c, p_CreatedBy = ow_ID ow, p_FindingsBySev = severity_counts d i,
        p_SLABreached = length (filter (sla_breached now) (project_findings d i)),
        p_SLACriticalDays = pc_SLACriticalDays c, p_SLAHighDays = pc_SLAHighDays c, p_SLAMediumDays = pc_SLAMediumDays c,
        p_SLALowDays = pc_SLALowDays c, p_SLANotifyBeforeDays = pc_SLANotifyBeforeDays c,
        p_Scanners = \<lparr>scn_SAST = scanner_state d i 1, scn_DAST = scanner_state d i 2, scn_SCA = scanner_state d i 0,
          scn_Secrets = scanner_state d i 4\<rparr>,
        p_Health = [], p_CreatedAt = pc_CreatedAt c, p_UpdatedAt = pc_UpdatedAt c\<rparr>)"

definition ProjectsRepo_GetByID :: "Lib \<Rightarrow> uuid \<Rightarrow> Project op" where
  "ProjectsRepo_GetByID L i w =
     db_query_row (\<lambda>d. map_option (scan_project L (w_now w) d) (find (\<lambda>r. fst r = i) (project_rows d))) w"

section \<open>Listing\<close>

record ProjectsFilter =
  pf_AccessibleProjectIDs :: "uuid list option"
  pf_Limit :: int
  pf_Cursor :: string
  pf_Statuses :: "string list"
  pf_Team :: string
  pf_SLA :: string
  pf_Tags :: "string list"
  pf_Owner :: string
  pf_Q :: string
  pf_Sort :: string

text \<open>The conditions without the cursor, and how many arguments they bind.\<close>

definition projects_where :: "Lib \<Rightarrow> time \<Rightarrow> DB \<Rightarrow> ProjectsFilter \<Rightarrow> (ProjectRow \<Rightarrow> bool) list" where
  "projects_where L now d pf =
     (let pat = ''%'' @ strings_ToLower (strings_TrimSpace (pf_Q pf)) @ ''%'';
          like = (\<lambda>s. sql_like pat (strings_ToLower s))
      in cond_if (pf_AccessibleProjectIDs pf \<noteq> None) (\<lambda>(i, _). i \<in> set (the (pf_AccessibleProjectIDs pf))) @
         cond_if (pf_Statuses pf \<noteq> []) (\<lambda>(_, _, _, c). pc_Status c \<in> set (pf_Statuses pf)) @
         cond_if (pf_Owner pf \<noteq> []) (\<lambda>(_, _, owner, _). map_option (uuid_String L) owner = Some (pf_Owner pf)) @
         cond_if (pf_Q pf \<noteq> []) (\<lambda>(_, name, _, c). like name \<or> like (or_empty (pc_Description c)) \<or> like (or_empty (pc_RepoURL c)) \<or>
           list_ex like (case pc_Tags c of None \<Rightarrow> [] | Some ts \<Rightarrow> ts)) @
         cond_if (pf_Tags pf \<noteq> []) (\<lambda>(_, _, _, c). list_ex (\<lambda>t. t \<in> set (pf_Tags pf)) (case pc_Tags c of None \<Rightarrow> [] | Some ts \<Rightarrow> ts)) @
         cond_if (pf_Team pf \<noteq> []) (\<lambda>(_, _, _, c). map_option (uuid_String L) (pc_TeamID c) = Some (pf_Team pf)) @
         cond_if (pf_SLA pf = ''breached'') (\<lambda>(i, _). list_ex (sla_breached now) (project_findings d i)))"

definition where_args :: "ProjectsFilter \<Rightarrow> nat" where
  "where_args pf = of_bool (pf_AccessibleProjectIDs pf \<noteq> None) + of_bool (pf_Statuses pf \<noteq> []) + of_bool (pf_Owner pf \<noteq> []) +
     4 * of_bool (pf_Q pf \<noteq> []) + of_bool (pf_Tags pf \<noteq> []) + of_bool (pf_Team pf \<noteq> [])"

text \<open>The cursor \<open>pinned|id\<close>; a text of another form is ignored here.\<close>

definition projects_cursor :: "Lib \<Rightarrow> string \<Rightarrow> (bool \<times> uuid) option" where
  "projects_cursor L cursor =
     (if cursor = [] then None
      else case strings_SplitN cursor (CHR ''|'') 2 of
        [a, b] \<Rightarrow> map_option (\<lambda>i. (a = ''1'', i)) (uuid_Parse L b)
      | _ \<Rightarrow> None)"

definition after_cursor :: "(bool \<times> uuid) option \<Rightarrow> ProjectRow \<Rightarrow> bool" where
  "after_cursor cursor = (\<lambda>(i, _, _, c). case cursor of None \<Rightarrow> True | Some key \<Rightarrow> (pc_Pinned c, i) < key)"

text \<open>
  The order: pinned first, then the chosen column, then the identifier descending. The key of a row is compared
  upwards: a descending number is negated, and a project without findings comes last by scan date.
\<close>

definition last_scan :: "DB \<Rightarrow> uuid \<Rightarrow> time option" where
  "last_scan d i = (case map f_LastSeen (project_findings d i) of [] \<Rightarrow> None | t # ts \<Rightarrow> Some (fold max ts t))"

definition project_sort_column :: "Lib \<Rightarrow> DB \<Rightarrow> string \<Rightarrow> ProjectRow \<Rightarrow> string \<times> bool \<times> int" where
  "project_sort_column L d sort_by = (\<lambda>(i, name, _, c).
     if sort_by = ''name'' then (collation L name, False, 0)
     else if sort_by = ''created-at'' then ([], False, - pc_CreatedAt c)
     else if sort_by = ''updated-at'' then ([], False, - pc_UpdatedAt c)
     else if sort_by = ''scan-date'' then (case last_scan d i of None \<Rightarrow> ([], True, 0) | Some t \<Rightarrow> ([], False, - t))
     else ([], False, - int (open_with_severity d i 4)))"

definition project_order_key :: "Lib \<Rightarrow> DB \<Rightarrow> string \<Rightarrow> ProjectRow \<Rightarrow> bool \<times> (string \<times> bool \<times> int) \<times> int" where
  "project_order_key L d sort_by row = (case row of (i, _, _, c) \<Rightarrow> (\<not> pc_Pinned c, project_sort_column L d sort_by row, - uint i))"

text \<open>\<open>List\<close> does not read the columns of the SLA settings.\<close>

definition without_sla :: "Project \<Rightarrow> Project" where
  "without_sla p = p\<lparr>p_SLACriticalDays := None, p_SLAHighDays := None, p_SLAMediumDays := None, p_SLALowDays := None,
     p_SLANotifyBeforeDays := 0\<rparr>"

definition projects_limit :: "int \<Rightarrow> nat" where
  "projects_limit n = (if n \<le> 0 \<or> n > 200 then 50 else nat n)"

text \<open>The rows of the page and one more, to see whether there is another page.\<close>

definition projects_page :: "Lib \<Rightarrow> time \<Rightarrow> ProjectsFilter \<Rightarrow> DB \<Rightarrow> ProjectRow list" where
  "projects_page L now pf d = take (projects_limit (pf_Limit pf) + 1)
     (order_rows True (project_order_key L d (pf_Sort pf))
       (filter (\<lambda>r. whereClause (projects_where L now d pf) r \<and> after_cursor (projects_cursor L (pf_Cursor pf)) r) (project_rows d)))"

definition next_project_cursor :: "Lib \<Rightarrow> nat \<Rightarrow> ProjectRow list \<Rightarrow> string" where
  "next_project_cursor L n rows =
     (if length rows \<le> n \<or> n = 0 then []
      else case rows ! (n - 1) of (i, _, _, c) \<Rightarrow> (if pc_Pinned c then ''1|'' else ''0|'') @ uuid_String L i)"

text \<open>
  The count takes the arguments without the last two whenever the text of a cursor is given, although they are
  only those of the cursor when it was understood; a statement with a wrong number of arguments is refused.
\<close>

definition count_args :: "Lib \<Rightarrow> ProjectsFilter \<Rightarrow> nat" where
  "count_args L pf =
     (let n = where_args pf + (if projects_cursor L (pf_Cursor pf) = None then 0 else 2)
      in if pf_Cursor pf \<noteq> [] \<and> n \<ge> 2 then n - 2 else n)"

definition ProjectsRepo_List :: "Lib \<Rightarrow> ProjectsFilter \<Rightarrow> (Project list \<times> nat \<times> string) op" where
  "ProjectsRepo_List L pf w =
     (if pf_AccessibleProjectIDs pf = Some [] then (Inr ([], 0, []), w)
      else if count_args L pf \<noteq> where_args pf then (Inl (Err ''expected another number of arguments''), w)
      else op_bind (db_query (\<lambda>d. length (filter (whereClause (projects_where L (w_now w) d pf)) (project_rows d)))) (\<lambda>n.
        op_bind (db_query (\<lambda>d. (projects_page L (w_now w) pf d,
            map (\<lambda>r. without_sla (scan_project L (w_now w) d r)) (take (projects_limit (pf_Limit pf)) (projects_page L (w_now w) pf d)))))
          (\<lambda>(rows, projects). op_return (projects, n, next_project_cursor L (projects_limit (pf_Limit pf)) rows))) w)"

section \<open>Trend and quick peek\<close>

definition day_of :: "time \<Rightarrow> int" where
  "day_of t = t div (24 * time_Hour)"

definition day_start :: "int \<Rightarrow> time" where
  "day_start n = n * (24 * time_Hour)"

definition trend_days :: "int \<Rightarrow> nat" where
  "trend_days days = (if days \<le> 0 \<or> days > 365 then 30 else nat days)"

definition trend_point :: "DB \<Rightarrow> uuid \<Rightarrow> int \<Rightarrow> nat" where
  "trend_point d i day =
     length (filter (\<lambda>f. open_finding f \<and> f_Severity f \<ge> 3 \<and> day_of (f_LastSeen f) \<le> day) (project_findings d i))"

definition GetTrend :: "uuid \<Rightarrow> int \<Rightarrow> (time \<times> nat) list op" where
  "GetTrend i days w = db_query (\<lambda>d. map (\<lambda>k. let day = day_of (w_now w) - int (trend_days days) + 1 + int k
       in (day_start day, trend_point d i day)) [0..<trend_days days]) w"

text \<open>Rows the order leaves equal come in the order of the table.\<close>

definition priority_of :: "DB \<Rightarrow> Finding \<Rightarrow> bool \<times> real" where
  "priority_of d f = (case map_of (tb_scores d) (f_ID f) of None \<Rightarrow> (True, 0) | Some s \<Rightarrow> (False, - s))"

definition peek_findings :: "DB \<Rightarrow> uuid \<Rightarrow> QuickPeekFinding list" where
  "peek_findings d i = map (\<lambda>f. \<lparr>qf_ID = f_ID f, qf_Title = f_Title f, qf_Severity = f_Severity f, qf_Status = f_Status f\<rparr>)
     (take 5 (order_rows True (\<lambda>f. (- f_Severity f, priority_of d f, - f_LastSeen f)) (filter open_finding (project_findings d i))))"

definition peek_events :: "Lib \<Rightarrow> DB \<Rightarrow> uuid \<Rightarrow> QuickPeekEvent list" where
  "peek_events L d i = map (\<lambda>a. \<lparr>qe_ID = au_ID a, qe_Action = or_empty (au_Action a), qe_Method = au_Method a, qe_Path = au_Path a,
       qe_CreatedAt = au_CreatedAt a, qe_UserID = au_UserID a\<rparr>)
     (take 5 (order_rows True (\<lambda>a. (- au_CreatedAt a, - uint (au_ID a)))
       (filter (\<lambda>a. au_ResourceType a = Some ''project'' \<and> au_ResourceID a = Some (uuid_String L i)) (tb_audit d))))"

definition peek_stats :: "DB \<Rightarrow> uuid \<Rightarrow> QuickPeekStatusStats" where
  "peek_stats d i =
     (let count = (\<lambda>sts. length (filter (\<lambda>f. f_Status f \<in> sts) (project_findings d i)))
      in \<lparr>qs_New = count {0}, qs_Triaged = count {1}, qs_Fixed = count {3}, qs_Wontfix = count {2, 4}\<rparr>)"

definition GetQuickPeek :: "Lib \<Rightarrow> uuid \<Rightarrow> (QuickPeekFinding list \<times> QuickPeekEvent list \<times> QuickPeekStatusStats) op" where
  "GetQuickPeek L i = op_bind (db_query (\<lambda>d. peek_findings d i)) (\<lambda>fs.
     op_bind (db_query (\<lambda>d. peek_events L d i)) (\<lambda>es. op_bind (db_query (\<lambda>d. peek_stats d i)) (\<lambda>st. op_return (fs, es, st))))"

end
