(* ===== verification/ProjectsApi.thy ===== *)
theory ProjectsApi
  imports ProjectsList
begin

text \<open>
  The handlers of projects (\<open>internal/api/projects.go\<close>). A body is given as decoded, \<open>None\<close> when it does not decode;
  a query as the map of its parameters, an absent one being the empty text.
\<close>

section \<open>Lists in query parameters\<close>

definition parseCSV :: "string \<Rightarrow> string list" where
  "parseCSV v = (if strings_TrimSpace v = [] then []
     else filter (\<lambda>p. p \<noteq> []) (map strings_TrimSpace (strings_Split v (CHR '',''))))"

definition isValidProjectStatus :: "string \<Rightarrow> bool" where
  "isValidProjectStatus s \<longleftrightarrow> s \<in> {ProjectStatusActive, ProjectStatusPaused, ProjectStatusArchived}"

definition parseProjectStatuses :: "string \<Rightarrow> string list" where
  "parseProjectStatuses v = filter isValidProjectStatus (parseCSV v)"

definition isValidProjectVisibility :: "string \<Rightarrow> bool" where
  "isValidProjectVisibility v \<longleftrightarrow> v \<in> {''private'', ''team'', ''workspace''}"

text \<open>Tags that differ in case only are one; the first spelling stays.\<close>

fun dedup_tags :: "string list \<Rightarrow> string set \<Rightarrow> string list" where
  "dedup_tags [] seen = []"
| "dedup_tags (t # ts) seen =
     (let n = strings_TrimSpace t; key = strings_ToLower n
      in if n = [] \<or> key \<in> seen then dedup_tags ts seen else n # dedup_tags ts (insert key seen))"

definition normalizeProjectTags :: "string list \<Rightarrow> string list" where
  "normalizeProjectTags tags = dedup_tags tags {}"

section \<open>Requests\<close>

record projectSourceRequest =
  src_Kind :: string
  src_Provider :: string
  src_RepoURL :: string
  src_DefaultBranch :: string
  src_AutoscanOnPush :: "bool option"

datatype optionalProjectSource = SourceAbsent | SourceNull | SourceValue projectSourceRequest

text \<open>A number that may be absent, null or given.\<close>

datatype nullableIntField = IntAbsent | IntSet "int option"

record createProjectRequest =
  cp_Name :: string
  cp_Slug :: string
  cp_Description :: string
  cp_IconColor :: string
  cp_RepoURL :: string
  cp_RepoProvider :: string
  cp_Tags :: "string list option"
  cp_OwnerID :: string
  cp_TeamID :: string
  cp_TeamName :: string
  cp_Visibility :: string
  cp_CriticalDays :: "int option"
  cp_HighDays :: "int option"
  cp_MediumDays :: "int option"
  cp_LowDays :: "int option"
  cp_NotifyBeforeDays :: int
  cp_Source :: optionalProjectSource

record updateProjectSLA =
  sl_CriticalDays :: nullableIntField
  sl_HighDays :: nullableIntField
  sl_MediumDays :: nullableIntField
  sl_LowDays :: nullableIntField
  sl_NotifyBeforeDays :: "int option"

record updateProjectRequest =
  up_Name :: "string option"
  up_Slug :: "string option"
  up_Description :: "string option"
  up_IconColor :: "string option"
  up_RepoURL :: "string option"
  up_RepoProvider :: "string option"
  up_Tags :: "string list option"
  up_Status :: "string option"
  up_SetupCompleted :: "bool option"
  up_OwnerID :: "string option"
  up_TeamID :: "string option"
  up_Team :: "ProjectTeam option"
  up_Visibility :: "string option"
  up_SLA :: "updateProjectSLA option"
  up_SLACriticalDays :: nullableIntField
  up_SLAHighDays :: nullableIntField
  up_SLAMediumDays :: nullableIntField
  up_SLALowDays :: nullableIntField
  up_SLANotifyBeforeDays :: "int option"
  up_Source :: optionalProjectSource

section \<open>The source of a project\<close>

definition applyManualProjectSource :: "Project \<Rightarrow> Project" where
  "applyManualProjectSource p = p\<lparr>p_SourceKind := ProjectSourceManual, p_RepoURL := [], p_RepoProvider := [],
     p_DefaultBranch := ''main'', p_AutoscanOnPush := False\<rparr>"

definition applyProjectSource :: "Project \<Rightarrow> projectSourceRequest \<Rightarrow> string + Project" where
  "applyProjectSource p source =
     (let kind = strings_TrimSpace (src_Kind source);
          kind = (if kind \<noteq> [] then kind
            else if strings_TrimSpace (src_RepoURL source) \<noteq> [] \<or> strings_TrimSpace (src_Provider source) \<noteq> []
            then ProjectSourceGit else ProjectSourceManual)
      in if kind = ProjectSourceManual then Inr (applyManualProjectSource p)
         else if kind = ProjectSourceGit then
           (let url = strings_TrimSpace (src_RepoURL source);
                provider = strings_TrimSpace (src_Provider source);
                branch = strings_TrimSpace (src_DefaultBranch source)
            in if url = [] then Inl ''repo_url is required for git source''
               else Inr (p\<lparr>p_SourceKind := ProjectSourceGit, p_RepoURL := url,
                 p_RepoProvider := if provider = [] then ''other'' else provider,
                 p_DefaultBranch := if branch = [] then ''main'' else branch,
                 p_AutoscanOnPush := src_AutoscanOnPush source = Some True\<rparr>))
         else if kind = ProjectSourceSarif \<or> kind = ProjectSourceWebhook then
           Inr (p\<lparr>p_SourceKind := kind, p_RepoURL := [], p_RepoProvider := [], p_DefaultBranch := ''main'', p_AutoscanOnPush := False\<rparr>)
         else Inl ''invalid project source kind'')"

section \<open>The update of a project\<close>

definition applyNullableInt :: "int option \<Rightarrow> nullableIntField \<Rightarrow> int option" where
  "applyNullableInt target field = (case field of IntAbsent \<Rightarrow> target | IntSet v \<Rightarrow> v)"

definition applyProjectSLA :: "Project \<Rightarrow> updateProjectSLA \<Rightarrow> Project" where
  "applyProjectSLA p sla = p\<lparr>
     p_SLACriticalDays := applyNullableInt (p_SLACriticalDays p) (sl_CriticalDays sla),
     p_SLAHighDays := applyNullableInt (p_SLAHighDays p) (sl_HighDays sla),
     p_SLAMediumDays := applyNullableInt (p_SLAMediumDays p) (sl_MediumDays sla),
     p_SLALowDays := applyNullableInt (p_SLALowDays p) (sl_LowDays sla),
     p_SLANotifyBeforeDays := (case sl_NotifyBeforeDays sla of None \<Rightarrow> p_SLANotifyBeforeDays p | Some n \<Rightarrow> n)\<rparr>"

definition set_if :: "'a option \<Rightarrow> ('a \<Rightarrow> Project \<Rightarrow> Project) \<Rightarrow> Project \<Rightarrow> Project" where
  "set_if v f p = (case v of None \<Rightarrow> p | Some x \<Rightarrow> f x p)"

text \<open>The texts and tags, then status and visibility with their checks.\<close>

definition update_texts :: "updateProjectRequest \<Rightarrow> Project \<Rightarrow> Project" where
  "update_texts up p =
     set_if (up_Tags up) (\<lambda>ts. p_Tags_update (\<lambda>_. Some (normalizeProjectTags ts)))
    (set_if (up_IconColor up) (\<lambda>s. p_IconColor_update (\<lambda>_. strings_TrimSpace s))
    (set_if (up_Description up) (\<lambda>s. p_Description_update (\<lambda>_. strings_TrimSpace s))
    (set_if (up_Slug up) (\<lambda>s. p_Slug_update (\<lambda>_. strings_TrimSpace s))
    (set_if (up_Name up) (\<lambda>s. p_Name_update (\<lambda>_. strings_TrimSpace s)) p))))"

definition update_state :: "updateProjectRequest \<Rightarrow> Project \<Rightarrow> string + Project" where
  "update_state up p =
     (if \<not> (case up_Status up of None \<Rightarrow> True | Some s \<Rightarrow> isValidProjectStatus s) then Inl ''invalid project status''
      else let p = set_if (up_SetupCompleted up) (\<lambda>b. p_SetupCompleted_update (\<lambda>_. b))
                 (set_if (up_Status up) (\<lambda>s. p_Status_update (\<lambda>_. s)) p)
           in case up_Visibility up of
                None \<Rightarrow> Inr p
              | Some v \<Rightarrow> if isValidProjectVisibility (strings_TrimSpace v)
                  then Inr (p\<lparr>p_Visibility := strings_TrimSpace v\<rparr>) else Inl ''invalid project visibility'')"

definition update_team :: "Lib \<Rightarrow> updateProjectRequest \<Rightarrow> Project \<Rightarrow> string + Project" where
  "update_team L up p =
     (case up_TeamID up of
        Some s \<Rightarrow> let teamID = strings_TrimSpace s
          in if teamID = [] then Inr (p\<lparr>p_Team := None\<rparr>)
             else if uuid_Parse L teamID = None then Inl ''invalid team_id''
             else Inr (p\<lparr>p_Team := Some \<lparr>pt_ID = teamID, pt_Name = []\<rparr>\<rparr>)
      | None \<Rightarrow> (case up_Team up of
          None \<Rightarrow> Inr p
        | Some t \<Rightarrow> let teamID = strings_TrimSpace (pt_ID t)
            in if teamID = [] then Inr (p\<lparr>p_Team := None\<rparr>)
               else if uuid_Parse L teamID = None then Inl ''invalid team id''
               else Inr (p\<lparr>p_Team := Some \<lparr>pt_ID = teamID, pt_Name = strings_TrimSpace (pt_Name t)\<rparr>\<rparr>)))"

text \<open>The new owner, and whether it is another one.\<close>

definition update_owner :: "Lib \<Rightarrow> Project \<Rightarrow> updateProjectRequest \<Rightarrow> Project \<Rightarrow> string + Project \<times> bool" where
  "update_owner L current up p =
     (case up_OwnerID up of
        None \<Rightarrow> Inr (p, False)
      | Some s \<Rightarrow> (case uuid_Parse L (strings_TrimSpace s) of
          None \<Rightarrow> Inl ''invalid owner_id''
        | Some ownerID \<Rightarrow>
            if ownerID = uuid_Nil then Inl ''invalid owner_id''
            else let currentOwner = (if ow_ID (p_Owner current) = uuid_Nil then p_CreatedBy current else ow_ID (p_Owner current))
                 in Inr (p\<lparr>p_CreatedBy := ownerID, p_Owner := (p_Owner p)\<lparr>ow_ID := ownerID\<rparr>\<rparr>, ownerID \<noteq> currentOwner)))"

definition update_sla :: "updateProjectRequest \<Rightarrow> Project \<Rightarrow> Project" where
  "update_sla up p =
     (let p = set_if (up_SLA up) (\<lambda>sla p. applyProjectSLA p sla) p
      in p\<lparr>p_SLACriticalDays := applyNullableInt (p_SLACriticalDays p) (up_SLACriticalDays up),
           p_SLAHighDays := applyNullableInt (p_SLAHighDays p) (up_SLAHighDays up),
           p_SLAMediumDays := applyNullableInt (p_SLAMediumDays p) (up_SLAMediumDays up),
           p_SLALowDays := applyNullableInt (p_SLALowDays p) (up_SLALowDays up),
           p_SLANotifyBeforeDays := (case up_SLANotifyBeforeDays up of None \<Rightarrow> p_SLANotifyBeforeDays p | Some n \<Rightarrow> n)\<rparr>)"

definition update_source :: "updateProjectRequest \<Rightarrow> Project \<Rightarrow> string + Project" where
  "update_source up p =
     (case up_Source up of
        SourceNull \<Rightarrow> Inr (applyManualProjectSource p)
      | SourceValue v \<Rightarrow> applyProjectSource p v
      | SourceAbsent \<Rightarrow>
          (let p = set_if (up_RepoURL up) (\<lambda>s p. let p = p\<lparr>p_RepoURL := strings_TrimSpace s\<rparr>
                 in if p_RepoURL p \<noteq> [] then p\<lparr>p_SourceKind := ProjectSourceGit\<rparr>
                    else if p_SourceKind p = ProjectSourceGit then applyManualProjectSource p else p) p
           in Inr (set_if (up_RepoProvider up) (\<lambda>s. p_RepoProvider_update (\<lambda>_. strings_TrimSpace s)) p)))"

definition applyProjectUpdate :: "Lib \<Rightarrow> Project \<Rightarrow> updateProjectRequest \<Rightarrow> string + Project \<times> bool" where
  "applyProjectUpdate L current up =
     (let p = (if p_CreatedBy current = uuid_Nil then current\<lparr>p_CreatedBy := ow_ID (p_Owner current)\<rparr> else current)
      in case update_state up (update_texts up p) of
        Inl e \<Rightarrow> Inl e
      | Inr p \<Rightarrow> (case update_team L up p of
          Inl e \<Rightarrow> Inl e
        | Inr p \<Rightarrow> (case update_owner L current up p of
            Inl e \<Rightarrow> Inl e
          | Inr (p, ownerChanged) \<Rightarrow> (case update_source up (update_sla up p) of
              Inl e \<Rightarrow> Inl e
            | Inr p \<Rightarrow> Inr (p, ownerChanged)))))"

section \<open>Handlers\<close>

definition invalid :: "string \<Rightarrow> response" where
  "invalid message = respondError 400 ''VALIDATION_ERROR'' message"

definition failed_to :: "string \<Rightarrow> response" where
  "failed_to what = respondError 500 ''INTERNAL_ERROR'' (''failed to '' @ what)"

text \<open>The answer to an error of a write, by the code of the database.\<close>

definition project_write_error :: "err \<Rightarrow> string \<Rightarrow> string \<Rightarrow> response" where
  "project_write_error e foreign what =
     (if e = ErrUnique then respondError 409 ''CONFLICT'' ''project with the same name or slug already exists''
      else if e = ErrForeign then invalid foreign
      else if e = ErrCheck then invalid ''invalid project data''
      else failed_to what)"

definition created_project :: "createProjectRequest \<Rightarrow> uuid \<Rightarrow> string + Project" where
  "created_project req ownerID =
     (let p = Project_zero\<lparr>p_Name := cp_Name req, p_Slug := cp_Slug req, p_Description := cp_Description req,
            p_IconColor := cp_IconColor req, p_Tags := cp_Tags req, p_Visibility := cp_Visibility req, p_CreatedBy := ownerID,
            p_SLACriticalDays := cp_CriticalDays req, p_SLAHighDays := cp_HighDays req, p_SLAMediumDays := cp_MediumDays req,
            p_SLALowDays := cp_LowDays req, p_SLANotifyBeforeDays := cp_NotifyBeforeDays req,
            p_Team := if cp_TeamID req \<noteq> [] \<or> cp_TeamName req \<noteq> [] then Some \<lparr>pt_ID = cp_TeamID req, pt_Name = cp_TeamName req\<rparr> else None\<rparr>;
          sourced = (case cp_Source req of
              SourceNull \<Rightarrow> Inr (applyManualProjectSource p)
            | SourceValue v \<Rightarrow> applyProjectSource p v
            | SourceAbsent \<Rightarrow> if strings_TrimSpace (cp_RepoURL req) = [] then Inr p
                else applyProjectSource p \<lparr>src_Kind = ProjectSourceGit, src_Provider = cp_RepoProvider req,
                  src_RepoURL = cp_RepoURL req, src_DefaultBranch = ''main'', src_AutoscanOnPush = Some True\<rparr>)
      in case sourced of
        Inl e \<Rightarrow> Inl e
      | Inr p \<Rightarrow> (let p = p\<lparr>p_Owner := \<lparr>ow_ID = ownerID, ow_Email = [], ow_DisplayName = []\<rparr>\<rparr>
          in case Project_Validate (p_Name p) of Some e \<Rightarrow> Inl e | None \<Rightarrow> Inr p))"

text \<open>An operation whose failure is reported under a name of its own.\<close>

definition renamed :: "err \<Rightarrow> 'a op \<Rightarrow> 'a op" where
  "renamed e m w = (case m w of (Inl _, w) \<Rightarrow> (Inl e, w) | (Inr x, w) \<Rightarrow> (Inr x, w))"

text \<open>What the transaction of the creation does: the row, the role of the creator, that of another owner.\<close>

definition store_project :: "Lib \<Rightarrow> User \<Rightarrow> Project \<Rightarrow> Project op" where
  "store_project L user p =
     op_bind (ProjectsRepo_Create L p) (\<lambda>p.
     op_bind (renamed (Err ''grant project role'') (Grant (u_ID user) (p_ID p) RoleProjectAdmin (Some (u_ID user)))) (\<lambda>_.
     op_bind (if p_CreatedBy p = u_ID user then op_return () else renamed (Err ''grant project owner role'')
       (Grant (p_CreatedBy p) (p_ID p) RoleProjectAdmin (Some (u_ID user)))) (\<lambda>_. op_return p)))"

definition grant_failure :: "err \<Rightarrow> response option" where
  "grant_failure e = (if e = Err ''grant project role'' then Some (failed_to ''grant project role'')
     else if e = Err ''grant project owner role'' then Some (failed_to ''grant project owner role'') else None)"

definition handleCreateProject :: "Lib \<Rightarrow> createProjectRequest option \<Rightarrow> handler" where
  "handleCreateProject L body rq w =
     (case body of
        None \<Rightarrow> (invalid ''invalid request body'', w)
      | Some req \<Rightarrow> (case rq_User rq of
          None \<Rightarrow> (Panic, w)
        | Some user \<Rightarrow>
            (case (if cp_OwnerID req = [] then Some (u_ID user) else uuid_Parse L (cp_OwnerID req)) of
               None \<Rightarrow> (invalid ''invalid owner_id'', w)
             | Some ownerID \<Rightarrow>
                 (case created_project req ownerID of
                    Inl e \<Rightarrow> (invalid e, w)
                  | Inr p \<Rightarrow>
                      (case in_tx (store_project L user p) w of
                         (Inr p, w) \<Rightarrow> (Response 201 (ProjectData p), w)
                       | (Inl e, w) \<Rightarrow> ((case grant_failure e of Some r \<Rightarrow> r
                           | None \<Rightarrow> project_write_error e ''selected team does not exist'' ''create project''), w))))))"

definition handleGetProject :: "Lib \<Rightarrow> handler" where
  "handleGetProject L rq w =
     (case rq_Param rq ''id'' of
        None \<Rightarrow> (invalid ''invalid project id'', w)
      | Some i \<Rightarrow> (case ProjectsRepo_GetByID L i w of
          (Inl _, w) \<Rightarrow> (respondError 404 ''NOT_FOUND'' ''project not found'', w)
        | (Inr p, w) \<Rightarrow> (Response 200 (ProjectData p), w)))"

definition update_stored :: "Lib \<Rightarrow> User \<Rightarrow> Project \<Rightarrow> bool \<Rightarrow> unit op" where
  "update_stored L user p ownerChanged =
     op_bind (ProjectsRepo_Update L p) (\<lambda>_. if \<not> ownerChanged then op_return ()
       else renamed (Err ''grant project owner role'') (Grant (p_CreatedBy p) (p_ID p) RoleProjectAdmin (Some (u_ID user))))"

definition handleUpdateProject :: "Lib \<Rightarrow> updateProjectRequest option \<Rightarrow> handler" where
  "handleUpdateProject L body rq w =
     (case rq_Param rq ''id'' of
        None \<Rightarrow> (invalid ''invalid project id'', w)
      | Some i \<Rightarrow> (case body of
          None \<Rightarrow> (invalid ''invalid request body'', w)
        | Some req \<Rightarrow> (case ProjectsRepo_GetByID L i w of
            (Inl _, w) \<Rightarrow> (respondError 404 ''NOT_FOUND'' ''project not found'', w)
          | (Inr current, w) \<Rightarrow> (case applyProjectUpdate L current req of
              Inl e \<Rightarrow> (invalid e, w)
            | Inr (p, ownerChanged) \<Rightarrow> (case rq_User rq of
                None \<Rightarrow> (respondError 401 ''AUTHENTICATION_REQUIRED'' ''authentication required'', w)
              | Some user \<Rightarrow>
                  if ownerChanged \<and> \<not> User_IsAdmin user \<and> ow_ID (p_Owner current) \<noteq> u_ID user
                  then (respondError 403 ''PROJECT_OWNER_REQUIRED'' ''project owner or admin required to change owner'', w)
                  else (case Project_Validate (p_Name p) of
                    Some e \<Rightarrow> (invalid e, w)
                  | None \<Rightarrow> (case in_tx (update_stored L user (p\<lparr>p_ID := i\<rparr>) ownerChanged) w of
                      (Inl e, w) \<Rightarrow> ((case grant_failure e of Some r \<Rightarrow> r
                          | None \<Rightarrow> project_write_error e ''selected related entity does not exist'' ''update project''), w)
                    | (Inr _, w) \<Rightarrow> (case ProjectsRepo_GetByID L i w of
                        (Inl _, w) \<Rightarrow> (failed_to ''load updated project'', w)
                      | (Inr p, w) \<Rightarrow> (Response 200 (ProjectData p), w)))))))))"

definition handleDeleteProject :: handler where
  "handleDeleteProject rq w =
     (case rq_Param rq ''id'' of
        None \<Rightarrow> (invalid ''invalid project id'', w)
      | Some i \<Rightarrow> (case ProjectsRepo_Delete i w of
          (Inl _, w) \<Rightarrow> (respondError 404 ''NOT_FOUND'' ''project not found'', w)
        | (Inr _, w) \<Rightarrow> (Response 204 NoBody, w)))"

definition handlePatchProjectPinned :: "bool option \<Rightarrow> handler" where
  "handlePatchProjectPinned body rq w =
     (case rq_Param rq ''id'' of
        None \<Rightarrow> (invalid ''invalid project id'', w)
      | Some i \<Rightarrow> (case body of
          None \<Rightarrow> (invalid ''invalid request body'', w)
        | Some pinned \<Rightarrow> (case SetPinned i pinned w of
            (Inl _, w) \<Rightarrow> (respondError 404 ''NOT_FOUND'' ''project not found'', w)
          | (Inr _, w) \<Rightarrow> (Response 200 (PinnedData i pinned), w))))"

text \<open>The number of days in the answer is the one asked for, also when the trend was computed for another.\<close>

definition int_param :: "string \<Rightarrow> int \<Rightarrow> int" where
  "int_param v fallback = (if v = [] then fallback else case strconv_Atoi v of None \<Rightarrow> fallback | Some n \<Rightarrow> n)"

definition handleGetProjectTrend :: "(string \<Rightarrow> string) \<Rightarrow> handler" where
  "handleGetProjectTrend query rq w =
     (case rq_Param rq ''id'' of
        None \<Rightarrow> (invalid ''invalid project id'', w)
      | Some i \<Rightarrow> let days = int_param (strings_TrimSpace (query ''days'')) 30
          in (case GetTrend i days w of
            (Inl _, w) \<Rightarrow> (failed_to ''load trend'', w)
          | (Inr points, w) \<Rightarrow> (Response 200 (TrendData points days), w)))"

definition handleGetProjectQuickPeek :: "Lib \<Rightarrow> handler" where
  "handleGetProjectQuickPeek L rq w =
     (case rq_Param rq ''id'' of
        None \<Rightarrow> (invalid ''invalid project id'', w)
      | Some i \<Rightarrow> (case GetQuickPeek L i w of
          (Inl _, w) \<Rightarrow> (failed_to ''load quick peek'', w)
        | (Inr (fs, es, st), w) \<Rightarrow> (Response 200 (QuickPeekData fs es st), w)))"

definition projects_filter :: "(string \<Rightarrow> string) \<Rightarrow> uuid list option \<Rightarrow> ProjectsFilter" where
  "projects_filter query accessible =
     (let trimmed = (\<lambda>k. strings_TrimSpace (query k))
      in \<lparr>pf_AccessibleProjectIDs = accessible, pf_Limit = int_param (query ''limit'') 50, pf_Cursor = trimmed ''cursor'',
          pf_Statuses = parseProjectStatuses (query ''status''), pf_Team = trimmed ''team'', pf_SLA = trimmed ''sla'',
          pf_Tags = parseCSV (query ''tag''), pf_Owner = trimmed ''owner'', pf_Q = trimmed ''q'', pf_Sort = trimmed ''sort''\<rparr>)"

definition list_projects :: "Lib \<Rightarrow> ProjectsFilter \<Rightarrow> World \<Rightarrow> response \<times> World" where
  "list_projects L pf w = (case ProjectsRepo_List L pf w of
     (Inl _, w) \<Rightarrow> (failed_to ''list projects'', w)
   | (Inr (projects, n, cursor), w) \<Rightarrow> (Response 200 (ProjectsData projects n cursor), w))"

definition handleListProjects :: "Lib \<Rightarrow> (string \<Rightarrow> string) \<Rightarrow> handler" where
  "handleListProjects L query rq w =
     (case rq_User rq of
        None \<Rightarrow> (Panic, w)
      | Some user \<Rightarrow>
          if User_IsAdmin user then list_projects L (projects_filter query None) w
          else (case ListProjectIDsForUser (u_ID user) w of
            (Inl _, w) \<Rightarrow> (failed_to ''list projects'', w)
          | (Inr ids, w) \<Rightarrow>
              if ids = [] then (Response 200 (ProjectsData [] 0 []), w)
              else list_projects L (projects_filter query (Some ids)) w))"

section \<open>Routes\<close>

definition project_route :: "int \<Rightarrow> handler \<Rightarrow> handler" where
  "project_route minRole h = protected (RequireProjectRole minRole (ProjectIDFromURL ''id'') h)"

definition delete_project_route :: handler where
  "delete_project_route = protected (RequireProjectOwnerOrGlobalAdmin (ProjectIDFromURL ''id'') handleDeleteProject)"

end
