(* ===== verification/ProjectsCorrect.thy ===== *)
theory ProjectsCorrect
  imports ProjectsApi Members
begin

text \<open>
  What holds of writing projects: creation as a whole or not at all, what an update may change, and who may change
  the owner.
\<close>

section \<open>Sequences of operations\<close>

lemma db_query_both: "db_query q w = (Inr x, w') \<Longrightarrow> x = q (w_db w) \<and> w_db w' = w_db w"
  using db_query_Inr db_query_db by metis

lemma op_bind_Inr:
  assumes "op_bind m k w = (Inr y, w')"
  obtains x w1 where "m w = (Inr x, w1)" "k x w1 = (Inr y, w')"
  using assms by (auto simp: op_bind_def split: prod.splits sum.splits)

lemma op_bind_Inl:
  assumes "op_bind m k w = (Inl e, w')"
  obtains "m w = (Inl e, w')" | x w1 where "m w = (Inr x, w1)" "k x w1 = (Inl e, w')"
  using assms by (auto simp: op_bind_def split: prod.splits sum.splits)

lemma renamed_Inr: "renamed e m w = (Inr x, w') \<Longrightarrow> m w = (Inr x, w')"
  by (auto simp: renamed_def split: prod.splits sum.splits)

section \<open>Roles\<close>

lemma role_in_grant:
  "role_in (grant_role u p role by now d) v q = (if v = u \<and> q = p then Some role else role_in d v q)"
proof -
  have same: "find (role_row v q) (map (\<lambda>r. if role_row u p r then r\<lparr>upr_Role := role, upr_GrantedBy := by, upr_GrantedAt := now\<rparr> else r) rs) =
      map_option (\<lambda>r. if role_row u p r then r\<lparr>upr_Role := role, upr_GrantedBy := by, upr_GrantedAt := now\<rparr> else r) (find (role_row v q) rs)" for rs
    by (induction rs) (auto simp: role_row_def)
  have absent: "find (role_row v q) (rs @ [x]) = (case find (role_row v q) rs of None \<Rightarrow> if role_row v q x then Some x else None | Some r \<Rightarrow> Some r)" for rs x
    by (induction rs) auto
  have other: "find (role_row v q) rs = Some r \<Longrightarrow> role_row v q r" for rs r by (auto simp: find_Some_iff)
  show ?thesis
  proof (cases "list_ex (role_row u p) (tb_roles d)")
    case True
    then have some: "find (role_row u p) (tb_roles d) \<noteq> None" by (auto simp: list_ex_iff find_None_iff)
    have "role_in (grant_role u p role by now d) v q = map_option upr_Role (map_option (\<lambda>r. if role_row u p r
        then r\<lparr>upr_Role := role, upr_GrantedBy := by, upr_GrantedAt := now\<rparr> else r) (find (role_row v q) (tb_roles d)))"
      unfolding same[symmetric] using True by (simp add: grant_role_def role_in_def)
    also have "\<dots> = (if v = u \<and> q = p then Some role else role_in d v q)"
      using some other[of "tb_roles d"] by (cases "find (role_row v q) (tb_roles d)") (auto simp: role_in_def role_row_def)
    finally show ?thesis .
  next
    case False
    then have "find (role_row u p) (tb_roles d) = None" by (auto simp: find_None_iff list_ex_iff)
    then show ?thesis using False
      by (auto simp: grant_role_def role_in_def absent list_ex_iff role_row_def split: option.splits)
  qed
qed

lemma grant_role_tables [simp]:
  "tb_projects (grant_role u p role by now d) = tb_projects d" "tb_findings (grant_role u p role by now d) = tb_findings d"
  "tb_project_cols (grant_role u p role by now d) = tb_project_cols d" "tb_project_owner (grant_role u p role by now d) = tb_project_owner d"
  "tb_users (grant_role u p role by now d) = tb_users d" "tb_teams (grant_role u p role by now d) = tb_teams d"
  by (simp_all add: grant_role_def)

lemma grant_role_eq: "grant_role u p role by now d = d\<lparr>tb_roles := tb_roles (grant_role u p role by now d)\<rparr>"
  by (simp add: grant_role_def)

lemma Grant_admin_Inr:
  "Grant u p RoleProjectAdmin by w = (Inr x, w') \<Longrightarrow> w_db w' = grant_role u p RoleProjectAdmin by (w_now w) (w_db w)"
  by (auto simp: Grant_def projectRoleToDB_def dest!: db_exec_Inr split: if_splits)

section \<open>Creation\<close>

lemma project_defaults_fields [simp]:
  "p_Name (project_defaults p) = p_Name p" "p_ID (project_defaults p) = p_ID p" "p_CreatedBy (project_defaults p) = p_CreatedBy p"
  "p_UpdatedAt (project_defaults p) = p_UpdatedAt p" "p_Pinned (project_defaults p) = p_Pinned p"
  by (simp_all add: project_defaults_def Let_def if_distrib[of p_Name] if_distrib[of p_ID] if_distrib[of p_CreatedBy]
      if_distrib[of p_UpdatedAt] if_distrib[of p_Pinned])

lemma create_defaults_project:
  "create_project_defaults p w = (q, w1) \<Longrightarrow> p_Name q = p_Name p \<and> p_CreatedBy q = p_CreatedBy p \<and> w_db w1 = w_db w"
  by (auto simp: create_project_defaults_def uuid_New_def Let_def split: if_splits)

lemma ProjectsRepo_Create_Inr:
  assumes "ProjectsRepo_Create L p w = (Inr q, w')"
  shows "insert_project L q (w_db w) = Inr (w_db w') \<and> p_Name q = p_Name p \<and> p_CreatedBy q = p_CreatedBy p"
proof -
  obtain q' w1 where c: "create_project_defaults p w = (q', w1)" by fastforce
  have "w_db w1 = w_db w" using create_defaults_project[OF c] by simp
  then show ?thesis using assms c create_defaults_project[OF c]
    by (auto simp: ProjectsRepo_Create_def dest!: db_exec_Inr split: sum.splits)
qed

definition project_tables_aside :: "DB \<Rightarrow> DB" where
  "project_tables_aside d = d\<lparr>tb_projects := [], tb_project_cols := [], tb_project_owner := [], tb_roles := []\<rparr>"

lemma project_tables_aside_grant [simp]:
  "project_tables_aside (grant_role u p role b n d) = project_tables_aside d"
  by (simp add: project_tables_aside_def grant_role_def)

lemma insert_project_Inr:
  assumes "insert_project L q d = Inr d'"
  shows "p_ID q \<notin> fst ` set (tb_projects d) \<and> p_Name q \<notin> snd ` set (tb_projects d) \<and> p_Slug q \<notin> (pc_Slug \<circ> snd) ` set (tb_project_cols d) \<and>
    tb_projects d' = tb_projects d @ [(p_ID q, p_Name q)] \<and> tb_project_cols d' = tb_project_cols d @ [(p_ID q, project_cols L q)] \<and>
    tb_roles d' = tb_roles d \<and> project_owner (p_ID q) d' = Some (p_CreatedBy q) \<and>
    project_tables_aside d' = project_tables_aside d"
proof -
  have none: "int4_params (project_cols L q)" "project_constraints d (\<lambda>_. True) (p_ID q) (p_Name q) (uuidOrNil (p_CreatedBy q)) (project_cols L q) = None"
    and d': "d' = set_owner (p_ID q) (uuidOrNil (p_CreatedBy q))
      (d\<lparr>tb_projects := tb_projects d @ [(p_ID q, p_Name q)], tb_project_cols := tb_project_cols d @ [(p_ID q, project_cols L q)]\<rparr>)"
    using assms by (auto simp: insert_project_def split: option.splits if_splits)
  have "p_ID q \<notin> fst ` set (tb_projects d)" "p_Name q \<notin> snd ` set (tb_projects d)" "p_Slug q \<notin> (pc_Slug \<circ> snd) ` set (tb_project_cols d)"
    using none(2) by (auto simp: project_constraints_def project_cols_def split: if_splits)
  moreover have "map_of (without_key k xs) k = None" for k and xs :: "(uuid \<times> uuid) list"
    by (auto simp: without_key_def map_of_eq_None_iff)
  ultimately show ?thesis
    by (auto simp: d' set_owner_def project_owner_def uuidOrNil_def project_tables_aside_def)
qed


lemma store_project_Inr:
  assumes "store_project L user p w = (Inr q, w')"
  obtains b1 n1 b2 n2 d where "insert_project L q (w_db w) = Inr d" "p_Name q = p_Name p" "p_CreatedBy q = p_CreatedBy p"
    "w_db w' = (if p_CreatedBy p = u_ID user then grant_role (u_ID user) (p_ID q) RoleProjectAdmin b1 n1 d
      else grant_role (p_CreatedBy p) (p_ID q) RoleProjectAdmin b2 n2 (grant_role (u_ID user) (p_ID q) RoleProjectAdmin b1 n1 d))"
proof -
  obtain q' w1 where c: "ProjectsRepo_Create L p w = (Inr q', w1)"
    and rest: "op_bind (renamed (Err ''grant project role'') (Grant (u_ID user) (p_ID q') RoleProjectAdmin (Some (u_ID user))))
      (\<lambda>_. op_bind (if p_CreatedBy q' = u_ID user then op_return () else renamed (Err ''grant project owner role'')
        (Grant (p_CreatedBy q') (p_ID q') RoleProjectAdmin (Some (u_ID user)))) (\<lambda>_. op_return q')) w1 = (Inr q, w')"
    using assms unfolding store_project_def by (rule op_bind_Inr)
  from rest obtain x w2 where g: "renamed (Err ''grant project role'') (Grant (u_ID user) (p_ID q') RoleProjectAdmin (Some (u_ID user))) w1 = (Inr x, w2)"
    and rest: "op_bind (if p_CreatedBy q' = u_ID user then op_return () else renamed (Err ''grant project owner role'')
        (Grant (p_CreatedBy q') (p_ID q') RoleProjectAdmin (Some (u_ID user)))) (\<lambda>_. op_return q') w2 = (Inr q, w')"
    by (rule op_bind_Inr)
  note g = Grant_admin_Inr[OF renamed_Inr[OF g]]
  from rest have q: "q = q'" and own: "if p_CreatedBy q' = u_ID user then w_db w' = w_db w2
      else w_db w' = grant_role (p_CreatedBy q') (p_ID q') RoleProjectAdmin (Some (u_ID user)) (w_now w2) (w_db w2)"
    by (auto simp: op_return_def elim!: op_bind_Inr dest!: renamed_Inr Grant_admin_Inr[simplified] split: if_splits)
  from that ProjectsRepo_Create_Inr[OF c] g own q show thesis by (metis (no_types, lifting))
qed


text \<open>A user who creates the first project, named after its repository, and owns it.\<close>

definition demo_lib :: Lib where
  "demo_lib = \<lparr>uuid_Parse = (\<lambda>s. if s = [] then None else Some (word_of_nat (length s - 1))),
     uuid_String = (\<lambda>u. CHR ''u'' # replicate (unat u) (CHR ''-'')), collation = id\<rparr>"

lemma demo_lib_good: "good_lib demo_lib"
  by (simp add: good_lib_def demo_lib_def)

definition demo_create :: createProjectRequest where
  "demo_create = \<lparr>cp_Name = ''Web'', cp_Slug = [], cp_Description = [], cp_IconColor = [], cp_RepoURL = [], cp_RepoProvider = [],
     cp_Tags = None, cp_OwnerID = [], cp_TeamID = [], cp_TeamName = [], cp_Visibility = [], cp_CriticalDays = None, cp_HighDays = None,
     cp_MediumDays = None, cp_LowDays = None, cp_NotifyBeforeDays = 3, cp_Source = SourceAbsent\<rparr>"

definition demo_creator :: User where
  "demo_creator = User_zero\<lparr>u_ID := 7\<rparr>"

definition demo_project_request :: Request where
  "demo_project_request = \<lparr>rq_User = Some demo_creator, rq_Token = None, rq_Session = None, rq_Param = (\<lambda>_. Some 1000), rq_TokenInvalid = False\<rparr>"

definition demo_project_world :: World where
  "demo_project_world = World_start (DB_empty\<lparr>tb_users := [demo_creator]\<rparr>) 5"

lemma demo_slug: "slugifyProjectName ''Web'' = ''web''"
  by code_simp

lemma demo_created: "\<exists>p w'. handleCreateProject demo_lib (Some demo_create) demo_project_request demo_project_world = (Response 201 (ProjectData p), w')"
  by (simp add: handleCreateProject_def created_project_def demo_create_def demo_project_request_def demo_creator_def demo_project_world_def
      Project_zero_def Project_Validate_def in_tx_def store_project_def op_bind_def op_return_def renamed_def ProjectsRepo_Create_def
      create_project_defaults_def project_defaults_def uuid_New_def Let_def insert_project_def project_constraints_def project_cols_def
      int4_params_def int4_def Grant_def projectRoleToDB_def World_start_def DB_empty_def demo_slug set_owner_def without_key_def
      team_param_def uuidOrNil_def ProjectSourceManual_def ProjectStatusActive_def)


section \<open>Update\<close>

lemma map_of_set_key: "map_of (set_key k f xs) j = (if j = k then map_option f (map_of xs k) else map_of xs j)"
  by (induction xs) (auto simp: set_key_def)

lemma keys_set_key [simp]: "fst ` set (set_key k f xs) = fst ` set xs"
  by (force simp: set_key_def image_iff)

lemma map_of_without_key: "map_of (without_key k xs) j = (if j = k then None else map_of xs j)"
  by (induction xs) (auto simp: without_key_def)

text \<open>What every stage of an update leaves alone.\<close>

lemma set_if_owner: "(\<And>x p. p_CreatedBy (f x p) = p_CreatedBy p) \<Longrightarrow> p_CreatedBy (set_if v f p) = p_CreatedBy p"
  by (simp add: set_if_def split: option.splits)

lemma update_stages_owner:
  "p_CreatedBy (update_texts up p) = p_CreatedBy p" "p_CreatedBy (update_sla up p) = p_CreatedBy p"
  "update_state up p = Inr q \<Longrightarrow> p_CreatedBy q = p_CreatedBy p" "update_team L up p = Inr q \<Longrightarrow> p_CreatedBy q = p_CreatedBy p"
  "applyProjectSource p v = Inr q \<Longrightarrow> p_CreatedBy q = p_CreatedBy p" "p_CreatedBy (applyManualProjectSource p) = p_CreatedBy p"
  by (auto simp: update_texts_def set_if_owner update_sla_def applyProjectSLA_def update_state_def update_team_def applyProjectSource_def
      applyManualProjectSource_def Let_def split: if_splits option.splits)

lemma update_source_owner: "update_source up p = Inr q \<Longrightarrow> p_CreatedBy q = p_CreatedBy p"
  by (auto simp: update_source_def set_if_def applyManualProjectSource_def Let_def dest: update_stages_owner(5)
      split: optionalProjectSource.splits option.splits if_splits)

lemma applyProjectUpdate_owner:
  assumes "applyProjectUpdate L current up = Inr (p, changed)" "p_CreatedBy current = ow_ID (p_Owner current)" "\<not> changed"
  shows "p_CreatedBy p = p_CreatedBy current"
  using assms
  by (auto simp: applyProjectUpdate_def update_owner_def update_stages_owner Let_def
      dest!: update_source_owner update_stages_owner(3,4) split: sum.splits option.splits if_splits prod.splits)

lemma project_rows_find:
  assumes "find (\<lambda>r. fst r = i) (project_rows d) = Some (j, name, owner, c)"
  shows "j = i \<and> i \<in> fst ` set (tb_projects d) \<and> owner = map_of (tb_project_owner d) i \<and> map_of (tb_project_cols d) i = Some c"
proof -
  obtain k where k: "k < length (project_rows d)" "fst (project_rows d ! k) = i" "(j, name, owner, c) = project_rows d ! k"
    using assms unfolding find_Some_iff by blast
  have "(j, name, owner, c) \<in> set (project_rows d)" using k(1,3) nth_mem by metis
  moreover have "j = i" using k(2,3) by (metis fst_conv)
  ultimately show ?thesis by (force simp: project_rows_def List.map_filter_def)
qed

lemma scan_project_fields [simp]:
  "p_ID (scan_project L now d (i, name, owner, c)) = i" "p_Owner (scan_project L now d (i, name, owner, c)) = project_owner_of d owner"
  "p_CreatedBy (scan_project L now d (i, name, owner, c)) = ow_ID (project_owner_of d owner)"
  by (simp_all add: scan_project_def setDerivedProjectHealth_def Let_def)

lemma owner_id: "ow_ID (project_owner_of d owner) = (case owner of None \<Rightarrow> uuid_Nil | Some u \<Rightarrow> u)"
  by (auto simp: project_owner_of_def split: option.splits)

lemma GetByID_Inr:
  assumes "ProjectsRepo_GetByID L i w = (Inr p, w')"
  shows "p_ID p = i \<and> p_CreatedBy p = ow_ID (p_Owner p) \<and> project_owner i (w_db w) = Some (ow_ID (p_Owner p)) \<and> w_db w' = w_db w \<and>
    (\<exists>c. map_of (tb_project_cols (w_db w)) i = Some c)"
proof -
  obtain j name owner c where r: "find (\<lambda>r. fst r = i) (project_rows (w_db w)) = Some (j, name, owner, c)"
    and p: "p = scan_project L (w_now w) (w_db w) (j, name, owner, c)"
    using assms by (auto simp: ProjectsRepo_GetByID_def dest!: db_query_row_Inr)
  show ?thesis
    using assms project_rows_find[OF r] p
    by (auto simp: owner_id project_owner_def ProjectsRepo_GetByID_def dest: db_query_row_db)
qed

text \<open>What an update does to the tables: the rows of other projects stay, and two columns of its own.\<close>

definition project_updated :: "uuid \<Rightarrow> uuid \<Rightarrow> DB \<Rightarrow> DB \<Rightarrow> bool" where
  "project_updated i owner d d' \<longleftrightarrow>
     (\<forall>j. j \<noteq> i \<longrightarrow> map_of (tb_projects d') j = map_of (tb_projects d) j \<and> map_of (tb_project_cols d') j = map_of (tb_project_cols d) j \<and>
       project_owner j d' = project_owner j d) \<and>
     (\<forall>c c'. map_of (tb_project_cols d) i = Some c \<and> map_of (tb_project_cols d') i = Some c' \<longrightarrow>
       pc_Pinned c' = pc_Pinned c \<and> pc_CreatedAt c' = pc_CreatedAt c) \<and>
     project_owner i d' = Some owner \<and> project_tables_aside d' = project_tables_aside d"

lemma project_updated_grant [simp]:
  "project_updated i owner d (grant_role u p role b n d') = project_updated i owner d d'"
  by (simp add: project_updated_def project_owner_def)

lemma update_project_Inr:
  assumes "update_project L p d = Inr (n, d')" "n \<noteq> 0"
  shows "project_updated (p_ID p) (p_CreatedBy p) d d' \<and> tb_roles d' = tb_roles d"
proof -
  have there: "p_ID p \<in> fst ` set (tb_projects d)" and d': "d' = set_owner (p_ID p) (uuidOrNil (p_CreatedBy p))
      (d\<lparr>tb_projects := set_key (p_ID p) (\<lambda>_. p_Name p) (tb_projects d),
         tb_project_cols := set_key (p_ID p) (\<lambda>c. (project_cols L p)\<lparr>pc_Pinned := pc_Pinned c, pc_CreatedAt := pc_CreatedAt c\<rparr>) (tb_project_cols d)\<rparr>)"
    using assms by (auto simp: update_project_def split: option.splits if_splits)
  show ?thesis
    using there
    by (auto simp: d' project_updated_def set_owner_def map_of_set_key map_of_without_key project_owner_def project_tables_aside_def
        uuidOrNil_def split: option.splits)
qed

lemma update_stored_Inr:
  assumes "update_stored L user p changed w = (Inr x, w')"
  shows "project_updated (p_ID p) (p_CreatedBy p) (w_db w) (w_db w') \<and>
    (\<forall>u q. role_in (w_db w') u q = (if changed \<and> q = p_ID p \<and> u = p_CreatedBy p then Some RoleProjectAdmin else role_in (w_db w) u q))"
proof -
  obtain y w1 where up: "ProjectsRepo_Update L p w = (Inr y, w1)" and rest: "(if \<not> changed then op_return ()
      else renamed (Err ''grant project owner role'') (Grant (p_CreatedBy p) (p_ID p) RoleProjectAdmin (Some (u_ID user)))) w1 = (Inr x, w')"
    using assms unfolding update_stored_def by (rule op_bind_Inr)
  have "\<exists>n. n \<noteq> 0 \<and> update_project L (project_defaults (p\<lparr>p_UpdatedAt := w_now w\<rparr>)) (w_db w) = Inr (n, w_db w1)"
    using up by (auto simp: ProjectsRepo_Update_def Let_def dest!: db_exec_Inr split: prod.splits sum.splits if_splits)
  then have upd: "project_updated (p_ID p) (p_CreatedBy p) (w_db w) (w_db w1)" and r1: "tb_roles (w_db w1) = tb_roles (w_db w)"
    using update_project_Inr by fastforce+
  have r1: "role_in (w_db w1) u q = role_in (w_db w) u q" for u q using r1 by (simp add: role_in_def)
  show ?thesis
  proof (cases changed)
    case False
    then show ?thesis using rest upd r1 by (simp add: op_return_def)
  next
    case True
    then have "renamed (Err ''grant project owner role'') (Grant (p_CreatedBy p) (p_ID p) RoleProjectAdmin (Some (u_ID user))) w1 = (Inr x, w')"
      using rest by (simp only: not_True_eq_False if_False)
    note d = Grant_admin_Inr[OF renamed_Inr[OF this]]
    have "project_updated (p_ID p) (p_CreatedBy p) (w_db w) (w_db w')" using upd unfolding d project_updated_grant .
    moreover have "role_in (w_db w') u q = (if q = p_ID p \<and> u = p_CreatedBy p then Some RoleProjectAdmin else role_in (w_db w) u q)" for u q
      using role_in_grant[of "p_CreatedBy p" "p_ID p" RoleProjectAdmin "Some (u_ID user)" "w_now w1" "w_db w1" u q] r1[of u q] unfolding d by auto
    ultimately show ?thesis using True by auto
  qed
qed

interpretation project_gates: two_gates protected "\<lambda>rq d. auth_pass rq d \<and> password_pass rq d"
  "RequireProjectRole minRole (ProjectIDFromURL ''id'')" "role_pass minRole (url_project ''id'')" for minRole ..

lemma handleUpdateProject_effect:
  assumes "handleUpdateProject L body rq w = (r, w')" "w_db w' \<noteq> w_db w"
  obtains i user changed and p current :: Project where "rq_Param rq ''id'' = Some i" "rq_User rq = Some user"
    "project_owner i (w_db w) = Some (ow_ID (p_Owner current))" "changed \<longrightarrow> User_IsAdmin user \<or> ow_ID (p_Owner current) = u_ID user"
    "\<not> changed \<longrightarrow> p_CreatedBy p = ow_ID (p_Owner current)" "Project_Validate (p_Name p) = None"
    "project_updated i (p_CreatedBy p) (w_db w) (w_db w')"
    "\<forall>u q. role_in (w_db w') u q = (if changed \<and> q = i \<and> u = p_CreatedBy p then Some RoleProjectAdmin else role_in (w_db w) u q)"
proof -
  obtain i req where i: "rq_Param rq ''id'' = Some i" "body = Some req"
    using assms by (auto simp: handleUpdateProject_def split: option.splits)
  obtain g w1 where g: "ProjectsRepo_GetByID L i w = (g, w1)" by fastforce
  have g_db: "w_db w1 = w_db w" using g by (auto simp: ProjectsRepo_GetByID_def dest: db_query_row_db)
  obtain current where cur: "g = Inr current"
    using assms i g g_db by (cases g) (auto simp: handleUpdateProject_def)
  note read = GetByID_Inr[OF g[unfolded cur]]
  obtain p changed where app: "applyProjectUpdate L current req = Inr (p, changed)"
    using assms i g g_db cur by (auto simp: handleUpdateProject_def split: sum.splits)
  obtain user where user: "rq_User rq = Some user"
    using assms i g g_db cur app by (auto simp: handleUpdateProject_def split: option.splits)
  have may: "changed \<Longrightarrow> User_IsAdmin user \<or> ow_ID (p_Owner current) = u_ID user"
    using assms i g g_db cur app user by (auto simp: handleUpdateProject_def split: if_splits)
  have guard: "\<not> (changed \<and> \<not> User_IsAdmin user \<and> ow_ID (p_Owner current) \<noteq> u_ID user)" using may by blast
  have valid: "Project_Validate (p_Name p) = None"
    using assms i g g_db cur app user guard by (auto simp: handleUpdateProject_def split: option.splits)
  obtain t w2 where tx: "in_tx (update_stored L user (p\<lparr>p_ID := i\<rparr>) changed) w1 = (t, w2)" by fastforce
  have w2: "w_db w' = w_db w2"
    using assms(1) i g cur app user guard valid tx
    by (auto simp: handleUpdateProject_def ProjectsRepo_GetByID_def dest: db_query_row_db split: sum.splits prod.splits)
  obtain x where x: "t = Inr x" using assms(2) w2 g_db tx in_tx_Inl by (cases t) fastforce+
  obtain w3 w4 where tx: "db_call w1 = (True, w3)" "update_stored L user (p\<lparr>p_ID := i\<rparr>) changed w3 = (Inr x, w4)" "w_db w2 = w_db w4"
    using in_tx_Inr[OF tx[unfolded x]] by metis
  have "w_db w3 = w_db w" using db_call_db[OF tx(1)] g_db by simp
  then show thesis
    using that[of i user current changed p] i(1) user read may valid update_stored_Inr[OF tx(2)] w2 tx(3) applyProjectUpdate_owner[OF app]
    by simp
qed

text \<open>
  C8. Updating a project changes that project only: no row, owner, role or status of another project, no finding, no
  account; its pin and its date of creation stay. The user administers the project or is an administrator. The owner
  changes only when the owner or an administrator asks for it, and the only role that can change is that of the new
  owner, who becomes an administrator of the project.
\<close>

theorem project_update:
  assumes "project_route RoleProjectAdmin (handleUpdateProject L body) rq w = (r, w')" "w_db w' \<noteq> w_db w"
  shows "\<exists>i user owner. rq_Param rq ''id'' = Some i \<and> rq_User rq = Some user \<and>
    may RoleProjectAdmin user i (w_db w) \<and> project_updated i owner (w_db w) (w_db w') \<and>
    (project_owner i (w_db w) \<noteq> Some owner \<longrightarrow> User_IsAdmin user \<or> project_owner i (w_db w) = Some (u_ID user)) \<and>
    (\<forall>u q. role_in (w_db w') u q \<noteq> role_in (w_db w) u q \<longrightarrow> q = i \<and> u = owner \<and> role_in (w_db w') u q = Some RoleProjectAdmin)"
proof -
  from project_gates.both.changed_passed[OF assms(1)[unfolded project_route_def] assms(2)]
  obtain w1 where w1: "w_db w1 = w_db w" "role_pass RoleProjectAdmin (url_project ''id'') rq (w_db w)"
    "handleUpdateProject L body rq w1 = (r, w')" by blast
  have "w_db w' \<noteq> w_db w1" using assms(2) w1(1) by simp
  from handleUpdateProject_effect[OF w1(3) this, unfolded w1(1)] obtain i user changed and p current :: Project where
    e: "rq_Param rq ''id'' = Some i" "rq_User rq = Some user" "project_owner i (w_db w) = Some (ow_ID (p_Owner current))"
      "changed \<longrightarrow> User_IsAdmin user \<or> ow_ID (p_Owner current) = u_ID user" "\<not> changed \<longrightarrow> p_CreatedBy p = ow_ID (p_Owner current)"
      "Project_Validate (p_Name p) = None" "project_updated i (p_CreatedBy p) (w_db w) (w_db w')"
    and roles: "\<forall>u q. role_in (w_db w') u q = (if changed \<and> q = i \<and> u = p_CreatedBy p then Some RoleProjectAdmin else role_in (w_db w) u q)" .
  have "may RoleProjectAdmin user i (w_db w)" using w1(2) e(1,2) by (auto simp: role_pass_def url_project_def may_def)
  moreover have "\<forall>u q. role_in (w_db w') u q \<noteq> role_in (w_db w) u q \<longrightarrow> q = i \<and> u = p_CreatedBy p \<and> role_in (w_db w') u q = Some RoleProjectAdmin"
    using roles by metis
  ultimately show ?thesis using e by (intro exI[of _ i] exI[of _ user] exI[of _ "p_CreatedBy p"]) auto
qed

definition demo_cols :: ProjectCols where
  "demo_cols = \<lparr>pc_Slug = ''a'', pc_Description = None, pc_IconColor = [], pc_SourceKind = ''manual'', pc_RepoURL = None,
     pc_RepoProvider = None, pc_DefaultBranch = ''main'', pc_AutoscanOnPush = False, pc_Tags = None, pc_Status = ''active'',
     pc_SetupCompleted = True, pc_Pinned = False, pc_Visibility = ''workspace'', pc_SLACriticalDays = None, pc_SLAHighDays = None,
     pc_SLAMediumDays = None, pc_SLALowDays = None, pc_SLANotifyBeforeDays = 3, pc_TeamID = None, pc_CreatedAt = 1, pc_UpdatedAt = 1\<rparr>"

definition demo_projects_db :: DB where
  "demo_projects_db = members_db\<lparr>tb_project_owner := [(5, 7)], tb_project_cols := [(5, demo_cols)]\<rparr>"

definition empty_update :: updateProjectRequest where
  "empty_update = \<lparr>up_Name = None, up_Slug = None, up_Description = None, up_IconColor = None, up_RepoURL = None, up_RepoProvider = None,
     up_Tags = None, up_Status = None, up_SetupCompleted = None, up_OwnerID = None, up_TeamID = None, up_Team = None, up_Visibility = None,
     up_SLA = None, up_SLACriticalDays = IntAbsent, up_SLAHighDays = IntAbsent, up_SLAMediumDays = IntAbsent, up_SLALowDays = IntAbsent,
     up_SLANotifyBeforeDays = None, up_Source = SourceAbsent\<rparr>"

text \<open>The owner of project 5 hands it over to user 8.\<close>

definition demo_handover :: "response \<times> World" where
  "demo_handover = project_route RoleProjectAdmin (handleUpdateProject demo_lib (Some (empty_update\<lparr>up_OwnerID := Some ''12345678x''\<rparr>)))
     members_rq (World_start demo_projects_db 9)"

lemma demo_handover_owner: "project_owner 5 (w_db (snd demo_handover)) = Some 8" "project_owner 5 demo_projects_db = Some 7"
  by code_simp+

theorem project_update_witness:
  "project_owner 5 (w_db (snd demo_handover)) = Some 8 \<and>
   role_in (w_db (snd demo_handover)) 7 5 = role_in demo_projects_db 7 5"
proof -
  obtain r w' where run: "demo_handover = (r, w')" by fastforce
  have start: "w_db (World_start demo_projects_db 9) = demo_projects_db" by (simp add: World_start_def)
  have eight: "project_owner 5 (w_db w') = Some 8" using demo_handover_owner(1) by (simp add: run)
  have "w_db w' \<noteq> w_db (World_start demo_projects_db 9)"
  proof
    assume same: "w_db w' = w_db (World_start demo_projects_db 9)"
    show False using eight demo_handover_owner(2) unfolding same start by simp
  qed
  from project_update[OF run[unfolded demo_handover_def] this] start obtain i owner where
    i: "rq_Param members_rq ''id'' = Some i" "project_updated i owner demo_projects_db (w_db w')"
      "\<forall>u q. role_in (w_db w') u q \<noteq> role_in demo_projects_db u q \<longrightarrow> q = i \<and> u = owner" by auto
  have "i = 5" using i(1) by (simp add: members_rq_def)
  moreover have "owner = 8" using i(2) eight unfolding \<open>i = 5\<close> project_updated_def by simp
  moreover have "role_in (w_db w') 7 5 = role_in demo_projects_db 7 5" using i(3)[rule_format, of 7 5] \<open>owner = 8\<close> by auto
  ultimately show ?thesis using eight by (simp add: run)
qed

end
