(* ===== verification/ProjectsGone.thy ===== *)
theory ProjectsGone
  imports ProjectsCorrect
begin

text \<open>
  The deletion of a project: by its owner or an administrator only, as a whole or not at all, with everything that
  refers to it, and nothing else.
\<close>

text \<open>The foreign keys among the tables concerned.\<close>

definition references_ok :: "DB \<Rightarrow> bool" where
  "references_ok d \<longleftrightarrow>
     (\<forall>f \<in> set (tb_findings d). f_ProjectID f \<in> fst ` set (tb_projects d)) \<and>
     (\<forall>r \<in> set (tb_roles d). upr_ProjectID r \<in> fst ` set (tb_projects d)) \<and>
     (\<forall>t \<in> set (tb_tokens d). t_ProjectID t \<in> fst ` set (tb_projects d)) \<and>
     (\<forall>s \<in> set (tb_scans d). sc_ProjectID s \<in> fst ` set (tb_projects d)) \<and>
     (\<forall>e \<in> set (tb_events d). ev_FindingID e \<in> f_ID ` set (tb_findings d)) \<and>
     (\<forall>s \<in> set (tb_scores d). fst s \<in> f_ID ` set (tb_findings d)) \<and>
     (\<forall>l \<in> set (tb_scan_findings d). sf_FindingID l \<in> f_ID ` set (tb_findings d) \<and> sf_ScanID l \<in> sc_ID ` set (tb_scans d))"

text \<open>What is left: of each table the rows that do not belong to the project, and the tables not concerned as they were.\<close>

definition project_erased :: "uuid \<Rightarrow> DB \<Rightarrow> DB \<Rightarrow> bool" where
  "project_erased i d d' \<longleftrightarrow>
     tb_projects d' = filter (\<lambda>(j, _). j \<noteq> i) (tb_projects d) \<and>
     tb_findings d' = filter (\<lambda>f. f_ProjectID f \<noteq> i) (tb_findings d) \<and>
     tb_roles d' = filter (\<lambda>r. upr_ProjectID r \<noteq> i) (tb_roles d) \<and>
     tb_tokens d' = filter (\<lambda>t. t_ProjectID t \<noteq> i) (tb_tokens d) \<and>
     tb_scans d' = filter (\<lambda>s. sc_ProjectID s \<noteq> i) (tb_scans d) \<and>
     (\<forall>e \<in> set (tb_events d). e \<in> set (tb_events d') \<or> (\<exists>f \<in> set (tb_findings d). f_ID f = ev_FindingID e \<and> f_ProjectID f = i)) \<and>
     tb_users d' = tb_users d \<and> tb_sessions d' = tb_sessions d \<and> tb_audit d' = tb_audit d \<and> tb_reasons d' = tb_reasons d \<and>
     tb_teams d' = tb_teams d \<and> tb_saved_views d' = tb_saved_views d"

lemma erase_erased: "project_erased i d (snd (delete_project_row i (delete_findings_of i d)))"
  by (auto simp: project_erased_def delete_project_row_def delete_findings_of_def without_key_def Let_def)

lemma erase_references:
  assumes "references_ok d"
  shows "references_ok (snd (delete_project_row i (delete_findings_of i d)))"
proof -
  let ?d = "snd (delete_project_row i (delete_findings_of i d))"
  have keys: "fst ` set (tb_projects ?d) = {j \<in> fst ` set (tb_projects d). j \<noteq> i}"
    by (force simp: delete_project_row_def delete_findings_of_def without_key_def Let_def)
  have finding: "k \<in> f_ID ` set (tb_findings ?d)"
    if "k \<in> f_ID ` set (tb_findings d)" "\<nexists>f. f \<in> set (tb_findings d) \<and> f_ID f = k \<and> f_ProjectID f = i" for k
    using that by (force simp: delete_project_row_def delete_findings_of_def Let_def)
  have scan: "k \<in> sc_ID ` set (tb_scans ?d)"
    if "k \<in> sc_ID ` set (tb_scans d)" "\<nexists>s. s \<in> set (tb_scans d) \<and> sc_ID s = k \<and> sc_ProjectID s = i" for k
    using that by (force simp: delete_project_row_def delete_findings_of_def Let_def)
  note erased = erase_erased[of i d, unfolded project_erased_def]
  have parts: "set (tb_events ?d) = {e \<in> set (tb_events d). \<nexists>f. f \<in> set (tb_findings d) \<and> f_ID f = ev_FindingID e \<and> f_ProjectID f = i}"
    "set (tb_scores ?d) = {s \<in> set (tb_scores d). \<nexists>f. f \<in> set (tb_findings d) \<and> f_ID f = fst s \<and> f_ProjectID f = i}"
    "set (tb_scan_findings ?d) = {l \<in> set (tb_scan_findings d). (\<nexists>f. f \<in> set (tb_findings d) \<and> f_ID f = sf_FindingID l \<and> f_ProjectID f = i) \<and>
       (\<nexists>s. s \<in> set (tb_scans d) \<and> sc_ID s = sf_ScanID l \<and> sc_ProjectID s = i)}"
    by (auto simp: delete_project_row_def delete_findings_of_def Let_def)
  have "\<forall>f \<in> set (tb_findings ?d). f_ProjectID f \<in> fst ` set (tb_projects ?d)"
    using assms unfolding references_ok_def keys by (simp add: erased)
  moreover have "\<forall>r \<in> set (tb_roles ?d). upr_ProjectID r \<in> fst ` set (tb_projects ?d)"
    using assms unfolding references_ok_def keys by (simp add: erased)
  moreover have "\<forall>t \<in> set (tb_tokens ?d). t_ProjectID t \<in> fst ` set (tb_projects ?d)"
    using assms unfolding references_ok_def keys by (simp add: erased)
  moreover have "\<forall>s \<in> set (tb_scans ?d). sc_ProjectID s \<in> fst ` set (tb_projects ?d)"
    using assms unfolding references_ok_def keys by (simp add: erased)
  moreover have "\<forall>e \<in> set (tb_events ?d). ev_FindingID e \<in> f_ID ` set (tb_findings ?d)"
    using assms finding unfolding references_ok_def parts by blast
  moreover have "\<forall>s \<in> set (tb_scores ?d). fst s \<in> f_ID ` set (tb_findings ?d)"
    using assms finding unfolding references_ok_def parts by blast
  moreover have "\<forall>l \<in> set (tb_scan_findings ?d). sf_FindingID l \<in> f_ID ` set (tb_findings ?d) \<and> sf_ScanID l \<in> sc_ID ` set (tb_scans ?d)"
    using assms finding scan unfolding references_ok_def parts by blast
  ultimately show ?thesis unfolding references_ok_def by blast
qed

lemma ProjectsRepo_Delete_Inr:
  assumes "ProjectsRepo_Delete i w = (Inr x, w')"
  shows "i \<in> fst ` set (tb_projects (w_db w)) \<and> w_db w' = snd (delete_project_row i (delete_findings_of i (w_db w)))"
proof -
  obtain w1 w2 where w1: "db_call w = (True, w1)" and body: "op_bind (db_exec (\<lambda>d. Inr ((), d))) (\<lambda>_.
     op_bind (db_exec (\<lambda>d. Inr ((), delete_findings_of i d))) (\<lambda>_. op_bind (db_exec (\<lambda>d. Inr (delete_project_row i d))) (\<lambda>n.
     if n = 0 then op_fail (Err ''project not found'') else op_return ()))) w1 = (Inr x, w2)" and w2: "w_db w' = w_db w2"
      and "db_call w2 = (True, w')"
    by (rule in_tx_Inr[OF assms[unfolded ProjectsRepo_Delete_def]])
  from body obtain u wa where a: "db_exec (\<lambda>d. Inr ((), d)) w1 = (Inr u, wa)" and
    "op_bind (db_exec (\<lambda>d. Inr ((), delete_findings_of i d))) (\<lambda>_. op_bind (db_exec (\<lambda>d. Inr (delete_project_row i d))) (\<lambda>n.
     if n = 0 then op_fail (Err ''project not found'') else op_return ())) wa = (Inr x, w2)" by (rule op_bind_Inr)
  from this(2) obtain v wb where b: "db_exec (\<lambda>d. Inr ((), delete_findings_of i d)) wa = (Inr v, wb)" and
    "op_bind (db_exec (\<lambda>d. Inr (delete_project_row i d))) (\<lambda>n.
     if n = 0 then op_fail (Err ''project not found'') else op_return ()) wb = (Inr x, w2)" by (rule op_bind_Inr)
  from this(2) obtain n w3 where c: "db_exec (\<lambda>d. Inr (delete_project_row i d)) wb = (Inr n, w3)" and
    d: "(if n = 0 then op_fail (Err ''project not found'') else op_return ()) w3 = (Inr x, w2)" by (rule op_bind_Inr)
  have wa: "w_db wa = w_db w1" using db_exec_Inr[OF a] by simp
  have wb: "w_db wb = delete_findings_of i (w_db w1)" using db_exec_Inr[OF b] wa by simp
  have n: "n \<noteq> 0" "w2 = w3" using d by (auto simp: op_fail_def op_return_def split: if_splits)
  have n: "n \<noteq> 0" "delete_project_row i (delete_findings_of i (w_db w1)) = (n, w_db w3)" "w2 = w3"
    using n db_exec_Inr[OF c] unfolding wb by simp_all
  then have "\<exists>y \<in> set (tb_projects (w_db w1)). fst y = i"
    by (force simp: delete_project_row_def delete_findings_of_def Let_def filter_empty_conv split: prod.splits)
  then show ?thesis using n w2 db_call_db[OF w1] by (metis image_iff snd_conv)
qed

interpretation delete_gates: two_gates protected "\<lambda>rq d. auth_pass rq d \<and> password_pass rq d"
  "RequireProjectOwnerOrGlobalAdmin (ProjectIDFromURL ''id'')" "owner_pass (url_project ''id'')" ..


definition demo_deletion :: "response \<times> World" where
  "demo_deletion = delete_project_route members_rq (World_start (demo_projects_db\<lparr>tb_findings := [Finding_zero\<lparr>f_ID := 4, f_ProjectID := 5\<rparr>],
     tb_scores := [(4, 1)]\<rparr>) 9)"

lemma demo_deletion_done: "tb_projects (w_db (snd demo_deletion)) = [] \<and> tb_findings (w_db (snd demo_deletion)) = []"
  by (simp add: demo_deletion_def delete_project_route_def protected_def RequireAuth_def RequirePasswordChangeCompleted_def
      RequireProjectOwnerOrGlobalAdmin_def ProjectIDFromURL_def members_rq_def World_start_def demo_projects_db_def members_db_def
      project_owner_def handleDeleteProject_def ProjectsRepo_Delete_def in_tx_def op_bind_def op_return_def delete_project_row_def
      delete_findings_of_def without_key_def Let_def User_zero_def User_IsAdmin_def)


end
