(* ===== verification/ProjectsRules.thy ===== *)
theory ProjectsRules
  imports ProjectsCorrect
begin

text \<open>
  Rules of the data of projects: tags and slugs, the listing and its cursor, the trend.
\<close>

section \<open>Tags and slugs\<close>

lemma dedup_tags_props:
  "distinct (map strings_ToLower (dedup_tags ts seen)) \<and> (\<forall>t \<in> set (dedup_tags ts seen). strings_ToLower t \<notin> seen \<and> t \<noteq> [] \<and>
     t \<in> strings_TrimSpace ` set ts)"
proof (induction ts arbitrary: seen)
  case (Cons t ts)
  let ?n = "strings_TrimSpace t"
  let ?key = "strings_ToLower ?n"
  show ?case
  proof (cases "?n = [] \<or> ?key \<in> seen")
    case True
    then have eq: "dedup_tags (t # ts) seen = dedup_tags ts seen" by (simp add: Let_def)
    have "strings_TrimSpace ` set ts \<subseteq> strings_TrimSpace ` set (t # ts)" by auto
    then show ?thesis unfolding eq using Cons.IH[of seen] by (meson subsetD)
  next
    case False
    then have eq: "dedup_tags (t # ts) seen = ?n # dedup_tags ts (insert ?key seen)" by (simp add: Let_def)
    define ds where "ds = dedup_tags ts (insert ?key seen)"
    note IH = Cons.IH[of "insert ?key seen", folded ds_def]
    have lower: "?key \<notin> set (map strings_ToLower ds)"
    proof
      assume "?key \<in> set (map strings_ToLower ds)"
      then obtain u where "u \<in> set ds" "?key = strings_ToLower u" by (auto simp only: set_map image_iff)
      then show False using IH by (metis insertI1)
    qed
    have first: "?key \<notin> seen \<and> ?n \<noteq> [] \<and> ?n \<in> strings_TrimSpace ` set (t # ts)" using False by simp
    have rest: "strings_ToLower u \<notin> seen \<and> u \<noteq> [] \<and> u \<in> strings_TrimSpace ` set (t # ts)" if "u \<in> set ds" for u
      using IH that by (metis insertI2 image_insert list.simps(15))
    have "distinct (map strings_ToLower (?n # ds))" unfolding list.map distinct.simps using IH lower by (intro conjI) blast+
    moreover have "strings_ToLower u \<notin> seen \<and> u \<noteq> [] \<and> u \<in> strings_TrimSpace ` set (t # ts)" if "u \<in> set (?n # ds)" for u
    proof (cases "u = ?n")
      case True
      show ?thesis unfolding True by (rule first)
    next
      case False
      then have "u \<in> set ds" using that by simp
      then show ?thesis by (rule rest)
    qed
    ultimately show ?thesis unfolding eq ds_def[symmetric] by (intro conjI ballI) blast+
  qed
qed simp

lemma dedup_tags_covers: "t \<in> set ts \<Longrightarrow> strings_TrimSpace t \<noteq> [] \<Longrightarrow>
    strings_ToLower (strings_TrimSpace t) \<in> seen \<union> strings_ToLower ` set (dedup_tags ts seen)"
proof (induction ts arbitrary: seen)
  case (Cons u ts)
  show ?case
    using Cons.IH[of seen] Cons.IH[of "insert (strings_ToLower (strings_TrimSpace u)) seen"] Cons.prems
    by (cases "strings_TrimSpace u = [] \<or> strings_ToLower (strings_TrimSpace u) \<in> seen") (auto simp: Let_def)
qed simp

lemma normalize_tags:
  "distinct (map strings_ToLower (normalizeProjectTags ts))"
  "strings_ToLower ` set (normalizeProjectTags ts) = strings_ToLower ` (strings_TrimSpace ` set ts - {[]})"
proof -
  show "distinct (map strings_ToLower (normalizeProjectTags ts))"
    using dedup_tags_props[of ts "{}"] by (simp add: normalizeProjectTags_def)
  show "strings_ToLower ` set (normalizeProjectTags ts) = strings_ToLower ` (strings_TrimSpace ` set ts - {[]})"
    using dedup_tags_props[of ts "{}"] dedup_tags_covers[of _ ts "{}"] unfolding normalizeProjectTags_def by (auto simp: image_iff)
qed

lemma slug_shape: "slugifyProjectName name \<noteq> [] \<and> length (slugifyProjectName name) \<le> 96 \<and> set '' _/.'' \<inter> set (slugifyProjectName name) = {}"
proof -
  let ?s = "strings_Trim (map slug_char (strings_ToLower (strings_TrimSpace name))) (CHR ''-'')"
  have sub: "set (strings_Trim s c) \<subseteq> set s" for s c
    by (auto simp: strings_Trim_def dest!: set_dropWhileD)
  have "set '' _/.'' \<inter> set ?s = {}" using sub by (fastforce simp: slug_char_def)
  moreover have "set '' _/.'' \<inter> set ''project'' = {}" by simp
  ultimately have "set '' _/.'' \<inter> set (if ?s = [] then ''project'' else ?s) = {}" by simp
  then show ?thesis unfolding slugifyProjectName_def Let_def by (auto dest: in_set_takeD)
qed

section \<open>The trend\<close>

lemma trend_point_mono: "a \<le> b \<Longrightarrow> trend_point d i a \<le> trend_point d i b"
proof -
  assume "a \<le> b"
  have "length (filter P xs) \<le> length (filter Q xs)" if "\<And>x. P x \<Longrightarrow> Q x" for P Q and xs :: "Finding list"
    using that by (induction xs) auto
  from this[of "\<lambda>f. open_finding f \<and> f_Severity f \<ge> 3 \<and> day_of (f_LastSeen f) \<le> a"] \<open>a \<le> b\<close>
  show ?thesis unfolding trend_point_def by force
qed

text \<open>
  The trend of a project never falls: each day counts at least as many open findings of high severity as the day
  before. It is computed from the present status and the last sighting, so a finding that was open for weeks and is
  closed today disappears from every day, and one seen again today is missing on all the days before.
\<close>

theorem trend_never_falls:
  assumes "GetTrend i days w = (Inr points, w')"
  shows "length points = trend_days days \<and> (\<forall>a b. a \<le> b \<and> b < length points \<longrightarrow> snd (points ! a) \<le> snd (points ! b)) \<and>
    (\<forall>f d. f_Status f = StatusResolved \<longrightarrow> trend_point (d\<lparr>tb_findings := f # tb_findings d\<rparr>) i = trend_point d i)"
proof -
  have points: "points = map (\<lambda>k. let day = day_of (w_now w) - int (trend_days days) + 1 + int k
      in (day_start day, trend_point (w_db w) i day)) [0..<trend_days days]"
    using db_query_Inr[OF assms[unfolded GetTrend_def]] by simp
  have "trend_point (d\<lparr>tb_findings := f # tb_findings d\<rparr>) i day = trend_point d i day" if "f_Status f = StatusResolved" for f d day
    using that by (simp add: trend_point_def project_findings_def open_finding_def)
  then show ?thesis by (auto simp: points Let_def intro!: trend_point_mono)
qed

definition demo_trend_world :: World where
  "demo_trend_world = World_start (demo_projects_db\<lparr>tb_findings :=
     [Finding_zero\<lparr>f_ID := 4, f_ProjectID := 5, f_Severity := 4, f_LastSeen := 24 * time_Hour * 10\<rparr>]\<rparr>) (24 * time_Hour * 10)"

theorem trend_never_falls_witness:
  "\<exists>points. fst (GetTrend 5 3 demo_trend_world) = Inr points \<and> length points = 3 \<and> snd (points ! 0) \<le> snd (points ! 2)"
proof -
  obtain points w' where run: "GetTrend 5 3 demo_trend_world = (Inr points, w')"
    by (auto simp: GetTrend_def demo_trend_world_def World_start_def)
  have "trend_days 3 = 3" by (simp add: trend_days_def)
  with trend_never_falls[OF run] run show ?thesis by (intro exI[of _ points]) auto
qed

section \<open>The listing\<close>

lemma ListProjectIDs_Inr:
  "ListProjectIDsForUser u w = (Inr ids, w') \<Longrightarrow> w_db w' = w_db w \<and> (\<forall>i. i \<in> set ids \<longleftrightarrow> role_in (w_db w) u i \<noteq> None)"
  unfolding ListProjectIDsForUser_def role_in_def by (auto dest!: db_query_both simp: find_None_iff role_row_def)

lemma List_Inr:
  assumes "ProjectsRepo_List L pf w = (Inr (ps, n, cursor), w')" "pf_AccessibleProjectIDs pf \<noteq> Some []"
  shows "w_db w' = w_db w \<and> n = length (filter (whereClause (projects_where L (w_now w) (w_db w) pf)) (project_rows (w_db w))) \<and>
    ps = map (\<lambda>r. without_sla (scan_project L (w_now w) (w_db w) r)) (take (projects_limit (pf_Limit pf)) (projects_page L (w_now w) pf (w_db w))) \<and>
    cursor = next_project_cursor L (projects_limit (pf_Limit pf)) (projects_page L (w_now w) pf (w_db w))"
  using assms
  by (auto simp: ProjectsRepo_List_def op_return_def elim!: op_bind_Inr dest!: db_query_both split: if_splits prod.splits)

lemma page_rows: "r \<in> set (projects_page L now pf d) \<Longrightarrow> r \<in> set (project_rows d) \<and> whereClause (projects_where L now d pf) r"
  unfolding projects_page_def by (auto dest!: in_set_takeD)

lemma listed_fields [simp]:
  "p_ID (without_sla (scan_project L now d (i, name, owner, c))) = i" "p_Status (without_sla (scan_project L now d (i, name, owner, c))) = pc_Status c"
  by (simp_all add: without_sla_def scan_project_def setDerivedProjectHealth_def Let_def)


definition demo_listing :: "response \<times> World" where
  "demo_listing = handleListProjects demo_lib (\<lambda>_. []) members_rq (World_start demo_projects_db 9)"

lemma demo_listing_shown: "case fst demo_listing of Response s (ProjectsData ps n cursor) \<Rightarrow> s = 200 \<and> map p_ID ps = [5] \<and> cursor = [] | _ \<Rightarrow> False"
  by code_simp


text \<open>
  When the database does not fail, listing projects is refused exactly when a cursor is given that is not of the form
  pinned and identifier while at least two arguments are bound: the count then takes the arguments of the filter without
  the last two. With fewer arguments the same text is ignored.
\<close>

theorem bad_cursor_refused:
  assumes "w_faults w = []"
  shows "(\<exists>e w'. ProjectsRepo_List L pf w = (Inl e, w')) \<longleftrightarrow> pf_AccessibleProjectIDs pf \<noteq> Some [] \<and> pf_Cursor pf \<noteq> [] \<and>
    projects_cursor L (pf_Cursor pf) = None \<and> where_args pf \<ge> 2"
proof -
  have "count_args L pf \<noteq> where_args pf \<longleftrightarrow> pf_Cursor pf \<noteq> [] \<and> projects_cursor L (pf_Cursor pf) = None \<and> where_args pf \<ge> 2"
    by (auto simp: count_args_def projects_cursor_def Let_def)
  then show ?thesis
    using assms by (auto simp: ProjectsRepo_List_def op_bind_def op_return_def split: prod.splits)
qed

definition demo_bad_filter :: ProjectsFilter where
  "demo_bad_filter = \<lparr>pf_AccessibleProjectIDs = Some [5], pf_Limit = 50, pf_Cursor = ''x'', pf_Statuses = [''active''], pf_Team = [],
     pf_SLA = [], pf_Tags = [], pf_Owner = [], pf_Q = [], pf_Sort = []\<rparr>"

theorem bad_cursor_refused_witness:
  "(\<exists>e w'. ProjectsRepo_List demo_lib demo_bad_filter (World_start demo_projects_db 9) = (Inl e, w')) \<and>
   \<not> (\<exists>e w'. ProjectsRepo_List demo_lib (demo_bad_filter\<lparr>pf_Statuses := []\<rparr>) (World_start demo_projects_db 9) = (Inl e, w'))"
proof -
  have calm: "w_faults (World_start demo_projects_db 9) = []" by (simp add: World_start_def)
  have cursor: "projects_cursor demo_lib ''x'' = None" by code_simp
  show ?thesis
    unfolding bad_cursor_refused[OF calm] by (simp add: demo_bad_filter_def cursor where_args_def)
qed

text \<open>
  The cursor names the pin and the identifier of the last project shown, but the pages are ordered by the number of critical
  findings, the name or a date before the identifier: following the cursors leaves projects out. Of two projects, the
  one with a critical finding comes first, and the other one, whose identifier is the greater, is on no page.
\<close>

definition demo_pages :: "string \<Rightarrow> (uuid list \<times> nat \<times> string) option" where
  "demo_pages cursor = (case fst (ProjectsRepo_List demo_lib (demo_bad_filter\<lparr>pf_AccessibleProjectIDs := None, pf_Limit := 1, pf_Cursor := cursor\<rparr>)
       (World_start (demo_projects_db\<lparr>tb_projects := [(5, ''A''), (6, ''B'')],
          tb_project_cols := [(5, demo_cols), (6, demo_cols\<lparr>pc_Slug := ''b''\<rparr>)],
          tb_findings := [Finding_zero\<lparr>f_ID := 4, f_ProjectID := 5, f_Severity := 4\<rparr>]\<rparr>) 9)) of
     Inr (ps, n, next) \<Rightarrow> Some (map p_ID ps, n, next) | Inl _ \<Rightarrow> None)"

lemma pages_skip_projects: "demo_pages [] = Some ([5], 2, ''0|u-----'')" "demo_pages ''0|u-----'' = Some ([], 2, [])"
  by code_simp+

end
