(* ===== verification/EnrichApi.thy ===== *)
theory EnrichApi
  imports Worker Scheduler Access
begin

text \<open>
  The handlers of \<open>internal/api/enrichment.go\<close>: reading what enrichment stored, requesting it for one finding or
  for all that have no score, and starting a synchronisation. What runs in a goroutine of its own is a
  definition of its own beside the answer of its handler.
\<close>

section \<open>Reading\<close>

text \<open>An answer of status 200 with its data, or an error response.\<close>

type_synonym 'a answer = "response + 'a"

definition handleEnrichmentStatus :: "SyncWorld \<Rightarrow> SyncStatus list answer \<times> SyncWorld" where
  "handleEnrichmentStatus s = (case GetAllSyncStatuses s of
     (Inl e, s) \<Rightarrow> (Inl (respondError 500 ''INTERNAL_ERROR'' ''failed to get sync statuses''), s)
   | (Inr statuses, s) \<Rightarrow> (Inr statuses, s))"

definition handleGetFindingEnrichments :: "Decoder \<Rightarrow> string \<Rightarrow> EnrichState \<Rightarrow> response \<times> EnrichState" where
  "handleGetFindingEnrichments dec idParam s = (case jd_uuid dec idParam of
     None \<Rightarrow> (respondError 400 ''VALIDATION_ERROR'' ''invalid finding id'', s)
   | Some i \<Rightarrow> (case GetFindingEnrichments i s of
       (Inl e, s) \<Rightarrow> (respondError 500 ''INTERNAL_ERROR'' ''failed to get finding enrichments'', s)
     | (Inr rows, s) \<Rightarrow> (Response 200 (EnrichmentsData rows), s)))"

text \<open>The branch of the code for a score that is nil is never taken: a finding without one is an error of the query.\<close>

definition handleGetFindingScore :: "Decoder \<Rightarrow> string \<Rightarrow> EnrichState \<Rightarrow> response \<times> EnrichState" where
  "handleGetFindingScore dec idParam s = (case jd_uuid dec idParam of
     None \<Rightarrow> (respondError 400 ''VALIDATION_ERROR'' ''invalid finding id'', s)
   | Some i \<Rightarrow> (case GetFindingScore i s of
       (Inl e, s) \<Rightarrow> (respondError 500 ''INTERNAL_ERROR'' ''failed to get finding score'', s)
     | (Inr score, s) \<Rightarrow> (Response 200 (ScoreData (Some score)), s)))"

text \<open>\<open>^CVE-\\d{4}-\\d{4,}$\<close>\<close>

definition cve_identifier :: "string \<Rightarrow> bool" where
  "cve_identifier s \<longleftrightarrow> 13 \<le> length s \<and> take 4 s = ''CVE-'' \<and> list_all is_digit (take 4 (drop 4 s)) \<and> s ! 8 = CHR ''-'' \<and>
     list_all is_digit (drop 9 s)"

definition history_days :: "string \<Rightarrow> int" where
  "history_days d = (if d = [] then 90
     else case strconv_Atoi d of Some n \<Rightarrow> if 0 < n \<and> n \<le> 365 then n else 90 | None \<Rightarrow> 90)"

definition handleGetEPSSHistory :: "EpssHistoryRow list \<Rightarrow> string \<Rightarrow> string \<Rightarrow> World \<Rightarrow> response \<times> World" where
  "handleGetEPSSHistory rows cve d w =
     (let cveID = strings_ToUpper (strings_TrimSpace cve); days = history_days d in
      if \<not> cve_identifier cveID then (respondError 400 ''INVALID_CVE'' ''invalid CVE identifier'', w)
      else case db_call w of (ok, w) \<Rightarrow>
        if \<not> ok then (respondError 500 ''DB_ERROR'' [], w)
        else (Response 200 (EpssHistoryData cveID days
          (map (\<lambda>r. (eh_date r, eh_score r, eh_percentile r))
            (sort_key eh_date (filter (\<lambda>r. eh_cve_id r = cveID \<and>
               w_now w div time_Day * time_Day - days * time_Day \<le> eh_date r) rows)))), w))"

section \<open>Requests\<close>

text \<open>The answer, and the run the goroutine asks the scheduler for.\<close>

definition handleManualSyncMode :: "bool \<Rightarrow> Scheduler \<Rightarrow> string \<Rightarrow> response \<times> (string + Syncer \<times> bool) option" where
  "handleManualSyncMode full s source =
     (if source = [] then (respondError 400 ''VALIDATION_ERROR'' ''source is required'', None)
      else case GetSyncer source s of
        None \<Rightarrow> (respondError 404 ''NOT_FOUND'' (''unknown source: '' @ source), None)
      | Some syncer \<Rightarrow>
          if full \<and> \<not> sy_Full syncer
          then (respondError 400 ''FULL_SYNC_NOT_SUPPORTED'' (''full sync is not supported for source: '' @ source), None)
          else (Response 202 (StatusData (if full then ''full sync started'' else ''sync started'')),
            Some (if full then TriggerFullSync source s else TriggerSync source s)))"

definition CacheEnrichmentPfx :: string where "CacheEnrichmentPfx = ''cache:enrichment:finding:''"

text \<open>\<open>del\<close> deletes a key; an error of it is only logged.\<close>

definition CacheInvalidateEnrichment :: "(string \<Rightarrow> 'r \<Rightarrow> 'r) \<Rightarrow> string \<Rightarrow> 'r \<Rightarrow> 'r" where
  "CacheInvalidateEnrichment del findingID r = del (CacheEnrichmentPfx @ findingID) r"

definition handleEnrichFinding ::
  "'r Stream \<Rightarrow> (string \<Rightarrow> 'r \<Rightarrow> 'r) \<Rightarrow> (uuid \<Rightarrow> string) \<Rightarrow> Enricher \<Rightarrow> string \<Rightarrow> 'r \<times> EnrichState \<Rightarrow> response \<times> 'r \<times> EnrichState" where
  "handleEnrichFinding S del text_of env idParam = (\<lambda>(r, s). case jd_uuid (en_decoder env) idParam of
     None \<Rightarrow> (respondError 400 ''VALIDATION_ERROR'' ''invalid finding id'', r, s)
   | Some i \<Rightarrow> (case PublishEnrichment S text_of [i] (CacheInvalidateEnrichment del (text_of i) r) of
       (Inr _, r) \<Rightarrow> (Response 202 (StatusData ''queued''), r, s)
     | (Inl e, r) \<Rightarrow> (case EnrichFinding env i s of
         (Inl e, s) \<Rightarrow> (respondError 500 ''INTERNAL_ERROR'' ''enrichment failed'', r, s)
       | (Inr _, s) \<Rightarrow> (Response 200 (StatusData ''enriched_sync''), r, s))))"

text \<open>
  The findings without a row in \<open>finding_scores\<close>. The query has a \<open>LIMIT\<close> and no order, so the order the
  database reads them in is a parameter.
\<close>

definition unscored :: "EnrichState \<Rightarrow> uuid list" where
  "unscored s = filter (\<lambda>i. i \<notin> fs_FindingID ` set (es_scores s)) (map f_ID (tb_findings (w_db (es_world s))))"

text \<open>The loop of the goroutine: whether it completed, and how many findings it enriched and failed to.\<close>

partial_function (option) enrich_all ::
  "(uuid list \<Rightarrow> uuid list) \<Rightarrow> Enricher \<Rightarrow> nat \<times> nat \<Rightarrow> EnrichState \<Rightarrow> ((bool \<times> nat \<times> nat) \<times> EnrichState) option" where
  "enrich_all scan env totals s = (case try_query (take 100 (scan (unscored s))) s of
     (None, s) \<Rightarrow> Some ((False, totals), s)
   | (Some ids, s) \<Rightarrow>
       if ids = [] then Some ((True, totals), s)
       else case EnrichBatch env ids s of ((enriched, failed), s) \<Rightarrow>
         enrich_all scan env (fst totals + enriched, snd totals + failed) s)"

definition handleEnrichAll :: response where
  "handleEnrichAll = Response 202 (StatusData ''enrich-all started'')"

section \<open>The loop ends\<close>

abbreviation faults_left :: "EnrichState \<Rightarrow> nat" where
  "faults_left s \<equiv> length (w_faults (es_world s))"

text \<open>What any part of a batch keeps: the findings, the scores there are, and no fault is added.\<close>

definition advances :: "EnrichState \<Rightarrow> EnrichState \<Rightarrow> bool" where
  "advances s s' \<longleftrightarrow> tb_findings (w_db (es_world s')) = tb_findings (w_db (es_world s)) \<and>
     fs_FindingID ` set (es_scores s) \<subseteq> fs_FindingID ` set (es_scores s') \<and> faults_left s' \<le> faults_left s"

lemma advances_trans: "advances s s' \<Longrightarrow> advances s' s'' \<Longrightarrow> advances s s''"
  by (auto simp: advances_def)

lemma keys_upsert: "key ` set (upsert key x rows) = insert (key x) (key ` set rows)"
proof (cases "key x \<in> key ` set rows")
  case True
  have "key ` set (map (\<lambda>y. if key y = key x then x else y) rows) = key ` set rows"
    by (induction rows) auto
  then show ?thesis using True by (simp add: upsert_def insert_absorb)
qed (simp add: upsert_def)

lemma EnrichFinding_advances:
  assumes run: "EnrichFinding env i s = (r, s')"
  shows "advances s s' \<and> (r = Inr () \<longrightarrow> i \<in> fs_FindingID ` set (es_scores s')) \<and>
    fs_FindingID ` set (es_scores s') \<subseteq> insert i (fs_FindingID ` set (es_scores s))"
  using run
proof (cases rule: EnrichFinding_cases)
  case (unloaded e w)
  then show ?thesis by (auto simp: advances_def)
next
  case (scored f s1 vs fix_known)
  let ?row = "finding_score f (w_now (es_world s)) vs fix_known"
  have s1: "advances s s1" "es_scores s1 = es_scores s" using scored(3) by (simp_all add: keeps_def advances_def)
  have f: "tb_findings (w_db (es_world s')) = tb_findings (w_db (es_world s1))" "faults_left s' \<le> faults_left s1"
    using scored(4) by (auto simp: save_score_def dest: db_call_same split: prod.splits if_splits)
  show ?thesis
  proof (cases r)
    case (Inl e)
    then show ?thesis using s1 f save_score_result(1) scored(4) by (fastforce simp: advances_def)
  next
    case (Inr u)
    then have "es_scores s' = upsert fs_FindingID ?row (es_scores s1)" using save_score_result(2) scored(4) by blast
    then show ?thesis using s1 f scored(2) by (auto simp: advances_def keys_upsert)
  qed
qed

lemma EnrichBatch_advances:
  "EnrichBatch env ids s = (n, s') \<Longrightarrow> advances s s' \<and> fs_FindingID ` set (es_scores s') \<subseteq> set ids \<union> fs_FindingID ` set (es_scores s)"
proof (induction ids arbitrary: s s' n)
  case Nil
  then show ?case by (simp add: advances_def)
next
  case (Cons i ids)
  obtain r s1 where one: "EnrichFinding env i s = (r, s1)" by fastforce
  obtain m s2 where rest: "EnrichBatch env ids s1 = (m, s2)" by fastforce
  have "s' = s2" using Cons(2) one rest by (auto split: prod.splits sum.splits)
  moreover have "advances s s2" using advances_trans Cons(1)[OF rest] EnrichFinding_advances[OF one] by blast
  moreover have "fs_FindingID ` set (es_scores s2) \<subseteq> set (i # ids) \<union> fs_FindingID ` set (es_scores s)"
    using Cons(1)[OF rest] EnrichFinding_advances[OF one] by auto
  ultimately show ?case by simp
qed

text \<open>Without failures every finding of the batch gets a score.\<close>

lemma EnrichBatch_calm:
  assumes "calm s" "set ids \<subseteq> f_ID ` set (tb_findings (w_db (es_world s)))"
  shows "\<exists>s'. EnrichBatch env ids s = ((length ids, 0), s') \<and> calm s' \<and>
    fs_FindingID ` set (es_scores s') \<supseteq> set ids"
  using assms
proof (induction ids arbitrary: s)
  case Nil
  then show ?case by simp
next
  case (Cons i ids)
  obtain s1 where one: "EnrichFinding env i s = (Inr (), s1)" and st: "steady s s1"
    using EnrichFinding_known Cons(2,3) by (metis list.set_intros(1) subsetD)
  obtain s2 where rest: "EnrichBatch env ids s1 = ((length ids, 0), s2)" "calm s2" "fs_FindingID ` set (es_scores s2) \<supseteq> set ids"
    using Cons(1)[of s1] Cons(3) st by (auto simp: steady_def)
  have "i \<in> fs_FindingID ` set (es_scores s2)"
    using EnrichFinding_advances[OF one] EnrichBatch_advances[OF rest(1)] by (auto simp: advances_def)
  then show ?case using one rest by simp
qed

text \<open>What a batch without failures leaves.\<close>

lemma unscored_after_batch:
  assumes "calm s" "distinct (unscored s)" "distinct ids" "set ids \<subseteq> set (unscored s)"
  shows "\<exists>s'. EnrichBatch env ids s = ((length ids, 0), s') \<and> calm s' \<and>
    tb_findings (w_db (es_world s')) = tb_findings (w_db (es_world s)) \<and> length (unscored s) = length ids + length (unscored s')"
proof -
  have known: "set ids \<subseteq> f_ID ` set (tb_findings (w_db (es_world s)))" using assms(4) by (auto simp: unscored_def)
  obtain s' where batch: "EnrichBatch env ids s = ((length ids, 0), s')" "calm s'" "set ids \<subseteq> fs_FindingID ` set (es_scores s')"
    using EnrichBatch_calm[OF assms(1) known, of env] by blast
  have after: "tb_findings (w_db (es_world s')) = tb_findings (w_db (es_world s))"
    "fs_FindingID ` set (es_scores s') = set ids \<union> fs_FindingID ` set (es_scores s)"
    using EnrichBatch_advances[OF batch(1)] batch(3) by (auto simp: advances_def)
  have "unscored s' = filter (\<lambda>i. i \<notin> set ids) (unscored s)"
    by (auto simp: unscored_def after intro: filter_cong)
  moreover have "length (filter (\<lambda>i. i \<in> set ids) (unscored s)) = length ids"
  proof -
    have "set (filter (\<lambda>i. i \<in> set ids) (unscored s)) = set ids" using assms(4) by auto
    then show ?thesis using assms(2,3) by (metis distinct_card distinct_filter)
  qed
  ultimately have "length (unscored s) = length ids + length (unscored s')" using sum_length_filter_compl[of "\<lambda>i. i \<in> set ids" "unscored s"] by simp
  then show ?thesis using batch(1,2) after(1) by blast
qed



text \<open>The score of a finding that has none is an internal error of the request.\<close>

lemma score_of_unscored_is_an_error:
  assumes "jd_uuid dec idParam = Some i" "i \<notin> fs_FindingID ` set (es_scores s)"
  shows "fst (handleGetFindingScore dec idParam s) = respondError 500 ''INTERNAL_ERROR'' ''failed to get finding score''"
proof -
  have "find (\<lambda>x. fs_FindingID x = i) (es_scores s) = None" using assms(2) by (auto simp: find_None_iff)
  then show ?thesis using assms(1) by (simp add: handleGetFindingScore_def GetFindingScore_def split: prod.splits)
qed

end
