(* ===== verification/FindingsApi.thy ===== *)
theory FindingsApi
  imports FindingsPages Scans Enrich Projects Gates
begin

text \<open>
  The requests that read findings: \<open>internal/api/findings.go\<close>, \<open>findings_facets.go\<close> and the listing by groups of
  \<open>internal/storage/findings_repo.go\<close>. A query is the map of its parameters, an absent one being the empty text.
  Parsing floats (the value NaN aside) and decoding a cursor are parameters; so is what the reference tables
  hold besides the columns of the tables of \<open>Db\<close>.
\<close>

section \<open>The filter of a request\<close>

record FindingsLib =
  fl_lib :: Lib
  fl_float :: "string \<Rightarrow> real option"
  fl_cursor :: "string \<Rightarrow> (time \<times> uuid) option"
  fl_tsmatch :: "string \<Rightarrow> Finding \<Rightarrow> bool"
  fl_description :: "string \<Rightarrow> string option"
  fl_cwe_name :: "int \<Rightarrow> string option"
  fl_bdu_ids :: "string \<Rightarrow> string list"

text \<open>The values of a parameter separated by commas, \<open>None\<close> when one is not valid; an absent parameter has none.\<close>

definition csv_values :: "(string \<Rightarrow> 'a option) \<Rightarrow> string \<Rightarrow> 'a list option" where
  "csv_values f v = (if v = [] then Some []
     else let xs = map f (strings_Split v (CHR '','')) in if None \<in> set xs then None else Some (map the xs))"

text \<open>An optional parameter, \<open>None\<close> when it does not pass.\<close>

definition opt_value :: "(string \<Rightarrow> 'a option) \<Rightarrow> ('a \<Rightarrow> bool) \<Rightarrow> string \<Rightarrow> 'a option option" where
  "opt_value f ok v = (if v = [] then Some None
     else case f v of None \<Rightarrow> None | Some x \<Rightarrow> if ok x then Some (Some x) else None)"

definition invalid_value :: "string \<Rightarrow> response" where
  "invalid_value message = respondError 400 ''VALIDATION_ERROR'' message"

text \<open>A check of the parser: the message of the response when it fails.\<close>

definition checked :: "'a option \<Rightarrow> string \<Rightarrow> ('a \<Rightarrow> response + 'b) \<Rightarrow> response + 'b" where
  "checked v message k = (case v of None \<Rightarrow> Inl (invalid_value message) | Some x \<Rightarrow> k x)"

definition texts_filter :: "FindingsLib \<Rightarrow> (string \<Rightarrow> string) \<Rightarrow> FindingsFilter" where
  "texts_filter L q = FindingsFilter_zero\<lparr>ff_Query := q ''q'', ff_CVE := q ''cve'', ff_RuleID := q ''rule_id'',
     ff_ComponentVersion := q ''component_version'', ff_SecretFingerprint := q ''secret_fingerprint'',
     ff_Cursor := (if q ''cursor'' = [] then None else Some (fl_cursor L (q ''cursor''))),
     ff_SortField := q ''sort'', ff_SortDir := q ''dir'', ff_GroupBy := q ''group_by'',
     ff_Components := (let c = strings_TrimSpace (q ''component'') in if c = [] then [] else [c])\<rparr>"

definition flag_of :: "string \<Rightarrow> bool option" where
  "flag_of v = (if v = ''true'' then Some True else None)"

definition kind_value :: "string \<Rightarrow> FindingKind option" where
  "kind_value s = (case ParseFindingKind s of (k, ok) \<Rightarrow> if ok then Some k else None)"

text \<open>The parameters after the projects of the user are known, in the order of the code.\<close>

definition parse_values :: "FindingsLib \<Rightarrow> (string \<Rightarrow> string) \<Rightarrow> uuid \<Rightarrow> FindingsFilter \<Rightarrow> response + FindingsFilter" where
  "parse_values L q user ff =
     checked (csv_values (\<lambda>s. uuid_Parse (fl_lib L) (strings_TrimSpace s)) (q ''assignees'')) ''invalid assignees value'' (\<lambda>assignees.
     checked (csv_values strconv_Atoi (q ''severity'')) ''invalid severity value'' (\<lambda>severities.
     checked (csv_values strconv_Atoi (q ''status'')) ''invalid status value'' (\<lambda>statuses.
     checked (opt_value strconv_Atoi (\<lambda>_. True) (q ''cwe'')) ''invalid cwe value'' (\<lambda>cwe.
     checked (csv_values kind_value (q ''kinds'')) ''invalid kind value'' (\<lambda>kinds.
     checked (opt_value (fl_float L) (\<lambda>f. 0 \<le> f \<and> f \<le> 1) (q ''epss_min'')) ''invalid epss_min value'' (\<lambda>epss.
     checked (opt_value (fl_float L) (\<lambda>f. 0 \<le> f \<and> f \<le> 10) (q ''cvss_min'')) ''invalid cvss_min value'' (\<lambda>cvss.
     checked (opt_value strconv_Atoi (\<lambda>n. n > 0) (q ''age_max_days'')) ''invalid age_max_days value'' (\<lambda>age.
     checked (opt_value strconv_Atoi (\<lambda>_. True) (q ''limit'')) ''invalid limit value'' (\<lambda>limit.
       Inr (ff\<lparr>ff_AssigneeMeUserID := (if q ''assignee'' = ''me'' then Some user else None),
         ff_Unassigned := (q ''unassigned'' = ''true''), ff_AssigneeUserIDs := assignees,
         ff_Severities := severities, ff_Statuses := statuses, ff_CWE := (case cwe of None \<Rightarrow> 0 | Some n \<Rightarrow> n), ff_Kinds := kinds,
         ff_SourceTypes := (if q ''sources'' = [] then []
            else filter (\<lambda>s. s \<noteq> []) (map strings_TrimSpace (strings_Split (q ''sources'') (CHR '','')))),
         ff_HasCVE := flag_of (q ''has_cve''), ff_HasFix := flag_of (q ''has_fix''),
         ff_InKEV := flag_of (q ''in_kev''), ff_InBDU := flag_of (q ''in_bdu''),
         ff_EPSSMin := epss, ff_CVSSMin := cvss, ff_AgeMaxDays := age,
         ff_Limit := (case limit of None \<Rightarrow> 0 | Some n \<Rightarrow> n)\<rparr>))))))))))"

text \<open>
  The result is an error response, or the filter, \<open>None\<close> for a user without projects, whose result is empty
  whatever the remaining parameters are. A request without a user dereferences nil.
\<close>

definition parseFindingsFilter :: "FindingsLib \<Rightarrow> (string \<Rightarrow> string) \<Rightarrow> Request \<Rightarrow> World \<Rightarrow> (response + FindingsFilter option) \<times> World" where
  "parseFindingsFilter L q rq w =
     (case opt_value (uuid_Parse (fl_lib L)) (\<lambda>_. True) (q ''project_id'') of
        None \<Rightarrow> (Inl (invalid_value ''invalid project_id''), w)
      | Some project \<Rightarrow>
          let ff = (texts_filter L q)\<lparr>ff_ProjectID := (case project of None \<Rightarrow> uuid_Nil | Some i \<Rightarrow> i)\<rparr> in
          (case rq_User rq of
             None \<Rightarrow> (Inl Panic, w)
           | Some user \<Rightarrow>
               if User_IsAdmin user then (map_sum id Some (parse_values L q (u_ID user) ff), w)
               else (case ListProjectIDsForUser (u_ID user) w of
                   (Inl e, w) \<Rightarrow> (Inl (respondError 500 ''INTERNAL_ERROR'' ''failed to resolve accessible projects''), w)
                 | (Inr ids, w) \<Rightarrow>
                     if ids = [] then (Inr None, w)
                     else (map_sum id Some (parse_values L q (u_ID user) (ff\<lparr>ff_AccessibleProjectIDs := Some ids\<rparr>)), w))))"

section \<open>Groups\<close>

text \<open>MAX and MIN of a text column: \<open>NULL\<close>s are left out, and the order is the database's collation.\<close>

definition texts_max :: "FindingsLib \<Rightarrow> string option list \<Rightarrow> string option" where
  "texts_max L vs = (let xs = sort_key (collation (fl_lib L)) (map the (filter (\<lambda>v. v \<noteq> None) vs))
     in if xs = [] then None else Some (last xs))"

definition texts_min :: "FindingsLib \<Rightarrow> string option list \<Rightarrow> string option" where
  "texts_min L vs = (let xs = sort_key (collation (fl_lib L)) (map the (filter (\<lambda>v. v \<noteq> None) vs))
     in if xs = [] then None else Some (hd xs))"

definition or_nil :: "string option \<Rightarrow> string" where
  "or_nil v = (case v of None \<Rightarrow> [] | Some s \<Rightarrow> s)"

text \<open>
  The keys a finding has in each mode: the array of identifiers or weaknesses unnested, one component, one rule
  with its name after a unit separator, one secret. A mode that is unknown is an error.
\<close>

definition group_keys :: "string \<Rightarrow> err + (Finding \<Rightarrow> string list)" where
  "group_keys groupBy =
     (if groupBy = ''cve'' then Inr f_CVEIDs
      else if groupBy = ''component'' then Inr (\<lambda>f. [f_Component f @ ''@'' @ f_ComponentVersion f])
      else if groupBy = ''rule'' then Inr (\<lambda>f. case f_RuleID f of None \<Rightarrow> []
         | Some r \<Rightarrow> [r @ [CHR 0x1F] @ or_nil (f_RuleName f)])
      else if groupBy = ''secret'' then Inr (\<lambda>f. if f_Kind f = KindSecrets
         then [case f_SecretFingerprint f of Some s \<Rightarrow> s | None \<Rightarrow> or_nil (f_RuleID f) @ '':'' @ f_FilePath f] else [])
      else if groupBy = ''cwe'' then Inr (\<lambda>f. map strconv_Itoa (f_CWEIDs f))
      else Inl (Err ''storage.FindingsRepo.ListGroups: unknown group_by''))"

text \<open>The display form of the key of a rule.\<close>

definition display_key :: "string \<Rightarrow> string \<Rightarrow> string" where
  "display_key groupBy key =
     (if groupBy \<noteq> ''rule'' then key
      else case strings_Index key [CHR 0x1F] of
          None \<Rightarrow> key
        | Some idx \<Rightarrow> let i = take idx key; name = drop (Suc idx) key in if name = [] then i else i @ rule_dash @ name)"

definition opt_max :: "real option list \<Rightarrow> real option" where
  "opt_max vs = max_opt (map the (filter (\<lambda>v. v \<noteq> None) vs))"

definition group_title :: "FindingsLib \<Rightarrow> string \<Rightarrow> string \<Rightarrow> Finding list \<Rightarrow> string option" where
  "group_title L groupBy key fs =
     (if groupBy = ''cve'' then fl_description L key
      else if groupBy = ''rule'' then texts_max L (map f_RuleName fs)
      else if groupBy = ''secret'' then texts_max L (map f_SecretKind fs)
      else if groupBy = ''cwe'' then (case strconv_Atoi key of None \<Rightarrow> None | Some n \<Rightarrow> fl_cwe_name L n)
      else None)"

text \<open>The row of a group: \<open>fs\<close> are the joined rows of the key, a finding once for each time the key is in its array.\<close>

definition group_row :: "FindingsLib \<Rightarrow> DB \<Rightarrow> string \<Rightarrow> string \<Rightarrow> Finding list \<Rightarrow> FindingGroup" where
  "group_row L d groupBy key fs =
     (let cve = (groupBy = ''cve''); secret = (groupBy = ''secret''); component = (groupBy = ''component'')
      in \<lparr>g_GroupKey = display_key groupBy key,
          g_GroupTitle = or_nil (group_title L groupBy key fs),
          g_SecretKind = (if secret then texts_max L (map f_SecretKind fs) else None),
          g_Ecosystem = (if component then texts_max L (map f_PackageEcosystem fs) else None),
          g_FixedVersion = (if component then texts_min L (map f_FixedVersion fs) else None),
          g_FindingsCount = length fs,
          g_ProjectsCount = length (remdups (map f_ProjectID fs)),
          g_MaxSeverity = fold max (map f_Severity fs) (f_Severity (hd fs)),
          g_FirstSeen = fold min (map f_FirstSeen fs) (f_FirstSeen (hd fs)),
          g_LastSeen = fold max (map f_LastSeen fs) (f_LastSeen (hd fs)),
          g_ProjectIDs = sort (remdups (map f_ProjectID fs)),
          g_SampleIDs = take 3 (map f_ID (sort_key (\<lambda>f. - f_FirstSeen f) fs)),
          g_InKEV = (if cve then key \<in> set (tb_kev d) else \<not> secret \<and> list_ex (in_kev d) fs),
          g_InBDU = (if cve then list_ex (\<lambda>b. key \<in> set b) (tb_bdu d) else \<not> secret \<and> list_ex (in_bdu d) fs),
          g_BDUIDs = (if cve then sort (remdups (fl_bdu_ids L key)) else []),
          g_MaxEPSS = (if secret then None
            else if cve then max_opt (map snd (filter (\<lambda>e. fst e = key) (tb_epss d))) else opt_max (map (max_of (tb_epss d)) fs)),
          g_MaxCVSS = (if secret then None
            else if cve then max_opt (map snd (filter (\<lambda>e. fst e = key) (tb_cvss d))) else opt_max (map (max_of (tb_cvss d)) fs))\<rparr>)"

definition group_rows :: "FindingsLib \<Rightarrow> DB \<Rightarrow> string \<Rightarrow> (Finding \<Rightarrow> string list) \<Rightarrow> Finding list \<Rightarrow> FindingGroup list" where
  "group_rows L d groupBy keys fs =
     (let pairs = concat (map (\<lambda>f. map (\<lambda>k. (k, f)) (keys f)) fs)
      in map (\<lambda>k. group_row L d groupBy k (map snd (filter (\<lambda>p. fst p = k) pairs))) (remdups (map fst pairs)))"

definition groupLimit :: nat where "groupLimit = 200"

definition FindingsRepo_ListGroups :: "FindingsLib \<Rightarrow> FindingsFilter \<Rightarrow> string \<Rightarrow> (FindingGroup list \<times> nat) op" where
  "FindingsRepo_ListGroups L ff groupBy w = (case group_keys groupBy of
     Inl e \<Rightarrow> (Inl e, w)
   | Inr keys \<Rightarrow> (case db_query (\<lambda>d. take groupLimit (sort_key (\<lambda>g. (- g_MaxSeverity g, - int (g_FindingsCount g)))
         (group_rows L d groupBy keys (filter (whereClause (buildBaseWhere (fl_tsmatch L) (w_now w) d ff [])) (tb_findings d))))) w of
       (Inl e, w) \<Rightarrow> (Inl e, w)
     | (Inr groups, w) \<Rightarrow> (Inr (groups, length groups), w)))"

section \<open>Handlers\<close>

definition list_groups_answer :: "FindingsLib \<Rightarrow> FindingsFilter \<Rightarrow> World \<Rightarrow> response \<times> World" where
  "list_groups_answer L ff w =
     (if ff_GroupBy ff \<notin> {''cve'', ''component'', ''rule'', ''secret'', ''cwe''} then (invalid_value ''invalid group_by value'', w)
      else case FindingsRepo_ListGroups L ff (ff_GroupBy ff) w of
          (Inl e, w) \<Rightarrow> (respondError 500 ''INTERNAL_ERROR'' ''failed to list finding groups'', w)
        | (Inr (groups, n), w) \<Rightarrow> (Response 200 (GroupsData groups n), w))"

definition handleListFindings :: "FindingsLib \<Rightarrow> (string \<Rightarrow> string) \<Rightarrow> handler" where
  "handleListFindings L q rq w = (case parseFindingsFilter L q rq w of
     (Inl r, w) \<Rightarrow> (r, w)
   | (Inr None, w) \<Rightarrow> (Response 200 (FindingsData [] 0 None), w)
   | (Inr (Some ff), w) \<Rightarrow>
       if ff_GroupBy ff \<noteq> [] then list_groups_answer L ff w
       else (case FindingsRepo_List (fl_tsmatch L) ff w of
           (Inl e, w) \<Rightarrow> (respondError 500 ''INTERNAL_ERROR'' ''failed to list findings'', w)
         | (Inr (findings, nextCursor, cnt), w) \<Rightarrow> (Response 200 (FindingsData findings cnt nextCursor), w)))"

definition FindingsFacets_zero :: FindingsFacets where
  "FindingsFacets_zero = \<lparr>fa_BySeverity = [], fa_ByStatus = [], fa_ByKind = [], fa_BySource = [], fa_ByProject = [],
     fa_ByEcosystem = [], fa_ByIacProvider = [], fa_BySecretKind = [],
     fa_Enrichment = \<lparr>fe_InKEV = 0, fe_HasCVE = 0, fe_HasFix = 0, fe_InBDU = 0\<rparr>\<rparr>"

definition handleFindingsFacets :: "FindingsLib \<Rightarrow> (string \<Rightarrow> string) \<Rightarrow> handler" where
  "handleFindingsFacets L q rq w = (case parseFindingsFilter L q rq w of
     (Inl r, w) \<Rightarrow> (r, w)
   | (Inr None, w) \<Rightarrow> (Response 200 (FacetsData FindingsFacets_zero), w)
   | (Inr (Some ff), w) \<Rightarrow> (case Facets (fl_tsmatch L) ff w of
       (Inl e, w) \<Rightarrow> (respondError 500 ''INTERNAL_ERROR'' ''failed to load facets'', w)
     | (Inr facets, w) \<Rightarrow> (Response 200 (FacetsData facets), w)))"

text \<open>The parts after the finding are left out when their query fails.\<close>

definition handleGetFinding :: "Request \<Rightarrow> EnrichState \<Rightarrow> response \<times> EnrichState" where
  "handleGetFinding rq s = (case rq_Param rq ''id'' of
     None \<Rightarrow> (invalid_value ''invalid finding id'', s)
   | Some i \<Rightarrow> (case FindingsRepo_GetByID i (es_world s) of
       (Inl e, w) \<Rightarrow> (respondError 404 ''NOT_FOUND'' ''finding not found'', s\<lparr>es_world := w\<rparr>)
     | (Inr f, w) \<Rightarrow> (case GetFindingEnrichments i (s\<lparr>es_world := w\<rparr>) of (enrichments, s) \<Rightarrow>
         (case GetFindingScore i s of (score, s) \<Rightarrow>
           (case ListRecentForFinding i 5 (es_world s) of (scans, w) \<Rightarrow>
             (Response 200 (FindingData f (case enrichments of Inl _ \<Rightarrow> [] | Inr rows \<Rightarrow> rows)
                (case score of Inl _ \<Rightarrow> None | Inr x \<Rightarrow> Some x)
                (case scans of Inl _ \<Rightarrow> None | Inr xs \<Rightarrow> Some xs)), s\<lparr>es_world := w\<rparr>))))))"

end
