(* ===== verification/Dashboard.thy ===== *)
theory Dashboard
  imports FindingsApi
begin

text \<open>
  The dashboard: \<open>internal/storage/dashboard_repo.go\<close> and \<open>internal/api/dashboard.go\<close>. The statistics of an
  administrator are cached in Redis, whose calls are arguments; the coverage of an administrator is read from the
  materialized view \<open>enrichment_coverage\<close>, which is as old as its last refresh and so an argument too.
\<close>

section \<open>The repository\<close>

text \<open>\<open>buildProjectScope\<close>: no condition for an administrator.\<close>

definition buildProjectScope :: "uuid list option \<Rightarrow> cond" where
  "buildProjectScope accessible = (case accessible of None \<Rightarrow> (\<lambda>f. True)
     | Some ps \<Rightarrow> if ps = [] then (\<lambda>f. False) else (\<lambda>f. f_ProjectID f \<in> set ps))"

definition scoped_findings :: "uuid list option \<Rightarrow> DB \<Rightarrow> Finding list" where
  "scoped_findings accessible d = filter (buildProjectScope accessible) (tb_findings d)"

definition dashboard_counts :: "time \<Rightarrow> Finding list \<Rightarrow> nat \<times> nat \<times> nat \<times> nat" where
  "dashboard_counts now fs = (length fs, length (filter (\<lambda>f. f_Status f = 0) fs),
     length (filter (\<lambda>f. f_Status f = 0 \<and> f_Severity f = 4) fs),
     length (filter (\<lambda>f. f_FirstSeen f > now - 7 * 24 * time_Hour) fs))"

text \<open>\<open>GROUP BY col ORDER BY col\<close>\<close>

definition sorted_counts :: "int list \<Rightarrow> (int \<times> nat) list" where
  "sorted_counts vs = map (\<lambda>v. (v, length (filter (\<lambda>x. x = v) vs))) (sort (remdups vs))"

text \<open>The ten findings with the highest score, the id breaking ties.\<close>

definition top_findings :: "DB \<Rightarrow> Finding list \<Rightarrow> Finding list" where
  "top_findings d fs = map (with_score d) (take 10 (sort_key (\<lambda>f. (- the (map_of (tb_scores d) (f_ID f)), f_ID f))
     (filter (\<lambda>f. map_of (tb_scores d) (f_ID f) \<noteq> None) fs)))"

text \<open>How many findings each source has enriched: counted for a user, read from the view for an administrator.\<close>

definition enriched_counts :: "(string \<times> nat) list \<Rightarrow> uuid list option \<Rightarrow> FindingEnrichment list \<Rightarrow> DB \<Rightarrow> string \<Rightarrow> nat" where
  "enriched_counts view accessible es d source = (case accessible of
     None \<Rightarrow> (case map_of (rev view) source of None \<Rightarrow> 0 | Some n \<Rightarrow> n)
   | Some _ \<Rightarrow> length (remdups (map fe_FindingID (filter (\<lambda>e. fe_Source e = source \<and>
        fe_FindingID e \<in> f_ID ` set (scoped_findings accessible d)) es))))"

definition coverage :: "nat \<Rightarrow> (string \<Rightarrow> nat) \<Rightarrow> EnrichmentCoverage" where
  "coverage amount n = (let share = (\<lambda>src. if amount = 0 then 0 else real (n src) / real amount * 100)
     in \<lparr>cov_NVD = share ''nvd'', cov_EPSS = share ''epss'', cov_KEV = share ''kev'', cov_BDU = share ''bdu''\<rparr>)"

text \<open>Five queries, each of which ends the request when it fails.\<close>

definition dashboard_op :: "(EnrichState \<Rightarrow> 'a) \<Rightarrow> EnrichState \<Rightarrow> (err + 'a) \<times> EnrichState" where
  "dashboard_op q s = (case db_call (es_world s) of (ok, w) \<Rightarrow>
     let s = s\<lparr>es_world := w\<rparr> in if ok then (Inr (q s), s) else (Inl ErrDB, s))"

definition GetStats :: "(string \<times> nat) list \<Rightarrow> uuid list option \<Rightarrow> EnrichState \<Rightarrow> (err + DashboardStats) \<times> EnrichState" where
  "GetStats view accessible s =
     (let rows = (\<lambda>s. scoped_findings accessible (w_db (es_world s))) in
      case dashboard_op (\<lambda>s. dashboard_counts (w_now (es_world s)) (rows s)) s of (Inl e, s) \<Rightarrow> (Inl e, s)
      | (Inr (n, opened, critical, fresh), s) \<Rightarrow>
        (case dashboard_op (\<lambda>s. sorted_counts (map f_Severity (rows s))) s of (Inl e, s) \<Rightarrow> (Inl e, s)
         | (Inr sevs, s) \<Rightarrow>
           (case dashboard_op (\<lambda>s. sorted_counts (map f_Status (rows s))) s of (Inl e, s) \<Rightarrow> (Inl e, s)
            | (Inr statuses, s) \<Rightarrow>
              (case dashboard_op (\<lambda>s. top_findings (w_db (es_world s)) (rows s)) s of (Inl e, s) \<Rightarrow> (Inl e, s)
               | (Inr top_ten, s) \<Rightarrow>
                 (case dashboard_op (\<lambda>s. coverage n (enriched_counts view accessible (es_enrichments s) (w_db (es_world s)))) s of
                    (Inl e, s) \<Rightarrow> (Inl e, s)
                  | (Inr cov, s) \<Rightarrow> (Inr \<lparr>ds_TotalFindings = n, ds_TotalOpen = opened, ds_TotalCriticalOpen = critical,
                      ds_NewThisWeek = fresh, ds_BySeverity = sevs, ds_ByStatus = statuses, ds_TopFindings = top_ten,
                      ds_EnrichmentCoverage = cov\<rparr>, s))))))"

section \<open>The handler\<close>

definition DashboardStats_zero :: DashboardStats where
  "DashboardStats_zero = \<lparr>ds_TotalFindings = 0, ds_TotalOpen = 0, ds_TotalCriticalOpen = 0, ds_NewThisWeek = 0,
     ds_BySeverity = [], ds_ByStatus = [], ds_TopFindings = [],
     ds_EnrichmentCoverage = \<lparr>cov_NVD = 0, cov_EPSS = 0, cov_KEV = 0, cov_BDU = 0\<rparr>\<rparr>"

text \<open>\<open>CacheGet\<close> and \<open>CacheSet\<close> with the one key of the dashboard: a read that fails or does not decode is a miss.\<close>

record 'r StatsCache =
  sc_get :: "'r \<Rightarrow> DashboardStats option \<times> 'r"
  sc_set :: "DashboardStats \<Rightarrow> 'r \<Rightarrow> 'r"

definition stats_answer :: "err + DashboardStats \<Rightarrow> response" where
  "stats_answer x = (case x of Inl e \<Rightarrow> respondError 500 ''INTERNAL_ERROR'' ''failed to fetch dashboard stats''
     | Inr st \<Rightarrow> Response 200 (DashboardData st))"

definition handleDashboardStats :: "'r StatsCache \<Rightarrow> (string \<times> nat) list \<Rightarrow> Request \<Rightarrow> 'r \<times> EnrichState \<Rightarrow> response \<times> 'r \<times> EnrichState" where
  "handleDashboardStats C view rq = (\<lambda>(r, s). case rq_User rq of
     None \<Rightarrow> (Panic, r, s)
   | Some user \<Rightarrow>
       if User_IsAdmin user then
         (case sc_get C r of
            (Some cached, r) \<Rightarrow> (Response 200 (DashboardData cached), r, s)
          | (None, r) \<Rightarrow> (case GetStats view None s of
              (Inl e, s) \<Rightarrow> (stats_answer (Inl e), r, s)
            | (Inr st, s) \<Rightarrow> (stats_answer (Inr st), sc_set C st r, s)))
       else (case ListProjectIDsForUser (u_ID user) (es_world s) of
           (Inl e, w) \<Rightarrow> (stats_answer (Inl e), r, s\<lparr>es_world := w\<rparr>)
         | (Inr ids, w) \<Rightarrow>
             if ids = [] then (stats_answer (Inr DashboardStats_zero), r, s\<lparr>es_world := w\<rparr>)
             else (case GetStats view (Some ids) (s\<lparr>es_world := w\<rparr>) of (x, s) \<Rightarrow> (stats_answer x, r, s))))"

section \<open>The figures agree\<close>

lemma dashboard_op_Inr:
  assumes "dashboard_op q s = (Inr x, s')"
  shows "\<exists>w. s' = s\<lparr>es_world := w\<rparr> \<and> x = q s' \<and> w_db w = w_db (es_world s) \<and> w_now w = w_now (es_world s)"
proof -
  obtain ok w where call: "db_call (es_world s) = (ok, w)" by fastforce
  have "w_now w = w_now (es_world s)" using db_call_env[OF call] by (simp add: same_env_def)
  then show ?thesis using assms db_call_db[OF call] call by (auto simp: dashboard_op_def Let_def split: if_splits)
qed

lemma sum_sorted_counts: "sum_list (map snd (sorted_counts vs)) = length vs"
proof -
  have "sum_list (map snd (sorted_counts vs)) = (\<Sum>v \<in> set vs. length (filter (\<lambda>x. x = v) vs))"
    by (simp add: sorted_counts_def comp_def sum_list_distinct_conv_sum_set)
  also have "\<dots> = (\<Sum>v \<in> set vs. count_list vs v)" by (simp add: count_list_eq_length_filter eq_commute)
  also have "\<dots> = length vs" by (rule sum_count_set) auto
  finally show ?thesis .
qed

text \<open>What the statistics are made of.\<close>

lemma GetStats_Inr:
  assumes "GetStats view accessible s = (Inr st, s')"
  shows "\<exists>d fs. d = w_db (es_world s) \<and> fs = scoped_findings accessible d \<and> w_db (es_world s') = d \<and>
    (ds_TotalFindings st, ds_TotalOpen st, ds_TotalCriticalOpen st, ds_NewThisWeek st) = dashboard_counts (w_now (es_world s)) fs \<and>
    ds_BySeverity st = sorted_counts (map f_Severity fs) \<and> ds_ByStatus st = sorted_counts (map f_Status fs) \<and>
    ds_TopFindings st = top_findings d fs \<and>
    ds_EnrichmentCoverage st = coverage (length fs) (enriched_counts view accessible (es_enrichments s) d)"
  using assms unfolding GetStats_def Let_def
  by (auto simp: dashboard_counts_def dest!: dashboard_op_Inr split: prod.splits sum.splits)

lemma dashboard_totals:
  assumes "GetStats view accessible s = (Inr st, s')"
  shows "sum_list (map snd (ds_BySeverity st)) = ds_TotalFindings st" "sum_list (map snd (ds_ByStatus st)) = ds_TotalFindings st"
    "ds_TotalCriticalOpen st \<le> ds_TotalOpen st" "ds_TotalOpen st \<le> ds_TotalFindings st" "ds_NewThisWeek st \<le> ds_TotalFindings st"
proof -
  let ?fs = "scoped_findings accessible (w_db (es_world s))"
  have counts: "ds_TotalFindings st = length ?fs" "ds_TotalOpen st = length (filter (\<lambda>f. f_Status f = 0) ?fs)"
    "ds_TotalCriticalOpen st = length (filter (\<lambda>f. f_Status f = 0 \<and> f_Severity f = 4) ?fs)" "ds_NewThisWeek st \<le> length ?fs"
    using GetStats_Inr[OF assms] by (auto simp: dashboard_counts_def)
  show "sum_list (map snd (ds_BySeverity st)) = ds_TotalFindings st" "sum_list (map snd (ds_ByStatus st)) = ds_TotalFindings st"
    using GetStats_Inr[OF assms] counts(1) by (auto simp: sum_sorted_counts)
  show "ds_TotalCriticalOpen st \<le> ds_TotalOpen st" unfolding counts by (rule filter_length_mono) simp
  show "ds_TotalOpen st \<le> ds_TotalFindings st" unfolding counts by (rule length_filter_le)
  show "ds_NewThisWeek st \<le> ds_TotalFindings st" using counts by simp
qed

text \<open>The view can be older than the last deletion: an administrator may see a coverage above 100 percent.\<close>

lemma stale_coverage: "cov_NVD (coverage 1 (enriched_counts [(''nvd'', 3)] None [] d)) = 300"
  by (simp add: coverage_def enriched_counts_def Let_def)

end
