(* ===== verification/FindingsScope.thy ===== *)
theory FindingsScope
  imports FindingsApi Dashboard ProjectsCorrect
begin

text \<open>
  What the requests that read findings promise: a user sees the database as if the findings of other projects
  were not there, and the size of a group is the number of findings an action on the group changes.
\<close>

section \<open>A user without a role sees nothing of a project\<close>

definition confined :: "uuid set \<Rightarrow> DB \<Rightarrow> DB" where
  "confined S d = d\<lparr>tb_findings := filter (\<lambda>f. f_ProjectID f \<in> S) (tb_findings d)\<rparr>"

definition confined_world :: "uuid set \<Rightarrow> World \<Rightarrow> World" where
  "confined_world S w = w\<lparr>w_db := confined S (w_db w)\<rparr>"

lemma db_call_confined: "db_call (confined_world S w) = (fst (db_call w), confined_world S (snd (db_call w)))"
  by (simp add: confined_world_def db_call.simps split: list.splits)

lemma confined_world_simps [simp]:
  "w_now (confined_world S w) = w_now w" "w_db (confined_world S w) = confined S (w_db w)"
  by (simp_all add: confined_world_def)

text \<open>A query with the same result on both databases.\<close>

lemma db_query_confined:
  assumes "q (confined S (w_db w)) = q (w_db w)"
  shows "db_query q (confined_world S w) = map_prod id (confined_world S) (db_query q w)"
proof -
  obtain ok w' where call: "db_call w = (ok, w')" by fastforce
  show ?thesis using assms db_call_db[OF call] by (simp add: db_query_def db_call_confined call)
qed

lemma db_calls_confined: "db_calls n (confined_world S w) = map_prod id (confined_world S) (db_calls n w)"
  by (induction n arbitrary: w) (simp_all add: db_call_confined split: prod.splits)

lemma confined_simps [simp]:
  "tb_kev (confined S d) = tb_kev d" "tb_bdu (confined S d) = tb_bdu d" "tb_epss (confined S d) = tb_epss d"
  "tb_cvss (confined S d) = tb_cvss d" "tb_scores (confined S d) = tb_scores d" "tb_projects (confined S d) = tb_projects d"
  "tb_users (confined S d) = tb_users d" "tb_roles (confined S d) = tb_roles d"
  by (simp_all add: confined_def)

lemma columns_confined [simp]:
  "in_kev (confined S d) = in_kev d" "in_bdu (confined S d) = in_bdu d" "list_item (confined S d) = list_item d"
  "order_key field (confined S d) = order_key field d"
  by (simp_all add: in_kev_def in_bdu_def list_item_def with_score_def order_key_def sort_column_def fun_eq_iff cong: option.case_cong)

lemma conditions_confined [simp]: "buildBaseWhere ts now (confined S d) ff ex = buildBaseWhere ts now d ff ex"
  by (simp add: buildBaseWhere_def cong: option.case_cong)

text \<open>A filter confined to some of the projects gives the same rows.\<close>

definition within_projects :: "FindingsFilter \<Rightarrow> uuid set \<Rightarrow> bool" where
  "within_projects ff S \<longleftrightarrow> (\<exists>ps. ff_AccessibleProjectIDs ff = Some ps \<and> set ps \<subseteq> S)"

lemma rows_confined:
  assumes "within_projects ff S"
  shows "filter (whereClause (buildBaseWhere ts now d ff ex @ cs)) (tb_findings (confined S d)) =
    filter (whereClause (buildBaseWhere ts now d ff ex @ cs)) (tb_findings d)"
proof -
  obtain ps where ps: "ff_AccessibleProjectIDs ff = Some ps" "set ps \<subseteq> S" using assms by (auto simp: within_projects_def)
  obtain rest where "buildBaseWhere ts now d ff ex = (if ps = [] then [\<lambda>f. False] else [\<lambda>f. f_ProjectID f \<in> set ps]) @ rest"
    unfolding buildBaseWhere_def ps(1) option.case by blast
  then have "f_ProjectID f \<in> S" if "whereClause (buildBaseWhere ts now d ff ex @ cs) f" for f
    using that ps(2) by (auto split: if_splits)
  then show ?thesis by (auto simp: confined_def intro!: filter_cong)
qed

lemmas rows_confined_all = rows_confined[of _ _ _ _ _ _ "[]", simplified]

text \<open>A query and what the code does with its result.\<close>

lemma query_then_confined:
  assumes "q (confined S (w_db w)) = q (w_db w)"
    and "\<And>n w'. K n (confined_world S w') = map_prod id (confined_world S) (K n w')"
  shows "(case db_query q (confined_world S w) of (Inl e, w) \<Rightarrow> (Inl e, w) | (Inr n, w) \<Rightarrow> K n w) =
    map_prod id (confined_world S) (case db_query q w of (Inl e, w) \<Rightarrow> (Inl e, w) | (Inr n, w) \<Rightarrow> K n w)"
proof -
  obtain x w' where "db_query q w = (x, w')" by fastforce
  then show ?thesis using db_query_confined[of q S w] assms by (cases x) simp_all
qed

lemma List_confined:
  assumes "within_projects ff S"
  shows "FindingsRepo_List ts ff (confined_world S w) = map_prod id (confined_world S) (FindingsRepo_List ts ff w)"
proof -
  note rows = rows_confined[OF assms] rows_confined_all[OF assms]
  consider "ff_Cursor ff = Some None" | "ff_Cursor ff = None" | c where "ff_Cursor ff = Some (Some c)" by (metis option.exhaust)
  then show ?thesis
  proof cases
    case 1
    then show ?thesis by (simp add: FindingsRepo_List_def Let_def)
  next
    case 2
    then show ?thesis unfolding FindingsRepo_List_def Let_def 2 option.case confined_world_simps
      by (intro query_then_confined) (simp_all only: rows conditions_confined columns_confined map_prod_simp id_apply)
  next
    case 3
    then show ?thesis unfolding FindingsRepo_List_def Let_def 3 option.case confined_world_simps
      by (intro query_then_confined) (simp_all only: rows conditions_confined columns_confined map_prod_simp id_apply)
  qed
qed

lemma Facets_confined:
  assumes "within_projects ff S"
  shows "Facets ts ff (confined_world S w) = map_prod id (confined_world S) (Facets ts ff w)"
proof -
  have "facet_rows ts now (confined S d) ff ex extra = facet_rows ts now d ff ex extra" for now d ex extra
    using rows_confined[OF assms] by (simp add: facet_rows_def)
  then have "compute_facets ts now ff (confined S d) = compute_facets ts now ff d" for now d
    by (simp add: compute_facets_def Let_def)
  moreover obtain ok w' where "db_calls 12 w = (ok, w')" by fastforce
  ultimately show ?thesis by (simp add: Facets_def db_calls_confined)
qed

lemma group_row_confined: "group_row L (confined S d) groupBy = group_row L d groupBy"
  by (simp add: group_row_def[abs_def] cong: if_cong)

lemma ListGroups_confined:
  assumes "within_projects ff S"
  shows "FindingsRepo_ListGroups L ff groupBy (confined_world S w) = map_prod id (confined_world S) (FindingsRepo_ListGroups L ff groupBy w)"
  unfolding FindingsRepo_ListGroups_def
  by (simp add: db_query_confined rows_confined_all[OF assms] group_rows_def group_row_confined
      split: option.splits sum.splits prod.splits)

text \<open>The dashboard reads the same rows.\<close>

definition confined_state :: "uuid set \<Rightarrow> EnrichState \<Rightarrow> EnrichState" where
  "confined_state S s = s\<lparr>es_world := confined_world S (es_world s)\<rparr>"

lemma confined_state_simps [simp]:
  "w_db (es_world (confined_state S s)) = confined S (w_db (es_world s))" "w_now (es_world (confined_state S s)) = w_now (es_world s)"
  "es_enrichments (confined_state S s) = es_enrichments s"
  by (simp_all add: confined_state_def)

lemma dashboard_op_confined:
  "(\<And>t. q (confined_state S t) = q t) \<Longrightarrow> dashboard_op q (confined_state S s) = map_prod id (confined_state S) (dashboard_op q s)"
proof -
  assume q: "\<And>t. q (confined_state S t) = q t"
  obtain ok w where "db_call (es_world s) = (ok, w)" by fastforce
  moreover have "s\<lparr>es_world := confined_world S w\<rparr> = confined_state S (s\<lparr>es_world := w\<rparr>)" by (simp add: confined_state_def)
  moreover have "confined_state S s\<lparr>es_world := v\<rparr> = s\<lparr>es_world := v\<rparr>" for v by (simp add: confined_state_def)
  moreover have "es_world (confined_state S s) = confined_world S (es_world s)" by (simp add: confined_state_def)
  ultimately show ?thesis by (simp add: dashboard_op_def db_call_confined q Let_def)
qed

lemma GetStats_confined:
  assumes "set ps \<subseteq> S"
  shows "GetStats view (Some ps) (confined_state S s) = map_prod id (confined_state S) (GetStats view (Some ps) s)"
proof -
  have rows: "scoped_findings (Some ps) (confined S d) = scoped_findings (Some ps) d" for d
    using assms by (auto simp: scoped_findings_def buildProjectScope_def confined_def intro!: filter_cong)
  have tops: "top_findings (confined S d) = top_findings d" for d
    by (simp add: top_findings_def[abs_def] with_score_def[abs_def])
  have counts: "enriched_counts view (Some ps) es (confined S d) = enriched_counts view (Some ps) es d" for es d
    by (simp add: enriched_counts_def[abs_def] rows)
  note q = dashboard_op_confined[of _ S]
  show ?thesis unfolding GetStats_def Let_def
    by (simp add: q rows tops counts split: prod.splits sum.splits)
qed

lemma handleDashboardStats_confined:
  assumes "rq_User rq = Some user" "\<not> User_IsAdmin user" "S = {p. role_in (w_db (es_world s)) (u_ID user) p \<noteq> None}"
  shows "fst (handleDashboardStats C view rq (r, confined_state S s)) = fst (handleDashboardStats C view rq (r, s))"
proof -
  obtain x w where l: "ListProjectIDsForUser (u_ID user) (es_world s) = (x, w)" by fastforce
  have c: "ListProjectIDsForUser (u_ID user) (confined_world S (es_world s)) = (x, confined_world S w)"
    using l unfolding ListProjectIDsForUser_def by (subst db_query_confined) (simp_all add: confined_def)
  have sub: "set ids \<subseteq> S" if "x = Inr ids" for ids
    using l that assms(3) unfolding ListProjectIDsForUser_def role_in_def by (auto dest!: db_query_Inr simp: find_None_iff role_row_def)
  have w: "es_world (confined_state S s) = confined_world S (es_world s)"
    "confined_state S s\<lparr>es_world := confined_world S w\<rparr> = confined_state S (s\<lparr>es_world := w\<rparr>)" by (simp_all add: confined_state_def)
  show ?thesis
  proof (cases x)
    case (Inl e)
    then show ?thesis using assms(1,2) l c by (simp add: handleDashboardStats_def w)
  next
    case (Inr ids)
    then show ?thesis using assms(1,2) l c GetStats_confined[OF sub[OF Inr], of view "s\<lparr>es_world := w\<rparr>"]
      by (cases "GetStats view (Some ids) (s\<lparr>es_world := w\<rparr>)") (simp add: handleDashboardStats_def w)
  qed
qed

lemma parse_values_projects: "parse_values L q u ff = Inr ff' \<Longrightarrow> ff_AccessibleProjectIDs ff' = ff_AccessibleProjectIDs ff"
  by (auto simp: parse_values_def checked_def split: option.splits)

lemma map_sum_Inr_Some: "map_sum id Some x = Inr (Some y) \<longleftrightarrow> x = Inr y"
  by (cases x) auto

text \<open>The filter of a user who is no administrator.\<close>

lemma parse_confined:
  assumes "rq_User rq = Some user" "\<not> User_IsAdmin user" "S = {p. role_in (w_db w) (u_ID user) p \<noteq> None}"
    and p: "parseFindingsFilter L q rq w = (x, w')"
  shows "parseFindingsFilter L q rq (confined_world S w) = (x, confined_world S w')" "x = Inr (Some ff) \<Longrightarrow> within_projects ff S"
proof -
  have roles: "db_query (\<lambda>d. sort (map upr_ProjectID (filter (\<lambda>r. upr_UserID r = u_ID user) (tb_roles d)))) (confined_world S w) =
      map_prod id (confined_world S) (ListProjectIDsForUser (u_ID user) w)"
    unfolding ListProjectIDsForUser_def by (rule db_query_confined) (simp add: confined_def)
  show "parseFindingsFilter L q rq (confined_world S w) = (x, confined_world S w')"
    using p assms(1,2) unfolding parseFindingsFilter_def Let_def
    by (auto simp: ListProjectIDsForUser_def roles split: option.splits sum.splits prod.splits if_splits)
  obtain y w1 where l: "ListProjectIDsForUser (u_ID user) w = (y, w1)" by fastforce
  have "set ids \<subseteq> S" if "y = Inr ids" for ids
    using l that assms(3) unfolding ListProjectIDsForUser_def role_in_def
    by (auto dest!: db_query_Inr simp: find_None_iff role_row_def)
  then show "within_projects ff S" if "x = Inr (Some ff)"
    using p assms(1,2) that l unfolding parseFindingsFilter_def Let_def
    by (auto simp: within_projects_def map_sum_Inr_Some dest!: parse_values_projects split: option.splits sum.splits if_splits)
qed

text \<open>
  C3. A user who is no administrator sees the database as if the findings of the projects in which they have
  no role were not in it: with whatever filter, sorting, cursor and grouping, the list, its count, the groups,
  every facet and the dashboard are the same as on the database without those findings, whatever calls fail.
\<close>

theorem foreign_findings_invisible:
  assumes "rq_User rq = Some user" "\<not> User_IsAdmin user" "S = {p. role_in (w_db w) (u_ID user) p \<noteq> None}"
  shows "fst (handleListFindings L q rq (confined_world S w)) = fst (handleListFindings L q rq w) \<and>
    fst (handleFindingsFacets L q rq (confined_world S w)) = fst (handleFindingsFacets L q rq w) \<and>
    fst (handleDashboardStats C view rq (r, s\<lparr>es_world := confined_world S w\<rparr>)) =
      fst (handleDashboardStats C view rq (r, s\<lparr>es_world := w\<rparr>))"
proof -
  obtain x w1 where p: "parseFindingsFilter L q rq w = (x, w1)" by fastforce
  note c = parse_confined[OF assms p]
  have "fst (list_groups_answer L ff (confined_world S w1)) = fst (list_groups_answer L ff w1)" if "within_projects ff S" for ff
    by (simp add: list_groups_answer_def ListGroups_confined[OF that] split: sum.splits prod.splits)
  moreover have "fst (handleDashboardStats C view rq (r, s\<lparr>es_world := confined_world S w\<rparr>)) = fst (handleDashboardStats C view rq (r, s\<lparr>es_world := w\<rparr>))"
    using handleDashboardStats_confined[OF assms(1,2), of S "s\<lparr>es_world := w\<rparr>" C view r] assms(3) by (simp add: confined_state_def)
  ultimately show ?thesis using c(2)
    by (auto simp: handleListFindings_def handleFindingsFacets_def p c(1) List_confined Facets_confined
        split: sum.splits prod.splits option.splits)
qed

text \<open>A user with a role in project 5; finding 11 is in it and finding 21 in another project.\<close>

definition demo_findings_lib :: FindingsLib where
  "demo_findings_lib = \<lparr>fl_lib = demo_lib, fl_float = (\<lambda>_. None), fl_cursor = (\<lambda>_. None), fl_tsmatch = (\<lambda>_ _. True),
     fl_description = (\<lambda>_. None), fl_cwe_name = (\<lambda>_. None), fl_bdu_ids = (\<lambda>_. [])\<rparr>"

definition demo_scope :: World where
  "demo_scope = World_start (members_db\<lparr>tb_findings := [demo_finding\<lparr>f_ID := 21, f_ProjectID := 6\<rparr>, demo_finding]\<rparr>) 9"

theorem foreign_findings_invisible_witness:
  "fst (handleListFindings demo_findings_lib (\<lambda>_. []) members_rq (confined_world {5} demo_scope)) =
     fst (handleListFindings demo_findings_lib (\<lambda>_. []) members_rq demo_scope) \<and>
   map f_ID (tb_findings (w_db (confined_world {5} demo_scope))) = [11] \<and> map f_ID (tb_findings (w_db demo_scope)) = [21, 11]"
proof -
  have user: "rq_User members_rq = Some (User_zero\<lparr>u_ID := 7\<rparr>)" "\<not> User_IsAdmin (User_zero\<lparr>u_ID := 7\<rparr>)"
    by (simp_all add: members_rq_def User_IsAdmin_def User_zero_def)
  have "{5} = {p. role_in (w_db demo_scope) (u_ID (User_zero\<lparr>u_ID := 7\<rparr>)) p \<noteq> None}"
    by (auto simp: demo_scope_def World_start_def members_db_def role_in_def role_row_def)
  note same = foreign_findings_invisible[OF user this, THEN conjunct1]
  have "map f_ID (tb_findings (w_db (confined_world {5} demo_scope))) = [11]" "map f_ID (tb_findings (w_db demo_scope)) = [21, 11]"
    by (simp_all add: demo_scope_def World_start_def confined_def demo_finding_def Finding_zero_def)
  with same show ?thesis by (intro conjI) assumption+
qed

section \<open>Groups and what an action on them changes\<close>

definition group_plain :: "string \<Rightarrow> Finding \<Rightarrow> bool" where
  "group_plain groupBy f \<longleftrightarrow>
     (groupBy = ''cve'' \<longrightarrow> distinct (f_CVEIDs f)) \<and>
     (groupBy = ''component'' \<longrightarrow> CHR ''@'' \<notin> set (f_ComponentVersion f)) \<and>
     (groupBy = ''secret'' \<longrightarrow> (f_Kind f = KindSecrets) = (f_SecretFingerprint f \<noteq> None)) \<and>
     (groupBy = ''cwe'' \<longrightarrow> distinct (f_CWEIDs f) \<and> (\<forall>n \<in> set (f_CWEIDs f). 0 < n \<and> in_int64 n))"

lemma pairs_of_key:
  assumes "\<forall>f \<in> set fs. distinct (keys f)"
  shows "map snd (filter (\<lambda>p. fst p = k) (concat (map (\<lambda>f. map (\<lambda>k. (k, f)) (keys f)) fs))) = filter (\<lambda>f. k \<in> set (keys f)) fs"
proof -
  have one: "map snd (filter (\<lambda>p. fst p = k) (map (\<lambda>k. (k, f)) ks)) = (if k \<in> set ks then [f] else [])" if "distinct ks" for f ks
    using that by (induction ks) auto
  show ?thesis using assms by (induction fs) (auto simp: one)
qed

lemma last_at_splits:
  assumes "x \<notin> set b" "(x :: char) \<notin> set b'"
  shows "(a @ x # b = a' @ x # b') = (a = a' \<and> b = b')"
proof
  assume e: "a @ x # b = a' @ x # b'"
  then have "length a = length a'" using LastIndex_append[OF assms(1), of a] LastIndex_append[OF assms(2), of a'] by simp
  then show "a = a' \<and> b = b'" using e by simp
qed simp

lemma group_rows_member:
  assumes "g \<in> set (group_rows L d groupBy keys fs)"
  obtains k f where "f \<in> set fs" "k \<in> set (keys f)"
    "g = group_row L d groupBy k (map snd (filter (\<lambda>p. fst p = k) (concat (map (\<lambda>f. map (\<lambda>k. (k, f)) (keys f)) fs))))"
  using assms by (auto simp: group_rows_def Let_def)

lemma group_members:
  assumes "group_keys groupBy = Inr keys" "\<forall>f \<in> set fs. group_plain groupBy f" "groupBy \<noteq> ''rule''"
    and "f0 \<in> set fs" "k \<in> set (keys f0)"
  shows "\<exists>extra. group_conditions groupBy k = Inr extra \<and> (\<forall>f \<in> set fs. whereClause extra f = (k \<in> set (keys f)))"
proof -
  have plain: "group_plain groupBy f0" using assms(2,4) by blast
  consider "groupBy = ''cve''" | "groupBy = ''component''" | "groupBy = ''secret''" | "groupBy = ''cwe''"
    using assms(1,3) by (auto simp: group_keys_def split: if_splits)
  then show ?thesis
  proof cases
    case 1
    then show ?thesis using assms(1) by (auto simp: group_keys_def group_conditions_def)
  next
    case 2
    then have k: "k = f_Component f0 @ CHR ''@'' # f_ComponentVersion f0" using assms(1,5) by (auto simp: group_keys_def)
    have no_at: "CHR ''@'' \<notin> set (f_ComponentVersion f)" if "f \<in> set fs" for f using assms(2) 2 that by (simp add: group_plain_def)
    have "group_conditions groupBy k = Inr [\<lambda>f. f_Component f = f_Component f0, \<lambda>f. f_ComponentVersion f = f_ComponentVersion f0]"
      using 2 LastIndex_append[OF no_at[OF assms(4)], of "f_Component f0"] by (simp add: k group_conditions_def)
    moreover have "keys = (\<lambda>f. [f_Component f @ CHR ''@'' # f_ComponentVersion f])" using 2 assms(1) by (auto simp: group_keys_def)
    ultimately show ?thesis using last_at_splits[OF no_at no_at, OF assms(4)] by (fastforce simp: k)
  next
    case 3
    then show ?thesis using assms(1,2,4,5) plain
      by (auto simp: group_keys_def group_conditions_def group_plain_def split: option.splits if_splits)
  next
    case 4
    then obtain n where n: "k = strconv_Itoa n" "n \<in> set (f_CWEIDs f0)" using assms(1,5) by (auto simp: group_keys_def)
    then have "strconv_Atoi k = Some n" "0 < n" using plain 4 by (simp_all add: Atoi_Itoa group_plain_def)
    then show ?thesis using 4 assms(1) n(1) by (auto simp: group_keys_def group_conditions_def dest: Itoa_inject)
  qed
qed

lemma group_row_simps: "g_GroupKey (group_row L d groupBy k fs) = display_key groupBy k" "g_FindingsCount (group_row L d groupBy k fs) = length fs"
  by (simp_all add: group_row_def Let_def)

lemma display_key_other: "groupBy \<noteq> ''rule'' \<Longrightarrow> display_key groupBy k = k"
  by (simp add: display_key_def)


text \<open>Two findings with the same identifier, of the same rule under two names, the second a secret without fingerprint.\<close>

definition demo_groups :: World where
  "demo_groups = World_start (members_db\<lparr>tb_findings :=
     [demo_finding\<lparr>f_CVEIDs := [''CVE-1''], f_RuleID := Some ''r'', f_RuleName := Some ''a''\<rparr>,
      demo_finding\<lparr>f_ID := 12, f_Kind := KindSecrets, f_CVEIDs := [''CVE-1''], f_RuleID := Some ''r'', f_RuleName := Some ''b'', f_FilePath := ''p''\<rparr>]\<rparr>) 9"

lemma demo_groups_cve: "case fst (FindingsRepo_ListGroups demo_findings_lib FindingsFilter_zero ''cve'' demo_groups) of
    Inr (gs, n) \<Rightarrow> map g_FindingsCount gs = [2] | _ \<Rightarrow> False"
  by code_simp


text \<open>
  Elsewhere the two differ: the groups by rule are keyed by identifier and name but found by identifier, the
  fall-back key of a secret finds nothing, and a filter by identifier is dropped by an action on a component.
\<close>

definition found_by_key :: "FindingsFilter \<Rightarrow> string \<Rightarrow> string \<Rightarrow> World \<Rightarrow> uuid list" where
  "found_by_key ff groupBy key w = (case group_conditions groupBy key of Inl _ \<Rightarrow> []
     | Inr extra \<Rightarrow> map f_ID (filter (whereClause (buildBaseWhere (\<lambda>_ _. True) (w_now w) (w_db w) (overlay_cleared ff) [] @ extra))
         (tb_findings (w_db w))))"

lemma ListIDsByGroup_found:
  "ListIDsByGroup (\<lambda>_ _. True) ff groupBy key w = (Inr (ids, n), w') \<Longrightarrow> ids = found_by_key ff groupBy key w \<and> n = length ids"
  unfolding ListIDsByGroup_def found_by_key_def Let_def
  by (auto dest!: db_query_both split: sum.splits prod.splits if_splits)

definition group_sizes :: "FindingsFilter \<Rightarrow> string \<Rightarrow> World \<Rightarrow> (nat \<times> nat) list" where
  "group_sizes ff groupBy w = (case fst (FindingsRepo_ListGroups demo_findings_lib ff groupBy w) of Inl _ \<Rightarrow> []
     | Inr (gs, _) \<Rightarrow> map (\<lambda>g. (g_FindingsCount g, length (found_by_key ff groupBy (g_GroupKey g) w))) gs)"

lemma rule_sizes_differ: "group_sizes FindingsFilter_zero ''rule'' demo_groups = [(1, 2), (1, 2)]"
  by code_simp

lemma secret_sizes_differ: "group_sizes FindingsFilter_zero ''secret'' demo_groups = [(1, 0)]"
  by code_simp

lemma filtered_sizes_differ: "group_sizes (FindingsFilter_zero\<lparr>ff_CVE := ''CVE-1''\<rparr>) ''component''
     (demo_groups\<lparr>w_db := (w_db demo_groups)\<lparr>tb_findings := demo_finding # tb_findings (w_db demo_groups)\<rparr>\<rparr>) = [(2, 3)]"
  by code_simp

end
