(* ===== verification/SavedViews.thy ===== *)
theory SavedViews
  imports Access
begin

text \<open>
  Saved views: \<open>internal/storage/saved_views_repo.go\<close> and \<open>internal/api/saved_views.go\<close>. A view is the name and
  the filter of a user; the filter is the raw JSON of the request. A body is given as decoded, the text of its
  query as it came.
\<close>

section \<open>The repository\<close>

definition SavedViews_ListForUser :: "uuid \<Rightarrow> SavedView list op" where
  "SavedViews_ListForUser u = db_query (\<lambda>d. sort_key (\<lambda>v. (- sv_UpdatedAt v, sv_ID v)) (filter (\<lambda>v. sv_UserID v = u) (tb_saved_views d)))"

definition SavedViews_GetByID :: "uuid \<Rightarrow> SavedView op" where
  "SavedViews_GetByID i = db_query_row (\<lambda>d. find (\<lambda>v. sv_ID v = i) (tb_saved_views d))"

text \<open>The primary key and the reference to the user are checked by the database.\<close>

definition insert_view :: "SavedView \<Rightarrow> DB \<Rightarrow> err + unit \<times> DB" where
  "insert_view v d =
     (if sv_ID v \<in> sv_ID ` set (tb_saved_views d) then Inl (Err ''saved_views_pkey'')
      else if sv_UserID v \<notin> u_ID ` set (tb_users d) then Inl (Err ''saved_views_user_id_fkey'')
      else Inr ((), d\<lparr>tb_saved_views := tb_saved_views d @ [v]\<rparr>))"

definition SavedViews_Create :: "SavedView \<Rightarrow> SavedView op" where
  "SavedViews_Create v w =
     (case (if sv_ID v = uuid_Nil then uuid_New w else (sv_ID v, w)) of (i, w) \<Rightarrow>
        let now = w_now w;
            v = v\<lparr>sv_ID := i, sv_CreatedAt := (if sv_CreatedAt v = 0 then now else sv_CreatedAt v),
              sv_UpdatedAt := (if sv_UpdatedAt v = 0 then now else sv_UpdatedAt v)\<rparr>
        in (case db_exec (insert_view v) w of (Inl e, w) \<Rightarrow> (Inl e, w) | (Inr _, w) \<Rightarrow> (Inr v, w)))"

definition own_view :: "uuid \<Rightarrow> uuid \<Rightarrow> SavedView \<Rightarrow> bool" where
  "own_view i u v \<longleftrightarrow> sv_ID v = i \<and> sv_UserID v = u"

text \<open>The statements with \<open>WHERE id = $ AND user_id = $\<close>; the result is the number of rows.\<close>

definition rename_views :: "uuid \<Rightarrow> uuid \<Rightarrow> string \<Rightarrow> time \<Rightarrow> DB \<Rightarrow> err + nat \<times> DB" where
  "rename_views i u name now d = Inr (length (filter (own_view i u) (tb_saved_views d)),
     d\<lparr>tb_saved_views := map (\<lambda>v. if own_view i u v then v\<lparr>sv_Name := name, sv_UpdatedAt := now\<rparr> else v) (tb_saved_views d)\<rparr>)"

definition delete_views :: "uuid \<Rightarrow> uuid \<Rightarrow> DB \<Rightarrow> err + nat \<times> DB" where
  "delete_views i u d = Inr (length (filter (own_view i u) (tb_saved_views d)),
     d\<lparr>tb_saved_views := filter (\<lambda>v. \<not> own_view i u v) (tb_saved_views d)\<rparr>)"

definition rows_affected :: "(err + nat) \<times> World \<Rightarrow> (err + unit) \<times> World" where
  "rows_affected = (\<lambda>(r, w). case r of Inl e \<Rightarrow> (Inl e, w) | Inr n \<Rightarrow> if n = 0 then (Inl ErrNoRows, w) else (Inr (), w))"

definition UpdateName :: "uuid \<Rightarrow> uuid \<Rightarrow> string \<Rightarrow> unit op" where
  "UpdateName i u name w = rows_affected (db_exec (rename_views i u name (w_now w)) w)"

definition SavedViews_Delete :: "uuid \<Rightarrow> uuid \<Rightarrow> unit op" where
  "SavedViews_Delete i u w = rows_affected (db_exec (delete_views i u) w)"

section \<open>The handlers\<close>

record savedViewRequest =
  vr_Name :: string
  vr_Query :: string

definition savedViewMaxNameLen :: nat where "savedViewMaxNameLen = 120"

definition savedViewMaxQueryLen :: nat where "savedViewMaxQueryLen = 8 * 1024"

definition bad_view :: "string \<Rightarrow> response" where
  "bad_view message = respondError 400 ''VALIDATION_ERROR'' message"

text \<open>\<open>json.Unmarshal\<close> into a map takes an object, and also \<open>null\<close>.\<close>

definition into_map :: "Decoder \<Rightarrow> string \<Rightarrow> json option" where
  "into_map dec query = (case jd_parse dec query of
     Some (JsonObject obj) \<Rightarrow> Some (JsonObject obj) | Some JsonNull \<Rightarrow> Some JsonNull | _ \<Rightarrow> None)"

definition view_name :: "string \<Rightarrow> response + string" where
  "view_name raw = (let name = strings_TrimSpace raw in
     if name = [] then Inl (bad_view ''name is required'')
     else if length name > savedViewMaxNameLen then Inl (bad_view ''name is too long'')
     else Inr name)"

definition handleListSavedViews :: handler where
  "handleListSavedViews rq w = (case rq_User rq of
     None \<Rightarrow> (Panic, w)
   | Some user \<Rightarrow> (case SavedViews_ListForUser (u_ID user) w of
       (Inl e, w) \<Rightarrow> (respondError 500 ''INTERNAL_ERROR'' ''failed to list saved views'', w)
     | (Inr views, w) \<Rightarrow> (Response 200 (SavedViewsData views), w)))"

definition handleCreateSavedView :: "Decoder \<Rightarrow> savedViewRequest option \<Rightarrow> handler" where
  "handleCreateSavedView dec body rq w = (case body of
     None \<Rightarrow> (bad_view ''invalid request body'', w)
   | Some req \<Rightarrow> (case view_name (vr_Name req) of
       Inl r \<Rightarrow> (r, w)
     | Inr name \<Rightarrow>
         if vr_Query req = [] then (bad_view ''query is required'', w)
         else if length (vr_Query req) > savedViewMaxQueryLen then (bad_view ''query payload is too large'', w)
         else (case into_map dec (vr_Query req) of
             None \<Rightarrow> (bad_view ''query must be a JSON object'', w)
           | Some q \<Rightarrow> (case rq_User rq of
               None \<Rightarrow> (Panic, w)
             | Some user \<Rightarrow> (case SavedViews_Create \<lparr>sv_ID = uuid_Nil, sv_UserID = u_ID user, sv_Name = name, sv_Query = q,
                   sv_CreatedAt = 0, sv_UpdatedAt = 0\<rparr> w of
                 (Inl e, w) \<Rightarrow> (respondError 500 ''INTERNAL_ERROR'' ''failed to create saved view'', w)
               | (Inr view, w) \<Rightarrow> (Response 201 (SavedViewData view), w))))))"

definition handleUpdateSavedView :: "string option \<Rightarrow> handler" where
  "handleUpdateSavedView body rq w = (case rq_Param rq ''id'' of
     None \<Rightarrow> (bad_view ''invalid saved view id'', w)
   | Some i \<Rightarrow> (case body of
       None \<Rightarrow> (bad_view ''invalid request body'', w)
     | Some raw \<Rightarrow> (case view_name raw of
         Inl r \<Rightarrow> (r, w)
       | Inr name \<Rightarrow> (case rq_User rq of
           None \<Rightarrow> (Panic, w)
         | Some user \<Rightarrow> (case UpdateName i (u_ID user) name w of
             (Inl e, w) \<Rightarrow> (if e = ErrNoRows then respondError 404 ''NOT_FOUND'' ''saved view not found''
                else respondError 500 ''INTERNAL_ERROR'' ''failed to update saved view'', w)
           | (Inr _, w) \<Rightarrow> (case SavedViews_GetByID i w of
               (Inl e, w) \<Rightarrow> (respondError 500 ''INTERNAL_ERROR'' ''failed to reload saved view'', w)
             | (Inr view, w) \<Rightarrow> (Response 200 (SavedViewData view), w)))))))"

definition handleDeleteSavedView :: handler where
  "handleDeleteSavedView rq w = (case rq_Param rq ''id'' of
     None \<Rightarrow> (bad_view ''invalid saved view id'', w)
   | Some i \<Rightarrow> (case rq_User rq of
       None \<Rightarrow> (Panic, w)
     | Some user \<Rightarrow> (case SavedViews_Delete i (u_ID user) w of
         (Inl e, w) \<Rightarrow> (if e = ErrNoRows then respondError 404 ''NOT_FOUND'' ''saved view not found''
            else respondError 500 ''INTERNAL_ERROR'' ''failed to delete saved view'', w)
       | (Inr _, w) \<Rightarrow> (Response 204 NoBody, w))))"

section \<open>Views are private\<close>

definition shown_views :: "response \<Rightarrow> SavedView list" where
  "shown_views r = (case r of Response _ (SavedViewData v) \<Rightarrow> [v] | Response _ (SavedViewsData vs) \<Rightarrow> vs | _ \<Rightarrow> [])"

text \<open>
  What a request of \<open>u\<close> may do to the views: it shows views of \<open>u\<close> only, keeps the views of all others in their
  order, and every other table; the identifiers stay unique.
\<close>

definition views_private :: "uuid \<Rightarrow> response \<Rightarrow> DB \<Rightarrow> DB \<Rightarrow> bool" where
  "views_private u r d d' \<longleftrightarrow> distinct (map sv_ID (tb_saved_views d')) \<and> (\<forall>v \<in> set (shown_views r). sv_UserID v = u) \<and>
     filter (\<lambda>v. sv_UserID v \<noteq> u) (tb_saved_views d') = filter (\<lambda>v. sv_UserID v \<noteq> u) (tb_saved_views d) \<and>
     d'\<lparr>tb_saved_views := []\<rparr> = d\<lparr>tb_saved_views := []\<rparr>"

text \<open>The contract of the four handlers.\<close>

locale views_handler =
  fixes h :: handler
  assumes anonymous: "rq_User rq = None \<Longrightarrow> w_db (snd (h rq w)) = w_db w"
    and own_only: "rq_User rq = Some user \<Longrightarrow> distinct (map sv_ID (tb_saved_views (w_db w))) \<Longrightarrow>
      h rq w = (r, w') \<Longrightarrow> views_private (u_ID user) r (w_db w) (w_db w')"
begin

lemma others_kept:
  assumes "rq_User rq = Some user" "distinct (map sv_ID (tb_saved_views (w_db w)))" "v \<in> set (tb_saved_views (w_db w))" "sv_UserID v \<noteq> u_ID user"
  shows "v \<in> set (tb_saved_views (w_db (snd (h rq w))))"
proof -
  have "filter (\<lambda>v. sv_UserID v \<noteq> u_ID user) (tb_saved_views (w_db (snd (h rq w)))) = filter (\<lambda>v. sv_UserID v \<noteq> u_ID user) (tb_saved_views (w_db w))"
    using own_only[OF assms(1,2), of "fst (h rq w)" "snd (h rq w)"] by (simp add: views_private_def)
  moreover have "v \<in> set (filter (\<lambda>v. sv_UserID v \<noteq> u_ID user) (tb_saved_views (w_db w)))" using assms(3,4) by simp
  ultimately have "v \<in> set (filter (\<lambda>v. sv_UserID v \<noteq> u_ID user) (tb_saved_views (w_db (snd (h rq w)))))" by (simp only:)
  then show ?thesis by simp
qed

end

lemma views_same: "distinct (map sv_ID (tb_saved_views d)) \<Longrightarrow> \<forall>v \<in> set (shown_views r). sv_UserID v = u \<Longrightarrow> views_private u r d d"
  by (simp add: views_private_def)

lemma shown_error [simp]: "shown_views (respondError s c m) = []" "shown_views (bad_view m) = []" "shown_views Panic = []"
  "shown_views (Response s NoBody) = []" "shown_views (Response s (SavedViewData v)) = [v]" "shown_views (Response s (SavedViewsData vs)) = vs"
  by (simp_all add: shown_views_def respondError_def bad_view_def)

interpretation list_views: views_handler handleListSavedViews
proof
  fix rq w r w' user
  assume u: "rq_User rq = Some user" and d: "distinct (map sv_ID (tb_saved_views (w_db w)))" and h: "handleListSavedViews rq w = (r, w')"
  obtain x w1 where x: "SavedViews_ListForUser (u_ID user) w = (x, w1)" by fastforce
  then have "w_db w1 = w_db w" by (auto simp: SavedViews_ListForUser_def dest: db_query_db)
  moreover have "\<forall>v \<in> set vs. sv_UserID v = u_ID user" if "x = Inr vs" for vs
    using x that by (auto simp: SavedViews_ListForUser_def dest!: db_query_Inr)
  ultimately show "views_private (u_ID user) r (w_db w) (w_db w')"
    using h u x d by (cases x) (auto simp: handleListSavedViews_def intro!: views_same)
qed (simp add: handleListSavedViews_def)

lemma SavedViews_Create_Inl: "SavedViews_Create v w = (Inl e, w') \<Longrightarrow> w_db w' = w_db w"
  by (auto simp: SavedViews_Create_def Let_def uuid_New_def dest!: db_exec_Inl split: prod.splits sum.splits if_splits)

lemma SavedViews_Create_Inr:
  "SavedViews_Create v w = (Inr v', w') \<Longrightarrow> sv_UserID v' = sv_UserID v \<and> sv_ID v' \<notin> sv_ID ` set (tb_saved_views (w_db w)) \<and>
    w_db w' = (w_db w)\<lparr>tb_saved_views := tb_saved_views (w_db w) @ [v']\<rparr>"
  by (auto simp: SavedViews_Create_def Let_def uuid_New_def insert_view_def dest!: db_exec_Inr split: prod.splits sum.splits if_splits)

interpretation create_view: views_handler "handleCreateSavedView dec body" for dec body
proof
  fix rq w r w' user
  assume u: "rq_User rq = Some user" and d: "distinct (map sv_ID (tb_saved_views (w_db w)))" and h: "handleCreateSavedView dec body rq w = (r, w')"
  let ?v = "\<lambda>name q. \<lparr>sv_ID = uuid_Nil, sv_UserID = u_ID user, sv_Name = name, sv_Query = q, sv_CreatedAt = 0, sv_UpdatedAt = 0\<rparr>"
  have refused: "views_private (u_ID user) r (w_db w) (w_db w')" if "w_db w' = w_db w" "shown_views r = []"
    using that d by (simp add: views_same)
  show "views_private (u_ID user) r (w_db w) (w_db w')"
  proof (cases "\<exists>req name q. body = Some req \<and> view_name (vr_Name req) = Inr name \<and> vr_Query req \<noteq> [] \<and>
      length (vr_Query req) \<le> savedViewMaxQueryLen \<and> into_map dec (vr_Query req) = Some q")
    case False
    then show ?thesis using h u unfolding handleCreateSavedView_def
      by (intro refused) (auto simp: view_name_def Let_def split: option.splits sum.splits if_splits)
  next
    case True
    then obtain req name q where ok: "body = Some req" "view_name (vr_Name req) = Inr name" "vr_Query req \<noteq> []"
      "\<not> length (vr_Query req) > savedViewMaxQueryLen" "into_map dec (vr_Query req) = Some q" by auto
    obtain x w1 where x: "SavedViews_Create (?v name q) w = (x, w1)" by fastforce
    show ?thesis
    proof (cases x)
      case (Inl e)
      then show ?thesis using h u ok x SavedViews_Create_Inl by (intro refused) (auto simp: handleCreateSavedView_def)
    next
      case (Inr view)
      then have "r = Response 201 (SavedViewData view)" "w' = w1" using h u ok x by (simp_all add: handleCreateSavedView_def)
      then show ?thesis using SavedViews_Create_Inr[of "?v name q" w view w1] x Inr d by (simp add: views_private_def)
    qed
  qed
qed (auto simp: handleCreateSavedView_def split: option.splits sum.splits)

lemma rows_affected_Inl: "rows_affected (db_exec stmt w) = (Inl e, w') \<Longrightarrow> (\<And>d n d'. stmt d = Inr (n, d') \<Longrightarrow> n = 0 \<Longrightarrow> d' = d) \<Longrightarrow> w_db w' = w_db w"
  by (auto simp: rows_affected_def dest: db_exec_Inl db_exec_Inr split: prod.splits sum.splits if_splits)

lemma rows_affected_Inr: "rows_affected (db_exec stmt w) = (Inr u, w') \<Longrightarrow> \<exists>n. stmt (w_db w) = Inr (Suc n, w_db w')"
  by (auto simp: rows_affected_def gr0_conv_Suc dest!: db_exec_Inr split: prod.splits sum.splits if_splits)

text \<open>A statement that finds no row changes nothing.\<close>

lemma no_rows_unchanged: "rename_views i u name now d = Inr (0, d') \<Longrightarrow> d' = d" "delete_views i u d = Inr (0, d') \<Longrightarrow> d' = d"
proof -
  assume "rename_views i u name now d = Inr (0, d')"
  then have none: "\<forall>v \<in> set (tb_saved_views d). \<not> own_view i u v" and d': "d' = d\<lparr>tb_saved_views :=
      map (\<lambda>v. if own_view i u v then v\<lparr>sv_Name := name, sv_UpdatedAt := now\<rparr> else v) (tb_saved_views d)\<rparr>"
    by (auto simp: rename_views_def filter_empty_conv)
  have "map (\<lambda>v. if own_view i u v then v\<lparr>sv_Name := name, sv_UpdatedAt := now\<rparr> else v) (tb_saved_views d) = tb_saved_views d"
    using none by (intro map_idI) auto
  then show "d' = d" using d' by simp
next
  assume "delete_views i u d = Inr (0, d')"
  then show "d' = d" by (auto simp: delete_views_def filter_empty_conv)
qed

lemma rename_private:
  assumes "rename_views i u name now d = Inr (n, d')" "distinct (map sv_ID (tb_saved_views d))" "\<forall>v \<in> set (shown_views r). sv_UserID v = u"
  shows "views_private u r d d'"
proof -
  let ?f = "\<lambda>v. if own_view i u v then v\<lparr>sv_Name := name, sv_UpdatedAt := now\<rparr> else v"
  have d': "d' = d\<lparr>tb_saved_views := map ?f (tb_saved_views d)\<rparr>" using assms(1) by (simp add: rename_views_def)
  have "map sv_ID (map ?f vs) = map sv_ID vs" for vs by (induction vs) auto
  moreover have "filter (\<lambda>v. sv_UserID v \<noteq> u) (map ?f vs) = filter (\<lambda>v. sv_UserID v \<noteq> u) vs" for vs
    by (induction vs) (auto simp: own_view_def)
  ultimately show ?thesis using assms(2,3) by (simp add: views_private_def d' del: map_map)
qed

lemma delete_private:
  assumes "delete_views i u d = Inr (n, d')" "distinct (map sv_ID (tb_saved_views d))" "\<forall>v \<in> set (shown_views r). sv_UserID v = u"
  shows "views_private u r d d'"
proof -
  have d': "d' = d\<lparr>tb_saved_views := filter (\<lambda>v. \<not> own_view i u v) (tb_saved_views d)\<rparr>" using assms(1) by (simp add: delete_views_def)
  have "filter (\<lambda>v. sv_UserID v \<noteq> u) (filter (\<lambda>v. \<not> own_view i u v) vs) = filter (\<lambda>v. sv_UserID v \<noteq> u) vs" for vs
    by (induction vs) (auto simp: own_view_def)
  then show ?thesis using assms(2,3) by (simp add: views_private_def d' distinct_map_filter)
qed

text \<open>After a renaming the view read again is the one renamed.\<close>

lemma renamed_view_owner:
  assumes "rename_views i u name now d = Inr (Suc n, d')" "distinct (map sv_ID (tb_saved_views d))" "find (\<lambda>v. sv_ID v = i) (tb_saved_views d') = Some view"
  shows "sv_UserID view = u"
proof -
  have "filter (own_view i u) (tb_saved_views d) \<noteq> []" using assms(1) by (auto simp: rename_views_def)
  then obtain v where v: "v \<in> set (tb_saved_views d)" "sv_ID v = i" "sv_UserID v = u" by (auto simp: filter_empty_conv own_view_def)
  have "view \<in> set (tb_saved_views d')" "sv_ID view = i" using assms(3) by (auto simp: find_Some_iff)
  then obtain v' where v': "v' \<in> set (tb_saved_views d)" "sv_ID v' = i" "sv_UserID view = sv_UserID v'"
    using assms(1) by (auto simp: rename_views_def split: if_splits)
  then have "v' = v" using v assms(2) by (metis distinct_map inj_onD)
  then show ?thesis using v v' by simp
qed

interpretation rename_view: views_handler "handleUpdateSavedView body" for body
proof
  fix rq w r w' user
  assume u: "rq_User rq = Some user" and d: "distinct (map sv_ID (tb_saved_views (w_db w)))" and h: "handleUpdateSavedView body rq w = (r, w')"
  show "views_private (u_ID user) r (w_db w) (w_db w')"
  proof (cases "\<exists>i name n. rq_Param rq ''id'' = Some i \<and> body = Some name \<and> view_name name = Inr n")
    case False
    then have "w' = w \<and> shown_views r = []" using h u unfolding handleUpdateSavedView_def
      by (auto simp: view_name_def Let_def split: option.splits sum.splits if_splits)
    then show ?thesis using d by (simp add: views_same)
  next
    case True
    then obtain i name n where asked: "rq_Param rq ''id'' = Some i" "body = Some name" and n: "view_name name = Inr n" by blast
    obtain x w1 where x: "UpdateName i (u_ID user) n w = (x, w1)" by fastforce
    show ?thesis
    proof (cases x)
      case (Inl e)
      then have "w_db w1 = w_db w" using x rows_affected_Inl no_rows_unchanged(1) unfolding UpdateName_def by metis
      then show ?thesis using h u asked n x Inl d by (auto simp: handleUpdateSavedView_def views_same)
    next
      case (Inr y)
      then obtain k where k: "rename_views i (u_ID user) n (w_now w) (w_db w) = Inr (Suc k, w_db w1)"
        using x rows_affected_Inr unfolding UpdateName_def by metis
      obtain g w2 where g: "SavedViews_GetByID i w1 = (g, w2)" by fastforce
      then have same: "w_db w2 = w_db w1" by (auto simp: SavedViews_GetByID_def dest: db_query_row_db)
      have "sv_UserID view = u_ID user" if "g = Inr view" for view
        using renamed_view_owner[OF k d] g that by (auto simp: SavedViews_GetByID_def dest!: db_query_row_Inr)
      then show ?thesis using h u asked n x Inr g same rename_private[OF k d]
        by (cases g) (auto simp: handleUpdateSavedView_def)
    qed
  qed
qed (auto simp: handleUpdateSavedView_def split: option.splits sum.splits)

interpretation delete_view: views_handler handleDeleteSavedView
proof
  fix rq w r w' user
  assume u: "rq_User rq = Some user" and d: "distinct (map sv_ID (tb_saved_views (w_db w)))" and h: "handleDeleteSavedView rq w = (r, w')"
  show "views_private (u_ID user) r (w_db w) (w_db w')"
  proof (cases "rq_Param rq ''id''")
    case None
    then show ?thesis using h d by (auto simp: handleDeleteSavedView_def views_same)
  next
    case (Some i)
    obtain x w1 where x: "SavedViews_Delete i (u_ID user) w = (x, w1)" by fastforce
    show ?thesis
    proof (cases x)
      case (Inl e)
      then have "w_db w1 = w_db w" using x rows_affected_Inl no_rows_unchanged(2) unfolding SavedViews_Delete_def by metis
      then show ?thesis using h u Some x Inl d by (auto simp: handleDeleteSavedView_def views_same)
    next
      case (Inr y)
      then obtain k where k: "delete_views i (u_ID user) (w_db w) = Inr (Suc k, w_db w1)"
        using x rows_affected_Inr unfolding SavedViews_Delete_def by metis
      then show ?thesis using h u Some x Inr delete_private[OF k d] by (auto simp: handleDeleteSavedView_def)
    qed
  qed
qed (auto simp: handleDeleteSavedView_def split: option.splits)

text \<open>
  C21. The saved views of a user are private: whatever request a user sends to any of the four handlers, and
  whatever call to the database fails, the answer shows views of that user only, the views of everybody else and all
  other tables stay as they are, and identifiers stay unique.
\<close>

theorem saved_views_are_private:
  assumes "rq_User rq = Some user" "distinct (map sv_ID (tb_saved_views (w_db w)))"
    and "h \<in> {handleListSavedViews, handleCreateSavedView dec created, handleUpdateSavedView renamed, handleDeleteSavedView}"
    and "h rq w = (r, w')"
  shows "views_private (u_ID user) r (w_db w) (w_db w')"
  using assms(3,4) list_views.own_only[OF assms(1,2)] create_view.own_only[OF assms(1,2)] rename_view.own_only[OF assms(1,2)]
    delete_view.own_only[OF assms(1,2)] by blast

definition demo_views :: World where
  "demo_views = World_start (DB_empty\<lparr>tb_users := [User_zero\<lparr>u_ID := 7\<rparr>, User_zero\<lparr>u_ID := 8\<rparr>],
     tb_saved_views := [\<lparr>sv_ID = 1, sv_UserID = 7, sv_Name = ''a'', sv_Query = JsonNull, sv_CreatedAt = 1, sv_UpdatedAt = 1\<rparr>,
       \<lparr>sv_ID = 2, sv_UserID = 8, sv_Name = ''b'', sv_Query = JsonNull, sv_CreatedAt = 1, sv_UpdatedAt = 1\<rparr>]\<rparr>) 9"

definition demo_views_decoder :: Decoder where
  "demo_views_decoder = \<lparr>jd_parse = (\<lambda>_. Some JsonNull), jd_stream = (\<lambda>_. ([], True)), jd_text = (\<lambda>_. []), jd_float = (\<lambda>_. None),
     jd_uuid = (\<lambda>_. None), jd_hash = id, jd_walk = id\<rparr>"

definition demo_views_rq :: "uuid \<Rightarrow> Request" where
  "demo_views_rq i = \<lparr>rq_User = Some (User_zero\<lparr>u_ID := 7\<rparr>), rq_Token = None, rq_Session = None, rq_Param = (\<lambda>_. Some i), rq_TokenInvalid = False\<rparr>"

text \<open>Deleting the view of somebody else is answered as if it did not exist; a filter \<open>null\<close> is accepted.\<close>

theorem saved_views_are_private_witness:
  "views_private 7 (fst (handleDeleteSavedView (demo_views_rq 2) demo_views)) (w_db demo_views)
     (w_db (snd (handleDeleteSavedView (demo_views_rq 2) demo_views))) \<and>
   map sv_ID (tb_saved_views (w_db (snd (handleDeleteSavedView (demo_views_rq 2) demo_views)))) = [1, 2] \<and>
   map sv_ID (tb_saved_views (w_db (snd (handleDeleteSavedView (demo_views_rq 1) demo_views)))) = [2]"
proof -
  have user: "rq_User (demo_views_rq 2) = Some (User_zero\<lparr>u_ID := 7\<rparr>)" by (simp add: demo_views_rq_def)
  have ids: "distinct (map sv_ID (tb_saved_views (w_db demo_views)))" by (simp add: demo_views_def World_start_def)
  have "map sv_ID (tb_saved_views (w_db (snd (handleDeleteSavedView (demo_views_rq 2) demo_views)))) = [1, 2]"
    "map sv_ID (tb_saved_views (w_db (snd (handleDeleteSavedView (demo_views_rq 1) demo_views)))) = [2]" by code_simp+
  then show ?thesis using saved_views_are_private[OF user ids, of handleDeleteSavedView demo_views_decoder None None] by simp
qed

lemma null_filter_accepted:
  assumes "jd_parse dec ''null'' = Some JsonNull"
  shows "into_map dec ''null'' = Some JsonNull"
  by (simp add: into_map_def assms)

end
