(* ===== verification/Workspace.thy ===== *)
theory Workspace
  imports Projects Gates Encoding
begin

text \<open>
  The workspace: \<open>internal/storage/workspace_repo.go\<close> and \<open>internal/api/workspace.go\<close>. Members, teams and tags are
  listed for every user; texts are ordered by the collation of the database. Random bytes are an argument, \<open>None\<close>
  when they cannot be read.
\<close>

section \<open>The repository\<close>

definition bounded_limit :: "nat \<Rightarrow> nat \<Rightarrow> int \<Rightarrow> nat" where
  "bounded_limit fallback most n = (if n \<le> 0 \<or> n > int most then fallback else nat n)"

definition contains_pattern :: "string \<Rightarrow> string" where
  "contains_pattern q = ''%'' @ strings_ToLower (strings_TrimSpace q) @ ''%''"

definition ListTeams :: "Lib \<Rightarrow> string \<Rightarrow> int \<Rightarrow> Team list op" where
  "ListTeams L q limit = db_query (\<lambda>d. take (bounded_limit 50 100 limit) (sort_key (\<lambda>t. collation L (tm_Name t))
     (if strings_TrimSpace q \<noteq> [] then filter (\<lambda>t. sql_like (contains_pattern q) (strings_ToLower (tm_Name t))) (tb_teams d)
      else tb_teams d)))"

text \<open>The id of the request is kept when it has one.\<close>

definition insert_team :: "Team \<Rightarrow> DB \<Rightarrow> err + unit \<times> DB" where
  "insert_team t d = (if tm_ID t \<in> tm_ID ` set (tb_teams d) then Inl ErrUnique else Inr ((), d\<lparr>tb_teams := tb_teams d @ [t]\<rparr>))"

definition CreateTeam :: "Team \<Rightarrow> Team op" where
  "CreateTeam t w =
     (case (if tm_ID t = uuid_Nil then uuid_New w else (tm_ID t, w)) of (i, w) \<Rightarrow>
        let t = t\<lparr>tm_ID := i, tm_CreatedAt := w_now w, tm_UpdatedAt := w_now w\<rparr>
        in (case db_exec (insert_team t) w of (Inl e, w) \<Rightarrow> (Inl e, w) | (Inr _, w) \<Rightarrow> (Inr t, w)))"

definition ListMembers :: "Lib \<Rightarrow> string \<Rightarrow> int \<Rightarrow> WorkspaceMember list op" where
  "ListMembers L q limit = db_query (\<lambda>d.
     let like = (\<lambda>s. sql_like (contains_pattern q) (strings_ToLower s));
         rows = (if strings_TrimSpace q \<noteq> [] then filter (\<lambda>u. like (u_Email u) \<or> like (u_FullName u)) (tb_users d) else tb_users d)
     in map (\<lambda>u. \<lparr>wm_ID = u_ID u, wm_Email = u_Email u, wm_DisplayName = (if u_FullName u = [] then u_Email u else u_FullName u)\<rparr>)
          (take (bounded_limit 20 100 limit) (sort_key (\<lambda>u. (collation L (u_FullName u), collation L (u_Email u))) rows)))"

definition project_tags :: "DB \<Rightarrow> string list" where
  "project_tags d = concat (map (\<lambda>(i, c). case pc_Tags c of None \<Rightarrow> [] | Some ts \<Rightarrow> ts) (tb_project_cols d))"

definition matching_tags :: "string \<Rightarrow> DB \<Rightarrow> string list" where
  "matching_tags prefix d = (let p = strings_ToLower (strings_TrimSpace prefix) in
     if p \<noteq> [] then filter (\<lambda>t. sql_like (p @ ''%'') (strings_ToLower t)) (project_tags d) else project_tags d)"

definition ListTags :: "Lib \<Rightarrow> string \<Rightarrow> int \<Rightarrow> string list op" where
  "ListTags L prefix limit = db_query (\<lambda>d. take (bounded_limit 10 50 limit) (sort_key (collation L) (remdups (matching_tags prefix d))))"

definition CheckSlugAvailable :: "string \<Rightarrow> bool op" where
  "CheckSlugAvailable slug w = (case db_query (\<lambda>d. length (filter (\<lambda>(i, c). pc_Slug c = slug) (tb_project_cols d))) w of
     (Inl e, w) \<Rightarrow> (Inl e, w) | (Inr n, w) \<Rightarrow> (Inr (n = 0), w))"

section \<open>The handlers\<close>

record projectTemplateSLA =
  sla_CriticalDays :: int
  sla_HighDays :: int
  sla_MediumDays :: int

record projectTemplate =
  tpl_ID :: string
  tpl_Key :: string
  tpl_Name :: string
  tpl_IconLabel :: string
  tpl_Description :: string
  tpl_Scanners :: "string list"
  tpl_SLA :: projectTemplateSLA

definition defaultProjectTemplates :: "projectTemplate list" where
  "defaultProjectTemplates =
     [\<lparr>tpl_ID = ''web-api'', tpl_Key = ''web-api'', tpl_Name = ''Web API'', tpl_IconLabel = ''API'',
        tpl_Description = utf8 [83, 65, 83, 84, 32, 43, 32, 68, 65, 83, 84, 32, 43, 32, 83, 67, 65, 32, 43, 32, 83, 101, 99, 114, 101, 116, 115, 46, 32, 83, 76, 65, 58, 32, 99, 114, 105, 116, 105, 99, 97, 108, 32, 55, 1076, 32, 47, 32, 104, 105, 103, 104, 32, 51, 48, 1076, 32, 47, 32, 109, 101, 100, 105, 117, 109, 32, 57, 48, 1076],
        tpl_Scanners = [''SAST'', ''DAST'', ''SCA'', ''Secrets''],
        tpl_SLA = \<lparr>sla_CriticalDays = 7, sla_HighDays = 30, sla_MediumDays = 90\<rparr>\<rparr>,
      \<lparr>tpl_ID = ''mobile'', tpl_Key = ''mobile'', tpl_Name = ''Mobile'', tpl_IconLabel = ''APP'',
        tpl_Description = utf8 [83, 65, 83, 84, 32, 43, 32, 83, 67, 65, 32, 43, 32, 83, 101, 99, 114, 101, 116, 115, 46, 32, 83, 76, 65, 58, 32, 99, 114, 105, 116, 105, 99, 97, 108, 32, 55, 1076, 32, 47, 32, 104, 105, 103, 104, 32, 51, 48, 1076, 32, 47, 32, 109, 101, 100, 105, 117, 109, 32, 57, 48, 1076],
        tpl_Scanners = [''SAST'', ''SCA'', ''Secrets''],
        tpl_SLA = \<lparr>sla_CriticalDays = 7, sla_HighDays = 30, sla_MediumDays = 90\<rparr>\<rparr>,
      \<lparr>tpl_ID = ''iac'', tpl_Key = ''iac'', tpl_Name = ''Infra as Code'', tpl_IconLabel = ''IaC'',
        tpl_Description = utf8 [73, 97, 67, 32, 43, 32, 83, 101, 99, 114, 101, 116, 115, 46, 32, 83, 76, 65, 58, 32, 99, 114, 105, 116, 105, 99, 97, 108, 32, 51, 1076, 32, 47, 32, 104, 105, 103, 104, 32, 49, 52, 1076, 32, 47, 32, 109, 101, 100, 105, 117, 109, 32, 54, 48, 1076],
        tpl_Scanners = [''IaC'', ''Secrets''],
        tpl_SLA = \<lparr>sla_CriticalDays = 3, sla_HighDays = 14, sla_MediumDays = 60\<rparr>\<rparr>,
      \<lparr>tpl_ID = ''library'', tpl_Key = ''library'', tpl_Name = ''Library/SDK'', tpl_IconLabel = ''LIB'',
        tpl_Description = utf8 [83, 67, 65, 32, 43, 32, 83, 65, 83, 84, 32, 43, 32, 83, 101, 99, 114, 101, 116, 115, 46, 32, 83, 76, 65, 58, 32, 99, 114, 105, 116, 105, 99, 97, 108, 32, 55, 1076, 32, 47, 32, 104, 105, 103, 104, 32, 51, 48, 1076, 32, 47, 32, 109, 101, 100, 105, 117, 109, 32, 57, 48, 1076],
        tpl_Scanners = [''SCA'', ''SAST'', ''Secrets''],
        tpl_SLA = \<lparr>sla_CriticalDays = 7, sla_HighDays = 30, sla_MediumDays = 90\<rparr>\<rparr>]"

definition positive_param :: "string \<Rightarrow> int \<Rightarrow> int" where
  "positive_param v fallback = (case strconv_Atoi v of Some n \<Rightarrow> if n > 0 then n else fallback | None \<Rightarrow> fallback)"

definition workspace_failed :: "string \<Rightarrow> response" where
  "workspace_failed what = respondError 500 ''INTERNAL_ERROR'' (''failed to '' @ what)"

definition handleGetWorkspaceMembers :: "Lib \<Rightarrow> (string \<Rightarrow> string) \<Rightarrow> handler" where
  "handleGetWorkspaceMembers L q rq w = (case ListMembers L (strings_TrimSpace (q ''q'')) (positive_param (q ''limit'') 20) w of
     (Inl e, w) \<Rightarrow> (workspace_failed ''list members'', w) | (Inr ms, w) \<Rightarrow> (Response 200 (WorkspaceMembersData ms), w))"

definition handleGetWorkspaceTeams :: "Lib \<Rightarrow> (string \<Rightarrow> string) \<Rightarrow> handler" where
  "handleGetWorkspaceTeams L q rq w = (case ListTeams L (strings_TrimSpace (q ''q'')) (positive_param (q ''limit'') 50) w of
     (Inl e, w) \<Rightarrow> (workspace_failed ''list teams'', w) | (Inr ts, w) \<Rightarrow> (Response 200 (TeamsData ts), w))"

definition handleCreateWorkspaceTeam :: "Team option \<Rightarrow> handler" where
  "handleCreateWorkspaceTeam body rq w = (case body of
     None \<Rightarrow> (respondError 400 ''VALIDATION_ERROR'' ''invalid request body'', w)
   | Some t \<Rightarrow> (case Team_Validate (tm_Name t) of
       Some message \<Rightarrow> (respondError 400 ''VALIDATION_ERROR'' message, w)
     | None \<Rightarrow> (case CreateTeam t w of
         (Inl e, w) \<Rightarrow> (workspace_failed ''create team'', w) | (Inr t, w) \<Rightarrow> (Response 201 (TeamData t), w))))"

definition handleGetWorkspaceTags :: "Lib \<Rightarrow> (string \<Rightarrow> string) \<Rightarrow> handler" where
  "handleGetWorkspaceTags L q rq w = (case ListTags L (strings_TrimSpace (q ''prefix'')) (positive_param (q ''limit'') 10) w of
     (Inl e, w) \<Rightarrow> (workspace_failed ''list tags'', w) | (Inr ts, w) \<Rightarrow> (Response 200 (TagsData ts), w))"

definition handleCheckProjectSlug :: "(string \<Rightarrow> string) \<Rightarrow> handler" where
  "handleCheckProjectSlug q rq w = (let slug = strings_TrimSpace (q ''slug'') in
     if slug = [] then (respondError 400 ''VALIDATION_ERROR'' ''slug is required'', w)
     else case CheckSlugAvailable slug w of
         (Inl e, w) \<Rightarrow> (workspace_failed ''check slug'', w) | (Inr available, w) \<Rightarrow> (Response 200 (SlugData available), w))"

text \<open>The token is not stored, so nothing accepts it: the comment of the source calls it a stub.\<close>

definition handleGetIngestToken :: "string option \<Rightarrow> handler" where
  "handleGetIngestToken bytes rq w = (case rq_Param rq ''id'' of
     None \<Rightarrow> (respondError 400 ''VALIDATION_ERROR'' ''invalid project id'', w)
   | Some _ \<Rightarrow> (case bytes of
       None \<Rightarrow> (workspace_failed ''generate token'', w)
     | Some b \<Rightarrow> (Response 200 (TokenData (base64_EncodeToString b)), w)))"

section \<open>What the workspace shows\<close>

text \<open>An available slug is one an insertion does not refuse as taken.\<close>

lemma slug_available_iff:
  assumes "CheckSlugAvailable slug w = (Inr available, w')"
  shows "available \<longleftrightarrow> (\<forall>p \<in> set (tb_project_cols (w_db w)). pc_Slug (snd p) \<noteq> slug)"
proof -
  let ?q = "\<lambda>d. length (filter (\<lambda>(i, c). pc_Slug c = slug) (tb_project_cols d))"
  obtain x w1 where x: "db_query ?q w = (x, w1)" by fastforce
  then obtain n where n: "x = Inr n" "available = (n = 0)" using assms by (cases x) (simp_all add: CheckSlugAvailable_def)
  have "n = ?q (w_db w)" using db_query_Inr[OF x[unfolded n(1)]] .
  then show ?thesis unfolding n(2) by (simp add: filter_empty_conv case_prod_beta)
qed

text \<open>Tags are listed once, also those of projects the user has no role in.\<close>

lemma tags_listed_once:
  assumes "ListTags L prefix limit w = (Inr tags, w')"
  shows "distinct tags \<and> set tags \<subseteq> set (project_tags (w_db w))"
proof -
  have tags: "tags = take (bounded_limit 10 50 limit) (sort_key (collation L) (remdups (matching_tags prefix (w_db w))))"
    using db_query_Inr[OF assms[unfolded ListTags_def]] .
  have "set tags \<subseteq> set (matching_tags prefix (w_db w))" unfolding tags using set_take_subset by fastforce
  moreover have "set (matching_tags prefix (w_db w)) \<subseteq> set (project_tags (w_db w))" by (auto simp: matching_tags_def Let_def)
  ultimately show ?thesis by (simp add: tags distinct_take)
qed

lemma insert_team_Inr:
  "insert_team t d = Inr (u, d') \<Longrightarrow> tm_ID t \<notin> tm_ID ` set (tb_teams d) \<and> d' = d\<lparr>tb_teams := tb_teams d @ [t]\<rparr>"
  by (simp add: insert_team_def split: if_splits)

text \<open>A request may choose the id of its team.\<close>

lemma team_created:
  assumes "CreateTeam t w = (Inr t', w')"
  shows "tm_ID t' \<notin> tm_ID ` set (tb_teams (w_db w)) \<and> w_db w' = (w_db w)\<lparr>tb_teams := tb_teams (w_db w) @ [t']\<rparr>"
    "tm_ID t \<noteq> uuid_Nil \<Longrightarrow> tm_ID t' = tm_ID t"
proof -
  obtain i w1 where id: "(if tm_ID t = uuid_Nil then uuid_New w else (tm_ID t, w)) = (i, w1)" by fastforce
  have db: "w_db w1 = w_db w" using id by (auto simp: uuid_New_def split: if_splits)
  let ?t = "t\<lparr>tm_ID := i, tm_CreatedAt := w_now w1, tm_UpdatedAt := w_now w1\<rparr>"
  obtain x w2 where run: "db_exec (insert_team ?t) w1 = (x, w2)" by fastforce
  then obtain u where x: "x = Inr u" "t' = ?t" "w' = w2" using assms id by (cases x) (simp_all add: CreateTeam_def Let_def)
  show "tm_ID t' \<notin> tm_ID ` set (tb_teams (w_db w)) \<and> w_db w' = (w_db w)\<lparr>tb_teams := tb_teams (w_db w) @ [t']\<rparr>"
    using insert_team_Inr[OF db_exec_Inr[OF run[unfolded x(1)]]] unfolding x(2,3) db .
  show "tm_ID t \<noteq> uuid_Nil \<Longrightarrow> tm_ID t' = tm_ID t" using id unfolding x(2) by simp
qed

end
