(* ===== verification/Spec2Isabelle.thy ===== *)
theory Spec2Isabelle
  imports Prelude Domain Fingerprint KindResolver Triage Db ClosureReasons FindingsRepo FindingsCorrect
    FindingsPages Access Accounts TriageApi Gates TriageCorrect Members Encoding Auth AuthCorrect LoginLimit
    Scores Sql AuditLog AuditWriter AuditCorrect Admin AdminList AdminCorrect Comments CommentsCorrect
    Json ParserBase SarifFormat Sarif AppScreener ScaReports CodeReports SecretReports SiteReports GenericReport Detector
    Scans ScansCorrect Import ImportCorrect Cvss Osv Cwe NvdCpe EnrichData Enrich EnrichCorrect EnrichPlan Worker Scheduler
    Projects ProjectsList ProjectsApi ProjectsCorrect ProjectsGone ProjectsRules
    EnrichApi FindingsApi FindingsScope SavedViews Workspace Dashboard
begin

text \<open>
  A verification library of Red-Lycoris, a platform that collects the findings of security scanners, removes
  duplicates, enriches them with vulnerability data, and lets teams triage them. The program is the Go
  backend under \<open>src/backend/internal\<close>; all file names below are relative to that directory. Every
  definition is translated from the source; all but the step relations compute, so properties have concrete instances.

  THE PARTS AND HOW THEY INTERACT. A scanner report is uploaded by a pipeline (\<open>api/scans.go\<close>) or a user
  (\<open>api/import.go\<close>); \<open>parser/detect.go\<close> picks one of the parsers, which turns it into findings; each finding
  gets a fingerprint (\<open>domain/dedup.go\<close>) and is stored by \<open>storage/findings_repo.go\<close>, where a known fingerprint
  only counts up. The ids of stored findings go through a Redis stream to the workers
  (\<open>enrichment/worker.go\<close>), which store what the reference tables say of a finding and its priority score; the
  reference tables are filled by synchronisations the scheduler starts. Users read findings (\<open>api/findings.go\<close>),
  change them by triage actions (\<open>api/triage.go\<close>, \<open>domain/triage_action.go\<close>) and discuss them in comments. Every
  request passes the session, role and audit middlewares; administrators manage accounts, members manage
  projects, and the audit writer stores the records of all this in the background.

  STATE. \<open>Db\<close> has the world of a request: the tables as lists of rows, the clock, a supply of ids, the audit
  records handed over, and a schedule of faults. Each call to the database takes one entry of the schedule and
  may fail; a transaction that fails at any statement, its commit included, leaves the tables as they were. A
  property without an assumption on the schedule holds whatever calls fail. An operation has the type
  \<open>'a op\<close>, from a world to an error or value and a world; a handler takes the request as the earlier middlewares
  completed it and gives a response, where \<open>Panic\<close> is a nil dereference that the recovery middleware answers
  with 500. A request runs alone in its world; where the code depends on what happens in between, the
  interleaving is a step relation (audit writer, scheduler, the race of the guard of administrators).

  THE THEORIES, from the bottom.
  \<^item> \<open>Prelude\<close>, \<open>Encoding\<close>, \<open>Json\<close>, \<open>Sql\<close>: what the code uses of Go's \<open>strings\<close>, \<open>strconv\<close>, \<open>encoding\<close> and
    \<open>encoding/json\<close> (decoding into structs, field by field), and the conditions, orders and cursors of queries.
  \<^item> \<open>Domain\<close>, \<open>Fingerprint\<close>, \<open>KindResolver\<close>, \<open>Triage\<close>, \<open>Scores\<close>: the package \<open>domain\<close> with its structs as
    records, the key of deduplication, the kind of a finding, the triage actions, priority, EPSS trend and KEV
    urgency. Lemmas: which findings share a fingerprint, resolution does not depend on the order of a map, every
    action keeps the columns of a closure together, bounds and monotonicity of the score.
  \<^item> \<open>Db\<close>, \<open>ClosureReasons\<close>, \<open>FindingsRepo\<close>, \<open>FindingsCorrect\<close>, \<open>FindingsPages\<close>: the repositories
    \<open>storage/closure_reasons_repo.go\<close>, \<open>findings_repo.go\<close>, \<open>finding_events_repo.go\<close>. Lemmas: fingerprints and ids
    stay unique, an action is applied with its event or not at all, pages by cursor show each row once.
  \<^item> \<open>Access\<close>, \<open>Accounts\<close>, \<open>TriageApi\<close>, \<open>Gates\<close>, \<open>TriageCorrect\<close>, \<open>Members\<close>: roles, middlewares and routes
    (\<open>api/auth_middleware.go\<close>, \<open>router.go\<close>), triage and members. Lemmas: a middleware is a gate that passes a
    request on unchanged or answers it; a route changes only what its user may change.
  \<^item> \<open>FindingsApi\<close>, \<open>FindingsScope\<close>: reading findings (\<open>api/findings.go\<close>, \<open>findings_facets.go\<close>, the groups). Lemmas:
    a non-interference result for users without a role, and what an action on a group finds.
  \<^item> \<open>Auth\<close>, \<open>AuthCorrect\<close>, \<open>LoginLimit\<close>: sessions, API tokens, login and its rate limit (\<open>auth\<close>,
    \<open>api/auth.go\<close>, \<open>session_middleware.go\<close>, \<open>ratelimit.go\<close>). Lemmas: tokens round-trip, who a request is
    authenticated as, what ends sessions, how many passwords can be tried.
  \<^item> \<open>AuditLog\<close>, \<open>AuditWriter\<close>, \<open>AuditCorrect\<close>; \<open>Admin\<close>, \<open>AdminList\<close>, \<open>AdminCorrect\<close>; \<open>Comments\<close>,
    \<open>CommentsCorrect\<close>: the audit log with its writer as a step relation, accounts, comments. Lemmas: no record
    is lost or duplicated, exports are complete, an active administrator remains, the comments shown are those
    a replay of the events gives.
  \<^item> \<open>ParserBase\<close>, \<open>SarifFormat\<close>, \<open>Sarif\<close>, \<open>AppScreener\<close>, \<open>ScaReports\<close>, \<open>CodeReports\<close>, \<open>SecretReports\<close>,
    \<open>SiteReports\<close>, \<open>GenericReport\<close>, \<open>Detector\<close>; \<open>Scans\<close>, \<open>ScansCorrect\<close>, \<open>Import\<close>, \<open>ImportCorrect\<close>: the parsers of
    \<open>parser\<close> from the decoded JSON to findings, and the uploads. Lemmas: every parser keeps its fields in range
    and its fingerprints computed; an upload is stored as a whole or not at all.
  \<^item> \<open>Cvss\<close>, \<open>Osv\<close>, \<open>Cwe\<close>, \<open>NvdCpe\<close>, \<open>EnrichData\<close>, \<open>Enrich\<close>, \<open>EnrichCorrect\<close>, \<open>EnrichPlan\<close>, \<open>Worker\<close>,
    \<open>Scheduler\<close>, \<open>EnrichApi\<close>: vectors, ranges, the tree of weaknesses, CPE verdicts, the enrichment of a finding
    over the reference tables, the workers, the scheduler, the requests. Lemmas: parsing does not depend on the order of
    a vector, the verdict is the range test, enrichment touches one finding and is idempotent, the loops end.
  \<^item> \<open>Projects\<close>, \<open>ProjectsList\<close>, \<open>ProjectsApi\<close>, \<open>ProjectsCorrect\<close>, \<open>ProjectsGone\<close>, \<open>ProjectsRules\<close>:
    \<open>storage/projects_repo.go\<close> and \<open>api/projects.go\<close>. Lemmas: what creating, changing and deleting a project may
    do, what a listing shows.
  \<^item> \<open>SavedViews\<close>, \<open>Workspace\<close>, \<open>Dashboard\<close>: \<open>storage/saved_views_repo.go\<close>, \<open>workspace_repo.go\<close>,
    \<open>dashboard_repo.go\<close> with their handlers. Lemmas: views are private, the figures of the dashboard agree, and it is
    part of the non-interference of \<open>FindingsScope\<close>.

  INTERFACES. Where the code has an interface or one contract for several operations there is a locale, with its
  laws discharged by an interpretation on the model's own definitions in the theory of the provider: operations
  that change nothing when they fail (\<open>atomic_op\<close> in \<open>Db\<close>), listings with a cursor (\<open>keyset\<close> in \<open>Sql\<close>), alphabets
  of encodings (\<open>Encoding\<close>), the lookup of closure reasons and the triage action (\<open>Triage\<close>), middlewares as gates
  and the sources of a project id (\<open>Gates\<close>), triage handlers (\<open>TriageCorrect\<close>), handlers of saved views (\<open>SavedViews\<close>), the counting of administrators
  (\<open>AdminCorrect\<close>), the report parser (\<open>ParserBase\<close>).

  PARAMETERS. Code that is not in the repository is an argument: SHA-256 and argon2id, random bytes, the HTML
  sanitizer, the printer and parser of identifiers, parsing of floats and times, the full-text search and the
  collation of the database, Redis with its stream. What is used of it is a named hypothesis (\<open>good_lib\<close>,
  \<open>redis_ok\<close>, \<open>stream_ok\<close>), met by a concrete function in the witnesses. The order in which Go
  walks through a map and in which the database reads rows without ORDER BY is a parameter as well.

  NUMBERS AND LOOPS. A Go \<open>int\<close> that is only compared or counted is an \<open>int\<close>, with the range checks of
  \<open>strconv\<close>, of the columns and of \<open>time.Duration\<close> written out; identifiers are words of 128 bits; a float is a real
  number, so the model differs from the code by rounding. Text is its list of bytes; case mapping and white space are
  those of ASCII. Loops are recursions on data. The export of the audit log, the recovery of pending messages and the
  enrichment of all findings may run for ever and are partial functions into \<open>option\<close>, for which returning is
  proved (or characterised); the chain of weaknesses has the depth the code gives it.

  NOT MODELLED: the synchronisations themselves (downloads, archives and XML into the reference tables, which are an input here), the
  rendering of exports to CSV, Excel and HTML, the connection pool and the materialized views, configuration, metrics, health checks and request logging, and the command
  line tools and load tests: they hold no state of their own or only move data. The web front end and the
  migrations are in other languages; the constraints of the schema the code relies on are in the tables of \<open>Db\<close>.
\<close>

end
